(* ===== verification/Cyrene_Prelude.thy ===== *)
theory Cyrene_Prelude
  imports Complex_Main "HOL-Library.Char_ord" "HOL-Library.List_Lexorder"
begin

text \<open>
  Shared vocabulary of the development.

  \<^item> \<open>Results.\<close> A Python function that may raise is a function into \<open>'e + 'a\<close>: \<open>Inl\<close> is the
    exception, \<open>Inr\<close> the returned value; \<open>bindE\<close> sequences two of them, \<open>foldE\<close> is a
    \<open>for\<close> loop whose body may raise.
  \<^item> \<open>Text.\<close> A Python \<open>str\<close> is represented by its UTF-8 encoding, a HOL \<open>string\<close> (a list of
    bytes).  \<open>len(s.encode("utf-8"))\<close> is \<open>length s\<close>, \<open>len(s)\<close> is \<open>py_len s\<close> (the bytes that
    start a code point), equality is equality.  Strings with lone surrogates have no UTF-8 form
    and are outside the model.  \<open>bytes\<close> is the same type.
  \<^item> \<open>Numbers.\<close> Python integers are \<open>int\<close>; a Python float is a rational (IEEE rounding is not
    modelled), with the three non-finite values apart (\<open>pyfloat\<close>).
  \<^item> \<open>SQL.\<close> A table is the list of its rows in insertion order; \<open>UPDATE\<close>, \<open>DELETE\<close> and the
    row count of a \<open>WHERE\<close> clause are \<open>sql_update\<close>, \<open>sql_delete\<close> and \<open>sql_count\<close>.
  \<^item> \<open>Runs.\<close> \<open>reach\<close> is the least set of states that holds the start states and is closed under
    a step relation.
\<close>

named_theorems sql_simps \<open>rewriting of SQL table operations\<close>
named_theorems res_simps \<open>rewriting of results that may raise\<close>

section \<open>Results that may raise\<close>

definition bindE :: "'e + 'a \<Rightarrow> ('a \<Rightarrow> 'e + 'b) \<Rightarrow> 'e + 'b" where
  "bindE r f = (case r of Inl e \<Rightarrow> Inl e | Inr x \<Rightarrow> f x)"

text \<open>A guard: \<open>if b: raise e\<close>.\<close>

definition raise_if :: "bool \<Rightarrow> 'e \<Rightarrow> 'e + unit" where
  "raise_if b e = (if b then Inl e else Inr ())"

fun foldE :: "('a \<Rightarrow> 's \<Rightarrow> 'e + 's) \<Rightarrow> 'a list \<Rightarrow> 's \<Rightarrow> 'e + 's" where
  "foldE f [] s = Inr s"
| "foldE f (x # xs) s = bindE (f x s) (foldE f xs)"

text \<open>A comprehension whose element function may raise.\<close>

fun mapE :: "('a \<Rightarrow> 'e + 'b) \<Rightarrow> 'a list \<Rightarrow> 'e + 'b list" where
  "mapE f [] = Inr []"
| "mapE f (x # xs) = bindE (f x) (\<lambda>y. bindE (mapE f xs) (\<lambda>ys. Inr (y # ys)))"

section \<open>Text\<close>

type_synonym bytes = string

abbreviation ord :: "char \<Rightarrow> nat" where
  "ord c \<equiv> of_char c"

definition is_continuation :: "char \<Rightarrow> bool" where
  "is_continuation c \<longleftrightarrow> 128 \<le> ord c \<and> ord c < 192"

definition py_len :: "string \<Rightarrow> nat" where
  "py_len s = length (filter (\<lambda>c. \<not> is_continuation c) s)"

definition isascii :: "char \<Rightarrow> bool" where
  "isascii c \<longleftrightarrow> ord c < 128"

definition is_digit :: "char \<Rightarrow> bool" where
  "is_digit c \<longleftrightarrow> 48 \<le> ord c \<and> ord c \<le> 57"

definition is_upper_ascii :: "char \<Rightarrow> bool" where
  "is_upper_ascii c \<longleftrightarrow> 65 \<le> ord c \<and> ord c \<le> 90"

definition is_lower_ascii :: "char \<Rightarrow> bool" where
  "is_lower_ascii c \<longleftrightarrow> 97 \<le> ord c \<and> ord c \<le> 122"

definition lower_char :: "char \<Rightarrow> char" where
  "lower_char c = (if is_upper_ascii c then char_of (ord c + 32) else c)"

definition upper_char :: "char \<Rightarrow> char" where
  "upper_char c = (if is_lower_ascii c then char_of (ord c - 32) else c)"

text \<open>The length in bytes of the white space character a text starts with, 0 if it starts with
  none: the characters for which Python's \<open>str.isspace\<close> holds, in UTF-8.\<close>

fun space_prefix :: "string \<Rightarrow> nat" where
  "space_prefix [] = 0"
| "space_prefix (a # cs) =
    (let x = ord a in
     if (9 \<le> x \<and> x \<le> 13) \<or> (28 \<le> x \<and> x \<le> 32) then 1
     else (case cs of
        [] \<Rightarrow> 0
      | b # ds \<Rightarrow>
         (let y = ord b in
          if x = 194 \<and> (y = 133 \<or> y = 160) then 2
          else (case ds of
             [] \<Rightarrow> 0
           | c # _ \<Rightarrow>
              (let z = ord c in
               if (x = 225 \<and> y = 154 \<and> z = 128)
                 \<or> (x = 226 \<and> y = 128 \<and> (128 \<le> z \<and> z \<le> 138 \<or> z = 168 \<or> z = 169 \<or> z = 175))
                 \<or> (x = 226 \<and> y = 129 \<and> z = 159)
                 \<or> (x = 227 \<and> y = 128 \<and> z = 128) then 3 else 0)))))"

lemma space_prefix_le: "space_prefix s \<le> length s"
  by (induction s rule: space_prefix.induct) (auto simp: Let_def split: list.splits)

function lstrip :: "string \<Rightarrow> string" where
  "lstrip s = (if space_prefix s = 0 then s else lstrip (drop (space_prefix s) s))"
  by pat_completeness auto
termination
proof (relation "measure length", simp)
  fix s :: string
  assume "space_prefix s \<noteq> 0"
  with space_prefix_le [of s] show "(drop (space_prefix s) s, s) \<in> measure length" by simp
qed

declare lstrip.simps [simp del]

text \<open>The last character is white space when the last one, two or three bytes are its encoding.\<close>

definition space_suffix :: "string \<Rightarrow> nat" where
  "space_suffix s =
    (let ends = (\<lambda>k. k \<le> length s \<and> space_prefix (drop (length s - k) s) = k) in
     if ends 1 then 1 else if ends 2 then 2 else if ends 3 then 3 else 0)"

lemma space_suffix_le: "space_suffix s \<le> length s"
  by (auto simp: space_suffix_def Let_def)

function rstrip :: "string \<Rightarrow> string" where
  "rstrip s = (if space_suffix s = 0 then s else rstrip (take (length s - space_suffix s) s))"
  by pat_completeness auto
termination
proof (relation "measure length", simp)
  fix s :: string
  assume "space_suffix s \<noteq> 0"
  with space_suffix_le [of s]
  show "(take (length s - space_suffix s) s, s) \<in> measure length" by auto
qed

declare rstrip.simps [simp del]

definition strip :: "string \<Rightarrow> string" where
  "strip s = rstrip (lstrip s)"

text \<open>
  \<open>str.casefold\<close>, exact wherever the folded text is compared with an ASCII text: the ASCII letters
  and the eleven other characters whose case folding is ASCII are folded, every other character
  keeps a non-ASCII image (here itself).
\<close>

fun casefold :: "string \<Rightarrow> string" where
  "casefold (a # b # c # cs) =
    (if ord a = 195 \<and> ord b = 159 then ''ss'' @ casefold (c # cs)
     else if ord a = 197 \<and> ord b = 191 then ''s'' @ casefold (c # cs)
     else if ord a = 225 \<and> ord b = 186 \<and> ord c = 158 then ''ss'' @ casefold cs
     else if ord a = 226 \<and> ord b = 132 \<and> ord c = 170 then ''k'' @ casefold cs
     else if ord a = 239 \<and> ord b = 172 \<and> ord c = 128 then ''ff'' @ casefold cs
     else if ord a = 239 \<and> ord b = 172 \<and> ord c = 129 then ''fi'' @ casefold cs
     else if ord a = 239 \<and> ord b = 172 \<and> ord c = 130 then ''fl'' @ casefold cs
     else if ord a = 239 \<and> ord b = 172 \<and> ord c = 131 then ''ffi'' @ casefold cs
     else if ord a = 239 \<and> ord b = 172 \<and> ord c = 132 then ''ffl'' @ casefold cs
     else if ord a = 239 \<and> ord b = 172 \<and> (ord c = 133 \<or> ord c = 134) then ''st'' @ casefold cs
     else lower_char a # casefold (b # c # cs))"
| "casefold [a, b] =
    (if ord a = 195 \<and> ord b = 159 then ''ss''
     else if ord a = 197 \<and> ord b = 191 then ''s''
     else [lower_char a, lower_char b])"
| "casefold [a] = [lower_char a]"
| "casefold [] = []"

text \<open>\<open>s.split(c)\<close>, \<open>sep.join(xs)\<close> and \<open>s.partition(c)\<close> for a one-byte separator; the last returns
  the part before, whether the separator occurs, and the part after.\<close>

fun split_on :: "char \<Rightarrow> string \<Rightarrow> string list" where
  "split_on c [] = [[]]"
| "split_on c (x # xs) =
    (if x = c then [] # split_on c xs
     else (case split_on c xs of [] \<Rightarrow> [[x]] | y # ys \<Rightarrow> (x # y) # ys))"

fun join_with :: "string \<Rightarrow> string list \<Rightarrow> string" where
  "join_with sep [] = []"
| "join_with sep [x] = x"
| "join_with sep (x # y # ys) = x @ sep @ join_with sep (y # ys)"

definition partition_on :: "char \<Rightarrow> string \<Rightarrow> string \<times> bool \<times> string" where
  "partition_on c s = (takeWhile (\<lambda>x. x \<noteq> c) s, c \<in> set s, tl (dropWhile (\<lambda>x. x \<noteq> c) s))"

text \<open>\<open>str(n)\<close> for an integer, and \<open>int(s)\<close>: surrounding white space, one sign and single
  underscores between digits are allowed, anything else is a \<open>ValueError\<close> (\<open>None\<close>).  Only ASCII
  digits are modelled.\<close>

fun str_of_nat :: "nat \<Rightarrow> string" where
  "str_of_nat n =
    (if n < 10 then [char_of (48 + n)] else str_of_nat (n div 10) @ [char_of (48 + n mod 10)])"

declare str_of_nat.simps [simp del]

definition str_of_int :: "int \<Rightarrow> string" where
  "str_of_int i = (if i < 0 then CHR ''-'' # str_of_nat (nat (- i)) else str_of_nat (nat i))"

fun digits_value :: "nat \<Rightarrow> string \<Rightarrow> nat option" where
  "digits_value n [] = Some n"
| "digits_value n (c # cs) =
    (if is_digit c then digits_value (10 * n + (ord c - 48)) cs
     else if c = CHR ''_'' \<and> cs \<noteq> [] \<and> is_digit (hd cs) then digits_value n cs
     else None)"

definition nat_of_digits :: "string \<Rightarrow> nat option" where
  "nat_of_digits s = (case s of [] \<Rightarrow> None | c # _ \<Rightarrow> if is_digit c then digits_value 0 s else None)"

definition int_of_str :: "string \<Rightarrow> int option" where
  "int_of_str s0 =
    (case strip s0 of
       [] \<Rightarrow> None
     | c # cs \<Rightarrow>
        if c = CHR ''-'' then map_option (\<lambda>n. - int n) (nat_of_digits cs)
        else if c = CHR ''+'' then map_option int (nat_of_digits cs)
        else map_option int (nat_of_digits (c # cs)))"

datatype pyfloat = Fin rat | PosInf | NegInf | NaN

text \<open>\<open>float(s)\<close>: a decimal numeral with an optional fraction and exponent, or a name of a
  non-finite value, in any letter case; \<open>None\<close> is the \<open>ValueError\<close>.  The value is exact.\<close>

definition digits_or_none :: "string \<Rightarrow> nat option" where
  "digits_or_none s = (if s = [] then Some 0 else nat_of_digits s)"

definition decimal_of_str :: "string \<Rightarrow> rat option" where
  "decimal_of_str s =
    (case partition_on CHR ''.'' s of
       (whole, _, fraction) \<Rightarrow>
         if whole = [] \<and> fraction = [] then None
         else (case (digits_or_none whole, digits_or_none fraction) of
            (Some n, Some f) \<Rightarrow> Some (of_nat n + of_nat f / 10 ^ length (filter is_digit fraction))
          | _ \<Rightarrow> None))"

definition unsigned_float :: "string \<Rightarrow> pyfloat option" where
  "unsigned_float s =
    (if s \<in> {''inf'', ''infinity''} then Some PosInf
     else if s = ''nan'' then Some NaN
     else (case partition_on CHR ''e'' s of
        (mantissa, has_exponent, expo) \<Rightarrow>
          (case decimal_of_str mantissa of
             None \<Rightarrow> None
           | Some q \<Rightarrow>
              if \<not> has_exponent then Some (Fin q)
              else (case expo of
                 [] \<Rightarrow> None
               | c # cs \<Rightarrow>
                  (if c = CHR ''-'' then map_option (\<lambda>n. Fin (q / 10 ^ n)) (nat_of_digits cs)
                   else if c = CHR ''+'' then map_option (\<lambda>n. Fin (q * 10 ^ n)) (nat_of_digits cs)
                   else map_option (\<lambda>n. Fin (q * 10 ^ n)) (nat_of_digits (c # cs)))))))"

fun neg_float :: "pyfloat \<Rightarrow> pyfloat" where
  "neg_float (Fin q) = Fin (- q)"
| "neg_float PosInf = NegInf"
| "neg_float NegInf = PosInf"
| "neg_float NaN = NaN"

definition float_of_str :: "string \<Rightarrow> pyfloat option" where
  "float_of_str s0 =
    (case map lower_char (strip s0) of
       [] \<Rightarrow> None
     | c # cs \<Rightarrow>
        if c = CHR ''-'' then map_option neg_float (unsigned_float cs)
        else if c = CHR ''+'' then unsigned_float cs
        else unsigned_float (c # cs))"

section \<open>JSON values\<close>

datatype pyval =
    PNone
  | PBool bool
  | PInt int
  | PFloat pyfloat
  | PStr string
  | PList "pyval list"
  | PDict "(string \<times> pyval) list"

type_synonym pydict = "(string \<times> pyval) list"

text \<open>A dict is the list of its items in insertion order; \<open>dict_set\<close> is \<open>d[k] = v\<close>.\<close>

definition dict_get :: "pydict \<Rightarrow> string \<Rightarrow> pyval" where
  "dict_get d k = (case map_of d k of None \<Rightarrow> PNone | Some v \<Rightarrow> v)"

definition dict_has :: "pydict \<Rightarrow> string \<Rightarrow> bool" where
  "dict_has d k \<longleftrightarrow> k \<in> fst ` set d"

fun dict_set :: "pydict \<Rightarrow> string \<Rightarrow> pyval \<Rightarrow> pydict" where
  "dict_set [] k v = [(k, v)]"
| "dict_set ((a, b) # d) k v = (if a = k then (a, v) # d else (a, b) # dict_set d k v)"

definition same_keys :: "pydict \<Rightarrow> string list \<Rightarrow> bool" where
  "same_keys d ks \<longleftrightarrow> set (map fst d) = set ks"

fun truthy :: "pyval \<Rightarrow> bool" where
  "truthy PNone = False"
| "truthy (PBool b) = b"
| "truthy (PInt i) = (i \<noteq> 0)"
| "truthy (PFloat f) = (f \<noteq> Fin 0)"
| "truthy (PStr s) = (s \<noteq> [])"
| "truthy (PList xs) = (xs \<noteq> [])"
| "truthy (PDict d) = (d \<noteq> [])"

text \<open>The JSON encoding of a text and of a list of texts, as
  \<open>json.dumps(x, ensure_ascii=False, separators=(",", ":"))\<close> writes them.\<close>

definition hex_digit :: "nat \<Rightarrow> char" where
  "hex_digit n = (if n < 10 then char_of (48 + n) else char_of (87 + n))"

definition json_escapes :: "(nat \<times> char) list" where
  "json_escapes =
    [(34, CHR 0x22), (92, CHR 0x5C), (8, CHR ''b''), (9, CHR ''t''), (10, CHR ''n''),
     (12, CHR ''f''), (13, CHR ''r'')]"

definition json_char :: "char \<Rightarrow> string" where
  "json_char c =
    (case map_of json_escapes (ord c) of
       Some e \<Rightarrow> [CHR 0x5C, e]
     | None \<Rightarrow>
        if ord c < 32
        then [CHR 0x5C, CHR ''u'', CHR ''0'', CHR ''0'', hex_digit (ord c div 16), hex_digit (ord c mod 16)]
        else [c])"

definition json_string :: "string \<Rightarrow> string" where
  "json_string s = [CHR 0x22] @ concat (map json_char s) @ [CHR 0x22]"

definition json_string_list :: "string list \<Rightarrow> string" where
  "json_string_list xs = ''['' @ join_with '','' (map json_string xs) @ '']''"

text \<open>\<open>json.dumps(v, ensure_ascii=False, separators=(",", ":"), sort_keys=srt)\<close>.  Keys sort by
  code point, which is the byte order of their UTF-8 form.  The decimal form of a finite float is
  the parameter \<open>frepr\<close>.\<close>

fun json_dumps :: "(rat \<Rightarrow> string) \<Rightarrow> bool \<Rightarrow> pyval \<Rightarrow> string" where
  "json_dumps frepr srt PNone = ''null''"
| "json_dumps frepr srt (PBool b) = (if b then ''true'' else ''false'')"
| "json_dumps frepr srt (PInt i) = str_of_int i"
| "json_dumps frepr srt (PFloat (Fin q)) = frepr q"
| "json_dumps frepr srt (PFloat PosInf) = ''Infinity''"
| "json_dumps frepr srt (PFloat NegInf) = ''-Infinity''"
| "json_dumps frepr srt (PFloat NaN) = ''NaN''"
| "json_dumps frepr srt (PStr s) = json_string s"
| "json_dumps frepr srt (PList xs) = ''['' @ join_with '','' (map (json_dumps frepr srt) xs) @ '']''"
| "json_dumps frepr srt (PDict d) =
    (let items = map (\<lambda>(k, v). (k, json_dumps frepr srt v)) d in
     ''{'' @ join_with '','' (map (\<lambda>(k, t). json_string k @ '':'' @ t)
                              (if srt then sort_key fst items else items)) @ ''}'')"

section \<open>SQL tables\<close>

definition sql_update :: "('r \<Rightarrow> bool) \<Rightarrow> ('r \<Rightarrow> 'r) \<Rightarrow> 'r list \<Rightarrow> 'r list" where
  "sql_update P f t = map (\<lambda>r. if P r then f r else r) t"

definition sql_delete :: "('r \<Rightarrow> bool) \<Rightarrow> 'r list \<Rightarrow> 'r list" where
  "sql_delete P t = filter (\<lambda>r. \<not> P r) t"

definition sql_count :: "('r \<Rightarrow> bool) \<Rightarrow> 'r list \<Rightarrow> nat" where
  "sql_count P t = length (filter P t)"

abbreviation sql_first :: "('r \<Rightarrow> bool) \<Rightarrow> 'r list \<Rightarrow> 'r option" where
  "sql_first P t \<equiv> find P t"

text \<open>An \<open>UPDATE\<close> on a table with \<open>CHECK\<close> constraints: an integrity error (\<open>None\<close>) when a
  changed row violates them.\<close>

definition sql_update_checked ::
    "('r \<Rightarrow> bool) \<Rightarrow> ('r \<Rightarrow> bool) \<Rightarrow> ('r \<Rightarrow> 'r) \<Rightarrow> 'r list \<Rightarrow> ('r list \<times> nat) option" where
  "sql_update_checked ok P f t =
    (if list_all ok (map f (filter P t)) then Some (sql_update P f t, sql_count P t) else None)"

text \<open>\<open>MIN\<close> and \<open>MAX\<close> over a list of non-null values, \<open>NULL\<close> (\<open>None\<close>) when it is empty.\<close>

fun sql_min :: "'a::linorder list \<Rightarrow> 'a option" where
  "sql_min [] = None"
| "sql_min (x # xs) = (case sql_min xs of None \<Rightarrow> Some x | Some y \<Rightarrow> Some (min x y))"

fun sql_max :: "'a::linorder list \<Rightarrow> 'a option" where
  "sql_max [] = None"
| "sql_max (x # xs) = (case sql_max xs of None \<Rightarrow> Some x | Some y \<Rightarrow> Some (max x y))"

section \<open>Runs of a step relation\<close>

inductive reach :: "('s \<Rightarrow> bool) \<Rightarrow> ('s \<Rightarrow> 's \<Rightarrow> bool) \<Rightarrow> 's \<Rightarrow> bool"
  for init :: "'s \<Rightarrow> bool" and step :: "'s \<Rightarrow> 's \<Rightarrow> bool" where
  reach_init: "init s \<Longrightarrow> reach init step s"
| reach_step: "reach init step s \<Longrightarrow> step s t \<Longrightarrow> reach init step t"


section \<open>Lemmas\<close>

subsection \<open>Results\<close>

lemma bindE_simps [simp, res_simps]:
  "bindE (Inl e) f = Inl e"
  "bindE (Inr x) f = f x"
  by (simp_all add: bindE_def)

lemma bindE_eq_Inr [res_simps]: "bindE r f = Inr y \<longleftrightarrow> (\<exists>x. r = Inr x \<and> f x = Inr y)"
  by (cases r) auto

lemma bindE_eq_Inl [res_simps]:
  "bindE r f = Inl e \<longleftrightarrow> r = Inl e \<or> (\<exists>x. r = Inr x \<and> f x = Inl e)"
  by (cases r) auto

lemma raise_if_eq [simp, res_simps]:
  "raise_if b e = Inr u \<longleftrightarrow> \<not> b"
  "raise_if b e = Inl e' \<longleftrightarrow> b \<and> e' = e"
  by (auto simp: raise_if_def)

lemma raise_if_simps [simp]: "raise_if True e = Inl e" "raise_if False e = Inr ()"
  by (simp_all add: raise_if_def)

lemma foldE_invariant:
  assumes "foldE f xs s = Inr t" and "I s"
    and "\<And>x s s'. x \<in> set xs \<Longrightarrow> I s \<Longrightarrow> f x s = Inr s' \<Longrightarrow> I s'"
  shows "I t"
  using assms
proof (induction xs arbitrary: s)
  case (Cons x xs)
  from Cons.prems(1) obtain s' where s': "f x s = Inr s'" "foldE f xs s' = Inr t"
    by (auto simp: bindE_eq_Inr)
  with Cons.prems have "I s'" by auto
  with s' Cons.prems(3) show ?case by (auto intro: Cons.IH)
qed simp

subsection \<open>Split texts\<close>

lemma split_on_nonempty [simp]: "split_on c s \<noteq> []"
  by (cases s) (auto split: list.splits)

lemma split_on_append: "split_on c (xs @ c # ys) = split_on c xs @ split_on c ys"
  by (induction xs) (auto split: list.splits)

lemma split_on_no_sep: "c \<notin> set s \<Longrightarrow> split_on c s = [s]"
  by (induction s) auto

lemma split_on_set: "l \<in> set (split_on c s) \<Longrightarrow> set l \<subseteq> set s - {c}"
  by (induction s arbitrary: l) (fastforce split: if_splits list.splits)+

subsection \<open>Decimal numbers\<close>

lemma ord_char_of_small [simp]: "n < 256 \<Longrightarrow> ord (char_of (n :: nat)) = n"
  by simp

lemma is_digit_char_of: "n < 10 \<Longrightarrow> is_digit (char_of (48 + n :: nat))"
  by (simp add: is_digit_def)

lemma str_of_nat_digits: "\<forall>c \<in> set (str_of_nat n). is_digit c"
proof (induction n rule: str_of_nat.induct)
  case (1 n)
  then show ?case
    by (subst str_of_nat.simps) (auto simp: is_digit_char_of)
qed

lemma str_of_nat_nonempty [simp]: "str_of_nat n \<noteq> []"
  by (subst str_of_nat.simps) simp

lemma digits_value_append:
  "\<forall>c \<in> set xs. is_digit c \<Longrightarrow>
   digits_value n (xs @ ys) = digits_value (the (digits_value n xs)) ys"
  by (induction xs arbitrary: n) auto

lemma digits_value_all_digits:
  "\<forall>c \<in> set xs. is_digit c \<Longrightarrow> \<exists>m. digits_value n xs = Some m"
  by (induction xs arbitrary: n) auto

lemma digits_value_str_of_nat: "digits_value 0 (str_of_nat n) = Some n"
proof (induction n rule: str_of_nat.induct)
  case (1 n)
  show ?case
  proof (cases "n < 10")
    case True
    then show ?thesis
      by (simp add: str_of_nat.simps [of n] is_digit_char_of)
  next
    case False
    with 1 have "digits_value 0 (str_of_nat (n div 10)) = Some (n div 10)" by simp
    with False show ?thesis
      by (simp add: str_of_nat.simps [of n] digits_value_append str_of_nat_digits is_digit_char_of)
  qed
qed

lemma nat_of_digits_str_of_nat [simp]: "nat_of_digits (str_of_nat n) = Some n"
proof -
  obtain c cs where c: "str_of_nat n = c # cs"
    by (cases "str_of_nat n") auto
  with str_of_nat_digits [of n] have "is_digit c" by simp
  with c digits_value_str_of_nat [of n] show ?thesis
    by (simp add: nat_of_digits_def)
qed

lemma space_prefix_no_space:
  "32 < ord c \<Longrightarrow> ord c < 128 \<Longrightarrow> space_prefix (c # cs) = 0"
  by (auto simp: Let_def split: list.splits)

lemma space_suffix_no_space:
  assumes "32 < ord c" "ord c < 128"
  shows "space_suffix (cs @ [c]) = 0"
proof -
  have drops: "drop (Suc (length cs) - k) (cs @ [c]) = drop (length cs - (k - 1)) cs @ [c]"
    if "k \<ge> 1" for k
    using that by (cases k) auto
  have three: "space_prefix (xs @ [c]) = k \<Longrightarrow> length xs + 1 = k \<Longrightarrow> k = 0" for xs k
    using assms by (cases xs rule: space_prefix.cases)
      (auto simp: Let_def length_Suc_conv split: list.splits if_splits)
  show ?thesis
    unfolding space_suffix_def Let_def
    using three [of "[]" 1] three [of "drop (length cs - 1) cs" 2] three [of "drop (length cs - 2) cs" 3]
    by (auto simp: drops)
qed

lemma strip_no_space:
  assumes "s \<noteq> []" "32 < ord (hd s)" "ord (hd s) < 128" "32 < ord (last s)" "ord (last s) < 128"
  shows "strip s = s"
proof -
  from assms have "space_prefix s = 0"
    by (cases s) (simp_all add: space_prefix_no_space del: space_prefix.simps)
  moreover from assms have "space_suffix s = 0"
    using space_suffix_no_space [of "last s" "butlast s"] by simp
  ultimately show ?thesis
    by (simp add: strip_def lstrip.simps [of s] rstrip.simps [of s])
qed

lemma is_digit_bounds: "is_digit c \<Longrightarrow> 32 < ord c \<and> ord c < 128"
  by (simp add: is_digit_def)

lemma strip_str_of_int [simp]: "strip (str_of_int i) = str_of_int i"
proof (rule strip_no_space)
  let ?d = "str_of_nat (nat \<bar>i\<bar>)"
  have dig: "is_digit (hd ?d)" "is_digit (last ?d)"
    using str_of_nat_digits [of "nat \<bar>i\<bar>"] by (auto simp: hd_in_set last_in_set)
  show "str_of_int i \<noteq> []" by (simp add: str_of_int_def)
  show "32 < ord (hd (str_of_int i))" "ord (hd (str_of_int i)) < 128"
    "32 < ord (last (str_of_int i))" "ord (last (str_of_int i)) < 128"
    using is_digit_bounds [OF dig(1)] is_digit_bounds [OF dig(2)]
    by (auto simp: str_of_int_def)
qed

text \<open>Printing an integer and reading it back.\<close>

lemma int_of_str_str_of_int [simp]: "int_of_str (str_of_int i) = Some i"
proof (cases "i < 0")
  case True
  then show ?thesis
    unfolding int_of_str_def strip_str_of_int by (simp add: str_of_int_def)
next
  case False
  obtain c cs where c: "str_of_nat (nat i) = c # cs"
    by (cases "str_of_nat (nat i)") auto
  with str_of_nat_digits [of "nat i"] have "is_digit c" by simp
  then have "c \<noteq> CHR ''-''" "c \<noteq> CHR ''+''" by (auto simp: is_digit_def)
  with False c nat_of_digits_str_of_nat [of "nat i"] show ?thesis
    unfolding int_of_str_def strip_str_of_int by (simp add: str_of_int_def)
qed

lemma str_of_int_inj: "str_of_int i = str_of_int j \<longleftrightarrow> i = j"
  by (metis int_of_str_str_of_int option.inject)


subsection \<open>JSON texts\<close>

lemma hex_digit_inj: "m < 16 \<Longrightarrow> n < 16 \<Longrightarrow> hex_digit m = hex_digit n \<longleftrightarrow> m = n"
proof
  assume b: "m < 16" "n < 16" and "hex_digit m = hex_digit n"
  then have "ord (hex_digit m) = ord (hex_digit n)" by simp
  with b show "m = n" by (auto simp: hex_digit_def split: if_splits)
qed simp

lemma ord_eq_iff: "ord c = ord d \<longleftrightarrow> c = d"
  by simp

text \<open>What is left of an encoded text determines its next character: the encodings of characters
  are prefix-free, and none starts with the closing quote.\<close>

lemma json_escapes_inj:
  "map_of json_escapes x = Some e \<Longrightarrow> map_of json_escapes y = Some e \<Longrightarrow> x = y"
  by (auto simp: json_escapes_def split: if_splits)

lemma json_escapes_no_u: "map_of json_escapes x \<noteq> Some CHR ''u''"
  by (simp add: json_escapes_def)

lemma json_escapes_plain: "map_of json_escapes x = None \<Longrightarrow> x \<noteq> 34 \<and> x \<noteq> 92"
  by (auto simp: json_escapes_def)

lemma hex_pair_inj:
  assumes "a < 32" "b < 32" "hex_digit (a div 16) = hex_digit (b div 16)"
    "hex_digit (a mod 16) = hex_digit (b mod 16)"
  shows "a = b"
proof -
  from assms have "a div 16 = b div 16" "a mod 16 = b mod 16"
    by (simp_all add: hex_digit_inj)
  then show ?thesis by (metis div_mult_mod_eq)
qed

lemma json_char_plain:
  assumes "map_of json_escapes (ord c) = None"
  shows "c \<noteq> CHR 0x22 \<and> c \<noteq> CHR 0x5C"
  using json_escapes_plain [OF assms] by auto

lemma json_char_prefix_free:
  assumes eq: "json_char c @ xs = json_char d @ ys"
  shows "c = d \<and> xs = ys"
proof (cases "map_of json_escapes (ord c)")
  case None
  then show ?thesis
  proof (cases "map_of json_escapes (ord d)")
    case None
    with \<open>map_of json_escapes (ord c) = None\<close> eq show ?thesis
      using json_char_plain [of c] json_char_plain [of d]
      by (auto simp: json_char_def ord_eq_iff dest: hex_pair_inj split: if_splits)
  next
    case (Some e)
    with None eq show ?thesis
      using json_char_plain [of c] json_escapes_no_u [of "ord d"]
      by (auto simp: json_char_def split: if_splits)
  qed
next
  case (Some e)
  then show ?thesis
  proof (cases "map_of json_escapes (ord d)")
    case None
    with Some eq show ?thesis
      using json_char_plain [of d] json_escapes_no_u [of "ord c"]
      by (auto simp: json_char_def split: if_splits)
  next
    case (Some e')
    with \<open>map_of json_escapes (ord c) = Some e\<close> eq show ?thesis
      using json_escapes_inj [of "ord c" e "ord d"] by (auto simp: json_char_def)
  qed
qed

lemma json_char_no_quote: "json_char c @ xs \<noteq> CHR 0x22 # ys"
  using json_char_plain [of c]
  by (auto simp: json_char_def split: option.splits if_splits)

lemma json_chars_prefix_free:
  assumes "concat (map json_char s) @ CHR 0x22 # xs = concat (map json_char t) @ CHR 0x22 # ys"
  shows "s = t \<and> xs = ys"
  using assms
proof (induction s arbitrary: t)
  case Nil
  then show ?case
    using json_char_no_quote by (cases t) (auto dest: sym)
next
  case (Cons c s)
  show ?case
  proof (cases t)
    case Nil
    with Cons.prems show ?thesis using json_char_no_quote by auto
  next
    case (Cons d t')
    with Cons.prems have "json_char c @ concat (map json_char s) @ CHR 0x22 # xs
        = json_char d @ concat (map json_char t') @ CHR 0x22 # ys" by simp
    from json_char_prefix_free [OF this] Cons.IH [of t'] Cons show ?thesis by auto
  qed
qed

lemma json_string_prefix_free: "json_string s @ xs = json_string t @ ys \<Longrightarrow> s = t \<and> xs = ys"
  using json_chars_prefix_free [of s xs t ys] by (simp add: json_string_def)

lemma json_string_nonempty [simp]: "json_string s \<noteq> []"
  by (simp add: json_string_def)

text \<open>The tail of an encoded list: each further text after a comma, then the bracket.\<close>

fun json_tail :: "string list \<Rightarrow> string" where
  "json_tail [] = '']''"
| "json_tail (x # xs) = CHR '','' # json_string x @ json_tail xs"

lemma json_join_tail:
  "join_with '','' (map json_string (x # xs)) @ '']'' = json_string x @ json_tail xs"
  by (induction xs arbitrary: x) auto

lemma json_tail_inj: "json_tail xs = json_tail ys \<Longrightarrow> xs = ys"
proof (induction xs arbitrary: ys)
  case Nil
  then show ?case by (cases ys) auto
next
  case (Cons x xs)
  then show ?case by (cases ys) (auto dest: json_string_prefix_free)
qed

lemma json_string_no_bracket: "json_string x @ xs \<noteq> '']''"
  by (simp add: json_string_def)

lemma json_join_prefix_free:
  assumes eq: "join_with '','' (map json_string xs) @ '']'' = join_with '','' (map json_string ys) @ '']''"
  shows "xs = ys"
proof (cases xs; cases ys)
  fix x xs' y ys'
  assume s: "xs = x # xs'" "ys = y # ys'"
  with eq have "json_string x @ json_tail xs' = json_string y @ json_tail ys'"
    by (simp only: json_join_tail)
  with s show ?thesis by (auto dest: json_string_prefix_free json_tail_inj)
next
  fix x xs'
  assume s: "xs = x # xs'" "ys = []"
  with eq have "json_string x @ json_tail xs' = '']''"
    using json_join_tail [of x xs'] by simp
  then show ?thesis by (simp add: json_string_no_bracket)
next
  fix y ys'
  assume s: "xs = []" "ys = y # ys'"
  with eq have "json_string y @ json_tail ys' = '']''"
    using json_join_tail [of y ys'] by simp
  then show ?thesis by (simp add: json_string_no_bracket)
qed simp

text \<open>Distinct lists of texts have distinct encodings.\<close>

lemma json_string_list_inj: "json_string_list xs = json_string_list ys \<longleftrightarrow> xs = ys"
  using json_join_prefix_free [of xs ys] by (auto simp: json_string_list_def)


lemma json_dumps_nonempty [simp]: "json_dumps frepr srt (PDict d) \<noteq> []"
  by (simp add: Let_def)

subsection \<open>SQL tables\<close>

lemma length_sql_update [simp, sql_simps]: "length (sql_update P f t) = length t"
  by (simp add: sql_update_def)

lemma set_sql_update: "set (sql_update P f t) = (\<lambda>r. if P r then f r else r) ` set t"
  by (simp add: sql_update_def)

lemma sql_updateE:
  assumes "r \<in> set (sql_update P f t)"
  obtains (old) "r \<in> set t" "\<not> P r" | (new) r0 where "r0 \<in> set t" "P r0" "r = f r0"
  using assms by (auto simp: sql_update_def)

lemma map_sql_update [sql_simps]: "(\<And>r. g (f r) = g r) \<Longrightarrow> map g (sql_update P f t) = map g t"
  by (simp add: sql_update_def)

lemma set_sql_delete [simp, sql_simps]: "set (sql_delete P t) = {r \<in> set t. \<not> P r}"
  by (auto simp: sql_delete_def)

lemma length_sql_delete: "length (sql_delete P t) \<le> length t"
  by (simp add: sql_delete_def)

lemma sql_delete_nothing: "sql_count P t = 0 \<Longrightarrow> sql_delete P t = t"
  by (auto simp: sql_count_def sql_delete_def filter_empty_conv)

lemma sql_update_nothing: "sql_count P t = 0 \<Longrightarrow> sql_update P f t = t"
  by (auto simp: sql_count_def sql_update_def filter_empty_conv intro: map_idI)

lemma distinct_map_filterI: "distinct (map k t) \<Longrightarrow> distinct (map k (filter P t))"
  by (induction t) auto

lemma distinct_sql_delete: "distinct (map k t) \<Longrightarrow> distinct (map k (sql_delete P t))"
  by (simp add: sql_delete_def distinct_map_filterI)

lemma sorted_wrt_sql_delete: "sorted_wrt R (map k t) \<Longrightarrow> sorted_wrt R (map k (sql_delete P t))"
  by (induction t) (auto simp: sql_delete_def)

text \<open>With a unique key, a row is found by its key, and at most one row has it.\<close>

lemma find_Some_in: "find P t = Some r \<Longrightarrow> r \<in> set t \<and> P r"
  by (metis find_Some_iff nth_mem)

lemma distinct_key_eq:
  "distinct (map k t) \<Longrightarrow> r \<in> set t \<Longrightarrow> r' \<in> set t \<Longrightarrow> k r = k r' \<Longrightarrow> r = r'"
  by (auto simp: distinct_map inj_on_def)

lemma find_key:
  assumes "distinct (map k t)" "r \<in> set t"
  shows "find (\<lambda>r'. k r' = k r) t = Some r"
  using assms by (induction t) force+

lemma find_key_None: "find (\<lambda>r. k r = x) t = None \<longleftrightarrow> x \<notin> k ` set t"
  by (auto simp: find_None_iff)

lemma sql_count_key_le:
  assumes "distinct (map k t)" "\<And>r. P r \<Longrightarrow> k r = x"
  shows "sql_count P t \<le> 1"
proof -
  have "distinct (map k (filter P t))" using assms(1) by (rule distinct_map_filterI)
  moreover have "set (map k (filter P t)) \<subseteq> {x}" using assms(2) by auto
  ultimately have "length (map k (filter P t)) \<le> 1"
    by (metis distinct_card card_mono finite.emptyI finite_insert card.empty card_insert_disjoint
        One_nat_def empty_iff)
  then show ?thesis by (simp add: sql_count_def)
qed

lemma sql_count_pos: "0 < sql_count P t \<longleftrightarrow> (\<exists>r \<in> set t. P r)"
  by (auto simp: sql_count_def filter_empty_conv)

lemma sql_count_zero: "sql_count P t = 0 \<longleftrightarrow> (\<forall>r \<in> set t. \<not> P r)"
  by (auto simp: sql_count_def filter_empty_conv)

lemma sql_update_checked_Some:
  "sql_update_checked ok P f t = Some (t', n) \<longleftrightarrow>
   (\<forall>r \<in> set t. P r \<longrightarrow> ok (f r)) \<and> t' = sql_update P f t \<and> n = sql_count P t"
  by (auto simp: sql_update_checked_def list_all_iff)

lemma sql_update_checked_ok:
  "(\<And>r. r \<in> set t \<Longrightarrow> P r \<Longrightarrow> ok (f r)) \<Longrightarrow>
   sql_update_checked ok P f t = Some (sql_update P f t, sql_count P t)"
  by (auto simp: sql_update_checked_def list_all_iff)

lemma sql_min_eq_None [simp]: "sql_min xs = None \<longleftrightarrow> xs = []"
  by (cases xs) (auto split: option.splits)

lemma sql_min_Some: "sql_min xs = Some m \<longleftrightarrow> m \<in> set xs \<and> (\<forall>x \<in> set xs. m \<le> x)"
proof (induction xs arbitrary: m)
  case (Cons x xs)
  show ?case
  proof (cases "sql_min xs")
    case (Some y)
    with Cons.IH [of y] have y: "y \<in> set xs" "\<forall>z \<in> set xs. y \<le> z" by auto
    with Some show ?thesis by (fastforce simp: min_def)
  qed auto
qed simp

subsection \<open>Runs\<close>

lemma reach_invariant:
  assumes "reach init step s"
    and "\<And>s. init s \<Longrightarrow> I s"
    and "\<And>s t. I s \<Longrightarrow> step s t \<Longrightarrow> I t"
  shows "I s"
  using assms(1) by (induction rule: reach.induct) (auto intro: assms)

lemma apfst_eq_Pair: "apfst f p = (a, b) \<longleftrightarrow> (\<exists>x. p = (x, b) \<and> a = f x)"
  by (cases p) auto

lemma dict_get_simps [simp]:
  "dict_get [] k = PNone"
  "dict_get ((a, v) # d) k = (if a = k then v else dict_get d k)"
  by (simp_all add: dict_get_def)

lemma sort_key_sorted: "sort_key f (sort_key f xs) = sort_key f xs"
  by (rule sort_key_id_if_sorted) simp

end
