(* ===== verification/Sha256.thy ===== *)
theory Sha256
  imports Cyrene_Prelude "HOL-Library.Word"
begin

unbundle bit_operations_syntax

text \<open>
  SHA-256 and HMAC-SHA256 (\<open>hashlib.sha256(b).hexdigest()\<close> and
  \<open>hmac.new(key, msg, hashlib.sha256).hexdigest()\<close>), which the program uses for every stored
  identity.  The functions are executable; the lemmas the components rely on are about the shape
  of a digest: 64 lower-case hexadecimal digits.  Collision freedom is nowhere assumed of all
  inputs; where a property needs it, it is a hypothesis about the two messages compared.
\<close>

type_synonym w32 = "32 word"

definition sha_k :: "w32 list" where
  "sha_k = [0x428A2F98, 0x71374491, 0xB5C0FBCF, 0xE9B5DBA5,
     0x3956C25B, 0x59F111F1, 0x923F82A4, 0xAB1C5ED5,
     0xD807AA98, 0x12835B01, 0x243185BE, 0x550C7DC3,
     0x72BE5D74, 0x80DEB1FE, 0x9BDC06A7, 0xC19BF174,
     0xE49B69C1, 0xEFBE4786, 0x0FC19DC6, 0x240CA1CC,
     0x2DE92C6F, 0x4A7484AA, 0x5CB0A9DC, 0x76F988DA,
     0x983E5152, 0xA831C66D, 0xB00327C8, 0xBF597FC7,
     0xC6E00BF3, 0xD5A79147, 0x06CA6351, 0x14292967,
     0x27B70A85, 0x2E1B2138, 0x4D2C6DFC, 0x53380D13,
     0x650A7354, 0x766A0ABB, 0x81C2C92E, 0x92722C85,
     0xA2BFE8A1, 0xA81A664B, 0xC24B8B70, 0xC76C51A3,
     0xD192E819, 0xD6990624, 0xF40E3585, 0x106AA070,
     0x19A4C116, 0x1E376C08, 0x2748774C, 0x34B0BCB5,
     0x391C0CB3, 0x4ED8AA4A, 0x5B9CCA4F, 0x682E6FF3,
     0x748F82EE, 0x78A5636F, 0x84C87814, 0x8CC70208,
     0x90BEFFFA, 0xA4506CEB, 0xBEF9A3F7, 0xC67178F2]"

definition sha_init :: "w32 list" where
  "sha_init = [0x6A09E667, 0xBB67AE85, 0x3C6EF372, 0xA54FF53A,
     0x510E527F, 0x9B05688C, 0x1F83D9AB, 0x5BE0CD19]"

definition big_sigma0 :: "w32 \<Rightarrow> w32" where
  "big_sigma0 x = (word_rotr 2 x XOR word_rotr 13 x) XOR word_rotr 22 x"

definition big_sigma1 :: "w32 \<Rightarrow> w32" where
  "big_sigma1 x = (word_rotr 6 x XOR word_rotr 11 x) XOR word_rotr 25 x"

definition small_sigma0 :: "w32 \<Rightarrow> w32" where
  "small_sigma0 x = (word_rotr 7 x XOR word_rotr 18 x) XOR drop_bit 3 x"

definition small_sigma1 :: "w32 \<Rightarrow> w32" where
  "small_sigma1 x = (word_rotr 17 x XOR word_rotr 19 x) XOR drop_bit 10 x"

definition sha_ch :: "w32 \<Rightarrow> w32 \<Rightarrow> w32 \<Rightarrow> w32" where
  "sha_ch x y z = (x AND y) XOR (NOT x AND z)"

definition sha_maj :: "w32 \<Rightarrow> w32 \<Rightarrow> w32 \<Rightarrow> w32" where
  "sha_maj x y z = ((x AND y) XOR (x AND z)) XOR (y AND z)"

definition be_byte :: "nat \<Rightarrow> nat \<Rightarrow> char" where
  "be_byte n k = char_of (n div 256 ^ k mod 256)"

text \<open>Padding: a one bit, zeros up to 56 modulo 64 bytes, the length in bits on eight bytes.\<close>

definition sha_pad :: "bytes \<Rightarrow> bytes" where
  "sha_pad m =
    m @ [CHR 0x80] @ replicate ((119 - length m mod 64) mod 64) (CHR 0x00)
      @ map (be_byte (8 * length m)) (rev [0..<8])"

fun words_of :: "bytes \<Rightarrow> w32 list" where
  "words_of (a # b # c # d # cs) =
    word_of_nat (((ord a * 256 + ord b) * 256 + ord c) * 256 + ord d) # words_of cs"
| "words_of _ = []"

text \<open>The message schedule: the sixteen words of a block, then 48 words, each from the last 16.\<close>

fun sha_extend :: "nat \<Rightarrow> w32 list \<Rightarrow> w32 list" where
  "sha_extend 0 ws = ws"
| "sha_extend (Suc k) ws =
    (let n = length ws in
     sha_extend k (ws @ [small_sigma1 (ws ! (n - 2)) + ws ! (n - 7)
                         + small_sigma0 (ws ! (n - 15)) + ws ! (n - 16)]))"

fun sha_round :: "w32 list \<Rightarrow> w32 \<times> w32 \<Rightarrow> w32 list" where
  "sha_round [a, b, c, d, e, f, g, h] (k, w) =
    (let t1 = h + big_sigma1 e + sha_ch e f g + k + w;
         t2 = big_sigma0 a + sha_maj a b c
     in [t1 + t2, a, b, c, d + t1, e, f, g])"
| "sha_round hs _ = hs"

definition sha_block :: "w32 list \<Rightarrow> w32 list \<Rightarrow> w32 list" where
  "sha_block hs blk = map2 (+) hs (foldl sha_round hs (zip sha_k (sha_extend 48 blk)))"

function sha_blocks :: "w32 list \<Rightarrow> w32 list \<Rightarrow> w32 list" where
  "sha_blocks hs ws =
    (if ws = [] then hs else sha_blocks (sha_block hs (take 16 ws)) (drop 16 ws))"
  by pat_completeness auto
termination
  by (relation "measure (\<lambda>(hs, ws). length ws)") auto

declare sha_blocks.simps [simp del]

definition hex_word :: "w32 \<Rightarrow> string" where
  "hex_word w = map (\<lambda>i. hex_digit (unat w div 16 ^ i mod 16)) (rev [0..<8])"

definition raw_word :: "w32 \<Rightarrow> bytes" where
  "raw_word w = map (be_byte (unat w)) (rev [0..<4])"

definition sha_words :: "bytes \<Rightarrow> w32 list" where
  "sha_words m = sha_blocks sha_init (words_of (sha_pad m))"

definition sha256 :: "bytes \<Rightarrow> string" where
  "sha256 m = concat (map hex_word (sha_words m))"

definition sha256_raw :: "bytes \<Rightarrow> bytes" where
  "sha256_raw m = concat (map raw_word (sha_words m))"

definition xor_byte :: "nat \<Rightarrow> char \<Rightarrow> char" where
  "xor_byte k c = char_of (ord c XOR k)"

definition hmac_sha256 :: "bytes \<Rightarrow> bytes \<Rightarrow> string" where
  "hmac_sha256 key m =
    (let k0 = (if length key > 64 then sha256_raw key else key);
         kp = k0 @ replicate (64 - length k0) (CHR 0x00)
     in sha256 (map (xor_byte 92) kp @ sha256_raw (map (xor_byte 54) kp @ m)))"

text \<open>The shape every stored digest has: \<open>re.compile("^[0-9a-f]{64}$")\<close>.\<close>

definition is_hex_lower :: "char \<Rightarrow> bool" where
  "is_hex_lower c \<longleftrightarrow> is_digit c \<or> (97 \<le> ord c \<and> ord c \<le> 102)"

definition is_digest :: "string \<Rightarrow> bool" where
  "is_digest s \<longleftrightarrow> length s = 64 \<and> list_all is_hex_lower s"

lemma length_sha_round: "length hs = 8 \<Longrightarrow> length (sha_round hs kw) = 8"
  by (cases "(hs, kw)" rule: sha_round.cases) (auto simp: Let_def)

lemma length_foldl_sha_round: "length hs = 8 \<Longrightarrow> length (foldl sha_round hs kws) = 8"
  by (induction kws arbitrary: hs) (auto simp: length_sha_round)

lemma length_sha_block: "length hs = 8 \<Longrightarrow> length (sha_block hs blk) = 8"
  by (simp add: sha_block_def length_foldl_sha_round)

lemma length_sha_blocks: "length hs = 8 \<Longrightarrow> length (sha_blocks hs ws) = 8"
proof (induction hs ws rule: sha_blocks.induct)
  case (1 hs ws)
  then show ?case by (simp add: sha_blocks.simps [of hs ws] length_sha_block)
qed

lemma length_sha_words [simp]: "length (sha_words m) = 8"
  by (simp add: sha_words_def length_sha_blocks sha_init_def)

lemma length_hex_word [simp]: "length (hex_word w) = 8"
  by (simp add: hex_word_def)

lemma is_hex_lower_hex_digit: "n < 16 \<Longrightarrow> is_hex_lower (hex_digit n)"
  by (auto simp: is_hex_lower_def is_digit_def hex_digit_def)

lemma hex_word_hex: "c \<in> set (hex_word w) \<Longrightarrow> is_hex_lower c"
  by (auto simp: hex_word_def is_hex_lower_hex_digit)

lemma length_concat_const: "(\<And>x. x \<in> set xs \<Longrightarrow> length (f x) = k) \<Longrightarrow> length (concat (map f xs)) = k * length xs"
  by (induction xs) auto

lemma sha256_is_digest [simp, intro]: "is_digest (sha256 m)"
  by (auto simp: is_digest_def sha256_def length_concat_const [of _ _ 8] list_all_iff hex_word_hex)

lemma length_sha256 [simp]: "length (sha256 m) = 64"
  using sha256_is_digest [of m] by (simp add: is_digest_def)

lemma hmac_sha256_is_digest [simp, intro]: "is_digest (hmac_sha256 k m)"
  by (simp add: hmac_sha256_def Let_def)

end
