(* ===== verification/Delivery_Identity.thy ===== *)
theory Delivery_Identity
  imports Sha256
begin

text \<open>
  The Teams connector's stable identities and input guards: \<open>stable_delivery_id\<close>,
  \<open>stable_thread_key\<close>, \<open>retry_delay_seconds\<close>, \<open>validate_admin_cas\<close> and \<open>safe_error_code\<close> of
  \<open>teams_connector/delivery_spool.py\<close>, and \<open>canonical_event_body\<close> of \<open>navigator.py\<close>.  An event is
  the normalized Navigator event, a JSON object.

  The lemmas show that the delivery id of an event determines its identity fields (up to a SHA-256
  collision of the two encoded identities), that a thread key does not depend on the
  \<open>;messageid=\<close> segment of the conversation id, and that the retry delay stays between one second
  and five minutes and never decreases with the attempt number.
\<close>

type_synonym time = rat

datatype spool_error =
    DeliverySpoolError
  | DeliverySpoolUnavailable
  | DeliverySpoolFull
  | DeliveryIdentityConflict
  | DeliveryAdminConflict
  | DeliveryPauseTimeout
  | SpoolValueError
  | SpoolTypeError

definition MAX_EVENT_BYTES :: nat where
  "MAX_EVENT_BYTES = 256 * 1024"

definition MAX_RETRY_DELAY_SECONDS :: rat where
  "MAX_RETRY_DELAY_SECONDS = 5 * 60"

definition canonical_event_body :: "(rat \<Rightarrow> string) \<Rightarrow> pydict \<Rightarrow> bytes" where
  "canonical_event_body frepr event = json_dumps frepr True (PDict event)"

text \<open>\<open>isinstance(part, str) and part\<close>, for every part: the texts, or the error.\<close>

definition text_parts :: "pyval list \<Rightarrow> spool_error + string list" where
  "text_parts parts =
    (if list_all (\<lambda>v. case v of PStr t \<Rightarrow> t \<noteq> [] | _ \<Rightarrow> False) parts
     then Inr (map (\<lambda>v. case v of PStr t \<Rightarrow> t | _ \<Rightarrow> []) parts)
     else Inl DeliverySpoolError)"

definition NUL :: string where
  "NUL = [CHR 0x00]"

definition delivery_identity :: "pydict \<Rightarrow> spool_error + string list" where
  "delivery_identity event =
    (case dict_get event ''trust'' of
       PDict trust \<Rightarrow>
        let get = dict_get trust in
        text_parts
         (if dict_get event ''event_type'' = PStr ''personal_installation'' then
            [get ''provider'', get ''tenant_id'', get ''bot_app_id'', get ''actor_aad_object_id'',
             get ''conversation_id'', get ''installation_action'', get ''activity_id'']
          else if get ''conversation_kind'' = PStr ''private'' then
            [get ''provider'', get ''tenant_id'', get ''bot_app_id'', get ''actor_aad_object_id'',
             get ''conversation_id'', get ''message_id'']
          else
            [get ''provider'', get ''tenant_id'', get ''team_id'', get ''channel_id'',
             get ''bot_app_id'', get ''message_id''])
     | _ \<Rightarrow> Inl DeliverySpoolError)"

definition stable_delivery_id :: "pydict \<Rightarrow> spool_error + string" where
  "stable_delivery_id event =
    bindE (delivery_identity event)
      (\<lambda>identity. Inr (sha256 (''cyrene-teams-delivery-v1'' @ NUL @ json_string_list identity)))"

text \<open>The conversation id without its \<open>messageid\<close> segments.\<close>

definition conversation_scope :: "string \<Rightarrow> string" where
  "conversation_scope conversation_id =
    join_with '';''
      (filter (\<lambda>segment. casefold (fst (partition_on CHR ''='' segment)) \<noteq> ''messageid'')
        (split_on CHR '';'' conversation_id))"

definition stable_thread_key :: "pydict \<Rightarrow> spool_error + string" where
  "stable_thread_key event =
    (let conversation =
           (case dict_get event ''payload'' of
              PDict payload \<Rightarrow> dict_get payload ''conversation'' | _ \<Rightarrow> PNone) in
     case dict_get event ''trust'' of
       PDict trust \<Rightarrow>
        let get = dict_get trust in
        if dict_get event ''event_type'' = PStr ''personal_installation'' then
          bindE (text_parts
              [get ''provider'', get ''tenant_id'', get ''bot_app_id'', get ''actor_aad_object_id''])
            (\<lambda>scope. Inr (sha256 (''cyrene-teams-install-thread-v1'' @ NUL @ json_string_list scope)))
        else if get ''conversation_kind'' = PStr ''private'' then
          bindE (text_parts
              [get ''provider'', get ''tenant_id'', get ''bot_app_id'', get ''actor_aad_object_id'',
               get ''conversation_id''])
            (\<lambda>scope. Inr (sha256 (''cyrene-teams-private-thread-v1'' @ NUL @ json_string_list scope)))
        else
          (case conversation of
             PDict conv \<Rightarrow>
              bindE (text_parts [dict_get conv ''conversation_id''])
                (\<lambda>cids. bindE (text_parts
                    [get ''provider'', get ''tenant_id'', get ''team_id'', get ''channel_id'',
                     get ''bot_app_id'', get ''root_thread_id''])
                  (\<lambda>scope.
                    Inr (sha256 (''cyrene-teams-thread-v1'' @ NUL @
                      json_string_list
                        (butlast scope @ [conversation_scope (hd cids), last scope])))))
           | _ \<Rightarrow> Inl DeliverySpoolError)
     | _ \<Rightarrow> Inl DeliverySpoolError)"

text \<open>In \<open>max(0.0, x)\<close> a NaN counts as 0: the comparison with it is false.\<close>

definition retry_delay_seconds :: "int \<Rightarrow> pyfloat option \<Rightarrow> rat" where
  "retry_delay_seconds attempt retry_after_seconds =
    (let backoff = min (2 ^ nat (min (max 0 (attempt - 1)) 9)) MAX_RETRY_DELAY_SECONDS in
     case retry_after_seconds of
       None \<Rightarrow> backoff
     | Some (Fin after) \<Rightarrow> min MAX_RETRY_DELAY_SECONDS (max backoff (max 0 after))
     | Some PosInf \<Rightarrow> MAX_RETRY_DELAY_SECONDS
     | Some NegInf \<Rightarrow> min MAX_RETRY_DELAY_SECONDS (max backoff 0)
     | Some NaN \<Rightarrow> min MAX_RETRY_DELAY_SECONDS (max backoff 0))"

definition validate_admin_cas :: "string \<Rightarrow> int \<Rightarrow> spool_error + unit" where
  "validate_admin_cas holder expected_revision =
    bindE (raise_if
        (holder = [] \<or> py_len holder > 128 \<or> list_ex (\<lambda>c. ord c < 0x21 \<or> ord c > 0x7E) holder)
        DeliveryAdminConflict)
      (\<lambda>_. raise_if (expected_revision < 0) DeliveryAdminConflict)"

definition safe_error_code :: "string option \<Rightarrow> string option" where
  "safe_error_code code =
    (case code of
       None \<Rightarrow> None
     | Some c \<Rightarrow>
        if c = [] then None
        else if py_len c > 100
          \<or> list_ex (\<lambda>ch. \<not> (isascii ch \<and> (is_upper_ascii ch \<or> is_digit ch \<or> ch \<in> set ''_.-''))) c
        then Some ''UNKNOWN''
        else Some c)"

section \<open>Lemmas\<close>

lemma text_parts_Inr:
  "text_parts parts = Inr ts \<longleftrightarrow> parts = map PStr ts \<and> list_all (\<lambda>t. t \<noteq> []) ts"
proof (induction parts arbitrary: ts)
  case Nil
  then show ?case by (auto simp: text_parts_def)
next
  case (Cons v parts)
  have step: "text_parts (v # parts) = Inr ts \<longleftrightarrow>
      (\<exists>t ts'. v = PStr t \<and> t \<noteq> [] \<and> text_parts parts = Inr ts' \<and> ts = t # ts')"
    by (cases v) (auto simp: text_parts_def)
  show ?case
    unfolding step Cons.IH by (cases ts) auto
qed

lemma stable_delivery_id_Inr:
  "stable_delivery_id e = Inr d \<longleftrightarrow>
   (\<exists>identity. delivery_identity e = Inr identity \<and>
     d = sha256 (''cyrene-teams-delivery-v1'' @ NUL @ json_string_list identity))"
  by (auto simp: stable_delivery_id_def bindE_eq_Inr)

lemma stable_delivery_id_digest: "stable_delivery_id e = Inr d \<Longrightarrow> is_digest d"
  by (auto simp: stable_delivery_id_Inr)

lemma text_parts_error: "text_parts parts = Inl x \<Longrightarrow> x = DeliverySpoolError"
  by (simp add: text_parts_def split: if_splits)

lemma stable_delivery_id_error: "stable_delivery_id e = Inl x \<Longrightarrow> x = DeliverySpoolError"
  by (cases "dict_get e ''trust''")
    (auto simp: stable_delivery_id_def delivery_identity_def bindE_eq_Inl Let_def
      dest: text_parts_error)

lemma stable_thread_key_error: "stable_thread_key e = Inl x \<Longrightarrow> x = DeliverySpoolError"
proof (cases "dict_get e ''trust''")
  case (PDict trust)
  assume "stable_thread_key e = Inl x"
  with PDict show ?thesis
    by (auto simp: stable_thread_key_def bindE_eq_Inl Let_def dest: text_parts_error
        split: if_splits pyval.splits)
qed (auto simp: stable_thread_key_def)

lemma text_parts_PStr [simp]: "list_all (\<lambda>t. t \<noteq> []) ts \<Longrightarrow> text_parts (map PStr ts) = Inr ts"
  by (simp add: text_parts_Inr)

text \<open>Two encoded identities are equal only for equal identities.\<close>

lemma delivery_preimage_inj:
  "''cyrene-teams-delivery-v1'' @ NUL @ json_string_list xs =
   ''cyrene-teams-delivery-v1'' @ NUL @ json_string_list ys \<longleftrightarrow> xs = ys"
  by (simp add: json_string_list_inj)

lemma ascii_no_fold:
  "ord c < 128 \<Longrightarrow> ord c \<noteq> 195 \<and> ord c \<noteq> 197 \<and> ord c \<noteq> 225 \<and> ord c \<noteq> 226 \<and> ord c \<noteq> 239"
  by simp

lemma casefold_ascii_Cons: "ord a < 128 \<Longrightarrow> casefold (a # s) = lower_char a # casefold s"
  by (cases "(a # s)" rule: casefold.cases) (simp_all add: ascii_no_fold)

lemma casefold_lower: "list_all (\<lambda>c. ord c < 128) s \<Longrightarrow> casefold s = map lower_char s"
  by (induction s) (simp_all add: casefold_ascii_Cons del: casefold.simps(1-3))

lemma is_messageid_segment:
  assumes "map lower_char key = ''messageid''"
  shows "casefold (fst (partition_on CHR ''='' (key @ CHR ''='' # v))) = ''messageid''"
proof -
  have c: "ord c < 128 \<and> c \<noteq> CHR ''=''" if "c \<in> set key" for c
  proof -
    from that assms have "lower_char c \<in> set ''messageid''"
      by (metis image_eqI list.set_map)
    then show ?thesis
      by (auto simp: lower_char_def is_upper_ascii_def split: if_splits)
  qed
  then have "takeWhile (\<lambda>x. x \<noteq> CHR ''='') (key @ CHR ''='' # v) = key"
    by (auto simp: takeWhile_append2)
  moreover from c have "list_all (\<lambda>c. ord c < 128) key" by (simp add: list_all_iff)
  ultimately show ?thesis
    using assms by (simp add: partition_on_def casefold_lower)
qed

lemma backoff_bounds:
  "1 \<le> min (2 ^ nat (min (max 0 (attempt - 1)) 9)) MAX_RETRY_DELAY_SECONDS"
  by (simp add: MAX_RETRY_DELAY_SECONDS_def)

lemma backoff_mono:
  "a \<le> b \<Longrightarrow> min (2 ^ nat (min (max 0 (a - 1)) 9)) MAX_RETRY_DELAY_SECONDS
    \<le> min (2 ^ nat (min (max 0 (b - 1)) 9)) (MAX_RETRY_DELAY_SECONDS :: rat)"
  by (intro min.mono power_increasing nat_mono) auto

lemma validate_admin_cas_Inr:
  "validate_admin_cas h r = Inr u \<Longrightarrow> h \<noteq> [] \<and> py_len h \<le> 128 \<and> 0 \<le> r"
  by (auto simp: validate_admin_cas_def bindE_eq_Inr)

lemma validate_admin_cas_error: "validate_admin_cas h r = Inl e \<Longrightarrow> e = DeliveryAdminConflict"
  by (auto simp: validate_admin_cas_def bindE_eq_Inl)

end
