(* ===== verification/Delivery_Spool.thy ===== *)
theory Delivery_Spool
  imports Delivery_Identity
begin

text \<open>
  The durable queue of the Teams connector: class \<open>DeliverySpool\<close> of
  \<open>teams_connector/delivery_spool.py\<close>.  The state is the SQLite file: the table \<open>deliveries\<close> (rows in
  insertion order), its AUTOINCREMENT counter, the table \<open>delivery_meta\<close> (TEXT to TEXT) and the
  schema version.  One operation is one \<open>BEGIN IMMEDIATE\<close> transaction, so an operation is a
  function from the state to a result and the committed state; an exception rolls back, that is,
  returns the state it started from.  \<open>CHECK\<close> constraints are part of the model
  (\<open>delivery_ok\<close>): an insert or update that violates them is an SQLite error, hence
  \<open>DeliverySpoolUnavailable\<close>.  The clock and the random lease token are arguments; an operation
  that reads the clock twice (\<open>retry_dead\<close>, whose status is a second transaction) has two.
\<close>

section \<open>State\<close>

datatype delivery_state = Queued | Leased | Delivered | Rejected | Dead

record delivery =
  dl_sequence :: nat
  dl_delivery_id :: string
  dl_thread_key :: string
  dl_body_sha256 :: string
  dl_body :: "bytes option"
  dl_state :: delivery_state
  dl_received_at :: time
  dl_attempts :: int
  dl_next_attempt_at :: time
  dl_lease_id :: "string option"
  dl_lease_epoch :: int
  dl_lease_expires_at :: "time option"
  dl_last_http_status :: "int option"
  dl_last_error_code :: "string option"
  dl_finished_at :: "time option"

record spool =
  user_version :: int
  delivery_meta :: "string \<rightharpoonup> string"
  sequence_counter :: nat
  deliveries :: "delivery list"

record spool_limits =
  max_rows :: int
  max_bytes :: int

record enqueue_result =
  er_delivery_id :: string
  er_duplicate :: bool

record delivery_claim =
  cl_delivery_id :: string
  cl_body :: bytes
  cl_body_sha256 :: string
  cl_lease_id :: string
  cl_lease_epoch :: int
  cl_attempt :: int

record delivery_status =
  ds_paused :: bool
  ds_revision :: int
  ds_active_delivery_count :: nat
  ds_queued_count :: nat
  ds_leased_count :: nat
  ds_retry_wait_count :: nat
  ds_delivered_count :: nat
  ds_rejected_count :: nat
  ds_dead_count :: nat
  ds_pending_bytes :: nat
  ds_retained_body_bytes :: nat
  ds_oldest_pending_at :: "time option"
  ds_last_delivered_at :: "time option"

type_synonym 'a spool_tx = "spool \<Rightarrow> (spool_error + 'a) \<times> spool"

definition MAX_RECORDED_ATTEMPTS :: int where
  "MAX_RECORDED_ATTEMPTS = 2 ^ 31 - 1"

definition DELIVERED_RETENTION_SECONDS :: rat where
  "DELIVERED_RETENTION_SECONDS = 24 * 60 * 60"

definition REJECTED_RETENTION_SECONDS :: rat where
  "REJECTED_RETENTION_SECONDS = 7 * 24 * 60 * 60"

definition spool_limits_of :: "int \<Rightarrow> int \<Rightarrow> spool_error + spool_limits" where
  "spool_limits_of rows bytes =
    (if rows < 1 \<or> bytes < 1 then Inl SpoolValueError
     else Inr \<lparr>max_rows = rows, max_bytes = bytes\<rparr>)"

text \<open>The \<open>CHECK\<close> constraints of the table.\<close>

definition delivery_ok :: "delivery \<Rightarrow> bool" where
  "delivery_ok r \<longleftrightarrow>
     py_len (dl_body_sha256 r) = 64
   \<and> dl_attempts r \<ge> 0
   \<and> dl_lease_epoch r \<ge> 0
   \<and> (dl_state r = Leased \<and> dl_lease_id r \<noteq> None \<and> dl_lease_expires_at r \<noteq> None
      \<or> dl_state r \<noteq> Leased \<and> dl_lease_id r = None \<and> dl_lease_expires_at r = None)
   \<and> (dl_state r \<in> {Queued, Leased} \<and> dl_body r \<noteq> None
      \<or> dl_state r \<in> {Delivered, Rejected} \<and> dl_body r = None
      \<or> dl_state r = Dead \<and> dl_body r \<noteq> None)"

definition empty_database :: spool where
  "empty_database =
    \<lparr>user_version = 0, delivery_meta = Map.empty, sequence_counter = 0, deliveries = []\<rparr>"

definition meta_defaults :: "string \<rightharpoonup> string" where
  "meta_defaults =
    [''paused'' \<mapsto> ''0'', ''revision'' \<mapsto> ''0'', ''pause_holder'' \<mapsto> '''', ''last_resumed_holder'' \<mapsto> '''']"

definition initialize_database :: "unit spool_tx" where
  "initialize_database s =
    (if user_version s \<notin> {0, 1} then (Inl DeliverySpoolUnavailable, s)
     else (Inr (), s\<lparr>delivery_meta := meta_defaults ++ delivery_meta s, user_version := 1\<rparr>))"

section \<open>Rows\<close>

definition body_bytes :: "delivery \<Rightarrow> nat" where
  "body_bytes r = (case dl_body r of None \<Rightarrow> 0 | Some b \<Rightarrow> length b)"

definition retained_bytes :: "delivery list \<Rightarrow> nat" where
  "retained_bytes t = sum_list (map body_bytes t)"

text \<open>\<open>lease_expires_at <= now\<close> and \<open>lease_expires_at > now\<close>: a \<open>NULL\<close> satisfies neither.\<close>

definition lease_expired :: "time \<Rightarrow> delivery \<Rightarrow> bool" where
  "lease_expired now r = (case dl_lease_expires_at r of None \<Rightarrow> False | Some t \<Rightarrow> t \<le> now)"

definition lease_active :: "time \<Rightarrow> delivery \<Rightarrow> bool" where
  "lease_active now r \<longleftrightarrow>
     dl_state r = Leased \<and> (case dl_lease_expires_at r of None \<Rightarrow> False | Some t \<Rightarrow> t > now)"

definition due :: "time \<Rightarrow> delivery \<Rightarrow> bool" where
  "due now r \<longleftrightarrow>
     (dl_state r = Queued \<and> dl_next_attempt_at r \<le> now) \<or> (dl_state r = Leased \<and> lease_expired now r)"

definition pending :: "delivery \<Rightarrow> bool" where
  "pending r \<longleftrightarrow> dl_state r \<in> {Queued, Leased, Dead}"

definition blocks :: "delivery \<Rightarrow> delivery \<Rightarrow> bool" where
  "blocks prior candidate \<longleftrightarrow>
     dl_thread_key prior = dl_thread_key candidate
   \<and> dl_sequence prior < dl_sequence candidate
   \<and> pending prior"

definition claimable :: "time \<Rightarrow> delivery list \<Rightarrow> delivery \<Rightarrow> bool" where
  "claimable now t r \<longleftrightarrow> due now r \<and> \<not> list_ex (\<lambda>p. blocks p r) t"

definition finished_before :: "delivery_state \<Rightarrow> time \<Rightarrow> delivery \<Rightarrow> bool" where
  "finished_before st cutoff r \<longleftrightarrow>
     dl_state r = st \<and> (case dl_finished_at r of None \<Rightarrow> False | Some t \<Rightarrow> t \<le> cutoff)"

definition purge_expired :: "time \<Rightarrow> spool \<Rightarrow> spool" where
  "purge_expired now s =
    s\<lparr>deliveries :=
       sql_delete (finished_before Rejected (now - REJECTED_RETENTION_SECONDS))
         (sql_delete (finished_before Delivered (now - DELIVERED_RETENTION_SECONDS))
           (deliveries s))\<rparr>"

section \<open>The metadata table\<close>

definition meta :: "spool \<Rightarrow> string \<Rightarrow> spool_error + string" where
  "meta s key =
    (case delivery_meta s key of None \<Rightarrow> Inl DeliverySpoolUnavailable | Some v \<Rightarrow> Inr v)"

definition set_meta :: "string \<Rightarrow> string \<Rightarrow> spool \<Rightarrow> spool" where
  "set_meta key val s =
    (case delivery_meta s key of
       None \<Rightarrow> s
     | Some _ \<Rightarrow> s\<lparr>delivery_meta := (delivery_meta s)(key \<mapsto> val)\<rparr>)"

text \<open>\<open>int(self._meta(connection, "revision"))\<close>.\<close>

definition meta_revision :: "spool \<Rightarrow> spool_error + int" where
  "meta_revision s =
    bindE (meta s ''revision'')
      (\<lambda>v. case int_of_str v of None \<Rightarrow> Inl SpoolValueError | Some i \<Rightarrow> Inr i)"

definition meta_paused :: "spool \<Rightarrow> spool_error + bool" where
  "meta_paused s = bindE (meta s ''paused'') (\<lambda>v. Inr (v = ''1''))"

section \<open>Queue operations\<close>

definition new_delivery :: "nat \<Rightarrow> string \<Rightarrow> string \<Rightarrow> bytes \<Rightarrow> string \<Rightarrow> time \<Rightarrow> delivery" where
  "new_delivery seq delivery_id thread_key body body_sha256 now =
    \<lparr>dl_sequence = seq, dl_delivery_id = delivery_id, dl_thread_key = thread_key,
     dl_body_sha256 = body_sha256, dl_body = Some body, dl_state = Queued, dl_received_at = now,
     dl_attempts = 0, dl_next_attempt_at = now, dl_lease_id = None, dl_lease_epoch = 0,
     dl_lease_expires_at = None, dl_last_http_status = None, dl_last_error_code = None,
     dl_finished_at = None\<rparr>"

definition enqueue_sync ::
    "spool_limits \<Rightarrow> time \<Rightarrow> string \<Rightarrow> string \<Rightarrow> bytes \<Rightarrow> string \<Rightarrow> enqueue_result spool_tx" where
  "enqueue_sync limits now delivery_id thread_key body body_sha256 s =
    (let s1 = purge_expired now s in
     case sql_first (\<lambda>r. dl_delivery_id r = delivery_id) (deliveries s1) of
       Some existing \<Rightarrow>
         if dl_body_sha256 existing \<noteq> body_sha256 then (Inl DeliveryIdentityConflict, s)
         else (Inr \<lparr>er_delivery_id = delivery_id, er_duplicate = True\<rparr>, s1)
     | None \<Rightarrow>
         if int (length (deliveries s1)) \<ge> max_rows limits
            \<or> int (retained_bytes (deliveries s1)) + int (length body) > max_bytes limits
         then (Inl DeliverySpoolFull, s)
         else
           let seq = Suc (sequence_counter s1);
               row = new_delivery seq delivery_id thread_key body body_sha256 now in
           if \<not> delivery_ok row then (Inl DeliverySpoolUnavailable, s)
           else (Inr \<lparr>er_delivery_id = delivery_id, er_duplicate = False\<rparr>,
                 s1\<lparr>sequence_counter := seq, deliveries := deliveries s1 @ [row]\<rparr>))"

definition lease_row :: "time \<Rightarrow> rat \<Rightarrow> string \<Rightarrow> delivery \<Rightarrow> delivery \<Rightarrow> delivery" where
  "lease_row now lease_seconds lease_id picked r =
    r\<lparr>dl_state := Leased,
      dl_attempts := min (dl_attempts picked + 1) MAX_RECORDED_ATTEMPTS,
      dl_lease_id := Some lease_id,
      dl_lease_epoch := dl_lease_epoch picked + 1,
      dl_lease_expires_at := Some (now + lease_seconds),
      dl_last_http_status := None,
      dl_last_error_code := None\<rparr>"

definition claim_next_sync :: "time \<Rightarrow> string \<Rightarrow> rat \<Rightarrow> delivery_claim option spool_tx" where
  "claim_next_sync now token lease_seconds s =
    (case meta s ''paused'' of
       Inl e \<Rightarrow> (Inl e, s)
     | Inr p \<Rightarrow>
        if p = ''1'' then (Inr None, s)
        else
          (case sort_key dl_sequence (filter (claimable now (deliveries s)) (deliveries s)) of
             [] \<Rightarrow> (Inr None, s)
           | row # _ \<Rightarrow>
              (case sql_update_checked delivery_ok
                      (\<lambda>r. dl_delivery_id r = dl_delivery_id row
                         \<and> dl_lease_epoch r = dl_lease_epoch row \<and> due now r)
                      (lease_row now lease_seconds token row) (deliveries s) of
                 None \<Rightarrow> (Inl DeliverySpoolUnavailable, s)
               | Some (rows', changed) \<Rightarrow>
                   if changed \<noteq> 1 then (Inr None, s)
                   else
                     let s' = s\<lparr>deliveries := rows'\<rparr> in
                     (case dl_body row of
                        None \<Rightarrow> (Inl SpoolTypeError, s')
                      | Some b \<Rightarrow>
                         (Inr (Some
                            \<lparr>cl_delivery_id = dl_delivery_id row,
                             cl_body = b,
                             cl_body_sha256 = dl_body_sha256 row,
                             cl_lease_id = token,
                             cl_lease_epoch = dl_lease_epoch row + 1,
                             cl_attempt = min (dl_attempts row + 1) MAX_RECORDED_ATTEMPTS\<rparr>), s')))))"

definition holds_lease :: "delivery_claim \<Rightarrow> delivery \<Rightarrow> bool" where
  "holds_lease c r \<longleftrightarrow>
     dl_delivery_id r = cl_delivery_id c \<and> dl_state r = Leased
   \<and> dl_lease_id r = Some (cl_lease_id c) \<and> dl_lease_epoch r = cl_lease_epoch c"

definition finish_row ::
    "time \<Rightarrow> delivery_state \<Rightarrow> int option \<Rightarrow> string option \<Rightarrow> delivery \<Rightarrow> delivery" where
  "finish_row now st status_code error_code r =
    r\<lparr>dl_state := st,
      dl_body := (if st \<in> {Delivered, Rejected} then None else dl_body r),
      dl_lease_id := None, dl_lease_expires_at := None,
      dl_last_http_status := status_code, dl_last_error_code := error_code,
      dl_finished_at := Some now\<rparr>"

definition finish_sync ::
    "time \<Rightarrow> delivery_claim \<Rightarrow> delivery_state \<Rightarrow> int option \<Rightarrow> string option \<Rightarrow> bool spool_tx" where
  "finish_sync now c st status_code error_code s =
    (if st \<notin> {Delivered, Rejected, Dead} then (Inl SpoolValueError, s)
     else
       (case sql_update_checked delivery_ok (holds_lease c)
               (finish_row now st status_code error_code) (deliveries s) of
          None \<Rightarrow> (Inl DeliverySpoolUnavailable, s)
        | Some (rows', changed) \<Rightarrow> (Inr (changed = 1), s\<lparr>deliveries := rows'\<rparr>)))"

definition retry_row :: "time \<Rightarrow> int option \<Rightarrow> string option \<Rightarrow> delivery \<Rightarrow> delivery" where
  "retry_row at_time status_code error_code r =
    r\<lparr>dl_state := Queued, dl_next_attempt_at := at_time, dl_lease_id := None,
      dl_lease_expires_at := None, dl_last_http_status := status_code,
      dl_last_error_code := error_code, dl_finished_at := None\<rparr>"

definition retry_sync ::
    "time \<Rightarrow> delivery_claim \<Rightarrow> rat \<Rightarrow> int option \<Rightarrow> string option \<Rightarrow> bool spool_tx" where
  "retry_sync now c delay_seconds status_code error_code s =
    (case sql_update_checked delivery_ok (holds_lease c)
            (retry_row (now + delay_seconds) status_code error_code) (deliveries s) of
       None \<Rightarrow> (Inl DeliverySpoolUnavailable, s)
     | Some (rows', changed) \<Rightarrow> (Inr (changed = 1), s\<lparr>deliveries := rows'\<rparr>))"

section \<open>Status and administration\<close>

definition status_of :: "time \<Rightarrow> spool \<Rightarrow> spool_error + delivery_status" where
  "status_of now s =
    (let t = deliveries s; n = (\<lambda>P. sql_count P t) in
     bindE (meta_paused s) (\<lambda>paused.
     bindE (meta_revision s) (\<lambda>revision.
       Inr \<lparr>ds_paused = paused,
            ds_revision = revision,
            ds_active_delivery_count = n (lease_active now),
            ds_queued_count = n (\<lambda>r. dl_state r = Queued),
            ds_leased_count = n (\<lambda>r. dl_state r = Leased),
            ds_retry_wait_count = n (\<lambda>r. dl_state r = Queued \<and> dl_next_attempt_at r > now),
            ds_delivered_count = n (\<lambda>r. dl_state r = Delivered),
            ds_rejected_count = n (\<lambda>r. dl_state r = Rejected),
            ds_dead_count = n (\<lambda>r. dl_state r = Dead),
            ds_pending_bytes = retained_bytes (filter (\<lambda>r. dl_state r \<in> {Queued, Leased}) t),
            ds_retained_body_bytes = retained_bytes t,
            ds_oldest_pending_at =
              sql_min (map dl_received_at (filter (\<lambda>r. dl_state r \<in> {Queued, Leased}) t)),
            ds_last_delivered_at =
              sql_max (List.map_filter (\<lambda>r. if dl_state r = Delivered then dl_finished_at r else None) t)\<rparr>)))"

definition status_sync :: "time \<Rightarrow> delivery_status spool_tx" where
  "status_sync now s = (status_of now s, s)"

definition is_paused_sync :: "bool spool_tx" where
  "is_paused_sync s = (meta_paused s, s)"

definition pause_sync :: "time \<Rightarrow> string \<Rightarrow> int \<Rightarrow> delivery_status spool_tx" where
  "pause_sync now holder expected_revision s =
    (case bindE (meta_revision s) (\<lambda>revision.
          bindE (meta_paused s) (\<lambda>paused.
          bindE (meta s ''pause_holder'') (\<lambda>current_holder.
          bindE (meta s ''last_resumed_holder'') (\<lambda>last_resumed.
            Inr (revision, paused, current_holder, last_resumed))))) of
       Inl e \<Rightarrow> (Inl e, s)
     | Inr (revision, paused, current_holder, last_resumed) \<Rightarrow>
        if paused then
          (if current_holder = holder \<and> expected_revision \<in> {revision, revision - 1}
           then (status_of now s, s)
           else (Inl DeliveryAdminConflict, s))
        else if last_resumed = holder \<or> expected_revision \<noteq> revision
        then (Inl DeliveryAdminConflict, s)
        else
          let s' = set_meta ''revision'' (str_of_int (revision + 1))
                    (set_meta ''last_resumed_holder'' ''''
                      (set_meta ''pause_holder'' holder
                        (set_meta ''paused'' ''1'' s))) in
          (status_of now s', s'))"

definition resume_sync :: "time \<Rightarrow> string \<Rightarrow> int \<Rightarrow> delivery_status spool_tx" where
  "resume_sync now holder expected_revision s =
    (case bindE (meta_revision s) (\<lambda>revision.
          bindE (meta_paused s) (\<lambda>paused.
          bindE (meta s ''pause_holder'') (\<lambda>current_holder.
          bindE (meta s ''last_resumed_holder'') (\<lambda>last_resumed.
            Inr (revision, paused, current_holder, last_resumed))))) of
       Inl e \<Rightarrow> (Inl e, s)
     | Inr (revision, paused, current_holder, last_resumed) \<Rightarrow>
        if \<not> paused then
          (if last_resumed = holder \<and> expected_revision \<in> {revision, revision - 1}
           then (status_of now s, s)
           else (Inl DeliveryAdminConflict, s))
        else if current_holder \<noteq> holder \<or> expected_revision \<noteq> revision
        then (Inl DeliveryAdminConflict, s)
        else
          let s' = set_meta ''revision'' (str_of_int (revision + 1))
                    (set_meta ''last_resumed_holder'' holder
                      (set_meta ''pause_holder'' ''''
                        (set_meta ''paused'' ''0'' s))) in
          (status_of now s', s'))"

definition revive_row :: "time \<Rightarrow> delivery \<Rightarrow> delivery" where
  "revive_row now r =
    r\<lparr>dl_state := Queued, dl_attempts := 0, dl_next_attempt_at := now,
      dl_last_http_status := None, dl_last_error_code := None, dl_finished_at := None\<rparr>"

definition retry_dead_sync :: "time \<Rightarrow> time \<Rightarrow> string \<Rightarrow> int \<Rightarrow> (nat \<times> delivery_status) spool_tx" where
  "retry_dead_sync now status_now holder expected_revision s =
    (case bindE (meta_paused s) (\<lambda>paused.
          if \<not> paused then Inl DeliveryAdminConflict
          else bindE (meta s ''pause_holder'') (\<lambda>current.
          if current \<noteq> holder then Inl DeliveryAdminConflict
          else bindE (meta_revision s) (\<lambda>revision.
            raise_if (revision \<noteq> expected_revision) DeliveryAdminConflict))) of
       Inl e \<Rightarrow> (Inl e, s)
     | Inr _ \<Rightarrow>
        if sql_count (lease_active now) (deliveries s) \<noteq> 0 then (Inl DeliveryAdminConflict, s)
        else
          (case sql_update_checked delivery_ok (\<lambda>r. dl_state r = Dead) (revive_row now) (deliveries s) of
             None \<Rightarrow> (Inl DeliverySpoolUnavailable, s)
           | Some (rows', changed) \<Rightarrow>
               let s' = s\<lparr>deliveries := rows'\<rparr> in
               (bindE (status_of status_now s') (\<lambda>st. Inr (changed, st)), s')))"

definition active_lease_deadline_sync :: "time \<Rightarrow> time option spool_tx" where
  "active_lease_deadline_sync now s =
    (Inr (sql_min (List.map_filter (\<lambda>r. if lease_active now r then dl_lease_expires_at r else None)
            (deliveries s))), s)"

section \<open>Public methods\<close>

text \<open>\<open>_run_sync\<close>: an operating system or SQLite failure of the transaction (\<open>io\<close> is false) becomes
  \<open>DeliverySpoolUnavailable\<close> and commits nothing.\<close>

definition run_sync :: "bool \<Rightarrow> 'a spool_tx \<Rightarrow> 'a spool_tx" where
  "run_sync io op s = (if io then op s else (Inl DeliverySpoolUnavailable, s))"

definition enqueue ::
    "(rat \<Rightarrow> string) \<Rightarrow> spool_limits \<Rightarrow> bool \<Rightarrow> time \<Rightarrow> pydict \<Rightarrow> enqueue_result spool_tx" where
  "enqueue frepr limits io now event s =
    (let raw_body = canonical_event_body frepr event in
     if raw_body = [] \<or> length raw_body > MAX_EVENT_BYTES then (Inl DeliverySpoolFull, s)
     else
       (case stable_delivery_id event of
          Inl e \<Rightarrow> (Inl e, s)
        | Inr delivery_id \<Rightarrow>
           (case stable_thread_key event of
              Inl e \<Rightarrow> (Inl e, s)
            | Inr thread_key \<Rightarrow>
                run_sync io (enqueue_sync limits now delivery_id thread_key raw_body (sha256 raw_body)) s)))"

definition claim_next :: "bool \<Rightarrow> time \<Rightarrow> string \<Rightarrow> rat \<Rightarrow> delivery_claim option spool_tx" where
  "claim_next io now token lease_seconds s =
    (if lease_seconds \<le> 0 then (Inl SpoolValueError, s)
     else run_sync io (claim_next_sync now token lease_seconds) s)"

definition mark_delivered :: "bool \<Rightarrow> time \<Rightarrow> delivery_claim \<Rightarrow> bool spool_tx" where
  "mark_delivered io now c = run_sync io (finish_sync now c Delivered None None)"

definition mark_rejected ::
    "bool \<Rightarrow> time \<Rightarrow> delivery_claim \<Rightarrow> int \<Rightarrow> string option \<Rightarrow> bool spool_tx" where
  "mark_rejected io now c status_code code =
    run_sync io (finish_sync now c Rejected (Some status_code) (safe_error_code code))"

definition mark_dead ::
    "bool \<Rightarrow> time \<Rightarrow> delivery_claim \<Rightarrow> int option \<Rightarrow> string option \<Rightarrow> bool spool_tx" where
  "mark_dead io now c status_code code =
    run_sync io (finish_sync now c Dead status_code (safe_error_code code))"

definition mark_retry ::
    "bool \<Rightarrow> time \<Rightarrow> delivery_claim \<Rightarrow> rat \<Rightarrow> int option \<Rightarrow> string option \<Rightarrow> bool spool_tx" where
  "mark_retry io now c delay_seconds status_code code =
    run_sync io (retry_sync now c (max 0 (min delay_seconds MAX_RETRY_DELAY_SECONDS))
      status_code (safe_error_code code))"

definition is_paused :: "bool \<Rightarrow> bool spool_tx" where
  "is_paused io = run_sync io is_paused_sync"

definition pause :: "bool \<Rightarrow> time \<Rightarrow> string \<Rightarrow> int \<Rightarrow> delivery_status spool_tx" where
  "pause io now holder expected_revision s =
    (case validate_admin_cas holder expected_revision of
       Inl e \<Rightarrow> (Inl e, s)
     | Inr _ \<Rightarrow> run_sync io (pause_sync now holder expected_revision) s)"

definition resume :: "bool \<Rightarrow> time \<Rightarrow> string \<Rightarrow> int \<Rightarrow> delivery_status spool_tx" where
  "resume io now holder expected_revision s =
    (case validate_admin_cas holder expected_revision of
       Inl e \<Rightarrow> (Inl e, s)
     | Inr _ \<Rightarrow> run_sync io (resume_sync now holder expected_revision) s)"

definition retry_dead :: "bool \<Rightarrow> time \<Rightarrow> time \<Rightarrow> string \<Rightarrow> int \<Rightarrow> (nat \<times> delivery_status) spool_tx" where
  "retry_dead io now status_now holder expected_revision s =
    (case validate_admin_cas holder expected_revision of
       Inl e \<Rightarrow> (Inl e, s)
     | Inr _ \<Rightarrow> run_sync io (retry_dead_sync now status_now holder expected_revision) s)"

definition status :: "bool \<Rightarrow> time \<Rightarrow> delivery_status spool_tx" where
  "status io now = run_sync io (status_sync now)"

definition active_lease_deadline :: "bool \<Rightarrow> time \<Rightarrow> time option spool_tx" where
  "active_lease_deadline io now = run_sync io (active_lease_deadline_sync now)"

end
