(* ===== verification/Delivery_Spool_Inv.thy ===== *)
theory Delivery_Spool_Inv
  imports Delivery_Spool
begin

text \<open>
  The invariant of the durable queue and the lemmas that every operation keeps it: the schema's
  constraints, unique delivery ids, strictly increasing sequence numbers below the counter, the two
  capacity bounds, readable pause metadata, and the order of each thread (a row behind a pending row
  of its thread has never been leased).  The table part is proved for the two SQL shapes the code
  uses, \<open>DELETE\<close> and \<open>UPDATE\<close>, and for \<open>INSERT\<close>; the operations are instances.
\<close>

section \<open>The invariant\<close>

definition finished_ok :: "delivery \<Rightarrow> bool" where
  "finished_ok r \<longleftrightarrow> (dl_finished_at r \<noteq> None \<longleftrightarrow> dl_state r \<in> {Delivered, Rejected, Dead})"

definition never_leased :: "delivery \<Rightarrow> bool" where
  "never_leased r \<longleftrightarrow> dl_state r = Queued \<and> dl_lease_epoch r = 0"

definition thread_ordered :: "delivery list \<Rightarrow> bool" where
  "thread_ordered t \<longleftrightarrow> (\<forall>p \<in> set t. \<forall>r \<in> set t. blocks p r \<longrightarrow> never_leased r)"

definition rows_inv :: "spool_limits \<Rightarrow> nat \<Rightarrow> delivery list \<Rightarrow> bool" where
  "rows_inv limits counter t \<longleftrightarrow>
     (\<forall>r \<in> set t. delivery_ok r \<and> finished_ok r \<and> dl_sequence r \<le> counter)
   \<and> distinct (map dl_delivery_id t)
   \<and> sorted_wrt (<) (map dl_sequence t)
   \<and> int (length t) \<le> max_rows limits
   \<and> int (retained_bytes t) \<le> max_bytes limits
   \<and> thread_ordered t"

record pause_gate =
  pg_paused :: bool
  pg_revision :: int
  pg_holder :: string
  pg_last_resumed :: string

text \<open>The typed content of the metadata table: what the four TEXT values mean.\<close>

definition gate_of :: "spool \<Rightarrow> pause_gate option" where
  "gate_of s =
    (case (delivery_meta s ''paused'', delivery_meta s ''revision'',
           delivery_meta s ''pause_holder'', delivery_meta s ''last_resumed_holder'') of
       (Some p, Some v, Some h, Some l) \<Rightarrow>
         (if p \<in> {''0'', ''1''} then
            (case int_of_str v of
               None \<Rightarrow> None
             | Some i \<Rightarrow> Some \<lparr>pg_paused = (p = ''1''), pg_revision = i, pg_holder = h, pg_last_resumed = l\<rparr>)
          else None)
     | _ \<Rightarrow> None)"

definition spool_inv :: "spool_limits \<Rightarrow> spool \<Rightarrow> bool" where
  "spool_inv limits s \<longleftrightarrow>
     user_version s = 1 \<and> gate_of s \<noteq> None \<and> rows_inv limits (sequence_counter s) (deliveries s)"

section \<open>Tables\<close>

lemma retained_bytes_simps [simp]:
  "retained_bytes [] = 0"
  "retained_bytes (r # t) = body_bytes r + retained_bytes t"
  "retained_bytes (t @ u) = retained_bytes t + retained_bytes u"
  by (simp_all add: retained_bytes_def)

lemma retained_bytes_filter: "retained_bytes (filter P t) \<le> retained_bytes t"
  by (induction t) auto

lemma retained_bytes_delete: "retained_bytes (sql_delete P t) \<le> retained_bytes t"
  by (simp add: sql_delete_def retained_bytes_filter)

lemma retained_bytes_update:
  "(\<And>r. r \<in> set t \<Longrightarrow> P r \<Longrightarrow> body_bytes (f r) \<le> body_bytes r) \<Longrightarrow>
   retained_bytes (sql_update P f t) \<le> retained_bytes t"
proof (induction t)
  case (Cons r t)
  from Cons.prems have "body_bytes (if P r then f r else r) \<le> body_bytes r" by simp
  moreover from Cons have "retained_bytes (sql_update P f t) \<le> retained_bytes t" by simp
  ultimately show ?case by (simp add: sql_update_def del: if_split)
qed (simp add: sql_update_def)

lemma rows_inv_delete:
  assumes "rows_inv limits n t"
  shows "rows_inv limits n (sql_delete P t)"
proof -
  have "int (length (sql_delete P t)) \<le> max_rows limits"
    using assms length_sql_delete [of P t] by (simp add: rows_inv_def)
  moreover have "int (retained_bytes (sql_delete P t)) \<le> max_bytes limits"
    using assms retained_bytes_delete [of P t] by (simp add: rows_inv_def)
  moreover have "thread_ordered (sql_delete P t)"
    using assms by (auto simp: rows_inv_def thread_ordered_def)
  ultimately show ?thesis
    using assms
    by (simp add: rows_inv_def distinct_sql_delete sorted_wrt_sql_delete)
qed

text \<open>What an \<open>UPDATE\<close> may do: keep identity, thread and sequence, keep the row well formed, never
  make a finished row pending, and lease only a row no earlier row blocks.\<close>

definition row_update_ok :: "delivery list \<Rightarrow> (delivery \<Rightarrow> delivery) \<Rightarrow> delivery \<Rightarrow> bool" where
  "row_update_ok t f r \<longleftrightarrow>
     dl_delivery_id (f r) = dl_delivery_id r \<and> dl_sequence (f r) = dl_sequence r
   \<and> dl_thread_key (f r) = dl_thread_key r
   \<and> delivery_ok (f r) \<and> finished_ok (f r) \<and> body_bytes (f r) \<le> body_bytes r
   \<and> (pending (f r) \<longrightarrow> pending r)
   \<and> (never_leased r \<longrightarrow> never_leased (f r) \<or> (\<forall>p \<in> set t. \<not> blocks p r))"

lemma thread_ordered_update:
  assumes "thread_ordered t" and ok: "\<And>r. r \<in> set t \<Longrightarrow> P r \<Longrightarrow> row_update_ok t f r"
  shows "thread_ordered (sql_update P f t)"
  unfolding thread_ordered_def
proof (intro ballI impI)
  let ?g = "\<lambda>r. if P r then f r else r"
  fix p' r'
  assume "p' \<in> set (sql_update P f t)" "r' \<in> set (sql_update P f t)" and b: "blocks p' r'"
  then obtain p r where p: "p \<in> set t" "p' = ?g p" and r: "r \<in> set t" "r' = ?g r"
    by (auto simp: set_sql_update)
  from b p r ok [of p] ok [of r] have "blocks p r"
    by (auto simp: blocks_def row_update_ok_def split: if_splits)
  with assms(1) p r have "never_leased r" by (auto simp: thread_ordered_def)
  with r p \<open>blocks p r\<close> ok [of r] show "never_leased r'"
    by (auto simp: row_update_ok_def)
qed

lemma rows_inv_update:
  assumes inv: "rows_inv limits n t" and ok: "\<And>r. r \<in> set t \<Longrightarrow> P r \<Longrightarrow> row_update_ok t f r"
  shows "rows_inv limits n (sql_update P f t)"
proof -
  have keys: "map dl_delivery_id (sql_update P f t) = map dl_delivery_id t"
    "map dl_sequence (sql_update P f t) = map dl_sequence t"
    using ok by (auto simp: sql_update_def row_update_ok_def)
  have "retained_bytes (sql_update P f t) \<le> retained_bytes t"
    using ok by (intro retained_bytes_update) (simp add: row_update_ok_def)
  moreover have "thread_ordered (sql_update P f t)"
    using inv ok by (intro thread_ordered_update) (simp_all add: rows_inv_def)
  ultimately show ?thesis
    using inv ok unfolding rows_inv_def keys length_sql_update
    by (auto simp: set_sql_update row_update_ok_def)
qed

lemma rows_inv_append:
  assumes inv: "rows_inv limits n t" and new: "delivery_ok r" "finished_ok r" "never_leased r"
    and seq: "dl_sequence r = Suc n" and key: "dl_delivery_id r \<notin> dl_delivery_id ` set t"
    and room: "int (length t) < max_rows limits"
      "int (retained_bytes t) + int (body_bytes r) \<le> max_bytes limits"
  shows "rows_inv limits (Suc n) (t @ [r])"
proof -
  have older: "dl_sequence x \<le> n" if "x \<in> set t" for x
    using inv that by (simp add: rows_inv_def)
  then have "thread_ordered (t @ [r])"
    using inv new(3) seq unfolding rows_inv_def thread_ordered_def blocks_def by fastforce
  then show ?thesis
    using inv new seq key room older
    by (auto simp: rows_inv_def sorted_wrt_append less_Suc_eq_le intro: le_SucI)
qed

lemma rows_inv_distinct: "rows_inv limits n t \<Longrightarrow> distinct (map dl_delivery_id t)"
  by (simp add: rows_inv_def)

lemma rows_inv_row: "rows_inv limits n t \<Longrightarrow> r \<in> set t \<Longrightarrow> delivery_ok r \<and> finished_ok r"
  by (simp add: rows_inv_def)


section \<open>Leasing\<close>

lemma sort_key_hd:
  assumes "sort_key k xs = y # ys"
  shows "y \<in> set xs \<and> (\<forall>x \<in> set xs. k y \<le> k x)"
proof -
  have "set (y # ys) = set xs" using assms by (metis set_sort)
  moreover have "sorted (map k (y # ys))" using assms by (metis sorted_sort_key)
  ultimately show ?thesis by auto
qed

lemma sql_update_cong:
  "(\<And>r. r \<in> set t \<Longrightarrow> P r \<longleftrightarrow> Q r) \<Longrightarrow> sql_update P f t = sql_update Q f t"
  by (simp add: sql_update_def)

lemma sql_count_cong: "(\<And>r. r \<in> set t \<Longrightarrow> P r \<longleftrightarrow> Q r) \<Longrightarrow> sql_count P t = sql_count Q t"
  by (simp add: sql_count_def cong: filter_cong)

lemma sql_count_the_row:
  assumes "distinct (map k t)" "row \<in> set t"
  shows "sql_count (\<lambda>r. r = row) t = 1"
proof -
  have "sql_count (\<lambda>r. r = row) t \<le> 1"
    using assms(1) by (rule sql_count_key_le) simp
  moreover have "0 < sql_count (\<lambda>r. r = row) t"
    using assms(2) by (simp add: sql_count_pos)
  ultimately show ?thesis by simp
qed

definition claim_of :: "string \<Rightarrow> delivery \<Rightarrow> bytes \<Rightarrow> delivery_claim" where
  "claim_of token row b =
    \<lparr>cl_delivery_id = dl_delivery_id row, cl_body = b, cl_body_sha256 = dl_body_sha256 row,
     cl_lease_id = token, cl_lease_epoch = dl_lease_epoch row + 1,
     cl_attempt = min (dl_attempts row + 1) MAX_RECORDED_ATTEMPTS\<rparr>"

lemma claim_of_simps [simp]:
  "cl_delivery_id (claim_of token row b) = dl_delivery_id row"
  "cl_body (claim_of token row b) = b"
  "cl_lease_id (claim_of token row b) = token"
  by (simp_all add: claim_of_def)

lemma lease_row_ok:
  "delivery_ok row \<Longrightarrow> due now row \<Longrightarrow> delivery_ok (lease_row now secs token row row)"
  by (auto simp: delivery_ok_def due_def lease_row_def MAX_RECORDED_ATTEMPTS_def)

lemma claimable_body: "delivery_ok row \<Longrightarrow> due now row \<Longrightarrow> \<exists>b. dl_body row = Some b"
  by (auto simp: delivery_ok_def due_def)

lemma gate_of_meta:
  "gate_of s \<noteq> None \<Longrightarrow> \<exists>p v h l i. delivery_meta s ''paused'' = Some p \<and> p \<in> {''0'', ''1''}
     \<and> delivery_meta s ''revision'' = Some v \<and> int_of_str v = Some i
     \<and> delivery_meta s ''pause_holder'' = Some h \<and> delivery_meta s ''last_resumed_holder'' = Some l"
  by (auto simp: gate_of_def split: option.splits if_splits)

lemma gate_of_Some:
  "gate_of s = Some g \<longleftrightarrow>
     delivery_meta s ''paused'' = Some (if pg_paused g then ''1'' else ''0'')
   \<and> (\<exists>v. delivery_meta s ''revision'' = Some v \<and> int_of_str v = Some (pg_revision g))
   \<and> delivery_meta s ''pause_holder'' = Some (pg_holder g)
   \<and> delivery_meta s ''last_resumed_holder'' = Some (pg_last_resumed g)"
  by (cases g) (auto simp: gate_of_def split: option.splits if_splits)

text \<open>What a claim does: nothing while paused, nothing when no row is claimable, and otherwise it
  leases exactly the claimable row with the least sequence number and hands out its body.\<close>

lemma claim_next_sync_cases:
  assumes inv: "spool_inv limits s" and run: "claim_next_sync now token secs s = (res, s')"
  obtains
    (paused) "delivery_meta s ''paused'' = Some ''1''" "res = Inr None" "s' = s"
  | (idle) "delivery_meta s ''paused'' = Some ''0''"
      "\<forall>r \<in> set (deliveries s). \<not> claimable now (deliveries s) r" "res = Inr None" "s' = s"
  | (claimed) row b where "delivery_meta s ''paused'' = Some ''0''"
      "row \<in> set (deliveries s)" "claimable now (deliveries s) row"
      "\<forall>r \<in> set (deliveries s). claimable now (deliveries s) r \<longrightarrow> dl_sequence row \<le> dl_sequence r"
      "dl_body row = Some b" "res = Inr (Some (claim_of token row b))"
      "s' = s\<lparr>deliveries := sql_update (\<lambda>r. r = row) (lease_row now secs token row) (deliveries s)\<rparr>"
proof -
  let ?t = "deliveries s"
  from inv obtain p where p: "delivery_meta s ''paused'' = Some p" "p \<in> {''0'', ''1''}"
    using gate_of_meta [of s] by (auto simp: spool_inv_def)
  show thesis
  proof (cases "p = ''1''")
    case True
    with p run show thesis by (intro paused) (auto simp: claim_next_sync_def meta_def)
  next
    case False
    with p have p0: "delivery_meta s ''paused'' = Some ''0''" by simp
    show thesis
    proof (cases "sort_key dl_sequence (filter (claimable now ?t) ?t)")
      case Nil
      then have "filter (claimable now ?t) ?t = []"
        by (metis length_0_conv length_sort)
      with Nil p0 run show thesis
        by (intro idle) (auto simp: claim_next_sync_def meta_def filter_empty_conv)
    next
      case (Cons row rest)
      from sort_key_hd [OF Cons] have row: "row \<in> set ?t" "claimable now ?t row"
        "\<forall>r \<in> set ?t. claimable now ?t r \<longrightarrow> dl_sequence row \<le> dl_sequence r" by auto
      from inv have rinv: "rows_inv limits (sequence_counter s) ?t" by (simp add: spool_inv_def)
      from rows_inv_row [OF this row(1)] row(2) have ok: "delivery_ok row" "due now row"
        by (auto simp: claimable_def)
      then obtain b where b: "dl_body row = Some b" using claimable_body by blast
      let ?P = "\<lambda>r. dl_delivery_id r = dl_delivery_id row \<and> dl_lease_epoch r = dl_lease_epoch row
                    \<and> due now r"
      have P: "?P r \<longleftrightarrow> r = row" if "r \<in> set ?t" for r
        using distinct_key_eq [OF rows_inv_distinct [OF rinv] that row(1)] ok(2) by auto
      have "sql_update_checked delivery_ok ?P (lease_row now secs token row) ?t
            = Some (sql_update ?P (lease_row now secs token row) ?t, sql_count ?P ?t)"
        using P lease_row_ok [OF ok] by (intro sql_update_checked_ok) auto
      also have "\<dots> = Some (sql_update (\<lambda>r. r = row) (lease_row now secs token row) ?t, 1)"
        using P sql_count_the_row [OF rows_inv_distinct [OF rinv] row(1)]
          sql_update_cong [of ?t ?P "\<lambda>r. r = row"] sql_count_cong [of ?t ?P "\<lambda>r. r = row"] by simp
      finally show thesis
        using run p0 Cons b row
        by (intro claimed [of row b]) (auto simp: claim_next_sync_def meta_def claim_of_def)
    qed
  qed
qed

end
