(* ===== verification/Delivery_Spool_Steps.thy ===== *)
theory Delivery_Spool_Steps
  imports Delivery_Spool_Inv
begin

text \<open>
  Every operation of the durable queue, as a step: its exact outcome on a well-formed database
  (no \<open>CHECK\<close> constraint can fail, so the integrity errors of the model are unreachable), the
  pause gate as a refinement of a four-field abstract gate, and the preservation of
  \<open>spool_inv\<close> by every operation and by every sequence of operations.
\<close>

section \<open>Completion and retry of a lease\<close>

lemma holds_lease_unique:
  assumes "rows_inv limits n t"
  shows "sql_count (holds_lease c) t = (if \<exists>r \<in> set t. holds_lease c r then 1 else 0)"
proof -
  have "sql_count (holds_lease c) t \<le> 1"
    using rows_inv_distinct [OF assms] by (rule sql_count_key_le) (simp add: holds_lease_def)
  then show ?thesis
    using sql_count_pos [of "holds_lease c" t] by (auto simp: le_Suc_eq sql_count_zero)
qed

lemma finish_row_ok:
  "delivery_ok r \<Longrightarrow> holds_lease c r \<Longrightarrow> st \<in> {Delivered, Rejected, Dead} \<Longrightarrow>
   row_update_ok t (finish_row now st code err) r"
  by (auto simp: row_update_ok_def finish_row_def delivery_ok_def holds_lease_def finished_ok_def
      body_bytes_def pending_def never_leased_def)

lemma retry_row_ok:
  "delivery_ok r \<Longrightarrow> holds_lease c r \<Longrightarrow> row_update_ok t (retry_row due_at code err) r"
  by (auto simp: row_update_ok_def retry_row_def delivery_ok_def holds_lease_def finished_ok_def
      body_bytes_def pending_def never_leased_def)

lemma revive_row_ok:
  "delivery_ok r \<Longrightarrow> dl_state r = Dead \<Longrightarrow> row_update_ok t (revive_row now) r"
  by (auto simp: row_update_ok_def revive_row_def delivery_ok_def finished_ok_def
      body_bytes_def pending_def never_leased_def)

lemma row_update_ok_delivery_ok: "row_update_ok t f r \<Longrightarrow> delivery_ok (f r)"
  by (simp add: row_update_ok_def)

lemma checked_row_update:
  assumes "\<And>r. r \<in> set t \<Longrightarrow> P r \<Longrightarrow> row_update_ok t f r"
  shows "sql_update_checked delivery_ok P f t = Some (sql_update P f t, sql_count P t)"
  using assms by (intro sql_update_checked_ok) (blast dest: row_update_ok_delivery_ok)

lemma spool_inv_rows: "spool_inv limits s \<Longrightarrow> rows_inv limits (sequence_counter s) (deliveries s)"
  by (simp add: spool_inv_def)

lemma spool_inv_row_ok: "spool_inv limits s \<Longrightarrow> r \<in> set (deliveries s) \<Longrightarrow> delivery_ok r"
  by (auto simp: spool_inv_def rows_inv_def)

text \<open>An update of the rows that touches neither the metadata nor the counter.\<close>

lemma gate_of_deliveries [simp]:
  "gate_of (s\<lparr>deliveries := t\<rparr>) = gate_of s"
  "gate_of (s\<lparr>sequence_counter := n\<rparr>) = gate_of s"
  by (simp_all add: gate_of_def)

lemma spool_inv_update:
  assumes "spool_inv limits s" "\<And>r. r \<in> set (deliveries s) \<Longrightarrow> P r \<Longrightarrow> row_update_ok (deliveries s) f r"
  shows "spool_inv limits (s\<lparr>deliveries := sql_update P f (deliveries s)\<rparr>)"
  using assms rows_inv_update [of limits "sequence_counter s" "deliveries s" P f]
  by (simp add: spool_inv_def)

lemma finish_sync_eq:
  assumes "spool_inv limits s" "st \<in> {Delivered, Rejected, Dead}"
  shows "finish_sync now c st code err s =
    (Inr (\<exists>r \<in> set (deliveries s). holds_lease c r),
     s\<lparr>deliveries := sql_update (holds_lease c) (finish_row now st code err) (deliveries s)\<rparr>)"
proof -
  have "sql_update_checked delivery_ok (holds_lease c) (finish_row now st code err) (deliveries s)
      = Some (sql_update (holds_lease c) (finish_row now st code err) (deliveries s),
              sql_count (holds_lease c) (deliveries s))"
    using assms by (intro checked_row_update finish_row_ok) (auto intro: spool_inv_row_ok)
  then show ?thesis
    using assms(2) holds_lease_unique [OF spool_inv_rows [OF assms(1)], of c]
    by (auto simp: finish_sync_def)
qed

lemma retry_sync_eq:
  assumes "spool_inv limits s"
  shows "retry_sync now c delay code err s =
    (Inr (\<exists>r \<in> set (deliveries s). holds_lease c r),
     s\<lparr>deliveries := sql_update (holds_lease c) (retry_row (now + delay) code err) (deliveries s)\<rparr>)"
proof -
  have "sql_update_checked delivery_ok (holds_lease c) (retry_row (now + delay) code err) (deliveries s)
      = Some (sql_update (holds_lease c) (retry_row (now + delay) code err) (deliveries s),
              sql_count (holds_lease c) (deliveries s))"
    using assms by (intro checked_row_update retry_row_ok) (auto intro: spool_inv_row_ok)
  then show ?thesis
    using holds_lease_unique [OF spool_inv_rows [OF assms(1)], of c]
    by (auto simp: retry_sync_def)
qed

lemma finish_sync_inv:
  assumes "spool_inv limits s"
  shows "spool_inv limits (snd (finish_sync now c st code err s))"
proof (cases "st \<in> {Delivered, Rejected, Dead}")
  case True
  with assms show ?thesis
    by (auto simp: finish_sync_eq [OF assms True]
        intro!: spool_inv_update finish_row_ok intro: spool_inv_row_ok)
qed (use assms in \<open>simp add: finish_sync_def\<close>)

lemma retry_sync_inv:
  assumes "spool_inv limits s"
  shows "spool_inv limits (snd (retry_sync now c delay code err s))"
  using assms by (auto simp: retry_sync_eq [OF assms]
      intro!: spool_inv_update retry_row_ok intro: spool_inv_row_ok)

lemma claim_row_ok:
  assumes "delivery_ok row" "finished_ok row" "claimable now t row"
  shows "row_update_ok t (lease_row now secs token row) row"
proof -
  have due: "due now row" and free: "\<forall>p \<in> set t. \<not> blocks p row"
    using assms(3) by (auto simp: claimable_def list_ex_iff)
  have "finished_ok (lease_row now secs token row row)"
    using assms(2) due by (auto simp: finished_ok_def lease_row_def due_def)
  moreover have "pending row" using due by (auto simp: pending_def due_def)
  ultimately show ?thesis
    using lease_row_ok [OF assms(1) due] free
    by (simp add: row_update_ok_def) (simp add: lease_row_def body_bytes_def)
qed

lemma claim_next_sync_inv:
  assumes "spool_inv limits s"
  shows "spool_inv limits (snd (claim_next_sync now token secs s))"
proof -
  obtain res s' where run: "claim_next_sync now token secs s = (res, s')" by fastforce
  from assms run show ?thesis
  proof (cases rule: claim_next_sync_cases)
    case (claimed row b)
    have "delivery_ok row \<and> finished_ok row"
      using rows_inv_row [OF spool_inv_rows [OF assms] claimed(2)] .
    then show ?thesis
      using run claimed(3,7) by (auto intro!: spool_inv_update [OF assms] claim_row_ok)
  qed (use assms run in auto)
qed

section \<open>Enqueue\<close>

lemma purge_expired_inv:
  assumes "spool_inv limits s"
  shows "spool_inv limits (purge_expired now s)"
  using assms by (simp add: spool_inv_def purge_expired_def rows_inv_delete)

lemma purge_expired_fields [simp]:
  "sequence_counter (purge_expired now s) = sequence_counter s"
  "user_version (purge_expired now s) = user_version s"
  "delivery_meta (purge_expired now s) = delivery_meta s"
  "gate_of (purge_expired now s) = gate_of s"
  by (simp_all add: purge_expired_def)

lemma purge_expired_rows:
  "r \<in> set (deliveries (purge_expired now s)) \<longleftrightarrow>
   r \<in> set (deliveries s) \<and> \<not> finished_before Delivered (now - DELIVERED_RETENTION_SECONDS) r
     \<and> \<not> finished_before Rejected (now - REJECTED_RETENTION_SECONDS) r"
  by (auto simp: purge_expired_def)

lemma purge_keeps_pending:
  "r \<in> set (deliveries s) \<Longrightarrow> pending r \<Longrightarrow> r \<in> set (deliveries (purge_expired now s))"
  by (auto simp: purge_expired_rows finished_before_def pending_def)

lemma enqueue_sync_inv:
  assumes "spool_inv limits s"
  shows "spool_inv limits (snd (enqueue_sync limits now d k body h s))"
proof -
  let ?s = "purge_expired now s"
  let ?row = "new_delivery (Suc (sequence_counter s)) d k body h now"
  have inv: "spool_inv limits ?s" using assms by (rule purge_expired_inv)
  show ?thesis
  proof (cases "sql_first (\<lambda>r. dl_delivery_id r = d) (deliveries ?s)")
    case None
    then have new: "d \<notin> dl_delivery_id ` set (deliveries ?s)"
      by (simp add: find_key_None)
    show ?thesis
    proof (cases "int (length (deliveries ?s)) < max_rows limits
        \<and> int (retained_bytes (deliveries ?s)) + int (length body) \<le> max_bytes limits
        \<and> delivery_ok ?row")
      case True
      then have "rows_inv limits (Suc (sequence_counter s)) (deliveries ?s @ [?row])"
        using spool_inv_rows [OF inv] new
        by (intro rows_inv_append)
          (auto simp: new_delivery_def finished_ok_def never_leased_def body_bytes_def)
      with True None inv show ?thesis
        by (simp add: enqueue_sync_def Let_def spool_inv_def)
    next
      case False
      then have "snd (enqueue_sync limits now d k body h s) = s"
        using None by (auto simp: enqueue_sync_def Let_def)
      with assms show ?thesis by simp
    qed
  next
    case (Some r)
    then have "snd (enqueue_sync limits now d k body h s) \<in> {s, ?s}"
      by (simp add: enqueue_sync_def Let_def)
    with assms inv show ?thesis by auto
  qed
qed

section \<open>The pause gate\<close>

text \<open>The gate without its encoding in text cells.  A pause is granted to a holder that did not hold
  the previous pause, at the current revision; the same holder may repeat its own call at the
  revision before or after.\<close>

definition gate_pause :: "string \<Rightarrow> int \<Rightarrow> pause_gate \<Rightarrow> pause_gate option" where
  "gate_pause holder expected g =
    (if pg_paused g then
       (if pg_holder g = holder \<and> expected \<in> {pg_revision g, pg_revision g - 1} then Some g else None)
     else if pg_last_resumed g = holder \<or> expected \<noteq> pg_revision g then None
     else Some \<lparr>pg_paused = True, pg_revision = pg_revision g + 1, pg_holder = holder, pg_last_resumed = ''''\<rparr>)"

definition gate_resume :: "string \<Rightarrow> int \<Rightarrow> pause_gate \<Rightarrow> pause_gate option" where
  "gate_resume holder expected g =
    (if \<not> pg_paused g then
       (if pg_last_resumed g = holder \<and> expected \<in> {pg_revision g, pg_revision g - 1} then Some g else None)
     else if pg_holder g \<noteq> holder \<or> expected \<noteq> pg_revision g then None
     else Some \<lparr>pg_paused = False, pg_revision = pg_revision g + 1, pg_holder = '''', pg_last_resumed = holder\<rparr>)"

lemma gate_reads:
  assumes "gate_of s = Some g"
  shows "meta_paused s = Inr (pg_paused g)" "meta_revision s = Inr (pg_revision g)"
    "meta s ''pause_holder'' = Inr (pg_holder g)" "meta s ''last_resumed_holder'' = Inr (pg_last_resumed g)"
  using assms by (auto simp: gate_of_Some meta_paused_def meta_revision_def meta_def)

lemma set_meta_rows [simp]:
  "deliveries (set_meta k v s) = deliveries s"
  "sequence_counter (set_meta k v s) = sequence_counter s"
  "user_version (set_meta k v s) = user_version s"
  by (simp_all add: set_meta_def split: option.split)

lemma set_meta_present:
  "k \<in> dom (delivery_meta s) \<Longrightarrow> set_meta k v s = s\<lparr>delivery_meta := (delivery_meta s)(k \<mapsto> v)\<rparr>"
  by (auto simp: set_meta_def)

definition write_gate :: "pause_gate \<Rightarrow> spool \<Rightarrow> spool" where
  "write_gate g s = set_meta ''revision'' (str_of_int (pg_revision g))
     (set_meta ''last_resumed_holder'' (pg_last_resumed g)
       (set_meta ''pause_holder'' (pg_holder g)
         (set_meta ''paused'' (if pg_paused g then ''1'' else ''0'') s)))"

lemma gate_of_write_gate:
  assumes "gate_of s \<noteq> None"
  shows "gate_of (write_gate g s) = Some g"
  using gate_of_meta [OF assms]
  by (auto simp: write_gate_def set_meta_present domI gate_of_Some)

lemma write_gate_rows [simp]:
  "deliveries (write_gate g s) = deliveries s"
  "sequence_counter (write_gate g s) = sequence_counter s"
  "user_version (write_gate g s) = user_version s"
  by (simp_all add: write_gate_def)

lemma spool_inv_write_gate: "spool_inv limits s \<Longrightarrow> spool_inv limits (write_gate g s)"
  by (simp add: spool_inv_def gate_of_write_gate)

lemma status_of_ok:
  "gate_of s = Some g \<Longrightarrow> \<exists>st. status_of now s = Inr st \<and> ds_paused st = pg_paused g
     \<and> ds_revision st = pg_revision g"
  by (simp add: status_of_def gate_reads Let_def)

text \<open>Pausing and resuming are the abstract transitions: the same error exactly when the abstract
  gate refuses, and the new gate written back otherwise.\<close>

lemma pause_sync_gate:
  assumes "gate_of s = Some g"
  shows "pause_sync now holder expected s =
    (case gate_pause holder expected g of
       None \<Rightarrow> (Inl DeliveryAdminConflict, s)
     | Some g' \<Rightarrow> if g' = g then (status_of now s, s)
                 else (status_of now (write_gate g' s), write_gate g' s))"
  using assms
  by (cases g) (auto simp: pause_sync_def gate_reads gate_pause_def write_gate_def Let_def)

lemma resume_sync_gate:
  assumes "gate_of s = Some g"
  shows "resume_sync now holder expected s =
    (case gate_resume holder expected g of
       None \<Rightarrow> (Inl DeliveryAdminConflict, s)
     | Some g' \<Rightarrow> if g' = g then (status_of now s, s)
                 else (status_of now (write_gate g' s), write_gate g' s))"
  using assms
  by (cases g) (auto simp: resume_sync_def gate_reads gate_resume_def write_gate_def Let_def)

lemma pause_sync_inv:
  assumes "spool_inv limits s"
  shows "spool_inv limits (snd (pause_sync now holder expected s))"
proof -
  from assms obtain g where "gate_of s = Some g" by (auto simp: spool_inv_def)
  with assms show ?thesis
    by (simp add: pause_sync_gate spool_inv_write_gate split: option.split)
qed

lemma resume_sync_inv:
  assumes "spool_inv limits s"
  shows "spool_inv limits (snd (resume_sync now holder expected s))"
proof -
  from assms obtain g where "gate_of s = Some g" by (auto simp: spool_inv_def)
  with assms show ?thesis
    by (simp add: resume_sync_gate spool_inv_write_gate split: option.split)
qed

section \<open>Recovery of dead deliveries\<close>

lemma retry_dead_sync_eq:
  assumes "spool_inv limits s" "gate_of s = Some g"
  shows "retry_dead_sync now now2 holder expected s =
    (if \<not> pg_paused g \<or> pg_holder g \<noteq> holder \<or> pg_revision g \<noteq> expected
        \<or> sql_count (lease_active now) (deliveries s) \<noteq> 0
     then (Inl DeliveryAdminConflict, s)
     else
       let s' = s\<lparr>deliveries := sql_update (\<lambda>r. dl_state r = Dead) (revive_row now) (deliveries s)\<rparr> in
       (bindE (status_of now2 s') (\<lambda>st. Inr (sql_count (\<lambda>r. dl_state r = Dead) (deliveries s), st)), s'))"
proof -
  have "sql_update_checked delivery_ok (\<lambda>r. dl_state r = Dead) (revive_row now) (deliveries s)
      = Some (sql_update (\<lambda>r. dl_state r = Dead) (revive_row now) (deliveries s),
              sql_count (\<lambda>r. dl_state r = Dead) (deliveries s))"
    using assms(1) by (intro checked_row_update revive_row_ok) (auto intro: spool_inv_row_ok)
  then show ?thesis
    by (simp add: retry_dead_sync_def gate_reads [OF assms(2)] Let_def raise_if_def)
qed

lemma retry_dead_sync_inv:
  assumes "spool_inv limits s"
  shows "spool_inv limits (snd (retry_dead_sync now now2 holder expected s))"
proof -
  from assms obtain g where g: "gate_of s = Some g" by (auto simp: spool_inv_def)
  have "spool_inv limits
      (s\<lparr>deliveries := sql_update (\<lambda>r. dl_state r = Dead) (revive_row now) (deliveries s)\<rparr>)"
    using assms by (intro spool_inv_update revive_row_ok) (auto intro: spool_inv_row_ok)
  with assms show ?thesis
    by (simp add: retry_dead_sync_eq [OF assms g] Let_def)
qed

section \<open>Operations as steps\<close>

datatype spool_op =
    OpEnqueue bool time pydict
  | OpClaim bool time string rat
  | OpDelivered bool time delivery_claim
  | OpRejected bool time delivery_claim int "string option"
  | OpDead bool time delivery_claim "int option" "string option"
  | OpRetry bool time delivery_claim rat "int option" "string option"
  | OpIsPaused bool
  | OpPause bool time string int
  | OpResume bool time string int
  | OpRetryDead bool time time string int
  | OpStatus bool time
  | OpLeaseDeadline bool time

datatype spool_reply =
    ReEnqueue "spool_error + enqueue_result"
  | ReClaim "spool_error + delivery_claim option"
  | ReBool "spool_error + bool"
  | ReStatus "spool_error + delivery_status"
  | ReRetryDead "spool_error + nat \<times> delivery_status"
  | ReDeadline "spool_error + time option"

fun spool_exec :: "(rat \<Rightarrow> string) \<Rightarrow> spool_limits \<Rightarrow> spool_op \<Rightarrow> spool \<Rightarrow> spool_reply \<times> spool" where
  "spool_exec frepr limits (OpEnqueue io now event) s = apfst ReEnqueue (enqueue frepr limits io now event s)"
| "spool_exec frepr limits (OpClaim io now token secs) s = apfst ReClaim (claim_next io now token secs s)"
| "spool_exec frepr limits (OpDelivered io now c) s = apfst ReBool (mark_delivered io now c s)"
| "spool_exec frepr limits (OpRejected io now c code err) s =
    apfst ReBool (mark_rejected io now c code err s)"
| "spool_exec frepr limits (OpDead io now c code err) s = apfst ReBool (mark_dead io now c code err s)"
| "spool_exec frepr limits (OpRetry io now c delay code err) s =
    apfst ReBool (mark_retry io now c delay code err s)"
| "spool_exec frepr limits (OpIsPaused io) s = apfst ReBool (is_paused io s)"
| "spool_exec frepr limits (OpPause io now holder expected) s = apfst ReStatus (pause io now holder expected s)"
| "spool_exec frepr limits (OpResume io now holder expected) s = apfst ReStatus (resume io now holder expected s)"
| "spool_exec frepr limits (OpRetryDead io now now2 holder expected) s =
    apfst ReRetryDead (retry_dead io now now2 holder expected s)"
| "spool_exec frepr limits (OpStatus io now) s = apfst ReStatus (status io now s)"
| "spool_exec frepr limits (OpLeaseDeadline io now) s = apfst ReDeadline (active_lease_deadline io now s)"

fun spool_run :: "(rat \<Rightarrow> string) \<Rightarrow> spool_limits \<Rightarrow> spool_op list \<Rightarrow> spool \<Rightarrow> spool_reply list \<times> spool" where
  "spool_run frepr limits [] s = ([], s)"
| "spool_run frepr limits (a # ops) s =
    (let (r, s') = spool_exec frepr limits a s; (rs, s'') = spool_run frepr limits ops s' in (r # rs, s''))"

lemma run_sync_inv:
  assumes "spool_inv limits s" "\<And>s. spool_inv limits s \<Longrightarrow> spool_inv limits (snd (tx s))"
  shows "spool_inv limits (snd (run_sync io tx s))"
  using assms by (simp add: run_sync_def)

lemmas sync_inv = finish_sync_inv retry_sync_inv claim_next_sync_inv enqueue_sync_inv
  pause_sync_inv resume_sync_inv retry_dead_sync_inv

lemmas public_defs = enqueue_def claim_next_def mark_delivered_def mark_rejected_def mark_dead_def
  mark_retry_def is_paused_def pause_def resume_def retry_dead_def status_def active_lease_deadline_def

lemma spool_exec_inv:
  assumes "spool_inv limits s"
  shows "spool_inv limits (snd (spool_exec frepr limits a s))"
  using assms
  by (cases a)
    (auto simp: public_defs Let_def is_paused_sync_def status_sync_def active_lease_deadline_sync_def
      intro!: run_sync_inv sync_inv split: sum.split)

lemma spool_run_inv:
  "spool_inv limits s \<Longrightarrow> spool_inv limits (snd (spool_run frepr limits ops s))"
proof (induction ops arbitrary: s)
  case (Cons a ops)
  then show ?case
    using spool_exec_inv [of limits s frepr a] by (simp add: split_beta Let_def)
qed simp

text \<open>A fresh file becomes a well-formed empty queue, and opening an existing one keeps it.\<close>

lemma initialize_database_inv:
  assumes "s = empty_database \<or> spool_inv limits s" "1 \<le> max_rows limits" "1 \<le> max_bytes limits"
  shows "fst (initialize_database s) = Inr () \<and> spool_inv limits (snd (initialize_database s))"
proof (cases "s = empty_database")
  case True
  have "int_of_str ''0'' = Some 0"
  proof -
    have "str_of_int 0 = ''0''" by code_simp
    then show ?thesis using int_of_str_str_of_int [of 0] by simp
  qed
  with True assms(2,3) show ?thesis
    by (simp add: initialize_database_def empty_database_def spool_inv_def gate_of_def meta_defaults_def
        rows_inv_def thread_ordered_def)
next
  case False
  with assms(1) have inv: "spool_inv limits s" by simp
  have "gate_of (snd (initialize_database s)) = gate_of s"
    using gate_of_meta [of s] inv
    by (auto simp: spool_inv_def initialize_database_def gate_of_def map_add_def)
  with inv show ?thesis
    by (simp add: spool_inv_def initialize_database_def)
qed

end
