(* ===== verification/Delivery_Spool_Runs.thy ===== *)
theory Delivery_Spool_Runs
  imports Delivery_Spool_Steps
begin

text \<open>
  What a sequence of queue operations does to one row.  \<open>spool_exec_cases\<close> lists the six effects an
  operation can have on the table; the lemmas after it follow one row, one lease and the pause gate
  through arbitrary sequences of operations of all processes that share the database file.
\<close>

section \<open>The effects of one operation\<close>

fun finishing :: "spool_op \<Rightarrow> (delivery_claim \<times> delivery_state) option" where
  "finishing (OpDelivered io now c) = Some (c, Delivered)"
| "finishing (OpRejected io now c code err) = Some (c, Rejected)"
| "finishing (OpDead io now c code err) = Some (c, Dead)"
| "finishing _ = None"

lemma finishing_state: "finishing a = Some (c, st) \<Longrightarrow> st \<in> {Delivered, Rejected, Dead}"
  by (cases a) auto

lemma pause_sync_deliveries:
  "spool_inv limits s \<Longrightarrow> deliveries (snd (pause_sync now h e s)) = deliveries s"
  by (auto simp: spool_inv_def pause_sync_gate split: option.split)

lemma resume_sync_deliveries:
  "spool_inv limits s \<Longrightarrow> deliveries (snd (resume_sync now h e s)) = deliveries s"
  by (auto simp: spool_inv_def resume_sync_gate split: option.split)

lemma enqueue_sync_rows:
  "deliveries (snd (enqueue_sync limits now d k body h s)) = deliveries s \<or>
   (\<exists>new. set new \<subseteq> {new_delivery (Suc (sequence_counter s)) d k body h now} \<and>
      deliveries (snd (enqueue_sync limits now d k body h s)) = deliveries (purge_expired now s) @ new)"
proof -
  have "\<exists>new. set new \<subseteq> {x} \<and> t = t @ new" for x :: delivery and t
    by (rule exI [of _ "[]"]) simp
  moreover have "\<exists>new. set new \<subseteq> {x} \<and> t @ [x] = t @ new" for x :: delivery and t
    by (rule exI [of _ "[x]"]) simp
  ultimately show ?thesis
    by (auto simp: enqueue_sync_def Let_def split: option.split)
qed

text \<open>The five ways the table can change: an enqueue, a claim, a completion, a retry and a
  recovery; every other operation leaves it alone.\<close>

lemma spool_exec_cases:
  assumes inv: "spool_inv limits s" and exec: "spool_exec frepr limits a s = (rep, s')"
  obtains
    (same) "deliveries s' = deliveries s"
  | (enqueue) now event new where "a = OpEnqueue True now event"
      "\<forall>r \<in> set new. never_leased r \<and> dl_lease_id r = None"
      "deliveries s' = deliveries (purge_expired now s) @ new"
  | (claim) now token secs row b where "a = OpClaim True now token secs" "0 < secs"
      "row \<in> set (deliveries s)" "claimable now (deliveries s) row" "dl_body row = Some b"
      "rep = ReClaim (Inr (Some (claim_of token row b)))"
      "deliveries s' = sql_update (\<lambda>r. r = row) (lease_row now secs token row) (deliveries s)"
  | (finish) now c st code err where "finishing a = Some (c, st)"
      "deliveries s' = sql_update (holds_lease c) (finish_row now st code err) (deliveries s)"
  | (retry) io now c delay code err later code' err' where "a = OpRetry io now c delay code err"
      "deliveries s' = sql_update (holds_lease c) (retry_row later code' err') (deliveries s)"
  | (revive) io now now2 h e where "a = OpRetryDead io now now2 h e"
      "deliveries s' = sql_update (\<lambda>r. dl_state r = Dead) (revive_row now) (deliveries s)"
proof (cases a)
  case (OpEnqueue io now event)
  then have "deliveries s' = deliveries s \<or> io \<and> (\<exists>d k body h. s' = snd (enqueue_sync limits now d k body h s))"
    using exec
    by (auto simp: enqueue_def run_sync_def Let_def apfst_eq_Pair split: sum.splits if_splits)
      (metis snd_conv)
  then consider "deliveries s' = deliveries s"
    | d k body h new where "io" "set new \<subseteq> {new_delivery (Suc (sequence_counter s)) d k body h now}"
        "deliveries s' = deliveries (purge_expired now s) @ new"
    using enqueue_sync_rows by metis
  then show thesis
  proof cases
    case 2
    show thesis
    proof (rule enqueue)
      show "a = OpEnqueue True now event" using OpEnqueue 2(1) by simp
      show "\<forall>r \<in> set new. never_leased r \<and> dl_lease_id r = None"
        using 2(2) by (auto simp: new_delivery_def never_leased_def)
    qed (rule 2(3))
  qed (rule same)
next
  case (OpClaim io now token secs)
  show thesis
  proof (cases "io \<and> 0 < secs")
    case True
    with OpClaim exec obtain res where res: "claim_next_sync now token secs s = (res, s')" "rep = ReClaim res"
      by (auto simp: claim_next_def run_sync_def apfst_eq_Pair)
    from inv res(1) show thesis
    proof (cases rule: claim_next_sync_cases)
      case (claimed row b)
      with OpClaim True res show thesis by (intro claim [of now token secs row b]) auto
    qed (auto intro: same)
  next
    case False
    with OpClaim exec have "s' = s" by (auto simp: claim_next_def run_sync_def split: if_splits)
    then show thesis by (simp add: same)
  qed
next
  case (OpDelivered io now c)
  with exec inv show thesis
    by (cases io) (auto simp: mark_delivered_def run_sync_def finish_sync_eq intro: finish same)
next
  case (OpRejected io now c code err)
  with exec inv show thesis
    by (cases io) (auto simp: mark_rejected_def run_sync_def finish_sync_eq intro: finish same)
next
  case (OpDead io now c code err)
  with exec inv show thesis
    by (cases io) (auto simp: mark_dead_def run_sync_def finish_sync_eq intro: finish same)
next
  case (OpRetry io now c delay code err)
  with exec inv show thesis
    by (cases io) (auto simp: mark_retry_def run_sync_def retry_sync_eq intro: retry same)
next
  case (OpPause io now h e)
  with exec inv have "deliveries s' = deliveries s"
    using pause_sync_deliveries [OF inv, of now h e]
    by (auto simp: pause_def run_sync_def apfst_eq_Pair split: sum.splits if_splits)
  then show thesis by (rule same)
next
  case (OpResume io now h e)
  with exec inv have "deliveries s' = deliveries s"
    using resume_sync_deliveries [OF inv, of now h e]
    by (auto simp: resume_def run_sync_def apfst_eq_Pair split: sum.splits if_splits)
  then show thesis by (rule same)
next
  case (OpRetryDead io now now2 h e)
  from inv obtain g where g: "gate_of s = Some g" by (auto simp: spool_inv_def)
  have "deliveries s' = deliveries s \<or>
      deliveries s' = sql_update (\<lambda>r. dl_state r = Dead) (revive_row now) (deliveries s)"
    using OpRetryDead exec
    by (auto simp: retry_dead_def run_sync_def retry_dead_sync_eq [OF inv g] Let_def
        split: sum.splits if_splits)
  with OpRetryDead show thesis by (auto intro: same revive)
next
  case (OpIsPaused io)
  with exec show thesis by (intro same) (auto simp: is_paused_def run_sync_def is_paused_sync_def split: if_splits)
next
  case (OpStatus io now)
  with exec show thesis by (intro same) (auto simp: status_def run_sync_def status_sync_def split: if_splits)
next
  case (OpLeaseDeadline io now)
  with exec show thesis
    by (intro same) (auto simp: active_lease_deadline_def run_sync_def active_lease_deadline_sync_def
        split: if_splits)
qed

section \<open>A pending row\<close>

text \<open>Two versions of the same queued message: same identity, position and body.\<close>

definition same_message :: "delivery \<Rightarrow> delivery \<Rightarrow> bool" where
  "same_message r r' \<longleftrightarrow>
     dl_delivery_id r' = dl_delivery_id r \<and> dl_sequence r' = dl_sequence r
   \<and> dl_thread_key r' = dl_thread_key r \<and> dl_body_sha256 r' = dl_body_sha256 r
   \<and> dl_body r' = dl_body r \<and> dl_received_at r' = dl_received_at r"

lemma same_message_refl [simp]: "same_message r r"
  by (simp add: same_message_def)

lemma same_message_trans: "same_message r r' \<Longrightarrow> same_message r' r'' \<Longrightarrow> same_message r r''"
  by (simp add: same_message_def)

definition settles :: "string \<Rightarrow> spool_op \<Rightarrow> bool" where
  "settles d a \<longleftrightarrow>
    (case finishing a of
       None \<Rightarrow> False
     | Some (c, st) \<Rightarrow> cl_delivery_id c = d \<and> st \<in> {Delivered, Rejected})"

lemma update_keeps_message:
  assumes "r \<in> set t" "pending r" "P r \<Longrightarrow> same_message r (f r) \<and> pending (f r)"
  shows "\<exists>r' \<in> set (sql_update P f t). same_message r r' \<and> pending r'"
  using assms unfolding set_sql_update
  by (intro bexI [of _ "if P r then f r else r"]) auto

lemma spool_exec_keeps_pending:
  assumes inv: "spool_inv limits s" and r: "r \<in> set (deliveries s)" "pending r"
    and unsettled: "\<not> settles (dl_delivery_id r) a"
  shows "\<exists>r' \<in> set (deliveries (snd (spool_exec frepr limits a s))). same_message r r' \<and> pending r'"
proof -
  obtain rep s' where exec: "spool_exec frepr limits a s = (rep, s')" by fastforce
  from inv exec have "\<exists>r' \<in> set (deliveries s'). same_message r r' \<and> pending r'"
  proof (cases rule: spool_exec_cases)
    case same
    with r show ?thesis by (auto intro: bexI [of _ r])
  next
    case (enqueue now event new)
    with purge_keeps_pending [OF r, of now] r show ?thesis by (auto intro: bexI [of _ r])
  next
    case (claim now token secs row b)
    show ?thesis
      unfolding claim(7) using r
      by (rule update_keeps_message) (simp add: same_message_def lease_row_def pending_def)
  next
    case (finish now c st code err)
    have "st = Dead" if "holds_lease c r"
      using that unsettled finish(1) finishing_state [OF finish(1)]
      by (auto simp: settles_def holds_lease_def)
    then show ?thesis
      unfolding finish(2) using r
      by (intro update_keeps_message) (auto simp: same_message_def finish_row_def pending_def)
  next
    case (retry io now c delay code err later code' err')
    show ?thesis
      unfolding retry(2) using r
      by (rule update_keeps_message) (simp add: same_message_def retry_row_def pending_def)
  next
    case (revive io now now2 h e)
    show ?thesis
      unfolding revive(2) using r
      by (rule update_keeps_message) (simp add: same_message_def revive_row_def pending_def)
  qed
  with exec show ?thesis by simp
qed

lemma spool_run_Cons:
  "snd (spool_run frepr limits (a # ops) s)
   = snd (spool_run frepr limits ops (snd (spool_exec frepr limits a s)))"
  "fst (spool_run frepr limits (a # ops) s)
   = fst (spool_exec frepr limits a s) # fst (spool_run frepr limits ops (snd (spool_exec frepr limits a s)))"
  by (simp_all add: split_beta Let_def)

lemma spool_run_keeps_pending:
  assumes "spool_inv limits s" "r \<in> set (deliveries s)" "pending r"
    "list_all (\<lambda>a. \<not> settles (dl_delivery_id r) a) ops"
  shows "\<exists>r' \<in> set (deliveries (snd (spool_run frepr limits ops s))). same_message r r' \<and> pending r'"
  using assms
proof (induction ops arbitrary: s r)
  case Nil
  then show ?case by (auto intro: bexI [of _ r])
next
  case (Cons a ops)
  let ?s = "snd (spool_exec frepr limits a s)"
  obtain r' where r': "r' \<in> set (deliveries ?s)" "same_message r r'" "pending r'"
    using spool_exec_keeps_pending [of limits s r a frepr] Cons.prems by auto
  then have "\<exists>r'' \<in> set (deliveries (snd (spool_run frepr limits ops ?s))). same_message r' r'' \<and> pending r''"
    using Cons.prems spool_exec_inv [of limits s frepr a]
    by (intro Cons.IH) (auto simp: same_message_def)
  with r'(2) show ?case unfolding spool_run_Cons by (blast intro: same_message_trans)
qed

section \<open>A lease\<close>

definition held :: "delivery_claim \<Rightarrow> spool \<Rightarrow> bool" where
  "held c s \<longleftrightarrow> list_ex (holds_lease c) (deliveries s)"

fun draws :: "string \<Rightarrow> spool_op \<Rightarrow> bool" where
  "draws token (OpClaim io now token' secs) = (token' = token)"
| "draws token _ = False"

lemma held_iff: "held c s \<longleftrightarrow> (\<exists>r \<in> set (deliveries s). holds_lease c r)"
  by (simp add: held_def list_ex_iff)

lemma not_held_update:
  assumes "\<not> held c s" "deliveries s' = sql_update P f (deliveries s)"
    "\<And>r. P r \<Longrightarrow> holds_lease c (f r) \<Longrightarrow> holds_lease c r"
  shows "\<not> held c s'"
  using assms by (auto simp: held_iff set_sql_update)

text \<open>A claim nobody holds stays so as long as no later claim draws its random token.\<close>

lemma spool_exec_not_held:
  assumes inv: "spool_inv limits s" and c: "\<not> held c s" and fresh: "\<not> draws (cl_lease_id c) a"
  shows "\<not> held c (snd (spool_exec frepr limits a s))"
proof -
  obtain rep s' where exec: "spool_exec frepr limits a s = (rep, s')" by fastforce
  from inv exec have "\<not> held c s'"
  proof (cases rule: spool_exec_cases)
    case same
    with c show ?thesis by (simp add: held_iff)
  next
    case (enqueue now event new)
    with c show ?thesis by (auto simp: held_iff purge_expired_rows holds_lease_def)
  next
    case (claim now token secs row b)
    with fresh have "token \<noteq> cl_lease_id c" by simp
    then show ?thesis
      by (intro not_held_update [OF c claim(7)]) (auto simp: holds_lease_def lease_row_def)
  next
    case (finish now c' st code err)
    then show ?thesis
      using finishing_state [OF finish(1)]
      by (intro not_held_update [OF c finish(2)]) (auto simp: holds_lease_def finish_row_def)
  next
    case (retry io now c' delay code err later code' err')
    then show ?thesis
      by (intro not_held_update [OF c retry(2)]) (auto simp: holds_lease_def retry_row_def)
  next
    case (revive io now now2 h e)
    then show ?thesis
      by (intro not_held_update [OF c revive(2)]) (auto simp: holds_lease_def revive_row_def)
  qed
  with exec show ?thesis by simp
qed

lemma spool_run_not_held:
  "spool_inv limits s \<Longrightarrow> \<not> held c s \<Longrightarrow> list_all (\<lambda>a. \<not> draws (cl_lease_id c) a) ops \<Longrightarrow>
   \<not> held c (snd (spool_run frepr limits ops s))"
proof (induction ops arbitrary: s)
  case (Cons a ops)
  show ?case
    unfolding spool_run_Cons using Cons.prems
    by (intro Cons.IH spool_exec_inv spool_exec_not_held) auto
qed simp

text \<open>Two claims name the same lease when they agree on row, token and epoch.  While a lease has not
  expired, only an operation with that very claim can touch its row.\<close>

definition same_lease :: "delivery_claim \<Rightarrow> delivery_claim \<Rightarrow> bool" where
  "same_lease c c' \<longleftrightarrow> cl_delivery_id c' = cl_delivery_id c \<and> cl_lease_id c' = cl_lease_id c
     \<and> cl_lease_epoch c' = cl_lease_epoch c"

fun uses_lease :: "delivery_claim \<Rightarrow> spool_op \<Rightarrow> bool" where
  "uses_lease c (OpDelivered io now c') = same_lease c c'"
| "uses_lease c (OpRejected io now c' code err) = same_lease c c'"
| "uses_lease c (OpDead io now c' code err) = same_lease c c'"
| "uses_lease c (OpRetry io now c' delay code err) = same_lease c c'"
| "uses_lease c _ = False"

fun claims_from :: "time \<Rightarrow> spool_op \<Rightarrow> bool" where
  "claims_from e (OpClaim io now token secs) = (e \<le> now)"
| "claims_from e _ = False"

lemma holds_same_lease: "holds_lease c r \<Longrightarrow> holds_lease c' r \<Longrightarrow> same_lease c c'"
  by (simp add: holds_lease_def same_lease_def)

lemma finishing_uses_lease: "finishing a = Some (c', st) \<Longrightarrow> same_lease c c' \<Longrightarrow> uses_lease c a"
  by (cases a) auto

lemma update_keeps_row: "r \<in> set t \<Longrightarrow> \<not> P r \<Longrightarrow> r \<in> set (sql_update P f t)"
  by (auto simp: set_sql_update)

lemma holds_not_due:
  "holds_lease c r \<Longrightarrow> dl_lease_expires_at r = Some e \<Longrightarrow> now < e \<Longrightarrow> \<not> due now r"
  by (auto simp: holds_lease_def due_def lease_expired_def)

lemma spool_exec_claim:
  assumes inv: "spool_inv limits s"
    and exec: "spool_exec frepr limits a s = (ReClaim (Inr (Some c)), s')"
  obtains now token secs row b where "a = OpClaim True now token secs" "0 < secs"
    "gate_of s \<noteq> None" "delivery_meta s ''paused'' = Some ''0''"
    "row \<in> set (deliveries s)" "claimable now (deliveries s) row" "dl_body row = Some b"
    "c = claim_of token row b"
    "deliveries s' = sql_update (\<lambda>r. r = row) (lease_row now secs token row) (deliveries s)"
proof -
  obtain io now token secs where a: "a = OpClaim io now token secs"
    using exec by (cases a) (auto simp: apfst_eq_Pair)
  with exec have run: "io" "0 < secs" "claim_next_sync now token secs s = (Inr (Some c), s')"
    by (auto simp: apfst_eq_Pair claim_next_def run_sync_def split: if_splits)
  from inv run(3) show thesis
  proof (cases rule: claim_next_sync_cases)
    case (claimed row b)
    with a run inv show thesis by (intro that [of now token secs row b]) (auto simp: spool_inv_def)
  qed auto
qed

lemma spool_exec_keeps_lease:
  assumes inv: "spool_inv limits s" and r: "r \<in> set (deliveries s)" "holds_lease c r"
    and e: "dl_lease_expires_at r = Some e" and a: "\<not> uses_lease c a" "\<not> claims_from e a"
    and exec: "spool_exec frepr limits a s = (rep, s')"
  shows "r \<in> set (deliveries s')
    \<and> (\<forall>c'. rep = ReClaim (Inr (Some c')) \<longrightarrow> cl_delivery_id c' \<noteq> cl_delivery_id c)"
proof (cases "\<exists>c'. rep = ReClaim (Inr (Some c'))")
  case True
  then obtain c' where c': "rep = ReClaim (Inr (Some c'))" by blast
  from inv exec [unfolded c'] show ?thesis
  proof (cases rule: spool_exec_claim)
    case (1 now token secs row b)
    have "now < e" using a(2) 1(1) by simp
    then have "row \<noteq> r" using holds_not_due [OF r(2) e] 1(6) by (auto simp: claimable_def)
    moreover from this have "dl_delivery_id row \<noteq> dl_delivery_id r"
      using distinct_key_eq [OF rows_inv_distinct [OF spool_inv_rows [OF inv]] 1(5) r(1)] by auto
    ultimately show ?thesis
      using r c' 1(8,9) by (auto simp: claim_of_def holds_lease_def intro: update_keeps_row)
  qed
next
  case False
  from inv exec have "r \<in> set (deliveries s')"
  proof (cases rule: spool_exec_cases)
    case same
    with r show ?thesis by simp
  next
    case (enqueue now event new)
    have "pending r" using r(2) by (simp add: holds_lease_def pending_def)
    from purge_keeps_pending [OF r(1) this] enqueue(3) show ?thesis by simp
  next
    case (claim now token secs row b)
    with False show ?thesis by auto
  next
    case (finish now c' st code err)
    then show ?thesis
      using r a(1) finishing_uses_lease holds_same_lease by (metis update_keeps_row)
  next
    case (retry io now c' delay code err later code' err')
    then show ?thesis
      using r a(1) holds_same_lease by (metis update_keeps_row uses_lease.simps(4))
  next
    case (revive io now now2 h e)
    then show ?thesis
      using r by (simp add: holds_lease_def update_keeps_row)
  qed
  with False show ?thesis by simp
qed

lemma spool_run_keeps_lease:
  assumes "spool_inv limits s" "r \<in> set (deliveries s)" "holds_lease c r"
    "dl_lease_expires_at r = Some e" "list_all (\<lambda>a. \<not> uses_lease c a \<and> \<not> claims_from e a) ops"
  shows "r \<in> set (deliveries (snd (spool_run frepr limits ops s)))
    \<and> (\<forall>c'. ReClaim (Inr (Some c')) \<in> set (fst (spool_run frepr limits ops s))
          \<longrightarrow> cl_delivery_id c' \<noteq> cl_delivery_id c)"
  using assms
proof (induction ops arbitrary: s)
  case (Cons a ops)
  obtain rep s' where exec: "spool_exec frepr limits a s = (rep, s')" by fastforce
  have step: "r \<in> set (deliveries s')
      \<and> (\<forall>c'. rep = ReClaim (Inr (Some c')) \<longrightarrow> cl_delivery_id c' \<noteq> cl_delivery_id c)"
    using Cons.prems exec by (intro spool_exec_keeps_lease) auto
  have "spool_inv limits s'"
    using spool_exec_inv [OF Cons.prems(1), of frepr a] exec by simp
  with Cons step show ?case
    unfolding spool_run_Cons exec by auto
qed simp

section \<open>The pause gate\<close>

fun admin_gate_op :: "spool_op \<Rightarrow> bool" where
  "admin_gate_op (OpPause io now h e) = True"
| "admin_gate_op (OpResume io now h e) = True"
| "admin_gate_op _ = False"

lemma spool_exec_meta:
  "\<not> admin_gate_op a \<Longrightarrow> delivery_meta (snd (spool_exec frepr limits a s)) = delivery_meta s"
  by (cases a)
    (auto simp: public_defs run_sync_def Let_def enqueue_sync_def claim_next_sync_def finish_sync_def
      retry_sync_def retry_dead_sync_def is_paused_sync_def status_sync_def active_lease_deadline_sync_def
      split: sum.splits option.splits list.splits if_splits)

lemma gate_of_cong: "delivery_meta s = delivery_meta s' \<Longrightarrow> gate_of s = gate_of s'"
  by (simp add: gate_of_def)

text \<open>A pause is undone only by a resume of its own holder at its own revision.\<close>

fun releases :: "pause_gate \<Rightarrow> spool_op \<Rightarrow> bool" where
  "releases g (OpResume io now h e) = (h = pg_holder g \<and> e = pg_revision g)"
| "releases g _ = False"

lemma spool_exec_paused:
  assumes g: "gate_of s = Some g" "pg_paused g" and a: "\<not> releases g a"
  shows "gate_of (snd (spool_exec frepr limits a s)) = Some g"
proof (cases "admin_gate_op a")
  case False
  then show ?thesis using spool_exec_meta [of a] g(1) gate_of_cong by metis
next
  case True
  with g a show ?thesis
    by (cases a)
      (auto simp: pause_def resume_def run_sync_def pause_sync_gate resume_sync_gate gate_pause_def
        gate_resume_def split: sum.splits)
qed

lemma spool_run_paused:
  assumes "spool_inv limits s" "gate_of s = Some g" "pg_paused g" "list_all (\<lambda>a. \<not> releases g a) ops"
  shows "gate_of (snd (spool_run frepr limits ops s)) = Some g
    \<and> (\<forall>c. ReClaim (Inr (Some c)) \<notin> set (fst (spool_run frepr limits ops s)))"
  using assms
proof (induction ops arbitrary: s)
  case (Cons a ops)
  obtain rep s' where exec: "spool_exec frepr limits a s = (rep, s')" by fastforce
  have gate: "gate_of s' = Some g"
    using spool_exec_paused [of s g a frepr limits] Cons.prems exec by simp
  have inv: "spool_inv limits s'"
    using spool_exec_inv [OF Cons.prems(1), of frepr a] exec by simp
  have "rep \<noteq> ReClaim (Inr (Some c))" for c
    using Cons.prems exec by (auto simp: gate_of_Some elim!: spool_exec_claim)
  then show ?case
    using Cons.IH [OF inv gate] Cons.prems unfolding spool_run_Cons exec by auto
qed simp

end
