(* ===== verification/Delivery_Spool_Props.thy ===== *)
theory Delivery_Spool_Props
  imports Delivery_Spool_Runs
begin

text \<open>
  The properties of the durable queue: safety of every sequence of operations, no loss of an
  acknowledged body, exact deduplication, lease fencing and exclusivity, the order of a thread, the
  durable pause, dead-letter recovery, the status report and progress.  The sample state of the
  witnesses is a queue of two messages of one thread.
\<close>

section \<open>Supporting lemmas\<close>

lemma enqueue_accepted:
  assumes "enqueue frepr limits io now event s = (Inr \<lparr>er_delivery_id = d, er_duplicate = False\<rparr>, s')"
  obtains k where "io" "stable_delivery_id event = Inr d" "stable_thread_key event = Inr k"
    "s' = (purge_expired now s)
       \<lparr>sequence_counter := Suc (sequence_counter s),
        deliveries := deliveries (purge_expired now s) @
          [new_delivery (Suc (sequence_counter s)) d k (canonical_event_body frepr event)
             (sha256 (canonical_event_body frepr event)) now]\<rparr>"
  using assms
  by (auto simp: enqueue_def run_sync_def enqueue_sync_def Let_def split: if_splits sum.splits option.splits)

lemma enqueue_accepted_row:
  assumes "enqueue frepr limits io now event s = (Inr \<lparr>er_delivery_id = d, er_duplicate = False\<rparr>, s')"
  obtains r where "r \<in> set (deliveries s')" "dl_delivery_id r = d" "pending r"
    "dl_body r = Some (canonical_event_body frepr event)"
    "dl_body_sha256 r = sha256 (canonical_event_body frepr event)"
proof -
  from assms show thesis
  proof (rule enqueue_accepted)
    fix k
    let ?r = "new_delivery (Suc (sequence_counter s)) d k (canonical_event_body frepr event)
      (sha256 (canonical_event_body frepr event)) now"
    assume "s' = (purge_expired now s)\<lparr>sequence_counter := Suc (sequence_counter s),
      deliveries := deliveries (purge_expired now s) @ [?r]\<rparr>"
    then have "?r \<in> set (deliveries s')" by simp
    then show thesis by (rule that) (simp_all add: new_delivery_def pending_def)
  qed
qed

lemma enqueue_inv:
  "spool_inv limits s \<Longrightarrow> enqueue frepr limits io now event s = (res, s') \<Longrightarrow> spool_inv limits s'"
  using spool_exec_inv [of limits s frepr "OpEnqueue io now event"] by simp

lemma mark_unheld:
  assumes "spool_inv limits s" "\<not> held c s"
  shows "mark_delivered True now c s = (Inr False, s)" "mark_rejected True now c code err s = (Inr False, s)"
    "mark_dead True now c ocode err s = (Inr False, s)"
    "mark_retry True now c delay ocode err s = (Inr False, s)"
proof -
  from assms(2) have none: "\<not> (\<exists>r \<in> set (deliveries s). holds_lease c r)" by (simp add: held_iff)
  then have "sql_count (holds_lease c) (deliveries s) = 0" by (simp add: sql_count_zero)
  then have upd: "s\<lparr>deliveries := sql_update (holds_lease c) f (deliveries s)\<rparr> = s" for f
    by (simp add: sql_update_nothing)
  from none upd assms(1)
  show "mark_delivered True now c s = (Inr False, s)" "mark_rejected True now c code err s = (Inr False, s)"
    "mark_dead True now c ocode err s = (Inr False, s)"
    "mark_retry True now c delay ocode err s = (Inr False, s)"
    by (simp_all add: mark_delivered_def mark_rejected_def mark_dead_def mark_retry_def run_sync_def
        finish_sync_eq retry_sync_eq)
qed

lemma claimed_row:
  assumes inv: "spool_inv limits s" and claim: "claim_next io now token secs s = (Inr (Some c), s')"
  obtains row b where "io" "0 < secs" "row \<in> set (deliveries s)" "claimable now (deliveries s) row"
    "\<forall>r \<in> set (deliveries s). claimable now (deliveries s) r \<longrightarrow> dl_sequence row \<le> dl_sequence r"
    "dl_body row = Some b" "c = claim_of token row b"
    "s' = s\<lparr>deliveries := sql_update (\<lambda>r. r = row) (lease_row now secs token row) (deliveries s)\<rparr>"
proof -
  from claim have run: "io" "0 < secs" "claim_next_sync now token secs s = (Inr (Some c), s')"
    by (auto simp: claim_next_def run_sync_def split: if_splits)
  from inv run(3) show thesis
    by (cases rule: claim_next_sync_cases) (use run in \<open>auto intro: that\<close>)
qed

lemma claim_inv:
  "spool_inv limits s \<Longrightarrow> claim_next io now token secs s = (res, s') \<Longrightarrow> spool_inv limits s'"
  using spool_exec_inv [of limits s frepr "OpClaim io now token secs"] by simp

text \<open>The leased version of the claimed row is in the new table and carries the claim.\<close>

lemma claimed_row_leased:
  assumes "spool_inv limits s" "claim_next io now token secs s = (Inr (Some c), s')"
  obtains r where "r \<in> set (deliveries s')" "holds_lease c r" "dl_lease_expires_at r = Some (now + secs)"
    "dl_body r = Some (cl_body c)"
proof -
  from assms show thesis
  proof (cases rule: claimed_row)
    case (1 row b)
    show thesis
      by (rule that [of "lease_row now secs token row row"])
        (use 1 in \<open>auto simp: set_sql_update lease_row_def claim_of_def holds_lease_def\<close>)
  qed
qed

text \<open>A new message with a well-formed identity is accepted whenever it fits.\<close>

lemma py_len_digest: "is_digest h \<Longrightarrow> py_len h = 64"
proof -
  assume "is_digest h"
  then have "filter (\<lambda>c. \<not> is_continuation c) h = h" "length h = 64"
    by (auto simp: is_digest_def is_hex_lower_def list_all_iff is_continuation_def is_digit_def
        intro!: filter_True)
  then show ?thesis by (simp add: py_len_def)
qed

lemma enqueue_new:
  assumes "stable_delivery_id event = Inr d" "stable_thread_key event = Inr k"
    and "body = canonical_event_body frepr event" "length body \<le> MAX_EVENT_BYTES"
    and "d \<notin> dl_delivery_id ` set (deliveries (purge_expired now s))"
    and "int (length (deliveries (purge_expired now s))) < max_rows limits"
    and "int (retained_bytes (deliveries (purge_expired now s))) + int (length body) \<le> max_bytes limits"
  shows "fst (enqueue frepr limits True now event s) = Inr \<lparr>er_delivery_id = d, er_duplicate = False\<rparr>"
proof -
  have "delivery_ok (new_delivery n d k body (sha256 body) now)" for n
    by (simp add: delivery_ok_def new_delivery_def py_len_digest)
  moreover have "body \<noteq> []" using assms(3) by (simp add: canonical_event_body_def)
  moreover have "sql_first (\<lambda>r. dl_delivery_id r = d) (deliveries (purge_expired now s)) = None"
    using assms(5) by (simp add: find_key_None)
  ultimately show ?thesis
    using assms by (simp add: enqueue_def run_sync_def enqueue_sync_def Let_def)
qed

section \<open>Samples for the witnesses\<close>

definition sample_limits :: spool_limits where
  "sample_limits = \<lparr>max_rows = 8, max_bytes = 4096\<rparr>"

definition sample_float :: "rat \<Rightarrow> string" where
  "sample_float q = ''0.0''"

definition sample_event :: "string \<Rightarrow> pydict" where
  "sample_event msg =
    [(''event_type'', PStr ''message''),
     (''trust'', PDict
       [(''provider'', PStr ''teams''), (''tenant_id'', PStr ''t''), (''bot_app_id'', PStr ''b''),
        (''actor_aad_object_id'', PStr ''u''), (''conversation_kind'', PStr ''private''),
        (''conversation_id'', PStr ''c''), (''message_id'', PStr msg)])]"

definition sample_open :: spool where
  "sample_open = snd (initialize_database empty_database)"

definition sample_row :: "nat \<Rightarrow> delivery" where
  "sample_row n = new_delivery n [char_of (64 + n)] ''thread'' ''{}'' (replicate 64 CHR ''a'') 10"

definition sample_spool :: spool where
  "sample_spool = sample_open\<lparr>sequence_counter := 2, deliveries := [sample_row 1, sample_row 2]\<rparr>"

lemma sample_limits_of: "spool_limits_of 8 4096 = Inr sample_limits"
  by (simp add: spool_limits_of_def sample_limits_def)

lemma sample_open_inv: "spool_inv sample_limits sample_open"
  using initialize_database_inv [of empty_database sample_limits]
  by (simp add: sample_open_def sample_limits_def)

lemma py_len_replicate_a [simp]: "py_len (replicate n CHR ''a'') = n"
  by (simp add: py_len_def is_continuation_def)

lemma sample_spool_inv: "spool_inv sample_limits sample_spool"
proof -
  have "rows_inv sample_limits 2 [sample_row 1, sample_row 2]"
    by (simp add: rows_inv_def sample_row_def new_delivery_def delivery_ok_def finished_ok_def
        thread_ordered_def blocks_def never_leased_def sample_limits_def body_bytes_def)
  with sample_open_inv show ?thesis by (simp add: spool_inv_def sample_spool_def)
qed

definition sample_id :: string where
  "sample_id = projr (stable_delivery_id (sample_event ''m''))"

lemma sample_identity:
  "stable_delivery_id (sample_event ''m'') = Inr sample_id"
  "\<exists>k. stable_thread_key (sample_event ''m'') = Inr k"
  "length (canonical_event_body sample_float (sample_event ''m'')) \<le> 1000"
proof -
  show "stable_delivery_id (sample_event ''m'') = Inr sample_id"
    by (simp add: sample_id_def stable_delivery_id_def delivery_identity_def sample_event_def
        dict_get_def text_parts_def)
  show "\<exists>k. stable_thread_key (sample_event ''m'') = Inr k"
    by (simp add: stable_thread_key_def sample_event_def dict_get_def text_parts_def)
  show "length (canonical_event_body sample_float (sample_event ''m'')) \<le> 1000"
    by code_simp
qed

definition sample_filled :: spool where
  "sample_filled = snd (enqueue sample_float sample_limits True 10 (sample_event ''m'') sample_open)"

lemma sample_enqueue:
  "enqueue sample_float sample_limits True 10 (sample_event ''m'') sample_open =
    (Inr \<lparr>er_delivery_id = sample_id, er_duplicate = False\<rparr>, sample_filled)"
proof (rule prod_eqI)
  obtain k where k: "stable_thread_key (sample_event ''m'') = Inr k"
    using sample_identity(2) by blast
  have empty: "deliveries (purge_expired 10 sample_open) = []"
    by (simp add: sample_open_def purge_expired_def initialize_database_def empty_database_def sql_delete_def)
  have "fst (enqueue sample_float sample_limits True 10 (sample_event ''m'') sample_open)
      = Inr \<lparr>er_delivery_id = sample_id, er_duplicate = False\<rparr>"
    by (rule enqueue_new [OF sample_identity(1) k refl])
      (use sample_identity(3) in \<open>simp_all add: empty MAX_EVENT_BYTES_def sample_limits_def\<close>)
  then show "fst (enqueue sample_float sample_limits True 10 (sample_event ''m'') sample_open)
      = fst (Inr \<lparr>er_delivery_id = sample_id, er_duplicate = False\<rparr>, sample_filled)" by simp
qed (simp add: sample_filled_def)

section \<open>Properties\<close>

text \<open>C1. Whatever the worker, the ingress and the operators do, in any order and with any I/O
  failures, the queue of a freshly initialized database keeps its schema constraints, unique
  delivery ids, insertion order, both capacity bounds, readable pause metadata and thread order.\<close>

theorem queue_safe:
  assumes "spool_limits_of rows bytes = Inr limits"
  shows "spool_inv limits (snd (spool_run frepr limits ops (snd (initialize_database empty_database))))"
proof -
  from assms have "1 \<le> max_rows limits" "1 \<le> max_bytes limits"
    by (auto simp: spool_limits_of_def split: if_splits)
  then show ?thesis
    using initialize_database_inv [of empty_database limits] by (intro spool_run_inv) simp
qed

theorem queue_safe_witness:
  "spool_limits_of 8 4096 = Inr sample_limits \<and>
   spool_inv sample_limits (snd (spool_run sample_float sample_limits
     [OpEnqueue True 10 (sample_event ''m''), OpClaim True 11 ''tok'' 15, OpStatus True 12,
      OpPause True 12 ''op'' 0, OpClaim True 30 ''tok2'' 15]
     (snd (initialize_database empty_database))))"
  by (intro conjI sample_limits_of queue_safe [OF sample_limits_of])

text \<open>C2. No acknowledged message is lost: once an enqueue has returned a new delivery, its exact
  body and hash stay in the queue, pending, through any later sequence of operations that holds no
  completion of that delivery as delivered or rejected (claims, lease expiries, retries, dead
  lettering, recoveries, pauses, purges and other enqueues included).\<close>

theorem acknowledged_body_kept:
  assumes inv: "spool_inv limits s"
    and ack: "enqueue frepr limits io now event s = (Inr \<lparr>er_delivery_id = d, er_duplicate = False\<rparr>, s')"
    and unsettled: "list_all (\<lambda>a. \<not> settles d a) ops"
  shows "\<exists>r \<in> set (deliveries (snd (spool_run frepr limits ops s'))).
    dl_delivery_id r = d \<and> pending r \<and> dl_body r = Some (canonical_event_body frepr event)
    \<and> dl_body_sha256 r = sha256 (canonical_event_body frepr event)"
proof -
  from ack obtain r where r: "r \<in> set (deliveries s')" "dl_delivery_id r = d" "pending r"
    "dl_body r = Some (canonical_event_body frepr event)"
    "dl_body_sha256 r = sha256 (canonical_event_body frepr event)"
    by (rule enqueue_accepted_row)
  have "\<exists>r' \<in> set (deliveries (snd (spool_run frepr limits ops s'))). same_message r r' \<and> pending r'"
    using spool_run_keeps_pending [OF enqueue_inv [OF inv ack] r(1,3)] unsettled r(2) by simp
  with r show ?thesis by (auto simp: same_message_def)
qed

theorem acknowledged_body_kept_witness:
  "\<exists>r \<in> set (deliveries (snd (spool_run sample_float sample_limits
       [OpClaim True 11 ''tok'' 15, OpClaim True 40 ''tok2'' 15, OpStatus True 41] sample_filled))).
    dl_delivery_id r = sample_id \<and> pending r
    \<and> dl_body r = Some (canonical_event_body sample_float (sample_event ''m''))
    \<and> dl_body_sha256 r = sha256 (canonical_event_body sample_float (sample_event ''m''))"
  by (rule acknowledged_body_kept [OF sample_open_inv sample_enqueue]) (simp add: settles_def)

text \<open>C8. Deduplication: while a delivery is not completed, a further event with the same identity
  adds no row; it is acknowledged as a duplicate when its body is the stored one, and refused as an
  identity conflict, with nothing changed, when its body hash differs.\<close>

theorem redelivery_deduplicated:
  assumes inv: "spool_inv limits s"
    and ack: "enqueue frepr limits io now event s = (Inr \<lparr>er_delivery_id = d, er_duplicate = False\<rparr>, s1)"
    and unsettled: "list_all (\<lambda>a. \<not> settles d a) ops"
    and again: "stable_delivery_id event' = Inr d" "stable_thread_key event' = Inr k"
      "length (canonical_event_body frepr event') \<le> MAX_EVENT_BYTES"
  shows "enqueue frepr limits True later event' (snd (spool_run frepr limits ops s1)) =
    (if sha256 (canonical_event_body frepr event') = sha256 (canonical_event_body frepr event)
     then (Inr \<lparr>er_delivery_id = d, er_duplicate = True\<rparr>,
           purge_expired later (snd (spool_run frepr limits ops s1)))
     else (Inl DeliveryIdentityConflict, snd (spool_run frepr limits ops s1)))"
proof -
  let ?s = "snd (spool_run frepr limits ops s1)"
  have inv1: "spool_inv limits ?s" using enqueue_inv [OF inv ack] by (rule spool_run_inv)
  from ack obtain r0 where r0: "r0 \<in> set (deliveries s1)" "dl_delivery_id r0 = d" "pending r0"
    "dl_body_sha256 r0 = sha256 (canonical_event_body frepr event)"
    by (rule enqueue_accepted_row)
  then obtain r where r: "r \<in> set (deliveries ?s)" "same_message r0 r" "pending r"
    using spool_run_keeps_pending [OF enqueue_inv [OF inv ack] r0(1,3)] unsettled by blast
  have "distinct (map dl_delivery_id (deliveries (purge_expired later ?s)))"
    by (rule rows_inv_distinct [OF spool_inv_rows [OF purge_expired_inv [OF inv1]]])
  from find_key [OF this purge_keeps_pending [OF r(1,3)]]
  have "sql_first (\<lambda>r. dl_delivery_id r = d) (deliveries (purge_expired later ?s)) = Some r"
    using r(2) r0(2) by (simp add: same_message_def)
  then show ?thesis
    using again r0(4) r(2)
    by (auto simp: enqueue_def run_sync_def enqueue_sync_def Let_def same_message_def
        canonical_event_body_def)
qed

theorem redelivery_deduplicated_witness:
  "enqueue sample_float sample_limits True 50 (sample_event ''m'')
     (snd (spool_run sample_float sample_limits [OpClaim True 11 ''tok'' 15] sample_filled)) =
   (Inr \<lparr>er_delivery_id = sample_id, er_duplicate = True\<rparr>,
    purge_expired 50 (snd (spool_run sample_float sample_limits [OpClaim True 11 ''tok'' 15] sample_filled)))"
proof -
  obtain k where k: "stable_thread_key (sample_event ''m'') = Inr k"
    using sample_identity(2) by blast
  have size: "length (canonical_event_body sample_float (sample_event ''m'')) \<le> MAX_EVENT_BYTES"
    using sample_identity(3) by (simp add: MAX_EVENT_BYTES_def)
  have "list_all (\<lambda>a. \<not> settles sample_id a) [OpClaim True 11 ''tok'' 15]"
    by (simp add: settles_def)
  from redelivery_deduplicated [OF sample_open_inv sample_enqueue this sample_identity(1) k size]
  show ?thesis by simp
qed

text \<open>C3. Fencing: once a row has been claimed again under another token, the earlier claim can never
  complete, reject, dead-letter or reschedule it: each of the four calls returns false and changes
  nothing, after any later sequence of operations in which no claim draws the old random token.\<close>

theorem stale_claim_fenced:
  assumes inv: "spool_inv limits s"
    and reclaimed: "claim_next io now token secs s = (Inr (Some c'), s1)"
    and stale: "cl_delivery_id c = cl_delivery_id c'" "cl_lease_id c \<noteq> token"
    and fresh: "list_all (\<lambda>a. \<not> draws (cl_lease_id c) a) ops"
    and final: "s2 = snd (spool_run frepr limits ops s1)"
  shows "mark_delivered True later c s2 = (Inr False, s2)
    \<and> mark_rejected True later c code err s2 = (Inr False, s2)
    \<and> mark_dead True later c ocode err s2 = (Inr False, s2)
    \<and> mark_retry True later c delay ocode err s2 = (Inr False, s2)"
proof -
  have inv1: "spool_inv limits s1" using inv reclaimed by (rule claim_inv)
  have "\<not> held c s1"
    unfolding held_iff
  proof (rule notI, elim bexE)
    fix r assume r: "r \<in> set (deliveries s1)" "holds_lease c r"
    from inv reclaimed obtain r' where r': "r' \<in> set (deliveries s1)" "holds_lease c' r'"
      by (rule claimed_row_leased)
    have "r = r'"
      using distinct_key_eq [OF rows_inv_distinct [OF spool_inv_rows [OF inv1]] r(1) r'(1)] r(2) r'(2) stale(1)
      by (simp add: holds_lease_def)
    moreover from inv reclaimed have "cl_lease_id c' = token"
      by (rule claimed_row) (simp add: claim_of_def)
    ultimately show False using r(2) r'(2) stale(2) by (simp add: holds_lease_def)
  qed
  then have "\<not> held c s2"
    unfolding final using inv1 fresh by (intro spool_run_not_held)
  moreover have "spool_inv limits s2" unfolding final using inv1 by (rule spool_run_inv)
  ultimately show ?thesis by (simp add: mark_unheld)
qed

lemma claim_next_sample:
  "\<exists>s1. claim_next True 20 ''new'' 15 sample_spool = (Inr (Some (claim_of ''new'' (sample_row 1) ''{}'')), s1)"
proof -
  obtain res s1 where run: "claim_next_sync 20 ''new'' 15 sample_spool = (res, s1)" by fastforce
  have rows: "deliveries sample_spool = [sample_row 1, sample_row 2]" by (simp add: sample_spool_def)
  have due: "claimable 20 [sample_row 1, sample_row 2] (sample_row 1)"
    "\<not> claimable 20 [sample_row 1, sample_row 2] (sample_row 2)"
    by (simp_all add: claimable_def due_def blocks_def pending_def sample_row_def new_delivery_def)
  have open_gate: "delivery_meta sample_spool ''paused'' = Some ''0''"
    by (simp add: sample_spool_def sample_open_def initialize_database_def empty_database_def meta_defaults_def)
  from sample_spool_inv run have "res = Inr (Some (claim_of ''new'' (sample_row 1) ''{}''))"
  proof (cases rule: claim_next_sync_cases)
    case (claimed row b)
    with due have "row = sample_row 1" by (auto simp: rows)
    with claimed show ?thesis by (simp add: sample_row_def new_delivery_def)
  qed (use due open_gate in \<open>auto simp: rows\<close>)
  with run show ?thesis by (simp add: claim_next_def run_sync_def)
qed

theorem stale_claim_fenced_witness:
  "\<exists>s1. claim_next True 20 ''new'' 15 sample_spool = (Inr (Some (claim_of ''new'' (sample_row 1) ''{}'')), s1)
     \<and> mark_delivered True 40 (claim_of ''old'' (sample_row 1) ''{}'')
          (snd (spool_run sample_float sample_limits [OpStatus True 30] s1))
       = (Inr False, snd (spool_run sample_float sample_limits [OpStatus True 30] s1))"
proof -
  obtain s1 where s1: "claim_next True 20 ''new'' 15 sample_spool
      = (Inr (Some (claim_of ''new'' (sample_row 1) ''{}'')), s1)"
    using claim_next_sample by blast
  have "mark_delivered True 40 (claim_of ''old'' (sample_row 1) ''{}'')
          (snd (spool_run sample_float sample_limits [OpStatus True 30] s1))
       = (Inr False, snd (spool_run sample_float sample_limits [OpStatus True 30] s1))"
    by (rule stale_claim_fenced [OF sample_spool_inv s1 _ _ _ refl, THEN conjunct1])
      (simp_all add: claim_of_def)
  with s1 show ?thesis by blast
qed

text \<open>C4. Exclusivity: from the moment a claim is granted until its lease expires, whatever other
  processes do with other claims, no claim of the same delivery is granted, and the holder's
  completion as delivered succeeds, marks that row delivered and erases its body.\<close>

theorem lease_exclusive:
  assumes inv: "spool_inv limits s"
    and claimed: "claim_next io now token secs s = (Inr (Some c), s1)"
    and others: "list_all (\<lambda>a. \<not> uses_lease c a \<and> \<not> claims_from (now + secs) a) ops"
    and final: "spool_run frepr limits ops s1 = (replies, s2)"
  shows "(\<forall>c'. ReClaim (Inr (Some c')) \<in> set replies \<longrightarrow> cl_delivery_id c' \<noteq> cl_delivery_id c)
    \<and> fst (mark_delivered True later c s2) = Inr True
    \<and> (\<exists>r \<in> set (deliveries (snd (mark_delivered True later c s2))).
         dl_delivery_id r = cl_delivery_id c \<and> dl_state r = Delivered \<and> dl_body r = None)"
proof -
  have inv1: "spool_inv limits s1" using inv claimed by (rule claim_inv)
  obtain r where r: "r \<in> set (deliveries s1)" "holds_lease c r" "dl_lease_expires_at r = Some (now + secs)"
    using inv claimed by (rule claimed_row_leased)
  have kept: "r \<in> set (deliveries s2)"
    "\<forall>c'. ReClaim (Inr (Some c')) \<in> set replies \<longrightarrow> cl_delivery_id c' \<noteq> cl_delivery_id c"
    using spool_run_keeps_lease [OF inv1 r others, of frepr] final by simp_all
  have "spool_inv limits s2" using spool_run_inv [OF inv1, of frepr ops] final by simp
  then have mark: "mark_delivered True later c s2 = (Inr (\<exists>r \<in> set (deliveries s2). holds_lease c r),
     s2\<lparr>deliveries := sql_update (holds_lease c) (finish_row later Delivered None None) (deliveries s2)\<rparr>)"
    by (simp add: mark_delivered_def run_sync_def finish_sync_eq)
  with kept(1) r(2) have "fst (mark_delivered True later c s2) = Inr True" by auto
  moreover have "\<exists>r \<in> set (deliveries (snd (mark_delivered True later c s2))).
           dl_delivery_id r = cl_delivery_id c \<and> dl_state r = Delivered \<and> dl_body r = None"
    using kept(1) r(2) unfolding mark
    by (intro bexI [of _ "finish_row later Delivered None None r"])
      (auto simp: finish_row_def holds_lease_def set_sql_update)
  ultimately show ?thesis using kept(2) by blast
qed

theorem lease_exclusive_witness:
  "\<exists>s1. claim_next True 20 ''new'' 15 sample_spool = (Inr (Some (claim_of ''new'' (sample_row 1) ''{}'')), s1)
     \<and> fst (mark_delivered True 30 (claim_of ''new'' (sample_row 1) ''{}'')
          (snd (spool_run sample_float sample_limits [OpClaim True 29 ''other'' 15] s1))) = Inr True"
proof -
  let ?c = "claim_of ''new'' (sample_row 1) ''{}''"
  obtain s1 where s1: "claim_next True 20 ''new'' 15 sample_spool = (Inr (Some ?c), s1)"
    using claim_next_sample by blast
  obtain reps s2 where run: "spool_run sample_float sample_limits [OpClaim True 29 ''other'' 15] s1 = (reps, s2)"
    by fastforce
  have "list_all (\<lambda>a. \<not> uses_lease ?c a \<and> \<not> claims_from (20 + 15) a) [OpClaim True 29 ''other'' 15]"
    by simp
  from lease_exclusive [OF sample_spool_inv s1 this run, of 30] s1 run show ?thesis
    by (auto simp del: spool_run.simps)
qed

text \<open>C5. Thread order: a granted claim is for a pending message all of whose predecessors in its
  thread, in acknowledgement order, have been delivered or rejected; it is the oldest such message
  that is due, its claim carries the stored body and hash, and no message behind it in the thread
  has ever been handed out.\<close>

theorem claim_in_thread_order:
  assumes inv: "spool_inv limits s" and claimed: "claim_next io now token secs s = (Inr (Some c), s1)"
  shows "\<exists>row \<in> set (deliveries s).
     dl_delivery_id row = cl_delivery_id c \<and> due now row
   \<and> dl_body row = Some (cl_body c) \<and> dl_body_sha256 row = cl_body_sha256 c
   \<and> (\<forall>p \<in> set (deliveries s). dl_thread_key p = dl_thread_key row \<and> dl_sequence p < dl_sequence row
        \<longrightarrow> dl_state p \<in> {Delivered, Rejected})
   \<and> (\<forall>q \<in> set (deliveries s). dl_thread_key q = dl_thread_key row \<and> dl_sequence row < dl_sequence q
        \<longrightarrow> dl_state q = Queued \<and> dl_lease_epoch q = 0)
   \<and> (\<forall>r \<in> set (deliveries s). claimable now (deliveries s) r \<longrightarrow> dl_sequence row \<le> dl_sequence r)"
proof -
  from inv claimed show ?thesis
  proof (cases rule: claimed_row)
    case (1 row b)
    have due: "due now row" and free: "\<forall>p \<in> set (deliveries s). \<not> blocks p row"
      using 1(4) by (auto simp: claimable_def list_ex_iff)
    have settled: "dl_state p \<in> {Delivered, Rejected}" if "\<not> pending p" for p
      using that by (cases "dl_state p") (auto simp: pending_def)
    have "pending row" using due by (auto simp: due_def pending_def)
    then have "never_leased q" if "q \<in> set (deliveries s)" "dl_thread_key q = dl_thread_key row"
        "dl_sequence row < dl_sequence q" for q
      using that 1(3) spool_inv_rows [OF inv] by (auto simp: rows_inv_def thread_ordered_def blocks_def)
    with 1 due free settled show ?thesis
      by (intro bexI [of _ row]) (auto simp: claim_of_def blocks_def never_leased_def)
  qed
qed

theorem claim_in_thread_order_witness:
  "\<exists>s1. claim_next True 20 ''new'' 15 sample_spool = (Inr (Some (claim_of ''new'' (sample_row 1) ''{}'')), s1)
   \<and> (\<exists>row \<in> set (deliveries sample_spool).
       dl_delivery_id row = cl_delivery_id (claim_of ''new'' (sample_row 1) ''{}'') \<and> due 20 row)"
proof -
  obtain s1 where s1: "claim_next True 20 ''new'' 15 sample_spool
      = (Inr (Some (claim_of ''new'' (sample_row 1) ''{}'')), s1)"
    using claim_next_sample by blast
  from claim_in_thread_order [OF sample_spool_inv s1] s1 show ?thesis by blast
qed

text \<open>A durable pause holds: while a pause is in force, and until a resume by its holder at its
  revision, no sequence of operations gets a claim, and the pause stays in force.\<close>

theorem pause_blocks_claims:
  assumes "spool_inv limits s" "gate_of s = Some g" "pg_paused g" "list_all (\<lambda>a. \<not> releases g a) ops"
  shows "gate_of (snd (spool_run frepr limits ops s)) = Some g
    \<and> (\<forall>c. ReClaim (Inr (Some c)) \<notin> set (fst (spool_run frepr limits ops s)))"
  using assms by (rule spool_run_paused)

definition sample_gate :: pause_gate where
  "sample_gate = \<lparr>pg_paused = True, pg_revision = 1, pg_holder = ''op'', pg_last_resumed = ''''\<rparr>"

definition sample_paused :: spool where
  "sample_paused = write_gate sample_gate sample_spool"

lemma sample_paused_facts: "spool_inv sample_limits sample_paused" "gate_of sample_paused = Some sample_gate"
  using sample_spool_inv
  by (simp_all add: sample_paused_def spool_inv_write_gate gate_of_write_gate spool_inv_def)

theorem pause_blocks_claims_witness:
  "gate_of (snd (spool_run sample_float sample_limits
     [OpClaim True 20 ''x'' 15, OpResume True 21 ''intruder'' 1, OpClaim True 22 ''y'' 15] sample_paused))
   = Some sample_gate"
  using pause_blocks_claims [OF sample_paused_facts, of
      "[OpClaim True 20 ''x'' 15, OpResume True 21 ''intruder'' 1, OpClaim True 22 ''y'' 15]" sample_float]
  by (simp add: sample_gate_def del: spool_run.simps)

lemma gate_outcome:
  assumes "gate_of s = Some g"
  shows "\<exists>st s'. (if g' = g then (status_of now s, s) else (status_of now (write_gate g' s), write_gate g' s))
      = (Inr st, s') \<and> gate_of s' = Some g' \<and> deliveries s' = deliveries s
      \<and> ds_paused st = pg_paused g' \<and> ds_revision st = pg_revision g'"
proof (cases "g' = g")
  case True
  then show ?thesis using status_of_ok [OF assms, of now] assms by auto
next
  case False
  have "gate_of (write_gate g' s) = Some g'" using assms by (simp add: gate_of_write_gate)
  with status_of_ok [OF this, of now] False show ?thesis by auto
qed

lemma pause_granted:
  assumes "gate_of s = Some g" "validate_admin_cas h e = Inr ()" "gate_pause h e g = Some g'"
  shows "\<exists>st s'. pause True now h e s = (Inr st, s') \<and> gate_of s' = Some g'
    \<and> deliveries s' = deliveries s \<and> ds_paused st = pg_paused g' \<and> ds_revision st = pg_revision g'"
  using assms(2,3) gate_outcome [OF assms(1), of g' now]
  by (simp add: pause_def run_sync_def pause_sync_gate [OF assms(1)])

lemma resume_granted:
  assumes "gate_of s = Some g" "validate_admin_cas h e = Inr ()" "gate_resume h e g = Some g'"
  shows "\<exists>st s'. resume True now h e s = (Inr st, s') \<and> gate_of s' = Some g'
    \<and> deliveries s' = deliveries s \<and> ds_paused st = pg_paused g' \<and> ds_revision st = pg_revision g'"
  using assms(2,3) gate_outcome [OF assms(1), of g' now]
  by (simp add: resume_def run_sync_def resume_sync_gate [OF assms(1)])

lemma pause_refused:
  "gate_of s = Some g \<Longrightarrow> validate_admin_cas h e = Inr () \<Longrightarrow> gate_pause h e g = None \<Longrightarrow>
   pause True now h e s = (Inl DeliveryAdminConflict, s)"
  by (simp add: pause_def run_sync_def pause_sync_gate)

lemma resume_refused:
  "gate_of s = Some g \<Longrightarrow> validate_admin_cas h e = Inr () \<Longrightarrow> gate_resume h e g = None \<Longrightarrow>
   resume True now h e s = (Inl DeliveryAdminConflict, s)"
  by (simp add: resume_def run_sync_def resume_sync_gate)

lemma pause_repeated:
  "gate_of s = Some g \<Longrightarrow> validate_admin_cas h e = Inr () \<Longrightarrow> gate_pause h e g = Some g \<Longrightarrow>
   \<exists>st. pause True now h e s = (Inr st, s) \<and> ds_revision st = pg_revision g"
  using status_of_ok [of s g now] by (auto simp: pause_def run_sync_def pause_sync_gate)

lemma resume_repeated:
  "gate_of s = Some g \<Longrightarrow> validate_admin_cas h e = Inr () \<Longrightarrow> gate_resume h e g = Some g \<Longrightarrow>
   \<exists>st. resume True now h e s = (Inr st, s) \<and> ds_revision st = pg_revision g"
  using status_of_ok [of s g now] by (auto simp: resume_def run_sync_def resume_sync_gate)

text \<open>C10. Refinement of the pause gate: on a well-formed database the stored text cells implement the
  abstract gate.  A pause or resume with a valid holder and revision fails with an admin conflict
  and changes nothing exactly when the abstract transition refuses; otherwise the stored gate is
  the abstract successor, the reported revision and pause flag are its own, and no queued message
  is touched.\<close>

theorem pause_gate_refined:
  assumes gate: "gate_of s = Some g" and cas: "validate_admin_cas holder expected = Inr ()"
  shows "(case gate_pause holder expected g of
       None \<Rightarrow> pause True now holder expected s = (Inl DeliveryAdminConflict, s)
     | Some g' \<Rightarrow> \<exists>st s'. pause True now holder expected s = (Inr st, s') \<and> gate_of s' = Some g'
          \<and> deliveries s' = deliveries s \<and> ds_paused st \<and> ds_revision st = pg_revision g')
   \<and> (case gate_resume holder expected g of
       None \<Rightarrow> resume True now holder expected s = (Inl DeliveryAdminConflict, s)
     | Some g' \<Rightarrow> \<exists>st s'. resume True now holder expected s = (Inr st, s') \<and> gate_of s' = Some g'
          \<and> deliveries s' = deliveries s \<and> \<not> ds_paused st \<and> ds_revision st = pg_revision g')"
proof -
  have paused: "gate_pause holder expected g = Some g' \<Longrightarrow> pg_paused g'" for g'
    by (auto simp: gate_pause_def split: if_splits)
  have resumed: "gate_resume holder expected g = Some g' \<Longrightarrow> \<not> pg_paused g'" for g'
    by (auto simp: gate_resume_def split: if_splits)
  show ?thesis
    using pause_refused [OF gate cas] resume_refused [OF gate cas]
      pause_granted [OF gate cas] resume_granted [OF gate cas] paused resumed
    by (simp split: option.split)
qed

theorem pause_gate_refined_witness:
  "\<exists>st s'. resume True 30 ''op'' 1 sample_paused = (Inr st, s')
     \<and> gate_of s' = Some \<lparr>pg_paused = False, pg_revision = 2, pg_holder = '''', pg_last_resumed = ''op''\<rparr>
     \<and> deliveries s' = deliveries sample_paused \<and> \<not> ds_paused st \<and> ds_revision st = 2"
proof -
  have "validate_admin_cas ''op'' 1 = Inr ()" by code_simp
  from pause_gate_refined [OF sample_paused_facts(2) this, of 30] show ?thesis
    by (simp add: gate_resume_def sample_gate_def)
qed

text \<open>Retried admin calls are idempotent and cannot be replayed later: after a pause by a holder
  at some revision succeeds, repeating the same call succeeds and changes nothing, and once that
  holder has resumed, the delayed copy of the pause call is refused.\<close>

theorem pause_replay_safe:
  assumes gate: "gate_of s = Some g" "\<not> pg_paused g"
    and first: "pause True now holder expected s = (Inr st, s1)"
  shows "(\<exists>st'. pause True now2 holder expected s1 = (Inr st', s1) \<and> ds_revision st' = expected + 1)
   \<and> (\<exists>st' s2. resume True now3 holder (expected + 1) s1 = (Inr st', s2)
        \<and> pause True now4 holder expected s2 = (Inl DeliveryAdminConflict, s2)
        \<and> (\<exists>st''. resume True now5 holder (expected + 1) s2 = (Inr st'', s2)))"
proof -
  have cas: "validate_admin_cas holder expected = Inr ()"
    using first by (auto simp: pause_def split: sum.splits)
  then have cas1: "validate_admin_cas holder (expected + 1) = Inr ()"
    by (auto simp: validate_admin_cas_def bindE_eq_Inr)
  define g1 where "g1 = \<lparr>pg_paused = True, pg_revision = expected + 1, pg_holder = holder, pg_last_resumed = ''''\<rparr>"
  define g2 where "g2 = \<lparr>pg_paused = False, pg_revision = expected + 1 + 1, pg_holder = '''', pg_last_resumed = holder\<rparr>"
  have "gate_pause holder expected g \<noteq> None"
    using first pause_refused [OF gate(1) cas, of now] by auto
  then have "gate_pause holder expected g = Some g1"
    using gate(2) by (auto simp: gate_pause_def g1_def split: if_splits)
  with first have s1: "gate_of s1 = Some g1"
    using pause_granted [OF gate(1) cas, of g1 now] by auto
  have "gate_resume holder (expected + 1) g1 = Some g2" by (simp add: gate_resume_def g1_def g2_def)
  from resume_granted [OF s1 cas1 this, of now3] obtain st' s2
    where s2: "resume True now3 holder (expected + 1) s1 = (Inr st', s2)" "gate_of s2 = Some g2" by blast
  have "pause True now4 holder expected s2 = (Inl DeliveryAdminConflict, s2)"
    using s2(2) cas by (rule pause_refused) (simp add: gate_pause_def g2_def)
  moreover have "\<exists>st''. resume True now5 holder (expected + 1) s2 = (Inr st'', s2)"
    using resume_repeated [OF s2(2) cas1, of now5] by (auto simp: gate_resume_def g2_def)
  moreover have "\<exists>st'. pause True now2 holder expected s1 = (Inr st', s1) \<and> ds_revision st' = expected + 1"
    using pause_repeated [OF s1 cas, of now2] by (simp add: gate_pause_def g1_def)
  ultimately show ?thesis using s2(1) by blast
qed

theorem pause_replay_safe_witness:
  "\<exists>st s1 st'. pause True 20 ''op'' 0 sample_spool = (Inr st, s1)
     \<and> pause True 21 ''op'' 0 s1 = (Inr st', s1) \<and> ds_revision st' = 1"
proof -
  let ?g = "\<lparr>pg_paused = False, pg_revision = 0, pg_holder = '''', pg_last_resumed = ''''\<rparr>"
  have rev: "int_of_str ''0'' = Some 0" by code_simp
  have g: "gate_of sample_spool = Some ?g"
    by (simp add: gate_of_def sample_spool_def sample_open_def initialize_database_def empty_database_def
        meta_defaults_def rev)
  have "validate_admin_cas ''op'' 0 = Inr ()" by code_simp
  then obtain st s1 where first: "pause True 20 ''op'' 0 sample_spool = (Inr st, s1)"
    using pause_granted [OF g, of "''op''" 0 _ 20] by (auto simp: gate_pause_def)
  from pause_replay_safe [OF g _ this, of 21] first show ?thesis by fastforce
qed

text \<open>Dead-letter recovery: it succeeds only for the holder of the current pause at its revision
  and only when no unexpired lease is left; it then makes every dead message, and no other, queued
  and due, keeping its identity, place and body, and reports their number.  In every other case it
  is an admin conflict that changes nothing.\<close>

theorem dead_recovery:
  assumes inv: "spool_inv limits s" and gate: "gate_of s = Some g"
    and cas: "validate_admin_cas holder expected = Inr ()"
  shows "if pg_paused g \<and> pg_holder g = holder \<and> pg_revision g = expected
            \<and> \<not> list_ex (lease_active now) (deliveries s)
         then \<exists>st s'. retry_dead True now now2 holder expected s
                = (Inr (sql_count (\<lambda>r. dl_state r = Dead) (deliveries s), st), s')
              \<and> gate_of s' = Some g \<and> ds_dead_count st = 0
              \<and> list_all2 (\<lambda>r r'. if dl_state r = Dead
                   then same_message r r' \<and> due now r' \<and> dl_state r' = Queued else r' = r)
                  (deliveries s) (deliveries s')
         else retry_dead True now now2 holder expected s = (Inl DeliveryAdminConflict, s)"
proof -
  let ?s = "s\<lparr>deliveries := sql_update (\<lambda>r. dl_state r = Dead) (revive_row now) (deliveries s)\<rparr>"
  have idle: "sql_count (lease_active now) (deliveries s) = 0 \<longleftrightarrow> \<not> list_ex (lease_active now) (deliveries s)"
    by (auto simp: sql_count_zero list_ex_iff)
  have g': "gate_of ?s = Some g" using gate by simp
  obtain st where st: "status_of now2 ?s = Inr st" using status_of_ok [OF g'] by blast
  have "ds_dead_count st = 0"
    using st by (auto simp: status_of_def Let_def gate_reads [OF g'] sql_count_zero set_sql_update revive_row_def)
  moreover have "list_all2 (\<lambda>r r'. if dl_state r = Dead
       then same_message r r' \<and> due now r' \<and> dl_state r' = Queued else r' = r) (deliveries s) (deliveries ?s)"
    by (simp add: sql_update_def list_all2_map2 list_all2_same same_message_def revive_row_def due_def)
  ultimately show ?thesis
    using cas g' st idle by (auto simp: retry_dead_def run_sync_def retry_dead_sync_eq [OF inv gate])
qed

theorem dead_recovery_witness:
  "\<exists>st s'. retry_dead True 30 31 ''op'' 1 sample_paused = (Inr (0, st), s') \<and> ds_dead_count st = 0"
proof -
  have "validate_admin_cas ''op'' 1 = Inr ()" by code_simp
  moreover have "\<not> list_ex (lease_active 30) (deliveries sample_paused)"
    "sql_count (\<lambda>r. dl_state r = Dead) (deliveries sample_paused) = 0"
    by (simp_all add: sample_paused_def sample_spool_def sample_row_def new_delivery_def lease_active_def sql_count_def)
  moreover have "pg_paused sample_gate" "pg_holder sample_gate = ''op''" "pg_revision sample_gate = 1"
    by (simp_all add: sample_gate_def)
  ultimately show ?thesis
    using dead_recovery [OF sample_paused_facts, of "''op''" 1 30 31] by auto
qed

lemma sql_count_partition:
  "sql_count (\<lambda>r. dl_state r = Queued) t + sql_count (\<lambda>r. dl_state r = Leased) t
   + sql_count (\<lambda>r. dl_state r = Delivered) t + sql_count (\<lambda>r. dl_state r = Rejected) t
   + sql_count (\<lambda>r. dl_state r = Dead) t = length t"
proof (induction t)
  case (Cons r t)
  then show ?case by (cases "dl_state r") (auto simp: sql_count_def)
qed (simp add: sql_count_def)

lemma sql_count_mono: "(\<And>r. P r \<Longrightarrow> Q r) \<Longrightarrow> sql_count P t \<le> sql_count Q t"
  unfolding sql_count_def by (induction t) (auto simp: le_Suc_eq)

text \<open>The status report is consistent: the five state counts add up to the number of rows, active
  leases are among the leased rows and waiting retries among the queued ones, the pending bytes are
  within the retained bytes, these within the configured bound, and the flag and revision are the
  stored ones.\<close>

theorem status_consistent:
  assumes inv: "spool_inv limits s" and gate: "gate_of s = Some g"
  shows "\<exists>st. status True now s = (Inr st, s)
     \<and> ds_queued_count st + ds_leased_count st + ds_delivered_count st + ds_rejected_count st
         + ds_dead_count st = length (deliveries s)
     \<and> ds_active_delivery_count st \<le> ds_leased_count st \<and> ds_retry_wait_count st \<le> ds_queued_count st
     \<and> ds_pending_bytes st \<le> ds_retained_body_bytes st
     \<and> int (ds_retained_body_bytes st) \<le> max_bytes limits
     \<and> ds_paused st = pg_paused g \<and> ds_revision st = pg_revision g
     \<and> (ds_oldest_pending_at st = None \<longleftrightarrow> ds_queued_count st + ds_leased_count st = 0)"
proof -
  have "int (retained_bytes (deliveries s)) \<le> max_bytes limits"
    using spool_inv_rows [OF inv] by (simp add: rows_inv_def)
  moreover have "sql_count (lease_active now) (deliveries s) \<le> sql_count (\<lambda>r. dl_state r = Leased) (deliveries s)"
    by (rule sql_count_mono) (simp add: lease_active_def)
  moreover have "sql_count (\<lambda>r. dl_state r = Queued \<and> now < dl_next_attempt_at r) (deliveries s)
      \<le> sql_count (\<lambda>r. dl_state r = Queued) (deliveries s)"
    by (rule sql_count_mono) simp
  ultimately show ?thesis
    using sql_count_partition [of "deliveries s"]
      retained_bytes_filter [of "\<lambda>r. dl_state r \<in> {Queued, Leased}" "deliveries s"]
    by (auto simp: status_def run_sync_def status_sync_def status_of_def Let_def gate_reads [OF gate]
        filter_empty_conv sql_count_zero)
qed

theorem status_consistent_witness:
  "\<exists>st. status True 30 sample_paused = (Inr st, sample_paused) \<and> ds_paused st \<and> ds_revision st = 1"
  using status_consistent [OF sample_paused_facts, of 30] by (auto simp: sample_gate_def)

text \<open>Progress: the queue is never stuck.  When it is not paused and some thread has a pending
  message while all pending messages of that thread are due (queued with their time come, or leased
  with the lease expired), a claim is granted, so the head of a thread left behind by a crashed
  process is handed out again.\<close>

theorem claim_progress:
  assumes inv: "spool_inv limits s" and gate: "gate_of s = Some g" "\<not> pg_paused g" and secs: "0 < secs"
    and r: "r \<in> set (deliveries s)" "pending r"
    and all_due: "\<forall>p \<in> set (deliveries s). dl_thread_key p = dl_thread_key r \<and> pending p \<longrightarrow> due now p"
  shows "\<exists>c s'. claim_next True now token secs s = (Inr (Some c), s')"
proof -
  let ?P = "\<lambda>p. p \<in> set (deliveries s) \<and> dl_thread_key p = dl_thread_key r \<and> pending p"
  obtain h where h: "?P h" "\<forall>p. ?P p \<longrightarrow> dl_sequence h \<le> dl_sequence p"
    using ex_has_least_nat [of ?P r dl_sequence] r by auto
  then have "claimable now (deliveries s) h"
    using all_due by (auto simp: claimable_def list_ex_iff blocks_def)
  obtain res s' where run: "claim_next_sync now token secs s = (res, s')" by fastforce
  from inv run have "\<exists>c. res = Inr (Some c)"
    by (cases rule: claim_next_sync_cases)
      (use h \<open>claimable now (deliveries s) h\<close> gate in \<open>auto simp: gate_of_Some\<close>)
  with run secs show ?thesis by (auto simp: claim_next_def run_sync_def)
qed

lemma sample_gate_open:
  "gate_of sample_spool
   = Some \<lparr>pg_paused = False, pg_revision = 0, pg_holder = '''', pg_last_resumed = ''''\<rparr>"
proof -
  have "int_of_str ''0'' = Some 0" by code_simp
  then show ?thesis
    by (simp add: gate_of_def sample_spool_def sample_open_def initialize_database_def empty_database_def
        meta_defaults_def)
qed

theorem claim_progress_witness:
  "\<exists>c s'. claim_next True 20 ''t'' 15 sample_spool = (Inr (Some c), s')"
  by (rule claim_progress [OF sample_spool_inv sample_gate_open, where r = "sample_row 1"])
    (simp_all add: sample_spool_def sample_row_def new_delivery_def pending_def due_def)

section \<open>Identities and retry delays\<close>

text \<open>The delivery id identifies: two events get the same id only if all their identity fields
  agree (provider, tenant, bot, and the fields of their kind), unless SHA-256 collides on the two
  encoded identities; and every id is a 64-digit lower-case hexadecimal digest.\<close>

theorem delivery_id_identifies:
  assumes ids: "stable_delivery_id e1 = Inr d" "stable_delivery_id e2 = Inr d"
    and identities: "delivery_identity e1 = Inr i1" "delivery_identity e2 = Inr i2"
    and no_collision: "sha256 (''cyrene-teams-delivery-v1'' @ NUL @ json_string_list i1)
        = sha256 (''cyrene-teams-delivery-v1'' @ NUL @ json_string_list i2) \<Longrightarrow>
      ''cyrene-teams-delivery-v1'' @ NUL @ json_string_list i1
        = ''cyrene-teams-delivery-v1'' @ NUL @ json_string_list i2"
  shows "i1 = i2 \<and> is_digest d"
  using ids identities no_collision
  by (auto simp: stable_delivery_id_Inr json_string_list_inj)

theorem delivery_id_identifies_witness:
  "stable_delivery_id (sample_event ''m'') = Inr sample_id
   \<and> delivery_identity (sample_event ''m'') = Inr [''teams'', ''t'', ''b'', ''u'', ''c'', ''m'']
   \<and> is_digest sample_id"
proof -
  have i: "delivery_identity (sample_event ''m'') = Inr [''teams'', ''t'', ''b'', ''u'', ''c'', ''m'']"
    by (simp add: delivery_identity_def sample_event_def dict_get_def text_parts_def)
  from delivery_id_identifies [OF sample_identity(1) sample_identity(1) i i] i sample_identity(1)
  show ?thesis by simp
qed

text \<open>A channel thread has one order whatever message of it is replied to: dropping or changing a
  \<open>messageid\<close> segment of the conversation id, in any letter case, does not change the conversation
  scope the thread key is built from.\<close>

theorem conversation_scope_messageid:
  assumes key: "map lower_char key = ''messageid''" and v: "CHR '';'' \<notin> set v"
  shows "conversation_scope (conv @ CHR '';'' # key @ CHR ''='' # v) = conversation_scope conv"
proof -
  have "CHR '';'' \<notin> set key"
  proof
    assume "CHR '';'' \<in> set key"
    then have "lower_char CHR '';'' \<in> set ''messageid''" using key by (metis image_eqI list.set_map)
    then show False by (simp add: lower_char_def is_upper_ascii_def)
  qed
  with v have "split_on CHR '';'' (key @ CHR ''='' # v) = [key @ CHR ''='' # v]"
    by (intro split_on_no_sep) simp
  then show ?thesis
    using is_messageid_segment [OF key, of v]
    by (simp add: conversation_scope_def split_on_append)
qed

theorem conversation_scope_messageid_witness:
  "conversation_scope ''19:abc@thread.tacv2;MessageId=1700'' = conversation_scope ''19:abc@thread.tacv2''"
proof -
  have "map lower_char ''MessageId'' = ''messageid''" by code_simp
  from conversation_scope_messageid [OF this, of "''1700''" "''19:abc@thread.tacv2''"] show ?thesis by simp
qed

text \<open>C13. The retry delay is bounded and fair: it is between one second and five minutes, it never
  decreases with the attempt number, it honours a server's Retry-After up to five minutes, and
  without one it doubles from one second.\<close>

theorem retry_delay_bounds:
  "1 \<le> retry_delay_seconds attempt after \<and> retry_delay_seconds attempt after \<le> MAX_RETRY_DELAY_SECONDS
   \<and> retry_delay_seconds attempt after \<le> retry_delay_seconds (attempt + 1) after
   \<and> min MAX_RETRY_DELAY_SECONDS x \<le> retry_delay_seconds attempt (Some (Fin x))
   \<and> retry_delay_seconds (1 + int (min n 8)) None = 2 ^ min n 8"
proof (intro conjI)
  let ?b = "\<lambda>a. min (2 ^ nat (min (max 0 (a - 1)) 9)) MAX_RETRY_DELAY_SECONDS"
  have b: "1 \<le> ?b a" "?b a \<le> MAX_RETRY_DELAY_SECONDS" for a
    using backoff_bounds by simp_all
  have m: "1 \<le> MAX_RETRY_DELAY_SECONDS" by (simp add: MAX_RETRY_DELAY_SECONDS_def)
  define B where "B = (\<lambda>a. ?b a)"
  define extra where "extra = (case after of Some (Fin x) \<Rightarrow> max 0 x
    | Some PosInf \<Rightarrow> MAX_RETRY_DELAY_SECONDS | _ \<Rightarrow> 0)"
  have bB: "1 \<le> B a" "B a \<le> MAX_RETRY_DELAY_SECONDS" for a using b [of a] by (simp_all only: B_def)
  have eq: "retry_delay_seconds a after = min MAX_RETRY_DELAY_SECONDS (max (B a) extra)" for a
    using bB [of a] unfolding retry_delay_seconds_def Let_def B_def [symmetric] fun_cong [OF B_def, symmetric] extra_def
    by (auto split: option.split pyfloat.split)
  have eqx: "retry_delay_seconds a (Some (Fin x)) = min MAX_RETRY_DELAY_SECONDS (max (B a) (max 0 x))" for a
    by (simp add: retry_delay_seconds_def B_def)
  have mono: "B attempt \<le> B (attempt + 1)" unfolding B_def by (rule backoff_mono) simp
  show "1 \<le> retry_delay_seconds attempt after"
    unfolding eq using bB(1) m by (simp add: le_max_iff_disj)
  show "retry_delay_seconds attempt after \<le> MAX_RETRY_DELAY_SECONDS"
    unfolding eq by simp
  show "min MAX_RETRY_DELAY_SECONDS x \<le> retry_delay_seconds attempt (Some (Fin x))"
    unfolding eqx by (intro min.mono order_refl) (simp add: le_max_iff_disj)
  show "retry_delay_seconds attempt after \<le> retry_delay_seconds (attempt + 1) after"
    unfolding eq by (intro min.mono max.mono order_refl mono)
  have "(2 :: rat) ^ min n 8 \<le> 2 ^ 8" by (intro power_increasing) auto
  moreover have "nat (min (int (min n 8)) 9) = min n 8" by simp
  ultimately show "retry_delay_seconds (1 + int (min n 8)) None = 2 ^ min n 8"
    by (simp add: retry_delay_seconds_def MAX_RETRY_DELAY_SECONDS_def min_absorb1)
qed

end
