(* ===== verification/Delivery_Worker.thy ===== *)
theory Delivery_Worker
  imports Delivery_Spool_Props
begin

text \<open>
  The Navigator client (\<open>navigator.py\<close>) and the delivery worker (\<open>NavigatorDeliveryWorker\<close> of
  \<open>delivery_spool.py\<close>).  The network is a parameter: \<open>post\<close> maps the signed request to what httpx
  reports.  One round of the worker loop takes what the environment contributes to it (clock
  readings, storage failures, the random token, the answer of Navigator) as a \<open>worker_round\<close> record; between
  rounds it waits for its wake-up event, which does not change the state and is left out.  The waiting and the deadline of the draining pause are modelled.
\<close>

section \<open>The Navigator client\<close>

record http_request =
  rq_body :: bytes
  rq_headers :: "(string \<times> string) list"

record http_response =
  rs_status_code :: int
  rs_json :: "pyval option"
  rs_retry_after :: "string option"

text \<open>What httpx reports: its total deadline, one of its own errors, any other exception, or a
  response, whose body may not decode as JSON (\<open>rs_json = None\<close>).\<close>

datatype http_outcome = HttpTimeout | HttpError | HttpOtherException | HttpResponse http_response

record admission_result =
  ar_accepted :: bool
  ar_duplicate :: bool
  ar_status_code :: int
  ar_terminal_rejection :: bool
  ar_code :: "string option"

record admission_unavailable =
  nu_retryable :: bool
  nu_status_code :: "int option"
  nu_code :: "string option"
  nu_retry_after_seconds :: "pyfloat option"

datatype submit_fault =
    NavigatorAdmissionUnavailable admission_unavailable
  | SubmitCancelled
  | SubmitTimeoutError
  | SubmitValueError
  | SubmitOtherException

record navigator_client =
  nc_key_id :: string
  nc_hmac_key :: bytes

definition navigator_client_of :: "string \<Rightarrow> bytes \<Rightarrow> submit_fault + navigator_client" where
  "navigator_client_of key_id hmac_key =
    (if length hmac_key < 32 then Inl SubmitValueError
     else Inr \<lparr>nc_key_id = key_id, nc_hmac_key = hmac_key\<rparr>)"

definition TERMINAL_BUSINESS_REJECTIONS :: "string list" where
  "TERMINAL_BUSINESS_REJECTIONS =
    [''TEAMS_TENANT_NOT_ALLOWED'', ''TEAMS_TEAM_NOT_ALLOWED'', ''WORK_TEAMS_PRIVATE_INSTALLATION_FORBIDDEN'']"

definition retry_after_seconds :: "string option \<Rightarrow> pyfloat option" where
  "retry_after_seconds value =
    (case value of
       None \<Rightarrow> None
     | Some text \<Rightarrow>
        (case float_of_str text of
           None \<Rightarrow> None
         | Some (Fin q) \<Rightarrow> if q < 0 \<or> q > 24 * 60 * 60 then None else Some (Fin q)
         | Some NaN \<Rightarrow> Some NaN
         | Some _ \<Rightarrow> None))"

definition response_error_facts :: "http_response \<Rightarrow> pydict" where
  "response_error_facts response =
    (case rs_json response of
       Some (PDict decoded) \<Rightarrow>
         [(''code'', dict_get decoded ''code''), (''terminal'', dict_get decoded ''terminal''),
          (''sourceAuthenticated'', dict_get decoded ''sourceAuthenticated'')]
     | _ \<Rightarrow> [])"

text \<open>\<open>re.fullmatch(r"[A-Z0-9_.-]{1,100}", code)\<close>, else \<open>UNKNOWN\<close>.\<close>

definition public_code :: "pyval \<Rightarrow> string" where
  "public_code v =
    (case v of
       PStr c \<Rightarrow>
         if 1 \<le> length c \<and> length c \<le> 100
            \<and> list_all (\<lambda>ch. is_upper_ascii ch \<or> is_digit ch \<or> ch \<in> set ''_.-'') c
         then c else ''UNKNOWN''
     | _ \<Rightarrow> ''UNKNOWN'')"

definition trunc_time :: "time \<Rightarrow> int" where
  "trunc_time t = (if t < 0 then \<lceil>t\<rceil> else \<lfloor>t\<rfloor>)"

definition signed_request :: "navigator_client \<Rightarrow> time \<Rightarrow> bytes \<Rightarrow> http_request" where
  "signed_request nc now raw_body =
    (let timestamp = str_of_int (trunc_time now);
         signature = hmac_sha256 (nc_hmac_key nc) (timestamp @ ''.'' @ raw_body) in
     \<lparr>rq_body = raw_body,
      rq_headers =
        [(''Content-Type'', ''application/json''),
         (''X-Cyrene-Source-Key-Id'', nc_key_id nc),
         (''X-Cyrene-Source-Timestamp'', timestamp),
         (''X-Cyrene-Source-Signature'', ''v1='' @ signature)]\<rparr>)"

definition admission_of_response :: "http_response \<Rightarrow> submit_fault + admission_result" where
  "admission_of_response response =
    (let st = rs_status_code response in
     if 200 \<le> st \<and> st < 300 then
       Inr \<lparr>ar_accepted = True,
            ar_duplicate = (case rs_json response of
              Some (PDict d) \<Rightarrow> dict_get d ''duplicate'' = PBool True | _ \<Rightarrow> False),
            ar_status_code = st, ar_terminal_rejection = False, ar_code = None\<rparr>
     else
       let body = response_error_facts response;
           safe_code = public_code (dict_get body ''code'');
           authenticated = (dict_get body ''sourceAuthenticated'' = PBool True) in
       if st = 403 \<and> dict_get body ''terminal'' = PBool True \<and> authenticated
          \<and> safe_code \<in> set TERMINAL_BUSINESS_REJECTIONS
       then Inr \<lparr>ar_accepted = False, ar_duplicate = False, ar_status_code = st,
                 ar_terminal_rejection = True, ar_code = Some safe_code\<rparr>
       else
         Inl (NavigatorAdmissionUnavailable
           \<lparr>nu_retryable = (st = 401 \<or> (st = 403 \<and> \<not> authenticated) \<or> (300 \<le> st \<and> st < 400)
                          \<or> st \<in> {408, 425, 429} \<or> st \<ge> 500),
            nu_status_code = Some st, nu_code = Some safe_code,
            nu_retry_after_seconds = retry_after_seconds (rs_retry_after response)\<rparr>))"

definition submit_body ::
    "navigator_client \<Rightarrow> (http_request \<Rightarrow> http_outcome) \<Rightarrow> time \<Rightarrow> bytes \<Rightarrow> submit_fault + admission_result" where
  "submit_body nc post now raw_body =
    (if raw_body = [] then Inl SubmitValueError
     else
       (case post (signed_request nc now raw_body) of
          HttpTimeout \<Rightarrow> Inl (NavigatorAdmissionUnavailable
            \<lparr>nu_retryable = True, nu_status_code = None, nu_code = None, nu_retry_after_seconds = None\<rparr>)
        | HttpError \<Rightarrow> Inl (NavigatorAdmissionUnavailable
            \<lparr>nu_retryable = True, nu_status_code = None, nu_code = None, nu_retry_after_seconds = None\<rparr>)
        | HttpOtherException \<Rightarrow> Inl SubmitOtherException
        | HttpResponse response \<Rightarrow> admission_of_response response))"

definition submit ::
    "(rat \<Rightarrow> string) \<Rightarrow> navigator_client \<Rightarrow> (http_request \<Rightarrow> http_outcome) \<Rightarrow> time \<Rightarrow> pydict
     \<Rightarrow> submit_fault + admission_result" where
  "submit frepr nc post now event = submit_body nc post now (canonical_event_body frepr event)"

section \<open>Forwarding one claim\<close>

datatype worker_error = WorkerCancelled | WorkerSpool spool_error

text \<open>A transition of the spool inside the worker: its own errors pass through, its boolean is ignored.\<close>

definition spool_step :: "bool spool_tx \<Rightarrow> spool \<Rightarrow> (worker_error + unit) \<times> spool" where
  "spool_step tx s = (case tx s of (Inl e, s') \<Rightarrow> (Inl (WorkerSpool e), s') | (Inr _, s') \<Rightarrow> (Inr (), s'))"

definition forward ::
    "bool \<Rightarrow> time \<Rightarrow> delivery_claim \<Rightarrow> submit_fault + admission_result \<Rightarrow> spool \<Rightarrow> (worker_error + unit) \<times> spool" where
  "forward io now c outcome s =
    (case outcome of
       Inl (NavigatorAdmissionUnavailable u) \<Rightarrow>
         if nu_retryable u
         then spool_step (mark_retry io now c (retry_delay_seconds (cl_attempt c) (nu_retry_after_seconds u))
                (nu_status_code u) (nu_code u)) s
         else spool_step (mark_dead io now c (nu_status_code u) (nu_code u)) s
     | Inl SubmitCancelled \<Rightarrow> (Inl WorkerCancelled, s)
     | Inl SubmitTimeoutError \<Rightarrow>
         spool_step (mark_retry io now c (retry_delay_seconds (cl_attempt c) None) None
           (Some ''NAVIGATOR_TOTAL_TIMEOUT'')) s
     | Inl _ \<Rightarrow>
         spool_step (mark_retry io now c (retry_delay_seconds (cl_attempt c) None) None
           (Some ''DELIVERY_CLIENT_ERROR'')) s
     | Inr result \<Rightarrow>
         if ar_accepted result then spool_step (mark_delivered io now c) s
         else if ar_terminal_rejection result
         then spool_step (mark_rejected io now c (ar_status_code result) (ar_code result)) s
         else spool_step (mark_dead io now c (Some (ar_status_code result))
                (case ar_code result of
                   Some code \<Rightarrow> if code = [] then Some ''UNEXPECTED_NAVIGATOR_RESULT'' else Some code
                 | None \<Rightarrow> Some ''UNEXPECTED_NAVIGATOR_RESULT'')) s)"

section \<open>The worker loop\<close>

record worker =
  wk_navigator_timeout :: rat
  wk_stopping :: bool
  wk_wakeup :: bool
  wk_idle :: bool
  wk_running :: bool

definition lease_seconds :: "worker \<Rightarrow> rat" where
  "lease_seconds w = max 15 (wk_navigator_timeout w * 2 + 1)"

definition shutdown_grace_seconds :: "worker \<Rightarrow> rat" where
  "shutdown_grace_seconds w = wk_navigator_timeout w + 2"

definition new_worker :: "rat \<Rightarrow> worker" where
  "new_worker timeout =
    \<lparr>wk_navigator_timeout = timeout, wk_stopping = False, wk_wakeup = False, wk_idle = True, wk_running = False\<rparr>"

definition start :: "worker \<Rightarrow> worker" where
  "start w = (if wk_running w then w else w\<lparr>wk_stopping := False, wk_wakeup := True, wk_running := True\<rparr>)"

definition close :: "worker \<Rightarrow> worker" where
  "close w = (if \<not> wk_running w then w else w\<lparr>wk_stopping := True, wk_wakeup := True, wk_running := False\<rparr>)"

definition notify :: "worker \<Rightarrow> worker" where
  "notify w = w\<lparr>wk_wakeup := True\<rparr>"

record worker_round =
  rd_io_paused :: bool
  rd_io_claim :: bool
  rd_io_mark :: bool
  rd_claim_now :: time
  rd_token :: string
  rd_outcome :: "delivery_claim \<Rightarrow> submit_fault + admission_result"
  rd_mark_now :: time

text \<open>One round of \<open>_run\<close>: the result is \<open>Some WorkerCancelled\<close> when the task was cancelled, and
  \<open>None\<close> when the loop goes on (a storage failure is logged and the loop continues).\<close>

definition run_round :: "worker_round \<Rightarrow> worker \<times> spool \<Rightarrow> worker_error option \<times> worker \<times> spool" where
  "run_round rd ws =
    (case ws of (w, s) \<Rightarrow>
      (case is_paused (rd_io_paused rd) s of
         (Inl e, s1) \<Rightarrow> (None, w, s1)
       | (Inr True, s1) \<Rightarrow> (None, w\<lparr>wk_wakeup := False\<rparr>, s1)
       | (Inr False, s1) \<Rightarrow>
          (case claim_next (rd_io_claim rd) (rd_claim_now rd) (rd_token rd) (lease_seconds w) s1 of
             (Inl e, s2) \<Rightarrow> (None, w, s2)
           | (Inr None, s2) \<Rightarrow> (None, w\<lparr>wk_wakeup := False\<rparr>, s2)
           | (Inr (Some c), s2) \<Rightarrow>
              (case forward (rd_io_mark rd) (rd_mark_now rd) c (rd_outcome rd c) s2 of
                 (Inl WorkerCancelled, s3) \<Rightarrow> (Some WorkerCancelled, w\<lparr>wk_idle := True\<rparr>, s3)
               | (_, s3) \<Rightarrow> (None, w\<lparr>wk_idle := True\<rparr>, s3)))))"

fun worker_run :: "worker_round list \<Rightarrow> worker \<times> spool \<Rightarrow> worker_error option \<times> worker \<times> spool" where
  "worker_run [] ws = (None, ws)"
| "worker_run (rd # rds) ws =
    (if wk_stopping (fst ws) then (None, ws)
     else (case run_round rd ws of
         (Some e, ws') \<Rightarrow> (Some e, ws')
       | (None, ws') \<Rightarrow> worker_run rds ws'))"

section \<open>Draining pause\<close>

text \<open>
  \<open>pause_and_wait\<close> polls the database while other tasks go on using it, and keeps to a deadline of the monotonic clock.  A
  \<open>drain_poll\<close> is what the environment contributes to one pass of the loop: how long it takes until the idle event is
  set (\<open>None\<close> when it is never set), the operations that other tasks complete while this one waits, how long the two queries take, the readings of
  the wall clock, storage failures, and by how much the event loop wakes the task too late.  The waiting itself is in the loop: the
  timeout of \<open>asyncio.wait_for\<close> and the length of the sleep.
\<close>

record drain_poll =
  dp_idle :: "time option"
  dp_idle_ops :: "spool_op list"
  dp_status_io :: bool
  dp_status_now :: time
  dp_status_time :: time
  dp_status_ops :: "spool_op list"
  dp_deadline_io :: bool
  dp_deadline_now :: time
  dp_deadline_time :: time
  dp_wall :: time
  dp_sleep_ops :: "spool_op list"
  dp_late :: time

text \<open>\<open>asyncio.wait_for(event.wait(), timeout)\<close>: the time waited, or \<open>None\<close> for \<open>TimeoutError\<close>.\<close>

definition wait_for :: "time \<Rightarrow> time option \<Rightarrow> time option" where
  "wait_for timeout set_after = (case set_after of None \<Rightarrow> None | Some d \<Rightarrow> if d < timeout then Some d else None)"

definition wait_seconds :: "time \<Rightarrow> time option \<Rightarrow> time \<Rightarrow> time" where
  "wait_seconds remaining lease_deadline wall =
    (case lease_deadline of
       None \<Rightarrow> min (1 / 4) remaining
     | Some lease \<Rightarrow> min (min (1 / 4) remaining) (max (1 / 100) (lease - wall)))"

text \<open>The loop yields its result (\<open>None\<close> while it still runs), the monotonic clock and the database.\<close>

fun drain_loop ::
    "(rat \<Rightarrow> string) \<Rightarrow> spool_limits \<Rightarrow> time \<Rightarrow> drain_poll list \<Rightarrow> time \<Rightarrow> spool
     \<Rightarrow> (spool_error + delivery_status) option \<times> time \<times> spool" where
  "drain_loop frepr limits deadline [] clock s = (None, clock, s)"
| "drain_loop frepr limits deadline (p # polls) clock s =
    (let remaining = deadline - clock in
     if remaining \<le> 0 then (Some (Inl DeliveryPauseTimeout), clock, s)
     else
       let s1 = snd (spool_run frepr limits (dp_idle_ops p) s) in
       (case wait_for remaining (dp_idle p) of
          None \<Rightarrow> (Some (Inl DeliveryPauseTimeout), clock + remaining + dp_late p, s1)
        | Some waited \<Rightarrow>
           let clock1 = clock + waited + dp_status_time p in
           (case fst (status (dp_status_io p) (dp_status_now p) s1) of
              Inl e \<Rightarrow> (Some (Inl e), clock1, s1)
            | Inr st \<Rightarrow>
               if ds_active_delivery_count st = 0 then (Some (Inr st), clock1, s1)
               else
                 let remaining = deadline - clock1; s2 = snd (spool_run frepr limits (dp_status_ops p) s1) in
                 if remaining \<le> 0 then (Some (Inl DeliveryPauseTimeout), clock1, s2)
                 else
                   (case fst (active_lease_deadline (dp_deadline_io p) (dp_deadline_now p) s2) of
                      Inl e \<Rightarrow> (Some (Inl e), clock1 + dp_deadline_time p, s2)
                    | Inr lease_deadline \<Rightarrow>
                       drain_loop frepr limits deadline polls
                         (clock1 + dp_deadline_time p + wait_seconds remaining lease_deadline (dp_wall p) + dp_late p)
                         (snd (spool_run frepr limits (dp_sleep_ops p) s2))))))"

definition pause_and_wait ::
    "(rat \<Rightarrow> string) \<Rightarrow> spool_limits \<Rightarrow> bool \<Rightarrow> time \<Rightarrow> string \<Rightarrow> int \<Rightarrow> time \<Rightarrow> drain_poll list \<Rightarrow> worker \<times> spool
     \<Rightarrow> (spool_error + delivery_status) option \<times> time \<times> worker \<times> spool" where
  "pause_and_wait frepr limits io now holder expected_revision monotonic polls ws =
    (case ws of (w, s) \<Rightarrow>
      (case pause io now holder expected_revision s of
         (Inl e, s') \<Rightarrow> (Some (Inl e), monotonic, w, s')
       | (Inr _, s') \<Rightarrow>
          (case drain_loop frepr limits (monotonic + lease_seconds w + shutdown_grace_seconds w) polls monotonic s' of
             (r, clock, s'') \<Rightarrow> (r, clock, notify w, s''))))"

definition worker_resume ::
    "bool \<Rightarrow> time \<Rightarrow> string \<Rightarrow> int \<Rightarrow> worker \<times> spool \<Rightarrow> (spool_error + delivery_status) \<times> worker \<times> spool" where
  "worker_resume io now holder expected_revision ws =
    (case ws of (w, s) \<Rightarrow>
      (case resume io now holder expected_revision s of
         (Inl e, s') \<Rightarrow> (Inl e, w, s')
       | (Inr st, s') \<Rightarrow> (Inr st, notify w, s')))"

section \<open>The queue as the worker sees it\<close>

text \<open>A sequence of marks and their replies.\<close>

fun run_marks ::
    "('m \<Rightarrow> 'c \<Rightarrow> 's \<Rightarrow> ('e + bool) \<times> 's) \<Rightarrow> ('m \<times> 'c) list \<Rightarrow> 's \<Rightarrow> ('e + bool) list \<times> 's" where
  "run_marks mark [] s = ([], s)"
| "run_marks mark ((m, c) # rest) s =
    (let (r, s') = mark m c s; (rs, s'') = run_marks mark rest s' in (r # rs, s''))"

text \<open>What the worker relies on: a mark on a held claim succeeds and ends the claim, a mark on a claim
  that is not held reports so and changes nothing, and a mark never disturbs another claim.\<close>

locale lease_queue =
  fixes inv :: "'s \<Rightarrow> bool"
    and held :: "'c \<Rightarrow> 's \<Rightarrow> bool"
    and same_item :: "'c \<Rightarrow> 'c \<Rightarrow> bool"
    and mark :: "'m \<Rightarrow> 'c \<Rightarrow> 's \<Rightarrow> ('e + bool) \<times> 's"
  assumes mark_inv: "inv s \<Longrightarrow> inv (snd (mark m c s))"
    and mark_held: "inv s \<Longrightarrow> held c s \<Longrightarrow> fst (mark m c s) = Inr True \<and> \<not> held c (snd (mark m c s))"
    and mark_unheld: "inv s \<Longrightarrow> \<not> held c s \<Longrightarrow> mark m c s = (Inr False, s)"
    and mark_other: "inv s \<Longrightarrow> \<not> same_item c c' \<Longrightarrow> held c' (snd (mark m c s)) \<longleftrightarrow> held c' s"
begin

lemma marks_unheld:
  assumes "inv s" "\<not> held c s"
  shows "run_marks mark (map (\<lambda>m. (m, c)) ms) s = (map (\<lambda>_. Inr False) ms, s)"
  using assms by (induction ms) (simp_all add: mark_unheld)

text \<open>However often a claim is marked, exactly the first mark counts.\<close>

lemma first_mark_wins:
  assumes "inv s" "held c s"
  shows "fst (run_marks mark (map (\<lambda>m. (m, c)) (m # ms)) s) = Inr True # map (\<lambda>_. Inr False) ms
    \<and> snd (run_marks mark (map (\<lambda>m. (m, c)) (m # ms)) s) = snd (mark m c s)"
proof -
  obtain r s' where run: "mark m c s = (r, s')" by fastforce
  with mark_held [OF assms, of m] mark_inv [OF assms(1), of m c]
  have "r = Inr True" "\<not> held c s'" "inv s'" by simp_all
  with run marks_unheld [of s' c ms] show ?thesis by simp
qed

end

datatype queue_mark =
    MarkDelivered
  | MarkRejected int "string option"
  | MarkDead "int option" "string option"
  | MarkRetry rat "int option" "string option"

fun spool_mark :: "time \<times> queue_mark \<Rightarrow> delivery_claim \<Rightarrow> bool spool_tx" where
  "spool_mark (now, MarkDelivered) c = mark_delivered True now c"
| "spool_mark (now, MarkRejected code err) c = mark_rejected True now c code err"
| "spool_mark (now, MarkDead code err) c = mark_dead True now c code err"
| "spool_mark (now, MarkRetry delay code err) c = mark_retry True now c delay code err"

definition same_item :: "delivery_claim \<Rightarrow> delivery_claim \<Rightarrow> bool" where
  "same_item c c' \<longleftrightarrow> cl_delivery_id c = cl_delivery_id c'"

text \<open>The row a mark leaves.\<close>

fun mark_row :: "time \<times> queue_mark \<Rightarrow> delivery \<Rightarrow> delivery" where
  "mark_row (now, MarkDelivered) = finish_row now Delivered None None"
| "mark_row (now, MarkRejected code err) = finish_row now Rejected (Some code) (safe_error_code err)"
| "mark_row (now, MarkDead code err) = finish_row now Dead code (safe_error_code err)"
| "mark_row (now, MarkRetry delay code err) =
    retry_row (now + max 0 (min delay MAX_RETRY_DELAY_SECONDS)) code (safe_error_code err)"

lemma spool_mark_eq:
  assumes "spool_inv limits s"
  shows "spool_mark m c s =
    (Inr (held c s), s\<lparr>deliveries := sql_update (holds_lease c) (mark_row m) (deliveries s)\<rparr>)"
  using assms
  by (cases "(m, c)" rule: spool_mark.cases)
    (simp_all add: mark_delivered_def mark_rejected_def mark_dead_def mark_retry_def
        run_sync_def finish_sync_eq retry_sync_eq held_iff)

lemma mark_row_unleased: "dl_state (mark_row m r) \<noteq> Leased"
  by (cases m rule: mark_row.cases) (simp_all add: finish_row_def retry_row_def)

lemma mark_row_id: "dl_delivery_id (mark_row m r) = dl_delivery_id r"
  by (cases m rule: mark_row.cases) (simp_all add: finish_row_def retry_row_def)

lemma held_mark:
  assumes "\<not> same_item c c'"
  shows "held c' (s\<lparr>deliveries := sql_update (holds_lease c) (mark_row m) (deliveries s)\<rparr>) \<longleftrightarrow> held c' s"
proof -
  have "holds_lease c' (if holds_lease c r then mark_row m r else r) \<longleftrightarrow> holds_lease c' r" for r
    using assms mark_row_unleased [of m r] by (auto simp: holds_lease_def same_item_def mark_row_id)
  then show ?thesis by (simp add: held_iff sql_update_def del: if_image_distrib)
qed

lemma spool_mark_inv:
  assumes "spool_inv limits s"
  shows "spool_inv limits (snd (spool_mark m c s))"
  using assms
  by (cases "(m, c)" rule: spool_mark.cases)
    (auto simp: mark_delivered_def mark_rejected_def mark_dead_def mark_retry_def
      intro!: run_sync_inv finish_sync_inv retry_sync_inv)

interpretation spool_queue: lease_queue "spool_inv limits" held same_item spool_mark for limits
proof unfold_locales
  fix s m c
  assume inv: "spool_inv limits s"
  show "spool_inv limits (snd (spool_mark m c s))" using inv by (rule spool_mark_inv)
  show "\<not> held c s \<Longrightarrow> spool_mark m c s = (Inr False, s)"
    using sql_update_nothing [of "holds_lease c" "deliveries s"]
    by (simp add: spool_mark_eq [OF inv] held_iff sql_count_zero)
  show "held c s \<Longrightarrow> fst (spool_mark m c s) = Inr True \<and> \<not> held c (snd (spool_mark m c s))"
    using mark_row_unleased [of m] by (auto simp: spool_mark_eq [OF inv] held_iff set_sql_update holds_lease_def)
  show "\<not> same_item c c' \<Longrightarrow> held c' (snd (spool_mark m c s)) = held c' s" for c'
    by (simp add: spool_mark_eq [OF inv] held_mark)
qed

end
