(* ===== verification/Delivery_Worker_Props.thy ===== *)
theory Delivery_Worker_Props
  imports Delivery_Worker
begin

text \<open>
  The properties of the delivery worker: what Navigator's answer does to the claimed message, that
  every attempt sends the acknowledged bytes, that only the first mark of a claim counts, that a
  running worker drains the queue, and that a pause that has drained leaves nothing in flight.
\<close>

section \<open>One forward\<close>

fun accepted_by :: "http_outcome \<Rightarrow> bool" where
  "accepted_by (HttpResponse r) \<longleftrightarrow> 200 \<le> rs_status_code r \<and> rs_status_code r < 300"
| "accepted_by _ \<longleftrightarrow> False"

fun rejected_by :: "http_outcome \<Rightarrow> bool" where
  "rejected_by (HttpResponse r) \<longleftrightarrow>
    (case rs_json r of
       Some (PDict d) \<Rightarrow>
         rs_status_code r = 403 \<and> dict_get d ''terminal'' = PBool True
         \<and> dict_get d ''sourceAuthenticated'' = PBool True
         \<and> dict_get d ''code'' \<in> PStr ` set TERMINAL_BUSINESS_REJECTIONS
     | _ \<Rightarrow> False)"
| "rejected_by _ \<longleftrightarrow> False"

text \<open>The answers after which the message is tried again: no answer at all, or a status that is temporary or not confirmed by
  Navigator itself.  Every remaining status is a dead letter.\<close>

fun retried_by :: "http_outcome \<Rightarrow> bool" where
  "retried_by (HttpResponse r) \<longleftrightarrow>
    (let st = rs_status_code r in
     st = 401 \<or> (300 \<le> st \<and> st < 400) \<or> st \<in> {408, 425, 429} \<or> 500 \<le> st
     \<or> st = 403 \<and> (case rs_json r of Some (PDict d) \<Rightarrow> dict_get d ''sourceAuthenticated'' \<noteq> PBool True | _ \<Rightarrow> True))"
| "retried_by _ \<longleftrightarrow> True"

text \<open>The mark a forward makes; \<open>None\<close> for a cancelled task, which leaves the lease to expire.\<close>

definition forward_mark :: "delivery_claim \<Rightarrow> submit_fault + admission_result \<Rightarrow> queue_mark option" where
  "forward_mark c outcome =
    (case outcome of
       Inl (NavigatorAdmissionUnavailable u) \<Rightarrow>
         Some (if nu_retryable u
               then MarkRetry (retry_delay_seconds (cl_attempt c) (nu_retry_after_seconds u))
                      (nu_status_code u) (nu_code u)
               else MarkDead (nu_status_code u) (nu_code u))
     | Inl SubmitCancelled \<Rightarrow> None
     | Inl SubmitTimeoutError \<Rightarrow>
         Some (MarkRetry (retry_delay_seconds (cl_attempt c) None) None (Some ''NAVIGATOR_TOTAL_TIMEOUT''))
     | Inl _ \<Rightarrow>
         Some (MarkRetry (retry_delay_seconds (cl_attempt c) None) None (Some ''DELIVERY_CLIENT_ERROR''))
     | Inr result \<Rightarrow>
         Some (if ar_accepted result then MarkDelivered
               else if ar_terminal_rejection result then MarkRejected (ar_status_code result) (ar_code result)
               else MarkDead (Some (ar_status_code result))
                 (case ar_code result of
                    Some code \<Rightarrow> if code = [] then Some ''UNEXPECTED_NAVIGATOR_RESULT'' else Some code
                  | None \<Rightarrow> Some ''UNEXPECTED_NAVIGATOR_RESULT'')))"

lemma forward_eq:
  "forward True now c outcome s =
    (case forward_mark c outcome of
       None \<Rightarrow> (Inl WorkerCancelled, s)
     | Some m \<Rightarrow> spool_step (spool_mark (now, m) c) s)"
  by (auto simp: forward_def forward_mark_def split: sum.split submit_fault.split)

lemma spool_step_mark:
  assumes "spool_inv limits s"
  shows "spool_step (spool_mark m c) s =
    (Inr (), s\<lparr>deliveries := sql_update (holds_lease c) (mark_row m) (deliveries s)\<rparr>)"
  by (simp add: spool_step_def spool_mark_eq [OF assms])

lemma public_code_terminal:
  "public_code v \<in> set TERMINAL_BUSINESS_REJECTIONS \<longleftrightarrow> v \<in> PStr ` set TERMINAL_BUSINESS_REJECTIONS"
proof -
  have ok: "list_all (\<lambda>code. public_code (PStr code) = code) TERMINAL_BUSINESS_REJECTIONS" by code_simp
  have "''UNKNOWN'' \<notin> set TERMINAL_BUSINESS_REJECTIONS" by code_simp
  moreover have "public_code v = ''UNKNOWN'' \<or> v = PStr (public_code v)"
    by (auto simp: public_code_def split: pyval.split)
  ultimately show ?thesis using ok by (auto simp: list_all_iff)
qed

lemma response_facts_get:
  "dict_get (response_error_facts r) ''code'' = (case rs_json r of Some (PDict d) \<Rightarrow> dict_get d ''code'' | _ \<Rightarrow> PNone)"
  "dict_get (response_error_facts r) ''terminal'' =
    (case rs_json r of Some (PDict d) \<Rightarrow> dict_get d ''terminal'' | _ \<Rightarrow> PNone)"
  "dict_get (response_error_facts r) ''sourceAuthenticated'' =
    (case rs_json r of Some (PDict d) \<Rightarrow> dict_get d ''sourceAuthenticated'' | _ \<Rightarrow> PNone)"
  by (simp_all add: response_error_facts_def split: option.split pyval.split)

text \<open>What the client reports of an answer.\<close>

lemma submit_body_verdict:
  assumes "body \<noteq> []"
  shows "forward_mark c (submit_body nc post now body) = Some MarkDelivered \<longleftrightarrow>
      accepted_by (post (signed_request nc now body))"
    and "(\<exists>code err. forward_mark c (submit_body nc post now body) = Some (MarkRejected code err)) \<longleftrightarrow>
      rejected_by (post (signed_request nc now body))"
    and "forward_mark c (submit_body nc post now body) \<noteq> None"
    and "forward_mark c (submit_body nc post now body) = Some (MarkRetry delay code err) \<Longrightarrow>
      \<exists>after. delay = retry_delay_seconds (cl_attempt c) after"
    and "(\<exists>delay code err. forward_mark c (submit_body nc post now body) = Some (MarkRetry delay code err)) \<longleftrightarrow>
      retried_by (post (signed_request nc now body))"
proof -
  have none: "PNone \<notin> PStr ` X" for X by auto
  show "forward_mark c (submit_body nc post now body) = Some MarkDelivered \<longleftrightarrow>
      accepted_by (post (signed_request nc now body))"
    using assms
    by (auto simp: submit_body_def forward_mark_def admission_of_response_def Let_def split: http_outcome.split)
  show "(\<exists>code err. forward_mark c (submit_body nc post now body) = Some (MarkRejected code err)) \<longleftrightarrow>
      rejected_by (post (signed_request nc now body))"
    using assms none
    by (auto simp: submit_body_def forward_mark_def admission_of_response_def Let_def response_facts_get
        public_code_terminal split: http_outcome.split option.split pyval.split)
  show "forward_mark c (submit_body nc post now body) \<noteq> None"
    using assms
    by (auto simp: submit_body_def forward_mark_def admission_of_response_def Let_def split: http_outcome.split)
  show "forward_mark c (submit_body nc post now body) = Some (MarkRetry delay code err) \<Longrightarrow>
      \<exists>after. delay = retry_delay_seconds (cl_attempt c) after"
    using assms
    by (auto simp: forward_mark_def split: sum.splits submit_fault.splits if_splits)
  show "(\<exists>delay code err. forward_mark c (submit_body nc post now body) = Some (MarkRetry delay code err)) \<longleftrightarrow>
      retried_by (post (signed_request nc now body))"
    using assms
    by (auto simp: submit_body_def forward_mark_def admission_of_response_def Let_def response_facts_get
        split: http_outcome.split option.split pyval.split)
qed

lemma held_claim:
  assumes "spool_inv limits s" "claim_next io now token secs s = (Inr (Some c), s1)"
  shows "held c s1"
  using assms by (rule claimed_row_leased) (auto simp: held_iff)

lemma forward_row:
  assumes inv: "spool_inv limits s" and r: "r \<in> set (deliveries s)" "holds_lease c r"
    and m: "forward_mark c outcome = Some m"
  shows "fst (forward True now c outcome s) = Inr ()
    \<and> mark_row (now, m) r \<in> set (deliveries (snd (forward True now c outcome s)))"
  using r m by (auto simp: forward_eq spool_step_mark [OF inv] set_sql_update)

lemma mark_row_state:
  "dl_state (mark_row (now, m) r) = Delivered \<longleftrightarrow> m = MarkDelivered"
  "dl_state (mark_row (now, m) r) = Rejected \<longleftrightarrow> (\<exists>code err. m = MarkRejected code err)"
  "dl_state (mark_row (now, m) r) \<in> {Delivered, Rejected} \<or> dl_body (mark_row (now, m) r) = dl_body r"
  "dl_state (mark_row (now, m) r) = Queued \<longleftrightarrow> (\<exists>delay code err. m = MarkRetry delay code err)"
  "dl_state (mark_row (now, m) r) \<in> {Delivered, Rejected, Queued, Dead}"
  by (cases m; simp add: finish_row_def retry_row_def)+

lemma retry_delay_le: "1 \<le> retry_delay_seconds a x" "retry_delay_seconds a x \<le> MAX_RETRY_DELAY_SECONDS"
proof -
  have b: "1 \<le> min (2 ^ nat (min (max 0 (a - 1)) 9)) MAX_RETRY_DELAY_SECONDS" by (rule backoff_bounds)
  have m: "1 \<le> MAX_RETRY_DELAY_SECONDS" by (simp add: MAX_RETRY_DELAY_SECONDS_def)
  show "1 \<le> retry_delay_seconds a x"
    using b m unfolding retry_delay_seconds_def Let_def by (auto simp: le_max_iff_disj split: option.split pyfloat.split)
  show "retry_delay_seconds a x \<le> MAX_RETRY_DELAY_SECONDS"
    unfolding retry_delay_seconds_def Let_def by (auto split: option.split pyfloat.split)
qed

lemma retry_row_time:
  assumes "forward_mark c (submit_body nc post t body) = Some m" "body \<noteq> []"
    "dl_state (mark_row (now, m) r) = Queued"
  shows "now + 1 \<le> dl_next_attempt_at (mark_row (now, m) r)
    \<and> dl_next_attempt_at (mark_row (now, m) r) \<le> now + MAX_RETRY_DELAY_SECONDS"
proof -
  from assms(3) obtain delay code err where m: "m = MarkRetry delay code err"
    using mark_row_state(4) by blast
  obtain after where "delay = retry_delay_seconds (cl_attempt c) after"
    using submit_body_verdict(4) [OF assms(2)] assms(1) unfolding m by blast
  with retry_delay_le [of "cl_attempt c" after] m show ?thesis
    by (simp add: retry_row_def)
qed

lemma retry_mark_row:
  assumes "m = MarkRetry (retry_delay_seconds a x) code err"
  shows "dl_state (mark_row (now, m) r) = Queued \<and> dl_body (mark_row (now, m) r) = dl_body r
    \<and> now + 1 \<le> dl_next_attempt_at (mark_row (now, m) r) \<and> dl_next_attempt_at (mark_row (now, m) r) \<le> now + MAX_RETRY_DELAY_SECONDS"
  using assms retry_delay_le [of a x] by (simp add: retry_row_def)

text \<open>C7. Navigator's answer decides the message, and only a confirmed answer ends it: a forward of a
  claimed message leaves it delivered exactly when the signed request got a 2xx answer, rejected
  exactly when it got an authenticated, terminal 403 with an allow-listed business code, and queued again exactly when there was no
  answer or one with a temporary or unconfirmed status; every remaining answer makes it a dead letter.  Queued again or dead, it keeps
  its exact body, and queued again its next attempt is between one second and five minutes away.  When the time limit of the whole
  attempt strikes first, the message is queued again in the same way.\<close>

theorem forward_settles:
  assumes inv: "spool_inv limits s" and claimed: "claim_next io t token secs s = (Inr (Some c), s1)"
    and body: "cl_body c \<noteq> []"
    and fwd: "forward True now c (submit_body nc post t' (cl_body c)) s1 = (res, s2)"
    and late: "forward True now c (Inl SubmitTimeoutError) s1 = (res', s3)"
  shows "res = Inr () \<and> (\<exists>r \<in> set (deliveries s2). dl_delivery_id r = cl_delivery_id c
     \<and> dl_state r \<noteq> Leased
     \<and> (dl_state r = Delivered \<longleftrightarrow> accepted_by (post (signed_request nc t' (cl_body c))))
     \<and> (dl_state r = Rejected \<longleftrightarrow> rejected_by (post (signed_request nc t' (cl_body c))))
     \<and> (dl_state r = Queued \<longleftrightarrow> retried_by (post (signed_request nc t' (cl_body c))))
     \<and> (dl_state r \<in> {Delivered, Rejected} \<or> dl_body r = Some (cl_body c))
     \<and> (dl_state r = Queued \<longrightarrow> now + 1 \<le> dl_next_attempt_at r
          \<and> dl_next_attempt_at r \<le> now + MAX_RETRY_DELAY_SECONDS))
   \<and> res' = Inr () \<and> (\<exists>r \<in> set (deliveries s3). dl_delivery_id r = cl_delivery_id c \<and> dl_state r = Queued
     \<and> dl_body r = Some (cl_body c) \<and> now + 1 \<le> dl_next_attempt_at r \<and> dl_next_attempt_at r \<le> now + MAX_RETRY_DELAY_SECONDS)"
proof -
  let ?o = "submit_body nc post t' (cl_body c)"
  have inv1: "spool_inv limits s1" using inv claimed by (rule claim_inv)
  obtain r where r: "r \<in> set (deliveries s1)" "holds_lease c r" "dl_body r = Some (cl_body c)"
    using inv claimed by (rule claimed_row_leased)
  have id: "dl_delivery_id (mark_row (now, m) r) = cl_delivery_id c" for m
    using r(2) by (simp add: mark_row_id holds_lease_def)
  obtain m where m: "forward_mark c ?o = Some m"
    using submit_body_verdict(3) [OF body] by blast
  from forward_row [OF inv1 r(1,2) m, of now] fwd
  have fin: "res = Inr ()" "mark_row (now, m) r \<in> set (deliveries s2)" by simp_all
  obtain m' code err where m': "forward_mark c (Inl SubmitTimeoutError) = Some m'" "m' = MarkRetry (retry_delay_seconds (cl_attempt c) None) code err"
    by (simp add: forward_mark_def)
  from forward_row [OF inv1 r(1,2) m'(1), of now] late
  have out: "res' = Inr ()" "mark_row (now, m') r \<in> set (deliveries s3)" by simp_all
  note verdict = submit_body_verdict(1,2,5) [OF body, of c nc post t']
  have "\<exists>r \<in> set (deliveries s3). dl_delivery_id r = cl_delivery_id c \<and> dl_state r = Queued
     \<and> dl_body r = Some (cl_body c) \<and> now + 1 \<le> dl_next_attempt_at r \<and> dl_next_attempt_at r \<le> now + MAX_RETRY_DELAY_SECONDS"
    using out(2) id [of m'] r(3) retry_mark_row [OF m'(2), of now r] by (intro bexI [of _ "mark_row (now, m') r"]) simp_all
  moreover have "(dl_state (mark_row (now, m) r) = Delivered \<longleftrightarrow> accepted_by (post (signed_request nc t' (cl_body c))))
      \<and> (dl_state (mark_row (now, m) r) = Rejected \<longleftrightarrow> rejected_by (post (signed_request nc t' (cl_body c))))
      \<and> (dl_state (mark_row (now, m) r) = Queued \<longleftrightarrow> retried_by (post (signed_request nc t' (cl_body c))))"
    using verdict m mark_row_state(1,2,4) [of now m r] by simp
  moreover have "dl_state (mark_row (now, m) r) \<in> {Delivered, Rejected} \<or> dl_body (mark_row (now, m) r) = Some (cl_body c)"
    using mark_row_state(3) [of now m r] r(3) by simp
  ultimately show ?thesis
    using fin out(1) id [of m] mark_row_unleased [of "(now, m)" r] retry_row_time [OF m body, of now r] by blast
qed

definition sample_client :: navigator_client where
  "sample_client = \<lparr>nc_key_id = ''k'', nc_hmac_key = replicate 32 CHR ''s''\<rparr>"

definition sample_post :: "http_request \<Rightarrow> http_outcome" where
  "sample_post rq = HttpResponse \<lparr>rs_status_code = 202, rs_json = None, rs_retry_after = None\<rparr>"

theorem forward_settles_witness:
  "\<exists>s1 res s2. claim_next True 20 ''new'' 15 sample_spool = (Inr (Some (claim_of ''new'' (sample_row 1) ''{}'')), s1)
   \<and> forward True 21 (claim_of ''new'' (sample_row 1) ''{}'') (submit_body sample_client sample_post 20 ''{}'') s1 = (res, s2)
   \<and> res = Inr () \<and> (\<exists>r \<in> set (deliveries s2). dl_state r = Delivered)"
proof -
  let ?c = "claim_of ''new'' (sample_row 1) ''{}''"
  obtain s1 where s1: "claim_next True 20 ''new'' 15 sample_spool = (Inr (Some ?c), s1)"
    using claim_next_sample by blast
  obtain res s2 where fwd: "forward True 21 ?c (submit_body sample_client sample_post 20 (cl_body ?c)) s1 = (res, s2)"
    by fastforce
  obtain res' s3 where late: "forward True 21 ?c (Inl SubmitTimeoutError) s1 = (res', s3)" by fastforce
  from forward_settles [OF sample_spool_inv s1 _ fwd late] s1 fwd show ?thesis
    by (auto simp: sample_post_def)
qed

text \<open>The first mark of a claim wins: of any sequence of marks made with a held claim (say by a
  worker that answers late more than once), the first is recorded and every later one reports that
  the claim is gone and changes nothing.\<close>

theorem first_mark_wins_spool:
  assumes "spool_inv limits s" "claim_next io now token secs s = (Inr (Some c), s1)"
  shows "fst (run_marks spool_mark (map (\<lambda>m. (m, c)) (m # ms)) s1) = Inr True # map (\<lambda>_. Inr False) ms
    \<and> snd (run_marks spool_mark (map (\<lambda>m. (m, c)) (m # ms)) s1) = snd (spool_mark m c s1)"
  using spool_queue.first_mark_wins [OF claim_inv [OF assms] held_claim [OF assms]] .

theorem first_mark_wins_spool_witness:
  "\<exists>s1. claim_next True 20 ''new'' 15 sample_spool = (Inr (Some (claim_of ''new'' (sample_row 1) ''{}'')), s1)
   \<and> fst (run_marks spool_mark (map (\<lambda>m. (m, claim_of ''new'' (sample_row 1) ''{}''))
        [(21, MarkDelivered), (22, MarkDead None None)]) s1) = [Inr True, Inr False]"
proof -
  obtain s1 where s1: "claim_next True 20 ''new'' 15 sample_spool
      = (Inr (Some (claim_of ''new'' (sample_row 1) ''{}'')), s1)"
    using claim_next_sample by blast
  from first_mark_wins_spool [OF sample_spool_inv s1, of "(21, MarkDelivered)" "[(22, MarkDead None None)]"] s1
  show ?thesis by auto
qed

section \<open>Every attempt sends the acknowledged bytes\<close>

lemma spool_run_claim_message:
  assumes "spool_inv limits s" "r \<in> set (deliveries s)" "pending r"
    "list_all (\<lambda>a. \<not> settles (dl_delivery_id r) a) ops"
    "ReClaim (Inr (Some c)) \<in> set (fst (spool_run frepr limits ops s))" "cl_delivery_id c = dl_delivery_id r"
  shows "Some (cl_body c) = dl_body r \<and> cl_body_sha256 c = dl_body_sha256 r"
  using assms
proof (induction ops arbitrary: s r)
  case (Cons a ops)
  obtain rep s' where exec: "spool_exec frepr limits a s = (rep, s')" by fastforce
  have inv': "spool_inv limits s'" using spool_exec_inv [OF Cons.prems(1), of frepr a] exec by simp
  show ?case
  proof (cases "rep = ReClaim (Inr (Some c))")
    case True
    from Cons.prems(1) exec [unfolded True] show ?thesis
    proof (cases rule: spool_exec_claim)
      case (1 now token secs row b)
      have "row = r"
        using distinct_key_eq [OF rows_inv_distinct [OF spool_inv_rows [OF Cons.prems(1)]] 1(5) Cons.prems(2)]
          1(8) Cons.prems(6) by simp
      with 1 show ?thesis by (simp add: claim_of_def)
    qed
  next
    case False
    obtain r' where r': "r' \<in> set (deliveries s')" "same_message r r'" "pending r'"
      using spool_exec_keeps_pending [of limits s r a frepr] Cons.prems exec by auto
    have "Some (cl_body c) = dl_body r' \<and> cl_body_sha256 c = dl_body_sha256 r'"
      using Cons.prems exec False r' inv'
      by (intro Cons.IH [of s' r']) (auto simp: spool_run_Cons same_message_def simp del: spool_run.simps)
    with r'(2) show ?thesis by (simp add: same_message_def)
  qed
qed simp

text \<open>Every attempt sends the acknowledged bytes: as long as a delivery is not completed, every
  claim of it granted after its acknowledgement, first attempts and retries alike, carries exactly
  the canonical body of the acknowledged event and its SHA-256.\<close>

theorem retries_send_same_body:
  assumes inv: "spool_inv limits s"
    and ack: "enqueue frepr limits io now event s = (Inr \<lparr>er_delivery_id = d, er_duplicate = False\<rparr>, s1)"
    and unsettled: "list_all (\<lambda>a. \<not> settles d a) ops"
    and claimed: "ReClaim (Inr (Some c)) \<in> set (fst (spool_run frepr limits ops s1))" "cl_delivery_id c = d"
  shows "cl_body c = canonical_event_body frepr event
    \<and> cl_body_sha256 c = sha256 (canonical_event_body frepr event)"
proof -
  from ack obtain r where r: "r \<in> set (deliveries s1)" "dl_delivery_id r = d" "pending r"
    "dl_body r = Some (canonical_event_body frepr event)"
    "dl_body_sha256 r = sha256 (canonical_event_body frepr event)"
    by (rule enqueue_accepted_row)
  from spool_run_claim_message [OF enqueue_inv [OF inv ack] r(1,3) _ claimed(1)] r unsettled claimed(2)
  show ?thesis by simp
qed

lemma sample_filled_claim:
  "\<exists>c s'. claim_next True 20 ''t'' 15 sample_filled = (Inr (Some c), s') \<and> cl_delivery_id c = sample_id"
proof -
  have inv: "spool_inv sample_limits sample_filled" by (rule enqueue_inv [OF sample_open_inv sample_enqueue])
  have empty: "deliveries (purge_expired 10 sample_open) = []"
    by (simp add: sample_open_def purge_expired_def initialize_database_def empty_database_def sql_delete_def)
  obtain k where filled: "deliveries sample_filled =
      [new_delivery (Suc (sequence_counter sample_open)) sample_id k
        (canonical_event_body sample_float (sample_event ''m''))
        (sha256 (canonical_event_body sample_float (sample_event ''m''))) 10]"
  proof (rule enqueue_accepted [OF sample_enqueue])
    fix k
    assume "sample_filled = (purge_expired 10 sample_open)
       \<lparr>sequence_counter := Suc (sequence_counter sample_open),
        deliveries := deliveries (purge_expired 10 sample_open) @
          [new_delivery (Suc (sequence_counter sample_open)) sample_id k
            (canonical_event_body sample_float (sample_event ''m''))
            (sha256 (canonical_event_body sample_float (sample_event ''m''))) 10]\<rparr>"
    from arg_cong [OF this, of deliveries] show thesis by (intro that [of k]) (simp add: empty)
  qed
  have gate: "delivery_meta sample_filled ''paused'' = Some ''0''"
    using spool_exec_meta [of "OpEnqueue True 10 (sample_event ''m'')" sample_float sample_limits sample_open]
    by (simp add: sample_enqueue)
      (simp add: sample_open_def initialize_database_def empty_database_def meta_defaults_def)
  obtain res s' where run: "claim_next_sync 20 ''t'' 15 sample_filled = (res, s')" by fastforce
  from inv run have "\<exists>c. res = Inr (Some c) \<and> cl_delivery_id c = sample_id"
    by (cases rule: claim_next_sync_cases)
      (use gate in \<open>auto simp: filled claimable_def due_def blocks_def new_delivery_def\<close>)
  with run show ?thesis by (auto simp: claim_next_def run_sync_def)
qed

theorem retries_send_same_body_witness:
  "\<exists>c. ReClaim (Inr (Some c)) \<in> set (fst (spool_run sample_float sample_limits [OpClaim True 20 ''t'' 15] sample_filled))
     \<and> cl_body c = canonical_event_body sample_float (sample_event ''m'')"
proof -
  obtain c s' where c: "claim_next True 20 ''t'' 15 sample_filled = (Inr (Some c), s')" "cl_delivery_id c = sample_id"
    using sample_filled_claim by blast
  then have rep: "ReClaim (Inr (Some c)) \<in> set (fst (spool_run sample_float sample_limits [OpClaim True 20 ''t'' 15] sample_filled))"
    by simp
  have "list_all (\<lambda>a. \<not> settles sample_id a) [OpClaim True 20 ''t'' 15]" by (simp add: settles_def)
  from retries_send_same_body [OF sample_open_inv sample_enqueue this rep c(2)] rep show ?thesis by blast
qed

section \<open>A drained pause\<close>

definition quiet :: "time \<Rightarrow> spool \<Rightarrow> bool" where
  "quiet now s \<longleftrightarrow> \<not> list_ex (lease_active now) (deliveries s)"

lemma quiet_iff: "quiet now s \<longleftrightarrow> (\<forall>r \<in> set (deliveries s). \<not> lease_active now r)"
  by (auto simp: quiet_def list_ex_iff)

lemma spool_exec_quiet:
  assumes inv: "spool_inv limits s" and g: "gate_of s = Some g" "pg_paused g" and q: "quiet now s"
  shows "quiet now (snd (spool_exec frepr limits a s))"
proof -
  obtain rep s' where exec: "spool_exec frepr limits a s = (rep, s')" by fastforce
  from inv exec have "quiet now s'"
  proof (cases rule: spool_exec_cases)
    case same
    with q show ?thesis by (simp add: quiet_iff)
  next
    case (enqueue t event new)
    with q show ?thesis by (auto simp: quiet_iff purge_expired_rows lease_active_def never_leased_def)
  next
    case (claim t token secs row b)
    from inv exec [unfolded claim(6)] g show ?thesis
      by (auto simp: gate_of_Some elim!: spool_exec_claim)
  next
    case (finish t c st code err)
    with q finishing_state [OF finish(1)] show ?thesis
      by (auto simp: quiet_iff set_sql_update lease_active_def finish_row_def)
  next
    case (retry io t c delay code err later code' err')
    with q show ?thesis by (auto simp: quiet_iff set_sql_update lease_active_def retry_row_def)
  next
    case (revive io t now2 h e)
    with q show ?thesis by (auto simp: quiet_iff set_sql_update lease_active_def revive_row_def)
  qed
  with exec show ?thesis by simp
qed

lemma spool_run_quiet:
  assumes "spool_inv limits s" "gate_of s = Some g" "pg_paused g" "quiet now s" "list_all (\<lambda>a. \<not> releases g a) ops"
  shows "quiet now (snd (spool_run frepr limits ops s))"
  using assms
proof (induction ops arbitrary: s)
  case (Cons a ops)
  then show ?case
    unfolding spool_run_Cons
    by (intro Cons.IH spool_exec_inv spool_exec_paused spool_exec_quiet) auto
qed simp

lemma quiet_later: "quiet now s \<Longrightarrow> now \<le> later \<Longrightarrow> quiet later s"
  by (auto simp: quiet_iff lease_active_def split: option.splits)

lemma quiet_status:
  assumes "gate_of s = Some g"
  shows "(\<exists>st. status True now s = (Inr st, s) \<and> ds_active_delivery_count st = 0) \<longleftrightarrow> quiet now s"
  by (auto simp: status_def run_sync_def status_sync_def status_of_def Let_def gate_reads [OF assms]
      quiet_iff sql_count_zero)

text \<open>A resume in the name of a holder is the only operation that can undo that holder's pause.\<close>

fun resumed_by :: "string \<Rightarrow> spool_op \<Rightarrow> bool" where
  "resumed_by holder (OpResume io now h e) = (h = holder)"
| "resumed_by holder _ = False"

definition poll_ops :: "drain_poll \<Rightarrow> spool_op list" where
  "poll_ops p = dp_idle_ops p @ dp_status_ops p @ dp_sleep_ops p"

lemma not_releases: "list_all (\<lambda>a. \<not> resumed_by (pg_holder g) a) ops \<Longrightarrow> list_all (\<lambda>a. \<not> releases g a) ops"
  by (induction ops) (auto elim: releases.elims)

lemma run_keeps_pause:
  assumes "spool_inv limits s" "gate_of s = Some g" "pg_paused g" "list_all (\<lambda>a. \<not> resumed_by (pg_holder g) a) ops"
  shows "spool_inv limits (snd (spool_run frepr limits ops s)) \<and> gate_of (snd (spool_run frepr limits ops s)) = Some g"
  using assms spool_run_inv spool_run_paused not_releases by blast

lemma status_reads: "status io now s = (r, s') \<Longrightarrow> s' = s \<and> (r = Inr st \<longrightarrow> io)"
  by (auto simp: status_def run_sync_def status_sync_def split: if_splits)

lemma drain_loop_success:
  assumes "spool_inv limits s" "gate_of s = Some g" "pg_paused g"
    "list_all (\<lambda>p. list_all (\<lambda>a. \<not> resumed_by (pg_holder g) a) (poll_ops p)) polls"
    "drain_loop frepr limits deadline polls clock s = (Some (Inr st), clock', s')"
  shows "spool_inv limits s' \<and> gate_of s' = Some g \<and> ds_active_delivery_count st = 0
    \<and> (\<exists>p \<in> set polls. status True (dp_status_now p) s' = (Inr st, s'))"
  using assms
proof (induction polls arbitrary: clock s)
  case (Cons p polls)
  let ?run = "\<lambda>ops s. snd (spool_run frepr limits ops s)"
  let ?s1 = "?run (dp_idle_ops p) s"
  have idle: "spool_inv limits ?s1" "gate_of ?s1 = Some g"
    using run_keeps_pause [OF Cons.prems(1-3)] Cons.prems(4) by (auto simp: poll_ops_def)
  let ?s3 = "?run (dp_sleep_ops p) (?run (dp_status_ops p) ?s1)"
  have sleep: "spool_inv limits ?s3" "gate_of ?s3 = Some g"
    using run_keeps_pause [OF idle Cons.prems(3)] run_keeps_pause [OF _ _ Cons.prems(3)] Cons.prems(4)
    by (auto simp: poll_ops_def)
  show ?case
  proof (cases "\<exists>clock. drain_loop frepr limits deadline polls clock ?s3 = (Some (Inr st), clock', s')")
    case True
    with Cons.IH [OF sleep Cons.prems(3)] Cons.prems(4) show ?thesis by auto
  next
    case False
    with Cons.prems(5) have "s' = ?s1" "fst (status (dp_status_io p) (dp_status_now p) ?s1) = Inr st"
      "ds_active_delivery_count st = 0"
      by (auto simp: Let_def simp del: spool_run.simps split: if_splits option.splits sum.splits)
    moreover from this(2) have "status True (dp_status_now p) ?s1 = (Inr st, ?s1)"
      using status_reads [of "dp_status_io p" "dp_status_now p" ?s1 "Inr st" _ st] by (metis (full_types) prod.collapse)
    ultimately show ?thesis using idle by auto
  qed
qed simp

lemma pause_stored:
  assumes inv: "spool_inv limits s" and run: "pause io now holder expected s = (Inr st, s')"
  obtains g where "spool_inv limits s'" "gate_of s' = Some g" "pg_paused g" "pg_holder g = holder"
proof -
  from inv obtain g0 where g0: "gate_of s = Some g0" by (auto simp: spool_inv_def)
  from run have ok: "io" "validate_admin_cas holder expected = Inr ()"
    by (auto simp: pause_def run_sync_def split: sum.splits if_splits)
  with run g0 obtain g where g: "gate_pause holder expected g0 = Some g"
    using pause_refused [OF g0 ok(2), of now] by (cases "gate_pause holder expected g0") auto
  have "gate_of s' = Some g" using pause_granted [OF g0 ok(2) g, of now] run ok(1) by auto
  moreover have "spool_inv limits s'"
    using spool_exec_inv [OF inv, of undefined "OpPause io now holder expected"] run by simp
  moreover have "pg_paused g" "pg_holder g = holder" using g by (auto simp: gate_pause_def split: if_splits)
  ultimately show thesis by (intro that)
qed

text \<open>C9. A drained pause leaves nothing in flight: starting from any well-formed database, paused or not, when
  \<open>pause_and_wait\<close> returns a status while other tasks use the queue but nobody resumes it in the holder's name, then the database it leaves is
  paused in the holder's name, the reported number of active deliveries is 0, and from then on, until the holder resumes it at the stored revision, no
  sequence of operations claims a message or makes a lease active again, at any time after the status was read.\<close>

theorem pause_drains:
  assumes inv: "spool_inv limits s"
    and ret: "pause_and_wait frepr limits io now holder expected monotonic polls (w, s) = (Some (Inr st), clock, w', s')"
    and others: "list_all (\<lambda>p. list_all (\<lambda>a. \<not> resumed_by holder a) (poll_ops p)) polls"
  shows "\<exists>g p. p \<in> set polls \<and> gate_of s' = Some g \<and> pg_paused g \<and> pg_holder g = holder
    \<and> ds_active_delivery_count st = 0
    \<and> (\<forall>ops later. list_all (\<lambda>a. \<not> releases g a) ops \<and> dp_status_now p \<le> later \<longrightarrow>
         quiet later (snd (spool_run frepr limits ops s'))
         \<and> (\<forall>c. ReClaim (Inr (Some c)) \<notin> set (fst (spool_run frepr limits ops s'))))"
proof -
  from ret obtain st0 s1 where s1: "pause io now holder expected s = (Inr st0, s1)"
    and loop: "drain_loop frepr limits (monotonic + lease_seconds w + shutdown_grace_seconds w) polls monotonic s1
      = (Some (Inr st), clock, s')"
    by (auto simp: pause_and_wait_def split: prod.splits sum.splits)
  from inv s1 obtain g where g: "spool_inv limits s1" "gate_of s1 = Some g" "pg_paused g" "pg_holder g = holder"
    by (rule pause_stored)
  from drain_loop_success [OF g(1-3) _ loop] others g(4) obtain p
    where p: "spool_inv limits s'" "gate_of s' = Some g" "ds_active_delivery_count st = 0"
      "p \<in> set polls" "status True (dp_status_now p) s' = (Inr st, s')"
    by auto
  then have "quiet (dp_status_now p) s'" using quiet_status by blast
  with p g show ?thesis by (intro exI [of _ g] exI [of _ p]) (auto intro: quiet_later spool_run_quiet dest: spool_run_paused)
qed

text \<open>A pass in which the worker is idle at once, another task tries to claim a message, and the queries take a tenth of a second.\<close>

definition sample_poll :: drain_poll where
  "sample_poll = \<lparr>dp_idle = Some 0, dp_idle_ops = [OpClaim True 25 ''y'' 15], dp_status_io = True, dp_status_now = 30,
     dp_status_time = 1 / 10, dp_status_ops = [], dp_deadline_io = True, dp_deadline_now = 30, dp_deadline_time = 1 / 10,
     dp_wall = 30, dp_sleep_ops = [], dp_late = 0\<rparr>"

theorem pause_drains_witness:
  "\<exists>st clock w' s' g. pause_and_wait sample_float sample_limits True 20 ''op'' 0 0 [sample_poll] (new_worker 5, sample_spool)
       = (Some (Inr st), clock, w', s')
     \<and> gate_of s' = Some g \<and> pg_paused g \<and> pg_holder g = ''op'' \<and> ds_active_delivery_count st = 0
     \<and> quiet 40 (snd (spool_run sample_float sample_limits [OpClaim True 35 ''x'' 15] s'))"
proof -
  have cas: "validate_admin_cas ''op'' 0 = Inr ()" by code_simp
  obtain st0 s1 g1 where s1: "pause True 20 ''op'' 0 sample_spool = (Inr st0, s1)" "gate_of s1 = Some g1" "pg_paused g1"
    "deliveries s1 = deliveries sample_spool"
    using pause_granted [OF sample_gate_open(1) cas, of _ 20] sample_gate_open by (fastforce simp: gate_pause_def)
  let ?s2 = "snd (spool_run sample_float sample_limits [OpClaim True 25 ''y'' 15] s1)"
  have "spool_inv sample_limits s1"
    using spool_exec_inv [OF sample_spool_inv, of undefined "OpPause True 20 ''op'' 0"] s1(1) by simp
  moreover have "quiet 30 s1"
    by (simp add: quiet_iff s1(4) sample_spool_def lease_active_def sample_row_def new_delivery_def)
  ultimately have "quiet 30 ?s2" "gate_of ?s2 = Some g1"
    using spool_run_quiet [of sample_limits s1 g1] spool_run_paused [of sample_limits s1 g1] s1
    by (simp_all del: spool_run.simps)
  then obtain st where "status True 30 ?s2 = (Inr st, ?s2)" "ds_active_delivery_count st = 0"
    using quiet_status by blast
  with s1(1) have ret: "pause_and_wait sample_float sample_limits True 20 ''op'' 0 0 [sample_poll] (new_worker 5, sample_spool)
      = (Some (Inr st), 1 / 10, notify (new_worker 5), ?s2)"
    by (simp add: pause_and_wait_def sample_poll_def lease_seconds_def shutdown_grace_seconds_def new_worker_def wait_for_def Let_def
        del: spool_run.simps)
  obtain g where g: "gate_of ?s2 = Some g" "pg_paused g" "pg_holder g = ''op''" "ds_active_delivery_count st = 0"
    "quiet 40 (snd (spool_run sample_float sample_limits [OpClaim True 35 ''x'' 15] ?s2))"
    using pause_drains [OF sample_spool_inv ret]
    by (auto simp: sample_poll_def poll_ops_def simp del: spool_run.simps)
  with ret show ?thesis by blast
qed

text \<open>The sleep of a pass ends by the deadline, and lasts at least a hundredth of a second unless the deadline comes first.\<close>

lemma wait_seconds_bounds:
  "0 < remaining \<Longrightarrow> min (1 / 100) remaining \<le> wait_seconds remaining lease_deadline wall"
  "wait_seconds remaining lease_deadline wall \<le> remaining"
  by (auto simp: wait_seconds_def split: option.split)

lemma wait_for_bounds: "wait_for timeout d = Some waited \<Longrightarrow> pred_option ((\<le>) 0) d \<Longrightarrow> 0 \<le> waited \<and> waited < timeout"
  by (auto simp: wait_for_def split: option.splits if_splits)

text \<open>Time does not run backwards, and the queries and the late wake-up of one pass take at most \<open>b\<close> seconds.\<close>

definition poll_within :: "time \<Rightarrow> drain_poll \<Rightarrow> bool" where
  "poll_within b p \<longleftrightarrow> pred_option ((\<le>) 0) (dp_idle p) \<and> 0 \<le> dp_status_time p \<and> 0 \<le> dp_deadline_time p \<and> 0 \<le> dp_late p
    \<and> dp_status_time p + dp_deadline_time p + dp_late p \<le> b"

lemma drain_loop_pass:
  assumes p: "poll_within b p" and clock: "clock \<le> deadline + b"
  shows "(\<exists>r c s'. drain_loop frepr limits deadline (p # polls) clock s = (Some r, c, s') \<and> c \<le> deadline + b)
    \<or> (\<exists>c s'. drain_loop frepr limits deadline (p # polls) clock s = drain_loop frepr limits deadline polls c s'
         \<and> c \<le> deadline + b \<and> clock < deadline \<and> (clock + 1 / 100 \<le> c \<or> deadline \<le> c))"
proof (cases "clock < deadline \<and> (\<exists>waited. wait_for (deadline - clock) (dp_idle p) = Some waited)")
  case False
  with p clock show ?thesis by (auto simp: Let_def poll_within_def simp del: spool_run.simps split: option.split)
next
  case True
  then obtain waited where w: "wait_for (deadline - clock) (dp_idle p) = Some waited" by blast
  let ?c1 = "clock + waited + dp_status_time p"
  have c1: "clock \<le> ?c1" "?c1 < deadline + dp_status_time p"
    using wait_for_bounds [OF w] p by (simp_all add: poll_within_def)
  define c2 where "c2 l = ?c1 + dp_deadline_time p + wait_seconds (deadline - ?c1) l (dp_wall p) + dp_late p" for l
  have c2: "c2 l \<le> deadline + b" "?c1 < deadline \<Longrightarrow> clock + 1 / 100 \<le> c2 l \<or> deadline \<le> c2 l" for l
    using wait_seconds_bounds [of "deadline - ?c1" l "dp_wall p"] p c1 by (auto simp: c2_def poll_within_def min_def split: if_splits)
  show ?thesis
  proof (cases "?c1 < deadline \<and> (\<exists>l s'. drain_loop frepr limits deadline (p # polls) clock s
      = drain_loop frepr limits deadline polls (c2 l) s')")
    case continued: True
    with True c2 show ?thesis by blast
  next
    case False
    with True w p c1 show ?thesis
      by (intro disjI1)
        (auto simp: Let_def poll_within_def not_le c2_def simp del: spool_run.simps split: sum.splits if_splits)
  qed
qed

lemma drain_loop_returns:
  assumes "list_all (poll_within b) polls" "clock \<le> deadline + b" "100 * max 0 (deadline - clock) + 1 \<le> of_nat (length polls)"
  shows "\<exists>r c s'. drain_loop frepr limits deadline polls clock s = (Some r, c, s') \<and> c \<le> deadline + b"
  using assms
proof (induction polls arbitrary: clock s)
  case Nil
  then show ?case by (simp add: max_def split: if_splits)
next
  case (Cons p polls)
  then have p: "poll_within b p" by simp
  from drain_loop_pass [OF p Cons.prems(2), of frepr limits polls s] show ?case
  proof
    assume "\<exists>c s'. drain_loop frepr limits deadline (p # polls) clock s = drain_loop frepr limits deadline polls c s'
      \<and> c \<le> deadline + b \<and> clock < deadline \<and> (clock + 1 / 100 \<le> c \<or> deadline \<le> c)"
    then obtain c s' where step: "drain_loop frepr limits deadline (p # polls) clock s = drain_loop frepr limits deadline polls c s'"
      and c: "c \<le> deadline + b" "clock < deadline" "clock + 1 / 100 \<le> c \<or> deadline \<le> c"
      by blast
    have "0 < length polls" using Cons.prems(3) c(2) by (cases polls) auto
    then have "1 \<le> (of_nat (length polls) :: rat)" by (cases polls) auto
    then have "100 * max 0 (deadline - c) + 1 \<le> of_nat (length polls)"
      using Cons.prems(3) c by (auto simp: max_def split: if_splits)
    with Cons.IH [OF _ c(1)] Cons.prems(1) step show ?thesis by simp
  qed blast
qed

text \<open>C12. Pausing never waits forever: if the clock does not run backwards and the database queries and the wake-up delay of
  one pass together take at most \<open>b\<close> seconds, then after at most \<open>100 * (lease + grace) + 1\<close> passes the call has returned (drained,
  timed out or failed), whatever the other tasks do and even if the worker never becomes idle, and at most \<open>b\<close> seconds after its deadline, which is the
  lease time plus the shutdown grace after the pause was stored.\<close>

theorem pause_wait_bounded:
  assumes passes: "list_all (poll_within b) polls" "0 \<le> b"
    and enough: "100 * (lease_seconds w + shutdown_grace_seconds w) + 1 \<le> of_nat (length polls)"
    and timeout: "0 \<le> wk_navigator_timeout w"
  shows "\<exists>r clock w' s'. pause_and_wait frepr limits io now holder expected monotonic polls (w, s) = (Some r, clock, w', s')
    \<and> clock \<le> monotonic + lease_seconds w + shutdown_grace_seconds w + b"
proof -
  have pos: "0 \<le> lease_seconds w" "0 \<le> shutdown_grace_seconds w"
    using timeout by (auto simp: lease_seconds_def shutdown_grace_seconds_def)
  have "\<exists>r c s''. drain_loop frepr limits (monotonic + lease_seconds w + shutdown_grace_seconds w) polls monotonic s' = (Some r, c, s'')
      \<and> c \<le> monotonic + lease_seconds w + shutdown_grace_seconds w + b" for s'
    by (rule drain_loop_returns) (use assms pos in auto)
  note loop = this
  obtain res s' where "pause io now holder expected s = (res, s')" by fastforce
  with loop [of s'] pos passes(2) show ?thesis by (cases res) (auto simp: pause_and_wait_def)
qed

theorem pause_wait_bounded_witness:
  "\<exists>r clock w' s'. pause_and_wait sample_float sample_limits True 20 ''op'' 0 0 (replicate 2201 (sample_poll\<lparr>dp_idle := None\<rparr>))
       (new_worker 5, sample_spool) = (Some r, clock, w', s') \<and> clock \<le> 22 + 1 / 5"
proof -
  have "list_all (poll_within (1 / 5)) (replicate 2201 (sample_poll\<lparr>dp_idle := None\<rparr>))"
    by (simp add: list_all_iff poll_within_def sample_poll_def)
  then show ?thesis
    using pause_wait_bounded [of "1 / 5" "replicate 2201 (sample_poll\<lparr>dp_idle := None\<rparr>)" "new_worker 5"
        sample_float sample_limits True 20 "''op''" 0 0 sample_spool]
    by (simp add: lease_seconds_def shutdown_grace_seconds_def new_worker_def)
qed

section \<open>Draining the queue\<close>

definition pending_count :: "spool \<Rightarrow> nat" where
  "pending_count s = sql_count pending (deliveries s)"

lemma sql_count_update_one:
  assumes "distinct (map k t)" "row \<in> set t" "P row" "\<not> P (f row)"
  shows "Suc (sql_count P (sql_update (\<lambda>r. r = row) f t)) = sql_count P t"
  using assms
proof (induction t)
  case (Cons r t)
  show ?case
  proof (cases "r = row")
    case True
    with Cons.prems have "row \<notin> set t" by auto
    then have "sql_update (\<lambda>r. r = row) f t = t"
      by (intro sql_update_nothing) (auto simp: sql_count_zero)
    with True Cons.prems show ?thesis by (simp add: sql_count_def sql_update_def)
  next
    case False
    with Cons show ?thesis by (auto simp: sql_count_def sql_update_def)
  qed
qed simp

text \<open>A claim followed by a mark with it changes exactly the claimed row.\<close>

lemma claim_mark_rows:
  assumes inv: "spool_inv limits s" and claimed: "claim_next io t token secs s = (Inr (Some c), s1)"
  obtains row where "row \<in> set (deliveries s)" "due t row" "dl_delivery_id row = cl_delivery_id c"
    "deliveries (snd (spool_mark m c s1)) =
      sql_update (\<lambda>r. r = row) (\<lambda>r. mark_row m (lease_row t secs token row r)) (deliveries s)"
proof -
  from inv claimed show thesis
  proof (cases rule: claimed_row)
    case (1 row b)
    have holds: "holds_lease c (if r = row then lease_row t secs token row r else r) \<longleftrightarrow> r = row"
      if "r \<in> set (deliveries s)" for r
      using distinct_key_eq [OF rows_inv_distinct [OF spool_inv_rows [OF inv]] that 1(3)] 1(7)
      by (auto simp: holds_lease_def claim_of_def lease_row_def)
    have "deliveries (snd (spool_mark m c s1)) = sql_update (holds_lease c) (mark_row m) (deliveries s1)"
      by (simp add: spool_mark_eq [OF claim_inv [OF inv claimed]])
    also have "deliveries s1 = sql_update (\<lambda>r. r = row) (lease_row t secs token row) (deliveries s)"
      by (simp add: 1(8))
    also have "sql_update (holds_lease c) (mark_row m) \<dots> =
        sql_update (\<lambda>r. r = row) (\<lambda>r. mark_row m (lease_row t secs token row r)) (deliveries s)"
      using holds by (auto simp: sql_update_def)
    finally have "deliveries (snd (spool_mark m c s1)) =
        sql_update (\<lambda>r. r = row) (\<lambda>r. mark_row m (lease_row t secs token row r)) (deliveries s)" .
    with 1 show thesis by (intro that [of row]) (auto simp: claimable_def)
  qed
qed

text \<open>A round whose environment works and in which Navigator accepts.\<close>

definition good_round :: "time \<Rightarrow> worker_round \<Rightarrow> bool" where
  "good_round t rd \<longleftrightarrow> rd_io_paused rd \<and> rd_io_claim rd \<and> rd_io_mark rd \<and> t \<le> rd_claim_now rd
    \<and> (\<forall>c. forward_mark c (rd_outcome rd c) = Some MarkDelivered)"

definition drainable :: "spool_limits \<Rightarrow> time \<Rightarrow> spool \<Rightarrow> bool" where
  "drainable limits t s \<longleftrightarrow> spool_inv limits s \<and> (\<exists>g. gate_of s = Some g \<and> \<not> pg_paused g)
    \<and> (\<forall>r \<in> set (deliveries s). pending r \<longrightarrow> due t r)"

lemma due_later: "due t r \<Longrightarrow> t \<le> t' \<Longrightarrow> due t' r"
  by (auto simp: due_def lease_expired_def split: option.splits)

lemma round_claims:
  assumes dr: "drainable limits t s" and rd: "good_round t rd" and pos: "0 < pending_count s"
  obtains c s1 where "claim_next True (rd_claim_now rd) (rd_token rd) (lease_seconds w) s = (Inr (Some c), s1)"
    "run_round rd (w, s) = (None, w\<lparr>wk_idle := True\<rparr>, snd (spool_mark (rd_mark_now rd, MarkDelivered) c s1))"
proof -
  let ?now = "rd_claim_now rd" and ?secs = "lease_seconds w"
  from dr obtain g where g: "gate_of s = Some g" "\<not> pg_paused g" and inv: "spool_inv limits s"
    and all_due: "\<And>r. r \<in> set (deliveries s) \<Longrightarrow> pending r \<Longrightarrow> due t r"
    by (auto simp: drainable_def)
  from pos obtain r where r: "r \<in> set (deliveries s)" "pending r"
    by (auto simp: pending_count_def sql_count_pos)
  have secs: "0 < ?secs" by (simp add: lease_seconds_def less_max_iff_disj)
  have now: "t \<le> ?now" using rd by (simp add: good_round_def)
  obtain res s1 where run: "claim_next_sync ?now (rd_token rd) ?secs s = (res, s1)" by fastforce
  have "\<exists>c. res = Inr (Some c)"
  proof -
    let ?P = "\<lambda>p. p \<in> set (deliveries s) \<and> dl_thread_key p = dl_thread_key r \<and> pending p"
    obtain h where h: "?P h" "\<forall>p. ?P p \<longrightarrow> dl_sequence h \<le> dl_sequence p"
      using ex_has_least_nat [of ?P r dl_sequence] r by auto
    then have "claimable ?now (deliveries s) h"
      using all_due now by (auto simp: claimable_def list_ex_iff blocks_def intro: due_later)
    with inv run show ?thesis
      by (cases rule: claim_next_sync_cases) (use h g in \<open>auto simp: gate_of_Some\<close>)
  qed
  then obtain c where "res = Inr (Some c)" ..
  with run secs have claim: "claim_next True ?now (rd_token rd) ?secs s = (Inr (Some c), s1)"
    by (simp add: claim_next_def run_sync_def)
  have "is_paused True s = (Inr False, s)"
    using g by (simp add: is_paused_def run_sync_def is_paused_sync_def gate_reads)
  moreover have "forward True (rd_mark_now rd) c (rd_outcome rd c) s1
      = (Inr (), snd (spool_mark (rd_mark_now rd, MarkDelivered) c s1))"
    using rd claim_inv [OF inv claim]
    by (simp add: forward_eq good_round_def spool_step_def spool_mark_eq del: spool_mark.simps)
  ultimately have "run_round rd (w, s) = (None, w\<lparr>wk_idle := True\<rparr>, snd (spool_mark (rd_mark_now rd, MarkDelivered) c s1))"
    using rd claim by (simp add: run_round_def good_round_def)
  with claim show thesis by (rule that)
qed

definition settled_as :: "delivery list \<Rightarrow> delivery list \<Rightarrow> bool" where
  "settled_as t t' \<longleftrightarrow> (\<forall>r \<in> set t. \<exists>r' \<in> set t'. dl_delivery_id r' = dl_delivery_id r
     \<and> (if pending r then (r' = r \<or> dl_state r' = Delivered \<and> dl_body r' = None) else r' = r))"

lemma round_delivers:
  assumes dr: "drainable limits t s" and rd: "good_round t rd" and pos: "0 < pending_count s"
    and run: "run_round rd (w, s) = (e, w', s')"
  shows "e = None \<and> wk_stopping w' = wk_stopping w \<and> wk_navigator_timeout w' = wk_navigator_timeout w
    \<and> drainable limits t s' \<and> Suc (pending_count s') = pending_count s \<and> settled_as (deliveries s) (deliveries s')"
proof -
  obtain c s1 where c: "claim_next True (rd_claim_now rd) (rd_token rd) (lease_seconds w) s = (Inr (Some c), s1)"
    "run_round rd (w, s) = (None, w\<lparr>wk_idle := True\<rparr>, snd (spool_mark (rd_mark_now rd, MarkDelivered) c s1))"
    using dr rd pos by (rule round_claims)
  have s': "s' = snd (spool_mark (rd_mark_now rd, MarkDelivered) c s1)" "e = None" "w' = w\<lparr>wk_idle := True\<rparr>"
    using c(2) run by simp_all
  from dr have inv: "spool_inv limits s" by (simp add: drainable_def)
  obtain row f where row: "row \<in> set (deliveries s)" "due (rd_claim_now rd) row"
    "deliveries s' = sql_update (\<lambda>r. r = row) f (deliveries s)"
    "dl_state (f row) = Delivered" "dl_body (f row) = None" "dl_delivery_id (f row) = dl_delivery_id row"
  proof -
    from inv c(1) show thesis
      by (rule claim_mark_rows [of _ _ _ _ _ _ _ _ "(rd_mark_now rd, MarkDelivered)"], unfold s'(1) [symmetric])
        (rule that, assumption+, simp_all add: finish_row_def lease_row_def)
  qed
  have row_pending: "pending row" using row(2) by (auto simp: due_def pending_def)
  have "spool_inv limits s'" unfolding s'(1) using claim_inv [OF inv c(1)] by (rule spool_mark_inv)
  moreover have "gate_of s' = gate_of s"
  proof -
    have "gate_of s1 = gate_of s"
      using spool_exec_meta [of "OpClaim True (rd_claim_now rd) (rd_token rd) (lease_seconds w)" sample_float limits s] c(1)
      by (auto intro: gate_of_cong)
    then show ?thesis unfolding s'(1) by (simp add: spool_mark_eq [OF claim_inv [OF inv c(1)]] del: spool_mark.simps)
  qed
  moreover have "\<forall>r \<in> set (deliveries s'). pending r \<longrightarrow> due t r"
    using dr row(3,4) by (auto simp: drainable_def set_sql_update pending_def)
  moreover have "Suc (pending_count s') = pending_count s"
    unfolding pending_count_def row(3)
    using rows_inv_distinct [OF spool_inv_rows [OF inv]] row(1) row_pending
    by (rule sql_count_update_one) (simp add: row(4) pending_def)
  moreover have "settled_as (deliveries s) (deliveries s')"
    unfolding settled_as_def row(3)
  proof
    fix r assume "r \<in> set (deliveries s)"
    then show "\<exists>r' \<in> set (sql_update (\<lambda>r. r = row) f (deliveries s)). dl_delivery_id r' = dl_delivery_id r
       \<and> (if pending r then r' = r \<or> dl_state r' = Delivered \<and> dl_body r' = None else r' = r)"
      using row row_pending
      by (intro bexI [of _ "if r = row then f r else r"]) (auto simp: set_sql_update)
  qed
  ultimately show ?thesis using s'(2,3) dr by (simp add: drainable_def)
qed

lemma settled_as_trans:
  assumes "settled_as t t'" "settled_as t' t''"
  shows "settled_as t t''"
  unfolding settled_as_def
proof
  fix r assume "r \<in> set t"
  with assms(1) obtain r' where r': "r' \<in> set t'" "dl_delivery_id r' = dl_delivery_id r"
    "if pending r then r' = r \<or> dl_state r' = Delivered \<and> dl_body r' = None else r' = r"
    by (auto simp: settled_as_def)
  with assms(2) obtain r'' where r'': "r'' \<in> set t''" "dl_delivery_id r'' = dl_delivery_id r'"
    "if pending r' then r'' = r' \<or> dl_state r'' = Delivered \<and> dl_body r'' = None else r'' = r'"
    unfolding settled_as_def by blast
  from r' r'' show "\<exists>r'' \<in> set t''. dl_delivery_id r'' = dl_delivery_id r
      \<and> (if pending r then r'' = r \<or> dl_state r'' = Delivered \<and> dl_body r'' = None else r'' = r)"
    by (intro bexI [of _ r'']) (auto split: if_splits)
qed

lemma settled_as_refl: "settled_as t t"
  by (auto simp: settled_as_def intro: bexI)

lemma idle_round:
  assumes dr: "drainable limits t s" and rd: "good_round t rd" and zero: "pending_count s = 0"
  shows "run_round rd (w, s) = (None, w\<lparr>wk_wakeup := False\<rparr>, s)"
proof -
  from dr obtain g where g: "gate_of s = Some g" "\<not> pg_paused g" and inv: "spool_inv limits s"
    by (auto simp: drainable_def)
  have "0 < lease_seconds w" by (simp add: lease_seconds_def less_max_iff_disj)
  moreover obtain res s1 where run: "claim_next_sync (rd_claim_now rd) (rd_token rd) (lease_seconds w) s = (res, s1)"
    by fastforce
  moreover from inv run have "res = Inr None \<and> s1 = s"
    by (cases rule: claim_next_sync_cases)
      (use zero in \<open>auto simp: pending_count_def sql_count_zero claimable_def due_def pending_def\<close>)
  ultimately have "claim_next True (rd_claim_now rd) (rd_token rd) (lease_seconds w) s = (Inr None, s)"
    by (simp add: claim_next_def run_sync_def)
  then show ?thesis
    using rd g by (simp add: run_round_def good_round_def is_paused_def run_sync_def is_paused_sync_def gate_reads)
qed

lemma worker_run_drains:
  assumes "drainable limits t s" "\<not> wk_stopping w" "list_all (good_round t) rds"
    "worker_run rds (w, s) = (e, w', s')"
  shows "e = None \<and> spool_inv limits s' \<and> pending_count s' = pending_count s - length rds
    \<and> settled_as (deliveries s) (deliveries s')"
  using assms
proof (induction rds arbitrary: w s)
  case Nil
  then show ?case by (auto simp: drainable_def settled_as_refl)
next
  case (Cons rd rds)
  obtain e1 w1 s1 where round1: "run_round rd (w, s) = (e1, w1, s1)" by (metis prod_cases3)
  show ?case
  proof (cases "pending_count s = 0")
    case True
    with Cons.prems idle_round [of limits t s rd w] have "worker_run rds (w\<lparr>wk_wakeup := False\<rparr>, s) = (e, w', s')"
      by simp
    with Cons.IH [of s "w\<lparr>wk_wakeup := False\<rparr>"] Cons.prems True show ?thesis by simp
  next
    case False
    with round_delivers [OF Cons.prems(1) _ _ round1] Cons.prems(3)
    have step: "e1 = None" "wk_stopping w1 = wk_stopping w" "drainable limits t s1"
      "Suc (pending_count s1) = pending_count s" "settled_as (deliveries s) (deliveries s1)" by auto
    then have "worker_run rds (w1, s1) = (e, w', s')" using Cons.prems(2,4) round1 by simp
    with Cons.IH [OF step(3)] step Cons.prems show ?thesis by (auto intro: settled_as_trans)
  qed
qed

text \<open>C6. A running worker drains the queue: if the queue is not paused, every pending message is due, the
  storage works and Navigator accepts, then after as many rounds of the worker loop as there are
  pending messages none is pending: each is delivered with its body erased, and nothing else
  changed.\<close>

theorem worker_drains_queue:
  assumes dr: "drainable limits t s" and w: "\<not> wk_stopping w" and rounds: "list_all (good_round t) rds"
    and enough: "pending_count s \<le> length rds"
  shows "\<exists>w' s'. worker_run rds (w, s) = (None, w', s') \<and> pending_count s' = 0
    \<and> (\<forall>r \<in> set (deliveries s). \<exists>r' \<in> set (deliveries s'). dl_delivery_id r' = dl_delivery_id r
         \<and> (if pending r then dl_state r' = Delivered \<and> dl_body r' = None else r' = r))"
proof -
  obtain e w' s' where run: "worker_run rds (w, s) = (e, w', s')" by (metis prod_cases3)
  from worker_run_drains [OF dr w rounds run] enough
  have fin: "e = None" "pending_count s' = 0" "settled_as (deliveries s) (deliveries s')" by simp_all
  then have "\<not> pending r'" if "r' \<in> set (deliveries s')" for r'
    using that by (auto simp: pending_count_def sql_count_zero)
  with fin(3) have "\<forall>r \<in> set (deliveries s). \<exists>r' \<in> set (deliveries s'). dl_delivery_id r' = dl_delivery_id r
         \<and> (if pending r then dl_state r' = Delivered \<and> dl_body r' = None else r' = r)"
    unfolding settled_as_def by (metis (full_types))
  with run fin show ?thesis by blast
qed

definition sample_round :: worker_round where
  "sample_round = \<lparr>rd_io_paused = True, rd_io_claim = True, rd_io_mark = True, rd_claim_now = 20, rd_token = ''t'',
     rd_outcome = (\<lambda>c. Inr \<lparr>ar_accepted = True, ar_duplicate = False, ar_status_code = 202,
       ar_terminal_rejection = False, ar_code = None\<rparr>), rd_mark_now = 21\<rparr>"

theorem worker_drains_queue_witness:
  "\<exists>w' s'. worker_run [sample_round, sample_round] (new_worker 5, sample_spool) = (None, w', s') \<and> pending_count s' = 0"
proof -
  have "drainable sample_limits 20 sample_spool"
    using sample_spool_inv sample_gate_open
    by (auto simp: drainable_def sample_spool_def sample_row_def new_delivery_def due_def)
  moreover have "list_all (good_round 20) [sample_round, sample_round]"
    by (simp add: good_round_def sample_round_def forward_mark_def)
  moreover have "pending_count sample_spool \<le> length [sample_round, sample_round]"
    by (simp add: pending_count_def sql_count_def sample_spool_def)
  ultimately show ?thesis
    using worker_drains_queue [of sample_limits 20 sample_spool "new_worker 5" "[sample_round, sample_round]"]
    by (auto simp: new_worker_def simp del: worker_run.simps)
qed

end
