(* ===== verification/Delivery_Ingress.thy ===== *)
theory Delivery_Ingress
  imports Delivery_Worker_Props
begin

text \<open>
  The HTTP side of the Teams sidecar (\<open>teams_connector/ingress.py\<close>): \<open>forward_event\<close>, which answers
  Teams, and the four owner-admin routes.  A handler returns the response document or the status of
  the \<open>HTTPException\<close> it raises (\<open>Inl\<close>); an exception that no handler converts is the framework's 500.
  Activity normalization and the Teams SDK come before this code and are not modelled.
\<close>

section \<open>Admission of events\<close>

text \<open>\<open>except DeliverySpoolError\<close>: the subclasses of that exception.\<close>

fun is_spool_error :: "spool_error \<Rightarrow> bool" where
  "is_spool_error SpoolValueError = False"
| "is_spool_error SpoolTypeError = False"
| "is_spool_error _ = True"

definition forward_event_durable ::
    "(rat \<Rightarrow> string) \<Rightarrow> spool_limits \<Rightarrow> bool \<Rightarrow> time \<Rightarrow> pydict \<Rightarrow> worker \<times> spool
     \<Rightarrow> (int + unit) \<times> worker \<times> spool" where
  "forward_event_durable frepr limits io now event ws =
    (case ws of (w, s) \<Rightarrow>
      (case enqueue frepr limits io now event s of
         (Inl e, s') \<Rightarrow>
           (Inl (if e = DeliveryIdentityConflict then 409 else if is_spool_error e then 503 else 500), w, s')
       | (Inr _, s') \<Rightarrow> (Inr (), notify w, s')))"

definition forward_event_direct ::
    "(rat \<Rightarrow> string) \<Rightarrow> navigator_client \<Rightarrow> (http_request \<Rightarrow> http_outcome) \<Rightarrow> time \<Rightarrow> pydict \<Rightarrow> int + unit" where
  "forward_event_direct frepr nc post now event =
    (case submit frepr nc post now event of
       Inl _ \<Rightarrow> Inl 500
     | Inr result \<Rightarrow> if ar_accepted result \<or> ar_terminal_rejection result then Inr () else Inl 500)"

section \<open>Owner administration\<close>

record admin_request =
  aq_authorization :: string
  aq_json :: "pyval option"

text \<open>The header is \<open>""\<close> when absent; a body that is not JSON is \<open>None\<close>.\<close>

definition require_delivery_admin :: "bytes \<Rightarrow> admin_request \<Rightarrow> int + unit" where
  "require_delivery_admin admin_token request =
    (case partition_on CHR '' '' (aq_authorization request) of
       (scheme, separator, value) \<Rightarrow>
         let candidate = (if list_all isascii value then value else []) in
         raise_if (casefold scheme \<noteq> ''bearer'' \<or> \<not> separator \<or> candidate \<noteq> admin_token) 401)"

definition read_admin_cas :: "admin_request \<Rightarrow> int + string \<times> int" where
  "read_admin_cas request =
    (case aq_json request of
       Some (PDict body) \<Rightarrow>
         if same_keys body [''holder'', ''expected_revision''] then
           (case (dict_get body ''holder'', dict_get body ''expected_revision'') of
              (PStr holder, PInt revision) \<Rightarrow> Inr (holder, revision)
            | _ \<Rightarrow> Inl 400)
         else Inl 400
     | _ \<Rightarrow> Inl 400)"

definition opt_time :: "time option \<Rightarrow> pyval" where
  "opt_time t = (case t of None \<Rightarrow> PNone | Some q \<Rightarrow> PFloat (Fin q))"

definition as_dict :: "delivery_status \<Rightarrow> pydict" where
  "as_dict st =
    [(''paused'', PBool (ds_paused st)), (''revision'', PInt (ds_revision st)),
     (''active_delivery_count'', PInt (int (ds_active_delivery_count st))),
     (''queued_count'', PInt (int (ds_queued_count st))),
     (''leased_count'', PInt (int (ds_leased_count st))),
     (''retry_wait_count'', PInt (int (ds_retry_wait_count st))),
     (''delivered_count'', PInt (int (ds_delivered_count st))),
     (''rejected_count'', PInt (int (ds_rejected_count st))),
     (''dead_count'', PInt (int (ds_dead_count st))),
     (''pending_bytes'', PInt (int (ds_pending_bytes st))),
     (''retained_body_bytes'', PInt (int (ds_retained_body_bytes st))),
     (''oldest_pending_at'', opt_time (ds_oldest_pending_at st)),
     (''last_delivered_at'', opt_time (ds_last_delivered_at st))]"

definition http_error :: "spool_error \<Rightarrow> int" where
  "http_error e = (if is_spool_error e then 503 else 500)"

definition delivery_status_route ::
    "bytes \<Rightarrow> admin_request \<Rightarrow> bool \<Rightarrow> time \<Rightarrow> worker \<times> spool \<Rightarrow> (int + pydict) \<times> worker \<times> spool" where
  "delivery_status_route token request io now ws =
    (case require_delivery_admin token request of
       Inl code \<Rightarrow> (Inl code, ws)
     | Inr _ \<Rightarrow>
        (case ws of (w, s) \<Rightarrow>
          (case status io now s of
             (Inl e, s') \<Rightarrow> (Inl (http_error e), w, s')
           | (Inr st, s') \<Rightarrow> (Inr (as_dict st), w, s'))))"

text \<open>The drain loop of the pause route may still be waiting (\<open>None\<close>).\<close>

definition pause_delivery ::
    "(rat \<Rightarrow> string) \<Rightarrow> spool_limits \<Rightarrow> bytes \<Rightarrow> admin_request \<Rightarrow> bool \<Rightarrow> time \<Rightarrow> time \<Rightarrow> drain_poll list \<Rightarrow> worker \<times> spool
     \<Rightarrow> (int + pydict) option \<times> worker \<times> spool" where
  "pause_delivery frepr limits token request io now monotonic polls ws =
    (case bindE (require_delivery_admin token request) (\<lambda>_. read_admin_cas request) of
       Inl code \<Rightarrow> (Some (Inl code), ws)
     | Inr (holder, revision) \<Rightarrow>
        (case pause_and_wait frepr limits io now holder revision monotonic polls ws of
           (None, _, ws') \<Rightarrow> (None, ws')
         | (Some (Inl e), _, ws') \<Rightarrow> (Some (Inl (if e = DeliveryAdminConflict then 409 else http_error e)), ws')
         | (Some (Inr st), _, ws') \<Rightarrow> (Some (Inr (as_dict st)), ws')))"

definition resume_delivery ::
    "bytes \<Rightarrow> admin_request \<Rightarrow> bool \<Rightarrow> time \<Rightarrow> worker \<times> spool \<Rightarrow> (int + pydict) \<times> worker \<times> spool" where
  "resume_delivery token request io now ws =
    (case bindE (require_delivery_admin token request) (\<lambda>_. read_admin_cas request) of
       Inl code \<Rightarrow> (Inl code, ws)
     | Inr (holder, revision) \<Rightarrow>
        (case worker_resume io now holder revision ws of
           (Inl e, ws') \<Rightarrow> (Inl (if e = DeliveryAdminConflict then 409 else http_error e), ws')
         | (Inr st, ws') \<Rightarrow> (Inr (as_dict st), ws')))"

definition retry_dead_delivery ::
    "bytes \<Rightarrow> admin_request \<Rightarrow> bool \<Rightarrow> time \<Rightarrow> time \<Rightarrow> worker \<times> spool \<Rightarrow> (int + pydict) \<times> worker \<times> spool" where
  "retry_dead_delivery token request io now status_now ws =
    (case bindE (require_delivery_admin token request) (\<lambda>_. read_admin_cas request) of
       Inl code \<Rightarrow> (Inl code, ws)
     | Inr (holder, revision) \<Rightarrow>
        (case ws of (w, s) \<Rightarrow>
          (case retry_dead io now status_now holder revision s of
             (Inl e, s') \<Rightarrow> (Inl (if e = DeliveryAdminConflict then 409 else http_error e), w, s')
           | (Inr (n, st), s') \<Rightarrow>
               (Inr ((''retried_count'', PInt (int n)) # as_dict st), notify w, s'))))"

section \<open>Properties\<close>

lemma enqueue_error:
  assumes "spool_inv limits s" "enqueue frepr limits io now event s = (Inl e, s')"
  shows "s' = s \<and> is_spool_error e"
  using assms(2)
  by (auto simp: enqueue_def run_sync_def enqueue_sync_def Let_def
      split: if_splits sum.splits option.splits dest: stable_delivery_id_error stable_thread_key_error)

lemma enqueue_ok_row:
  assumes inv: "spool_inv limits s" and ok: "enqueue frepr limits io now event s = (Inr res, s')"
  shows "\<exists>r \<in> set (deliveries s'). stable_delivery_id event = Inr (dl_delivery_id r)
    \<and> dl_body_sha256 r = sha256 (canonical_event_body frepr event)"
proof -
  obtain d k where enq: "stable_delivery_id event = Inr d"
    "enqueue_sync limits now d k (canonical_event_body frepr event) (sha256 (canonical_event_body frepr event)) s
     = (Inr res, s')"
    using ok by (auto simp: enqueue_def run_sync_def Let_def split: if_splits sum.splits)
  show ?thesis
  proof (cases "sql_first (\<lambda>r. dl_delivery_id r = d) (deliveries (purge_expired now s))")
    case None
    with enq show ?thesis
      by (auto simp: enqueue_sync_def Let_def new_delivery_def split: if_splits)
  next
    case (Some r)
    with enq find_Some_in [OF Some] show ?thesis
      by (auto simp: enqueue_sync_def Let_def split: if_splits intro!: bexI [of _ r])
  qed
qed

text \<open>C11. Teams gets a success acknowledgement only for a durable message: the durable path answers
  success only when the committed database holds a row with the event's id and body hash; otherwise
  it answers 409 for an identity conflict or 503, the database is as before, and Teams will retry.\<close>

theorem ack_is_durable:
  assumes inv: "spool_inv limits s"
    and run: "forward_event_durable frepr limits io now event (w, s) = (res, w', s')"
  shows "if res = Inr ()
     then wk_wakeup w' \<and> (\<exists>r \<in> set (deliveries s'). stable_delivery_id event = Inr (dl_delivery_id r)
            \<and> dl_body_sha256 r = sha256 (canonical_event_body frepr event))
     else res \<in> {Inl 409, Inl 503} \<and> s' = s \<and> w' = w"
proof (cases "enqueue frepr limits io now event s")
  case (Pair out t)
  show ?thesis
  proof (cases out)
    case (Inl e)
    with Pair have "t = s" "is_spool_error e" using enqueue_error [OF inv] by blast+
    with Pair Inl run show ?thesis by (auto simp: forward_event_durable_def split: if_splits)
  next
    case (Inr ok)
    with Pair run enqueue_ok_row [OF inv, of frepr io now event ok t] show ?thesis
      by (auto simp: forward_event_durable_def notify_def)
  qed
qed

theorem ack_is_durable_witness:
  "\<exists>w' s'. forward_event_durable sample_float sample_limits True 10 (sample_event ''m'') (new_worker 5, sample_open)
     = (Inr (), w', s') \<and> wk_wakeup w'
     \<and> (\<exists>r \<in> set (deliveries s'). stable_delivery_id (sample_event ''m'') = Inr (dl_delivery_id r))"
proof -
  have run: "forward_event_durable sample_float sample_limits True 10 (sample_event ''m'') (new_worker 5, sample_open)
      = (Inr (), notify (new_worker 5), sample_filled)"
    by (simp add: forward_event_durable_def sample_enqueue)
  from ack_is_durable [OF sample_open_inv run]
  have "wk_wakeup (notify (new_worker 5))"
    "\<exists>r \<in> set (deliveries sample_filled). stable_delivery_id (sample_event ''m'') = Inr (dl_delivery_id r)"
    unfolding if_P [OF refl] by blast+
  with run show ?thesis by blast
qed

text \<open>Administration needs the token: without an Authorization header made of the bearer scheme, one
  space and exactly the configured token, every admin route answers 401 and neither the worker nor
  the database changes.\<close>

theorem admin_requires_token:
  assumes "aq_authorization request \<noteq> scheme @ '' '' @ token \<or> casefold scheme \<noteq> ''bearer''"
    and "scheme = takeWhile (\<lambda>c. c \<noteq> CHR '' '') (aq_authorization request)" "list_all isascii token" "token \<noteq> []"
  shows "delivery_status_route token request io now ws = (Inl 401, ws)
    \<and> pause_delivery frepr limits token request io now monotonic polls ws = (Some (Inl 401), ws)
    \<and> resume_delivery token request io now ws = (Inl 401, ws)
    \<and> retry_dead_delivery token request io now status_now ws = (Inl 401, ws)"
proof -
  let ?a = "aq_authorization request"
  have split: "?a = scheme @ '' '' @ tl (dropWhile (\<lambda>c. c \<noteq> CHR '' '') ?a)" if "CHR '' '' \<in> set ?a"
  proof -
    let ?d = "dropWhile (\<lambda>c. c \<noteq> CHR '' '') ?a"
    have "?d \<noteq> []" using that by (auto simp: dropWhile_eq_Nil_conv)
    then have "?d = CHR '' '' # tl ?d" using hd_dropWhile [of "\<lambda>c. c \<noteq> CHR '' ''" ?a] by (cases ?d) auto
    then have "scheme @ ?d = scheme @ '' '' @ tl ?d" by simp
    then show ?thesis using assms(2) by simp
  qed
  have "require_delivery_admin token request = Inl 401"
    using assms split by (auto simp: require_delivery_admin_def partition_on_def Let_def)
  then show ?thesis
    by (simp add: delivery_status_route_def pause_delivery_def resume_delivery_def retry_dead_delivery_def)
qed

theorem admin_requires_token_witness:
  "retry_dead_delivery ''secret'' \<lparr>aq_authorization = ''Bearer wrong'', aq_json = None\<rparr> True 20 21 (new_worker 5, sample_paused)
   = (Inl 401, new_worker 5, sample_paused)"
proof -
  let ?rq = "\<lparr>aq_authorization = ''Bearer wrong'', aq_json = None\<rparr>"
  have 1: "aq_authorization ?rq \<noteq> ''Bearer'' @ '' '' @ ''secret'' \<or> casefold ''Bearer'' \<noteq> ''bearer''" by simp
  have 2: "''Bearer'' = takeWhile (\<lambda>c. c \<noteq> CHR '' '') (aq_authorization ?rq)" by simp
  have 3: "list_all isascii ''secret''" by code_simp
  have 4: "''secret'' \<noteq> []" by simp
  from admin_requires_token [OF 1 2 3 4, of True 20 "(new_worker 5, sample_paused)" sample_float sample_limits 0 "[]" 21] show ?thesis
    by (elim conjE)
qed

end
