(* ===== verification/Effect_Ledger.thy ===== *)
theory Effect_Ledger
  imports Cyrene_Prelude
begin

text \<open>
  The contract the side-effecting connectors share: an intent ledger.  Before an external effect (an
  SMTP transmission, a cloud write, a Bilibili mutation) a call asks the ledger for its request key;
  only a granted call may perform the effect; it then settles the request, or releases it when it
  knows that nothing was sent.  Calls of several processes interleave at these points and may crash
  between any two of them.  The locale states what a ledger promises, and proves once that no key
  ever has two effects; the email, cloud and Bilibili ledgers are interpretations.
\<close>

record ('l, 'r) effect_system =
  fs_ledger :: 'l
  fs_owned :: "'r list"
  fs_effects :: "'r list"

text \<open>The interleaved calls: granted and refused requests, the effect itself, a release or a
  settlement by the owner of a request (before or after the effect), a settlement after the effect,
  a crash of the owner, and upkeep of the ledger that no request causes.\<close>

inductive effect_step ::
    "('r \<Rightarrow> bool) \<Rightarrow> ('r \<Rightarrow> 'l \<Rightarrow> bool \<times> 'l) \<Rightarrow> ('r \<Rightarrow> 'l \<Rightarrow> 'l) \<Rightarrow> ('r \<Rightarrow> 'o \<Rightarrow> 'l \<Rightarrow> 'l)
     \<Rightarrow> ('l \<Rightarrow> 'l \<Rightarrow> bool) \<Rightarrow> ('l, 'r) effect_system \<Rightarrow> ('l, 'r) effect_system \<Rightarrow> bool"
  for valid grant release settle upkeep where
  granted: "valid r \<Longrightarrow> grant r (fs_ledger s) = (True, l) \<Longrightarrow>
    effect_step valid grant release settle upkeep s (s\<lparr>fs_ledger := l, fs_owned := r # fs_owned s\<rparr>)"
| refused: "valid r \<Longrightarrow> grant r (fs_ledger s) = (False, l) \<Longrightarrow>
    effect_step valid grant release settle upkeep s (s\<lparr>fs_ledger := l\<rparr>)"
| effect: "r \<in> set (fs_owned s) \<Longrightarrow>
    effect_step valid grant release settle upkeep s
      (s\<lparr>fs_owned := remove1 r (fs_owned s), fs_effects := r # fs_effects s\<rparr>)"
| released: "r \<in> set (fs_owned s) \<Longrightarrow>
    effect_step valid grant release settle upkeep s
      (s\<lparr>fs_owned := remove1 r (fs_owned s), fs_ledger := release r (fs_ledger s)\<rparr>)"
| settled_unsent: "r \<in> set (fs_owned s) \<Longrightarrow>
    effect_step valid grant release settle upkeep s
      (s\<lparr>fs_owned := remove1 r (fs_owned s), fs_ledger := settle r x (fs_ledger s)\<rparr>)"
| settled_sent: "r \<in> set (fs_effects s) \<Longrightarrow>
    effect_step valid grant release settle upkeep s (s\<lparr>fs_ledger := settle r x (fs_ledger s)\<rparr>)"
| crashed: "r \<in> set (fs_owned s) \<Longrightarrow>
    effect_step valid grant release settle upkeep s (s\<lparr>fs_owned := remove1 r (fs_owned s)\<rparr>)"
| maintained: "upkeep (fs_ledger s) l \<Longrightarrow>
    effect_step valid grant release settle upkeep s (s\<lparr>fs_ledger := l\<rparr>)"

definition fresh_system :: "('l \<Rightarrow> bool) \<Rightarrow> ('l, 'r) effect_system \<Rightarrow> bool" where
  "fresh_system ok s \<longleftrightarrow> ok (fs_ledger s) \<and> fs_owned s = [] \<and> fs_effects s = []"

locale effect_ledger =
  fixes inv :: "'l \<Rightarrow> bool"
    and valid :: "'r \<Rightarrow> bool"
    and key :: "'r \<Rightarrow> 'k"
    and free :: "'k \<Rightarrow> 'l \<Rightarrow> bool"
    and grant :: "'r \<Rightarrow> 'l \<Rightarrow> bool \<times> 'l"
    and release :: "'r \<Rightarrow> 'l \<Rightarrow> 'l"
    and settle :: "'r \<Rightarrow> 'o \<Rightarrow> 'l \<Rightarrow> 'l"
    and upkeep :: "'l \<Rightarrow> 'l \<Rightarrow> bool"
  assumes grant_inv: "inv l \<Longrightarrow> valid r \<Longrightarrow> inv (snd (grant r l))"
    and grant_free: "inv l \<Longrightarrow> valid r \<Longrightarrow> grant r l = (True, l') \<Longrightarrow> free (key r) l \<and> \<not> free (key r) l'"
    and grant_keeps: "inv l \<Longrightarrow> valid r \<Longrightarrow> free k (snd (grant r l)) \<Longrightarrow> free k l"
    and release_inv: "inv l \<Longrightarrow> valid r \<Longrightarrow> inv (release r l)"
    and release_keeps: "inv l \<Longrightarrow> valid r \<Longrightarrow> free k (release r l) \<Longrightarrow> k = key r \<or> free k l"
    and settle_inv: "inv l \<Longrightarrow> valid r \<Longrightarrow> inv (settle r x l)"
    and settle_keeps: "inv l \<Longrightarrow> valid r \<Longrightarrow> free k (settle r x l) \<Longrightarrow> free k l"
    and upkeep_inv: "inv l \<Longrightarrow> upkeep l l' \<Longrightarrow> inv l'"
    and upkeep_keeps: "inv l \<Longrightarrow> upkeep l l' \<Longrightarrow> free k l' \<Longrightarrow> free k l"
begin

abbreviation step :: "('l, 'r) effect_system \<Rightarrow> ('l, 'r) effect_system \<Rightarrow> bool" where
  "step \<equiv> effect_step valid grant release settle upkeep"

definition safe :: "('l, 'r) effect_system \<Rightarrow> bool" where
  "safe s \<longleftrightarrow> inv (fs_ledger s) \<and> list_all valid (fs_owned s @ fs_effects s)
     \<and> distinct (map key (fs_owned s @ fs_effects s))
     \<and> list_all (\<lambda>r. \<not> free (key r) (fs_ledger s)) (fs_owned s @ fs_effects s)"

lemma keys_remove1:
  assumes "distinct (map key (xs @ ys))" "r \<in> set xs"
  shows "distinct (map key (remove1 r xs @ ys)) \<and> distinct (map key (remove1 r xs @ r # ys))
    \<and> key r \<notin> key ` (set (remove1 r xs) \<union> set ys)"
  using assms
proof (induction xs)
  case (Cons a xs)
  have sub: "set (remove1 r xs) \<subseteq> set xs" by (rule set_remove1_subset)
  show ?case
  proof (cases "a = r")
    case True
    with Cons.prems show ?thesis by auto
  next
    case False
    with Cons.prems have "key a \<noteq> key r" by auto
    with False Cons sub show ?thesis by (auto simp: image_iff)
  qed
qed simp

text \<open>A ledger change that frees no key in use, the end of an ownership, and an effect.\<close>

lemma safe_ledger:
  assumes "safe s" "inv l" "\<And>r. r \<in> set (fs_owned s @ fs_effects s) \<Longrightarrow> free (key r) l \<Longrightarrow> free (key r) (fs_ledger s)"
  shows "safe (s\<lparr>fs_ledger := l\<rparr>)"
  using assms unfolding safe_def list_all_iff by auto

lemma safe_drop:
  assumes "safe s" "r \<in> set (fs_owned s)"
  shows "safe (s\<lparr>fs_owned := remove1 r (fs_owned s)\<rparr>)"
    and "x \<in> set (remove1 r (fs_owned s) @ fs_effects s) \<Longrightarrow> key x \<noteq> key r" and "valid r"
proof -
  have sub: "set (remove1 r (fs_owned s)) \<subseteq> set (fs_owned s)" by (rule set_remove1_subset)
  have keys: "distinct (map key (remove1 r (fs_owned s) @ fs_effects s))"
    "key r \<notin> key ` (set (remove1 r (fs_owned s)) \<union> set (fs_effects s))"
    using keys_remove1 [of "fs_owned s" "fs_effects s" r] assms unfolding safe_def by blast+
  show "safe (s\<lparr>fs_owned := remove1 r (fs_owned s)\<rparr>)"
    using assms(1) keys(1) sub unfolding safe_def list_all_iff by auto
  show "x \<in> set (remove1 r (fs_owned s) @ fs_effects s) \<Longrightarrow> key x \<noteq> key r" using keys(2) by (metis imageI set_append)
  show "valid r" using assms by (auto simp: safe_def list_all_iff)
qed

lemma safe_effect:
  assumes "safe s" "r \<in> set (fs_owned s)"
  shows "safe (s\<lparr>fs_owned := remove1 r (fs_owned s), fs_effects := r # fs_effects s\<rparr>)"
proof -
  have "set (remove1 r (fs_owned s)) \<subseteq> set (fs_owned s)" by (rule set_remove1_subset)
  moreover have "distinct (map key (remove1 r (fs_owned s) @ r # fs_effects s))"
    using keys_remove1 [of "fs_owned s" "fs_effects s" r] assms unfolding safe_def by blast
  ultimately show ?thesis using assms unfolding safe_def list_all_iff by auto
qed

lemma safe_grant:
  assumes "safe s" "valid r" "grant r (fs_ledger s) = (True, l)"
  shows "safe (s\<lparr>fs_ledger := l, fs_owned := r # fs_owned s\<rparr>)"
proof -
  have inv: "inv (fs_ledger s)" using assms(1) by (simp add: safe_def)
  have free: "free (key r) (fs_ledger s)" "\<not> free (key r) l"
    using grant_free [OF inv assms(2,3)] by simp_all
  have "inv l" using grant_inv [OF inv assms(2)] assms(3) by simp
  then have "safe (s\<lparr>fs_ledger := l\<rparr>)"
    using assms grant_keeps [OF inv assms(2)] by (intro safe_ledger) auto
  moreover have "key r \<notin> key ` (set (fs_owned s) \<union> set (fs_effects s))"
    using free(1) assms(1) by (auto simp: safe_def list_all_iff)
  ultimately show ?thesis using assms(2) free(2) by (auto simp: safe_def)
qed

lemma step_safe:
  assumes "safe s" "step s t"
  shows "safe t"
proof -
  have inv: "inv (fs_ledger s)" using assms(1) by (simp add: safe_def)
  from assms(2) show ?thesis
  proof (cases rule: effect_step.cases)
    case (granted r l)
    with assms(1) show ?thesis by (simp add: safe_grant)
  next
    case (refused r l)
    with assms(1) inv grant_keeps [of "fs_ledger s" r] grant_inv [of "fs_ledger s" r] show ?thesis
      by (auto intro!: safe_ledger)
  next
    case (effect r)
    with assms(1) show ?thesis by (simp add: safe_effect)
  next
    case (released r)
    note drop = safe_drop [OF assms(1) released(2)]
    have "safe (s\<lparr>fs_owned := remove1 r (fs_owned s), fs_ledger := release r (fs_ledger s)\<rparr>)"
    proof (rule safe_ledger [OF drop(1)])
      show "inv (release r (fs_ledger s))" using inv drop(3) by (rule release_inv)
      fix x assume "x \<in> set (fs_owned (s\<lparr>fs_owned := remove1 r (fs_owned s)\<rparr>) @ fs_effects (s\<lparr>fs_owned := remove1 r (fs_owned s)\<rparr>))"
        and "free (key x) (release r (fs_ledger s))"
      with drop(2) [of x] release_keeps [OF inv drop(3)]
      show "free (key x) (fs_ledger (s\<lparr>fs_owned := remove1 r (fs_owned s)\<rparr>))" by auto
    qed
    with released show ?thesis by simp
  next
    case (settled_unsent r x)
    note drop = safe_drop [OF assms(1) settled_unsent(2)]
    have "safe (s\<lparr>fs_owned := remove1 r (fs_owned s), fs_ledger := settle r x (fs_ledger s)\<rparr>)"
      using drop inv settle_inv settle_keeps by (intro safe_ledger) auto
    with settled_unsent show ?thesis by simp
  next
    case (settled_sent r x)
    then have "valid r" using assms(1) by (auto simp: safe_def list_all_iff)
    with settled_sent assms(1) inv settle_inv settle_keeps show ?thesis by (auto intro!: safe_ledger)
  next
    case (crashed r)
    with assms(1) show ?thesis by (simp add: safe_drop)
  next
    case (maintained l)
    with assms(1) inv upkeep_inv upkeep_keeps show ?thesis by (auto intro!: safe_ledger)
  qed
qed

lemma reach_safe:
  assumes "reach (fresh_system inv) step s"
  shows "safe s"
  using assms
proof (rule reach_invariant)
  show "safe s" if "fresh_system inv s" for s using that by (simp add: fresh_system_def safe_def)
  show "safe t" if "safe s" "step s t" for s t using that by (rule step_safe)
qed

text \<open>No request key ever has two effects, and while a call owns a key, that key has had none.\<close>

lemma at_most_one_effect:
  assumes "reach (fresh_system inv) step s"
  shows "distinct (map key (fs_effects s))"
    and "r \<in> set (fs_owned s) \<Longrightarrow> key r \<notin> key ` set (fs_effects s)"
  using reach_safe [OF assms] by (auto simp: safe_def)

end

end
