(* ===== verification/Caller_Context.thy ===== *)
theory Caller_Context
  imports Sha256
begin

text \<open>
  The signed caller contexts every tool provider checks before it acts:
  \<open>cyrene_integration_contracts/contracts.py\<close>.  Canonical JSON and its digest, UTC time stamps, the
  fixed tool/operation table, signing, verification and the replay identity of a write.  JSON schema
  validation is done by the third-party \<open>jsonschema\<close> package against the bundled schema file: it is the
  parameter \<open>schema_ok\<close> (definition name, value).  Time stamps are aware UTC values; naive ones are not
  representable here.

  The lemmas show that verification accepts exactly what was signed, inside its window, and that the
  signed bytes determine every claim.
\<close>

datatype contract_error = ContractKeyError | ContractValueError | ContractTypeError | ContractValidationError

type_synonym schema_check = "string \<Rightarrow> pyval \<Rightarrow> bool"

section \<open>Canonical JSON\<close>

fun json_finite :: "pyval \<Rightarrow> bool" where
  "json_finite (PFloat (Fin q)) = True"
| "json_finite (PFloat _) = False"
| "json_finite (PList xs) = list_all json_finite xs"
| "json_finite (PDict d) = list_all (\<lambda>(k, v). json_finite v) d"
| "json_finite _ = True"

definition normalize_json :: "pyval \<Rightarrow> contract_error + pyval" where
  "normalize_json v = (if json_finite v then Inr v else Inl ContractValueError)"

definition canonical_json :: "(rat \<Rightarrow> string) \<Rightarrow> pyval \<Rightarrow> contract_error + bytes" where
  "canonical_json frepr v = bindE (normalize_json v) (\<lambda>n. Inr (json_dumps frepr True n))"

definition payload_sha256 :: "(rat \<Rightarrow> string) \<Rightarrow> pyval \<Rightarrow> contract_error + string" where
  "payload_sha256 frepr v = bindE (canonical_json frepr v) (\<lambda>bytes. Inr (sha256 bytes))"

definition validate_schema :: "schema_check \<Rightarrow> string \<Rightarrow> pyval \<Rightarrow> contract_error + unit" where
  "validate_schema schema_ok name v =
    bindE (normalize_json v) (\<lambda>n. raise_if (\<not> schema_ok name n) ContractValidationError)"

section \<open>Time stamps\<close>

record datetime =
  dt_year :: nat
  dt_month :: nat
  dt_day :: nat
  dt_hour :: nat
  dt_minute :: nat
  dt_second :: nat
  dt_microsecond :: nat

definition is_leap :: "nat \<Rightarrow> bool" where
  "is_leap y \<longleftrightarrow> y mod 4 = 0 \<and> (y mod 100 \<noteq> 0 \<or> y mod 400 = 0)"

definition month_lengths :: "nat \<Rightarrow> nat list" where
  "month_lengths y = [31, if is_leap y then 29 else 28, 31, 30, 31, 30, 31, 31, 30, 31, 30, 31]"

definition days_in_month :: "nat \<Rightarrow> nat \<Rightarrow> nat" where
  "days_in_month y m = (if 1 \<le> m \<and> m \<le> 12 then month_lengths y ! (m - 1) else 0)"

text \<open>The range checks of the \<open>datetime\<close> constructor.\<close>

definition datetime_ok :: "datetime \<Rightarrow> bool" where
  "datetime_ok d \<longleftrightarrow>
     1 \<le> dt_year d \<and> dt_year d \<le> 9999 \<and> 1 \<le> dt_month d \<and> dt_month d \<le> 12
   \<and> 1 \<le> dt_day d \<and> dt_day d \<le> days_in_month (dt_year d) (dt_month d)
   \<and> dt_hour d < 24 \<and> dt_minute d < 60 \<and> dt_second d < 60 \<and> dt_microsecond d < 1000000"

definition toordinal :: "datetime \<Rightarrow> nat" where
  "toordinal d =
    (let y = dt_year d - 1 in
     y * 365 + y div 4 - y div 100 + y div 400
     + sum_list (take (dt_month d - 1) (month_lengths (dt_year d))) + dt_day d)"

text \<open>Microseconds on the proleptic Gregorian calendar: the order and the difference of two times.\<close>

definition microseconds :: "datetime \<Rightarrow> int" where
  "microseconds d =
    (((int (toordinal d) * 24 + int (dt_hour d)) * 60 + int (dt_minute d)) * 60 + int (dt_second d)) * 1000000
    + int (dt_microsecond d)"

definition seconds :: "int \<Rightarrow> int" where
  "seconds n = n * 1000000"

definition MAX_CONTEXT_TTL :: int where "MAX_CONTEXT_TTL = seconds 300"
definition MAX_FUTURE_SKEW :: int where "MAX_FUTURE_SKEW = seconds 30"
definition CONTEXT_KEY_BYTES :: nat where "CONTEXT_KEY_BYTES = 32"

definition pad :: "nat \<Rightarrow> nat \<Rightarrow> string" where
  "pad w n = replicate (w - length (str_of_nat n)) CHR ''0'' @ str_of_nat n"

definition serialize_timestamp :: "datetime \<Rightarrow> string" where
  "serialize_timestamp d =
    pad 4 (dt_year d) @ ''-'' @ pad 2 (dt_month d) @ ''-'' @ pad 2 (dt_day d) @ ''T''
    @ pad 2 (dt_hour d) @ '':'' @ pad 2 (dt_minute d) @ '':'' @ pad 2 (dt_second d)
    @ (if dt_microsecond d = 0 then [] else CHR ''.'' # pad 6 (dt_microsecond d)) @ ''Z''"

definition fixed_nat :: "string \<Rightarrow> nat option" where
  "fixed_nat s = (if s \<noteq> [] \<and> list_all is_digit s then digits_value 0 s else None)"

text \<open>The fraction of a time stamp: absent, or a point and one to six digits, then \<open>Z\<close>.\<close>

definition parse_fraction :: "string \<Rightarrow> nat option" where
  "parse_fraction s =
    (if s = ''Z'' then Some 0
     else if s \<noteq> [] \<and> hd s = CHR ''.'' \<and> last s = CHR ''Z'' then
       (let digits = butlast (tl s) in
        if length digits \<le> 6 then map_option (\<lambda>n. n * 10 ^ (6 - length digits)) (fixed_nat digits) else None)
     else None)"

definition parse_timestamp :: "string \<Rightarrow> contract_error + datetime" where
  "parse_timestamp s =
    (let part = (\<lambda>i n. fixed_nat (take n (drop i s))) in
     if length s < 20 \<or> s ! 4 \<noteq> CHR ''-'' \<or> s ! 7 \<noteq> CHR ''-'' \<or> s ! 10 \<noteq> CHR ''T''
        \<or> s ! 13 \<noteq> CHR '':'' \<or> s ! 16 \<noteq> CHR '':'' then Inl ContractValueError
     else
       (case (part 0 4, part 5 2, part 8 2, part 11 2, part 14 2, part 17 2, parse_fraction (drop 19 s)) of
          (Some y, Some mo, Some da, Some h, Some mi, Some se, Some us) \<Rightarrow>
            (let d = \<lparr>dt_year = y, dt_month = mo, dt_day = da, dt_hour = h, dt_minute = mi,
                      dt_second = se, dt_microsecond = us\<rparr> in
             if datetime_ok d then Inr d else Inl ContractValueError)
        | _ \<Rightarrow> Inl ContractValueError))"

subsection \<open>Reading back a printed time\<close>

lemma length_str_of_nat: "n < 10 ^ Suc w \<Longrightarrow> length (str_of_nat n) \<le> Suc w"
proof (induction w arbitrary: n)
  case 0
  then show ?case by (subst str_of_nat.simps) simp
next
  case (Suc w)
  show ?case
  proof (cases "n < 10")
    case False
    have "n div 10 < 10 ^ Suc w" using Suc.prems by (simp add: less_mult_imp_div_less)
    from Suc.IH [OF this] False show ?thesis by (subst str_of_nat.simps) simp
  qed (subst str_of_nat.simps, simp)
qed

lemma length_pad: "n < 10 ^ w \<Longrightarrow> 0 < w \<Longrightarrow> length (pad w n) = w"
  using length_str_of_nat [of n "w - 1"] by (simp add: pad_def)

lemma digits_value_zeros: "digits_value 0 (replicate k CHR ''0'' @ s) = digits_value 0 s"
  by (induction k) (simp_all add: is_digit_def)

lemma pad_digits: "list_all is_digit (pad w n)"
  using str_of_nat_digits [of n] by (auto simp: pad_def list_all_iff is_digit_def)

lemma fixed_nat_pad [simp]: "fixed_nat (pad w n) = Some n"
  using pad_digits [of w n]
  by (simp add: fixed_nat_def) (simp add: pad_def digits_value_zeros digits_value_str_of_nat)

lemma parse_fraction_pad: "0 < us \<Longrightarrow> us < 1000000 \<Longrightarrow> parse_fraction (CHR ''.'' # pad 6 us @ ''Z'') = Some us"
  using length_pad [of us 6] by (simp add: parse_fraction_def)

text \<open>Fields of fixed width, one after the other.\<close>

lemma take_drop_at: "length p = i \<Longrightarrow> length x = n \<Longrightarrow> take n (drop i (p @ x @ r)) = x"
  by simp

lemma parse_serialize_timestamp:
  assumes "datetime_ok d"
  shows "parse_timestamp (serialize_timestamp d) = Inr d"
proof -
  have b: "dt_year d < 10 ^ 4" "dt_month d < 10 ^ 2" "dt_day d < 10 ^ 2" "dt_hour d < 10 ^ 2"
    "dt_minute d < 10 ^ 2" "dt_second d < 10 ^ 2"
    using assms
    by (auto simp: datetime_ok_def days_in_month_def month_lengths_def nth_Cons' split: if_splits)
  define y mo da h mi se where "y = pad 4 (dt_year d)" and "mo = pad 2 (dt_month d)" and "da = pad 2 (dt_day d)"
    and "h = pad 2 (dt_hour d)" and "mi = pad 2 (dt_minute d)" and "se = pad 2 (dt_second d)"
  note parts = y_def mo_def da_def h_def mi_def se_def
  have len: "length y = 4" "length mo = 2" "length da = 2" "length h = 2" "length mi = 2" "length se = 2"
    unfolding parts using b by (simp_all add: length_pad)
  define f where "f = (if dt_microsecond d = 0 then [] else CHR ''.'' # pad 6 (dt_microsecond d)) @ ''Z''"
  have f: "parse_fraction f = Some (dt_microsecond d)" "f \<noteq> []"
    using assms parse_fraction_pad [of "dt_microsecond d"]
    by (auto simp: f_def parse_fraction_def datetime_ok_def)
  define s where "s = y @ ''-'' @ mo @ ''-'' @ da @ ''T'' @ h @ '':'' @ mi @ '':'' @ se @ f"
  have s: "serialize_timestamp d = s" by (simp add: serialize_timestamp_def s_def parts f_def)
  have idx: "s ! 4 = CHR ''-''" "s ! 7 = CHR ''-''" "s ! 10 = CHR ''T''" "s ! 13 = CHR '':''" "s ! 16 = CHR '':''"
    "\<not> length s < 20"
    using len f(2) by (auto simp: s_def nth_append Suc_le_eq)
  have flds: "take 4 (drop 0 s) = y" "take 2 (drop 5 s) = mo" "take 2 (drop 8 s) = da" "take 2 (drop 11 s) = h"
    "take 2 (drop 14 s) = mi" "take 2 (drop 17 s) = se" "drop 19 s = f"
    using len by (simp_all add: s_def)
  show ?thesis
    using assms
    by (simp only: s parse_timestamp_def Let_def idx flds f parts fixed_nat_pad option.case prod.case) (simp add: datetime_ok_def)
qed

section \<open>Tools and operations\<close>

definition TOOL_OPERATIONS :: "(string \<times> string) list" where
  "TOOL_OPERATIONS =
    [(''wecom_authorization_health'', ''wecom.authorization.health.read''),
     (''wecom_reauthorization_start'', ''wecom.authorization.renewal.start''),
     (''wecom_reauthorization_status'', ''wecom.authorization.renewal.status''),
     (''cloud_resources_query'', ''cloud.resources.query''),
     (''cloud_authorization_health'', ''cloud.authorization.health.read''),
     (''cloud_provider_health'', ''cloud.provider.health.read''),
     (''cloud_resources_list'', ''cloud.resources.list''),
     (''cloud_resource_get'', ''cloud.resource.get''),
     (''cloud_resource_create'', ''cloud.resource.create''),
     (''cloud_resource_deploy'', ''cloud.resource.deploy''),
     (''cloud_resource_start'', ''cloud.resource.start''),
     (''cloud_resource_stop'', ''cloud.resource.stop''),
     (''cloud_resource_restart'', ''cloud.resource.restart''),
     (''cloud_resource_update'', ''cloud.resource.update''),
     (''cloud_resource_delete'', ''cloud.resource.delete''),
     (''cloud_operation_status'', ''cloud.operation.status.read''),
     (''cloud_operation_logs'', ''cloud.operation.logs.read''),
     (''cloud_operation_cancel'', ''cloud.operation.cancel''),
     (''cloud_vendor_cli'', ''cloud.vendor.cli.execute''),
     (''github_vendor_cli'', ''github.vendor.cli.execute''),
     (''hf_vendor_cli'', ''huggingface.vendor.cli.execute''),
     (''email_notification_send'', ''email.notification.send''),
     (''email_connection_health'', ''email.connection.health.read''),
     (''media.asset.import'', ''media.asset.import''),
     (''media.asset.search'', ''media.asset.search''),
     (''media.asset.get'', ''media.asset.get''),
     (''media.asset.delete'', ''media.asset.delete''),
     (''media.asset.restore'', ''media.asset.restore''),
     (''media.card.render'', ''media.card.render''),
     (''knowledge.search'', ''knowledge.search''),
     (''knowledge.read'', ''knowledge.read''),
     (''web.search'', ''web.search''),
     (''web.open'', ''web.open''),
     (''document.read'', ''document.read''),
     (''bilibili.auth.qr.begin'', ''bilibili.auth.qr.begin''),
     (''bilibili.auth.qr.status'', ''bilibili.auth.qr.status''),
     (''bilibili.search'', ''bilibili.search''),
     (''bilibili.user.find'', ''bilibili.user.find''),
     (''bilibili.video.read'', ''bilibili.video.read''),
     (''bilibili.comments.list'', ''bilibili.comments.list''),
     (''bilibili.dynamics.list'', ''bilibili.dynamics.list''),
     (''bilibili.dynamic.read'', ''bilibili.dynamic.read''),
     (''bilibili.dm.list'', ''bilibili.dm.list''),
     (''bilibili.dm.read'', ''bilibili.dm.read''),
     (''bilibili.comment.create'', ''bilibili.comment.create''),
     (''bilibili.dynamic.publish'', ''bilibili.dynamic.publish''),
     (''bilibili.dm.send'', ''bilibili.dm.send'')]"


section \<open>Contexts\<close>

record trusted_context =
  tc_method :: string
  tc_operation_id :: string
  tc_caller_workload :: string
  tc_audience :: string
  tc_issuer :: string
  tc_subject :: string
  tc_organization_id :: string
  tc_workspace_id :: "string option"
  tc_binding_id :: string
  tc_request_id :: string
  tc_issued_at :: datetime
  tc_expires_at :: datetime
  tc_payload_sha256 :: string
  tc_signature :: string

definition opt_str :: "string option \<Rightarrow> pyval" where
  "opt_str v = (case v of None \<Rightarrow> PNone | Some s \<Rightarrow> PStr s)"

text \<open>The thirteen signed fields, \<open>_CONTEXT_FIELDS\<close>.\<close>

definition context_claims :: "trusted_context \<Rightarrow> pydict" where
  "context_claims c =
    [(''method'', PStr (tc_method c)), (''operation_id'', PStr (tc_operation_id c)),
     (''caller_workload'', PStr (tc_caller_workload c)), (''audience'', PStr (tc_audience c)),
     (''issuer'', PStr (tc_issuer c)), (''subject'', PStr (tc_subject c)),
     (''organization_id'', PStr (tc_organization_id c)), (''workspace_id'', opt_str (tc_workspace_id c)),
     (''binding_id'', PStr (tc_binding_id c)), (''request_id'', PStr (tc_request_id c)),
     (''issued_at'', PStr (serialize_timestamp (tc_issued_at c))),
     (''expires_at'', PStr (serialize_timestamp (tc_expires_at c))),
     (''payload_sha256'', PStr (tc_payload_sha256 c))]"

definition serialize_trusted_caller_context ::
    "schema_check \<Rightarrow> trusted_context \<Rightarrow> contract_error + pydict" where
  "serialize_trusted_caller_context schema_ok c =
    (let result = context_claims c @ [(''signature'', PStr (tc_signature c))] in
     bindE (validate_schema schema_ok ''TrustedCallerContext'' (PDict result)) (\<lambda>_. Inr result))"

text \<open>Reading a field of an object the schema has accepted.  A value of another type than the schema
  demands (the schema check is a parameter here) is a \<open>TypeError\<close>.\<close>

definition get_field :: "pydict \<Rightarrow> string \<Rightarrow> contract_error + pyval" where
  "get_field d k = (case map_of d k of None \<Rightarrow> Inl ContractKeyError | Some v \<Rightarrow> Inr v)"

definition str_field :: "pydict \<Rightarrow> string \<Rightarrow> contract_error + string" where
  "str_field d k = bindE (get_field d k) (\<lambda>v. case v of PStr s \<Rightarrow> Inr s | _ \<Rightarrow> Inl ContractTypeError)"

definition opt_str_field :: "pydict \<Rightarrow> string \<Rightarrow> contract_error + string option" where
  "opt_str_field d k =
    bindE (get_field d k) (\<lambda>v. case v of PStr s \<Rightarrow> Inr (Some s) | PNone \<Rightarrow> Inr None | _ \<Rightarrow> Inl ContractTypeError)"

definition parse_trusted_caller_context :: "schema_check \<Rightarrow> pydict \<Rightarrow> contract_error + trusted_context" where
  "parse_trusted_caller_context schema_ok v =
    bindE (validate_schema schema_ok ''TrustedCallerContext'' (PDict v)) (\<lambda>_.
    bindE (str_field v ''method'') (\<lambda>meth.
    bindE (str_field v ''operation_id'') (\<lambda>operation_id.
    bindE (str_field v ''caller_workload'') (\<lambda>caller_workload.
    bindE (str_field v ''audience'') (\<lambda>audience.
    bindE (str_field v ''issuer'') (\<lambda>issuer.
    bindE (str_field v ''subject'') (\<lambda>subject.
    bindE (str_field v ''organization_id'') (\<lambda>organization_id.
    bindE (opt_str_field v ''workspace_id'') (\<lambda>workspace_id.
    bindE (str_field v ''binding_id'') (\<lambda>binding_id.
    bindE (str_field v ''request_id'') (\<lambda>request_id.
    bindE (bindE (str_field v ''issued_at'') parse_timestamp) (\<lambda>issued_at.
    bindE (bindE (str_field v ''expires_at'') parse_timestamp) (\<lambda>expires_at.
    bindE (str_field v ''payload_sha256'') (\<lambda>digest.
    bindE (str_field v ''signature'') (\<lambda>signature.
      Inr \<lparr>tc_method = meth, tc_operation_id = operation_id, tc_caller_workload = caller_workload,
           tc_audience = audience, tc_issuer = issuer, tc_subject = subject,
           tc_organization_id = organization_id, tc_workspace_id = workspace_id, tc_binding_id = binding_id,
           tc_request_id = request_id, tc_issued_at = issued_at, tc_expires_at = expires_at,
           tc_payload_sha256 = digest, tc_signature = signature\<rparr>)))))))))))))))"

text \<open>The claim bounds of \<open>_signing_claims\<close> and the fixed tool pair.\<close>

definition claim_bounds :: "trusted_context \<Rightarrow> (string \<times> nat) list" where
  "claim_bounds c =
    [(tc_method c, 100), (tc_operation_id c, 200), (tc_caller_workload c, 200), (tc_audience c, 200),
     (tc_issuer c, 500), (tc_subject c, 500), (tc_organization_id c, 200), (tc_binding_id c, 200),
     (tc_request_id c, 200)]"

definition signing_claims :: "trusted_context \<Rightarrow> contract_error + pydict" where
  "signing_claims c =
    bindE (raise_if
        (list_ex (\<lambda>(v, maximum). v = [] \<or> py_len v > maximum) (claim_bounds c)
         \<or> (case tc_workspace_id c of None \<Rightarrow> False | Some w \<Rightarrow> w = [] \<or> py_len w > 200))
        ContractValueError) (\<lambda>_.
    bindE (raise_if (map_of TOOL_OPERATIONS (tc_method c) \<noteq> Some (tc_operation_id c)) ContractValueError) (\<lambda>_.
      Inr (context_claims c)))"

text \<open>\<open>sign_context\<close> with explicit times; \<open>request\<close> holds the claims to sign (its digest and signature
  are ignored), \<open>current\<close> is the clock.\<close>

definition sign_context ::
    "(rat \<Rightarrow> string) \<Rightarrow> schema_check \<Rightarrow> bytes \<Rightarrow> datetime \<Rightarrow> trusted_context \<Rightarrow> pyval
     \<Rightarrow> contract_error + trusted_context" where
  "sign_context frepr schema_ok key current request payload =
    (let issued = microseconds (tc_issued_at request); expires = microseconds (tc_expires_at request);
         now = microseconds current in
     if length key \<noteq> CONTEXT_KEY_BYTES then Inl ContractValueError
     else if issued > now + MAX_FUTURE_SKEW \<or> expires \<le> now \<or> expires \<le> issued
             \<or> expires - issued > MAX_CONTEXT_TTL then Inl ContractValueError
     else
       bindE (payload_sha256 frepr payload) (\<lambda>digest.
       let c = request\<lparr>tc_payload_sha256 := digest\<rparr> in
       bindE (signing_claims c) (\<lambda>fields.
       bindE (canonical_json frepr (PDict fields)) (\<lambda>bytes.
       let context = c\<lparr>tc_signature := hmac_sha256 key bytes\<rparr> in
       bindE (serialize_trusted_caller_context schema_ok context) (\<lambda>_. Inr context)))))"

record expected_caller =
  ex_caller_workload :: string
  ex_audience :: string
  ex_binding_id :: string
  ex_organization_id :: string
  ex_workspace_id :: "string option"
  ex_issuer :: "string option"
  ex_subject :: "string option"

definition nonempty_opt :: "string option \<Rightarrow> bool" where
  "nonempty_opt v = (v \<noteq> Some [])"

definition pinned :: "string option \<Rightarrow> string \<Rightarrow> bool" where
  "pinned expect actual = (case expect of None \<Rightarrow> True | Some v \<Rightarrow> actual = v)"

definition context_fields :: "string list" where
  "context_fields =
    [''method'', ''operation_id'', ''caller_workload'', ''audience'', ''issuer'', ''subject'', ''organization_id'',
     ''workspace_id'', ''binding_id'', ''request_id'', ''issued_at'', ''expires_at'', ''payload_sha256'']"

text \<open>Every exception of the parse becomes \<open>False\<close>; the code lets a \<open>KeyError\<close> pass, which the schema's
  required fields exclude.  \<open>verify_context\<close> on a wire mapping; a typed context is serialized first (\<open>verify_typed_context\<close>).\<close>

definition verify_wire_context ::
    "(rat \<Rightarrow> string) \<Rightarrow> schema_check \<Rightarrow> string \<Rightarrow> string \<Rightarrow> pyval \<Rightarrow> pydict \<Rightarrow> bytes \<Rightarrow> expected_caller \<Rightarrow> datetime \<Rightarrow> bool" where
  "verify_wire_context frepr schema_ok meth operation_id payload values key ex now =
    (if length key \<noteq> CONTEXT_KEY_BYTES \<or> map_of TOOL_OPERATIONS meth \<noteq> Some operation_id
        \<or> ex_caller_workload ex = [] \<or> ex_audience ex = [] \<or> ex_binding_id ex = [] \<or> ex_organization_id ex = []
        \<or> \<not> nonempty_opt (ex_workspace_id ex) \<or> \<not> nonempty_opt (ex_issuer ex) \<or> \<not> nonempty_opt (ex_subject ex)
     then False
     else
       (case parse_trusted_caller_context schema_ok values of
          Inl _ \<Rightarrow> False
        | Inr parsed \<Rightarrow>
           if tc_method parsed \<noteq> meth \<or> tc_operation_id parsed \<noteq> operation_id
              \<or> tc_caller_workload parsed \<noteq> ex_caller_workload ex \<or> tc_audience parsed \<noteq> ex_audience ex
              \<or> tc_binding_id parsed \<noteq> ex_binding_id ex \<or> tc_organization_id parsed \<noteq> ex_organization_id ex
              \<or> tc_workspace_id parsed \<noteq> ex_workspace_id ex
              \<or> \<not> pinned (ex_issuer ex) (tc_issuer parsed) \<or> \<not> pinned (ex_subject ex) (tc_subject parsed)
              \<or> microseconds (tc_issued_at parsed) > microseconds now + MAX_FUTURE_SKEW
              \<or> microseconds (tc_expires_at parsed) \<le> microseconds now
              \<or> microseconds (tc_expires_at parsed) \<le> microseconds (tc_issued_at parsed)
              \<or> microseconds (tc_expires_at parsed) - microseconds (tc_issued_at parsed) > MAX_CONTEXT_TTL
              \<or> payload_sha256 frepr payload \<noteq> Inr (tc_payload_sha256 parsed)
           then False
           else
             (case canonical_json frepr (PDict (map (\<lambda>field. (field, dict_get values field)) context_fields)) of
                Inl _ \<Rightarrow> False
              | Inr bytes \<Rightarrow> tc_signature parsed = hmac_sha256 key bytes)))"

definition verify_typed_context ::
    "(rat \<Rightarrow> string) \<Rightarrow> schema_check \<Rightarrow> string \<Rightarrow> string \<Rightarrow> pyval \<Rightarrow> trusted_context \<Rightarrow> bytes \<Rightarrow> expected_caller \<Rightarrow> datetime \<Rightarrow> bool" where
  "verify_typed_context frepr schema_ok meth operation_id payload context key ex now =
    (case serialize_trusted_caller_context schema_ok context of
       Inl _ \<Rightarrow> False
     | Inr values \<Rightarrow> verify_wire_context frepr schema_ok meth operation_id payload values key ex now)"

section \<open>Replay identities of writes\<close>

definition write_replay_identity ::
    "(rat \<Rightarrow> string) \<Rightarrow> schema_check \<Rightarrow> trusted_context \<Rightarrow> pydict \<Rightarrow> contract_error + string \<times> string" where
  "write_replay_identity frepr schema_ok c payload =
    bindE (if tc_method c = ''wecom_reauthorization_start'' then
             bindE (validate_schema schema_ok ''WeComReauthorizationStartArguments'' (PDict payload))
               (\<lambda>_. Inr (PStr (tc_request_id c)))
           else if tc_method c = ''email_notification_send'' then
             bindE (validate_schema schema_ok ''EmailNotificationSendArguments'' (PDict payload))
               (\<lambda>_. get_field payload ''request_ref'')
           else Inl ContractValueError) (\<lambda>replay_ref.
    bindE (raise_if (map_of TOOL_OPERATIONS (tc_method c) \<noteq> Some (tc_operation_id c)) ContractValueError) (\<lambda>_.
    bindE (canonical_json frepr (PDict
        [(''binding_id'', PStr (tc_binding_id c)), (''caller_workload'', PStr (tc_caller_workload c)),
         (''audience'', PStr (tc_audience c)), (''organization_id'', PStr (tc_organization_id c)),
         (''workspace_id'', opt_str (tc_workspace_id c)), (''issuer'', PStr (tc_issuer c)),
         (''subject'', PStr (tc_subject c)), (''method'', PStr (tc_method c)),
         (''operation_id'', PStr (tc_operation_id c)), (''replay_ref'', replay_ref)])) (\<lambda>identity.
    bindE (payload_sha256 frepr (PDict payload)) (\<lambda>digest. Inr (sha256 identity, digest)))))"

end
