(* ===== verification/Caller_Context_Props.thy ===== *)
theory Caller_Context_Props
  imports Caller_Context
begin

text \<open>
  Properties of signed caller contexts: what is signed verifies, what verifies was signed for exactly
  this caller scope, time window and payload, and the signed bytes determine every claim.
\<close>

section \<open>Round trip\<close>

lemma claims_lookup:
  "map (\<lambda>field. (field, dict_get (context_claims c @ [(''signature'', PStr (tc_signature c))]) field)) context_fields
   = context_claims c"
  by (simp add: context_fields_def context_claims_def)

lemma parse_serialize_context:
  assumes "serialize_trusted_caller_context schema_ok c = Inr v" "datetime_ok (tc_issued_at c)" "datetime_ok (tc_expires_at c)"
  shows "parse_trusted_caller_context schema_ok v = Inr c"
proof -
  from assms(1) have v: "v = context_claims c @ [(''signature'', PStr (tc_signature c))]"
    "validate_schema schema_ok ''TrustedCallerContext'' (PDict v) = Inr ()"
    by (auto simp: serialize_trusted_caller_context_def Let_def bindE_eq_Inr)
  have ws: "opt_str_field v ''workspace_id'' = Inr (tc_workspace_id c)"
    by (simp add: v(1) context_claims_def opt_str_field_def get_field_def opt_str_def split: option.split)
  have fld: "str_field v ''method'' = Inr (tc_method c)" "str_field v ''operation_id'' = Inr (tc_operation_id c)"
    "str_field v ''caller_workload'' = Inr (tc_caller_workload c)" "str_field v ''audience'' = Inr (tc_audience c)"
    "str_field v ''issuer'' = Inr (tc_issuer c)" "str_field v ''subject'' = Inr (tc_subject c)"
    "str_field v ''organization_id'' = Inr (tc_organization_id c)" "str_field v ''binding_id'' = Inr (tc_binding_id c)"
    "str_field v ''request_id'' = Inr (tc_request_id c)"
    "str_field v ''issued_at'' = Inr (serialize_timestamp (tc_issued_at c))"
    "str_field v ''expires_at'' = Inr (serialize_timestamp (tc_expires_at c))"
    "str_field v ''payload_sha256'' = Inr (tc_payload_sha256 c)" "str_field v ''signature'' = Inr (tc_signature c)"
    by (simp_all add: v(1) context_claims_def str_field_def get_field_def)
  show ?thesis
    unfolding parse_trusted_caller_context_def v(2) fld ws
    by (simp add: parse_serialize_timestamp [OF assms(2)] parse_serialize_timestamp [OF assms(3)])
qed

lemma canonical_claims: "canonical_json frepr (PDict (context_claims c)) = Inr (json_dumps frepr True (PDict (context_claims c)))"
  by (simp add: canonical_json_def normalize_json_def context_claims_def opt_str_def split: option.split)

lemma sign_context_Inr:
  assumes "sign_context frepr schema_ok key current request payload = Inr c"
  obtains digest where "length key = CONTEXT_KEY_BYTES" "payload_sha256 frepr payload = Inr digest"
    "c = request\<lparr>tc_payload_sha256 := digest,
           tc_signature := hmac_sha256 key (json_dumps frepr True (PDict (context_claims (request\<lparr>tc_payload_sha256 := digest\<rparr>))))\<rparr>"
    "signing_claims (request\<lparr>tc_payload_sha256 := digest\<rparr>) = Inr (context_claims (request\<lparr>tc_payload_sha256 := digest\<rparr>))"
    "\<exists>v. serialize_trusted_caller_context schema_ok c = Inr v"
    "microseconds (tc_issued_at request) < microseconds (tc_expires_at request)"
    "microseconds (tc_expires_at request) - microseconds (tc_issued_at request) \<le> MAX_CONTEXT_TTL"
  using assms
  by (auto simp: sign_context_def Let_def bindE_eq_Inr signing_claims_def canonical_claims split: if_splits)

lemma context_claims_signature [simp]: "context_claims (c\<lparr>tc_signature := x\<rparr>) = context_claims c"
  by (simp add: context_claims_def)

text \<open>The caller a context was signed for, as a provider that trusts it is configured.\<close>

definition expects :: "expected_caller \<Rightarrow> trusted_context \<Rightarrow> bool" where
  "expects ex c \<longleftrightarrow>
     tc_caller_workload c = ex_caller_workload ex \<and> tc_audience c = ex_audience ex
   \<and> tc_binding_id c = ex_binding_id ex \<and> tc_organization_id c = ex_organization_id ex
   \<and> tc_workspace_id c = ex_workspace_id ex
   \<and> pinned (ex_issuer ex) (tc_issuer c) \<and> pinned (ex_subject ex) (tc_subject c)"

lemma sign_context_verifies:
  assumes sign: "sign_context frepr schema_ok key current request payload = Inr c"
    and times: "datetime_ok (tc_issued_at request)" "datetime_ok (tc_expires_at request)"
    and ex: "expects ex c" "nonempty_opt (ex_issuer ex)" "nonempty_opt (ex_subject ex)"
    and now: "microseconds (tc_issued_at request) \<le> microseconds now + MAX_FUTURE_SKEW"
      "microseconds now < microseconds (tc_expires_at request)"
  shows "verify_typed_context frepr schema_ok (tc_method c) (tc_operation_id c) payload c key ex now"
proof -
  from sign show ?thesis
  proof (rule sign_context_Inr)
    fix digest
    let ?r = "request\<lparr>tc_payload_sha256 := digest\<rparr>"
    assume key: "length key = CONTEXT_KEY_BYTES" and digest: "payload_sha256 frepr payload = Inr digest"
      and c: "c = request\<lparr>tc_payload_sha256 := digest,
           tc_signature := hmac_sha256 key (json_dumps frepr True (PDict (context_claims ?r)))\<rparr>"
      and claims: "signing_claims ?r = Inr (context_claims ?r)"
      and ser: "\<exists>v. serialize_trusted_caller_context schema_ok c = Inr v"
      and ttl: "microseconds (tc_issued_at request) < microseconds (tc_expires_at request)"
        "microseconds (tc_expires_at request) - microseconds (tc_issued_at request) \<le> MAX_CONTEXT_TTL"
    from ser obtain v where v: "serialize_trusted_caller_context schema_ok c = Inr v" by blast
    then have v_eq: "v = context_claims c @ [(''signature'', PStr (tc_signature c))]"
      by (auto simp: serialize_trusted_caller_context_def Let_def bindE_eq_Inr)
    have times_c: "tc_issued_at c = tc_issued_at request" "tc_expires_at c = tc_expires_at request"
      "tc_payload_sha256 c = digest" by (simp_all add: c)
    have parsed: "parse_trusted_caller_context schema_ok v = Inr c"
      using v times times_c by (intro parse_serialize_context) simp_all
    have sig: "tc_signature c = hmac_sha256 key (json_dumps frepr True (PDict (context_claims c)))"
      by (simp add: c)
    have fields: "map_of TOOL_OPERATIONS (tc_method c) = Some (tc_operation_id c)"
      "tc_caller_workload c \<noteq> []" "tc_audience c \<noteq> []" "tc_binding_id c \<noteq> []" "tc_organization_id c \<noteq> []"
      "tc_workspace_id c \<noteq> Some []"
      using claims by (auto simp: c signing_claims_def bindE_eq_Inr claim_bounds_def)
    define bytes where "bytes = json_dumps frepr True (PDict (context_claims c))"
    have canon: "canonical_json frepr (PDict (map (\<lambda>field. (field, dict_get v field)) context_fields)) = Inr bytes"
      unfolding v_eq claims_lookup canonical_claims bytes_def ..
    show ?thesis
      unfolding verify_typed_context_def v sum.case verify_wire_context_def parsed canon
      using key fields ex now ttl times_c digest sig [folded bytes_def]
      by (auto simp: expects_def nonempty_opt_def)
  qed
qed

text \<open>C20. What is signed verifies: a context signed for a payload is accepted by every provider that
  holds the key and expects that caller scope, for the signed tool and payload, at any time from thirty
  seconds before its issue until its expiry.\<close>

theorem signed_context_verifies:
  assumes "sign_context frepr schema_ok key current request payload = Inr c"
    "datetime_ok (tc_issued_at request)" "datetime_ok (tc_expires_at request)"
    "expects ex c" "nonempty_opt (ex_issuer ex)" "nonempty_opt (ex_subject ex)"
    "microseconds (tc_issued_at request) \<le> microseconds now + seconds 30"
    "microseconds now < microseconds (tc_expires_at request)"
  shows "verify_typed_context frepr schema_ok (tc_method c) (tc_operation_id c) payload c key ex now"
  using assms by (intro sign_context_verifies) (simp_all add: MAX_FUTURE_SKEW_def)

section \<open>Soundness\<close>

lemma verify_typed_contextD:
  assumes "verify_typed_context frepr schema_ok meth op payload c key ex now"
    "datetime_ok (tc_issued_at c)" "datetime_ok (tc_expires_at c)"
  shows "tc_method c = meth \<and> tc_operation_id c = op \<and> expects ex c
    \<and> map_of TOOL_OPERATIONS meth = Some op \<and> length key = CONTEXT_KEY_BYTES
    \<and> microseconds (tc_issued_at c) \<le> microseconds now + MAX_FUTURE_SKEW
    \<and> microseconds now < microseconds (tc_expires_at c)
    \<and> microseconds (tc_expires_at c) - microseconds (tc_issued_at c) \<le> MAX_CONTEXT_TTL
    \<and> payload_sha256 frepr payload = Inr (tc_payload_sha256 c)
    \<and> tc_signature c = hmac_sha256 key (json_dumps frepr True (PDict (context_claims c)))"
proof -
  obtain v where v: "serialize_trusted_caller_context schema_ok c = Inr v"
    "verify_wire_context frepr schema_ok meth op payload v key ex now"
    using assms(1) by (auto simp: verify_typed_context_def split: sum.splits)
  have parsed: "parse_trusted_caller_context schema_ok v = Inr c"
    using v(1) assms(2,3) by (rule parse_serialize_context)
  have v_eq: "v = context_claims c @ [(''signature'', PStr (tc_signature c))]"
    using v(1) by (auto simp: serialize_trusted_caller_context_def Let_def bindE_eq_Inr)
  define bytes where "bytes = json_dumps frepr True (PDict (context_claims c))"
  have canon: "canonical_json frepr (PDict (map (\<lambda>field. (field, dict_get v field)) context_fields)) = Inr bytes"
    unfolding v_eq claims_lookup canonical_claims bytes_def ..
  show ?thesis
    using v(2) unfolding verify_wire_context_def parsed canon bytes_def [symmetric]
    by (auto simp: expects_def split: if_splits)
qed

text \<open>C21. What verifies is authentic and fresh: an accepted context names exactly the called tool and its
  fixed operation, the configured caller, audience, binding, organization and workspace (and issuer
  and subject when pinned), is inside its lifetime of at most five minutes, carries the SHA-256 of the
  canonical payload, and its signature is the HMAC of its thirteen claims under the binding's key.\<close>

theorem verified_context_sound:
  assumes "verify_typed_context frepr schema_ok meth op payload c key ex now"
    "datetime_ok (tc_issued_at c)" "datetime_ok (tc_expires_at c)"
  shows "tc_method c = meth \<and> tc_operation_id c = op \<and> expects ex c
    \<and> map_of TOOL_OPERATIONS meth = Some op \<and> length key = 32
    \<and> microseconds (tc_issued_at c) \<le> microseconds now + seconds 30
    \<and> microseconds now < microseconds (tc_expires_at c)
    \<and> microseconds (tc_expires_at c) - microseconds (tc_issued_at c) \<le> seconds 300
    \<and> payload_sha256 frepr payload = Inr (tc_payload_sha256 c)
    \<and> tc_signature c = hmac_sha256 key (json_dumps frepr True (PDict (context_claims c)))"
  using verify_typed_contextD [OF assms]
  unfolding MAX_FUTURE_SKEW_def MAX_CONTEXT_TTL_def CONTEXT_KEY_BYTES_def .

section \<open>The signed bytes determine the claims\<close>

fun scalar :: "pyval \<Rightarrow> bool" where
  "scalar (PStr s) = True"
| "scalar PNone = True"
| "scalar _ = False"

lemma scalar_prefix_free:
  assumes "scalar v" "scalar w" "json_dumps frepr srt v @ xs = json_dumps frepr srt w @ ys"
  shows "v = w \<and> xs = ys"
proof -
  have no: "json_string s @ xs \<noteq> ''null'' @ ys" for s xs ys by (simp add: json_string_def)
  show ?thesis
    using assms no by (cases v; cases w) (auto dest: json_string_prefix_free sym simp del: append_Cons)
qed

fun member_text :: "(rat \<Rightarrow> string) \<Rightarrow> string \<times> pyval \<Rightarrow> string" where
  "member_text frepr (k, v) = json_string k @ '':'' @ json_dumps frepr True v"

fun members_tail :: "(rat \<Rightarrow> string) \<Rightarrow> (string \<times> pyval) list \<Rightarrow> string" where
  "members_tail frepr [] = ''}''"
| "members_tail frepr (m # ms) = CHR '','' # member_text frepr m @ members_tail frepr ms"

lemma member_text_prefix_free:
  assumes "scalar (snd m)" "scalar (snd n)" "member_text frepr m @ xs = member_text frepr n @ ys"
  shows "m = n \<and> xs = ys"
proof (cases m; cases n)
  fix k v l w assume mn: "m = (k, v)" "n = (l, w)"
  with assms(3) have "json_string k @ (CHR '':'' # json_dumps frepr True v @ xs)
      = json_string l @ (CHR '':'' # json_dumps frepr True w @ ys)" by simp
  from json_string_prefix_free [OF this] have "k = l" "json_dumps frepr True v @ xs = json_dumps frepr True w @ ys"
    by simp_all
  with scalar_prefix_free [of v w frepr True xs ys] assms(1,2) mn show ?thesis by simp
qed

lemma members_tail_inj:
  assumes "members_tail frepr ms = members_tail frepr ns" "list_all (\<lambda>m. scalar (snd m)) ms" "list_all (\<lambda>m. scalar (snd m)) ns"
  shows "ms = ns"
  using assms
proof (induction ms arbitrary: ns)
  case Nil
  then show ?case by (cases ns) auto
next
  case (Cons m ms)
  then show ?case by (cases ns) (auto dest: member_text_prefix_free simp del: member_text.simps)
qed

lemma join_members_tail:
  "join_with '','' (map (member_text frepr) (m # ms)) @ ''}'' = member_text frepr m @ members_tail frepr ms"
  by (induction ms arbitrary: m) (auto simp del: member_text.simps)

lemma insort_key_map:
  assumes "\<And>p. fst (g p) = fst p"
  shows "insort_key fst (g x) (map g ys) = map g (insort_key fst x ys)"
  using assms by (induction ys) auto

lemma sort_key_map:
  assumes "\<And>p. fst (g p) = fst p"
  shows "sort_key fst (map g ys) = map g (sort_key fst ys)"
  using assms by (induction ys) (simp_all add: insort_key_map)

lemma sorted_members:
  "json_dumps frepr True (PDict d) = ''{'' @ join_with '','' (map (member_text frepr) (sort_key fst d)) @ ''}''"
proof -
  have "sort_key fst (map (\<lambda>(k, v). (k, json_dumps frepr True v)) d)
      = map (\<lambda>(k, v). (k, json_dumps frepr True v)) (sort_key fst d)"
    by (rule sort_key_map) (simp add: split_beta)
  moreover have "(\<lambda>(k, t). json_string k @ CHR '':'' # t) \<circ> (\<lambda>(k, v). (k, json_dumps frepr True v)) = member_text frepr"
    by (auto simp: fun_eq_iff)
  ultimately show ?thesis by (simp add: Let_def)
qed

lemma json_members_inj:
  assumes "json_dumps frepr True (PDict d) = json_dumps frepr True (PDict e)"
    "list_all (\<lambda>m. scalar (snd m)) d" "list_all (\<lambda>m. scalar (snd m)) e"
  shows "set d = set e"
proof -
  let ?d = "sort_key fst d" and ?e = "sort_key fst e"
  have sc: "list_all (\<lambda>m. scalar (snd m)) ?d" "list_all (\<lambda>m. scalar (snd m)) ?e"
    using assms(2,3) by (simp_all add: list_all_iff)
  have eq: "join_with '','' (map (member_text frepr) ?d) @ ''}'' = join_with '','' (map (member_text frepr) ?e) @ ''}''"
    using assms(1) by (simp add: sorted_members del: json_dumps.simps)
  have start: "member_text frepr m @ xs \<noteq> ''}''" for m xs by (cases m) (simp add: json_string_def)
  have "?d = ?e"
  proof (cases ?d; cases ?e)
    fix m ms n ns assume mn: "?d = m # ms" "?e = n # ns"
    with eq have "member_text frepr m @ members_tail frepr ms = member_text frepr n @ members_tail frepr ns"
      by (simp only: join_members_tail)
    moreover from mn sc have "scalar (snd m)" "scalar (snd n)" by simp_all
    ultimately have "m = n" "members_tail frepr ms = members_tail frepr ns"
      using member_text_prefix_free by blast+
    with mn sc show ?thesis using members_tail_inj by auto
  next
    fix m ms assume "?d = m # ms" "?e = []"
    with eq start [of m "members_tail frepr ms"] show ?thesis using join_members_tail [of frepr m ms] by simp
  next
    fix n ns assume "?d = []" "?e = n # ns"
    with eq start [of n "members_tail frepr ns"] show ?thesis using join_members_tail [of frepr n ns] by simp
  qed simp
  then show ?thesis by (metis set_sort)
qed

lemma claims_scalar: "list_all (\<lambda>m. scalar (snd m)) (context_claims c)"
  by (simp add: context_claims_def opt_str_def split: option.split)

lemma serialize_timestamp_inj:
  assumes "serialize_timestamp s = serialize_timestamp t" "datetime_ok s" "datetime_ok t"
  shows "s = t"
  by (metis assms parse_serialize_timestamp sum.inject(2))

lemma opt_str_inj: "opt_str v = opt_str w \<longleftrightarrow> v = w"
  by (simp add: opt_str_def split: option.split)

text \<open>The bytes under the signature determine every claim: two contexts with valid time stamps whose
  canonical claim bytes coincide agree on method, operation, workload, audience, issuer, subject,
  organization, workspace, binding, request, both times and the payload digest.\<close>

theorem signed_bytes_determine_claims:
  assumes eq: "json_dumps frepr True (PDict (context_claims c)) = json_dumps frepr True (PDict (context_claims d))"
    and ok: "datetime_ok (tc_issued_at c)" "datetime_ok (tc_expires_at c)"
      "datetime_ok (tc_issued_at d)" "datetime_ok (tc_expires_at d)"
  shows "c\<lparr>tc_signature := tc_signature d\<rparr> = d"
proof -
  have "set (context_claims c) = set (context_claims d)"
    using eq claims_scalar claims_scalar by (rule json_members_inj)
  moreover have "distinct (map fst (context_claims c))" "distinct (map fst (context_claims d))"
    by (simp_all add: context_claims_def)
  ultimately have "map_of (context_claims c) = map_of (context_claims d)" by (metis map_of_inject_set)
  then have look: "map_of (context_claims c) k = map_of (context_claims d) k" for k by simp
  note fields = look [of "''method''"] look [of "''operation_id''"] look [of "''caller_workload''"]
    look [of "''audience''"] look [of "''issuer''"] look [of "''subject''"] look [of "''organization_id''"]
    look [of "''workspace_id''"] look [of "''binding_id''"] look [of "''request_id''"] look [of "''issued_at''"]
    look [of "''expires_at''"] look [of "''payload_sha256''"]
  show ?thesis
    using fields ok by (auto simp: context_claims_def opt_str_inj dest: serialize_timestamp_inj intro!: trusted_context.equality)
qed

section \<open>Witnesses\<close>

definition sample_request :: trusted_context where
  "sample_request =
    \<lparr>tc_method = ''email_notification_send'', tc_operation_id = ''email.notification.send'',
     tc_caller_workload = ''agent'', tc_audience = ''email'', tc_issuer = ''hub'', tc_subject = ''alice'',
     tc_organization_id = ''org'', tc_workspace_id = None, tc_binding_id = ''b1'', tc_request_id = ''r1'',
     tc_issued_at = \<lparr>dt_year = 2025, dt_month = 1, dt_day = 31, dt_hour = 23, dt_minute = 59, dt_second = 30, dt_microsecond = 0\<rparr>,
     tc_expires_at = \<lparr>dt_year = 2025, dt_month = 2, dt_day = 1, dt_hour = 0, dt_minute = 4, dt_second = 30, dt_microsecond = 0\<rparr>,
     tc_payload_sha256 = [], tc_signature = []\<rparr>"

definition sample_now :: datetime where
  "sample_now = \<lparr>dt_year = 2025, dt_month = 2, dt_day = 1, dt_hour = 0, dt_minute = 4, dt_second = 29, dt_microsecond = 999999\<rparr>"

definition sample_key :: bytes where
  "sample_key = replicate 32 CHR ''k''"

definition sample_caller :: expected_caller where
  "sample_caller =
    \<lparr>ex_caller_workload = ''agent'', ex_audience = ''email'', ex_binding_id = ''b1'', ex_organization_id = ''org'',
     ex_workspace_id = None, ex_issuer = Some ''hub'', ex_subject = None\<rparr>"

lemma sample_times:
  "microseconds (tc_issued_at sample_request) = microseconds sample_now - 299999999"
  "microseconds (tc_expires_at sample_request) = microseconds sample_now + 1"
  by (simp_all add: sample_request_def sample_now_def microseconds_def toordinal_def month_lengths_def is_leap_def Let_def)

lemma sample_times_ok: "datetime_ok (tc_issued_at sample_request)" "datetime_ok (tc_expires_at sample_request)"
  by (simp_all add: sample_request_def datetime_ok_def days_in_month_def month_lengths_def is_leap_def)

lemma sample_bounds:
  "list_ex (\<lambda>(v, maximum). v = [] \<or> py_len v > maximum) (claim_bounds sample_request) = False"
  by code_simp

lemma sample_operation: "map_of TOOL_OPERATIONS (tc_method sample_request) = Some (tc_operation_id sample_request)"
  by code_simp

text \<open>A request signed for a payload digest.\<close>

definition signed_sample :: "trusted_context \<Rightarrow> string \<Rightarrow> trusted_context" where
  "signed_sample request digest =
    (let c = request\<lparr>tc_payload_sha256 := digest\<rparr> in
     c\<lparr>tc_signature := hmac_sha256 sample_key (json_dumps (\<lambda>_. ''0'') True (PDict (context_claims c)))\<rparr>)"

abbreviation sample_context :: "string \<Rightarrow> trusted_context" where
  "sample_context \<equiv> signed_sample sample_request"

abbreviation wire_of :: "trusted_context \<Rightarrow> pydict" where
  "wire_of c \<equiv> context_claims c @ [(''signature'', PStr (tc_signature c))]"

lemma sample_fields:
  "tc_issued_at (sample_context d) = tc_issued_at sample_request" "tc_expires_at (sample_context d) = tc_expires_at sample_request"
  "expects sample_caller (sample_context d)" "tc_method (sample_context d) = ''email_notification_send''"
  "tc_operation_id (sample_context d) = ''email.notification.send''"
  by (simp_all add: signed_sample_def Let_def sample_request_def sample_caller_def expects_def pinned_def)

lemma sample_digest: "payload_sha256 (\<lambda>_. ''0'') (PDict []) = Inr (sha256 ''{}'')"
  by (simp add: payload_sha256_def canonical_json_def normalize_json_def)

lemma claims_normal: "normalize_json (PDict (context_claims c @ [(k, PStr s)])) = Inr (PDict (context_claims c @ [(k, PStr s)]))"
  by (simp add: normalize_json_def context_claims_def opt_str_def split: option.split)

lemma wire_context: "serialize_trusted_caller_context (\<lambda>_ _. True) c = Inr (wire_of c)"
  by (simp add: serialize_trusted_caller_context_def validate_schema_def claims_normal raise_if_def)

lemma signed_sample_signed:
  assumes "payload_sha256 (\<lambda>_. ''0'') payload = Inr d" "signing_claims request = Inr (context_claims request)"
    "tc_issued_at request = tc_issued_at sample_request" "tc_expires_at request = tc_expires_at sample_request"
  shows "sign_context (\<lambda>_. ''0'') (\<lambda>_ _. True) sample_key sample_now request payload = Inr (signed_sample request d)"
proof -
  have "length sample_key = CONTEXT_KEY_BYTES" by (simp add: sample_key_def CONTEXT_KEY_BYTES_def)
  moreover have "claim_bounds (request\<lparr>tc_payload_sha256 := d\<rparr>) = claim_bounds request"
    by (simp add: claim_bounds_def)
  then have "signing_claims (request\<lparr>tc_payload_sha256 := d\<rparr>) = Inr (context_claims (request\<lparr>tc_payload_sha256 := d\<rparr>))"
    using assms(2) by (auto simp: signing_claims_def bindE_eq_Inr)
  ultimately show ?thesis
    unfolding sign_context_def Let_def assms(1) signed_sample_def
    by (simp add: assms(3,4) sample_times wire_context canonical_claims MAX_FUTURE_SKEW_def MAX_CONTEXT_TTL_def seconds_def
        del: json_dumps.simps)
qed

lemma signed_sample_verifies:
  assumes "payload_sha256 (\<lambda>_. ''0'') payload = Inr d" "signing_claims request = Inr (context_claims request)"
    "tc_issued_at request = tc_issued_at sample_request" "tc_expires_at request = tc_expires_at sample_request"
    "expects ex (signed_sample request d)" "nonempty_opt (ex_workspace_id ex)" "nonempty_opt (ex_issuer ex)" "nonempty_opt (ex_subject ex)"
  shows "verify_wire_context (\<lambda>_. ''0'') (\<lambda>_ _. True) (tc_method request) (tc_operation_id request) payload
    (wire_of (signed_sample request d)) sample_key ex sample_now"
proof -
  have "tc_method (signed_sample request d) = tc_method request" "tc_operation_id (signed_sample request d) = tc_operation_id request"
    "tc_issued_at (signed_sample request d) = tc_issued_at request" "tc_expires_at (signed_sample request d) = tc_expires_at request"
    by (simp_all add: signed_sample_def Let_def)
  then show ?thesis
    using sign_context_verifies [OF signed_sample_signed [OF assms(1-4)] _ _ assms(5), of sample_now] sample_times_ok assms(3,4,6-8)
    by (simp add: sample_times seconds_def verify_typed_context_def wire_context MAX_FUTURE_SKEW_def)
qed

lemma sample_signing_claims: "signing_claims sample_request = Inr (context_claims sample_request)"
proof -
  have "tc_workspace_id sample_request = None" by (simp add: sample_request_def)
  then show ?thesis by (simp add: signing_claims_def sample_bounds sample_operation raise_if_def)
qed

lemma sample_signed:
  assumes "payload_sha256 (\<lambda>_. ''0'') payload = Inr d"
  shows "sign_context (\<lambda>_. ''0'') (\<lambda>_ _. True) sample_key sample_now sample_request payload = Inr (sample_context d)"
  using assms sample_signing_claims by (rule signed_sample_signed) simp_all

lemma signed_context_verifies_witness:
  "verify_typed_context (\<lambda>_. ''0'') (\<lambda>_ _. True) ''email_notification_send'' ''email.notification.send''
     (PDict []) (sample_context (sha256 ''{}'')) sample_key sample_caller sample_now"
  using signed_context_verifies [OF sample_signed [OF sample_digest] sample_times_ok sample_fields(3), of sample_now]
  by (simp add: sample_fields sample_times sample_caller_def nonempty_opt_def seconds_def)

lemma sample_verified:
  assumes "payload_sha256 (\<lambda>_. ''0'') payload = Inr d"
  shows "verify_typed_context (\<lambda>_. ''0'') (\<lambda>_ _. True) ''email_notification_send'' ''email.notification.send''
     payload (sample_context d) sample_key sample_caller sample_now"
  using sign_context_verifies [OF sample_signed [OF assms] sample_times_ok sample_fields(3), of sample_now]
  by (simp add: sample_fields sample_times sample_caller_def nonempty_opt_def MAX_FUTURE_SKEW_def seconds_def)

lemma verified_context_sound_witness:
  "payload_sha256 (\<lambda>_. ''0'') (PDict []) = Inr (tc_payload_sha256 (sample_context (sha256 ''{}'')))
   \<and> tc_signature (sample_context (sha256 ''{}''))
       = hmac_sha256 sample_key (json_dumps (\<lambda>_. ''0'') True (PDict (context_claims (sample_context (sha256 ''{}'')))))"
  using verified_context_sound [OF sample_verified [OF sample_digest]] sample_times_ok by (simp add: sample_fields)

lemma signed_bytes_determine_claims_witness:
  "(sample_context (sha256 ''{}''))\<lparr>tc_signature := []\<rparr> = sample_request\<lparr>tc_payload_sha256 := sha256 ''{}''\<rparr>"
  using signed_bytes_determine_claims
    [of "\<lambda>_. ''0''" "sample_context (sha256 ''{}'')" "sample_request\<lparr>tc_payload_sha256 := sha256 ''{}''\<rparr>"] sample_times_ok
  by (simp add: signed_sample_def Let_def sample_request_def)

end
