(* ===== verification/Contract_Codecs.thy ===== *)
theory Contract_Codecs
  imports Caller_Context_Props
begin

text \<open>
  The typed DTOs of \<open>cyrene_integration_contracts/contracts.py\<close> and their wire codecs: authorization
  health, renewal sessions, cloud observations, email submissions, tool arguments and the signed tool
  envelope.  A frozen dataclass is a record, a \<open>StrEnum\<close> a datatype with its wire values.  A JSON
  number the code only passes through is kept as the JSON value.

  The locale \<open>wire_codec\<close> is the contract of a parse/serialize pair; it is proved once that such a
  pair lifts to lists, and each DTO interprets it.
\<close>

section \<open>Enumerations\<close>

datatype login_state = LoginPresent | LoginMissing | LoginUnknown | LoginUnavailable

datatype authorization_state =
  AuthValid | AuthReauthorizationRequired | AuthPermissionDenied | AuthUnknown | AuthUnavailable

datatype renewal_state =
  RenewalWaitingUser | RenewalVerifying | RenewalSucceeded | RenewalFailed | RenewalExpired | RenewalCancelled

datatype cloud_resource_kind = AzureVm | GcpInstance | HfModel | HfDataset | HfSpace | RunpodPod | TailscaleDevice

datatype cloud_resource_state =
  ResourceRunning | ResourceStopped | ResourceAvailable | ResourceUnavailable | ResourceDegraded | ResourceUnknown

datatype email_submission_status = SubmissionAccepted | SubmissionUnknown | SubmissionRejected

fun login_value :: "login_state \<Rightarrow> string" where
  "login_value LoginPresent = ''PRESENT''"
| "login_value LoginMissing = ''MISSING''"
| "login_value LoginUnknown = ''UNKNOWN''"
| "login_value LoginUnavailable = ''UNAVAILABLE''"

fun authorization_value :: "authorization_state \<Rightarrow> string" where
  "authorization_value AuthValid = ''VALID''"
| "authorization_value AuthReauthorizationRequired = ''REAUTHORIZATION_REQUIRED''"
| "authorization_value AuthPermissionDenied = ''PERMISSION_DENIED''"
| "authorization_value AuthUnknown = ''UNKNOWN''"
| "authorization_value AuthUnavailable = ''UNAVAILABLE''"

fun renewal_value :: "renewal_state \<Rightarrow> string" where
  "renewal_value RenewalWaitingUser = ''WAITING_USER''"
| "renewal_value RenewalVerifying = ''VERIFYING''"
| "renewal_value RenewalSucceeded = ''SUCCEEDED''"
| "renewal_value RenewalFailed = ''FAILED''"
| "renewal_value RenewalExpired = ''EXPIRED''"
| "renewal_value RenewalCancelled = ''CANCELLED''"

fun resource_kind_value :: "cloud_resource_kind \<Rightarrow> string" where
  "resource_kind_value AzureVm = ''azure.vm''"
| "resource_kind_value GcpInstance = ''gcp.instance''"
| "resource_kind_value HfModel = ''hf.model''"
| "resource_kind_value HfDataset = ''hf.dataset''"
| "resource_kind_value HfSpace = ''hf.space''"
| "resource_kind_value RunpodPod = ''runpod.pod''"
| "resource_kind_value TailscaleDevice = ''tailscale.device''"

fun resource_state_value :: "cloud_resource_state \<Rightarrow> string" where
  "resource_state_value ResourceRunning = ''RUNNING''"
| "resource_state_value ResourceStopped = ''STOPPED''"
| "resource_state_value ResourceAvailable = ''AVAILABLE''"
| "resource_state_value ResourceUnavailable = ''UNAVAILABLE''"
| "resource_state_value ResourceDegraded = ''DEGRADED''"
| "resource_state_value ResourceUnknown = ''UNKNOWN''"

fun submission_value :: "email_submission_status \<Rightarrow> string" where
  "submission_value SubmissionAccepted = ''ACCEPTED''"
| "submission_value SubmissionUnknown = ''UNKNOWN''"
| "submission_value SubmissionRejected = ''REJECTED''"

definition login_states :: "login_state list" where
  "login_states = [LoginPresent, LoginMissing, LoginUnknown, LoginUnavailable]"

definition authorization_states :: "authorization_state list" where
  "authorization_states = [AuthValid, AuthReauthorizationRequired, AuthPermissionDenied, AuthUnknown, AuthUnavailable]"

definition renewal_states :: "renewal_state list" where
  "renewal_states =
    [RenewalWaitingUser, RenewalVerifying, RenewalSucceeded, RenewalFailed, RenewalExpired, RenewalCancelled]"

definition resource_kinds :: "cloud_resource_kind list" where
  "resource_kinds = [AzureVm, GcpInstance, HfModel, HfDataset, HfSpace, RunpodPod, TailscaleDevice]"

definition resource_states :: "cloud_resource_state list" where
  "resource_states =
    [ResourceRunning, ResourceStopped, ResourceAvailable, ResourceUnavailable, ResourceDegraded, ResourceUnknown]"

definition submission_statuses :: "email_submission_status list" where
  "submission_statuses = [SubmissionAccepted, SubmissionUnknown, SubmissionRejected]"

text \<open>\<open>_enum(EnumType, value)\<close>: the member with that wire value.\<close>

definition enum_of :: "('a \<Rightarrow> string) \<Rightarrow> 'a list \<Rightarrow> pyval \<Rightarrow> contract_error + 'a" where
  "enum_of val members v =
    (case v of
       PStr s \<Rightarrow> (case find (\<lambda>x. val x = s) members of None \<Rightarrow> Inl ContractValueError | Some x \<Rightarrow> Inr x)
     | _ \<Rightarrow> Inl ContractValueError)"

lemma enum_values [simp]:
  "enum_of login_value login_states (PStr (login_value a)) = Inr a"
  "enum_of authorization_value authorization_states (PStr (authorization_value b)) = Inr b"
  "enum_of renewal_value renewal_states (PStr (renewal_value c)) = Inr c"
  "enum_of resource_kind_value resource_kinds (PStr (resource_kind_value d)) = Inr d"
  "enum_of resource_state_value resource_states (PStr (resource_state_value e)) = Inr e"
  "enum_of submission_value submission_statuses (PStr (submission_value f)) = Inr f"
  subgoal by (cases a) (simp_all add: enum_of_def login_states_def)
  subgoal by (cases b) (simp_all add: enum_of_def authorization_states_def)
  subgoal by (cases c) (simp_all add: enum_of_def renewal_states_def)
  subgoal by (cases d) (simp_all add: enum_of_def resource_kinds_def)
  subgoal by (cases e) (simp_all add: enum_of_def resource_states_def)
  subgoal by (cases f) (simp_all add: enum_of_def submission_statuses_def)
  done

section \<open>Data\<close>

record capability_authorization_health =
  ca_capability_id :: string
  ca_state :: authorization_state
  ca_last_verified_at :: "datetime option"
  ca_expires_at :: "datetime option"
  ca_reason_code :: "string option"

record authorization_health =
  ah_schema_version :: pyval
  ah_authorization_ref :: string
  ah_login_state :: login_state
  ah_authorization_state :: authorization_state
  ah_checked_at :: datetime
  ah_expires_at :: "datetime option"
  ah_generation :: pyval
  ah_capabilities :: "capability_authorization_health list"

record renewal_session =
  rs_session_ref :: string
  rs_authorization_ref :: string
  rs_state :: renewal_state
  rs_created_at :: datetime
  rs_expires_at :: "datetime option"
  rs_authorization_url :: "string option"
  rs_qr_attachment_ref :: "string option"
  rs_generation :: pyval

record cloud_observation =
  co_external_ref :: string
  co_kind :: cloud_resource_kind
  co_display_name :: string
  co_status :: cloud_resource_state
  co_provider_status :: "string option"
  co_collected_at :: datetime
  co_observed_at :: "datetime option"
  co_attributes :: pydict
  co_platform_resource_ref :: "string option"
  co_platform_generation :: pyval

record cloud_query_result =
  cq_provider :: string
  cq_checked_at :: datetime
  cq_resources :: "cloud_observation list"

record email_submission =
  em_request_ref :: string
  em_status :: email_submission_status
  em_vendor_receipt_ref :: "string option"
  em_delivery_confirmed :: bool

record wecom_authorization_health_arguments =
  wh_authorization_ref :: string

record wecom_reauthorization_start_arguments =
  ws_authorization_ref :: string

record wecom_reauthorization_status_arguments =
  wt_session_ref :: string

record cloud_resources_query_arguments =
  cr_target_ref :: string

record cloud_authorization_health_arguments =
  ch_target_ref :: string

record email_notification_send_arguments =
  es_recipient_ref :: string
  es_subject :: string
  es_text :: string
  es_request_ref :: string

record tool_envelope =
  te_caller_context :: trusted_context
  te_arguments :: pydict

section \<open>Fields\<close>

definition dict_field :: "pydict \<Rightarrow> string \<Rightarrow> contract_error + pydict" where
  "dict_field d k = bindE (get_field d k) (\<lambda>v. case v of PDict x \<Rightarrow> Inr x | _ \<Rightarrow> Inl ContractTypeError)"

definition list_field :: "pydict \<Rightarrow> string \<Rightarrow> contract_error + pyval list" where
  "list_field d k = bindE (get_field d k) (\<lambda>v. case v of PList xs \<Rightarrow> Inr xs | _ \<Rightarrow> Inl ContractTypeError)"

definition bool_field :: "pydict \<Rightarrow> string \<Rightarrow> contract_error + bool" where
  "bool_field d k = bindE (get_field d k) (\<lambda>v. case v of PBool b \<Rightarrow> Inr b | _ \<Rightarrow> Inl ContractTypeError)"

definition dict_item :: "pyval \<Rightarrow> contract_error + pydict" where
  "dict_item v = (case v of PDict d \<Rightarrow> Inr d | _ \<Rightarrow> Inl ContractTypeError)"

definition time_field :: "pydict \<Rightarrow> string \<Rightarrow> contract_error + datetime" where
  "time_field d k =
    bindE (get_field d k) (\<lambda>v. case v of PStr s \<Rightarrow> parse_timestamp s | _ \<Rightarrow> Inl ContractValueError)"

definition opt_time_field :: "pydict \<Rightarrow> string \<Rightarrow> contract_error + datetime option" where
  "opt_time_field d k =
    bindE (get_field d k) (\<lambda>v.
      if v = PNone then Inr None
      else bindE (case v of PStr s \<Rightarrow> parse_timestamp s | _ \<Rightarrow> Inl ContractValueError) (\<lambda>t. Inr (Some t)))"

definition opt_time :: "datetime option \<Rightarrow> pyval" where
  "opt_time v = (case v of None \<Rightarrow> PNone | Some t \<Rightarrow> PStr (serialize_timestamp t))"

section \<open>Codecs\<close>

text \<open>\<open>validate_schema(name, result); return result\<close>.\<close>

definition validated :: "schema_check \<Rightarrow> string \<Rightarrow> pydict \<Rightarrow> contract_error + pydict" where
  "validated schema_ok name d = bindE (validate_schema schema_ok name (PDict d)) (\<lambda>_. Inr d)"

definition parse_capability_authorization_health ::
    "schema_check \<Rightarrow> pydict \<Rightarrow> contract_error + capability_authorization_health" where
  "parse_capability_authorization_health schema_ok v =
    bindE (validate_schema schema_ok ''CapabilityAuthorizationHealth'' (PDict v)) (\<lambda>_.
    bindE (str_field v ''capability_id'') (\<lambda>capability_id.
    bindE (bindE (get_field v ''state'') (enum_of authorization_value authorization_states)) (\<lambda>state.
    bindE (opt_time_field v ''last_verified_at'') (\<lambda>last_verified_at.
    bindE (opt_time_field v ''expires_at'') (\<lambda>expires_at.
    bindE (opt_str_field v ''reason_code'') (\<lambda>reason_code.
      Inr \<lparr>ca_capability_id = capability_id, ca_state = state, ca_last_verified_at = last_verified_at,
           ca_expires_at = expires_at, ca_reason_code = reason_code\<rparr>))))))"

definition serialize_capability_authorization_health ::
    "schema_check \<Rightarrow> capability_authorization_health \<Rightarrow> contract_error + pydict" where
  "serialize_capability_authorization_health schema_ok c =
    validated schema_ok ''CapabilityAuthorizationHealth''
      [(''capability_id'', PStr (ca_capability_id c)), (''state'', PStr (authorization_value (ca_state c))),
       (''last_verified_at'', opt_time (ca_last_verified_at c)), (''expires_at'', opt_time (ca_expires_at c)),
       (''reason_code'', opt_str (ca_reason_code c))]"

definition parse_authorization_health :: "schema_check \<Rightarrow> pydict \<Rightarrow> contract_error + authorization_health" where
  "parse_authorization_health schema_ok v =
    bindE (validate_schema schema_ok ''AuthorizationHealth'' (PDict v)) (\<lambda>_.
    bindE (get_field v ''schema_version'') (\<lambda>schema_version.
    bindE (str_field v ''authorization_ref'') (\<lambda>authorization_ref.
    bindE (bindE (get_field v ''login_state'') (enum_of login_value login_states)) (\<lambda>login_state.
    bindE (bindE (get_field v ''authorization_state'') (enum_of authorization_value authorization_states)) (\<lambda>state.
    bindE (time_field v ''checked_at'') (\<lambda>checked_at.
    bindE (opt_time_field v ''expires_at'') (\<lambda>expires_at.
    bindE (get_field v ''generation'') (\<lambda>generation.
    bindE (list_field v ''capabilities'') (\<lambda>items.
    bindE (mapE (\<lambda>item. bindE (dict_item item) (parse_capability_authorization_health schema_ok)) items) (\<lambda>capabilities.
      Inr \<lparr>ah_schema_version = schema_version, ah_authorization_ref = authorization_ref,
           ah_login_state = login_state, ah_authorization_state = state, ah_checked_at = checked_at,
           ah_expires_at = expires_at, ah_generation = generation, ah_capabilities = capabilities\<rparr>))))))))))"

definition serialize_authorization_health :: "schema_check \<Rightarrow> authorization_health \<Rightarrow> contract_error + pydict" where
  "serialize_authorization_health schema_ok h =
    bindE (mapE (\<lambda>c. bindE (serialize_capability_authorization_health schema_ok c) (\<lambda>d. Inr (PDict d)))
             (ah_capabilities h)) (\<lambda>capabilities.
    validated schema_ok ''AuthorizationHealth''
      [(''schema_version'', ah_schema_version h), (''authorization_ref'', PStr (ah_authorization_ref h)),
       (''login_state'', PStr (login_value (ah_login_state h))),
       (''authorization_state'', PStr (authorization_value (ah_authorization_state h))),
       (''checked_at'', PStr (serialize_timestamp (ah_checked_at h))), (''expires_at'', opt_time (ah_expires_at h)),
       (''generation'', ah_generation h), (''capabilities'', PList capabilities)])"

definition parse_renewal_session :: "schema_check \<Rightarrow> pydict \<Rightarrow> contract_error + renewal_session" where
  "parse_renewal_session schema_ok v =
    bindE (validate_schema schema_ok ''RenewalSession'' (PDict v)) (\<lambda>_.
    bindE (str_field v ''session_ref'') (\<lambda>session_ref.
    bindE (str_field v ''authorization_ref'') (\<lambda>authorization_ref.
    bindE (bindE (get_field v ''state'') (enum_of renewal_value renewal_states)) (\<lambda>state.
    bindE (time_field v ''created_at'') (\<lambda>created_at.
    bindE (opt_time_field v ''expires_at'') (\<lambda>expires_at.
    bindE (opt_str_field v ''authorization_url'') (\<lambda>authorization_url.
    bindE (opt_str_field v ''qr_attachment_ref'') (\<lambda>qr_attachment_ref.
    bindE (get_field v ''generation'') (\<lambda>generation.
      Inr \<lparr>rs_session_ref = session_ref, rs_authorization_ref = authorization_ref, rs_state = state,
           rs_created_at = created_at, rs_expires_at = expires_at, rs_authorization_url = authorization_url,
           rs_qr_attachment_ref = qr_attachment_ref, rs_generation = generation\<rparr>)))))))))"

definition serialize_renewal_session :: "schema_check \<Rightarrow> renewal_session \<Rightarrow> contract_error + pydict" where
  "serialize_renewal_session schema_ok r =
    validated schema_ok ''RenewalSession''
      [(''session_ref'', PStr (rs_session_ref r)), (''authorization_ref'', PStr (rs_authorization_ref r)),
       (''state'', PStr (renewal_value (rs_state r))), (''created_at'', PStr (serialize_timestamp (rs_created_at r))),
       (''expires_at'', opt_time (rs_expires_at r)), (''authorization_url'', opt_str (rs_authorization_url r)),
       (''qr_attachment_ref'', opt_str (rs_qr_attachment_ref r)), (''generation'', rs_generation r)]"

definition finite_attribute :: "pyval \<Rightarrow> bool" where
  "finite_attribute v = (case v of PFloat f \<Rightarrow> (case f of Fin _ \<Rightarrow> True | _ \<Rightarrow> False) | _ \<Rightarrow> True)"

definition parse_cloud_observation :: "schema_check \<Rightarrow> pydict \<Rightarrow> contract_error + cloud_observation" where
  "parse_cloud_observation schema_ok v =
    bindE (validate_schema schema_ok ''CloudObservation'' (PDict v)) (\<lambda>_.
    bindE (dict_field v ''attributes'') (\<lambda>attributes.
    bindE (raise_if (list_ex (\<lambda>(k, item). \<not> finite_attribute item) attributes) ContractValueError) (\<lambda>_.
    bindE (str_field v ''external_ref'') (\<lambda>external_ref.
    bindE (bindE (get_field v ''kind'') (enum_of resource_kind_value resource_kinds)) (\<lambda>kind.
    bindE (str_field v ''display_name'') (\<lambda>display_name.
    bindE (bindE (get_field v ''status'') (enum_of resource_state_value resource_states)) (\<lambda>status.
    bindE (opt_str_field v ''provider_status'') (\<lambda>provider_status.
    bindE (time_field v ''collected_at'') (\<lambda>collected_at.
    bindE (opt_time_field v ''observed_at'') (\<lambda>observed_at.
    bindE (opt_str_field v ''platform_resource_ref'') (\<lambda>platform_resource_ref.
    bindE (get_field v ''platform_generation'') (\<lambda>platform_generation.
      Inr \<lparr>co_external_ref = external_ref, co_kind = kind, co_display_name = display_name, co_status = status,
           co_provider_status = provider_status, co_collected_at = collected_at, co_observed_at = observed_at,
           co_attributes = attributes, co_platform_resource_ref = platform_resource_ref,
           co_platform_generation = platform_generation\<rparr>))))))))))))"

definition serialize_cloud_observation :: "schema_check \<Rightarrow> cloud_observation \<Rightarrow> contract_error + pydict" where
  "serialize_cloud_observation schema_ok c =
    validated schema_ok ''CloudObservation''
      [(''external_ref'', PStr (co_external_ref c)), (''kind'', PStr (resource_kind_value (co_kind c))),
       (''display_name'', PStr (co_display_name c)), (''status'', PStr (resource_state_value (co_status c))),
       (''provider_status'', opt_str (co_provider_status c)),
       (''collected_at'', PStr (serialize_timestamp (co_collected_at c))),
       (''observed_at'', opt_time (co_observed_at c)), (''attributes'', PDict (co_attributes c)),
       (''platform_resource_ref'', opt_str (co_platform_resource_ref c)),
       (''platform_generation'', co_platform_generation c)]"

definition parse_cloud_query_result :: "schema_check \<Rightarrow> pydict \<Rightarrow> contract_error + cloud_query_result" where
  "parse_cloud_query_result schema_ok v =
    bindE (validate_schema schema_ok ''CloudQueryResult'' (PDict v)) (\<lambda>_.
    bindE (str_field v ''provider'') (\<lambda>provider.
    bindE (time_field v ''checked_at'') (\<lambda>checked_at.
    bindE (list_field v ''resources'') (\<lambda>items.
    bindE (mapE (\<lambda>item. bindE (dict_item item) (parse_cloud_observation schema_ok)) items) (\<lambda>resources.
      Inr \<lparr>cq_provider = provider, cq_checked_at = checked_at, cq_resources = resources\<rparr>)))))"

definition serialize_cloud_query_result :: "schema_check \<Rightarrow> cloud_query_result \<Rightarrow> contract_error + pydict" where
  "serialize_cloud_query_result schema_ok q =
    bindE (mapE (\<lambda>c. bindE (serialize_cloud_observation schema_ok c) (\<lambda>d. Inr (PDict d))) (cq_resources q)) (\<lambda>resources.
    validated schema_ok ''CloudQueryResult''
      [(''provider'', PStr (cq_provider q)), (''checked_at'', PStr (serialize_timestamp (cq_checked_at q))),
       (''resources'', PList resources)])"

definition parse_email_submission :: "schema_check \<Rightarrow> pydict \<Rightarrow> contract_error + email_submission" where
  "parse_email_submission schema_ok v =
    bindE (validate_schema schema_ok ''EmailSubmission'' (PDict v)) (\<lambda>_.
    bindE (str_field v ''request_ref'') (\<lambda>ref.
    bindE (bindE (get_field v ''status'') (enum_of submission_value submission_statuses)) (\<lambda>status.
    bindE (opt_str_field v ''vendor_receipt_ref'') (\<lambda>receipt.
    bindE (bool_field v ''delivery_confirmed'') (\<lambda>confirmed.
      Inr \<lparr>em_request_ref = ref, em_status = status, em_vendor_receipt_ref = receipt,
           em_delivery_confirmed = confirmed\<rparr>)))))"

definition submission_fields :: "email_submission \<Rightarrow> pydict" where
  "submission_fields s =
    [(''request_ref'', PStr (em_request_ref s)), (''status'', PStr (submission_value (em_status s))),
     (''vendor_receipt_ref'', opt_str (em_vendor_receipt_ref s)),
     (''delivery_confirmed'', PBool (em_delivery_confirmed s))]"

definition serialize_email_submission :: "schema_check \<Rightarrow> email_submission \<Rightarrow> contract_error + pydict" where
  "serialize_email_submission schema_ok s = validated schema_ok ''EmailSubmission'' (submission_fields s)"

section \<open>Tool arguments and the signed envelope\<close>

text \<open>\<open>_parse_argument(name, value, cls)\<close>: \<open>cls(**dict(value))\<close> takes exactly its fields.\<close>

definition parse_argument :: "schema_check \<Rightarrow> string \<Rightarrow> string list \<Rightarrow> pydict \<Rightarrow> contract_error + unit" where
  "parse_argument schema_ok name field_names v =
    bindE (validate_schema schema_ok name (PDict v)) (\<lambda>_. raise_if (\<not> same_keys v field_names) ContractTypeError)"

definition parse_wecom_authorization_health_arguments ::
    "schema_check \<Rightarrow> pydict \<Rightarrow> contract_error + wecom_authorization_health_arguments" where
  "parse_wecom_authorization_health_arguments schema_ok v =
    bindE (parse_argument schema_ok ''WeComAuthorizationHealthArguments'' [''authorization_ref''] v) (\<lambda>_.
    bindE (str_field v ''authorization_ref'') (\<lambda>ref. Inr \<lparr>wh_authorization_ref = ref\<rparr>))"

definition serialize_wecom_authorization_health_arguments ::
    "schema_check \<Rightarrow> wecom_authorization_health_arguments \<Rightarrow> contract_error + pydict" where
  "serialize_wecom_authorization_health_arguments schema_ok a =
    validated schema_ok ''WeComAuthorizationHealthArguments'' [(''authorization_ref'', PStr (wh_authorization_ref a))]"

definition parse_wecom_reauthorization_start_arguments ::
    "schema_check \<Rightarrow> pydict \<Rightarrow> contract_error + wecom_reauthorization_start_arguments" where
  "parse_wecom_reauthorization_start_arguments schema_ok v =
    bindE (parse_argument schema_ok ''WeComReauthorizationStartArguments'' [''authorization_ref''] v) (\<lambda>_.
    bindE (str_field v ''authorization_ref'') (\<lambda>ref. Inr \<lparr>ws_authorization_ref = ref\<rparr>))"

definition serialize_wecom_reauthorization_start_arguments ::
    "schema_check \<Rightarrow> wecom_reauthorization_start_arguments \<Rightarrow> contract_error + pydict" where
  "serialize_wecom_reauthorization_start_arguments schema_ok a =
    validated schema_ok ''WeComReauthorizationStartArguments'' [(''authorization_ref'', PStr (ws_authorization_ref a))]"

definition parse_wecom_reauthorization_status_arguments ::
    "schema_check \<Rightarrow> pydict \<Rightarrow> contract_error + wecom_reauthorization_status_arguments" where
  "parse_wecom_reauthorization_status_arguments schema_ok v =
    bindE (parse_argument schema_ok ''WeComReauthorizationStatusArguments'' [''session_ref''] v) (\<lambda>_.
    bindE (str_field v ''session_ref'') (\<lambda>ref. Inr \<lparr>wt_session_ref = ref\<rparr>))"

definition serialize_wecom_reauthorization_status_arguments ::
    "schema_check \<Rightarrow> wecom_reauthorization_status_arguments \<Rightarrow> contract_error + pydict" where
  "serialize_wecom_reauthorization_status_arguments schema_ok a =
    validated schema_ok ''WeComReauthorizationStatusArguments'' [(''session_ref'', PStr (wt_session_ref a))]"

definition parse_cloud_resources_query_arguments ::
    "schema_check \<Rightarrow> pydict \<Rightarrow> contract_error + cloud_resources_query_arguments" where
  "parse_cloud_resources_query_arguments schema_ok v =
    bindE (parse_argument schema_ok ''CloudResourcesQueryArguments'' [''target_ref''] v) (\<lambda>_.
    bindE (str_field v ''target_ref'') (\<lambda>ref. Inr \<lparr>cr_target_ref = ref\<rparr>))"

definition serialize_cloud_resources_query_arguments ::
    "schema_check \<Rightarrow> cloud_resources_query_arguments \<Rightarrow> contract_error + pydict" where
  "serialize_cloud_resources_query_arguments schema_ok a =
    validated schema_ok ''CloudResourcesQueryArguments'' [(''target_ref'', PStr (cr_target_ref a))]"

definition parse_cloud_authorization_health_arguments ::
    "schema_check \<Rightarrow> pydict \<Rightarrow> contract_error + cloud_authorization_health_arguments" where
  "parse_cloud_authorization_health_arguments schema_ok v =
    bindE (parse_argument schema_ok ''CloudAuthorizationHealthArguments'' [''target_ref''] v) (\<lambda>_.
    bindE (str_field v ''target_ref'') (\<lambda>ref. Inr \<lparr>ch_target_ref = ref\<rparr>))"

definition serialize_cloud_authorization_health_arguments ::
    "schema_check \<Rightarrow> cloud_authorization_health_arguments \<Rightarrow> contract_error + pydict" where
  "serialize_cloud_authorization_health_arguments schema_ok a =
    validated schema_ok ''CloudAuthorizationHealthArguments'' [(''target_ref'', PStr (ch_target_ref a))]"

definition parse_email_notification_send_arguments ::
    "schema_check \<Rightarrow> pydict \<Rightarrow> contract_error + email_notification_send_arguments" where
  "parse_email_notification_send_arguments schema_ok v =
    bindE (parse_argument schema_ok ''EmailNotificationSendArguments''
             [''recipient_ref'', ''subject'', ''text'', ''request_ref''] v) (\<lambda>_.
    bindE (str_field v ''recipient_ref'') (\<lambda>recipient_ref.
    bindE (str_field v ''subject'') (\<lambda>subject.
    bindE (str_field v ''text'') (\<lambda>text.
    bindE (str_field v ''request_ref'') (\<lambda>ref.
      Inr \<lparr>es_recipient_ref = recipient_ref, es_subject = subject, es_text = text, es_request_ref = ref\<rparr>)))))"

definition serialize_email_notification_send_arguments ::
    "schema_check \<Rightarrow> email_notification_send_arguments \<Rightarrow> contract_error + pydict" where
  "serialize_email_notification_send_arguments schema_ok a =
    validated schema_ok ''EmailNotificationSendArguments''
      [(''recipient_ref'', PStr (es_recipient_ref a)), (''subject'', PStr (es_subject a)),
       (''text'', PStr (es_text a)), (''request_ref'', PStr (es_request_ref a))]"

definition parse_email_connection_health_arguments :: "schema_check \<Rightarrow> pydict \<Rightarrow> contract_error + unit" where
  "parse_email_connection_health_arguments schema_ok v =
    parse_argument schema_ok ''EmailConnectionHealthArguments'' [] v"

definition serialize_email_connection_health_arguments :: "schema_check \<Rightarrow> unit \<Rightarrow> contract_error + pydict" where
  "serialize_email_connection_health_arguments schema_ok _ =
    validated schema_ok ''EmailConnectionHealthArguments'' []"

definition parse_tool_envelope :: "schema_check \<Rightarrow> pydict \<Rightarrow> contract_error + tool_envelope" where
  "parse_tool_envelope schema_ok v =
    bindE (validate_schema schema_ok ''ToolEnvelope'' (PDict v)) (\<lambda>_.
    bindE (get_field v ''arguments'') (\<lambda>arguments.
    bindE (bindE (dict_field v ''caller_context'') (parse_trusted_caller_context schema_ok)) (\<lambda>context.
    bindE (dict_item arguments) (\<lambda>d.
      Inr \<lparr>te_caller_context = context, te_arguments = d\<rparr>))))"

definition serialize_tool_envelope :: "schema_check \<Rightarrow> tool_envelope \<Rightarrow> contract_error + pydict" where
  "serialize_tool_envelope schema_ok e =
    bindE (serialize_trusted_caller_context schema_ok (te_caller_context e)) (\<lambda>context.
    validated schema_ok ''ToolEnvelope'' [(''caller_context'', PDict context), (''arguments'', PDict (te_arguments e))])"

section \<open>Round trips\<close>

text \<open>The contract of a codec: what was serialized parses back to the same value.  It lifts to lists of
  objects, and makes the wire form injective.\<close>

locale wire_codec =
  fixes wf :: "'a \<Rightarrow> bool"
    and encode :: "schema_check \<Rightarrow> 'a \<Rightarrow> contract_error + pydict"
    and decode :: "schema_check \<Rightarrow> pydict \<Rightarrow> contract_error + 'a"
  assumes decode_encode: "wf x \<Longrightarrow> encode schema_ok x = Inr v \<Longrightarrow> decode schema_ok v = Inr x"
begin

lemma list_round_trip:
  assumes "mapE (\<lambda>x. bindE (encode schema_ok x) (\<lambda>d. Inr (PDict d))) xs = Inr vs" "list_all wf xs"
  shows "mapE (\<lambda>item. bindE (dict_item item) (decode schema_ok)) vs = Inr xs"
  using assms
proof (induction xs arbitrary: vs)
  case (Cons x xs)
  then show ?case by (auto simp: bindE_eq_Inr dict_item_def decode_encode)
qed simp

lemma encode_inj:
  assumes "encode schema_ok x = Inr v" "encode schema_ok y = Inr v" "wf x" "wf y"
  shows "x = y"
  using decode_encode [OF assms(3,1)] decode_encode [OF assms(4,2)] by simp

end

definition opt_time_ok :: "datetime option \<Rightarrow> bool" where
  "opt_time_ok v = (case v of None \<Rightarrow> True | Some t \<Rightarrow> datetime_ok t)"

lemma time_fields [simp]:
  "datetime_ok t \<Longrightarrow> get_field d k = Inr (PStr (serialize_timestamp t)) \<Longrightarrow> time_field d k = Inr t"
  "opt_time_ok u \<Longrightarrow> get_field d k = Inr (opt_time u) \<Longrightarrow> opt_time_field d k = Inr u"
  by (auto simp: time_field_def opt_time_field_def opt_time_def opt_time_ok_def parse_serialize_timestamp split: option.splits)

lemma plain_fields [simp]:
  "get_field d k = Inr (PStr s) \<Longrightarrow> str_field d k = Inr s"
  "get_field d k = Inr (opt_str u) \<Longrightarrow> opt_str_field d k = Inr u"
  "get_field d k = Inr (PDict x) \<Longrightarrow> dict_field d k = Inr x"
  "get_field d k = Inr (PList xs) \<Longrightarrow> list_field d k = Inr xs"
  "get_field d k = Inr (PBool b) \<Longrightarrow> bool_field d k = Inr b"
  by (auto simp: str_field_def opt_str_field_def opt_str_def dict_field_def list_field_def bool_field_def split: option.splits)

lemma get_field_simps [simp]: "get_field ((a, v) # d) k = (if a = k then Inr v else get_field d k)"
  by (simp add: get_field_def)

lemma validated_Inr: "validated schema_ok name d = Inr v \<longleftrightarrow> v = d \<and> validate_schema schema_ok name (PDict d) = Inr ()"
  by (auto simp: validated_def bindE_eq_Inr)

definition capability_ok :: "capability_authorization_health \<Rightarrow> bool" where
  "capability_ok c \<longleftrightarrow> opt_time_ok (ca_last_verified_at c) \<and> opt_time_ok (ca_expires_at c)"

definition authorization_ok :: "authorization_health \<Rightarrow> bool" where
  "authorization_ok h \<longleftrightarrow>
     datetime_ok (ah_checked_at h) \<and> opt_time_ok (ah_expires_at h) \<and> list_all capability_ok (ah_capabilities h)"

definition renewal_ok :: "renewal_session \<Rightarrow> bool" where
  "renewal_ok r \<longleftrightarrow> datetime_ok (rs_created_at r) \<and> opt_time_ok (rs_expires_at r)"

definition observation_ok :: "cloud_observation \<Rightarrow> bool" where
  "observation_ok c \<longleftrightarrow> datetime_ok (co_collected_at c) \<and> opt_time_ok (co_observed_at c)"

definition query_result_ok :: "cloud_query_result \<Rightarrow> bool" where
  "query_result_ok q \<longleftrightarrow> datetime_ok (cq_checked_at q) \<and> list_all observation_ok (cq_resources q)"

definition envelope_ok :: "tool_envelope \<Rightarrow> bool" where
  "envelope_ok e \<longleftrightarrow>
     datetime_ok (tc_issued_at (te_caller_context e)) \<and> datetime_ok (tc_expires_at (te_caller_context e))"

interpretation capability: wire_codec capability_ok serialize_capability_authorization_health
  parse_capability_authorization_health
  by unfold_locales
    (auto simp: serialize_capability_authorization_health_def parse_capability_authorization_health_def
      validated_Inr capability_ok_def)

interpretation authorization: wire_codec authorization_ok serialize_authorization_health parse_authorization_health
  by unfold_locales
    (auto simp: serialize_authorization_health_def parse_authorization_health_def validated_Inr authorization_ok_def
      bindE_eq_Inr capability.list_round_trip)

interpretation renewal: wire_codec renewal_ok serialize_renewal_session parse_renewal_session
  by unfold_locales
    (auto simp: serialize_renewal_session_def parse_renewal_session_def validated_Inr renewal_ok_def)

lemma schema_attributes_finite:
  assumes "validate_schema schema_ok name (PDict d) = Inr ()" "(k, PDict attributes) \<in> set d"
  shows "\<not> list_ex (\<lambda>(k, item). \<not> finite_attribute item) attributes"
proof -
  have "json_finite (PDict attributes)"
    using assms by (fastforce simp: validate_schema_def normalize_json_def list_all_iff split: if_splits)
  moreover have "json_finite v \<Longrightarrow> finite_attribute v" for v
    by (cases v rule: json_finite.cases) (simp_all add: finite_attribute_def)
  ultimately show ?thesis by (auto simp: list_all_iff list_ex_iff)
qed

interpretation observation: wire_codec observation_ok serialize_cloud_observation parse_cloud_observation
  using schema_attributes_finite [where k = "''attributes''" and name = "''CloudObservation''"]
  by unfold_locales
    (fastforce simp: serialize_cloud_observation_def parse_cloud_observation_def validated_Inr observation_ok_def)

interpretation query_result: wire_codec query_result_ok serialize_cloud_query_result parse_cloud_query_result
  by unfold_locales
    (auto simp: serialize_cloud_query_result_def parse_cloud_query_result_def validated_Inr query_result_ok_def
      bindE_eq_Inr observation.list_round_trip)

interpretation submission: wire_codec "\<lambda>_. True" serialize_email_submission parse_email_submission
  by unfold_locales
    (auto simp: serialize_email_submission_def parse_email_submission_def validated_Inr submission_fields_def)

lemma parse_argument_ok:
  "validate_schema schema_ok name (PDict d) = Inr () \<Longrightarrow> set (map fst d) = set ks \<Longrightarrow> parse_argument schema_ok name ks d = Inr ()"
  by (simp add: parse_argument_def same_keys_def)

interpretation wecom_health_arguments: wire_codec "\<lambda>_. True" serialize_wecom_authorization_health_arguments
  parse_wecom_authorization_health_arguments
  by unfold_locales
    (auto simp: serialize_wecom_authorization_health_arguments_def parse_wecom_authorization_health_arguments_def
      validated_Inr parse_argument_ok)

interpretation wecom_start_arguments: wire_codec "\<lambda>_. True" serialize_wecom_reauthorization_start_arguments
  parse_wecom_reauthorization_start_arguments
  by unfold_locales
    (auto simp: serialize_wecom_reauthorization_start_arguments_def parse_wecom_reauthorization_start_arguments_def
      validated_Inr parse_argument_ok)

interpretation wecom_status_arguments: wire_codec "\<lambda>_. True" serialize_wecom_reauthorization_status_arguments
  parse_wecom_reauthorization_status_arguments
  by unfold_locales
    (auto simp: serialize_wecom_reauthorization_status_arguments_def parse_wecom_reauthorization_status_arguments_def
      validated_Inr parse_argument_ok)

interpretation cloud_query_arguments: wire_codec "\<lambda>_. True" serialize_cloud_resources_query_arguments
  parse_cloud_resources_query_arguments
  by unfold_locales
    (auto simp: serialize_cloud_resources_query_arguments_def parse_cloud_resources_query_arguments_def
      validated_Inr parse_argument_ok)

interpretation cloud_health_arguments: wire_codec "\<lambda>_. True" serialize_cloud_authorization_health_arguments
  parse_cloud_authorization_health_arguments
  by unfold_locales
    (auto simp: serialize_cloud_authorization_health_arguments_def parse_cloud_authorization_health_arguments_def
      validated_Inr parse_argument_ok)

interpretation email_send_arguments: wire_codec "\<lambda>_. True" serialize_email_notification_send_arguments
  parse_email_notification_send_arguments
  by unfold_locales
    (auto simp: serialize_email_notification_send_arguments_def parse_email_notification_send_arguments_def
      validated_Inr parse_argument_ok)

interpretation email_health_arguments: wire_codec "\<lambda>_. True" serialize_email_connection_health_arguments
  parse_email_connection_health_arguments
  by unfold_locales
    (auto simp: serialize_email_connection_health_arguments_def parse_email_connection_health_arguments_def
      validated_Inr parse_argument_ok)

interpretation envelope: wire_codec envelope_ok serialize_tool_envelope parse_tool_envelope
  by unfold_locales
    (auto simp: serialize_tool_envelope_def parse_tool_envelope_def validated_Inr envelope_ok_def bindE_eq_Inr
      dict_item_def parse_serialize_context)

text \<open>The wire codecs lose nothing: a serialized authorization health record (with its capability
  list), renewal session or cloud query result (with its observations), whose times are calendar
  times, parses back to the same value.\<close>

theorem contract_round_trips:
  "(serialize_authorization_health schema_ok h = Inr v \<and> authorization_ok h
      \<longrightarrow> parse_authorization_health schema_ok v = Inr h)
   \<and> (serialize_renewal_session schema_ok r = Inr w \<and> renewal_ok r \<longrightarrow> parse_renewal_session schema_ok w = Inr r)
   \<and> (serialize_cloud_query_result schema_ok q = Inr u \<and> query_result_ok q
      \<longrightarrow> parse_cloud_query_result schema_ok u = Inr q)"
  using authorization.decode_encode renewal.decode_encode query_result.decode_encode by blast

text \<open>C22. The signed envelope keeps the caller context and the exact argument object, and two envelopes with
  the same wire form are equal.\<close>

theorem envelope_round_trip:
  assumes "serialize_tool_envelope schema_ok e = Inr v" "envelope_ok e"
  shows "parse_tool_envelope schema_ok v = Inr e
    \<and> (\<forall>e'. serialize_tool_envelope schema_ok e' = Inr v \<and> envelope_ok e' \<longrightarrow> e' = e)"
  using envelope.decode_encode [OF assms(2,1)] envelope.encode_inj [OF _ assms(1) _ assms(2)] by blast

definition sample_observation :: cloud_observation where
  "sample_observation =
    \<lparr>co_external_ref = ''vm-1'', co_kind = AzureVm, co_display_name = ''vm'', co_status = ResourceRunning,
     co_provider_status = None, co_collected_at = sample_now, co_observed_at = None,
     co_attributes = [(''cores'', PInt 4)], co_platform_resource_ref = None, co_platform_generation = PNone\<rparr>"

lemma sample_now_ok: "datetime_ok sample_now"
  by (simp add: sample_now_def datetime_ok_def days_in_month_def month_lengths_def is_leap_def)

lemma any_schema: "json_finite (PDict d) \<Longrightarrow> validated (\<lambda>_ _. True) name d = Inr d"
  by (simp add: validated_def validate_schema_def normalize_json_def del: json_finite.simps)

lemma contract_round_trips_witness:
  "\<exists>u. serialize_cloud_query_result (\<lambda>_ _. True)
          \<lparr>cq_provider = ''azure'', cq_checked_at = sample_now, cq_resources = [sample_observation]\<rparr> = Inr u
       \<and> parse_cloud_query_result (\<lambda>_ _. True) u
          = Inr \<lparr>cq_provider = ''azure'', cq_checked_at = sample_now, cq_resources = [sample_observation]\<rparr>"
proof -
  let ?q = "\<lparr>cq_provider = ''azure'', cq_checked_at = sample_now, cq_resources = [sample_observation]\<rparr>"
  have "\<exists>u. serialize_cloud_query_result (\<lambda>_ _. True) ?q = Inr u"
    by (simp add: serialize_cloud_query_result_def serialize_cloud_observation_def sample_observation_def any_schema
        opt_str_def opt_time_def)
  moreover have "query_result_ok ?q"
    by (simp add: query_result_ok_def observation_ok_def sample_observation_def opt_time_ok_def sample_now_ok)
  ultimately show ?thesis using contract_round_trips by blast
qed

lemma envelope_round_trip_witness:
  "\<exists>v. serialize_tool_envelope (\<lambda>_ _. True) \<lparr>te_caller_context = sample_request, te_arguments = []\<rparr> = Inr v
     \<and> parse_tool_envelope (\<lambda>_ _. True) v = Inr \<lparr>te_caller_context = sample_request, te_arguments = []\<rparr>"
proof -
  let ?e = "\<lparr>te_caller_context = sample_request, te_arguments = []\<rparr>"
  have "\<exists>v. serialize_tool_envelope (\<lambda>_ _. True) ?e = Inr v"
    by (simp add: serialize_tool_envelope_def serialize_trusted_caller_context_def validate_schema_def Let_def
        normalize_json_def any_schema context_claims_def opt_str_def sample_request_def)
  moreover have "envelope_ok ?e" using sample_times_ok by (simp add: envelope_ok_def)
  ultimately show ?thesis using envelope_round_trip by blast
qed

end
