(* ===== verification/Email_Ledger.thy ===== *)
theory Email_Ledger
  imports Effect_Ledger Contract_Codecs
begin

text \<open>
  The private submission ledger of the email connector: \<open>email_notification_connector/ledger.py\<close>.
  The state is the SQLite file: the table \<open>email_submissions\<close> and the table of signed request ids.
  One method is one \<open>BEGIN IMMEDIATE\<close> transaction with durable commit; an exception rolls back.  The
  time stamps are arguments; \<open>io\<close> false is an operating system or SQLite failure.
\<close>

section \<open>State\<close>

datatype ledger_status = SENDING | RETRYABLE | ACCEPTED | UNKNOWN | REJECTED

text \<open>\<open>EmailSubmissionStatus(text)\<close> and \<open>status.value\<close>: three of the five stored values are public.\<close>

fun typed_status :: "ledger_status \<Rightarrow> email_submission_status option" where
  "typed_status ACCEPTED = Some SubmissionAccepted"
| "typed_status UNKNOWN = Some SubmissionUnknown"
| "typed_status REJECTED = Some SubmissionRejected"
| "typed_status _ = None"

fun status_value :: "email_submission_status \<Rightarrow> ledger_status" where
  "status_value SubmissionAccepted = ACCEPTED"
| "status_value SubmissionUnknown = UNKNOWN"
| "status_value SubmissionRejected = REJECTED"

datatype email_error =
    LedgerFailure
  | ReplayConflict
  | EmailValueError
  | EmailTypeError

record replay_identity =
  identity_sha256 :: string
  request_id_sha256 :: string
  payload_sha256_of :: string
  request_ref :: string

record submission_row =
  sr_identity :: string
  sr_payload :: string
  sr_status :: ledger_status
  sr_vendor_receipt_ref :: "string option"
  sr_delivery_confirmed :: bool
  sr_created_at :: string
  sr_updated_at :: string

record email_ledger =
  el_user_version :: int
  el_submissions :: "submission_row list"
  el_request_ids :: "(string \<times> string) list"

type_synonym 'a ledger_tx = "email_ledger \<Rightarrow> (email_error + 'a) \<times> email_ledger"

definition initialize_ledger :: "unit ledger_tx" where
  "initialize_ledger l =
    (if el_user_version l > 1 then (Inl LedgerFailure, l) else (Inr (), l\<lparr>el_user_version := 1\<rparr>))"

definition empty_ledger :: email_ledger where
  "empty_ledger = \<lparr>el_user_version = 0, el_submissions = [], el_request_ids = []\<rparr>"

section \<open>Operations\<close>

definition validate_identity :: "replay_identity \<Rightarrow> email_error + unit" where
  "validate_identity i =
    (if \<not> list_all is_digest [identity_sha256 i, request_id_sha256 i, payload_sha256_of i]
     then Inl EmailValueError
     else if request_ref i = [] then Inl EmailValueError
     else Inr ())"

definition typed_submission ::
    "string \<Rightarrow> ledger_status \<Rightarrow> string option \<Rightarrow> bool \<Rightarrow> email_error + email_submission" where
  "typed_submission ref st receipt confirmed =
    (case typed_status st of
       None \<Rightarrow> Inl LedgerFailure
     | Some typed \<Rightarrow>
        if typed \<in> {SubmissionUnknown, SubmissionRejected} then
          Inr \<lparr>em_request_ref = ref, em_status = typed, em_vendor_receipt_ref = None, em_delivery_confirmed = False\<rparr>
        else
          Inr \<lparr>em_request_ref = ref, em_status = typed, em_vendor_receipt_ref = receipt,
               em_delivery_confirmed = confirmed\<rparr>)"

abbreviation has_identity :: "replay_identity \<Rightarrow> submission_row \<Rightarrow> bool" where
  "has_identity i r \<equiv> sr_identity r = identity_sha256 i"

definition set_status :: "ledger_status \<Rightarrow> string \<Rightarrow> submission_row \<Rightarrow> submission_row" where
  "set_status st now r = r\<lparr>sr_status := st, sr_updated_at := now\<rparr>"

definition reserve_tx :: "string \<Rightarrow> replay_identity \<Rightarrow> email_submission option ledger_tx" where
  "reserve_tx now i l =
    (let request_id_row = map_of (el_request_ids l) (request_id_sha256 i) in
     if request_id_row \<noteq> None \<and> request_id_row \<noteq> Some (identity_sha256 i) then (Inl ReplayConflict, l)
     else
       (case sql_first (has_identity i) (el_submissions l) of
          Some row \<Rightarrow>
            if sr_payload row \<noteq> payload_sha256_of i then (Inl ReplayConflict, l)
            else
              let l1 = (if request_id_row = None
                        then l\<lparr>el_request_ids := el_request_ids l @ [(request_id_sha256 i, identity_sha256 i)]\<rparr>
                        else l) in
              if sr_status row = SENDING then
                (case typed_submission (request_ref i) UNKNOWN None False of
                   Inl e \<Rightarrow> (Inl e, l)
                 | Inr sub \<Rightarrow>
                     (Inr (Some sub),
                      l1\<lparr>el_submissions :=
                          sql_update (\<lambda>r. has_identity i r \<and> sr_status r = SENDING) (set_status UNKNOWN now)
                            (el_submissions l1)\<rparr>))
              else if sr_status row = RETRYABLE then
                (Inr None,
                 l1\<lparr>el_submissions :=
                     sql_update (\<lambda>r. has_identity i r \<and> sr_status r = RETRYABLE) (set_status SENDING now)
                       (el_submissions l1)\<rparr>)
              else
                (case typed_submission (request_ref i) (sr_status row) (sr_vendor_receipt_ref row)
                        (sr_delivery_confirmed row) of
                   Inl e \<Rightarrow> (Inl e, l)
                 | Inr sub \<Rightarrow> (Inr (Some sub), l1))
        | None \<Rightarrow>
            if request_id_row \<noteq> None then (Inl LedgerFailure, l)
            else
              (Inr None,
               l\<lparr>el_submissions := el_submissions l @
                   [\<lparr>sr_identity = identity_sha256 i, sr_payload = payload_sha256_of i, sr_status = SENDING,
                     sr_vendor_receipt_ref = None, sr_delivery_confirmed = False,
                     sr_created_at = now, sr_updated_at = now\<rparr>],
                 el_request_ids := el_request_ids l @ [(request_id_sha256 i, identity_sha256 i)]\<rparr>)))"

text \<open>The case \<open>request_id_row \<noteq> None\<close> of the last branch is the primary key violation of the second
  insert: a known request id whose submission row is missing.\<close>

definition reserve :: "bool \<Rightarrow> string \<Rightarrow> replay_identity \<Rightarrow> email_submission option ledger_tx" where
  "reserve io now i l =
    (case validate_identity i of
       Inl e \<Rightarrow> (Inl e, l)
     | Inr _ \<Rightarrow> if io then reserve_tx now i l else (Inl LedgerFailure, l))"

text \<open>The rows a completing call may still change.\<close>

definition open_row :: "replay_identity \<Rightarrow> submission_row \<Rightarrow> bool" where
  "open_row i r \<longleftrightarrow> has_identity i r \<and> sr_payload r = payload_sha256_of i \<and> sr_status r \<in> {SENDING, UNKNOWN}"

definition mark_retryable :: "bool \<Rightarrow> string \<Rightarrow> replay_identity \<Rightarrow> unit ledger_tx" where
  "mark_retryable io now i l =
    (case validate_identity i of
       Inl e \<Rightarrow> (Inl e, l)
     | Inr _ \<Rightarrow>
        if io
        then (Inr (), l\<lparr>el_submissions := sql_update (open_row i) (set_status RETRYABLE now) (el_submissions l)\<rparr>)
        else (Inl LedgerFailure, l))"

definition settle_row :: "email_submission \<Rightarrow> string \<Rightarrow> submission_row \<Rightarrow> submission_row" where
  "settle_row sub now r =
    r\<lparr>sr_status := status_value (em_status sub), sr_vendor_receipt_ref := em_vendor_receipt_ref sub,
      sr_delivery_confirmed := em_delivery_confirmed sub, sr_updated_at := now\<rparr>"

definition complete :: "bool \<Rightarrow> string \<Rightarrow> replay_identity \<Rightarrow> email_submission \<Rightarrow> email_submission ledger_tx" where
  "complete io now i sub l =
    (case validate_identity i of
       Inl e \<Rightarrow> (Inl e, l)
     | Inr _ \<Rightarrow>
        if em_request_ref sub \<noteq> request_ref i \<or> em_delivery_confirmed sub \<or> em_vendor_receipt_ref sub \<noteq> None
        then (Inl LedgerFailure, l)
        else if \<not> io then (Inl LedgerFailure, l)
        else
          let rows = sql_update (open_row i) (settle_row sub now) (el_submissions l) in
          (case sql_first (has_identity i) rows of
             None \<Rightarrow> (Inl LedgerFailure, l)
           | Some row \<Rightarrow>
              (case typed_submission (request_ref i) (sr_status row) (sr_vendor_receipt_ref row)
                      (sr_delivery_confirmed row) of
                 Inl e \<Rightarrow> (Inl e, l)
               | Inr stored \<Rightarrow> (Inr stored, l\<lparr>el_submissions := rows\<rparr>))))"

section \<open>Invariant\<close>

text \<open>Primary keys, the foreign key, and the evidence boundary: no stored row claims a delivery or a
  vendor receipt.\<close>

definition email_inv :: "email_ledger \<Rightarrow> bool" where
  "email_inv l \<longleftrightarrow>
     distinct (map sr_identity (el_submissions l)) \<and> distinct (map fst (el_request_ids l))
   \<and> snd ` set (el_request_ids l) \<subseteq> sr_identity ` set (el_submissions l)
   \<and> (\<forall>r \<in> set (el_submissions l). \<not> sr_delivery_confirmed r \<and> sr_vendor_receipt_ref r = None)"

lemma email_inv_empty: "email_inv empty_ledger"
  by (simp add: email_inv_def empty_ledger_def)

lemma email_inv_update:
  assumes "email_inv l"
    and "\<And>r. sr_identity (f r) = sr_identity r"
    and "\<And>r. r \<in> set (el_submissions l) \<Longrightarrow> P r \<Longrightarrow> \<not> sr_delivery_confirmed (f r) \<and> sr_vendor_receipt_ref (f r) = None"
  shows "email_inv (l\<lparr>el_submissions := sql_update P f (el_submissions l)\<rparr>)"
proof -
  have keys: "map sr_identity (sql_update P f (el_submissions l)) = map sr_identity (el_submissions l)"
    using assms(2) by (simp add: sql_update_def)
  then have ids: "sr_identity ` set (sql_update P f (el_submissions l)) = sr_identity ` set (el_submissions l)"
    by (metis list.set_map)
  show ?thesis
    using assms(1,3) unfolding email_inv_def
    by (simp add: keys ids) (auto simp: set_sql_update)
qed

lemma email_inv_request_id:
  assumes "email_inv l" "map_of (el_request_ids l) q = None" "x \<in> sr_identity ` set (el_submissions l)"
  shows "email_inv (l\<lparr>el_request_ids := el_request_ids l @ [(q, x)]\<rparr>)"
  using assms by (auto simp: email_inv_def map_of_eq_None_iff)

lemma set_status_simps [simp]:
  "sr_identity (set_status st now r) = sr_identity r" "sr_payload (set_status st now r) = sr_payload r"
  "sr_status (set_status st now r) = st" "sr_delivery_confirmed (set_status st now r) = sr_delivery_confirmed r"
  "sr_vendor_receipt_ref (set_status st now r) = sr_vendor_receipt_ref r"
  by (simp_all add: set_status_def)

lemma settle_row_simps [simp]:
  "sr_identity (settle_row sub now r) = sr_identity r" "sr_payload (settle_row sub now r) = sr_payload r"
  "sr_status (settle_row sub now r) = status_value (em_status sub)"
  "sr_delivery_confirmed (settle_row sub now r) = em_delivery_confirmed sub"
  "sr_vendor_receipt_ref (settle_row sub now r) = em_vendor_receipt_ref sub"
  by (simp_all add: settle_row_def)

lemma email_inv_row: "email_inv l \<Longrightarrow> r \<in> set (el_submissions l) \<Longrightarrow> \<not> sr_delivery_confirmed r \<and> sr_vendor_receipt_ref r = None"
  by (simp add: email_inv_def)

lemma reserve_tx_inv:
  assumes "email_inv l"
  shows "email_inv (snd (reserve_tx now i l))"
proof -
  let ?q = "map_of (el_request_ids l) (request_id_sha256 i)"
  let ?l1 = "if ?q = None then l\<lparr>el_request_ids := el_request_ids l @ [(request_id_sha256 i, identity_sha256 i)]\<rparr> else l"
  have l1: "email_inv ?l1" if "sql_first (has_identity i) (el_submissions l) = Some row" for row
  proof -
    have "identity_sha256 i \<in> sr_identity ` set (el_submissions l)" using find_Some_in [OF that] by force
    with email_inv_request_id [OF assms, of "request_id_sha256 i" "identity_sha256 i"] assms show ?thesis by simp
  qed
  show ?thesis
  proof (cases "sql_first (has_identity i) (el_submissions l)")
    case None
    then have "identity_sha256 i \<notin> sr_identity ` set (el_submissions l)" by (simp add: find_key_None)
    with None assms show ?thesis
      by (auto simp: reserve_tx_def Let_def email_inv_def map_of_eq_None_iff)
  next
    case (Some row)
    have rows: "email_inv (?l1\<lparr>el_submissions := sql_update P (set_status st now) (el_submissions ?l1)\<rparr>)" for P st
      using email_inv_row [OF l1 [OF Some]] by (intro email_inv_update [OF l1 [OF Some]]) auto
    show ?thesis
    proof (cases ?q)
      case None
      with rows l1 [OF Some] assms Some show ?thesis
        by (auto simp: reserve_tx_def Let_def split: sum.split)
    next
      case (Some q)
      with rows l1 [OF \<open>sql_first (has_identity i) (el_submissions l) = Some row\<close>] assms
        \<open>sql_first (has_identity i) (el_submissions l) = Some row\<close>
      show ?thesis by (auto simp: reserve_tx_def Let_def split: sum.split)
    qed
  qed
qed

lemma reserve_inv: "email_inv l \<Longrightarrow> email_inv (snd (reserve io now i l))"
  by (simp add: reserve_def reserve_tx_inv split: sum.split)

lemma mark_retryable_inv: "email_inv l \<Longrightarrow> email_inv (snd (mark_retryable io now i l))"
  using email_inv_row [of l] by (auto simp: mark_retryable_def split: sum.split intro!: email_inv_update)

lemma complete_inv:
  assumes "email_inv l"
  shows "email_inv (snd (complete io now i sub l))"
proof -
  have "email_inv (l\<lparr>el_submissions := sql_update (open_row i) (settle_row sub now) (el_submissions l)\<rparr>)"
    if "\<not> em_delivery_confirmed sub" "em_vendor_receipt_ref sub = None"
    using that assms by (intro email_inv_update) auto
  with assms show ?thesis
    by (auto simp: complete_def Let_def split: sum.split option.split)
qed

section \<open>The ledger as an intent ledger\<close>

text \<open>One call of \<open>_send\<close>, with what the environment contributes to its ledger transactions.\<close>

record email_call =
  ec_identity :: replay_identity
  ec_reserve_io :: bool
  ec_reserve_now :: string
  ec_mark_io :: bool
  ec_mark_now :: string
  ec_complete_io :: bool
  ec_complete_now :: string

definition email_free :: "string \<Rightarrow> email_ledger \<Rightarrow> bool" where
  "email_free k l \<longleftrightarrow> list_all (\<lambda>r. sr_identity r = k \<longrightarrow> sr_status r = RETRYABLE) (el_submissions l)"

definition email_grant :: "email_call \<Rightarrow> email_ledger \<Rightarrow> bool \<times> email_ledger" where
  "email_grant c l =
    (case reserve (ec_reserve_io c) (ec_reserve_now c) (ec_identity c) l of
       (res, l') \<Rightarrow> (res = Inr None, l'))"

definition email_release :: "email_call \<Rightarrow> email_ledger \<Rightarrow> email_ledger" where
  "email_release c l = snd (mark_retryable (ec_mark_io c) (ec_mark_now c) (ec_identity c) l)"

definition email_settle :: "email_call \<Rightarrow> email_submission \<Rightarrow> email_ledger \<Rightarrow> email_ledger" where
  "email_settle c sub l = snd (complete (ec_complete_io c) (ec_complete_now c) (ec_identity c) sub l)"

abbreviation email_key :: "email_call \<Rightarrow> string" where
  "email_key c \<equiv> identity_sha256 (ec_identity c)"

lemma email_free_iff:
  "email_free k l \<longleftrightarrow> (\<forall>r \<in> set (el_submissions l). sr_identity r = k \<longrightarrow> sr_status r = RETRYABLE)"
  by (simp add: email_free_def list_all_iff)

lemma email_free_update:
  assumes "email_free k (l\<lparr>el_submissions := sql_update P f (el_submissions l)\<rparr>)"
    and "\<And>r. sr_identity (f r) = sr_identity r" and "\<And>r. P r \<Longrightarrow> sr_identity r = k \<Longrightarrow> sr_status (f r) \<noteq> RETRYABLE"
  shows "email_free k l"
  unfolding email_free_iff
proof (intro ballI impI)
  fix r assume r: "r \<in> set (el_submissions l)" "sr_identity r = k"
  then have "(if P r then f r else r) \<in> set (sql_update P f (el_submissions l))" by (auto simp: set_sql_update)
  with assms r show "sr_status r = RETRYABLE" unfolding email_free_iff by (cases "P r") force+
qed

lemma email_free_request_ids [simp]: "email_free k (l\<lparr>el_request_ids := x\<rparr>) = email_free k l"
  by (simp add: email_free_def)

text \<open>What a reservation does to the submission table.\<close>

lemma reserve_cases:
  assumes "reserve io now i l = (res, l')"
  obtains
    (kept) "el_submissions l' = el_submissions l" "res \<noteq> Inr None"
  | (doubted) "res \<noteq> Inr None"
      "el_submissions l' = sql_update (\<lambda>r. has_identity i r \<and> sr_status r = SENDING) (set_status UNKNOWN now) (el_submissions l)"
  | (again) row where "res = Inr None" "sql_first (has_identity i) (el_submissions l) = Some row" "sr_status row = RETRYABLE"
      "el_submissions l' = sql_update (\<lambda>r. has_identity i r \<and> sr_status r = RETRYABLE) (set_status SENDING now) (el_submissions l)"
  | (new) row where "res = Inr None" "identity_sha256 i \<notin> sr_identity ` set (el_submissions l)"
      "el_submissions l' = el_submissions l @ [row]" "sr_identity row = identity_sha256 i" "sr_status row = SENDING"
proof (cases "validate_identity i = Inr () \<and> io")
  case False
  then have "l' = l" "res \<noteq> Inr None" using assms by (auto simp: reserve_def split: sum.splits if_splits)
  then show thesis by (intro kept) auto
next
  case True
  then have tx: "reserve_tx now i l = (res, l')" using assms by (simp add: reserve_def)
  show thesis
  proof (cases "sql_first (has_identity i) (el_submissions l)")
    case None
    then have "identity_sha256 i \<notin> sr_identity ` set (el_submissions l)" by (simp add: find_key_None)
    with None tx show thesis
      by (auto simp: reserve_tx_def Let_def split: if_splits intro: kept new)
  next
    case (Some row)
    then show thesis
      using tx unfolding reserve_tx_def Let_def typed_submission_def
      by (cases "sr_status row") (auto split: if_splits intro: kept doubted again)
  qed
qed

interpretation email: effect_ledger email_inv "\<lambda>_. True" email_key email_free email_grant email_release email_settle "\<lambda>_ _. False"
proof unfold_locales
  fix l k and c :: email_call
  assume inv: "email_inv l"
  obtain res l' where run: "reserve (ec_reserve_io c) (ec_reserve_now c) (ec_identity c) l = (res, l')" by fastforce
  have distinct: "distinct (map sr_identity (el_submissions l))" using inv by (simp add: email_inv_def)
  show "email_inv (snd (email_grant c l))"
    using reserve_inv [OF inv, of "ec_reserve_io c" "ec_reserve_now c" "ec_identity c"] run by (simp add: email_grant_def)
  show "email_free (email_key c) l \<and> \<not> email_free (email_key c) l2" if "email_grant c l = (True, l2)" for l2
  proof -
    have res: "res = Inr None" "l2 = l'" using that run by (simp_all add: email_grant_def)
    from run show ?thesis
    proof (cases rule: reserve_cases)
      case (again row)
      then have row: "row \<in> set (el_submissions l)" "sr_identity row = email_key c" using find_Some_in by fastforce+
      have "email_free (email_key c) l"
        unfolding email_free_iff using again(3) row distinct_key_eq [OF distinct] by metis
      moreover have "\<not> email_free (email_key c) l'"
      proof -
        have "set_status SENDING (ec_reserve_now c) row \<in> set (el_submissions l')"
          unfolding again(4) set_sql_update using row again(3)
          by (intro image_eqI [of _ _ row]) auto
        then show ?thesis using row(2) unfolding email_free_iff by force
      qed
      ultimately show ?thesis using res by simp
    next
      case (new row)
      then show ?thesis using res by (auto simp: email_free_iff image_iff)
    qed (use res in auto)
  qed
  show "email_free k l" if "email_free k (snd (email_grant c l))"
  proof -
    have free: "email_free k l'" using that run by (simp add: email_grant_def)
    from run show ?thesis
    proof (cases rule: reserve_cases)
      case kept
      with free show ?thesis by (simp add: email_free_def)
    next
      case doubted
      show ?thesis
        by (rule email_free_update [where f = "set_status UNKNOWN (ec_reserve_now c)" and l = l])
          (use free doubted(2) in \<open>auto simp: email_free_def\<close>)
    next
      case (again row)
      show ?thesis
        by (rule email_free_update [where f = "set_status SENDING (ec_reserve_now c)" and l = l])
          (use free again(4) in \<open>auto simp: email_free_def\<close>)
    next
      case (new row)
      with free show ?thesis by (auto simp: email_free_iff)
    qed
  qed
  show "email_inv (email_release c l)" using inv by (simp add: email_release_def mark_retryable_inv)
  show "k = email_key c \<or> email_free k l" if "email_free k (email_release c l)"
  proof (cases "k = email_key c")
    case False
    with that show ?thesis
      by (auto simp: email_release_def mark_retryable_def open_row_def split: sum.splits if_splits dest!: email_free_update)
  qed simp
  fix sub
  show "email_inv (email_settle c sub l)" using inv by (simp add: email_settle_def complete_inv)
  show "email_free k l" if "email_free k (email_settle c sub l)"
    proof -
    have "status_value st \<noteq> RETRYABLE" for st by (cases st) simp_all
    with that show ?thesis
      by (auto simp: email_settle_def complete_def Let_def split: sum.splits option.splits if_splits
          dest!: email_free_update)
  qed
qed simp_all

end
