(* ===== verification/Email_Smtp.thy ===== *)
theory Email_Smtp
  imports Email_Ledger
begin

text \<open>
  The SMTP transport of the email connector: \<open>email_notification_connector/smtp_transport.py\<close>.  The
  server and the socket are a \<open>smtp_script\<close>: what each command of \<open>smtplib\<close> returns or raises.  Serializing
  the message (\<open>email.message\<close>) is a parameter that yields bytes or a \<open>ValueError\<close>.  The result of
  \<open>submit\<close> comes with the commands that reached the wire, so that the acceptance boundary (message
  content may have left the process) is visible.

  The lemmas show that a pre-send failure is raised only when no content left, that \<open>ACCEPTED\<close> is
  reported only after a 250 to the content, and that the dot-stuffed data is received intact.
\<close>

section \<open>Exceptions\<close>

text \<open>The exceptions of \<open>smtplib\<close> and the socket, with Python's class hierarchy: \<open>SMTPException\<close>, \<open>SSLError\<close>,
  \<open>TimeoutError\<close> and \<open>ConnectionError\<close> are subclasses of \<open>OSError\<close>; \<open>SMTPAuthenticationError\<close> is a
  \<open>SMTPResponseException\<close>.\<close>

datatype smtp_exception =
    SSLError
  | SMTPAuthenticationError int
  | SMTPResponseException int
  | SMTPServerDisconnected
  | SMTPOtherException
  | TimeoutError
  | ConnectionError
  | OtherOSError
  | ValueError

fun response_code :: "smtp_exception \<Rightarrow> int option" where
  "response_code (SMTPAuthenticationError code) = Some code"
| "response_code (SMTPResponseException code) = Some code"
| "response_code _ = None"

definition is_os_error :: "smtp_exception \<Rightarrow> bool" where
  "is_os_error e \<longleftrightarrow> e \<noteq> ValueError"

definition temporary :: "int \<Rightarrow> bool" where
  "temporary code \<longleftrightarrow> 400 \<le> code \<and> code < 500"

datatype smtp_raise = SMTPPreSendFailure bool string | Uncaught smtp_exception

section \<open>Sessions\<close>

datatype tls_mode = Implicit | StartTLS | LoopbackTestPlain

record smtp_settings =
  ss_tls_mode :: tls_mode
  ss_username :: "string option"
  ss_sender :: string

record smtp_script =
  sc_connect :: "smtp_exception option"
  sc_ehlo :: "smtp_exception + int"
  sc_has_starttls :: bool
  sc_starttls :: "smtp_exception option"
  sc_ehlo_tls :: "smtp_exception + int"
  sc_login :: "smtp_exception option"
  sc_mail :: "smtp_exception + int"
  sc_rcpt :: "smtp_exception + int"
  sc_data :: "smtp_exception + int"
  sc_content :: "smtp_exception + int"

text \<open>The \<open>except\<close> clauses of \<open>_open_session\<close>, in their order.\<close>

definition open_failure :: "smtp_exception \<Rightarrow> smtp_raise" where
  "open_failure e =
    (case e of
       SMTPAuthenticationError _ \<Rightarrow> SMTPPreSendFailure False ''SMTP_AUTHENTICATION_FAILED''
     | SSLError \<Rightarrow> SMTPPreSendFailure False ''SMTP_TLS_FAILED''
     | SMTPResponseException code \<Rightarrow> SMTPPreSendFailure (temporary code) ''SMTP_GREETING_FAILED''
     | _ \<Rightarrow> if is_os_error e then SMTPPreSendFailure True ''SMTP_UNAVAILABLE'' else Uncaught e)"

definition try_step :: "smtp_exception option \<Rightarrow> smtp_raise + unit" where
  "try_step r = (case r of None \<Rightarrow> Inr () | Some e \<Rightarrow> Inl (open_failure e))"

definition greet :: "smtp_exception + int \<Rightarrow> smtp_raise + unit" where
  "greet r =
    (case r of
       Inl e \<Rightarrow> Inl (open_failure e)
     | Inr code \<Rightarrow> raise_if (code \<noteq> 250) (SMTPPreSendFailure (temporary code) ''SMTP_GREETING_FAILED''))"

definition open_session :: "smtp_settings \<Rightarrow> smtp_script \<Rightarrow> smtp_raise + unit" where
  "open_session settings sc =
    bindE (try_step (sc_connect sc)) (\<lambda>_.
    bindE (greet (sc_ehlo sc)) (\<lambda>_.
    bindE (if ss_tls_mode settings = StartTLS then
             (if \<not> sc_has_starttls sc then Inl (SMTPPreSendFailure False ''SMTP_STARTTLS_REQUIRED'')
              else bindE (try_step (sc_starttls sc)) (\<lambda>_. greet (sc_ehlo_tls sc)))
           else Inr ()) (\<lambda>_.
    if ss_username settings \<noteq> None then try_step (sc_login sc) else Inr ())))"

section \<open>Message data\<close>

definition CR :: char where "CR = CHR 0x0D"
definition LF :: char where "LF = CHR 0x0A"

fun crlf_to_lf :: "string \<Rightarrow> string" where
  "crlf_to_lf (a # b # cs) = (if a = CR \<and> b = LF then LF # crlf_to_lf cs else a # crlf_to_lf (b # cs))"
| "crlf_to_lf cs = cs"

definition normalize_newlines :: "string \<Rightarrow> string" where
  "normalize_newlines s = map (\<lambda>c. if c = CR then LF else c) (crlf_to_lf s)"

definition message_lines :: "bytes \<Rightarrow> string list" where
  "message_lines message =
    (let normalized = normalize_newlines message;
         body = (if normalized \<noteq> [] \<and> last normalized = LF then butlast normalized else normalized) in
     split_on LF body)"

definition stuff :: "string \<Rightarrow> string" where
  "stuff line = (if line \<noteq> [] \<and> hd line = CHR ''.'' then CHR ''.'' # line else line)"

definition smtp_data :: "bytes \<Rightarrow> bytes" where
  "smtp_data message = join_with [CR, LF] (map stuff (message_lines message)) @ [CR, LF, CHR ''.'', CR, LF]"

section \<open>Submission\<close>

datatype smtp_command = MAIL string | RCPT string | DATA | CONTENT bytes

definition plain_submission :: "string \<Rightarrow> email_submission_status \<Rightarrow> email_submission" where
  "plain_submission ref st =
    \<lparr>em_request_ref = ref, em_status = st, em_vendor_receipt_ref = None, em_delivery_confirmed = False\<rparr>"

definition is_success :: "int \<Rightarrow> bool" where
  "is_success code \<longleftrightarrow> 200 \<le> code \<and> code < 300"

definition is_retryable_setup_error :: "smtp_exception \<Rightarrow> bool" where
  "is_retryable_setup_error e =
    (case response_code e of
       Some code \<Rightarrow> temporary code
     | None \<Rightarrow> e \<in> {TimeoutError, ConnectionError, SMTPServerDisconnected})"

text \<open>The outer \<open>except\<close> clauses of \<open>submit\<close> before content has started.\<close>

definition setup_failure :: "smtp_exception \<Rightarrow> smtp_raise" where
  "setup_failure e =
    (if e = SSLError then SMTPPreSendFailure False ''SMTP_TLS_FAILED''
     else if is_os_error e then
       (if is_retryable_setup_error e then SMTPPreSendFailure True ''SMTP_UNAVAILABLE''
        else SMTPPreSendFailure False ''SMTP_SETUP_FAILED'')
     else Uncaught e)"

text \<open>One command before content: its reply is accepted, or refused for good (\<open>REJECTED\<close>), or refused for
  now, or it raises.\<close>

definition pre_send :: "string \<Rightarrow> (int \<Rightarrow> bool) \<Rightarrow> smtp_exception + int \<Rightarrow> smtp_raise + email_submission option" where
  "pre_send ref accept r =
    (case r of
       Inl e \<Rightarrow> Inl (setup_failure e)
     | Inr code \<Rightarrow>
        if accept code then Inr None
        else if temporary code then Inl (SMTPPreSendFailure True ''SMTP_TEMPORARY_REJECTION'')
        else Inr (Some (plain_submission ref SubmissionRejected)))"

definition content_result :: "string \<Rightarrow> smtp_exception + int \<Rightarrow> smtp_raise + email_submission" where
  "content_result ref r =
    (case r of
       Inl e \<Rightarrow> if is_os_error e then Inr (plain_submission ref SubmissionUnknown) else Inl (Uncaught e)
     | Inr code \<Rightarrow> Inr (plain_submission ref (if code = 250 then SubmissionAccepted else SubmissionRejected)))"

definition smtp_submit ::
    "smtp_settings \<Rightarrow> (string \<Rightarrow> string \<Rightarrow> string \<Rightarrow> string \<Rightarrow> bytes option) \<Rightarrow> smtp_script
     \<Rightarrow> string \<Rightarrow> string \<Rightarrow> string \<Rightarrow> string \<Rightarrow> (smtp_raise + email_submission) \<times> smtp_command list" where
  "smtp_submit settings serialize sc recipient subject text ref =
    (case serialize (ss_sender settings) recipient subject text of
       None \<Rightarrow> (Inl (Uncaught ValueError), [])
     | Some message \<Rightarrow>
        (case open_session settings sc of
           Inl e \<Rightarrow> (Inl e, [])
         | Inr _ \<Rightarrow>
            (case pre_send ref is_success (sc_mail sc) of
               Inl e \<Rightarrow> (Inl e, [MAIL (ss_sender settings)])
             | Inr (Some sub) \<Rightarrow> (Inr sub, [MAIL (ss_sender settings)])
             | Inr None \<Rightarrow>
                (case pre_send ref (\<lambda>code. code \<in> {250, 251, 252}) (sc_rcpt sc) of
                   Inl e \<Rightarrow> (Inl e, [MAIL (ss_sender settings), RCPT recipient])
                 | Inr (Some sub) \<Rightarrow> (Inr sub, [MAIL (ss_sender settings), RCPT recipient])
                 | Inr None \<Rightarrow>
                    (case pre_send ref (\<lambda>code. code = 354) (sc_data sc) of
                       Inl e \<Rightarrow> (Inl e, [MAIL (ss_sender settings), RCPT recipient, DATA])
                     | Inr (Some sub) \<Rightarrow> (Inr sub, [MAIL (ss_sender settings), RCPT recipient, DATA])
                     | Inr None \<Rightarrow>
                        (content_result ref (sc_content sc),
                         [MAIL (ss_sender settings), RCPT recipient, DATA, CONTENT (smtp_data message)]))))))"

record smtp_health =
  sh_available :: bool
  sh_security_mode :: string
  sh_authentication :: string

text \<open>\<open>check_connection\<close>; its time stamp is added by the caller.\<close>

definition check_connection :: "smtp_settings \<Rightarrow> smtp_script \<Rightarrow> smtp_raise + smtp_health" where
  "check_connection settings sc =
    (case open_session settings sc of
       Inl (Uncaught e) \<Rightarrow> Inl (Uncaught e)
     | r \<Rightarrow>
        Inr \<lparr>sh_available = (r = Inr ()),
             sh_security_mode =
               (if ss_tls_mode settings = LoopbackTestPlain then ''LOOPBACK_TEST_PLAIN'' else ''TLS''),
             sh_authentication =
               (if ss_username settings \<noteq> None then ''CONFIGURED'' else ''NOT_CONFIGURED'')\<rparr>)"

section \<open>The acceptance boundary\<close>

definition content_sent :: "smtp_command list \<Rightarrow> bool" where
  "content_sent cmds \<longleftrightarrow> list_ex (\<lambda>c. case c of CONTENT _ \<Rightarrow> True | _ \<Rightarrow> False) cmds"

lemma pre_send_rejects:
  "pre_send ref accept r = Inr (Some sub) \<Longrightarrow> sub = plain_submission ref SubmissionRejected"
  by (auto simp: pre_send_def split: sum.splits if_splits)

lemma smtp_submit_cases:
  assumes "smtp_submit settings serialize sc recipient subject text ref = (res, cmds)"
  obtains
    (not_sent) "\<not> content_sent cmds" "(\<exists>e. res = Inl e) \<or> res = Inr (plain_submission ref SubmissionRejected)"
  | (sent) message where "content_sent cmds" "serialize (ss_sender settings) recipient subject text = Some message"
      "cmds = [MAIL (ss_sender settings), RCPT recipient, DATA, CONTENT (smtp_data message)]"
      "res = content_result ref (sc_content sc)"
  using assms unfolding smtp_submit_def
  by (auto simp: content_sent_def split: option.splits sum.splits dest!: pre_send_rejects)

section \<open>Dot stuffing\<close>

text \<open>The receiver of RFC 5321: lines end with CRLF, a line with a single dot ends the data, and a
  leading dot of any other line is removed.\<close>

fun take_line :: "string \<Rightarrow> (string \<times> string) option" where
  "take_line (a # b # cs) =
    (if a = CR \<and> b = LF then Some ([], cs)
     else map_option (\<lambda>(l, r). (a # l, r)) (take_line (b # cs)))"
| "take_line _ = None"

lemma take_line_shorter: "take_line s = Some (l, r) \<Longrightarrow> length r < length s"
  by (induction s arbitrary: l r rule: take_line.induct) (auto split: if_splits)

definition unstuff :: "string \<Rightarrow> string" where
  "unstuff line = (if line \<noteq> [] \<and> hd line = CHR ''.'' then tl line else line)"

function smtp_receive :: "bytes \<Rightarrow> (string list \<times> bytes) option" where
  "smtp_receive s =
    (case take_line s of
       None \<Rightarrow> None
     | Some (line, rest) \<Rightarrow>
        if line = ''.'' then Some ([], rest)
        else map_option (\<lambda>(ls, r). (unstuff line # ls, r)) (smtp_receive rest))"
  by pat_completeness auto
termination
  by (relation "measure length") (auto dest: take_line_shorter)

declare smtp_receive.simps [simp del]

lemma take_line_CRLF: "CR \<notin> set l \<Longrightarrow> take_line (l @ CR # LF # rest) = Some (l, rest)"
proof (induction l)
  case (Cons a l)
  then show ?case by (cases l) (auto simp: CR_def)
qed simp

lemma unstuff_stuff [simp]: "unstuff (stuff l) = l"
  by (cases l) (auto simp: stuff_def unstuff_def)

lemma stuff_not_dot: "stuff l \<noteq> ''.''"
  by (cases l) (auto simp: stuff_def)

lemma set_stuff: "set (stuff l) \<subseteq> insert CHR ''.'' (set l)"
  by (auto simp: stuff_def)

lemma smtp_receive_lines:
  assumes "\<forall>l \<in> set ls. CR \<notin> set l"
  shows "smtp_receive (concat (map (\<lambda>l. stuff l @ [CR, LF]) ls) @ CHR ''.'' # CR # LF # rest) = Some (ls, rest)"
  using assms
proof (induction ls)
  case Nil
  have "take_line (''.'' @ CR # LF # rest) = Some (''.'', rest)" by (rule take_line_CRLF) (simp add: CR_def)
  then show ?case by (simp add: smtp_receive.simps)
next
  case (Cons l ls)
  have "CR \<notin> set (stuff l)" using Cons.prems set_stuff [of l] by (auto simp: CR_def)
  then have "take_line (stuff l @ CR # LF # x) = Some (stuff l, x)" for x by (rule take_line_CRLF)
  with Cons show ?case
    by (subst smtp_receive.simps) (simp add: stuff_not_dot)
qed

lemma join_crlf:
  "ls \<noteq> [] \<Longrightarrow> join_with [CR, LF] (map stuff ls) @ CR # LF # x = concat (map (\<lambda>l. stuff l @ [CR, LF]) ls) @ x"
proof (induction ls rule: list_nonempty_induct)
  case (cons l ls)
  then show ?case by (cases ls) auto
qed simp

lemma message_lines_clean: "l \<in> set (message_lines m) \<Longrightarrow> CR \<notin> set l \<and> LF \<notin> set l"
proof -
  have "CR \<notin> set (normalize_newlines m)" by (auto simp: normalize_newlines_def CR_def LF_def)
  then have "CR \<notin> set (if normalize_newlines m \<noteq> [] \<and> last (normalize_newlines m) = LF
      then butlast (normalize_newlines m) else normalize_newlines m)" by (auto dest: in_set_butlastD)
  then show "l \<in> set (message_lines m) \<Longrightarrow> CR \<notin> set l \<and> LF \<notin> set l"
    using split_on_set unfolding message_lines_def Let_def by fastforce
qed

lemma smtp_data_received: "smtp_receive (smtp_data m @ rest) = Some (message_lines m, rest)"
proof -
  have "message_lines m \<noteq> []" by (simp add: message_lines_def Let_def split_on_nonempty)
  then have "smtp_data m @ rest
      = concat (map (\<lambda>l. stuff l @ [CR, LF]) (message_lines m)) @ CHR ''.'' # CR # LF # rest"
    using join_crlf [of "message_lines m" "CHR ''.'' # CR # LF # rest"] by (simp add: smtp_data_def)
  then show ?thesis
    using smtp_receive_lines [of "message_lines m" rest] message_lines_clean by simp
qed

end
