(* ===== verification/Email_Send.thy ===== *)
theory Email_Send
  imports Email_Smtp "HOL-Library.Multiset"
begin

text \<open>
  The tool provider of the email connector: \<open>email_notification_connector/plugin.py\<close>.  A call is verified,
  its message sanitized, its replay identity reserved in the ledger, the message submitted and the
  result settled.  Protobuf decoding and the JSON reader are the parameters \<open>decode_call\<close> and
  \<open>json_loads\<close> (which yields objects with their raw key/value pairs); a response is its message before
  \<open>SerializeToString\<close>.

  \<open>_send\<close> is split at its ledger transactions: \<open>send_reserve\<close>, \<open>send_submit\<close>, \<open>send_finish\<close>.  Calls of
  several workers interleave at these points (\<open>email_step\<close>); the relation refines the intent ledger of
  \<open>Effect_Ledger\<close>, so that no replay identity transmits message content twice.
\<close>

section \<open>Message bounds\<close>

text \<open>A character of category \<open>Cc\<close> in UTF-8: one byte below 32, DEL, or C2 followed by 80 to 9F.\<close>

fun has_control :: "(char \<Rightarrow> bool) \<Rightarrow> string \<Rightarrow> bool" where
  "has_control allowed [] = False"
| "has_control allowed (c # cs) =
    ((ord c < 32 \<or> ord c = 127) \<and> \<not> allowed c
     \<or> ord c = 194 \<and> cs \<noteq> [] \<and> 128 \<le> ord (hd cs) \<and> ord (hd cs) < 160
     \<or> has_control allowed cs)"

definition request_ref_ok :: "string \<Rightarrow> bool" where
  "request_ref_ok s \<longleftrightarrow> 1 \<le> py_len s \<and> py_len s \<le> 200 \<and> list_all (\<lambda>c. 32 \<le> ord c \<and> ord c \<noteq> 127) s"

definition sanitize_message :: "email_notification_send_arguments \<Rightarrow> contract_error + string \<times> string" where
  "sanitize_message args =
    (let subject = strip (es_subject args); text = es_text args in
     bindE (raise_if (subject = [] \<or> py_len subject > 255 \<or> length subject > 1024 \<or> has_control (\<lambda>_. False) subject)
              ContractValueError) (\<lambda>_.
     bindE (raise_if (py_len text > 10000 \<or> length text > 40000 \<or> strip text = []) ContractValueError) (\<lambda>_.
     bindE (raise_if (has_control (\<lambda>c. c \<in> {CR, LF, CHR 0x09}) text) ContractValueError) (\<lambda>_.
     bindE (raise_if (\<not> request_ref_ok (es_request_ref args)) ContractValueError) (\<lambda>_.
       Inr (subject, normalize_newlines text))))))"

section \<open>Settings and responses\<close>

record provider_settings =
  ps_caller :: expected_caller
  ps_context_key :: bytes
  ps_recipients :: "(string \<times> string) list"
  ps_smtp :: smtp_settings

datatype tool_error_code = INVALID_ARGUMENTS | TOOL_NOT_FOUND | PROVIDER_ERROR | TIMEOUT

datatype tool_response = ToolError tool_error_code string bool | ToolOutcome bool string

text \<open>An exception that leaves the provider.\<close>

datatype send_raise = RaisedContract contract_error | RaisedLedger email_error | RaisedSmtp smtp_exception

type_synonym send_result = "send_raise + tool_response"

definition submission_response ::
    "(rat \<Rightarrow> string) \<Rightarrow> schema_check \<Rightarrow> email_submission \<Rightarrow> send_result" where
  "submission_response frepr schema_ok sub =
    (case bindE (bindE (serialize_email_submission schema_ok sub) (parse_email_submission schema_ok)) (\<lambda>result.
          bindE (serialize_email_submission schema_ok result) (\<lambda>wire.
            Inr (ToolOutcome (em_status result = SubmissionRejected) (json_dumps frepr False (PDict wire))))) of
       Inl e \<Rightarrow> Inl (RaisedContract e)
     | Inr r \<Rightarrow> Inr r)"

definition request_id_digest :: "(rat \<Rightarrow> string) \<Rightarrow> trusted_context \<Rightarrow> contract_error + string" where
  "request_id_digest frepr c =
    payload_sha256 frepr (PDict
      [(''method'', PStr (tc_method c)), (''operation_id'', PStr (tc_operation_id c)),
       (''binding_id'', PStr (tc_binding_id c)), (''caller_workload'', PStr (tc_caller_workload c)),
       (''audience'', PStr (tc_audience c)), (''issuer'', PStr (tc_issuer c)), (''subject'', PStr (tc_subject c)),
       (''organization_id'', PStr (tc_organization_id c)), (''workspace_id'', opt_str (tc_workspace_id c)),
       (''request_id'', PStr (tc_request_id c))])"

section \<open>Sending\<close>

text \<open>What a call has fixed before its first transaction.\<close>

record email_job =
  ej_call :: email_call
  ej_recipient :: string
  ej_subject :: string
  ej_text :: string
  ej_script :: smtp_script

text \<open>What the environment contributes to one call: the clock and the failures of the ledger file, and the
  behaviour of the server.\<close>

record email_world =
  ew_reserve_io :: bool
  ew_reserve_now :: string
  ew_mark_io :: bool
  ew_mark_now :: string
  ew_complete_io :: bool
  ew_complete_now :: string
  ew_script :: smtp_script

definition send_prepare ::
    "(rat \<Rightarrow> string) \<Rightarrow> schema_check \<Rightarrow> provider_settings \<Rightarrow> email_world \<Rightarrow> pydict \<Rightarrow> trusted_context
     \<Rightarrow> send_result + email_job" where
  "send_prepare frepr schema_ok settings world raw context =
    (case bindE (parse_email_notification_send_arguments schema_ok raw) (\<lambda>args.
          case map_of (ps_recipients settings) (es_recipient_ref args) of
            None \<Rightarrow> Inl ContractKeyError
          | Some recipient \<Rightarrow> bindE (sanitize_message args) (\<lambda>(subject, text). Inr (args, recipient, subject, text))) of
       Inl _ \<Rightarrow> Inl (Inr (ToolError INVALID_ARGUMENTS ''email arguments are outside the configured bounds'' False))
     | Inr (args, recipient, subject, text) \<Rightarrow>
        (case write_replay_identity frepr schema_ok context raw of
           Inl _ \<Rightarrow> Inl (Inr (ToolError INVALID_ARGUMENTS ''email replay identity is malformed'' False))
         | Inr (identity_digest, payload_digest) \<Rightarrow>
            (case request_id_digest frepr context of
               Inl e \<Rightarrow> Inl (Inl (RaisedContract e))
             | Inr request_digest \<Rightarrow>
                Inr \<lparr>ej_call = \<lparr>ec_identity = \<lparr>identity_sha256 = identity_digest, request_id_sha256 = request_digest,
                         payload_sha256_of = payload_digest, request_ref = es_request_ref args\<rparr>,
                       ec_reserve_io = ew_reserve_io world, ec_reserve_now = ew_reserve_now world,
                       ec_mark_io = ew_mark_io world, ec_mark_now = ew_mark_now world,
                       ec_complete_io = ew_complete_io world, ec_complete_now = ew_complete_now world\<rparr>,
                     ej_recipient = recipient, ej_subject = subject, ej_text = text,
                     ej_script = ew_script world\<rparr>)))"

abbreviation job_ref :: "email_job \<Rightarrow> string" where
  "job_ref j \<equiv> request_ref (ec_identity (ej_call j))"

text \<open>The reservation: \<open>None\<close> when the call goes on to submit.\<close>

definition send_reserve ::
    "(rat \<Rightarrow> string) \<Rightarrow> schema_check \<Rightarrow> email_job \<Rightarrow> email_ledger \<Rightarrow> send_result option \<times> email_ledger" where
  "send_reserve frepr schema_ok j l =
    (case reserve (ec_reserve_io (ej_call j)) (ec_reserve_now (ej_call j)) (ec_identity (ej_call j)) l of
       (Inl ReplayConflict, l') \<Rightarrow>
         (Some (Inr (ToolError INVALID_ARGUMENTS
            ''email request identity was already used with different content'' False)), l')
     | (Inl LedgerFailure, l') \<Rightarrow>
         (Some (Inr (ToolError PROVIDER_ERROR ''private email submission ledger is unavailable'' True)), l')
     | (Inl e, l') \<Rightarrow> (Some (Inl (RaisedLedger e)), l')
     | (Inr (Some previous), l') \<Rightarrow> (Some (submission_response frepr schema_ok previous), l')
     | (Inr None, l') \<Rightarrow> (None, l'))"

datatype submit_outcome = RetryLater string | Submitted email_submission | Escaped smtp_exception

definition send_submit ::
    "provider_settings \<Rightarrow> (string \<Rightarrow> string \<Rightarrow> string \<Rightarrow> string \<Rightarrow> bytes option) \<Rightarrow> email_job
     \<Rightarrow> submit_outcome \<times> smtp_command list" where
  "send_submit settings serialize j =
    (case smtp_submit (ps_smtp settings) serialize (ej_script j) (ej_recipient j) (ej_subject j) (ej_text j) (job_ref j) of
       (res, cmds) \<Rightarrow>
         ((case res of
             Inr sub \<Rightarrow> Submitted sub
           | Inl (SMTPPreSendFailure retryable code) \<Rightarrow>
               if retryable then RetryLater code else Submitted (plain_submission (job_ref j) SubmissionRejected)
           | Inl (Uncaught e) \<Rightarrow>
               if e = ValueError then Submitted (plain_submission (job_ref j) SubmissionRejected) else Escaped e), cmds))"

definition send_finish ::
    "(rat \<Rightarrow> string) \<Rightarrow> schema_check \<Rightarrow> email_job \<Rightarrow> submit_outcome \<Rightarrow> email_ledger \<Rightarrow> send_result \<times> email_ledger" where
  "send_finish frepr schema_ok j outcome l =
    (let c = ej_call j; unknown = submission_response frepr schema_ok (plain_submission (job_ref j) SubmissionUnknown) in
     case outcome of
       RetryLater code \<Rightarrow>
         (case mark_retryable (ec_mark_io c) (ec_mark_now c) (ec_identity c) l of
            (Inl LedgerFailure, l') \<Rightarrow> (unknown, l')
          | (Inl e, l') \<Rightarrow> (Inl (RaisedLedger e), l')
          | (Inr _, l') \<Rightarrow>
             (Inr (ToolError (if code = ''SMTP_UNAVAILABLE'' then TIMEOUT else PROVIDER_ERROR)
                ''SMTP connection failed before message content was sent'' True), l'))
     | Submitted sub \<Rightarrow>
         (case complete (ec_complete_io c) (ec_complete_now c) (ec_identity c) sub l of
            (Inl LedgerFailure, l') \<Rightarrow> (unknown, l')
          | (Inl e, l') \<Rightarrow> (Inl (RaisedLedger e), l')
          | (Inr stored, l') \<Rightarrow> (submission_response frepr schema_ok stored, l'))
     | Escaped e \<Rightarrow> (Inl (RaisedSmtp e), l))"

definition send_job ::
    "(rat \<Rightarrow> string) \<Rightarrow> schema_check \<Rightarrow> provider_settings \<Rightarrow> (string \<Rightarrow> string \<Rightarrow> string \<Rightarrow> string \<Rightarrow> bytes option)
     \<Rightarrow> email_job \<Rightarrow> email_ledger \<Rightarrow> send_result \<times> email_ledger \<times> smtp_command list" where
  "send_job frepr schema_ok settings serialize j l =
    (case send_reserve frepr schema_ok j l of
       (Some r, l1) \<Rightarrow> (r, l1, [])
     | (None, l1) \<Rightarrow>
        (case send_submit settings serialize j of
           (outcome, cmds) \<Rightarrow>
             (case send_finish frepr schema_ok j outcome l1 of (r, l2) \<Rightarrow> (r, l2, cmds))))"

definition send ::
    "(rat \<Rightarrow> string) \<Rightarrow> schema_check \<Rightarrow> provider_settings \<Rightarrow> (string \<Rightarrow> string \<Rightarrow> string \<Rightarrow> string \<Rightarrow> bytes option)
     \<Rightarrow> email_world \<Rightarrow> pydict \<Rightarrow> trusted_context \<Rightarrow> email_ledger \<Rightarrow> send_result \<times> email_ledger \<times> smtp_command list" where
  "send frepr schema_ok settings serialize world raw context l =
    (case send_prepare frepr schema_ok settings world raw context of
       Inl r \<Rightarrow> (r, l, [])
     | Inr j \<Rightarrow> send_job frepr schema_ok settings serialize j l)"

section \<open>The provider\<close>

text \<open>\<open>isoformat(timespec="seconds")\<close> with \<open>Z\<close> for the UTC offset.\<close>

definition checked_at_text :: "datetime \<Rightarrow> string" where
  "checked_at_text t = serialize_timestamp (t\<lparr>dt_microsecond := 0\<rparr>)"

definition health ::
    "schema_check \<Rightarrow> provider_settings \<Rightarrow> smtp_script \<Rightarrow> datetime \<Rightarrow> pydict \<Rightarrow> send_result" where
  "health schema_ok settings sc now raw =
    (case parse_email_connection_health_arguments schema_ok raw of
       Inl _ \<Rightarrow> Inr (ToolError INVALID_ARGUMENTS ''email health arguments are malformed'' False)
     | Inr _ \<Rightarrow>
        (case check_connection (ps_smtp settings) sc of
           Inl (Uncaught e) \<Rightarrow> Inl (RaisedSmtp e)
         | Inl _ \<Rightarrow> Inl (RaisedSmtp OtherOSError)
         | Inr h \<Rightarrow>
            Inr (ToolOutcome (\<not> sh_available h)
              (json_dumps (\<lambda>_. []) False (PDict
                [(''status'', PStr (if sh_available h then ''AVAILABLE'' else ''UNAVAILABLE'')),
                 (''checked_at'', PStr (checked_at_text now)), (''security_mode'', PStr (sh_security_mode h)),
                 (''authentication'', PStr (sh_authentication h))])))))"

record call_request =
  cl_binding_id :: string
  cl_provider_tool_id :: string
  cl_arguments_json :: string

text \<open>\<open>reject_duplicate_keys\<close> runs on every object of the JSON text.\<close>

fun unique_keys :: "pyval \<Rightarrow> bool" where
  "unique_keys (PList xs) = list_all unique_keys xs"
| "unique_keys (PDict d) = (distinct (map fst d) \<and> list_all (\<lambda>(k, v). unique_keys v) d)"
| "unique_keys _ = True"

definition decode_json_object :: "(string \<Rightarrow> pyval option) \<Rightarrow> string \<Rightarrow> contract_error + pydict" where
  "decode_json_object json_loads s =
    (if length s > 64 * 1024 then Inl ContractValueError
     else
       (case json_loads s of
          None \<Rightarrow> Inl ContractValueError
        | Some v \<Rightarrow>
           if \<not> unique_keys v then Inl ContractValueError
           else (case v of PDict d \<Rightarrow> Inr d | _ \<Rightarrow> Inl ContractValueError)))"

definition SEND_TOOL_ID :: string where "SEND_TOOL_ID = ''email_notification_send''"
definition HEALTH_TOOL_ID :: string where "HEALTH_TOOL_ID = ''email_connection_health''"

definition operation_of :: "string \<Rightarrow> string" where
  "operation_of tool = (case map_of TOOL_OPERATIONS tool of None \<Rightarrow> [] | Some op \<Rightarrow> op)"

record tool_descriptor =
  td_binding_id :: string
  td_provider_tool_id :: string
  td_display_name :: string
  td_description :: string
  td_input_schema_json :: string
  td_output_schema_json :: string

datatype invoke_result = InvokeRefused string | InvokeRaised send_raise | InvokeList string "tool_descriptor list" | InvokeCall tool_response

definition answer :: "send_result \<Rightarrow> invoke_result" where
  "answer r = (case r of Inl e \<Rightarrow> InvokeRaised e | Inr t \<Rightarrow> InvokeCall t)"

definition call_tool ::
    "(rat \<Rightarrow> string) \<Rightarrow> schema_check \<Rightarrow> (string \<Rightarrow> pyval option) \<Rightarrow> (bytes \<Rightarrow> call_request option)
     \<Rightarrow> (string \<Rightarrow> string \<Rightarrow> string \<Rightarrow> string \<Rightarrow> bytes option) \<Rightarrow> provider_settings \<Rightarrow> email_world \<Rightarrow> datetime
     \<Rightarrow> bytes \<Rightarrow> email_ledger \<Rightarrow> invoke_result \<times> email_ledger \<times> smtp_command list" where
  "call_tool frepr schema_ok json_loads decode_call serialize settings world now payload l =
    (case decode_call payload of
       None \<Rightarrow> (InvokeRefused ''INVALID_REQUEST: tool request is malformed'', l, [])
     | Some request \<Rightarrow>
        if cl_binding_id request \<noteq> ex_binding_id (ps_caller settings) then
          (InvokeCall (ToolError INVALID_ARGUMENTS ''tool binding does not match this provider'' False), l, [])
        else if cl_provider_tool_id request \<notin> {SEND_TOOL_ID, HEALTH_TOOL_ID} then
          (InvokeCall (ToolError TOOL_NOT_FOUND ''provider tool is not available'' False), l, [])
        else
          (case bindE (decode_json_object json_loads (cl_arguments_json request)) (parse_tool_envelope schema_ok) of
             Inl _ \<Rightarrow> (InvokeCall (ToolError INVALID_ARGUMENTS ''signed tool arguments are malformed'' False), l, [])
           | Inr envelope \<Rightarrow>
              let tool_id = cl_provider_tool_id request; arguments = te_arguments envelope;
                  context = te_caller_context envelope in
              if \<not> verify_typed_context frepr schema_ok tool_id (operation_of tool_id) (PDict arguments) context
                    (ps_context_key settings) (ps_caller settings) now then
                (InvokeCall (ToolError PROVIDER_ERROR ''trusted caller context was rejected'' False), l, [])
              else if tool_id = SEND_TOOL_ID then
                apfst answer (send frepr schema_ok settings serialize world arguments context l)
              else (answer (health schema_ok settings (ew_script world) now arguments), l, [])))"

definition enum_schema :: "string list \<Rightarrow> pyval" where
  "enum_schema xs = PDict [(''type'', PStr ''string''), (''enum'', PList (map PStr xs))]"

definition HEALTH_OUTPUT_SCHEMA :: pyval where
  "HEALTH_OUTPUT_SCHEMA = PDict
    [(''$schema'', PStr ''https://json-schema.org/draft/2020-12/schema''), (''type'', PStr ''object''),
     (''required'', PList (map PStr [''status'', ''checked_at'', ''security_mode'', ''authentication''])),
     (''properties'', PDict
        [(''status'', enum_schema [''AVAILABLE'', ''UNAVAILABLE'']),
         (''checked_at'', PDict [(''type'', PStr ''string''), (''format'', PStr ''date-time'')]),
         (''security_mode'', enum_schema [''TLS'', ''LOOPBACK_TEST_PLAIN'']),
         (''authentication'', enum_schema [''CONFIGURED'', ''NOT_CONFIGURED''])]),
     (''additionalProperties'', PBool False)]"

text \<open>The catalog.  \<open>schema_for\<close> reads the schema bundle; \<open>decode_list\<close> yields the optional binding field.\<close>

definition canonical_tools :: "(string \<Rightarrow> pyval) \<Rightarrow> (string \<times> string \<times> string \<times> pyval \<times> pyval) list" where
  "canonical_tools schema_for =
    [(SEND_TOOL_ID, ''Send Email Notification'',
      ''Send plain-text notification to a binding-configured recipient_ref. A signed caller context is required. ACCEPTED confirms SMTP acceptance, not delivery.'',
      schema_for ''EmailNotificationSendEnvelope'', schema_for ''EmailSubmission''),
     (HEALTH_TOOL_ID, ''Check Email Connection'',
      ''Check the binding-configured SMTP connection using a signed caller context.'',
      schema_for ''EmailConnectionHealthEnvelope'', HEALTH_OUTPUT_SCHEMA)]"

definition list_tools ::
    "(rat \<Rightarrow> string) \<Rightarrow> (string \<Rightarrow> pyval) \<Rightarrow> (bytes \<Rightarrow> string option option) \<Rightarrow> provider_settings \<Rightarrow> bytes \<Rightarrow> invoke_result" where
  "list_tools frepr schema_for decode_list settings payload =
    (case decode_list payload of
       None \<Rightarrow> InvokeRefused ''INVALID_REQUEST: catalog request is malformed''
     | Some binding \<Rightarrow>
        if binding \<noteq> None \<and> binding \<noteq> Some (ex_binding_id (ps_caller settings))
        then InvokeRefused ''INVALID_REQUEST: binding identity does not match''
        else InvokeList ''0.1.0''
          (map (\<lambda>(tool, name, description, input_schema, output_schema).
             \<lparr>td_binding_id = ex_binding_id (ps_caller settings), td_provider_tool_id = tool, td_display_name = name,
              td_description = description, td_input_schema_json = json_dumps frepr False input_schema,
              td_output_schema_json = json_dumps frepr False output_schema\<rparr>)
           (canonical_tools schema_for)))"

definition on_invoke ::
    "(rat \<Rightarrow> string) \<Rightarrow> schema_check \<Rightarrow> (string \<Rightarrow> pyval) \<Rightarrow> (string \<Rightarrow> pyval option) \<Rightarrow> (bytes \<Rightarrow> string option option)
     \<Rightarrow> (bytes \<Rightarrow> call_request option) \<Rightarrow> (string \<Rightarrow> string \<Rightarrow> string \<Rightarrow> string \<Rightarrow> bytes option) \<Rightarrow> provider_settings
     \<Rightarrow> email_world \<Rightarrow> datetime \<Rightarrow> string \<Rightarrow> string \<Rightarrow> bytes \<Rightarrow> string option \<Rightarrow> email_ledger
     \<Rightarrow> invoke_result \<times> email_ledger \<times> smtp_command list" where
  "on_invoke frepr schema_ok schema_for json_loads decode_list decode_call serialize settings world now
     capability action payload type_url l =
    (if capability \<noteq> ''tool.provider.v1'' then (InvokeRefused ''INVALID_REQUEST: unsupported capability'', l, [])
     else if action = ''list_tools'' then
       (if type_url \<noteq> None \<and> type_url \<noteq> Some ''type.cyrene.io/cyrene.tool.provider.v1.ListToolsRequest''
        then (InvokeRefused ''INVALID_REQUEST: catalog payload type mismatch'', l, [])
        else (list_tools frepr schema_for decode_list settings payload, l, []))
     else if action = ''call_tool'' then
       (if type_url \<noteq> None \<and> type_url \<noteq> Some ''type.cyrene.io/cyrene.tool.provider.v1.CallToolRequest''
        then (InvokeRefused ''INVALID_REQUEST: call payload type mismatch'', l, [])
        else call_tool frepr schema_ok json_loads decode_call serialize settings world now payload l)
     else (InvokeRefused ''METHOD_NOT_FOUND: unsupported provider method'', l, []))"

end
