(* ===== verification/Email_Send_Props.thy ===== *)
theory Email_Send_Props
  imports Email_Send
begin

text \<open>
  Properties of the email connector: interleaved calls refine the intent ledger and never transmit the
  content of one replay identity twice; the acceptance boundary of one submission; replays; the gate of
  the signed context; the allowlist and header safety.
\<close>

section \<open>Interleaved calls\<close>

record email_system =
  es_ledger :: email_ledger
  es_reserved :: "email_job list"
  es_submitted :: "email_job list"
  es_wire :: "email_job list"

text \<open>Workers interleave at the ledger transactions and at the SMTP session, and may die between any two of
  them.  \<open>es_wire\<close> records the calls whose message content left the process.\<close>

inductive email_step ::
    "(rat \<Rightarrow> string) \<Rightarrow> schema_check \<Rightarrow> provider_settings \<Rightarrow> (string \<Rightarrow> string \<Rightarrow> string \<Rightarrow> string \<Rightarrow> bytes option)
     \<Rightarrow> email_system \<Rightarrow> email_system \<Rightarrow> bool"
  for frepr schema_ok settings serialize where
  reserving: "send_reserve frepr schema_ok j (es_ledger s) = (None, l) \<Longrightarrow>
    email_step frepr schema_ok settings serialize s (s\<lparr>es_ledger := l, es_reserved := j # es_reserved s\<rparr>)"
| answering: "send_reserve frepr schema_ok j (es_ledger s) = (Some r, l) \<Longrightarrow>
    email_step frepr schema_ok settings serialize s (s\<lparr>es_ledger := l\<rparr>)"
| submitting: "j \<in> set (es_reserved s) \<Longrightarrow> send_submit settings serialize j = (outcome, cmds) \<Longrightarrow>
    email_step frepr schema_ok settings serialize s
      (s\<lparr>es_reserved := remove1 j (es_reserved s), es_submitted := j # es_submitted s,
         es_wire := (if content_sent cmds then j # es_wire s else es_wire s)\<rparr>)"
| finishing: "j \<in> set (es_submitted s) \<Longrightarrow> send_submit settings serialize j = (outcome, cmds) \<Longrightarrow>
    send_finish frepr schema_ok j outcome (es_ledger s) = (r, l) \<Longrightarrow>
    email_step frepr schema_ok settings serialize s
      (s\<lparr>es_ledger := l, es_submitted := remove1 j (es_submitted s)\<rparr>)"
| dying_reserved: "j \<in> set (es_reserved s) \<Longrightarrow>
    email_step frepr schema_ok settings serialize s (s\<lparr>es_reserved := remove1 j (es_reserved s)\<rparr>)"
| dying_submitted: "j \<in> set (es_submitted s) \<Longrightarrow>
    email_step frepr schema_ok settings serialize s (s\<lparr>es_submitted := remove1 j (es_submitted s)\<rparr>)"

definition fresh_email :: "email_system \<Rightarrow> bool" where
  "fresh_email s \<longleftrightarrow> email_inv (es_ledger s) \<and> es_reserved s = [] \<and> es_submitted s = [] \<and> es_wire s = []"

section \<open>The acceptance boundary of a call\<close>

lemma send_submit_cases:
  assumes "send_submit settings serialize j = (outcome, cmds)"
  obtains (not_sent) "\<not> content_sent cmds"
  | (sent) sub where "content_sent cmds" "outcome = Submitted sub"
      "em_status sub = SubmissionAccepted \<longrightarrow> sc_content (ej_script j) = Inr 250"
proof -
  obtain res where run: "smtp_submit (ps_smtp settings) serialize (ej_script j) (ej_recipient j) (ej_subject j) (ej_text j)
      (job_ref j) = (res, cmds)" using assms by (auto simp: send_submit_def split: prod.splits)
  show thesis
  proof (rule smtp_submit_cases [OF run])
    assume "\<not> content_sent cmds"
    then show thesis by (rule not_sent)
  next
    fix message assume "content_sent cmds" "res = content_result (job_ref j) (sc_content (ej_script j))"
    with run assms show thesis
      by (auto simp: send_submit_def content_result_def is_os_error_def plain_submission_def split: sum.splits if_splits
          intro!: sent)
  qed
qed

lemma send_reserve_grant:
  "fst (email_grant (ej_call j) l) = (fst (send_reserve frepr schema_ok j l) = None)"
  "snd (email_grant (ej_call j) l) = snd (send_reserve frepr schema_ok j l)"
  by (auto simp: email_grant_def send_reserve_def split: prod.splits sum.splits option.splits email_error.splits)

lemma send_finish_ledger:
  "snd (send_finish frepr schema_ok j (RetryLater code) l) = email_release (ej_call j) l"
  "snd (send_finish frepr schema_ok j (Submitted sub) l) = email_settle (ej_call j) sub l"
  "snd (send_finish frepr schema_ok j (Escaped e) l) = l"
  by (auto simp: send_finish_def email_release_def email_settle_def Let_def
      split: prod.splits sum.splits option.splits email_error.splits)

section \<open>Refinement\<close>

text \<open>The intent ledger a system of workers implements: an owner is a worker that has not sent content, an
  effect is a transmission.\<close>

definition owners ::
    "provider_settings \<Rightarrow> (string \<Rightarrow> string \<Rightarrow> string \<Rightarrow> string \<Rightarrow> bytes option) \<Rightarrow> email_system \<Rightarrow> email_job list" where
  "owners settings serialize s =
    es_reserved s @ filter (\<lambda>j. \<not> content_sent (snd (send_submit settings serialize j))) (es_submitted s)"

definition implements ::
    "provider_settings \<Rightarrow> (string \<Rightarrow> string \<Rightarrow> string \<Rightarrow> string \<Rightarrow> bytes option) \<Rightarrow> email_system
     \<Rightarrow> (email_ledger, email_call) effect_system \<Rightarrow> bool" where
  "implements settings serialize s t \<longleftrightarrow>
     fs_ledger t = es_ledger s
   \<and> mset (fs_owned t) = mset (map ej_call (owners settings serialize s))
   \<and> mset (fs_effects t) = mset (map ej_call (es_wire s))
   \<and> (\<forall>j \<in> set (es_submitted s). content_sent (snd (send_submit settings serialize j)) \<longrightarrow> j \<in> set (es_wire s))"

abbreviation intent_step :: "(email_ledger, email_call) effect_system \<Rightarrow> (email_ledger, email_call) effect_system \<Rightarrow> bool" where
  "intent_step \<equiv> effect_step (\<lambda>_. True) email_grant email_release email_settle (\<lambda>_ _. False)"

lemma owners_mset:
  "mset (owners settings serialize s) = mset (es_reserved s)
     + filter_mset (\<lambda>j. \<not> content_sent (snd (send_submit settings serialize j))) (mset (es_submitted s))"
  by (simp add: owners_def)

lemma filter_mset_drop:
  "x \<in># M \<Longrightarrow> filter_mset P (M - {#x#}) = (if P x then filter_mset P M - {#x#} else filter_mset P M)"
  by (auto simp: filter_diff_mset)

text \<open>The end of an ownership, on both sides.\<close>

lemma owner_drop:
  assumes "mset (fs_owned t) = mset (map ej_call (owners settings serialize s))"
    and "j \<in> set (owners settings serialize s)"
    and "mset (owners settings serialize s') = mset (owners settings serialize s) - {#j#}"
  shows "ej_call j \<in> set (fs_owned t)"
    and "mset (remove1 (ej_call j) (fs_owned t)) = mset (map ej_call (owners settings serialize s'))"
proof -
  show "ej_call j \<in> set (fs_owned t)" using assms(1,2) by (metis imageI mset_eq_setD set_map)
  have "{#j#} \<subseteq># mset (owners settings serialize s)" using assms(2) by simp
  then show "mset (remove1 (ej_call j) (fs_owned t)) = mset (map ej_call (owners settings serialize s'))"
    using assms(1,3) by (simp add: image_mset_Diff)
qed

abbreviation simulated ::
    "provider_settings \<Rightarrow> (string \<Rightarrow> string \<Rightarrow> string \<Rightarrow> string \<Rightarrow> bytes option) \<Rightarrow> email_system
     \<Rightarrow> (email_ledger, email_call) effect_system \<Rightarrow> bool" where
  "simulated settings serialize s' t \<equiv>
     implements settings serialize s' t \<or> (\<exists>t'. intent_step t t' \<and> implements settings serialize s' t')"

lemma simulated_submitting:
  assumes sim: "implements settings serialize s t"
    and submitting: "j \<in> set (es_reserved s)" "send_submit settings serialize j = (outcome, cmds)"
      "s' = s\<lparr>es_reserved := remove1 j (es_reserved s), es_submitted := j # es_submitted s,
              es_wire := (if content_sent cmds then j # es_wire s else es_wire s)\<rparr>"
  shows "simulated settings serialize s' t"
proof -
  let ?sent = "\<lambda>j. content_sent (snd (send_submit settings serialize j))"
  have ledger: "fs_ledger t = es_ledger s" and own: "mset (fs_owned t) = mset (map ej_call (owners settings serialize s))"
    using sim by (simp_all add: implements_def)
  show ?thesis
  proof (cases "content_sent cmds")
    case False
    with submitting have "mset (owners settings serialize s') = mset (owners settings serialize s)"
      by (simp add: owners_mset)
    with sim submitting False show ?thesis by (simp add: implements_def)
  next
    case True
    have j: "j \<in> set (owners settings serialize s)" using submitting by (simp add: owners_def)
    have "mset (owners settings serialize s') = mset (owners settings serialize s) - {#j#}"
      using submitting True by (simp add: owners_mset)
    note drop = owner_drop [OF own j this]
    then have "intent_step t (t\<lparr>fs_owned := remove1 (ej_call j) (fs_owned t), fs_effects := ej_call j # fs_effects t\<rparr>)"
      by (intro effect_step.effect)
    moreover have "implements settings serialize s'
        (t\<lparr>fs_owned := remove1 (ej_call j) (fs_owned t), fs_effects := ej_call j # fs_effects t\<rparr>)"
      using sim submitting True drop(2) by (auto simp: implements_def)
    ultimately show ?thesis by blast
  qed
qed

lemma simulated_finishing:
  assumes sim: "implements settings serialize s t"
    and finishing: "j \<in> set (es_submitted s)" "send_submit settings serialize j = (outcome, cmds)"
      "send_finish frepr schema_ok j outcome (es_ledger s) = (r, l)"
      "s' = s\<lparr>es_ledger := l, es_submitted := remove1 j (es_submitted s)\<rparr>"
  shows "simulated settings serialize s' t"
proof -
  let ?sent = "\<lambda>j. content_sent (snd (send_submit settings serialize j))"
  have ledger: "fs_ledger t = es_ledger s" and own: "mset (fs_owned t) = mset (map ej_call (owners settings serialize s))"
    using sim by (simp_all add: implements_def)
  have l: "l = snd (send_finish frepr schema_ok j outcome (es_ledger s))" using finishing by simp
  have wire: "\<forall>i \<in> set (remove1 j (es_submitted s)). ?sent i \<longrightarrow> i \<in> set (es_wire s)"
    using sim set_remove1_subset [of j "es_submitted s"] by (auto simp: implements_def)
  show ?thesis
  proof (cases "?sent j")
    case True
    obtain sub where sub: "outcome = Submitted sub"
      using finishing(2) by (rule send_submit_cases) (use True finishing(2) in auto)
    have "mset (owners settings serialize s') = mset (owners settings serialize s)"
      using finishing True by (simp add: owners_mset filter_mset_drop)
    moreover have "ej_call j \<in> set (fs_effects t)"
      using sim finishing(1) True by (metis (mono_tags, lifting) imageI implements_def mset_eq_setD set_map)
    then have "intent_step t (t\<lparr>fs_ledger := email_settle (ej_call j) sub (fs_ledger t)\<rparr>)"
      by (intro effect_step.settled_sent)
    ultimately show ?thesis
      using sim finishing l sub wire ledger by (auto simp: implements_def send_finish_ledger)
  next
    case False
    have j: "j \<in> set (owners settings serialize s)" using finishing False by (simp add: owners_def)
    have "mset (owners settings serialize s') = mset (owners settings serialize s) - {#j#}"
      using finishing False by (simp add: owners_mset filter_mset_drop)
    note drop = owner_drop [OF own j this]
    have "\<exists>t'. intent_step t t' \<and> fs_ledger t' = l \<and> fs_owned t' = remove1 (ej_call j) (fs_owned t)
        \<and> fs_effects t' = fs_effects t"
    proof (cases outcome)
      case (RetryLater code)
      with effect_step.released [OF drop(1)] l ledger show ?thesis
        by (intro exI [of _ "t\<lparr>fs_owned := remove1 (ej_call j) (fs_owned t), fs_ledger := l\<rparr>"]) (simp add: send_finish_ledger)
    next
      case (Submitted sub)
      with effect_step.settled_unsent [OF drop(1)] l ledger show ?thesis
        by (intro exI [of _ "t\<lparr>fs_owned := remove1 (ej_call j) (fs_owned t), fs_ledger := l\<rparr>"]) (simp add: send_finish_ledger)
    next
      case (Escaped e)
      with effect_step.crashed [OF drop(1)] l ledger show ?thesis
        by (intro exI [of _ "t\<lparr>fs_owned := remove1 (ej_call j) (fs_owned t)\<rparr>"]) (simp add: send_finish_ledger)
    qed
    with sim finishing wire drop(2) show ?thesis by (auto simp: implements_def)
  qed
qed

lemma simulated_dying_reserved:
  assumes sim: "implements settings serialize s t"
    and dying_reserved: "j \<in> set (es_reserved s)" "s' = s\<lparr>es_reserved := remove1 j (es_reserved s)\<rparr>"
  shows "simulated settings serialize s' t"
proof -
  let ?sent = "\<lambda>j. content_sent (snd (send_submit settings serialize j))"
  have ledger: "fs_ledger t = es_ledger s" and own: "mset (fs_owned t) = mset (map ej_call (owners settings serialize s))"
    using sim by (simp_all add: implements_def)
  have j: "j \<in> set (owners settings serialize s)" using dying_reserved by (simp add: owners_def)
  have "mset (owners settings serialize s') = mset (owners settings serialize s) - {#j#}"
    using dying_reserved by (simp add: owners_mset)
  note drop = owner_drop [OF own j this]
  then have "intent_step t (t\<lparr>fs_owned := remove1 (ej_call j) (fs_owned t)\<rparr>)" by (intro effect_step.crashed)
  moreover have "implements settings serialize s' (t\<lparr>fs_owned := remove1 (ej_call j) (fs_owned t)\<rparr>)"
    using sim dying_reserved drop(2) by (simp add: implements_def)
  ultimately show ?thesis by blast
qed

lemma simulated_dying_submitted:
  assumes sim: "implements settings serialize s t"
    and dying_submitted: "j \<in> set (es_submitted s)" "s' = s\<lparr>es_submitted := remove1 j (es_submitted s)\<rparr>"
  shows "simulated settings serialize s' t"
proof -
  let ?sent = "\<lambda>j. content_sent (snd (send_submit settings serialize j))"
  have ledger: "fs_ledger t = es_ledger s" and own: "mset (fs_owned t) = mset (map ej_call (owners settings serialize s))"
    using sim by (simp_all add: implements_def)
  have wire: "\<forall>i \<in> set (remove1 j (es_submitted s)). ?sent i \<longrightarrow> i \<in> set (es_wire s)"
    using sim set_remove1_subset [of j "es_submitted s"] by (auto simp: implements_def)
  show ?thesis
  proof (cases "?sent j")
    case True
    then have "mset (owners settings serialize s') = mset (owners settings serialize s)"
      using dying_submitted by (simp add: owners_mset filter_mset_drop)
    with sim dying_submitted wire show ?thesis by (simp add: implements_def)
  next
    case False
    have j: "j \<in> set (owners settings serialize s)" using dying_submitted False by (simp add: owners_def)
    have "mset (owners settings serialize s') = mset (owners settings serialize s) - {#j#}"
      using dying_submitted False by (simp add: owners_mset filter_mset_drop)
    note drop = owner_drop [OF own j this]
    then have "intent_step t (t\<lparr>fs_owned := remove1 (ej_call j) (fs_owned t)\<rparr>)" by (intro effect_step.crashed)
    moreover have "implements settings serialize s' (t\<lparr>fs_owned := remove1 (ej_call j) (fs_owned t)\<rparr>)"
      using sim dying_submitted wire drop(2) by (simp add: implements_def)
    ultimately show ?thesis by blast
  qed
qed

lemma simulated_step:
  assumes step: "email_step frepr schema_ok settings serialize s s'" and sim: "implements settings serialize s t"
  shows "simulated settings serialize s' t"
proof -
  have ledger: "fs_ledger t = es_ledger s" using sim by (simp add: implements_def)
  from step show ?thesis
  proof cases
    case (reserving j l)
    then have "email_grant (ej_call j) (fs_ledger t) = (True, l)"
      using send_reserve_grant [of j "es_ledger s" frepr schema_ok] ledger by (simp add: prod_eq_iff)
    then have "intent_step t (t\<lparr>fs_ledger := l, fs_owned := ej_call j # fs_owned t\<rparr>)" by (auto intro: effect_step.intros)
    moreover have "implements settings serialize s' (t\<lparr>fs_ledger := l, fs_owned := ej_call j # fs_owned t\<rparr>)"
      using sim reserving by (simp add: implements_def owners_def)
    ultimately show ?thesis by blast
  next
    case (answering j r l)
    then have "email_grant (ej_call j) (fs_ledger t) = (False, l)"
      using send_reserve_grant [of j "es_ledger s" frepr schema_ok] ledger by (simp add: prod_eq_iff)
    then have "intent_step t (t\<lparr>fs_ledger := l\<rparr>)" by (auto intro: effect_step.intros)
    moreover have "implements settings serialize s' (t\<lparr>fs_ledger := l\<rparr>)" using sim answering by (simp add: implements_def owners_def)
    ultimately show ?thesis by blast
  next
    case submitting
    with sim show ?thesis by (intro simulated_submitting)
  next
    case finishing
    with sim show ?thesis by (intro simulated_finishing)
  next
    case dying_reserved
    with sim show ?thesis by (intro simulated_dying_reserved)
  next
    case dying_submitted
    with sim show ?thesis by (intro simulated_dying_submitted)
  qed
qed

lemma email_refines_intent:
  assumes "reach fresh_email (email_step frepr schema_ok settings serialize) s"
  shows "\<exists>t. reach (fresh_system email_inv) intent_step t \<and> implements settings serialize s t"
  using assms
proof (induction rule: reach.induct)
  case (reach_init s)
  then have "fresh_system email_inv \<lparr>fs_ledger = es_ledger s, fs_owned = [], fs_effects = []\<rparr>"
    "implements settings serialize s \<lparr>fs_ledger = es_ledger s, fs_owned = [], fs_effects = []\<rparr>"
    by (simp_all add: fresh_email_def fresh_system_def implements_def owners_def)
  then show ?case by (blast intro: reach.reach_init)
next
  case (reach_step s s')
  then show ?case using simulated_step by (metis reach.reach_step)
qed

text \<open>C14. At most one transmission: in every interleaving of concurrent \<open>email_notification_send\<close> calls, with
  worker deaths and ledger failures at any point, no two transmissions of message content have the same
  replay identity, and while a worker holds a reservation that identity has not been transmitted.\<close>

theorem no_double_transmission:
  assumes "reach fresh_email (email_step frepr schema_ok settings serialize) s"
  shows "distinct (map (identity_sha256 \<circ> ec_identity \<circ> ej_call) (es_wire s))
    \<and> (\<forall>j \<in> set (es_reserved s). email_key (ej_call j) \<notin> (email_key \<circ> ej_call) ` set (es_wire s))"
proof -
  obtain t where t: "reach (fresh_system email_inv) intent_step t" "implements settings serialize s t"
    using email_refines_intent [OF assms] by blast
  have wire: "mset (map email_key (fs_effects t)) = mset (map email_key (map ej_call (es_wire s)))"
    using t(2) by (simp add: implements_def multiset.map_comp)
  have "distinct (map email_key (fs_effects t))" by (rule email.at_most_one_effect(1) [OF t(1)])
  then have "distinct (map email_key (map ej_call (es_wire s)))"
    using wire by (metis mset_eq_imp_distinct_iff)
  moreover have "email_key (ej_call j) \<notin> (email_key \<circ> ej_call) ` set (es_wire s)" if "j \<in> set (es_reserved s)" for j
  proof -
    have "ej_call j \<in> set (fs_owned t)"
      using t(2) that owner_drop(1) [of t settings serialize s j "s\<lparr>es_reserved := remove1 j (es_reserved s)\<rparr>"]
      by (simp add: implements_def owners_mset owners_def)
    then have "email_key (ej_call j) \<notin> email_key ` set (fs_effects t)" by (rule email.at_most_one_effect(2) [OF t(1)])
    moreover have "email_key ` set (fs_effects t) = (email_key \<circ> ej_call) ` set (es_wire s)"
      using wire by (metis image_comp image_set mset_eq_setD)
    ultimately show ?thesis by simp
  qed
  ultimately show ?thesis by (simp add: comp_def)
qed

section \<open>One call\<close>

lemma send_job_cases:
  assumes "send_job frepr schema_ok settings serialize j l = (r, l', cmds)"
  obtains (answered) "send_reserve frepr schema_ok j l = (Some r, l')" "cmds = []"
  | (submitted) l1 outcome where "send_reserve frepr schema_ok j l = (None, l1)"
      "send_submit settings serialize j = (outcome, cmds)" "send_finish frepr schema_ok j outcome l1 = (r, l')"
  using assms unfolding send_job_def by (auto split: prod.splits option.splits)

text \<open>C16. Errors come before the content: when a send answers with a tool error (retryable or not), no message
  content left the process in that call.\<close>

theorem send_error_sends_nothing:
  assumes "send_job frepr schema_ok settings serialize j l = (Inr (ToolError code message retryable), l', cmds)"
  shows "\<not> content_sent cmds"
  using assms
proof (cases rule: send_job_cases)
  case answered
  then show ?thesis by (simp add: content_sent_def)
next
  case (submitted l1 outcome)
  have no_error: "submission_response frepr schema_ok sub \<noteq> Inr (ToolError code message retryable)" for sub
    by (auto simp: submission_response_def bindE_eq_Inr split: sum.splits)
  from submitted(2) show ?thesis
  proof (cases rule: send_submit_cases)
    case (sent sub)
    with submitted(3) no_error show ?thesis
      by (auto simp: send_finish_def Let_def split: prod.splits sum.splits email_error.splits)
  qed
qed

text \<open>The status a transmission leaves in the ledger.\<close>

fun recorded_status :: "bool \<Rightarrow> smtp_exception + int \<Rightarrow> ledger_status" where
  "recorded_status False _ = SENDING"
| "recorded_status True (Inr code) = (if code = 250 then ACCEPTED else REJECTED)"
| "recorded_status True (Inl e) = (if e = ValueError then REJECTED else UNKNOWN)"

lemma reserve_granted_row:
  assumes "reserve io now i l = (Inr None, l')" "email_inv l"
  obtains row where "row \<in> set (el_submissions l')" "sr_identity row = identity_sha256 i" "sr_status row = SENDING"
    "sr_payload row = payload_sha256_of i" "validate_identity i = Inr ()"
proof -
  have v: "validate_identity i = Inr ()" "io" using assms(1) by (auto simp: reserve_def split: sum.splits if_splits)
  then have tx: "reserve_tx now i l = (Inr None, l')" using assms(1) by (simp add: reserve_def)
  show thesis
  proof (cases "sql_first (has_identity i) (el_submissions l)")
    case None
    with tx v show thesis by (auto simp: reserve_tx_def Let_def split: if_splits intro!: that)
  next
    case (Some row)
    then have row: "row \<in> set (el_submissions l)" "sr_identity row = identity_sha256 i" using find_Some_in by fastforce+
    have st: "sr_status row = RETRYABLE" "sr_payload row = payload_sha256_of i"
      "el_submissions l' = sql_update (\<lambda>r. has_identity i r \<and> sr_status r = RETRYABLE) (set_status SENDING now) (el_submissions l)"
      using tx Some unfolding reserve_tx_def Let_def typed_submission_def
      by (cases "sr_status row"; auto split: if_splits)+
    have "set_status SENDING now row \<in> set (el_submissions l')"
      unfolding st(3) set_sql_update using row st(1) by (intro image_eqI [of _ _ row]) auto
    with row st v show thesis by (intro that [of "set_status SENDING now row"]) auto
  qed
qed

lemma complete_open_row:
  assumes inv: "email_inv l" and row: "row \<in> set (el_submissions l)" "open_row i row"
    and v: "validate_identity i = Inr ()"
  shows "\<exists>row'. row' \<in> set (el_submissions (snd (complete io now i (plain_submission (request_ref i) st) l)))
    \<and> sr_identity row' = identity_sha256 i \<and> sr_status row' = (if io then status_value st else sr_status row)"
proof (cases io)
  case False
  with row v show ?thesis by (auto simp: complete_def plain_submission_def open_row_def)
next
  case True
  let ?sub = "plain_submission (request_ref i) st"
  let ?rows = "sql_update (open_row i) (settle_row ?sub now) (el_submissions l)"
  have mem: "settle_row ?sub now row \<in> set ?rows"
    unfolding set_sql_update using row by (intro image_eqI [of _ _ row]) auto
  have "distinct (map sr_identity ?rows)" using inv by (simp add: map_sql_update email_inv_def)
  then have "sql_first (has_identity i) ?rows = Some (settle_row ?sub now row)"
    using mem row(2) find_key [of sr_identity ?rows "settle_row ?sub now row"] by (simp add: open_row_def)
  then have "snd (complete io now i ?sub l) = l\<lparr>el_submissions := ?rows\<rparr>"
    using True v by (cases st) (simp_all add: complete_def plain_submission_def Let_def typed_submission_def)
  with mem row(2) True show ?thesis
    by (intro exI [of _ "settle_row ?sub now row"]) (simp add: open_row_def plain_submission_def)
qed

text \<open>C15. A transmission is on record: after a call that sent message content, the ledger holds the identity with
  status \<open>ACCEPTED\<close> exactly when the server answered 250 to the content, \<open>REJECTED\<close> for another reply,
  \<open>UNKNOWN\<close> when the connection failed, and \<open>SENDING\<close> when the ledger could not be written; never
  \<open>RETRYABLE\<close>.\<close>

theorem transmission_recorded:
  assumes run: "send_job frepr schema_ok settings serialize j l = (r, l', cmds)" and sent: "content_sent cmds"
    and inv: "email_inv l"
  shows "\<exists>row \<in> set (el_submissions l'). sr_identity row = email_key (ej_call j)
    \<and> sr_status row = recorded_status (ec_complete_io (ej_call j)) (sc_content (ej_script j))"
  using run
proof (cases rule: send_job_cases)
  case answered
  with sent show ?thesis by (simp add: content_sent_def)
next
  case (submitted l1 outcome)
  let ?c = "ej_call j"
  have grant: "reserve (ec_reserve_io ?c) (ec_reserve_now ?c) (ec_identity ?c) l = (Inr None, l1)"
    using submitted(1) by (auto simp: send_reserve_def split: prod.splits sum.splits option.splits email_error.splits)
  then have inv1: "email_inv l1" using reserve_inv [OF inv] by (metis snd_conv)
  obtain row where row: "row \<in> set (el_submissions l1)" "sr_identity row = email_key ?c" "sr_status row = SENDING"
    "sr_payload row = payload_sha256_of (ec_identity ?c)" "validate_identity (ec_identity ?c) = Inr ()"
    using grant inv by (rule reserve_granted_row)
  have op: "open_row (ec_identity ?c) row" using row by (simp add: open_row_def)
  obtain st where st: "outcome = Submitted (plain_submission (job_ref j) st)"
    "recorded_status True (sc_content (ej_script j)) = status_value st"
    using submitted(2) sent unfolding send_submit_def
    by (auto simp: content_result_def is_os_error_def split: prod.splits sum.splits if_splits elim!: smtp_submit_cases)
  have "l' = snd (complete (ec_complete_io ?c) (ec_complete_now ?c) (ec_identity ?c) (plain_submission (job_ref j) st) l1)"
    using submitted(3) st(1) send_finish_ledger(2) [of frepr schema_ok j _ l1] by (metis email_settle_def snd_conv)
  with complete_open_row [OF inv1 row(1) op row(5), of "ec_complete_io ?c" "ec_complete_now ?c" st] st(2) row(3)
  show ?thesis by (cases "ec_complete_io ?c") auto
qed

section \<open>Replays\<close>

lemma stored_row:
  assumes "email_inv l" "row \<in> set (el_submissions l)" "sr_identity row = identity_sha256 i"
  shows "sql_first (has_identity i) (el_submissions l) = Some row"
  using assms find_key [of sr_identity "el_submissions l" row] by (simp add: email_inv_def)

text \<open>Replays answer from the record: a repeated send of a settled identity with the same payload opens no
  SMTP connection, leaves every submission row as it is and reports the recorded status without a
  delivery claim; when the first call never finished, the status becomes and is reported as \<open>UNKNOWN\<close>;
  another payload under the identity is refused without any change.\<close>

theorem send_replay:
  assumes inv: "email_inv l" and row: "row \<in> set (el_submissions l)" "sr_identity row = email_key (ej_call j)"
    and ok: "validate_identity (ec_identity (ej_call j)) = Inr ()" "ec_reserve_io (ej_call j)"
    and req: "map_of (el_request_ids l) (request_id_sha256 (ec_identity (ej_call j)))
      \<in> {None, Some (email_key (ej_call j))}"
    and run: "send_job frepr schema_ok settings serialize j l = (r, l', cmds)"
  shows "(sr_payload row \<noteq> payload_sha256_of (ec_identity (ej_call j)) \<longrightarrow>
            cmds = [] \<and> l' = l \<and> r = Inr (ToolError INVALID_ARGUMENTS
              ''email request identity was already used with different content'' False))
    \<and> (\<forall>st. sr_payload row = payload_sha256_of (ec_identity (ej_call j)) \<and> typed_status (sr_status row) = Some st \<longrightarrow>
            cmds = [] \<and> el_submissions l' = el_submissions l
          \<and> r = submission_response frepr schema_ok (plain_submission (job_ref j) st))
    \<and> (sr_payload row = payload_sha256_of (ec_identity (ej_call j)) \<and> sr_status row = SENDING \<longrightarrow>
            cmds = [] \<and> (\<exists>row' \<in> set (el_submissions l'). sr_identity row' = sr_identity row \<and> sr_status row' = UNKNOWN)
          \<and> r = submission_response frepr schema_ok (plain_submission (job_ref j) SubmissionUnknown))"
proof -
  let ?i = "ec_identity (ej_call j)"
  have first: "sql_first (has_identity ?i) (el_submissions l) = Some row"
    using inv row by (rule stored_row)
  have plain: "\<not> sr_delivery_confirmed row" "sr_vendor_receipt_ref row = None" using email_inv_row [OF inv row(1)] by simp_all
  have res: "reserve (ec_reserve_io (ej_call j)) (ec_reserve_now (ej_call j)) ?i l = reserve_tx (ec_reserve_now (ej_call j)) ?i l"
    using ok by (simp add: reserve_def)
  note tx = reserve_tx_def Let_def first option.case
  have conflict: "cmds = [] \<and> l' = l \<and> r = Inr (ToolError INVALID_ARGUMENTS
      ''email request identity was already used with different content'' False)"
    if "sr_payload row \<noteq> payload_sha256_of ?i"
    using run that req by (auto simp: send_job_def send_reserve_def res tx)
  moreover have "cmds = [] \<and> el_submissions l' = el_submissions l
      \<and> r = submission_response frepr schema_ok (plain_submission (job_ref j) st)"
    if "sr_payload row = payload_sha256_of ?i" "typed_status (sr_status row) = Some st" for st
    using run that req plain
    by (cases "sr_status row") (auto simp: send_job_def send_reserve_def res tx typed_submission_def plain_submission_def)
  moreover have "cmds = [] \<and> (\<exists>row' \<in> set (el_submissions l'). sr_identity row' = sr_identity row \<and> sr_status row' = UNKNOWN)
      \<and> r = submission_response frepr schema_ok (plain_submission (job_ref j) SubmissionUnknown)"
    if p: "sr_payload row = payload_sha256_of ?i" and s: "sr_status row = SENDING"
  proof -
    have "set_status UNKNOWN now row \<in> set (sql_update (\<lambda>r. has_identity ?i r \<and> sr_status r = SENDING) (set_status UNKNOWN now)
        (el_submissions l))" for now
      unfolding set_sql_update using row s by (intro image_eqI [of _ _ row]) auto
    then have "\<exists>row' \<in> set (sql_update (\<lambda>r. has_identity ?i r \<and> sr_status r = SENDING) (set_status UNKNOWN now)
        (el_submissions l)). sr_identity row' = sr_identity row \<and> sr_status row' = UNKNOWN" for now
      by (metis set_status_simps(1,3))
    with run p s req row show ?thesis
      by (auto simp: send_job_def send_reserve_def res tx typed_submission_def plain_submission_def)
  qed
  ultimately show ?thesis by blast
qed

section \<open>Gates\<close>

text \<open>C17. Nothing happens without a verified caller: if a call to the provider changes the ledger or issues an SMTP
  mail command, its arguments decoded to an envelope without duplicate keys whose signed context verifies for
  the send tool, this binding and exactly these arguments.\<close>

theorem effects_need_verified_context:
  assumes "call_tool frepr schema_ok json_loads decode_call serialize settings world now payload l = (res, l', cmds)"
    "l' \<noteq> l \<or> cmds \<noteq> []"
  shows "\<exists>request d envelope. decode_call payload = Some request
    \<and> cl_binding_id request = ex_binding_id (ps_caller settings) \<and> cl_provider_tool_id request = ''email_notification_send''
    \<and> length (cl_arguments_json request) \<le> 65536 \<and> json_loads (cl_arguments_json request) = Some (PDict d)
    \<and> unique_keys (PDict d) \<and> parse_tool_envelope schema_ok d = Inr envelope
    \<and> verify_typed_context frepr schema_ok ''email_notification_send'' ''email.notification.send''
        (PDict (te_arguments envelope)) (te_caller_context envelope) (ps_context_key settings) (ps_caller settings) now"
proof -
  have op: "operation_of ''email_notification_send'' = ''email.notification.send''" by code_simp
  show ?thesis
    using assms unfolding call_tool_def decode_json_object_def SEND_TOOL_ID_def
    by (auto simp: Let_def bindE_eq_Inr op split: option.splits if_splits sum.splits pyval.splits)
qed

text \<open>No character of category \<open>Cc\<close> outside \<open>allowed\<close>: no byte below 32, no DEL, and no C2 followed by a byte from 80 to 9F.\<close>

definition control_free :: "char set \<Rightarrow> string \<Rightarrow> bool" where
  "control_free allowed s \<longleftrightarrow> (\<forall>c \<in> set s. 32 \<le> ord c \<and> ord c \<noteq> 127 \<or> c \<in> allowed)
    \<and> (\<forall>i. Suc i < length s \<longrightarrow> \<not> (ord (s ! i) = 194 \<and> 128 \<le> ord (s ! Suc i) \<and> ord (s ! Suc i) < 160))"

lemma has_control_free: "\<not> has_control P s \<longleftrightarrow> control_free {c. P c} s"
proof (induction s)
  case (Cons c s)
  let ?bad = "\<lambda>t i. ord (t ! i) = 194 \<and> 128 \<le> ord (t ! Suc i) \<and> ord (t ! Suc i) < 160"
  have "(\<forall>i. Suc i < length (c # s) \<longrightarrow> \<not> ?bad (c # s) i)
    \<longleftrightarrow> (s \<noteq> [] \<longrightarrow> \<not> ?bad (c # s) 0) \<and> (\<forall>i. Suc i < length s \<longrightarrow> \<not> ?bad s i)"
    using not0_implies_Suc by (auto simp: All_less_Suc2 nth_Cons split: nat.splits)
  then show ?case using Cons unfolding control_free_def by (auto simp: hd_conv_nth)
qed (simp add: control_free_def)

lemma crlf_to_lf_hd: "s \<noteq> [] \<Longrightarrow> crlf_to_lf s \<noteq> [] \<and> (hd (crlf_to_lf s) = hd s \<or> hd (crlf_to_lf s) = LF)"
  by (induction s rule: crlf_to_lf.induct) auto

lemma crlf_to_lf_control: "\<not> has_control P s \<Longrightarrow> P LF \<Longrightarrow> \<not> has_control P (crlf_to_lf s)"
proof (induction s rule: crlf_to_lf.induct)
  case (1 a b cs)
  then show ?case using crlf_to_lf_hd [of "b # cs"] by (auto simp: LF_def CR_def)
qed simp_all

lemma newlines_control:
  assumes "\<not> has_control (\<lambda>c. c \<in> {CR, LF, CHR 0x09}) s"
  shows "\<not> has_control (\<lambda>c. c \<in> {LF, CHR 0x09}) (normalize_newlines s)"
proof -
  have "\<not> has_control (\<lambda>c. c \<in> {CR, LF, CHR 0x09}) t \<Longrightarrow> \<not> has_control (\<lambda>c. c \<in> {LF, CHR 0x09}) (map (\<lambda>c. if c = CR then LF else c) t)" for t
    by (induction t) (auto simp: hd_map LF_def CR_def split: if_splits)
  then show ?thesis using crlf_to_lf_control [OF assms] by (simp add: normalize_newlines_def)
qed

text \<open>C18. Only allowlisted recipients and clean headers: a prepared send addresses a recipient of the binding's
  configuration; its subject is non-empty, at most 255 characters and 1024 bytes, without control characters
  (so it cannot add a header line); its text is at most 40000 bytes, and its only control characters are line feeds and tabs.\<close>

theorem prepared_message_safe:
  assumes "send_prepare frepr schema_ok settings world raw context = Inr j"
  shows "ej_recipient j \<in> snd ` set (ps_recipients settings) \<and> ej_subject j \<noteq> [] \<and> py_len (ej_subject j) \<le> 255
    \<and> length (ej_subject j) \<le> 1024 \<and> control_free {} (ej_subject j) \<and> CR \<notin> set (ej_subject j) \<and> LF \<notin> set (ej_subject j)
    \<and> control_free {LF, CHR 0x09} (ej_text j) \<and> CR \<notin> set (ej_text j)
    \<and> length (ej_text j) \<le> 40000 \<and> request_ref_ok (job_ref j)"
proof -
  have ctl: "c \<in> set s \<Longrightarrow> ord c < 32 \<Longrightarrow> has_control (\<lambda>_. False) s" for c s by (induction s) auto
  have len: "length (crlf_to_lf s) \<le> length s" for s by (induction s rule: crlf_to_lf.induct) auto
  have no_cr: "CR \<notin> set (normalize_newlines s)" for s by (auto simp: normalize_newlines_def CR_def LF_def)
  obtain args where args: "sanitize_message args = Inr (ej_subject j, ej_text j)" "job_ref j = es_request_ref args"
    "map_of (ps_recipients settings) (es_recipient_ref args) = Some (ej_recipient j)"
    using assms unfolding send_prepare_def by (auto simp: bindE_eq_Inr split: sum.splits option.splits)
  have subj: "\<not> has_control (\<lambda>_. False) (ej_subject j)" "ej_subject j \<noteq> []" "py_len (ej_subject j) \<le> 255"
      "length (ej_subject j) \<le> 1024" "request_ref_ok (es_request_ref args)" "length (es_text args) \<le> 40000"
      "ej_text j = normalize_newlines (es_text args)" "\<not> has_control (\<lambda>c. c \<in> {CR, LF, CHR 0x09}) (es_text args)"
    using args(1) unfolding sanitize_message_def Let_def by (auto simp: bindE_eq_Inr)
  have "CR \<notin> set (ej_subject j)" "LF \<notin> set (ej_subject j)"
    using ctl [of CR "ej_subject j"] ctl [of LF "ej_subject j"] subj(1) by (auto simp: CR_def LF_def)
  moreover have "control_free {} (ej_subject j)" "control_free {LF, CHR 0x09} (ej_text j)"
    using subj(1,7) newlines_control [OF subj(8)] unfolding has_control_free Collect_mem_eq by simp_all
  moreover have "length (ej_text j) \<le> 40000" using len [of "es_text args"] subj by (simp add: normalize_newlines_def)
  moreover have "ej_recipient j \<in> snd ` set (ps_recipients settings)" using map_of_SomeD [OF args(3)] by force
  ultimately show ?thesis using subj args(2) no_cr by simp
qed

section \<open>The wire\<close>

text \<open>C19. Dot stuffing is transparent: a server that reads the transmitted data by the rules of RFC 5321 sees
  exactly the lines of the message, in order, and stops exactly at the end of the data, whatever the message
  contains.\<close>

theorem data_transparent: "smtp_receive (smtp_data message @ rest) = Some (message_lines message, rest)"
  by (rule smtp_data_received)

text \<open>The last handler of \<open>_open_session\<close> never runs: no session setup reports \<open>SMTP_SETUP_FAILED\<close>, because
  \<open>SMTPException\<close> is an \<open>OSError\<close> and the handler before it reports a retryable \<open>SMTP_UNAVAILABLE\<close>, also for
  permanent protocol errors such as a server without authentication.\<close>

theorem setup_failed_unreachable:
  "open_session settings sc \<noteq> Inl (SMTPPreSendFailure retryable ''SMTP_SETUP_FAILED'')
   \<and> open_failure SMTPOtherException = SMTPPreSendFailure True ''SMTP_UNAVAILABLE''"
proof -
  have "open_failure e \<noteq> SMTPPreSendFailure retryable ''SMTP_SETUP_FAILED''" for e
    by (cases e) (simp_all add: open_failure_def is_os_error_def)
  then show ?thesis
    by (auto simp: open_session_def try_step_def greet_def bindE_eq_Inl open_failure_def is_os_error_def raise_if_def
        split: option.splits sum.splits if_splits)
qed

section \<open>Witnesses\<close>

definition sample_script :: smtp_script where
  "sample_script =
    \<lparr>sc_connect = None, sc_ehlo = Inr 250, sc_has_starttls = True, sc_starttls = None, sc_ehlo_tls = Inr 250,
     sc_login = None, sc_mail = Inr 250, sc_rcpt = Inr 251, sc_data = Inr 354, sc_content = Inr 250\<rparr>"

definition sample_settings :: provider_settings where
  "sample_settings =
    \<lparr>ps_caller = sample_caller, ps_context_key = sample_key, ps_recipients = [(''ops'', ''ops@example.org'')],
     ps_smtp = \<lparr>ss_tls_mode = StartTLS, ss_username = None, ss_sender = ''bot@example.org''\<rparr>\<rparr>"

definition sample_serialize :: "string \<Rightarrow> string \<Rightarrow> string \<Rightarrow> string \<Rightarrow> bytes option" where
  "sample_serialize sender recipient subject text = Some (''Subject: '' @ subject @ [CR, LF, CR, LF] @ text)"

definition sample_call :: email_call where
  "sample_call =
    \<lparr>ec_identity = \<lparr>identity_sha256 = replicate 64 CHR ''a'', request_id_sha256 = replicate 64 CHR ''b'',
       payload_sha256_of = replicate 64 CHR ''c'', request_ref = ''r1''\<rparr>,
     ec_reserve_io = True, ec_reserve_now = ''t1'', ec_mark_io = True, ec_mark_now = ''t2'',
     ec_complete_io = True, ec_complete_now = ''t3''\<rparr>"

definition sample_job :: email_job where
  "sample_job =
    \<lparr>ej_call = sample_call, ej_recipient = ''ops@example.org'', ej_subject = ''hi'', ej_text = ''x'',
     ej_script = sample_script\<rparr>"

definition sample_row :: "ledger_status \<Rightarrow> string \<Rightarrow> submission_row" where
  "sample_row st now =
    \<lparr>sr_identity = replicate 64 CHR ''a'', sr_payload = replicate 64 CHR ''c'', sr_status = st,
     sr_vendor_receipt_ref = None, sr_delivery_confirmed = False, sr_created_at = ''t1'', sr_updated_at = now\<rparr>"

definition sample_ledger :: "ledger_status \<Rightarrow> string \<Rightarrow> email_ledger" where
  "sample_ledger st now =
    \<lparr>el_user_version = 0, el_submissions = [sample_row st now],
     el_request_ids = [(replicate 64 CHR ''b'', replicate 64 CHR ''a'')]\<rparr>"

lemma sample_call_simps [simp]:
  "ec_reserve_io sample_call = True" "ec_reserve_now sample_call = ''t1''" "ec_mark_io sample_call = True"
  "ec_mark_now sample_call = ''t2''" "ec_complete_io sample_call = True" "ec_complete_now sample_call = ''t3''"
  "ej_call sample_job = sample_call" "ej_script sample_job = sample_script"
  by (simp_all add: sample_call_def sample_job_def)

lemma sample_identity_valid: "validate_identity (ec_identity sample_call) = Inr ()"
  by code_simp

lemma sample_reserved:
  "reserve True ''t1'' (ec_identity sample_call) empty_ledger = (Inr None, sample_ledger SENDING ''t1'')"
  unfolding reserve_def sample_identity_valid
  by (simp add: reserve_tx_def empty_ledger_def sample_call_def sample_ledger_def sample_row_def)

lemma sample_submitted:
  "send_submit sample_settings sample_serialize sample_job
   = (Submitted (plain_submission ''r1'' SubmissionAccepted),
      [MAIL ''bot@example.org'', RCPT ''ops@example.org'', DATA, CONTENT (smtp_data (''Subject: '' @ ''hi'' @ [CR, LF, CR, LF] @ ''x''))])"
  by (simp add: send_submit_def smtp_submit_def sample_job_def sample_call_def sample_script_def sample_settings_def sample_serialize_def
      open_session_def try_step_def greet_def pre_send_def is_success_def content_result_def)

lemma sample_granted:
  "send_reserve frepr schema_ok sample_job empty_ledger = (None, sample_ledger SENDING ''t1'')"
  using sample_reserved by (simp add: send_reserve_def)

lemma no_double_transmission_witness:
  "\<exists>s. reach fresh_email (email_step (\<lambda>_. ''0'') (\<lambda>_ _. True) sample_settings sample_serialize) s
     \<and> es_wire s = [sample_job] \<and> distinct (map (identity_sha256 \<circ> ec_identity \<circ> ej_call) (es_wire s))"
proof -
  let ?step = "email_step (\<lambda>_. ''0'') (\<lambda>_ _. True) sample_settings sample_serialize"
  let ?s0 = "\<lparr>es_ledger = empty_ledger, es_reserved = [], es_submitted = [], es_wire = []\<rparr>"
  let ?s1 = "\<lparr>es_ledger = sample_ledger SENDING ''t1'', es_reserved = [sample_job], es_submitted = [], es_wire = []\<rparr>"
  let ?s2 = "\<lparr>es_ledger = sample_ledger SENDING ''t1'', es_reserved = [], es_submitted = [sample_job], es_wire = [sample_job]\<rparr>"
  have "reach fresh_email ?step ?s0" by (rule reach_init) (simp add: fresh_email_def email_inv_empty)
  moreover have "?step ?s0 ?s1"
    using email_step.reserving [of "\<lambda>_. ''0''" "\<lambda>_ _. True" sample_job ?s0 _ sample_settings sample_serialize]
    by (simp add: sample_granted)
  moreover have "?step ?s1 ?s2"
    using email_step.submitting [of sample_job ?s1 sample_settings sample_serialize _ _ "\<lambda>_. ''0''" "\<lambda>_ _. True"]
      sample_submitted by (simp add: content_sent_def)
  ultimately have "reach fresh_email ?step ?s2" by (blast intro: reach_step)
  then have "reach fresh_email ?step ?s2 \<and> es_wire ?s2 = [sample_job] \<and> distinct (map (identity_sha256 \<circ> ec_identity \<circ> ej_call) (es_wire ?s2))"
    using no_double_transmission by auto
  then show ?thesis by blast
qed

lemma sample_sent:
  "\<exists>r l' cmds. send_job (\<lambda>_. ''0'') (\<lambda>_ _. True) sample_settings sample_serialize sample_job empty_ledger = (r, l', cmds)
     \<and> content_sent cmds"
  by (auto simp: send_job_def sample_granted sample_submitted content_sent_def split: prod.splits)

lemma transmission_recorded_witness:
  "\<exists>r l' cmds. send_job (\<lambda>_. ''0'') (\<lambda>_ _. True) sample_settings sample_serialize sample_job empty_ledger = (r, l', cmds)
     \<and> (\<exists>row \<in> set (el_submissions l'). sr_identity row = replicate 64 CHR ''a'' \<and> sr_status row = ACCEPTED)"
proof -
  obtain r l' cmds where run: "send_job (\<lambda>_. ''0'') (\<lambda>_ _. True) sample_settings sample_serialize sample_job empty_ledger = (r, l', cmds)"
    "content_sent cmds" using sample_sent by blast
  have eqs: "email_key (ej_call sample_job) = replicate 64 CHR ''a''"
    "recorded_status (ec_complete_io (ej_call sample_job)) (sc_content (ej_script sample_job)) = ACCEPTED"
    by (simp_all add: sample_job_def sample_call_def sample_script_def)
  show ?thesis using transmission_recorded [OF run email_inv_empty] run(1) unfolding eqs by blast
qed

lemma send_error_sends_nothing_witness:
  "\<exists>l' cmds. send_job (\<lambda>_. ''0'') (\<lambda>_ _. True) sample_settings sample_serialize
       (sample_job\<lparr>ej_script := sample_script\<lparr>sc_connect := Some TimeoutError\<rparr>\<rparr>) empty_ledger
     = (Inr (ToolError TIMEOUT ''SMTP connection failed before message content was sent'' True), l', cmds)
     \<and> \<not> content_sent cmds"
proof -
  let ?j = "sample_job\<lparr>ej_script := sample_script\<lparr>sc_connect := Some TimeoutError\<rparr>\<rparr>"
  have "send_reserve (\<lambda>_. ''0'') (\<lambda>_ _. True) ?j empty_ledger = (None, sample_ledger SENDING ''t1'')"
    using sample_reserved by (simp add: send_reserve_def)
  moreover have "send_submit sample_settings sample_serialize ?j = (RetryLater ''SMTP_UNAVAILABLE'', [])"
    by (simp add: send_submit_def smtp_submit_def sample_job_def sample_script_def sample_serialize_def
        open_session_def try_step_def open_failure_def is_os_error_def)
  moreover obtain l' where "send_finish (\<lambda>_. ''0'') (\<lambda>_ _. True) ?j (RetryLater ''SMTP_UNAVAILABLE'') (sample_ledger SENDING ''t1'')
      = (Inr (ToolError TIMEOUT ''SMTP connection failed before message content was sent'' True), l')"
    by (simp add: send_finish_def mark_retryable_def sample_identity_valid)
  ultimately have "send_job (\<lambda>_. ''0'') (\<lambda>_ _. True) sample_settings sample_serialize ?j empty_ledger
      = (Inr (ToolError TIMEOUT ''SMTP connection failed before message content was sent'' True), l', [])"
    unfolding send_job_def by (simp only: prod.case option.case)
  then show ?thesis using send_error_sends_nothing by blast
qed

lemma sample_ledger_inv: "email_inv (sample_ledger st now)"
  by (simp add: email_inv_def sample_ledger_def sample_row_def)

lemma send_replay_witness:
  "\<exists>l' cmds. send_job (\<lambda>_. ''0'') (\<lambda>_ _. True) sample_settings sample_serialize sample_job (sample_ledger ACCEPTED ''t3'')
     = (submission_response (\<lambda>_. ''0'') (\<lambda>_ _. True) (plain_submission ''r1'' SubmissionAccepted), l', cmds) \<and> cmds = []"
proof -
  obtain r l' cmds where run: "send_job (\<lambda>_. ''0'') (\<lambda>_ _. True) sample_settings sample_serialize sample_job
      (sample_ledger ACCEPTED ''t3'') = (r, l', cmds)" using prod_cases3 by blast
  have row: "sample_row ACCEPTED ''t3'' \<in> set (el_submissions (sample_ledger ACCEPTED ''t3''))"
    "sr_identity (sample_row ACCEPTED ''t3'') = email_key (ej_call sample_job)"
    by (simp_all add: sample_ledger_def sample_row_def sample_call_def)
  have req: "map_of (el_request_ids (sample_ledger ACCEPTED ''t3'')) (request_id_sha256 (ec_identity (ej_call sample_job)))
      \<in> {None, Some (email_key (ej_call sample_job))}"
    by (simp add: sample_ledger_def sample_call_def)
  have st: "sr_payload (sample_row ACCEPTED ''t3'') = payload_sha256_of (ec_identity (ej_call sample_job))"
    "typed_status (sr_status (sample_row ACCEPTED ''t3'')) = Some SubmissionAccepted" "job_ref sample_job = ''r1''"
    by (simp_all add: sample_row_def sample_call_def)
  have valid: "validate_identity (ec_identity (ej_call sample_job)) = Inr ()" "ec_reserve_io (ej_call sample_job)"
    using sample_identity_valid by simp_all
  have "cmds = [] \<and> r = submission_response (\<lambda>_. ''0'') (\<lambda>_ _. True) (plain_submission (job_ref sample_job) SubmissionAccepted)"
    using send_replay [OF sample_ledger_inv row valid req run] st(1,2) by blast
  with run show ?thesis unfolding st(3) by simp
qed

definition sample_arguments :: pydict where
  "sample_arguments =
    [(''recipient_ref'', PStr ''ops''), (''subject'', PStr ''hi''), (''text'', PStr ''x''), (''request_ref'', PStr ''r1'')]"

definition sample_world :: email_world where
  "sample_world =
    \<lparr>ew_reserve_io = True, ew_reserve_now = ''t1'', ew_mark_io = False, ew_mark_now = ''t2'', ew_complete_io = True,
     ew_complete_now = ''t3'', ew_script = sample_script\<lparr>sc_connect := Some TimeoutError\<rparr>\<rparr>"

definition sample_digest_of :: "pydict \<Rightarrow> string" where
  "sample_digest_of d = sha256 (json_dumps (\<lambda>_. ''0'') True (PDict d))"

lemma json_finite_opt_str [simp]: "json_finite (opt_str v)"
  by (simp add: opt_str_def split: option.split)

lemma sample_arguments_finite: "normalize_json (PDict sample_arguments) = Inr (PDict sample_arguments)"
  by (simp add: normalize_json_def sample_arguments_def)

lemma sample_arguments_digest: "payload_sha256 (\<lambda>_. ''0'') (PDict sample_arguments) = Inr (sample_digest_of sample_arguments)"
  by (simp add: payload_sha256_def canonical_json_def sample_arguments_finite sample_digest_of_def del: json_dumps.simps)

lemma sample_message:
  "sanitize_message \<lparr>es_recipient_ref = ''ops'', es_subject = ''hi'', es_text = ''x'', es_request_ref = ''r1''\<rparr> = Inr (''hi'', ''x'')"
  by code_simp

lemma sample_parsed:
  "parse_email_notification_send_arguments (\<lambda>_ _. True) sample_arguments
   = Inr \<lparr>es_recipient_ref = ''ops'', es_subject = ''hi'', es_text = ''x'', es_request_ref = ''r1''\<rparr>"
proof -
  have "set (map fst sample_arguments) = set [''recipient_ref'', ''subject'', ''text'', ''request_ref'']"
    by (simp add: sample_arguments_def)
  then have "parse_argument (\<lambda>_ _. True) ''EmailNotificationSendArguments''
      [''recipient_ref'', ''subject'', ''text'', ''request_ref''] sample_arguments = Inr ()"
    by (intro parse_argument_ok) (simp_all add: validate_schema_def sample_arguments_finite)
  moreover have "get_field sample_arguments ''recipient_ref'' = Inr (PStr ''ops'')"
    "get_field sample_arguments ''subject'' = Inr (PStr ''hi'')" "get_field sample_arguments ''text'' = Inr (PStr ''x'')"
    "get_field sample_arguments ''request_ref'' = Inr (PStr ''r1'')"
    by (simp_all add: sample_arguments_def)
  ultimately show ?thesis by (simp add: parse_email_notification_send_arguments_def)
qed

lemma sample_replay_identity:
  "\<exists>k d. write_replay_identity (\<lambda>_. ''0'') (\<lambda>_ _. True) (sample_context h) sample_arguments = Inr (sha256 k, sha256 d)"
proof -
  have "map_of TOOL_OPERATIONS (tc_method (sample_context h)) = Some (tc_operation_id (sample_context h))"
    using sample_operation by (simp add: signed_sample_def Let_def)
  moreover have "tc_method (sample_context h) = ''email_notification_send''" by (rule sample_fields)
  moreover have "get_field sample_arguments ''request_ref'' = Inr (PStr ''r1'')"
    "list_all (\<lambda>(k, v). json_finite v) sample_arguments" by (simp_all add: sample_arguments_def)
  ultimately show ?thesis
    unfolding write_replay_identity_def sample_arguments_digest
    by (auto simp: validate_schema_def sample_arguments_finite canonical_json_def normalize_json_def opt_str_def
        sample_digest_of_def simp del: json_dumps.simps split: option.split)
qed

lemma sample_prepared:
  "\<exists>j k r d. send_prepare (\<lambda>_. ''0'') (\<lambda>_ _. True) sample_settings sample_world sample_arguments (sample_context h) = Inr j
     \<and> ec_identity (ej_call j) = \<lparr>identity_sha256 = sha256 k, request_id_sha256 = sha256 r, payload_sha256_of = sha256 d, request_ref = ''r1''\<rparr>
     \<and> ec_reserve_io (ej_call j)"
proof -
  obtain k d where "write_replay_identity (\<lambda>_. ''0'') (\<lambda>_ _. True) (sample_context h) sample_arguments = Inr (sha256 k, sha256 d)"
    using sample_replay_identity by blast
  moreover obtain r where "request_id_digest (\<lambda>_. ''0'') (sample_context h) = Inr (sha256 r)"
    by (simp add: request_id_digest_def payload_sha256_def canonical_json_def normalize_json_def del: json_dumps.simps)
  ultimately show ?thesis
    by (auto simp: send_prepare_def sample_parsed sample_message sample_settings_def sample_world_def)
qed

lemma prepared_message_safe_witness:
  "\<exists>j. send_prepare (\<lambda>_. ''0'') (\<lambda>_ _. True) sample_settings sample_world sample_arguments (sample_context []) = Inr j
     \<and> ej_recipient j \<in> snd ` set (ps_recipients sample_settings) \<and> control_free {} (ej_subject j) \<and> LF \<notin> set (ej_subject j)"
  using sample_prepared [of "[]"] prepared_message_safe by blast

lemma reserve_new_row:
  assumes "send_reserve frepr schema_ok j empty_ledger = (res, l)" "validate_identity (ec_identity (ej_call j)) = Inr ()"
    "ec_reserve_io (ej_call j)"
  shows "el_submissions l \<noteq> []"
  using assms by (auto simp: send_reserve_def reserve_def reserve_tx_def empty_ledger_def)

lemma send_finish_rows: "el_submissions l \<noteq> [] \<Longrightarrow> el_submissions (snd (send_finish frepr schema_ok j outcome l)) \<noteq> []"
  by (cases outcome)
    (auto simp: send_finish_ledger email_release_def email_settle_def mark_retryable_def complete_def Let_def
      sql_update_def split: sum.splits option.splits)

definition sample_envelope :: tool_envelope where
  "sample_envelope =
    \<lparr>te_caller_context = sample_context (sample_digest_of sample_arguments), te_arguments = sample_arguments\<rparr>"

lemma sample_wire_envelope:
  "\<exists>d. serialize_tool_envelope (\<lambda>_ _. True) sample_envelope = Inr d \<and> unique_keys (PDict d)
     \<and> parse_tool_envelope (\<lambda>_ _. True) d = Inr sample_envelope"
proof -
  have "\<exists>d. serialize_tool_envelope (\<lambda>_ _. True) sample_envelope = Inr d \<and> unique_keys (PDict d)"
    by (simp add: serialize_tool_envelope_def serialize_trusted_caller_context_def validate_schema_def Let_def claims_normal
        validated_def)
      (simp add: normalize_json_def context_claims_def sample_arguments_def sample_envelope_def signed_sample_def sample_request_def
        opt_str_def Let_def)
  moreover have "envelope_ok sample_envelope"
    using sample_times_ok by (simp add: envelope_ok_def sample_envelope_def sample_fields)
  ultimately show ?thesis using envelope.decode_encode by blast
qed

definition sample_call_request :: call_request where
  "sample_call_request =
    \<lparr>cl_binding_id = ''b1'', cl_provider_tool_id = ''email_notification_send'', cl_arguments_json = ''{}''\<rparr>"

lemma effects_need_verified_context_witness:
  "\<exists>d res l' cmds. call_tool (\<lambda>_. ''0'') (\<lambda>_ _. True) (\<lambda>_. Some (PDict d)) (\<lambda>_. Some sample_call_request) sample_serialize
       sample_settings sample_world sample_now [] empty_ledger = (res, l', cmds)
     \<and> l' \<noteq> empty_ledger
     \<and> verify_typed_context (\<lambda>_. ''0'') (\<lambda>_ _. True) ''email_notification_send'' ''email.notification.send''
        (PDict sample_arguments) (te_caller_context sample_envelope) sample_key sample_caller sample_now"
proof -
  obtain d where d: "unique_keys (PDict d)" "parse_tool_envelope (\<lambda>_ _. True) d = Inr sample_envelope"
    using sample_wire_envelope by blast
  let ?call = "call_tool (\<lambda>_. ''0'') (\<lambda>_ _. True) (\<lambda>_. Some (PDict d)) (\<lambda>_. Some sample_call_request) sample_serialize
       sample_settings sample_world sample_now [] empty_ledger"
  let ?c = "sample_context (sample_digest_of sample_arguments)"
  have verified: "verify_typed_context (\<lambda>_. ''0'') (\<lambda>_ _. True) ''email_notification_send'' ''email.notification.send''
      (PDict sample_arguments) ?c sample_key sample_caller sample_now"
    by (rule sample_verified [OF sample_arguments_digest])
  obtain j where j: "send_prepare (\<lambda>_. ''0'') (\<lambda>_ _. True) sample_settings sample_world sample_arguments ?c = Inr j"
    "validate_identity (ec_identity (ej_call j)) = Inr ()" "ec_reserve_io (ej_call j)"
    using sample_prepared [of "sample_digest_of sample_arguments"] by (auto simp: validate_identity_def)
  obtain res l' cmds where run: "send_job (\<lambda>_. ''0'') (\<lambda>_ _. True) sample_settings sample_serialize j empty_ledger = (res, l', cmds)"
    using prod_cases3 by blast
  have rows: "el_submissions l' \<noteq> []"
    using run reserve_new_row [OF _ j(2,3)] send_finish_rows by (cases rule: send_job_cases) (auto, metis snd_conv)
  have op: "operation_of ''email_notification_send'' = ''email.notification.send''" by code_simp
  have settings: "ps_caller sample_settings = sample_caller" "ps_context_key sample_settings = sample_key"
    "ex_binding_id sample_caller = ''b1''" by (simp_all add: sample_settings_def sample_caller_def)
  have call: "?call = (answer res, l', cmds)"
    using d j(1) run verified op
    by (simp add: call_tool_def decode_json_object_def sample_call_request_def SEND_TOOL_ID_def Let_def
        sample_envelope_def send_def settings)
  have "l' \<noteq> empty_ledger" using rows by (auto simp: empty_ledger_def)
  moreover from effects_need_verified_context [OF call] this
  have "verify_typed_context (\<lambda>_. ''0'') (\<lambda>_ _. True) ''email_notification_send'' ''email.notification.send''
      (PDict sample_arguments) (te_caller_context sample_envelope) sample_key sample_caller sample_now"
    using d by (auto simp: settings sample_envelope_def)
  ultimately show ?thesis using call by blast
qed

end
