(* ===== verification/Cloud_Ledger.thy ===== *)
theory Cloud_Ledger
  imports Effect_Ledger Contract_Codecs
begin

text \<open>
  The replay ledger of the cloud management provider, \<open>cloud_management_provider/ledger.py\<close>, and the
  write path of its executor, \<open>CloudManagementExecutor.call\<close> in \<open>providers.py\<close>.  The state is the table
  \<open>cloud_write_requests\<close>; each method is the transactions it runs.  The clock and the size of the
  database files are arguments.  A JSON column is its value (\<open>json.loads\<close> inverts \<open>json.dumps\<close>).  The vendor
  call \<open>_dispatch\<close> is an outcome of the environment.

  The lemmas show that within the retention window no request id is dispatched twice, that uncertain
  writes are never purged, and what a replay returns.
\<close>

section \<open>State\<close>

record cloud_row =
  cw_request_id :: string
  cw_payload_sha256 :: string
  cw_operation_ref :: string
  cw_response :: "pydict option"
  cw_terminal :: bool
  cw_completed_at :: "rat option"

type_synonym cloud_ledger = "cloud_row list"

record ledger_limits =
  ll_max_rows :: int
  ll_max_bytes :: int
  ll_retention :: int

datatype ledger_error = CloudReplayConflict | LedgerCapacityError

record existing_write =
  xw_payload_sha256 :: string
  xw_operation_ref :: string
  xw_response :: "pydict option"

definition RESPONSE_RESERVATION_BYTES :: int where "RESPONSE_RESERVATION_BYTES = 64 * 1024"
definition INSERT_RESERVATION_BYTES :: int where "INSERT_RESERVATION_BYTES = 16 * 1024"
definition MIN_DATABASE_BYTES :: int where "MIN_DATABASE_BYTES = 64 * 1024"

text \<open>The constructor accepts these limits.\<close>

definition request_ledger_limits :: "int \<Rightarrow> int \<Rightarrow> int \<Rightarrow> ledger_limits option" where
  "request_ledger_limits rows limit_bytes retention =
    (if rows < 1 \<or> limit_bytes < MIN_DATABASE_BYTES \<or> retention < 1 then None
     else Some \<lparr>ll_max_rows = rows, ll_max_bytes = limit_bytes, ll_retention = retention\<rparr>)"

section \<open>Settled results\<close>

definition is_terminal_response :: "pydict \<Rightarrow> bool" where
  "is_terminal_response response =
    (let state = dict_get response ''state'' in
     if state = PStr ''SUCCEEDED'' then
       (case (dict_get response ''expected_state'', dict_get response ''actual_state'') of
          (PStr expected, PStr actual) \<Rightarrow>
            \<not> (casefold expected \<noteq> casefold actual \<and> dict_get response ''release_confirmed'' \<noteq> PBool True)
        | (PStr expected, _) \<Rightarrow> \<not> truthy (dict_get response ''operation_ref'')
        | _ \<Rightarrow> True)
     else if state = PStr ''FAILED'' then True
     else if state \<in> {PStr ''COMMAND_COMPLETED'', PStr ''COMMAND_FAILED''} then
       dict_get response ''remote_state'' = PStr ''NOT_APPLICABLE''
     else (case dict_get response ''error'' of PDict _ \<Rightarrow> True | _ \<Rightarrow> False))"

section \<open>Operations\<close>

definition expired_terminal :: "rat \<Rightarrow> cloud_row \<Rightarrow> bool" where
  "expired_terminal cutoff r \<longleftrightarrow>
     cw_terminal r \<and> cw_response r \<noteq> None \<and> (case cw_completed_at r of None \<Rightarrow> False | Some t \<Rightarrow> t \<le> cutoff)"

definition compact_expired_terminals :: "ledger_limits \<Rightarrow> rat \<Rightarrow> cloud_ledger \<Rightarrow> cloud_ledger" where
  "compact_expired_terminals limits now l = sql_delete (expired_terminal (now - of_int (ll_retention limits))) l"

definition pending_count :: "cloud_ledger \<Rightarrow> nat" where
  "pending_count l = sql_count (\<lambda>r. cw_response r = None) l"

definition cloud_begin ::
    "ledger_limits \<Rightarrow> rat \<Rightarrow> int \<Rightarrow> string \<Rightarrow> string \<Rightarrow> string \<Rightarrow> cloud_ledger
     \<Rightarrow> (ledger_error + existing_write option) \<times> cloud_ledger" where
  "cloud_begin limits now database_bytes request_id digest operation_ref l0 =
    (let l = compact_expired_terminals limits now l0 in
     case sql_first (\<lambda>r. cw_request_id r = request_id) l of
       Some row \<Rightarrow>
         if cw_payload_sha256 row \<noteq> digest then (Inl CloudReplayConflict, l)
         else (Inr (Some \<lparr>xw_payload_sha256 = cw_payload_sha256 row, xw_operation_ref = cw_operation_ref row,
                          xw_response = cw_response row\<rparr>), l)
     | None \<Rightarrow>
         let projected_bytes = database_bytes + (int (pending_count l) + 1) * RESPONSE_RESERVATION_BYTES
               + INSERT_RESERVATION_BYTES in
         if int (length l) \<ge> ll_max_rows limits \<or> projected_bytes > ll_max_bytes limits
         then (Inl LedgerCapacityError, l)
         else (Inr None,
               l @ [\<lparr>cw_request_id = request_id, cw_payload_sha256 = digest, cw_operation_ref = operation_ref,
                     cw_response = None, cw_terminal = False, cw_completed_at = None\<rparr>]))"

text \<open>The tombstone stored when the response does not fit.\<close>

definition capacity_tombstone :: "string \<Rightarrow> pydict" where
  "capacity_tombstone operation_ref =
    [(''state'', PStr ''UNKNOWN_RESULT''), (''reason_code'', PStr ''LEDGER_RESPONSE_CAPACITY''),
     (''operation_ref'', PStr operation_ref)]"

definition complete_row :: "pydict \<Rightarrow> rat \<Rightarrow> cloud_row \<Rightarrow> cloud_row" where
  "complete_row response now r =
    r\<lparr>cw_response := Some response, cw_terminal := is_terminal_response response, cw_completed_at := Some now\<rparr>"

definition cloud_complete ::
    "(rat \<Rightarrow> string) \<Rightarrow> ledger_limits \<Rightarrow> rat \<Rightarrow> int \<Rightarrow> string \<Rightarrow> pydict \<Rightarrow> cloud_ledger
     \<Rightarrow> (ledger_error + pydict) \<times> cloud_ledger" where
  "cloud_complete frepr limits now database_bytes request_id response l =
    (case sql_first (\<lambda>r. cw_request_id r = request_id) l of
       None \<Rightarrow> (Inl LedgerCapacityError, l)
     | Some row \<Rightarrow>
        (case cw_response row of
           Some previous \<Rightarrow> (Inr previous, l)
         | None \<Rightarrow>
            let remaining_reservation = max 0 (int (pending_count l) - 1) * RESPONSE_RESERVATION_BYTES;
                encoded = json_dumps frepr False (PDict response);
                stored = (if database_bytes + int (length encoded) + remaining_reservation + INSERT_RESERVATION_BYTES
                             > ll_max_bytes limits
                          then capacity_tombstone (cw_operation_ref row) else response) in
            (Inr stored, sql_update (\<lambda>r. cw_request_id r = request_id) (complete_row stored now) l)))"

definition cloud_get :: "string \<Rightarrow> cloud_ledger \<Rightarrow> existing_write option" where
  "cloud_get request_id l =
    map_option (\<lambda>row. \<lparr>xw_payload_sha256 = cw_payload_sha256 row, xw_operation_ref = cw_operation_ref row,
                        xw_response = cw_response row\<rparr>) (sql_first (\<lambda>r. cw_request_id r = request_id) l)"

definition mark_terminal :: "rat \<Rightarrow> string \<Rightarrow> cloud_ledger \<Rightarrow> cloud_ledger" where
  "mark_terminal now request_id l =
    sql_update (\<lambda>r. cw_request_id r = request_id \<and> cw_response r \<noteq> None)
      (\<lambda>r. r\<lparr>cw_terminal := True, cw_completed_at := Some now\<rparr>) l"

section \<open>The write path\<close>

text \<open>What \<open>_dispatch\<close> does: a result, a \<open>ProviderFailure\<close> (code, retryable, ambiguous), or another exception.\<close>

datatype dispatch_result =
    DispatchResult pydict
  | DispatchFailure string bool bool
  | DispatchCredentialMissing
  | DispatchConfigurationError
  | DispatchException

definition error_result :: "string \<Rightarrow> bool \<Rightarrow> pydict" where
  "error_result code retryable =
    [(''error'', PDict [(''code'', PStr code), (''retryable'', PBool retryable)])]"

definition unknown_result :: "string \<Rightarrow> string \<Rightarrow> pydict" where
  "unknown_result reason operation_ref =
    [(''state'', PStr ''UNKNOWN_RESULT''), (''reason_code'', PStr reason)]
    @ (if operation_ref = [] then [] else [(''operation_ref'', PStr operation_ref)])"

definition dispatch_response :: "string \<Rightarrow> dispatch_result \<Rightarrow> pydict" where
  "dispatch_response operation_ref res =
    (let result = (case res of
         DispatchResult d \<Rightarrow> d
       | DispatchFailure code retryable ambiguous \<Rightarrow>
           if ambiguous then unknown_result code operation_ref else error_result code retryable
       | DispatchCredentialMissing \<Rightarrow> error_result ''CREDENTIAL_MISSING'' False
       | DispatchConfigurationError \<Rightarrow> error_result ''INVALID_CONFIGURATION'' False
       | DispatchException \<Rightarrow> unknown_result ''PROVIDER_OUTCOME_UNKNOWN'' operation_ref) in
     if dict_get result ''state''
          \<in> PStr ` {''PENDING'', ''RUNNING'', ''UNKNOWN_RESULT'', ''REMOTE_STATE_UNVERIFIED''}
        \<and> \<not> dict_has result ''operation_ref'' \<and> operation_ref \<noteq> []
     then dict_set result ''operation_ref'' (PStr operation_ref) else result)"

record cloud_write =
  wr_request_id :: string
  wr_digest :: string
  wr_operation_ref :: string
  wr_begin_now :: rat
  wr_begin_bytes :: int

text \<open>The exceptions of \<open>CloudManagementExecutor.call\<close>: \<open>ProviderFailure\<close> (code, retryable), the errors of the ledger, of the
  contracts and of the settings, and any other exception.\<close>

datatype provider_failure =
    ProviderFailure string bool
  | LedgerRaised ledger_error
  | ContractRaised contract_error
  | CredentialMissing
  | ConfigurationFault
  | OtherException

text \<open>The answer of \<open>call\<close> when \<open>begin\<close> does not grant the write.\<close>

definition begin_answer :: "ledger_error + existing_write option \<Rightarrow> (provider_failure + pydict) option" where
  "begin_answer res =
    (case res of
       Inl CloudReplayConflict \<Rightarrow> Some (Inl (ProviderFailure ''REQUEST_REPLAY_CONFLICT'' False))
     | Inl LedgerCapacityError \<Rightarrow> Some (Inl (ProviderFailure ''LEDGER_CAPACITY_REACHED'' True))
     | Inr (Some existing) \<Rightarrow>
         Some (Inr (case xw_response existing of
             Some response \<Rightarrow> response
           | None \<Rightarrow> unknown_result ''PREVIOUS_WRITE_OUTCOME_UNKNOWN'' (xw_operation_ref existing)))
     | Inr None \<Rightarrow> None)"

text \<open>The write branch: \<open>prepared\<close> is a preparation error, raised before the dispatch; the flag tells whether the
  vendor was called.\<close>

definition call_write ::
    "(rat \<Rightarrow> string) \<Rightarrow> ledger_limits \<Rightarrow> cloud_write \<Rightarrow> (string \<times> bool \<times> bool) option \<Rightarrow> dispatch_result \<Rightarrow> rat \<Rightarrow> int \<Rightarrow> cloud_ledger
     \<Rightarrow> (provider_failure + pydict) \<times> cloud_ledger \<times> bool" where
  "call_write frepr limits w preparation_error dispatched now database_bytes l =
    (case cloud_begin limits (wr_begin_now w) (wr_begin_bytes w) (wr_request_id w) (wr_digest w) (wr_operation_ref w) l of
       (res, l1) \<Rightarrow>
        (case begin_answer res of
           Some answer \<Rightarrow> (answer, l1, False)
         | None \<Rightarrow>
            let outcome = (case preparation_error of
                    None \<Rightarrow> dispatched | Some (code, retryable, ambiguous) \<Rightarrow> DispatchFailure code retryable ambiguous) in
            (case cloud_complete frepr limits now database_bytes (wr_request_id w)
                    (dispatch_response (wr_operation_ref w) outcome) l1 of
               (Inl e, l2) \<Rightarrow> (Inl (LedgerRaised e), l2, preparation_error = None)
             | (Inr stored, l2) \<Rightarrow> (Inr stored, l2, preparation_error = None))))"

section \<open>Invariant\<close>

text \<open>Request ids are the primary key, the row bound holds, and a row without a response is not terminal.\<close>

definition cloud_inv :: "ledger_limits \<Rightarrow> cloud_ledger \<Rightarrow> bool" where
  "cloud_inv limits l \<longleftrightarrow>
     distinct (map cw_request_id l) \<and> int (length l) \<le> ll_max_rows limits
   \<and> list_all (\<lambda>r. cw_response r = None \<longrightarrow> \<not> cw_terminal r \<and> cw_completed_at r = None) l"

lemma cloud_inv_update:
  assumes "cloud_inv limits l" "\<And>r. cw_request_id (f r) = cw_request_id r"
    "\<And>r. r \<in> set l \<Longrightarrow> P r \<Longrightarrow> cw_response (f r) \<noteq> None"
  shows "cloud_inv limits (sql_update P f l)"
proof -
  have "map cw_request_id (sql_update P f l) = map cw_request_id l" using assms(2) by (rule map_sql_update)
  with assms show ?thesis by (fastforce simp: cloud_inv_def list_all_iff set_sql_update)
qed

lemma cloud_inv_compact: "cloud_inv limits l \<Longrightarrow> cloud_inv limits (compact_expired_terminals limits now l)"
  unfolding cloud_inv_def compact_expired_terminals_def
  by (auto simp: list_all_iff distinct_sql_delete intro: order_trans [OF _ length_sql_delete]
      dest: order_trans [rotated, OF _ iffD2 [OF of_nat_le_iff length_sql_delete]])

lemma cloud_begin_inv:
  assumes "cloud_inv limits l"
  shows "cloud_inv limits (snd (cloud_begin limits now n rid digest ref l))"
proof -
  let ?l = "compact_expired_terminals limits now l"
  have inv: "cloud_inv limits ?l" using assms by (rule cloud_inv_compact)
  show ?thesis
  proof (cases "sql_first (\<lambda>r. cw_request_id r = rid) ?l")
    case None
    then have "rid \<notin> cw_request_id ` set ?l" by (simp add: find_key_None)
    with None inv show ?thesis by (auto simp: cloud_begin_def Let_def cloud_inv_def)
  qed (use inv in \<open>auto simp: cloud_begin_def Let_def\<close>)
qed

lemma complete_row_simps [simp]:
  "cw_request_id (complete_row d now r) = cw_request_id r" "cw_response (complete_row d now r) = Some d"
  "cw_completed_at (complete_row d now r) = Some now" "cw_payload_sha256 (complete_row d now r) = cw_payload_sha256 r"
  "cw_terminal (complete_row d now r) = is_terminal_response d" "cw_operation_ref (complete_row d now r) = cw_operation_ref r"
  by (simp_all add: complete_row_def)

lemma cloud_complete_inv:
  "cloud_inv limits l \<Longrightarrow> cloud_inv limits (snd (cloud_complete frepr limits now n rid response l))"
  by (auto simp: cloud_complete_def Let_def split: option.split intro!: cloud_inv_update)

lemma mark_terminal_inv: "cloud_inv limits l \<Longrightarrow> cloud_inv limits (mark_terminal now rid l)"
  by (auto simp: mark_terminal_def intro!: cloud_inv_update)

section \<open>The ledger as an intent ledger\<close>

text \<open>A window of clock readings that starts at \<open>t0\<close> and is shorter than the retention.  In it a request id is free
  when no row protects it: every row it has was settled for good before the window.\<close>

definition in_window :: "ledger_limits \<Rightarrow> rat \<Rightarrow> rat \<Rightarrow> bool" where
  "in_window limits t0 t \<longleftrightarrow> t0 \<le> t \<and> t < t0 + of_int (ll_retention limits)"

definition cloud_valid :: "ledger_limits \<Rightarrow> rat \<Rightarrow> cloud_write \<Rightarrow> bool" where
  "cloud_valid limits t0 w \<longleftrightarrow> in_window limits t0 (wr_begin_now w)"

definition cloud_free :: "rat \<Rightarrow> string \<Rightarrow> cloud_ledger \<Rightarrow> bool" where
  "cloud_free t0 k l \<longleftrightarrow>
     list_all (\<lambda>r. cw_request_id r = k \<longrightarrow>
       cw_response r \<noteq> None \<and> (case cw_completed_at r of None \<Rightarrow> False | Some t \<Rightarrow> t < t0)) l"

definition cloud_grant :: "ledger_limits \<Rightarrow> cloud_write \<Rightarrow> cloud_ledger \<Rightarrow> bool \<times> cloud_ledger" where
  "cloud_grant limits w l =
    (case cloud_begin limits (wr_begin_now w) (wr_begin_bytes w) (wr_request_id w) (wr_digest w) (wr_operation_ref w) l of
       (res, l') \<Rightarrow> (res = Inr None, l'))"

text \<open>A completion carries the response, the clock (at least the start of the window) and the file size.\<close>

definition cloud_settle ::
    "(rat \<Rightarrow> string) \<Rightarrow> ledger_limits \<Rightarrow> rat \<Rightarrow> cloud_write \<Rightarrow> pydict \<times> rat \<times> int \<Rightarrow> cloud_ledger \<Rightarrow> cloud_ledger" where
  "cloud_settle frepr limits t0 w x l =
    (case x of (response, elapsed, n) \<Rightarrow>
       snd (cloud_complete frepr limits (t0 + \<bar>elapsed\<bar>) n (wr_request_id w) response l))"

text \<open>Upkeep: a later status read marks some receipt terminal.\<close>

definition cloud_upkeep :: "rat \<Rightarrow> cloud_ledger \<Rightarrow> cloud_ledger \<Rightarrow> bool" where
  "cloud_upkeep t0 l l' \<longleftrightarrow> (\<exists>elapsed rid. l' = mark_terminal (t0 + \<bar>elapsed\<bar>) rid l)"

lemma cloud_free_iff:
  "cloud_free t0 k l \<longleftrightarrow>
     (\<forall>r \<in> set l. cw_request_id r = k \<longrightarrow> cw_response r \<noteq> None \<and> (\<exists>t. cw_completed_at r = Some t \<and> t < t0))"
  by (auto simp: cloud_free_def list_all_iff split: option.splits)

lemma cloud_free_update:
  assumes "cloud_free t0 k (sql_update P f l)" "\<And>r. cw_request_id (f r) = cw_request_id r"
    "\<And>r. cw_completed_at (f r) = Some t" "t0 \<le> t"
  shows "cloud_free t0 k l"
  unfolding cloud_free_iff
proof (intro ballI impI)
  fix r assume r: "r \<in> set l" "cw_request_id r = k"
  have "(if P r then f r else r) \<in> set (sql_update P f l)" using r(1) by (auto simp: set_sql_update)
  with assms r show "cw_response r \<noteq> None \<and> (\<exists>t. cw_completed_at r = Some t \<and> t < t0)"
    unfolding cloud_free_iff by (cases "P r") force+
qed

lemma cloud_free_compact:
  assumes "cloud_free t0 k (compact_expired_terminals limits now l)" "in_window limits t0 now"
  shows "cloud_free t0 k l"
  unfolding cloud_free_iff
proof (intro ballI impI)
  fix r assume r: "r \<in> set l" "cw_request_id r = k"
  show "cw_response r \<noteq> None \<and> (\<exists>t. cw_completed_at r = Some t \<and> t < t0)"
  proof (cases "expired_terminal (now - of_int (ll_retention limits)) r")
    case True
    with assms(2) show ?thesis by (auto simp: expired_terminal_def in_window_def split: option.splits)
  next
    case False
    with r assms(1) show ?thesis by (auto simp: cloud_free_iff compact_expired_terminals_def)
  qed
qed

lemma cloud_grantE:
  assumes "cloud_grant limits w l = (b, l')"
  obtains (new) "b" "wr_request_id w \<notin> cw_request_id ` set (compact_expired_terminals limits (wr_begin_now w) l)"
      "l' = compact_expired_terminals limits (wr_begin_now w) l @
        [\<lparr>cw_request_id = wr_request_id w, cw_payload_sha256 = wr_digest w, cw_operation_ref = wr_operation_ref w,
          cw_response = None, cw_terminal = False, cw_completed_at = None\<rparr>]"
  | (kept) "\<not> b" "l' = compact_expired_terminals limits (wr_begin_now w) l"
proof -
  define m where "m = compact_expired_terminals limits (wr_begin_now w) l"
  note run = assms [unfolded cloud_grant_def cloud_begin_def Let_def, folded m_def]
  show thesis
  proof (cases "sql_first (\<lambda>r. cw_request_id r = wr_request_id w) m")
    case None
    then have "wr_request_id w \<notin> cw_request_id ` set m" by (simp add: find_key_None)
    with None run show thesis by (auto simp: m_def [symmetric] split: if_splits intro: new kept)
  next
    case (Some row)
    with run show thesis by (auto simp: m_def [symmetric] split: if_splits intro: kept)
  qed
qed

interpretation cloud: effect_ledger "cloud_inv limits" "cloud_valid limits t0" wr_request_id "cloud_free t0"
  "cloud_grant limits" "\<lambda>_ l. l" "cloud_settle frepr limits t0" "cloud_upkeep t0" for limits t0 frepr
proof unfold_locales
  fix l w k
  assume inv: "cloud_inv limits l"
  show "cloud_inv limits (snd (cloud_grant limits w l))"
    using cloud_begin_inv [OF inv] by (simp add: cloud_grant_def split: prod.split) (metis snd_conv)
  show "cloud_free t0 (wr_request_id w) l \<and> \<not> cloud_free t0 (wr_request_id w) l'"
    if valid: "cloud_valid limits t0 w" and grant: "cloud_grant limits w l = (True, l')" for l'
    using grant
  proof (cases rule: cloud_grantE)
    case new
    then have "cloud_free t0 (wr_request_id w) (compact_expired_terminals limits (wr_begin_now w) l)"
      by (auto simp: cloud_free_iff image_iff)
    then show ?thesis using valid new cloud_free_compact by (auto simp: cloud_valid_def cloud_free_iff)
  qed simp
  show "cloud_free t0 k l" if valid: "cloud_valid limits t0 w" and free: "cloud_free t0 k (snd (cloud_grant limits w l))"
  proof -
    obtain b l' where run: "cloud_grant limits w l = (b, l')" by fastforce
    with free have "cloud_free t0 k l'" by simp
    with run have "cloud_free t0 k (compact_expired_terminals limits (wr_begin_now w) l)"
      by (cases rule: cloud_grantE) (auto simp: cloud_free_iff)
    with valid show ?thesis using cloud_free_compact by (simp add: cloud_valid_def)
  qed
  show "cloud_inv limits (cloud_settle frepr limits t0 w x l)" for x
    using inv by (simp add: cloud_settle_def cloud_complete_inv split: prod.split)
  show "cloud_free t0 k l" if "cloud_free t0 k (cloud_settle frepr limits t0 w x l)" for x
    using that by (auto simp: cloud_settle_def cloud_complete_def Let_def split: prod.splits option.splits
        dest!: cloud_free_update)
  show "cloud_inv limits l'" if "cloud_upkeep t0 l l'" for l'
    using that inv by (auto simp: cloud_upkeep_def mark_terminal_inv)
  show "cloud_free t0 k l" if "cloud_upkeep t0 l l'" "cloud_free t0 k l'" for l'
    using that by (auto simp: cloud_upkeep_def mark_terminal_def dest!: cloud_free_update)
qed (simp_all)

end
