(* ===== verification/Cloud_Ledger_Props.thy ===== *)
theory Cloud_Ledger_Props
  imports Cloud_Ledger
begin

text \<open>
  Properties of the cloud write path: at most one vendor dispatch per request id inside the retention
  window, what a repeated request returns, and the protection of uncertain writes.
\<close>

abbreviation cloud_step ::
    "(rat \<Rightarrow> string) \<Rightarrow> ledger_limits \<Rightarrow> rat \<Rightarrow> (cloud_ledger, cloud_write) effect_system
     \<Rightarrow> (cloud_ledger, cloud_write) effect_system \<Rightarrow> bool" where
  "cloud_step frepr limits t0 \<equiv>
     effect_step (cloud_valid limits t0) (cloud_grant limits) (\<lambda>_ l. l) (cloud_settle frepr limits t0) (cloud_upkeep t0)"

text \<open>C23. At most one dispatch: in every interleaving of concurrent cloud writes, completions, crashes and terminal
  marks whose clock readings lie within one retention period, no request id is dispatched to the vendor
  twice, and a call that may still dispatch holds an id that was not dispatched.  The ledger never exceeds its
  row bound.\<close>

theorem cloud_dispatched_once:
  assumes "reach (fresh_system (cloud_inv limits)) (cloud_step frepr limits t0) s"
  shows "distinct (map wr_request_id (fs_effects s))
    \<and> (\<forall>w \<in> set (fs_owned s). wr_request_id w \<notin> wr_request_id ` set (fs_effects s))
    \<and> int (length (fs_ledger s)) \<le> ll_max_rows limits"
  using cloud.at_most_one_effect [OF assms] cloud.reach_safe [OF assms]
  by (auto simp: cloud.safe_def cloud_inv_def)

section \<open>Receipts\<close>

lemma compact_row:
  assumes "cloud_inv limits l" "row \<in> set l" "\<not> expired_terminal (now - of_int (ll_retention limits)) row"
  shows "sql_first (\<lambda>r. cw_request_id r = cw_request_id row) (compact_expired_terminals limits now l) = Some row"
    and "row \<in> set (compact_expired_terminals limits now l)"
proof -
  show mem: "row \<in> set (compact_expired_terminals limits now l)"
    using assms(2,3) by (simp add: compact_expired_terminals_def)
  have "distinct (map cw_request_id (compact_expired_terminals limits now l))"
    using cloud_inv_compact [OF assms(1)] by (simp add: cloud_inv_def)
  then show "sql_first (\<lambda>r. cw_request_id r = cw_request_id row) (compact_expired_terminals limits now l) = Some row"
    using mem by (rule find_key)
qed

text \<open>A begun write whose row is not purged: the stored receipt, or a conflict.\<close>

lemma call_write_known:
  assumes "cloud_inv limits l" "row \<in> set l" "cw_request_id row = wr_request_id w"
    "\<not> expired_terminal (wr_begin_now w - of_int (ll_retention limits)) row"
  shows "call_write frepr limits w p res now n l =
    (if cw_payload_sha256 row \<noteq> wr_digest w then Inl (ProviderFailure ''REQUEST_REPLAY_CONFLICT'' False)
     else Inr (case cw_response row of Some response \<Rightarrow> response
       | None \<Rightarrow> unknown_result ''PREVIOUS_WRITE_OUTCOME_UNKNOWN'' (cw_operation_ref row)),
     compact_expired_terminals limits (wr_begin_now w) l, False)"
  using compact_row(1) [OF assms(1,2,4)] assms(3)
  by (simp add: call_write_def cloud_begin_def Let_def begin_answer_def split: option.split)

lemma call_write_dispatched:
  assumes "cloud_inv limits l" "call_write frepr limits w p res now n l = (Inr stored, l', True)"
  obtains row where "row \<in> set l'" "cw_request_id row = wr_request_id w" "cw_payload_sha256 row = wr_digest w"
    "cw_response row = Some stored" "cw_completed_at row = Some now" "cloud_inv limits l'"
proof -
  obtain l1 where grant: "cloud_grant limits w l = (True, l1)"
    and fin: "cloud_complete frepr limits now n (wr_request_id w)
      (dispatch_response (wr_operation_ref w) (case p of None \<Rightarrow> res
        | Some (code, retryable, ambiguous) \<Rightarrow> DispatchFailure code retryable ambiguous)) l1 = (Inr stored, l')"
    using assms(2)
    by (auto simp: call_write_def cloud_grant_def begin_answer_def Let_def
        split: prod.splits option.splits sum.splits ledger_error.splits)
  have inv1: "cloud_inv limits l1"
    using cloud.grant_inv [OF assms(1), of undefined w] cloud_begin_inv [OF assms(1)] grant
    by (metis (mono_tags, lifting) cloud_grant_def case_prod_beta snd_conv)
  let ?row = "\<lparr>cw_request_id = wr_request_id w, cw_payload_sha256 = wr_digest w, cw_operation_ref = wr_operation_ref w,
      cw_response = None, cw_terminal = False, cw_completed_at = None\<rparr>"
  have row: "?row \<in> set l1" using grant by (cases rule: cloud_grantE) auto
  have "sql_first (\<lambda>r. cw_request_id r = cw_request_id ?row) l1 = Some ?row"
    using inv1 row by (intro find_key) (simp_all add: cloud_inv_def)
  then have l': "l' = sql_update (\<lambda>r. cw_request_id r = wr_request_id w) (complete_row stored now) l1"
    using fin by (auto simp: cloud_complete_def Let_def)
  have "complete_row stored now ?row \<in> set l'"
    unfolding l' set_sql_update using row by (intro image_eqI [of _ _ ?row]) auto
  moreover have "cloud_inv limits l'" using cloud_complete_inv [OF inv1] fin by (metis snd_conv)
  ultimately show thesis by (intro that [of "complete_row stored now ?row"]) simp_all
qed

text \<open>Repeated writes return the receipt: after a write was dispatched and answered, a request with the same id that
  begins less than the retention period later is not dispatched; with the same arguments it returns exactly the
  first answer, with other arguments it fails with \<open>REQUEST_REPLAY_CONFLICT\<close>.\<close>

theorem cloud_write_replay:
  assumes "cloud_inv limits l" "call_write frepr limits w p res now n l = (Inr stored, l', True)"
    "wr_request_id w' = wr_request_id w" "wr_begin_now w' < now + of_int (ll_retention limits)"
  shows "\<exists>l''. call_write frepr limits w' p' res' now' n' l' =
    (if wr_digest w' = wr_digest w then Inr stored else Inl (ProviderFailure ''REQUEST_REPLAY_CONFLICT'' False), l'', False)"
  using assms(1,2)
proof (rule call_write_dispatched)
  fix row assume row: "row \<in> set l'" "cw_request_id row = wr_request_id w" "cw_payload_sha256 row = wr_digest w"
    "cw_response row = Some stored" "cw_completed_at row = Some now" "cloud_inv limits l'"
  have "\<not> expired_terminal (wr_begin_now w' - of_int (ll_retention limits)) row"
    using row(5) assms(4) by (auto simp: expired_terminal_def)
  from call_write_known [OF row(6,1) _ this] row assms(3) show ?thesis by auto
qed

text \<open>Uncertain writes stay protected: a receipt that is pending or not settled for good is never purged, however old,
  and its request id is never granted again; the answers \<open>UNKNOWN_RESULT\<close> of the executor and of the capacity
  tombstone are such receipts.\<close>

theorem uncertain_write_protected:
  assumes "cloud_inv limits l" "row \<in> set l" "\<not> cw_terminal row"
  shows "row \<in> set (snd (cloud_begin limits now n rid digest ref l))
    \<and> fst (cloud_begin limits now n (cw_request_id row) digest ref l) \<noteq> Inr None
    \<and> \<not> is_terminal_response (unknown_result reason ref) \<and> \<not> is_terminal_response (capacity_tombstone ref)"
proof -
  have keep: "\<not> expired_terminal (now - of_int (ll_retention limits)) row" using assms(3) by (simp add: expired_terminal_def)
  note row = compact_row [OF assms(1,2) keep]
  have "row \<in> set (snd (cloud_begin limits now n rid digest ref l))"
    using row(2) by (auto simp: cloud_begin_def Let_def split: option.split)
  moreover have "fst (cloud_begin limits now n (cw_request_id row) digest ref l) \<noteq> Inr None"
    using row(1) by (auto simp: cloud_begin_def Let_def)
  moreover have "\<not> is_terminal_response (unknown_result reason ref)" "\<not> is_terminal_response (capacity_tombstone ref)"
    by (simp_all add: is_terminal_response_def unknown_result_def capacity_tombstone_def)
  ultimately show ?thesis by blast
qed

section \<open>Witnesses\<close>

definition sample_limits :: ledger_limits where
  "sample_limits = \<lparr>ll_max_rows = 10, ll_max_bytes = 1000000, ll_retention = 100\<rparr>"

definition sample_write :: cloud_write where
  "sample_write =
    \<lparr>wr_request_id = ''r1'', wr_digest = ''d1'', wr_operation_ref = ''op1'', wr_begin_now = 5, wr_begin_bytes = 4096\<rparr>"

definition sample_result :: pydict where
  "sample_result = [(''state'', PStr ''SUCCEEDED'')]"

definition sample_cloud_row :: "pydict option \<Rightarrow> bool \<Rightarrow> rat option \<Rightarrow> cloud_row" where
  "sample_cloud_row response terminal completed =
    \<lparr>cw_request_id = ''r1'', cw_payload_sha256 = ''d1'', cw_operation_ref = ''op1'', cw_response = response,
     cw_terminal = terminal, cw_completed_at = completed\<rparr>"

lemma sample_begun: "cloud_begin sample_limits 5 4096 ''r1'' ''d1'' ''op1'' [] = (Inr None, [sample_cloud_row None False None])"
  by (simp add: cloud_begin_def compact_expired_terminals_def sql_delete_def pending_count_def sql_count_def sample_limits_def
      RESPONSE_RESERVATION_BYTES_def INSERT_RESERVATION_BYTES_def sample_cloud_row_def)

lemma cloud_inv_Nil: "0 \<le> ll_max_rows limits \<Longrightarrow> cloud_inv limits []"
  by (simp add: cloud_inv_def)

lemma cloud_dispatched_once_witness:
  "\<exists>s. reach (fresh_system (cloud_inv sample_limits)) (cloud_step (\<lambda>_. ''0'') sample_limits 0) s
     \<and> fs_effects s = [sample_write] \<and> distinct (map wr_request_id (fs_effects s))"
proof -
  let ?step = "cloud_step (\<lambda>_. ''0'') sample_limits 0"
  let ?s0 = "\<lparr>fs_ledger = [], fs_owned = [], fs_effects = []\<rparr> :: (cloud_ledger, cloud_write) effect_system"
  let ?s1 = "\<lparr>fs_ledger = [sample_cloud_row None False None], fs_owned = [sample_write], fs_effects = []\<rparr>"
  let ?s2 = "\<lparr>fs_ledger = [sample_cloud_row None False None], fs_owned = [], fs_effects = [sample_write]\<rparr>"
  have grant: "cloud_grant sample_limits sample_write [] = (True, [sample_cloud_row None False None])"
    using sample_begun by (simp add: cloud_grant_def sample_write_def)
  have valid: "cloud_valid sample_limits 0 sample_write"
    by (simp add: cloud_valid_def in_window_def sample_write_def sample_limits_def)
  have "reach (fresh_system (cloud_inv sample_limits)) ?step ?s0"
    by (rule reach_init) (simp add: fresh_system_def cloud_inv_Nil sample_limits_def)
  moreover have "?step ?s0 ?s1" using effect_step.granted [of "cloud_valid sample_limits 0" sample_write "cloud_grant sample_limits" ?s0 "[sample_cloud_row None False None]"] valid grant by simp
  moreover have "?step ?s1 ?s2" using effect_step.effect [of sample_write ?s1] by simp
  ultimately have "reach (fresh_system (cloud_inv sample_limits)) ?step ?s2" by (blast intro: reach_step)
  with cloud_dispatched_once [OF this] show ?thesis by (intro exI [of _ ?s2]) simp
qed

lemma sample_write_run:
  "call_write (\<lambda>_. ''0'') sample_limits sample_write None (DispatchResult sample_result) 7 4096 []
   = (Inr sample_result, [sample_cloud_row (Some sample_result) True (Some 7)], True)"
proof -
  have "dispatch_response ''op1'' (DispatchResult sample_result) = sample_result" "is_terminal_response sample_result"
    by (simp_all add: dispatch_response_def sample_result_def is_terminal_response_def)
  moreover have "length (json_dumps (\<lambda>_. ''0'') False (PDict sample_result)) \<le> 100"
    by code_simp
  then have "cloud_complete (\<lambda>_. ''0'') sample_limits 7 4096 ''r1'' sample_result [sample_cloud_row None False None]
      = (Inr sample_result, [complete_row sample_result 7 (sample_cloud_row None False None)])"
    by (simp add: cloud_complete_def sample_cloud_row_def pending_count_def sql_count_def sql_update_def sample_limits_def
        RESPONSE_RESERVATION_BYTES_def INSERT_RESERVATION_BYTES_def Let_def del: json_dumps.simps)
  ultimately show ?thesis
    using sample_begun
    by (simp add: call_write_def sample_write_def begin_answer_def complete_row_def sample_cloud_row_def)
qed

lemma cloud_write_replay_witness:
  "\<exists>l''. call_write (\<lambda>_. ''0'') sample_limits (sample_write\<lparr>wr_begin_now := 50\<rparr>) None DispatchException 60 4096
     [sample_cloud_row (Some sample_result) True (Some 7)] = (Inr sample_result, l'', False)"
  using cloud_write_replay [OF cloud_inv_Nil sample_write_run, of "sample_write\<lparr>wr_begin_now := 50\<rparr>"]
  by (simp add: sample_limits_def sample_write_def)

lemma uncertain_write_protected_witness:
  "fst (cloud_begin sample_limits 1000000 4096 ''r1'' ''d1'' ''op2'' [sample_cloud_row None False None]) \<noteq> Inr None
   \<and> \<not> is_terminal_response (unknown_result ''X'' ''op2'')"
proof -
  have "cloud_inv sample_limits [sample_cloud_row None False None]"
    by (simp add: cloud_inv_def sample_cloud_row_def sample_limits_def)
  from uncertain_write_protected [OF this, of "sample_cloud_row None False None" 1000000 4096 "[]" "''d1''" "''op2''" "''X''"]
  show ?thesis by (simp add: sample_cloud_row_def)
qed

end
