(* ===== verification/Json_Reader.thy ===== *)
theory Json_Reader
  imports Caller_Context
begin

text \<open>
  The standard library readers the providers use: \<open>json.loads\<close> as the pure Python \<open>json.scanner\<close> and
  \<open>json.decoder\<close> define it, with an object as the list of its pairs (what \<open>object_pairs_hook\<close> receives), and
  the check that bytes are UTF-8.  \<open>None\<close> is the \<open>ValueError\<close>.  A numeral with a fraction or an exponent is read
  exactly, without IEEE rounding; a lone surrogate escape is kept in its three-byte form, as \<open>surrogatepass\<close> does;
  the recursion and digit limits of the interpreter are not modelled.

  The reader recurses on a bound, twice the length of the text; the lemmas show that a larger bound never changes the
  result, and that reading back what \<open>json.dumps\<close> writes returns the value.
\<close>

section \<open>Strings\<close>

definition hex_value :: "char \<Rightarrow> nat option" where
  "hex_value c =
    (let x = ord c in
     if 48 \<le> x \<and> x \<le> 57 then Some (x - 48)
     else if 97 \<le> x \<and> x \<le> 102 then Some (x - 87)
     else if 65 \<le> x \<and> x \<le> 70 then Some (x - 55)
     else None)"

fun hex4 :: "string \<Rightarrow> (nat \<times> string) option" where
  "hex4 (a # b # c # d # cs) =
    (case (hex_value a, hex_value b, hex_value c, hex_value d) of
       (Some w, Some x, Some y, Some z) \<Rightarrow> Some (((w * 16 + x) * 16 + y) * 16 + z, cs)
     | _ \<Rightarrow> None)"
| "hex4 _ = None"

definition utf8 :: "nat \<Rightarrow> string" where
  "utf8 n =
    (if n < 128 then [char_of n]
     else if n < 2048 then [char_of (192 + n div 64), char_of (128 + n mod 64)]
     else if n < 65536 then [char_of (224 + n div 4096), char_of (128 + n div 64 mod 64), char_of (128 + n mod 64)]
     else [char_of (240 + n div 262144), char_of (128 + n div 4096 mod 64), char_of (128 + n div 64 mod 64),
           char_of (128 + n mod 64)])"

text \<open>After \<open>\u\<close>: four hexadecimal digits, and a second escape when they start a surrogate pair.\<close>

definition unicode_escape :: "string \<Rightarrow> (string \<times> string) option" where
  "unicode_escape s =
    (case hex4 s of
       None \<Rightarrow> None
     | Some (u, r) \<Rightarrow>
        if 55296 \<le> u \<and> u \<le> 56319 \<and> take 2 r = [CHR 0x5C, CHR ''u''] then
          (case hex4 (drop 2 r) of
             None \<Rightarrow> None
           | Some (v, r') \<Rightarrow>
              if 56320 \<le> v \<and> v \<le> 57343 then Some (utf8 (65536 + ((u - 55296) * 1024 + (v - 56320))), r')
              else Some (utf8 u, r))
        else Some (utf8 u, r))"

definition json_backslash :: "(char \<times> char) list" where
  "json_backslash =
    [(CHR 0x22, CHR 0x22), (CHR 0x5C, CHR 0x5C), (CHR ''/'', CHR ''/''), (CHR ''b'', CHR 0x08), (CHR ''f'', CHR 0x0C),
     (CHR ''n'', CHR 0x0A), (CHR ''r'', CHR 0x0D), (CHR ''t'', CHR 0x09)]"

lemma hex4_length: "hex4 s = Some (u, r) \<Longrightarrow> length r < length s"
  by (induction s rule: hex4.induct) (auto split: option.splits)

lemma unicode_escape_length: "unicode_escape s = Some (t, r) \<Longrightarrow> length r < length s"
  by (auto simp: unicode_escape_def dest!: hex4_length split: option.splits if_splits)

text \<open>\<open>scanstring\<close> after the opening quote: the text and what follows the closing quote.\<close>

function scan_string :: "string \<Rightarrow> (string \<times> string) option" where
  "scan_string [] = None"
| "scan_string (c # cs) =
    (if c = CHR 0x22 then Some ([], cs)
     else if c = CHR 0x5C then
       (case cs of
          [] \<Rightarrow> None
        | e # ds \<Rightarrow>
           if e = CHR ''u'' then
             (case unicode_escape ds of
                None \<Rightarrow> None
              | Some (t, r) \<Rightarrow> map_option (apfst (append t)) (scan_string r))
           else
             (case map_of json_backslash e of
                None \<Rightarrow> None
              | Some x \<Rightarrow> map_option (apfst (Cons x)) (scan_string ds)))
     else if ord c < 32 then None
     else map_option (apfst (Cons c)) (scan_string cs))"
  by pat_completeness auto
termination
  by (relation "measure length") (auto dest: unicode_escape_length)

section \<open>Numbers\<close>

definition is_number_char :: "char \<Rightarrow> bool" where
  "is_number_char c \<longleftrightarrow> is_digit c \<or> c \<in> {CHR ''-'', CHR ''+'', CHR ''.'', CHR ''e'', CHR ''E''}"

text \<open>Whether a text is a fraction and an exponent of a JSON number.\<close>

definition json_exponent :: "string \<Rightarrow> bool" where
  "json_exponent s =
    (case s of
       [] \<Rightarrow> True
     | c # cs \<Rightarrow>
        c \<in> {CHR ''e'', CHR ''E''}
        \<and> (let ds = (case cs of d # es \<Rightarrow> if d \<in> {CHR ''-'', CHR ''+''} then es else cs | [] \<Rightarrow> []) in
            ds \<noteq> [] \<and> list_all is_digit ds))"

definition json_fraction :: "string \<Rightarrow> bool" where
  "json_fraction s =
    (case s of
       [] \<Rightarrow> True
     | c # cs \<Rightarrow>
        if c = CHR ''.'' then takeWhile is_digit cs \<noteq> [] \<and> json_exponent (dropWhile is_digit cs)
        else json_exponent s)"

text \<open>A whole token: \<open>-?(0|[1-9][0-9]*)(\.[0-9]+)?([eE][-+]?[0-9]+)?\<close>.  A token that only starts with a number is an
  error either way, since no white space, comma, bracket or end follows the number.\<close>

definition json_number :: "string \<Rightarrow> pyval option" where
  "json_number token =
    (let body = (case token of c # cs \<Rightarrow> if c = CHR ''-'' then cs else token | [] \<Rightarrow> []);
         whole = takeWhile is_digit body; rest = dropWhile is_digit body in
     if whole = [] \<or> (hd whole = CHR ''0'' \<and> whole \<noteq> ''0'') \<or> \<not> json_fraction rest then None
     else if rest = [] then map_option PInt (int_of_str token)
     else map_option PFloat (float_of_str token))"

section \<open>Values\<close>

definition is_json_space :: "char \<Rightarrow> bool" where
  "is_json_space c \<longleftrightarrow> ord c \<in> {9, 10, 13, 32}"

definition skip_space :: "string \<Rightarrow> string" where
  "skip_space s = dropWhile is_json_space s"

text \<open>A text after an expected prefix.\<close>

definition after :: "string \<Rightarrow> string \<Rightarrow> string option" where
  "after p s = (if take (length p) s = p then Some (drop (length p) s) else None)"

definition json_literals :: "(string \<times> pyval) list" where
  "json_literals =
    [(''null'', PNone), (''true'', PBool True), (''false'', PBool False), (''NaN'', PFloat NaN),
     (''Infinity'', PFloat PosInf), (''-Infinity'', PFloat NegInf)]"

definition scan_atom :: "string \<Rightarrow> (pyval \<times> string) option" where
  "scan_atom s =
    (case find (\<lambda>(word, v). after word s \<noteq> None) json_literals of
       Some (word, v) \<Rightarrow> Some (v, drop (length word) s)
     | None \<Rightarrow> map_option (\<lambda>v. (v, dropWhile is_number_char s)) (json_number (takeWhile is_number_char s)))"

fun scan_value :: "nat \<Rightarrow> string \<Rightarrow> (pyval \<times> string) option"
  and scan_elements :: "nat \<Rightarrow> string \<Rightarrow> (pyval list \<times> string) option"
  and scan_members :: "nat \<Rightarrow> string \<Rightarrow> (pydict \<times> string) option" where
  "scan_value 0 s = None"
| "scan_value (Suc n) s =
    (case s of
       [] \<Rightarrow> None
     | c # cs \<Rightarrow>
        if c = CHR 0x22 then map_option (apfst PStr) (scan_string cs)
        else if c = CHR ''{'' then
          (case after ''}'' (skip_space cs) of
             Some r \<Rightarrow> Some (PDict [], r)
           | None \<Rightarrow> map_option (apfst PDict) (scan_members n (skip_space cs)))
        else if c = CHR ''['' then
          (case after '']'' (skip_space cs) of
             Some r \<Rightarrow> Some (PList [], r)
           | None \<Rightarrow> map_option (apfst PList) (scan_elements n (skip_space cs)))
        else scan_atom s)"
| "scan_elements 0 s = None"
| "scan_elements (Suc n) s =
    Option.bind (scan_value n s) (\<lambda>(v, r).
      (case after '']'' (skip_space r) of
         Some r' \<Rightarrow> Some ([v], r')
       | None \<Rightarrow> Option.bind (after '','' (skip_space r)) (\<lambda>r'.
           map_option (apfst (Cons v)) (scan_elements n (skip_space r')))))"
| "scan_members 0 s = None"
| "scan_members (Suc n) s =
    Option.bind (Option.bind (after [CHR 0x22] s) scan_string) (\<lambda>(k, r1).
    Option.bind (after '':'' (skip_space r1)) (\<lambda>r2.
    Option.bind (scan_value n (skip_space r2)) (\<lambda>(v, r).
      (case after ''}'' (skip_space r) of
         Some r' \<Rightarrow> Some ([(k, v)], r')
       | None \<Rightarrow> Option.bind (after '','' (skip_space r)) (\<lambda>r'.
           map_option (apfst (Cons (k, v))) (scan_members n (skip_space r')))))))"

definition read_bound :: "string \<Rightarrow> nat" where
  "read_bound s = 2 * length s + 2"

definition json_loads :: "string \<Rightarrow> pyval option" where
  "json_loads s =
    (let t = skip_space s in
     case scan_value (read_bound t) t of
       None \<Rightarrow> None
     | Some (v, r) \<Rightarrow> if skip_space r = [] then Some v else None)"

section \<open>UTF-8\<close>

text \<open>Well-formed UTF-8, surrogates included (\<open>surrogatepass\<close>).\<close>

fun utf8_ok :: "bytes \<Rightarrow> bool" where
  "utf8_ok [] = True"
| "utf8_ok (a # s) =
    (let x = ord a in
     if x < 128 then utf8_ok s
     else (case s of
        [] \<Rightarrow> False
      | b # s1 \<Rightarrow>
         if \<not> is_continuation b then False
         else if 194 \<le> x \<and> x \<le> 223 then utf8_ok s1
         else (case s1 of
            [] \<Rightarrow> False
          | c # s2 \<Rightarrow>
             if \<not> is_continuation c then False
             else if 224 \<le> x \<and> x \<le> 239 then (x = 224 \<longrightarrow> 160 \<le> ord b) \<and> utf8_ok s2
             else (case s2 of
                [] \<Rightarrow> False
              | d # s3 \<Rightarrow>
                 is_continuation d \<and> 240 \<le> x \<and> x \<le> 244 \<and> (x = 240 \<longrightarrow> 144 \<le> ord b) \<and> (x = 244 \<longrightarrow> ord b < 144)
                 \<and> utf8_ok s3))))"

declare utf8_ok.simps(2) [simp del] scan_string.simps(2) [simp del]

section \<open>The bound is enough\<close>

lemma scan_string_length: "scan_string s = Some (t, r) \<Longrightarrow> length r < length s"
proof (induction s arbitrary: t r rule: length_induct)
  case (1 s)
  then have IH: "scan_string s' = Some (t', r') \<Longrightarrow> length s' < length s \<Longrightarrow> length r' < length s" for s' t' r'
    by (meson less_trans)
  show ?case
  proof (cases s)
    case Nil
    with 1 show ?thesis by simp
  next
    case (Cons c cs)
    with "1.prems" show ?thesis
      by (auto simp: scan_string.simps(2) [of c cs] dest!: IH dest: unicode_escape_length split: if_splits list.splits option.splits)
  qed
qed

lemma after_Some: "after p s = Some r \<longleftrightarrow> s = p @ r"
  by (auto simp: after_def) (metis append_take_drop_id)

lemma after_single [simp]: "after [c] [] = None" "after [c] (x # r) = (if x = c then Some r else None)"
  by (simp_all add: after_def)

lemma skip_space_le: "length (skip_space s) \<le> length s"
  by (simp add: skip_space_def length_dropWhile_le)

lemma json_literal_nonempty: "(word, v) \<in> set json_literals \<Longrightarrow> word \<noteq> []"
  by (auto simp: json_literals_def)

lemma json_number_empty [simp]: "json_number [] = None"
  by (simp add: json_number_def)

lemma takeWhile_nonempty_less: "takeWhile P s \<noteq> [] \<Longrightarrow> length (dropWhile P s) < length s"
  by (cases s) (auto simp: length_dropWhile_le le_imp_less_Suc split: if_splits)

lemma scan_atom_length:
  assumes "scan_atom s = Some (v, r)"
  shows "length r < length s"
proof (cases "find (\<lambda>(word, v). after word s \<noteq> None) json_literals")
  case None
  with assms show ?thesis by (intro takeWhile_nonempty_less [of is_number_char s, THEN le_less_trans [rotated]]) (auto simp: scan_atom_def)
next
  case (Some p)
  then obtain word u where p: "p = (word, u)" "(word, u) \<in> set json_literals" "after word s \<noteq> None"
    by (cases p) (auto dest: find_Some_in)
  then obtain r' where "s = word @ r'" using after_Some by blast
  with Some assms p json_literal_nonempty [OF p(2)] show ?thesis by (auto simp: scan_atom_def)
qed

lemma scan_length:
  shows scan_value_length: "scan_value n s = Some (v, r) \<Longrightarrow> length r < length s"
    and scan_elements_length: "scan_elements n s = Some (vs, r) \<Longrightarrow> length r < length s"
    and scan_members_length: "scan_members n s = Some (d, r) \<Longrightarrow> length r < length s"
proof (induction n arbitrary: s v vs d r)
  case (Suc n)
  { case 1
    have sk: "length (skip_space cs) < Suc (length cs)" for cs by (simp add: skip_space_le le_imp_less_Suc)
    have ends: "skip_space cs = p @ r \<Longrightarrow> length r < Suc (length cs)" for cs p
      using skip_space_le [of cs] by simp
    from 1 show ?case
      by (auto simp: after_Some dest!: Suc.IH(2,3) scan_string_length scan_atom_length
          intro: less_trans [OF _ sk] ends split: list.splits if_splits option.splits)
  next
    case 2
    have step: "skip_space r1 = p @ r' \<Longrightarrow> length r1 < length s \<Longrightarrow> length r2 \<le> length r' \<Longrightarrow> length r2 < length s" for r1 p r' r2 :: string
      using skip_space_le [of r1] by simp
    from 2 obtain v0 r1 where v0: "scan_value n s = Some (v0, r1)" by (auto simp: bind_eq_Some_conv)
    with Suc.IH(1) have r1: "length r1 < length s" by blast
    show ?case
    proof (cases "after '']'' (skip_space r1)")
      case (Some r')
      with 2 v0 r1 show ?thesis by (auto simp: after_Some intro: step)
    next
      case None
      with 2 v0 obtain r' vs' where "skip_space r1 = '','' @ r'" "scan_elements n (skip_space r') = Some (vs', r)"
        by (auto simp: bind_eq_Some_conv after_Some)
      with r1 Suc.IH(2) skip_space_le [of r'] show ?thesis by (meson less_imp_le less_le_trans step)
    qed
  next
    case 3
    have step: "skip_space r1 = p @ r' \<Longrightarrow> length r1 < length s \<Longrightarrow> length r2 \<le> length r' \<Longrightarrow> length r2 < length s" for r1 p r' r2 :: string
      using skip_space_le [of r1] by simp
    from 3 obtain k r0 ra rb v0 r1 where v0: "s = [CHR 0x22] @ r0" "scan_string r0 = Some (k, ra)"
      "skip_space ra = '':'' @ rb" "scan_value n (skip_space rb) = Some (v0, r1)"
      by (auto simp: bind_eq_Some_conv after_Some)
    have "length ra < length s" using scan_string_length [OF v0(2)] v0(1) by simp
    then have "length (skip_space rb) < length s" by (rule step [OF v0(3)]) (rule skip_space_le)
    with Suc.IH(1) [OF v0(4)] have r1: "length r1 < length s" by (rule less_trans)
    show ?case
    proof (cases "after ''}'' (skip_space r1)")
      case (Some r')
      then have r': "skip_space r1 = ''}'' @ r'" by (simp add: after_Some)
      with 3 v0 have "r = r'" by simp
      with step [OF r' r1] show ?thesis by simp
    next
      case None
      with 3 v0 obtain r' d' where "skip_space r1 = '','' @ r'" "scan_members n (skip_space r') = Some (d', r)"
        by (auto simp: bind_eq_Some_conv after_Some)
      with r1 Suc.IH(3) skip_space_le [of r'] show ?thesis by (meson less_imp_le less_le_trans step)
    qed
  }
qed simp_all

text \<open>Any two bounds of at least twice the length give the same result.\<close>

lemma scan_bound:
  shows scan_value_bound: "2 * length s < n \<Longrightarrow> 2 * length s < m \<Longrightarrow> scan_value n s = scan_value m s"
    and scan_elements_bound: "2 * length s + 1 < n \<Longrightarrow> 2 * length s + 1 < m \<Longrightarrow> scan_elements n s = scan_elements m s"
    and scan_members_bound: "2 * length s + 1 < n \<Longrightarrow> 2 * length s + 1 < m \<Longrightarrow> scan_members n s = scan_members m s"
proof (induction n arbitrary: s m)
  case (Suc n)
  { case 1
    then obtain m' where m: "m = Suc m'" by (cases m) auto
    have "2 * length (skip_space cs) + 1 < n" "2 * length (skip_space cs) + 1 < m'" if "s = c # cs" for c cs
      using 1 that m skip_space_le [of cs] by simp_all
    with Suc.IH(2,3) [of _ m'] m show ?case by (auto split: list.split option.split)
  next
    case 2
    then obtain m' where m: "m = Suc m'" by (cases m) auto
    have val_eq: "scan_value n s = scan_value m' s" using 2 m by (intro Suc.IH(1)) auto
    have "scan_elements n (skip_space r') = scan_elements m' (skip_space r')"
      if "scan_value m' s = Some (v, r)" "skip_space r = '','' @ r'" for v r r'
      using 2 m scan_value_length [OF that(1)] that(2) skip_space_le [of r] skip_space_le [of r'] by (intro Suc.IH(2)) auto
    then show ?case unfolding m by (auto simp: val_eq after_Some split: option.split intro!: Option.bind_cong)
  next
    case 3
    then obtain m' where m: "m = Suc m'" by (cases m) auto
    have small: "2 * length (skip_space rb) < k"
      if "s = [CHR 0x22] @ r0" "scan_string r0 = Some (key, ra)" "skip_space ra = '':'' @ rb" "2 * length s \<le> k" for r0 key ra rb k
      using that scan_string_length [OF that(2)] skip_space_le [of ra] skip_space_le [of rb] by simp
    have val_eq: "scan_value n (skip_space rb) = scan_value m' (skip_space rb)"
      if "s = [CHR 0x22] @ r0" "scan_string r0 = Some (key, ra)" "skip_space ra = '':'' @ rb" for r0 key ra rb
      using 3 m by (intro Suc.IH(1) small [OF that]) auto
    have rest: "scan_members n (skip_space r') = scan_members m' (skip_space r')"
      if "s = [CHR 0x22] @ r0" "scan_string r0 = Some (key, ra)" "skip_space ra = '':'' @ rb"
        "scan_value m' (skip_space rb) = Some (v, r)" "skip_space r = '','' @ r'" for r0 key ra rb v r r'
      using 3 m small [OF that(1-3) order_refl] scan_value_length [OF that(4)] that(5) skip_space_le [of r] skip_space_le [of r']
      by (intro Suc.IH(3)) auto
    show ?case unfolding m
      by (auto simp: bind_eq_Some_conv after_Some val_eq rest split: option.split intro!: Option.bind_cong)
  }
qed simp_all

section \<open>Reading back what was written\<close>

text \<open>The value a reader sees: sorted keys when the writer sorts them.\<close>

fun written :: "bool \<Rightarrow> pyval \<Rightarrow> pyval" where
  "written srt (PList xs) = PList (map (written srt) xs)"
| "written srt (PDict d) =
    PDict (let d' = map (\<lambda>(k, v). (k, written srt v)) d in if srt then sort_key fst d' else d')"
| "written srt v = v"

text \<open>A finite float whose decimal form is a numeral of that float; every finite float of the value is one.\<close>

definition reads_back :: "(rat \<Rightarrow> string) \<Rightarrow> rat \<Rightarrow> bool" where
  "reads_back frepr q \<longleftrightarrow> list_all is_number_char (frepr q) \<and> json_number (frepr q) = Some (PFloat (Fin q))"

fun readable :: "(rat \<Rightarrow> string) \<Rightarrow> pyval \<Rightarrow> bool" where
  "readable frepr (PFloat (Fin q)) = reads_back frepr q"
| "readable frepr (PList xs) = list_all (readable frepr) xs"
| "readable frepr (PDict d) = list_all (\<lambda>(k, v). readable frepr v) d"
| "readable frepr v = True"

definition ends_value :: "string \<Rightarrow> bool" where
  "ends_value s = (case s of [] \<Rightarrow> True | c # _ \<Rightarrow> c \<in> {CHR '','', CHR '']'', CHR ''}''})"

lemma ends_value_simps [simp]: "ends_value []" "ends_value (CHR '','' # r)" "ends_value (CHR '']'' # r)" "ends_value (CHR ''}'' # r)"
  by (simp_all add: ends_value_def)

lemma hex_value_digit: "x < 16 \<Longrightarrow> hex_value (hex_digit x) = Some x"
  by (auto simp: hex_value_def hex_digit_def Let_def)

lemma hex_value_zero: "hex_value CHR ''0'' = Some 0"
  by (simp add: hex_value_def)

lemma json_escapes_backslash:
  assumes "map_of json_escapes (ord c) = Some e"
  shows "e \<noteq> CHR ''u'' \<and> map_of json_backslash e = Some c"
proof -
  have "list_all (\<lambda>(n, e). e \<noteq> CHR ''u'' \<and> map_of json_backslash e = Some (char_of n)) json_escapes" by code_simp
  with map_of_SomeD [OF assms] have "e \<noteq> CHR ''u'' \<and> map_of json_backslash e = Some (char_of (ord c))"
    by (auto simp: list_all_iff)
  then show ?thesis by simp
qed

lemma scan_json_char: "scan_string (json_char c @ r) = map_option (apfst (Cons c)) (scan_string r)"
proof (cases "map_of json_escapes (ord c)")
  case (Some e)
  with json_escapes_backslash [OF Some] show ?thesis by (simp add: json_char_def scan_string.simps(2))
next
  case None
  show ?thesis
  proof (cases "ord c < 32")
    case True
    then have "unicode_escape (CHR ''0'' # CHR ''0'' # hex_digit (ord c div 16) # hex_digit (ord c mod 16) # r) = Some ([c], r)"
      by (simp add: unicode_escape_def hex_value_digit hex_value_zero utf8_def)
    with True None show ?thesis by (simp add: json_char_def scan_string.simps(2) append_def)
  next
    case False
    with None json_char_plain [OF None] show ?thesis by (simp add: json_char_def scan_string.simps(2))
  qed
qed

lemma scan_json_chars: "scan_string (concat (map json_char s) @ CHR 0x22 # r) = Some (s, r)"
  by (induction s) (simp_all add: scan_json_char scan_string.simps(2))

lemma str_of_nat_leading_zero: "hd (str_of_nat n) = CHR ''0'' \<Longrightarrow> str_of_nat n = ''0''"
proof (induction n rule: str_of_nat.induct)
  case (1 n)
  show ?case
  proof (cases "n < 10")
    case True
    with "1.prems" show ?thesis by (auto simp: str_of_nat.simps [of n] dest: arg_cong [where f = ord])
  next
    case False
    with "1.prems" "1.IH" have "str_of_nat (n div 10) = ''0''" by (simp add: str_of_nat.simps [of n])
    moreover have "str_of_nat 0 = ''0''" by code_simp
    ultimately have "n div 10 = 0" by (metis nat_of_digits_str_of_nat option.inject)
    with False show ?thesis by simp
  qed
qed

lemma json_number_int: "json_number (str_of_int i) = Some (PInt i)"
proof -
  let ?d = "str_of_nat (nat \<bar>i\<bar>)"
  have d: "takeWhile is_digit ?d = ?d" "dropWhile is_digit ?d = []" using str_of_nat_digits by simp_all
  have "is_digit (hd ?d)" using str_of_nat_digits [of "nat \<bar>i\<bar>"] by (auto simp: hd_in_set)
  then have "hd ?d \<noteq> CHR ''-''" by (auto simp: is_digit_def)
  then have body: "(case str_of_int i of c # cs \<Rightarrow> if c = CHR ''-'' then cs else str_of_int i | [] \<Rightarrow> []) = ?d"
    by (cases "str_of_nat (nat \<bar>i\<bar>)") (auto simp: str_of_int_def abs_if)
  show ?thesis
    unfolding json_number_def Let_def body d using str_of_nat_leading_zero [of "nat \<bar>i\<bar>"] by (auto simp: json_fraction_def)
qed

lemma find_literal_None:
  assumes "s \<noteq> []" "hd s \<notin> {CHR ''n'', CHR ''t'', CHR ''f'', CHR ''N'', CHR ''I''}" "take 2 s \<noteq> ''-I''"
  shows "find (\<lambda>(word, v). after word s \<noteq> None) json_literals = None"
proof -
  have "after word s = None" if "(word, v) \<in> set json_literals" for word v
  proof (rule ccontr)
    assume "after word s \<noteq> None"
    then obtain r where "s = word @ r" using after_Some by blast
    with that assms show False by (auto simp: json_literals_def)
  qed
  then show ?thesis by (auto simp: find_None_iff)
qed

lemma number_text:
  assumes "list_all is_number_char t" "json_number t = Some v" "ends_value r"
  shows "t \<noteq> []" "is_number_char (hd t)" "scan_atom (t @ r) = Some (v, r)"
proof -
  show ne: "t \<noteq> []" using assms(2) by auto
  then show hd: "is_number_char (hd t)" using assms(1) by (cases t) auto
  have r: "takeWhile is_number_char r = []" "dropWhile is_number_char r = r"
    using assms(3) by (auto simp: ends_value_def is_number_char_def is_digit_def split: list.splits)
  have tr: "takeWhile is_number_char (t @ r) = t" "dropWhile is_number_char (t @ r) = r"
    using assms(1) r by (simp_all add: list_all_iff)
  have "find (\<lambda>(word, v). after word (t @ r) \<noteq> None) json_literals = None"
  proof (rule find_literal_None)
    show "hd (t @ r) \<notin> {CHR ''n'', CHR ''t'', CHR ''f'', CHR ''N'', CHR ''I''}"
      using hd ne by (auto simp: is_number_char_def is_digit_def)
    show "take 2 (t @ r) \<noteq> ''-I''"
    proof
      assume a: "take 2 (t @ r) = ''-I''"
      show False
      proof (cases t rule: remdups_adj.cases)
        case (2 x)
        with a assms(3) show False by (cases r) (auto simp: ends_value_def)
      next
        case (3 x y xs)
        with a assms(1) show False by (auto simp: is_number_char_def is_digit_def)
      qed (use ne in simp)
    qed
  qed (use ne in simp)
  with assms(2) show "scan_atom (t @ r) = Some (v, r)" by (simp add: scan_atom_def tr)
qed

lemma str_of_int_number: "list_all is_number_char (str_of_int i)"
  using str_of_nat_digits by (auto simp: str_of_int_def list_all_iff is_number_char_def)

lemma find_unique:
  assumes "x \<in> set xs" "P x" "\<And>y. y \<in> set xs \<Longrightarrow> P y \<Longrightarrow> y = x"
  shows "find P xs = Some x"
proof (cases "find P xs")
  case None
  with assms(1,2) show ?thesis by (auto simp: find_None_iff)
next
  case (Some y)
  with find_Some_in [OF Some] assms(3) show ?thesis by simp
qed

lemma literal_text:
  assumes "(word, v) \<in> set json_literals"
  shows "scan_atom (word @ r) = Some (v, r)"
proof -
  have "distinct (map (\<lambda>(w, v). hd w) json_literals)" by code_simp
  then have inj: "p = q" if "p \<in> set json_literals" "q \<in> set json_literals" "hd (fst p) = hd (fst q)" for p q
    using that distinct_key_eq [of "\<lambda>(w, v). hd w" json_literals p q] by (auto simp: case_prod_beta)
  have unique: "p = (word, v)" if "p \<in> set json_literals" "after (fst p) (word @ r) \<noteq> None" for p
  proof (rule inj [OF that(1) assms])
    from that(2) obtain r' where "word @ r = fst p @ r'" using after_Some by blast
    then have "hd (word @ r) = hd (fst p @ r')" by simp
    then show "hd (fst p) = hd (fst (word, v))"
      using json_literal_nonempty [OF assms] json_literal_nonempty [of "fst p" "snd p"] that(1) by simp
  qed
  have "find (\<lambda>(word', v). after word' (word @ r) \<noteq> None) json_literals = Some (word, v)"
  proof (rule find_unique [OF assms])
    show "case (word, v) of (word', v) \<Rightarrow> after word' (word @ r) \<noteq> None" by (simp add: after_def)
  qed (rule unique, simp_all add: case_prod_beta)
  then show ?thesis by (simp add: scan_atom_def)
qed

text \<open>The first character of a written value.\<close>

lemma dumps_head:
  assumes "readable frepr v"
  obtains c cs where "json_dumps frepr srt v = c # cs" "\<not> is_json_space c" "c \<notin> {CHR '']'', CHR ''}''}"
proof -
  note head = that
  have number: thesis if t: "is_number_char (hd t)" "t \<noteq> []" "json_dumps frepr srt v = t" for t
  proof (rule head)
    show "json_dumps frepr srt v = hd t # tl t" using t(2,3) by simp
  qed (use t(1) in \<open>auto simp: is_number_char_def is_digit_def is_json_space_def\<close>)
  consider (int) i where "v = PInt i" | (fin) q where "v = PFloat (Fin q)" | (other) "\<nexists>i. v = PInt i" "\<nexists>q. v = PFloat (Fin q)" by blast
  then show thesis
  proof cases
    case int
    with number_text(1,2) [OF str_of_int_number json_number_int ends_value_simps(1)] show thesis by (intro number [of "str_of_int i"]) auto
  next
    case fin
    with assms number_text(1,2) [OF _ _ ends_value_simps(1)] show thesis
      by (intro number [of "frepr q"]) (auto simp: reads_back_def)
  next
    case other
    have "v = PBool b \<Longrightarrow> thesis" for b using head by (cases b) (auto simp: is_json_space_def)
    with other head show thesis by (cases "(frepr, v)" rule: readable.cases) (auto simp: is_json_space_def json_string_def Let_def)
  qed
qed

lemma skip_space_dumps: "readable frepr v \<Longrightarrow> skip_space (json_dumps frepr srt v @ r) = json_dumps frepr srt v @ r"
  by (erule dumps_head [of _ _ srt]) (simp add: skip_space_def)

lemma skip_space_punct [simp]:
  "skip_space [] = []" "skip_space (CHR '','' # r) = CHR '','' # r" "skip_space (CHR '']'' # r) = CHR '']'' # r"
  "skip_space (CHR ''}'' # r) = CHR ''}'' # r" "skip_space (CHR '':'' # r) = CHR '':'' # r" "skip_space (CHR 0x22 # r) = CHR 0x22 # r"
  by (simp_all add: skip_space_def is_json_space_def)

text \<open>A value that reads back in every context with a large enough bound.\<close>

definition scans :: "(rat \<Rightarrow> string) \<Rightarrow> bool \<Rightarrow> pyval \<Rightarrow> bool" where
  "scans frepr srt v \<longleftrightarrow> (\<forall>n r. ends_value r \<longrightarrow> 2 * length (json_dumps frepr srt v @ r) < n \<longrightarrow>
     scan_value n (json_dumps frepr srt v @ r) = Some (written srt v, r))"

lemma scan_elements_join:
  assumes "vs \<noteq> []" "\<forall>v \<in> set vs. readable frepr v \<and> scans frepr srt v"
    "2 * length (join_with '','' (map (json_dumps frepr srt) vs) @ CHR '']'' # r) + 1 < n"
  shows "scan_elements n (join_with '','' (map (json_dumps frepr srt) vs) @ CHR '']'' # r) = Some (map (written srt) vs, r)"
  using assms
proof (induction vs arbitrary: n)
  case (Cons v vs)
  from Cons.prems(3) obtain m where n: "n = Suc m" by (cases n) auto
  show ?case
  proof (cases vs)
    case Nil
    with Cons.prems n show ?thesis by (simp add: scans_def)
  next
    case (Cons w ws)
    let ?rest = "join_with '','' (map (json_dumps frepr srt) vs) @ CHR '']'' # r"
    have txt_eq: "join_with '','' (map (json_dumps frepr srt) (v # vs)) @ CHR '']'' # r = json_dumps frepr srt v @ CHR '','' # ?rest"
      using Cons by simp
    have head: "scan_value m (json_dumps frepr srt v @ CHR '','' # ?rest) = Some (written srt v, CHR '','' # ?rest)"
      using Cons.prems n unfolding txt_eq by (simp add: scans_def)
    have "scan_elements m ?rest = Some (map (written srt) vs, r)"
      using Cons.prems n Cons unfolding txt_eq by (intro Cons.IH) auto
    moreover have "skip_space ?rest = ?rest"
      using Cons Cons.prems skip_space_dumps [of frepr w srt] by (cases ws) (simp_all del: json_dumps.simps)
    ultimately show ?thesis unfolding txt_eq n by (simp add: head)
  qed
qed simp

lemma scan_members_join:
  assumes "d \<noteq> []" "\<forall>(k, v) \<in> set d. readable frepr v \<and> scans frepr srt v"
    "2 * length (join_with '','' (map (\<lambda>(k, v). json_string k @ '':'' @ json_dumps frepr srt v) d) @ CHR ''}'' # r) + 1 < n"
  shows "scan_members n (join_with '','' (map (\<lambda>(k, v). json_string k @ '':'' @ json_dumps frepr srt v) d) @ CHR ''}'' # r)
    = Some (map (\<lambda>(k, v). (k, written srt v)) d, r)"
  using assms
proof (induction d arbitrary: n)
  case (Cons p d)
  obtain k v where p: "p = (k, v)" by fastforce
  let ?join = "\<lambda>d. join_with '','' (map (\<lambda>(k, v). json_string k @ '':'' @ json_dumps frepr srt v) d)"
  from Cons.prems(3) obtain m where n: "n = Suc m" by (cases n) auto
  have rv: "readable frepr v" "scans frepr srt v" using Cons.prems(2) p by auto
  have member: "scan_members (Suc m) (json_string k @ '':'' @ json_dumps frepr srt v @ s)
      = (case after ''}'' s of Some r' \<Rightarrow> Some ([(k, written srt v)], r')
         | None \<Rightarrow> Option.bind (after '','' s) (\<lambda>r'. map_option (apfst (Cons (k, written srt v))) (scan_members m (skip_space r'))))"
    if "ends_value s" "s \<noteq> []" "2 * length (json_dumps frepr srt v @ s) < m" for s
  proof -
    have "scan_value m (json_dumps frepr srt v @ s) = Some (written srt v, s)" using that rv(2) by (simp add: scans_def)
    moreover have "skip_space s = s" using that(1,2) by (cases s) (auto simp: ends_value_def)
    ultimately show ?thesis
      using scan_json_chars by (simp add: json_string_def skip_space_dumps [OF rv(1)] split: option.split)
  qed
  show ?case
  proof (cases d)
    case Nil
    with Cons.prems n p member [of "CHR ''}'' # r"] show ?thesis by (simp add: json_string_def)
  next
    case (Cons q d')
    let ?rest = "?join d @ CHR ''}'' # r"
    have txt_eq: "?join (p # d) @ CHR ''}'' # r = json_string k @ '':'' @ json_dumps frepr srt v @ CHR '','' # ?rest"
      using Cons p by simp
    have "scan_members m ?rest = Some (map (\<lambda>(k, v). (k, written srt v)) d, r)"
      using Cons.prems n Cons unfolding txt_eq by (intro Cons.IH) auto
    moreover have "skip_space ?rest = ?rest"
      using Cons by (cases q; cases d') (simp_all add: json_string_def)
    moreover have "2 * length (json_dumps frepr srt v @ CHR '','' # ?rest) < m" using Cons.prems(3) n unfolding txt_eq by simp
    ultimately show ?thesis unfolding txt_eq n using p by (subst member) simp_all
  qed
qed simp

lemma insort_map_fst: "insort_key fst (k, f v) (map (\<lambda>(k, v). (k, f v)) d) = map (\<lambda>(k, v). (k, f v)) (insort_key fst (k, v) d)"
  by (induction d) auto

lemma sort_map_fst: "sort_key fst (map (\<lambda>(k, v). (k, f v)) d) = map (\<lambda>(k, v). (k, f v)) (sort_key fst d)"
  by (induction d) (auto simp: insort_map_fst)

lemma dumps_dict:
  "json_dumps frepr srt (PDict d) =
   ''{'' @ join_with '','' (map (\<lambda>(k, v). json_string k @ '':'' @ json_dumps frepr srt v) (if srt then sort_key fst d else d)) @ ''}''"
proof -
  have "map (\<lambda>(k, t). json_string k @ '':'' @ t) (map (\<lambda>(k, v). (k, json_dumps frepr srt v)) d')
      = map (\<lambda>(k, v). json_string k @ '':'' @ json_dumps frepr srt v) d'" for d' srt
    by auto
  then show ?thesis by (cases srt) (simp_all add: Let_def sort_map_fst del: map_map)
qed

lemma written_dict: "written srt (PDict d) = PDict (map (\<lambda>(k, v). (k, written srt v)) (if srt then sort_key fst d else d))"
  by (simp add: Let_def sort_map_fst)

lemma scans_atom:
  assumes "json_dumps frepr srt v \<noteq> []" "hd (json_dumps frepr srt v) \<notin> {CHR 0x22, CHR ''{'', CHR ''[''}"
    "\<And>r. ends_value r \<Longrightarrow> scan_atom (json_dumps frepr srt v @ r) = Some (written srt v, r)"
  shows "scans frepr srt v"
  unfolding scans_def
proof (intro allI impI)
  fix n r
  assume "ends_value r" "2 * length (json_dumps frepr srt v @ r) < n"
  with assms show "scan_value n (json_dumps frepr srt v @ r) = Some (written srt v, r)"
    by (cases n; cases "json_dumps frepr srt v") auto
qed

lemma scans_number:
  assumes "json_dumps frepr srt v = t" "list_all is_number_char t" "json_number t = Some (written srt v)"
  shows "scans frepr srt v"
proof (rule scans_atom)
  have "t \<noteq> []" "is_number_char (hd t)" using number_text(1,2) [OF assms(2,3) ends_value_simps(1)] by auto
  with assms(1) show "json_dumps frepr srt v \<noteq> []" "hd (json_dumps frepr srt v) \<notin> {CHR 0x22, CHR ''{'', CHR ''[''}"
    by (auto simp: is_number_char_def is_digit_def)
qed (use number_text(3) [OF assms(2,3)] assms(1) in simp)

lemma first_char:
  assumes "\<exists>u. t = c # u" "\<not> is_json_space c" "c \<noteq> d"
  shows "skip_space t = t \<and> after [d] t = None"
  using assms by (auto simp: skip_space_def)

lemma scans_list:
  assumes "\<forall>v \<in> set vs. readable frepr v \<and> scans frepr srt v"
  shows "scans frepr srt (PList vs)"
  unfolding scans_def
proof (intro allI impI)
  fix n r
  assume bound: "2 * length (json_dumps frepr srt (PList vs) @ r) < n"
  then obtain m where n: "n = Suc m" by (cases n) auto
  show "scan_value n (json_dumps frepr srt (PList vs) @ r) = Some (written srt (PList vs), r)"
  proof (cases vs)
    case (Cons v ws)
    let ?t = "join_with '','' (map (json_dumps frepr srt) vs) @ CHR '']'' # r"
    have "readable frepr v" using assms Cons by simp
    then obtain c cs where c: "json_dumps frepr srt v = c # cs" "\<not> is_json_space c" "c \<notin> {CHR '']'', CHR ''}''}"
      by (rule dumps_head [where srt = srt])
    have "\<exists>u. ?t = c # u" using c(1) Cons by (cases ws) simp_all
    then have "skip_space ?t = ?t \<and> after '']'' ?t = None" using c(2,3) by (intro first_char) auto
    moreover have "scan_elements m ?t = Some (map (written srt) vs, r)"
      using assms bound n Cons by (intro scan_elements_join) auto
    ultimately show ?thesis using n by simp
  qed (use n in simp)
qed

lemma scans_dict:
  assumes "\<forall>(k, v) \<in> set d. readable frepr v \<and> scans frepr srt v"
  shows "scans frepr srt (PDict d)"
  unfolding scans_def
proof (intro allI impI)
  fix n r
  let ?d = "if srt then sort_key fst d else d"
  let ?t = "join_with '','' (map (\<lambda>(k, v). json_string k @ '':'' @ json_dumps frepr srt v) ?d) @ CHR ''}'' # r"
  assume bound: "2 * length (json_dumps frepr srt (PDict d) @ r) < n"
  then obtain m where n: "n = Suc m" by (cases n) auto
  have txt_eq: "json_dumps frepr srt (PDict d) @ r = CHR ''{'' # ?t" unfolding dumps_dict by simp
  show "scan_value n (json_dumps frepr srt (PDict d) @ r) = Some (written srt (PDict d), r)"
  proof (cases ?d)
    case Nil
    then show ?thesis unfolding txt_eq written_dict n by simp
  next
    case (Cons p d')
    have "\<exists>u. ?t = CHR 0x22 # u" using Cons by (cases p; cases d') (simp_all add: json_string_def)
    then have "skip_space ?t = ?t \<and> after ''}'' ?t = None" by (rule first_char) (simp_all add: is_json_space_def)
    moreover have "scan_members m ?t = Some (map (\<lambda>(k, v). (k, written srt v)) ?d, r)"
    proof (rule scan_members_join)
      show "?d \<noteq> []" using Cons by simp
      have "set ?d = set d" by simp
      with assms show "\<forall>(k, v) \<in> set ?d. readable frepr v \<and> scans frepr srt v" by blast
      show "2 * length ?t + 1 < m" using bound n unfolding txt_eq by simp
    qed
    ultimately show ?thesis unfolding txt_eq written_dict n by simp
  qed
qed

lemma scans_literal:
  assumes "(json_dumps frepr srt v, written srt v) \<in> set json_literals"
  shows "scans frepr srt v"
proof (rule scans_atom)
  show "json_dumps frepr srt v \<noteq> []" using json_literal_nonempty [OF assms] .
  have "list_all (\<lambda>(w, v). hd w \<notin> {CHR 0x22, CHR ''{'', CHR ''[''}) json_literals" by code_simp
  with assms show "hd (json_dumps frepr srt v) \<notin> {CHR 0x22, CHR ''{'', CHR ''[''}" by (auto simp: list_all_iff)
qed (rule literal_text [OF assms])

lemma scans_string: "scans frepr srt (PStr s)"
  unfolding scans_def
proof (intro allI impI)
  fix n r
  assume "2 * length (json_dumps frepr srt (PStr s) @ r) < n"
  then obtain m where "n = Suc m" by (cases n) auto
  then show "scan_value n (json_dumps frepr srt (PStr s) @ r) = Some (written srt (PStr s), r)"
    by (simp add: json_string_def scan_json_chars)
qed

lemma readable_scans: "readable frepr v \<Longrightarrow> scans frepr srt v"
proof (induction v)
  case (PFloat f)
  show ?case
  proof (cases f)
    case (Fin q)
    with PFloat show ?thesis by (intro scans_number [OF refl]) (auto simp: reads_back_def)
  qed (auto intro: scans_literal simp: json_literals_def)
next
  case (PInt i)
  show ?case by (rule scans_number [OF refl]) (simp_all add: str_of_int_number json_number_int)
next
  case (PList xs)
  then show ?case by (intro scans_list) (auto simp: list_all_iff)
next
  case (PDict d)
  then show ?case by (intro scans_dict) (fastforce simp: list_all_iff)
qed (auto intro: scans_literal scans_string simp: json_literals_def)

theorem json_loads_dumps:
  assumes "readable frepr v"
  shows "json_loads (json_dumps frepr srt v) = Some (written srt v)"
proof -
  have sk: "skip_space (json_dumps frepr srt v) = json_dumps frepr srt v"
    using skip_space_dumps [OF assms, of srt "[]"] by simp
  have "scan_value (read_bound (json_dumps frepr srt v)) (json_dumps frepr srt v @ []) = Some (written srt v, [])"
    by (rule readable_scans [OF assms, unfolded scans_def, rule_format]) (simp_all add: read_bound_def)
  then show ?thesis by (simp add: json_loads_def sk del: scan_value.simps)
qed

section \<open>Written texts are UTF-8\<close>

lemma utf8_steps:
  "ord a < 128 \<Longrightarrow> utf8_ok (a # s) = utf8_ok s"
  "194 \<le> ord a \<Longrightarrow> ord a \<le> 223 \<Longrightarrow> is_continuation b \<Longrightarrow> utf8_ok (a # b # s) = utf8_ok s"
  "224 \<le> ord a \<Longrightarrow> ord a \<le> 239 \<Longrightarrow> (ord a = 224 \<Longrightarrow> 160 \<le> ord b) \<Longrightarrow> is_continuation b \<Longrightarrow> is_continuation c
   \<Longrightarrow> utf8_ok (a # b # c # s) = utf8_ok s"
  "240 \<le> ord a \<Longrightarrow> ord a \<le> 244 \<Longrightarrow> (ord a = 240 \<Longrightarrow> 144 \<le> ord b) \<Longrightarrow> (ord a = 244 \<Longrightarrow> ord b < 144) \<Longrightarrow> is_continuation b
   \<Longrightarrow> is_continuation c \<Longrightarrow> is_continuation d \<Longrightarrow> utf8_ok (a # b # c # d # s) = utf8_ok s"
  by (auto simp: utf8_ok.simps(2) Let_def)

lemma utf8_ok_cases [consumes 1, case_names empty ascii two three four]:
  assumes "utf8_ok s"
  obtains "s = []"
  | a r where "s = a # r" "ord a < 128" "utf8_ok r"
  | a b r where "s = a # b # r" "194 \<le> ord a" "ord a \<le> 223" "is_continuation b" "utf8_ok r"
  | a b c r where "s = a # b # c # r" "224 \<le> ord a" "ord a \<le> 239" "ord a = 224 \<Longrightarrow> 160 \<le> ord b" "is_continuation b"
      "is_continuation c" "utf8_ok r"
  | a b c d r where "s = a # b # c # d # r" "240 \<le> ord a" "ord a \<le> 244" "ord a = 240 \<Longrightarrow> 144 \<le> ord b" "ord a = 244 \<Longrightarrow> ord b < 144"
      "is_continuation b" "is_continuation c" "is_continuation d" "utf8_ok r"
proof (cases s)
  case (Cons a s')
  with assms that show thesis
    by (auto simp: utf8_ok.simps(2) Let_def split: list.splits if_splits)
qed (use that in blast)

lemma utf8_ok_append: "utf8_ok a \<Longrightarrow> utf8_ok (a @ b) = utf8_ok b"
proof (induction a rule: length_induct)
  case (1 s)
  from "1.prems" show ?case
    by (cases rule: utf8_ok_cases) (use "1.IH" in \<open>simp_all add: utf8_steps\<close>)
qed

lemma utf8_ok_ascii: "list_all isascii s \<Longrightarrow> utf8_ok s"
  by (induction s) (simp_all add: utf8_ok.simps(2) isascii_def)

lemma utf8_ok_ascii_append: "list_all isascii a \<Longrightarrow> utf8_ok (a @ b) = utf8_ok b"
  by (simp add: utf8_ok_append utf8_ok_ascii)

lemma hex_digit_ascii: "n < 16 \<Longrightarrow> isascii (hex_digit n)"
  by (simp add: hex_digit_def isascii_def)

lemma json_char_ascii: "isascii c \<Longrightarrow> list_all isascii (json_char c)"
proof -
  have "list_all (\<lambda>(n, e). isascii e) json_escapes" by code_simp
  then have "map_of json_escapes n = Some e \<Longrightarrow> isascii e" for n e by (auto simp: list_all_iff dest: map_of_SomeD)
  then show "isascii c \<Longrightarrow> list_all isascii (json_char c)"
    using hex_digit_ascii [of "ord c div 16"] hex_digit_ascii [of "ord c mod 16"]
    by (auto simp: json_char_def isascii_def split: option.split)
qed

lemma json_char_high: "128 \<le> ord c \<Longrightarrow> json_char c = [c]"
  by (auto simp: json_char_def json_escapes_def)

lemma json_chars_utf8: "utf8_ok s \<Longrightarrow> utf8_ok (concat (map json_char s))"
proof (induction s rule: length_induct)
  case (1 s)
  from "1.prems" show ?case
    by (cases rule: utf8_ok_cases)
       (use "1.IH" in \<open>simp_all add: utf8_steps json_char_high is_continuation_def utf8_ok_ascii_append json_char_ascii isascii_def\<close>)
qed

fun utf8_value :: "pyval \<Rightarrow> bool" where
  "utf8_value (PStr s) = utf8_ok s"
| "utf8_value (PList xs) = list_all utf8_value xs"
| "utf8_value (PDict d) = list_all (\<lambda>(k, v). utf8_ok k \<and> utf8_value v) d"
| "utf8_value _ = True"

lemma json_string_utf8: "utf8_ok s \<Longrightarrow> utf8_ok (json_string s)"
  by (simp add: json_string_def utf8_ok.simps(2) utf8_ok_append json_chars_utf8)

lemma join_utf8: "\<forall>t \<in> set ts. utf8_ok t \<Longrightarrow> utf8_ok (join_with '','' ts)"
  by (induction ts rule: induct_list012) (simp_all add: utf8_ok_append utf8_ok.simps(2))

lemma number_ascii: "list_all is_number_char t \<Longrightarrow> list_all isascii t"
  by (auto simp: list_all_iff is_number_char_def is_digit_def isascii_def)

lemma json_dumps_utf8: "readable frepr v \<Longrightarrow> utf8_value v \<Longrightarrow> utf8_ok (json_dumps frepr srt v)"
proof (induction v)
  case (PFloat f)
  then show ?case
    by (cases f) (simp_all add: reads_back_def utf8_ok_ascii number_ascii isascii_def)
next
  case (PInt i)
  show ?case by (simp add: utf8_ok_ascii number_ascii str_of_int_number)
next
  case (PList xs)
  then have "utf8_ok (join_with '','' (map (json_dumps frepr srt) xs))" by (intro join_utf8) (auto simp: list_all_iff)
  then show ?case by (simp add: utf8_ok.simps(2) utf8_ok_append)
next
  case (PDict d)
  let ?d = "if srt then sort_key fst d else d"
  have "utf8_ok (json_string k @ '':'' @ json_dumps frepr srt v)" if "(k, v) \<in> set d" for k v
    using PDict that by (fastforce simp: utf8_ok_append json_string_utf8 utf8_ok.simps(2) list_all_iff)
  moreover have "set ?d = set d" by simp
  ultimately have "utf8_ok (join_with '','' (map (\<lambda>(k, v). json_string k @ '':'' @ json_dumps frepr srt v) ?d))"
    by (intro join_utf8) (auto simp del: set_sort)
  then show ?case unfolding dumps_dict by (simp add: utf8_ok.simps(2) utf8_ok_append)
qed (simp_all add: utf8_ok.simps(2) json_string_utf8)

section \<open>Size\<close>

text \<open>A bound on the length of the written text that only looks at the lengths of the strings.\<close>

fun json_weight :: "(rat \<Rightarrow> string) \<Rightarrow> pyval \<Rightarrow> nat" where
  "json_weight frepr (PStr s) = 2 + 6 * length s"
| "json_weight frepr (PList xs) = 2 + sum_list (map (\<lambda>x. 1 + json_weight frepr x) xs)"
| "json_weight frepr (PDict d) = 2 + sum_list (map (\<lambda>(k, v). 4 + 6 * length k + json_weight frepr v) d)"
| "json_weight frepr v = length (json_dumps frepr False v)"

lemma json_char_length: "length (json_char c) \<le> 6"
  by (simp add: json_char_def split: option.split)

lemma json_string_length: "length (json_string s) \<le> 2 + 6 * length s"
proof -
  have "length (concat (map json_char s)) \<le> 6 * length s"
  proof (induction s)
    case (Cons c s)
    then show ?case using json_char_length [of c] by simp
  qed simp
  then show ?thesis by (simp add: json_string_def)
qed

lemma join_length: "length (join_with [c] ts) \<le> sum_list (map (\<lambda>t. 1 + length t) ts)"
  by (induction "[c]" ts rule: join_with.induct) simp_all

lemma json_dumps_length: "length (json_dumps frepr False v) \<le> json_weight frepr v"
proof (induction v rule: pyval.induct)
  case (PList xs)
  have "sum_list (map (\<lambda>x. 1 + length (json_dumps frepr False x)) xs) \<le> sum_list (map (\<lambda>x. 1 + json_weight frepr x) xs)"
    using PList by (intro sum_list_mono) simp
  with join_length [of "CHR '',''" "map (json_dumps frepr False) xs"] show ?case by (simp add: o_def)
next
  case (PDict d)
  have "1 + length (json_string k @ '':'' @ json_dumps frepr False v) \<le> 4 + 6 * length k + json_weight frepr v" if "(k, v) \<in> set d" for k v
    using PDict [OF that, of v] json_string_length [of k] by simp
  then have "sum_list (map (\<lambda>(k, v). 1 + length (json_string k @ '':'' @ json_dumps frepr False v)) d)
      \<le> sum_list (map (\<lambda>(k, v). 4 + 6 * length k + json_weight frepr v) d)"
    by (intro sum_list_mono) auto
  with join_length [of "CHR '',''" "map (\<lambda>(k, v). json_string k @ '':'' @ json_dumps frepr False v) d"]
  show ?case by (simp add: o_def case_prod_unfold)
qed (use json_string_length in simp_all)

end
