(* ===== verification/Base64.thy ===== *)
theory Base64
  imports Json_Reader
begin

text \<open>
  The base64 functions of the standard library that the providers use: the URL-safe encoder, the lenient decoder of
  \<open>urlsafe_b64decode\<close> and the strict one of \<open>b64decode(validate=True)\<close>.  Both read back what was encoded, also after the
  padding was stripped and completed again.
\<close>

section \<open>Base64\<close>

text \<open>\<open>base64.urlsafe_b64encode\<close>.\<close>

definition b64_char :: "nat \<Rightarrow> char" where
  "b64_char n =
    (if n < 26 then char_of (65 + n) else if n < 52 then char_of (71 + n) else if n < 62 then char_of (n - 4)
     else if n = 62 then CHR ''-'' else CHR ''_'')"

fun b64_encode :: "bytes \<Rightarrow> string" where
  "b64_encode [] = []"
| "b64_encode [a] = [b64_char (ord a div 4), b64_char (ord a mod 4 * 16), CHR ''='', CHR ''='']"
| "b64_encode [a, b] =
    [b64_char (ord a div 4), b64_char (ord a mod 4 * 16 + ord b div 16), b64_char (ord b mod 16 * 4), CHR ''='']"
| "b64_encode (a # b # c # s) =
    [b64_char (ord a div 4), b64_char (ord a mod 4 * 16 + ord b div 16), b64_char (ord b mod 16 * 4 + ord c div 64),
     b64_char (ord c mod 64)] @ b64_encode s"

text \<open>\<open>base64.urlsafe_b64decode\<close>: \<open>binascii.a2b_base64\<close> without strict mode after \<open>-_\<close> were translated to \<open>+/\<close>.  Characters
  outside the alphabet are skipped, a complete padding ends the text, an incomplete quad is an error.  The arguments
  are the position in the quad, the bits left over and the padding seen.\<close>

definition b64_value :: "char \<Rightarrow> nat option" where
  "b64_value c =
    (if is_upper_ascii c then Some (ord c - 65) else if is_lower_ascii c then Some (ord c - 71)
     else if is_digit c then Some (ord c + 4) else if c = CHR ''+'' \<or> c = CHR ''-'' then Some 62
     else if c = CHR ''/'' \<or> c = CHR ''_'' then Some 63 else None)"

fun a2b_base64 :: "nat \<Rightarrow> nat \<Rightarrow> nat \<Rightarrow> string \<Rightarrow> bytes option" where
  "a2b_base64 q left pads [] = (if q = 0 then Some [] else None)"
| "a2b_base64 q left pads (c # s) =
    (if c = CHR ''='' then
       (if q \<ge> 2 \<and> q + pads + 1 \<ge> 4 then Some [] else a2b_base64 q left (if q \<ge> 2 then pads + 1 else pads) s)
     else
       (case b64_value c of
          None \<Rightarrow> a2b_base64 q left pads s
        | Some v \<Rightarrow>
           if q = 0 then a2b_base64 1 v 0 s
           else if q = 1 then map_option (Cons (char_of (left * 4 + v div 16))) (a2b_base64 2 (v mod 16) 0 s)
           else if q = 2 then map_option (Cons (char_of (left * 16 + v div 4))) (a2b_base64 3 (v mod 4) 0 s)
           else map_option (Cons (char_of (left * 64 + v))) (a2b_base64 0 0 0 s)))"

definition urlsafe_b64decode :: "string \<Rightarrow> bytes option" where
  "urlsafe_b64decode s = (if list_all isascii s then a2b_base64 0 0 0 s else None)"

definition rstrip_pad :: "string \<Rightarrow> string" where
  "rstrip_pad s = rev (dropWhile (\<lambda>c. c = CHR ''='') (rev s))"

text \<open>\<open>base64.b64decode(s, altchars=b"-_", validate=True)\<close>: whole quads of the alphabet, padding only at the end.\<close>

fun b64_strict :: "string \<Rightarrow> bytes option" where
  "b64_strict [] = Some []"
| "b64_strict (a # b # c # d # s) =
    (if s = [] \<and> d = CHR ''='' then
       (if c = CHR ''='' then
          (case (b64_value a, b64_value b) of (Some w, Some x) \<Rightarrow> Some [char_of (w * 4 + x div 16)] | _ \<Rightarrow> None)
        else
          (case (b64_value a, b64_value b, b64_value c) of
             (Some w, Some x, Some y) \<Rightarrow> Some [char_of (w * 4 + x div 16), char_of (x mod 16 * 16 + y div 4)]
           | _ \<Rightarrow> None))
     else
       (case (b64_value a, b64_value b, b64_value c, b64_value d) of
          (Some w, Some x, Some y, Some z) \<Rightarrow>
            map_option (append [char_of (w * 4 + x div 16), char_of (x mod 16 * 16 + y div 4), char_of (y mod 4 * 64 + z)]) (b64_strict s)
        | _ \<Rightarrow> None))"
| "b64_strict _ = None"

section \<open>Decoding what was encoded\<close>

lemma b64_value_char: "n < 64 \<Longrightarrow> b64_value (b64_char n) = Some n"
  by (auto simp: b64_char_def b64_value_def is_upper_ascii_def is_lower_ascii_def is_digit_def)

lemma b64_value_None [simp]: "b64_value CHR ''='' = None" "b64_value CHR ''.'' = None"
  by code_simp+

lemma b64_char_props:
  assumes "n < 64"
  shows "b64_value (b64_char n) = Some n" "b64_char n \<noteq> CHR ''=''" "b64_char n \<noteq> CHR ''.''" "isascii (b64_char n)"
proof -
  show v: "b64_value (b64_char n) = Some n" using assms by (rule b64_value_char)
  show "b64_char n \<noteq> CHR ''=''" "b64_char n \<noteq> CHR ''.''" using v by auto
  show "isascii (b64_char n)" using assms by (auto simp: b64_char_def isascii_def)
qed

lemma quad_bounds:
  "ord a div 4 < 64" "ord a mod 4 * 16 < 64" "ord a mod 4 * 16 + ord b div 16 < 64" "ord b mod 16 * 4 < 64"
  "ord b mod 16 * 4 + ord c div 64 < 64" "ord c mod 64 < 64"
proof -
  have b: "ord a div 4 < 64" "ord b div 16 < 16" "ord c div 64 < 4" "ord a mod 4 < 4" "ord b mod 16 < 16" "ord c mod 64 < 64"
    by (simp_all add: div_less_iff_less_mult)
  then show "ord a div 4 < 64" "ord a mod 4 * 16 < 64" "ord a mod 4 * 16 + ord b div 16 < 64" "ord b mod 16 * 4 < 64"
    "ord b mod 16 * 4 + ord c div 64 < 64" "ord c mod 64 < 64" by linarith+
qed

lemma quad_bits:
  "(ord a mod 4 * 16 + ord b div 16) div 16 = ord a mod 4" "(ord a mod 4 * 16 + ord b div 16) mod 16 = ord b div 16"
  "(ord b mod 16 * 4 + ord c div 64) div 4 = ord b mod 16" "(ord b mod 16 * 4 + ord c div 64) mod 4 = ord c div 64"
  "ord b div 16 mod 16 = ord b div 16" "ord c div 64 mod 4 = ord c div 64"
proof -
  have "ord b div 16 < 16" "ord c div 64 < 4" by (simp_all add: div_less_iff_less_mult)
  then show "(ord a mod 4 * 16 + ord b div 16) div 16 = ord a mod 4" "(ord a mod 4 * 16 + ord b div 16) mod 16 = ord b div 16"
    "(ord b mod 16 * 4 + ord c div 64) div 4 = ord b mod 16" "(ord b mod 16 * 4 + ord c div 64) mod 4 = ord c div 64"
    "ord b div 16 mod 16 = ord b div 16" "ord c div 64 mod 4 = ord c div 64" by simp_all
qed

lemma a2b_encode: "a2b_base64 0 0 0 (b64_encode s) = Some s"
proof (induction s rule: b64_encode.induct)
  case (2 a)
  show ?case using quad_bounds(1,2) [of a] b64_char_props(1,2) by simp
next
  case (3 a b)
  show ?case using quad_bounds(1,3) [of a] quad_bounds(4) [of b] b64_char_props(1,2) by (simp add: quad_bits)
next
  case (4 a b c s)
  show ?case using quad_bounds(1,3) [of a] quad_bounds(5) [of b c] quad_bounds(6) [of c] b64_char_props(1,2) 4 by (simp add: quad_bits)
qed simp

text \<open>The encoded text: its digits, and the padding that completes the last quad.\<close>

lemma b64_encode_padding:
  "\<exists>ds. b64_encode s = ds @ replicate ((4 - length ds mod 4) mod 4) CHR ''=''
     \<and> (\<forall>c \<in> set ds. c \<noteq> CHR ''='' \<and> c \<noteq> CHR ''.'' \<and> isascii c)"
proof (induction s rule: b64_encode.induct)
  case (2 a)
  show ?case
    by (intro exI [of _ "[b64_char (ord a div 4), b64_char (ord a mod 4 * 16)]"])
       (use quad_bounds(1,2) [of a] b64_char_props(2-4) in \<open>simp add: numeral_2_eq_2\<close>)
next
  case (3 a b)
  show ?case
    by (intro exI [of _ "[b64_char (ord a div 4), b64_char (ord a mod 4 * 16 + ord b div 16), b64_char (ord b mod 16 * 4)]"])
       (use quad_bounds(1,3) [of a] quad_bounds(4) [of b] b64_char_props(2-4) in simp)
next
  case (4 a b c s)
  then obtain ds where ds: "b64_encode s = ds @ replicate ((4 - length ds mod 4) mod 4) CHR ''=''"
    "\<forall>c \<in> set ds. c \<noteq> CHR ''='' \<and> c \<noteq> CHR ''.'' \<and> isascii c" by blast
  let ?q = "[b64_char (ord a div 4), b64_char (ord a mod 4 * 16 + ord b div 16), b64_char (ord b mod 16 * 4 + ord c div 64),
     b64_char (ord c mod 64)]"
  have "length (?q @ ds) mod 4 = length ds mod 4" by simp
  with ds show ?case
    by (intro exI [of _ "?q @ ds"])
       (use quad_bounds(1,3) [of a] quad_bounds(5) [of b c] quad_bounds(6) [of c] b64_char_props(2-4) in simp)
qed simp

lemma py_len_ascii: "list_all isascii s \<Longrightarrow> py_len s = length s"
  by (induction s) (auto simp: py_len_def isascii_def is_continuation_def)

lemma rstrip_pad_append:
  assumes "CHR ''='' \<notin> set ds"
  shows "rstrip_pad (ds @ replicate k CHR ''='') = ds"
proof -
  have "dropWhile (\<lambda>c. c = CHR ''='') (replicate k CHR ''='' @ rev ds) = dropWhile (\<lambda>c. c = CHR ''='') (rev ds)"
    by (induction k) simp_all
  also have "\<dots> = rev ds" using assms by (cases ds rule: rev_cases) auto
  finally show ?thesis by (simp add: rstrip_pad_def)
qed

lemma b64_round_trip:
  fixes s :: bytes
  defines "e \<equiv> rstrip_pad (b64_encode s)"
  shows "urlsafe_b64decode (e @ replicate ((4 - py_len e mod 4) mod 4) CHR ''='') = Some s" "CHR ''.'' \<notin> set e"
proof -
  obtain ds where ds: "b64_encode s = ds @ replicate ((4 - length ds mod 4) mod 4) CHR ''=''"
    "\<forall>c \<in> set ds. c \<noteq> CHR ''='' \<and> c \<noteq> CHR ''.'' \<and> isascii c" using b64_encode_padding by blast
  have e: "e = ds" unfolding e_def ds(1) using ds(2) by (intro rstrip_pad_append) blast
  have ascii: "list_all isascii ds" using ds(2) by (simp add: list_all_iff)
  have "list_all isascii (replicate k CHR ''='')" for k by (induction k) (simp_all add: isascii_def)
  with ascii show "urlsafe_b64decode (e @ replicate ((4 - py_len e mod 4) mod 4) CHR ''='') = Some s"
    unfolding e py_len_ascii [OF ascii] ds(1) [symmetric] urlsafe_b64decode_def by (simp add: a2b_encode ds(1) [symmetric]) (simp add: ds(1))
  show "CHR ''.'' \<notin> set e" using ds(2) e by blast
qed

lemma quad_chars:
  "char_of (ord a div 4 * 4 + ord a mod 4) = a" "char_of (ord b div 16 * 16 + ord b mod 16) = b"
  "char_of (ord c div 64 * 64 + ord c mod 64) = c"
  by simp_all

lemma strict_encode: "b64_strict (b64_encode s) = Some s"
proof (induction s rule: b64_encode.induct)
  case (2 a)
  show ?case using quad_bounds(1,2) [of a] b64_char_props(1,2) by simp
next
  case (3 a b)
  show ?case using quad_bounds(1,3) [of a] quad_bounds(4) [of b] b64_char_props(1,2) by (simp add: quad_bits)
next
  case (4 a b c s)
  show ?case using quad_bounds(1,3) [of a] quad_bounds(5) [of b c] quad_bounds(6) [of c] b64_char_props(1,2) 4 by (simp add: quad_bits)
qed simp

lemma strict_round_trip:
  fixes s :: bytes
  defines "e \<equiv> rstrip_pad (b64_encode s)"
  shows "b64_strict (e @ replicate ((4 - py_len e mod 4) mod 4) CHR ''='') = Some s"
proof -
  obtain ds where ds: "b64_encode s = ds @ replicate ((4 - length ds mod 4) mod 4) CHR ''=''"
    "\<forall>c \<in> set ds. c \<noteq> CHR ''='' \<and> c \<noteq> CHR ''.'' \<and> isascii c" using b64_encode_padding by blast
  have e: "e = ds" unfolding e_def ds(1) using ds(2) by (intro rstrip_pad_append) blast
  have "list_all isascii ds" using ds(2) by (simp add: list_all_iff)
  then show ?thesis unfolding e by (simp only: py_len_ascii ds(1) [symmetric] strict_encode)
qed

end
