(* ===== verification/Cloud_Operations.thy ===== *)
theory Cloud_Operations
  imports Base64
begin

text \<open>
  The signed operation references of the cloud management provider, \<open>cloud_management_provider/operations.py\<close>.  A reference is \<open>op1.<body>.<signature>\<close>: the canonical JSON of a
  payload in URL-safe base64 without padding, and its HMAC.

  The lemmas show that a created reference parses to its payload, and that an accepted reference carries a signature
  of exactly the canonical bytes of the payload it yields.
\<close>

section \<open>Operation references\<close>

definition MAX_OPERATION_REF_BYTES :: nat where "MAX_OPERATION_REF_BYTES = 8192"

text \<open>\<open>InvalidOperationRef\<close>, the \<open>TypeError\<close> of \<open>compare_digest\<close> on a text that is not ASCII, and the errors of
  \<open>canonical_json\<close>.\<close>

datatype ref_error = InvalidOperationRef | RefTypeError | RefContract contract_error

definition operation_fields :: "string list" where
  "operation_fields =
    [''profile_ref'', ''provider'', ''operation'', ''target'', ''request_id'', ''created_at'', ''vendor_operation'']"

fun unique_pairs :: "pyval \<Rightarrow> bool" where
  "unique_pairs (PList xs) = list_all unique_pairs xs"
| "unique_pairs (PDict d) = (distinct (map fst d) \<and> list_all (\<lambda>(k, v). unique_pairs v) d)"
| "unique_pairs _ = True"

definition ref_canonical :: "(rat \<Rightarrow> string) \<Rightarrow> pydict \<Rightarrow> ref_error + bytes" where
  "ref_canonical frepr payload =
    (case canonical_json frepr (PDict payload) of Inl e \<Rightarrow> Inl (RefContract e) | Inr body \<Rightarrow> Inr body)"

definition create_operation_ref :: "(rat \<Rightarrow> string) \<Rightarrow> pydict \<Rightarrow> bytes \<Rightarrow> ref_error + string" where
  "create_operation_ref frepr payload key =
    bindE (ref_canonical frepr payload) (\<lambda>body.
      let reference = ''op1.'' @ rstrip_pad (b64_encode body) @ ''.'' @ hmac_sha256 key body in
      bindE (raise_if (length reference > MAX_OPERATION_REF_BYTES) InvalidOperationRef) (\<lambda>_. Inr reference))"

text \<open>\<open>json.loads\<close> on bytes: they must be UTF-8, and every object is rejected that repeats a key.\<close>

definition loads_body :: "bytes \<Rightarrow> pyval option" where
  "loads_body body =
    (if \<not> utf8_ok body then None
     else (case json_loads body of None \<Rightarrow> None | Some v \<Rightarrow> if unique_pairs v then Some v else None))"

definition parse_operation_ref :: "(rat \<Rightarrow> string) \<Rightarrow> pyval \<Rightarrow> bytes \<Rightarrow> ref_error + pydict" where
  "parse_operation_ref frepr reference key =
    (case reference of
       PStr text \<Rightarrow>
         if length text > MAX_OPERATION_REF_BYTES then Inl InvalidOperationRef
         else
           (case split_on CHR ''.'' text of
              [tag, encoded, signature] \<Rightarrow>
                if tag \<noteq> ''op1'' \<or> py_len signature \<noteq> 64 then Inl InvalidOperationRef
                else
                  (case urlsafe_b64decode (encoded @ replicate ((4 - py_len encoded mod 4) mod 4) CHR ''='') of
                     None \<Rightarrow> Inl InvalidOperationRef
                   | Some body \<Rightarrow>
                      if \<not> list_all isascii signature then Inl RefTypeError
                      else if hmac_sha256 key body \<noteq> signature then Inl InvalidOperationRef
                      else
                        (case loads_body body of
                           Some (PDict payload) \<Rightarrow>
                             bindE (ref_canonical frepr payload) (\<lambda>canonical.
                             bindE (raise_if (canonical \<noteq> body) InvalidOperationRef) (\<lambda>_.
                             bindE (raise_if (\<not> list_all (\<lambda>(k, v). k \<in> set operation_fields) payload) InvalidOperationRef)
                               (\<lambda>_. Inr payload)))
                         | _ \<Rightarrow> Inl InvalidOperationRef))
            | _ \<Rightarrow> Inl InvalidOperationRef)
     | _ \<Rightarrow> Inl InvalidOperationRef)"

section \<open>Canonical payloads\<close>

lemma dumps_written: "json_dumps frepr True (written True v) = json_dumps frepr True v"
proof (induction v)
  case (PList xs)
  then have "map (json_dumps frepr True) (map (written True) xs) = map (json_dumps frepr True) xs" by simp
  then show ?case by (simp del: map_map)
next
  case (PDict d)
  let ?s = "sort_key fst d"
  have "map (\<lambda>(k, v). json_string k @ '':'' @ json_dumps frepr True v) (map (\<lambda>(k, v). (k, written True v)) ?s)
      = map (\<lambda>(k, v). json_string k @ '':'' @ json_dumps frepr True v) ?s"
    using PDict by (auto simp: snds.intros)
  then show ?case unfolding written_dict dumps_dict by (simp add: sort_map_fst sort_key_sorted del: map_map)
qed simp_all

lemma written_list_all:
  assumes "\<And>k v. (k, v) \<in> set d \<Longrightarrow> P k (written srt v) = P k v"
  shows "list_all (\<lambda>(k, v). P k v) (map (\<lambda>(k, v). (k, written srt v)) (if srt then sort_key fst d else d))
    = list_all (\<lambda>(k, v). P k v) d"
  using assms by (auto simp: list_all_iff)

lemma json_finite_written: "json_finite (written srt v) = json_finite v"
proof (induction v)
  case (PDict d)
  then show ?case unfolding written_dict json_finite.simps by (intro written_list_all) (auto simp: snds.intros)
next
  case (PFloat f)
  then show ?case by (cases f) simp_all
qed (simp_all add: list_all_iff)

lemma distinct_insort_key: "distinct (map f (insort_key f x xs)) \<longleftrightarrow> f x \<notin> f ` set xs \<and> distinct (map f xs)"
  by (induction xs) (auto simp: set_insort_key)

lemma distinct_sort_key: "distinct (map f (sort_key f xs)) = distinct (map f xs)"
  by (induction xs) (auto simp: distinct_insort_key)

lemma map_fst_written: "map fst (map (\<lambda>(k, v). (k, g v)) d) = map fst d"
  by auto

lemma distinct_written: "distinct (map fst (map (\<lambda>(k, v). (k, written srt v)) (if srt then sort_key fst d else d))) = distinct (map fst d)"
  unfolding map_fst_written by (simp add: distinct_sort_key)

lemma unique_pairs_written: "unique_pairs (written srt v) = unique_pairs v"
proof (induction v)
  case (PDict d)
  then show ?case
    unfolding written_dict unique_pairs.simps distinct_written by (intro conj_cong refl written_list_all) (auto simp: snds.intros)
qed (simp_all add: list_all_iff)

lemma dict_get_written:
  assumes "written srt (PDict d) = PDict d'" "distinct (map fst d)"
  shows "dict_get d' name = written srt (dict_get d name)"
proof -
  let ?d = "if srt then sort_key fst d else d"
  have "map_of ?d = map_of d" using assms(2) by (intro map_of_inject_set [THEN iffD2]) (auto simp: distinct_sort_key)
  moreover have "map_of (map (\<lambda>(k, v). (k, written srt v)) e) name = map_option (written srt) (map_of e name)" for e
    by (induction e) auto
  moreover have "d' = map (\<lambda>(k, v). (k, written srt v)) ?d" using assms(1) unfolding written_dict by simp
  ultimately show ?thesis by (simp add: dict_get_def split: option.split)
qed

lemma ref_canonical_written:
  assumes "written True (PDict payload) = PDict payload'"
  shows "ref_canonical frepr payload' = ref_canonical frepr payload"
  unfolding ref_canonical_def canonical_json_def normalize_json_def assms [symmetric]
  by (simp add: json_finite_written dumps_written del: json_dumps.simps written.simps json_finite.simps)

lemma digest_text:
  assumes "is_digest h"
  shows "py_len h = 64 \<and> list_all isascii h \<and> CHR ''.'' \<notin> set h"
proof -
  have ascii: "list_all isascii h" using assms by (auto simp: is_digest_def list_all_iff is_hex_lower_def is_digit_def isascii_def)
  moreover have "\<not> is_hex_lower CHR ''.''" by code_simp
  ultimately show ?thesis using assms py_len_ascii [OF ascii] by (auto simp: is_digest_def list_all_iff)
qed

lemma parse_created_ref:
  assumes create: "create_operation_ref frepr payload key = Inr reference"
    and payload: "readable frepr (PDict payload)" "utf8_value (PDict payload)" "unique_pairs (PDict payload)"
    and fields: "fst ` set payload \<subseteq> set operation_fields"
  shows "\<exists>payload'. parse_operation_ref frepr (PStr reference) key = Inr payload' \<and> written True (PDict payload) = PDict payload'
    \<and> (\<forall>name. dict_get payload' name = written True (dict_get payload name))"
proof -
  obtain body where body: "ref_canonical frepr payload = Inr body" "length reference \<le> MAX_OPERATION_REF_BYTES"
    "reference = ''op1.'' @ rstrip_pad (b64_encode body) @ ''.'' @ hmac_sha256 key body"
    using create by (auto simp: create_operation_ref_def Let_def bindE_eq_Inr)
  have dumps: "body = json_dumps frepr True (PDict payload)"
    using body(1) by (auto simp: ref_canonical_def canonical_json_def bindE_eq_Inr normalize_json_def split: sum.splits if_splits)
  obtain payload' where p': "written True (PDict payload) = PDict payload'" by (simp add: Let_def)
  have loads: "loads_body body = Some (PDict payload')"
    unfolding loads_body_def dumps json_loads_dumps [OF payload(1)] p' using payload unique_pairs_written [of True "PDict payload"] p'
    by (simp add: json_dumps_utf8 del: json_dumps.simps unique_pairs.simps)
  have sig: "py_len (hmac_sha256 key body) = 64" "list_all isascii (hmac_sha256 key body)" "CHR ''.'' \<notin> set (hmac_sha256 key body)"
    using digest_text [OF hmac_sha256_is_digest] by auto
  have split: "split_on CHR ''.'' reference = [''op1'', rstrip_pad (b64_encode body), hmac_sha256 key body]"
    unfolding body(3) using b64_round_trip(2) [of body] sig(3)
    by (simp add: split_on_append [of "CHR ''.''" "''op1''", simplified] split_on_append split_on_no_sep)
  have keys: "fst ` set payload' = fst ` set payload" using p' by (auto simp: written_dict simp del: written.simps) force+
  have get: "dict_get payload' name = written True (dict_get payload name)" for name
    using dict_get_written [OF p'] payload(3) by simp
  have "list_all (\<lambda>(k, v). k \<in> set operation_fields) payload'"
    unfolding list_all_iff using fields keys by (metis (no_types, lifting) case_prod_beta image_eqI subsetD)
  then have "parse_operation_ref frepr (PStr reference) key = Inr payload'"
    using body(1,2) by (simp add: parse_operation_ref_def split sig b64_round_trip loads ref_canonical_written [OF p'])
  with p' get show ?thesis by blast
qed

text \<open>C26. Operation references read back: a reference created for a payload with only the known fields parses, with the same
  key, to that payload with its keys sorted.\<close>

theorem operation_ref_round_trip:
  assumes "create_operation_ref frepr payload key = Inr reference"
    and "readable frepr (PDict payload)" "utf8_value (PDict payload)" "unique_pairs (PDict payload)"
    and "fst ` set payload \<subseteq> set operation_fields"
  shows "\<exists>payload'. parse_operation_ref frepr (PStr reference) key = Inr payload' \<and> written True (PDict payload) = PDict payload'
    \<and> (\<forall>name. dict_get payload' name = written True (dict_get payload name))"
  using assms by (rule parse_created_ref)

section \<open>Accepted references\<close>

lemma parse_operation_refD:
  assumes "parse_operation_ref frepr (PStr reference) key = Inr payload"
  obtains encoded body where "split_on CHR ''.'' reference = [''op1'', encoded, hmac_sha256 key body]"
    "ref_canonical frepr payload = Inr body" "loads_body body = Some (PDict payload)"
    "fst ` set payload \<subseteq> set operation_fields" "length reference \<le> MAX_OPERATION_REF_BYTES" "unique_pairs (PDict payload)"
proof -
  obtain encoded signature body where s: "split_on CHR ''.'' reference = [''op1'', encoded, signature]"
    "hmac_sha256 key body = signature" "loads_body body = Some (PDict payload)" "ref_canonical frepr payload = Inr body"
    "list_all (\<lambda>(k, v). k \<in> set operation_fields) payload" "length reference \<le> MAX_OPERATION_REF_BYTES"
    using assms
    by (auto simp: parse_operation_ref_def bindE_eq_Inr split: list.splits if_splits option.splits pyval.splits)
  moreover have "unique_pairs (PDict payload)"
    using s(3) by (auto simp: loads_body_def split: if_splits option.splits)
  ultimately show thesis by (intro that [of encoded body]) (auto simp: list_all_iff)
qed

text \<open>C25. An accepted operation reference is authentic: its signature is the HMAC of the canonical bytes of the payload it yields,
  the payload has only known fields and no repeated key, and any reference accepted with the same signature yields the same
  payload, unless the canonical bytes of these two payloads differ and have the same HMAC.\<close>

theorem operation_ref_sound:
  assumes "parse_operation_ref frepr (PStr reference) key = Inr payload"
  shows "\<exists>encoded body. split_on CHR ''.'' reference = [''op1'', encoded, hmac_sha256 key body]
      \<and> canonical_json frepr (PDict payload) = Inr body \<and> fst ` set payload \<subseteq> set operation_fields
      \<and> unique_pairs (PDict payload)
      \<and> (\<forall>reference' encoded' payload'. parse_operation_ref frepr (PStr reference') key = Inr payload'
           \<and> split_on CHR ''.'' reference' = [''op1'', encoded', hmac_sha256 key body]
           \<longrightarrow> payload' = payload
             \<or> (\<exists>body'. canonical_json frepr (PDict payload') = Inr body' \<and> body' \<noteq> body \<and> hmac_sha256 key body' = hmac_sha256 key body))"
  using assms
proof (rule parse_operation_refD)
  fix encoded body
  assume r: "split_on CHR ''.'' reference = [''op1'', encoded, hmac_sha256 key body]" "ref_canonical frepr payload = Inr body"
    "loads_body body = Some (PDict payload)" "fst ` set payload \<subseteq> set operation_fields" "unique_pairs (PDict payload)"
  have canonical: "ref_canonical frepr p = Inr b \<Longrightarrow> canonical_json frepr (PDict p) = Inr b" for p b
    by (auto simp: ref_canonical_def split: sum.splits)
  have "payload' = payload \<or> (\<exists>body'. canonical_json frepr (PDict payload') = Inr body' \<and> body' \<noteq> body \<and> hmac_sha256 key body' = hmac_sha256 key body)"
    if "parse_operation_ref frepr (PStr reference') key = Inr payload'"
      "split_on CHR ''.'' reference' = [''op1'', encoded', hmac_sha256 key body]" for reference' encoded' payload'
    using that(1)
  proof (rule parse_operation_refD)
    fix encoded'' body'
    assume "split_on CHR ''.'' reference' = [''op1'', encoded'', hmac_sha256 key body']" "loads_body body' = Some (PDict payload')"
      "ref_canonical frepr payload' = Inr body'"
    with that(2) r(3) canonical show ?thesis by (cases "body' = body") auto
  qed
  then show ?thesis using r canonical by blast
qed

section \<open>Witnesses\<close>

definition sample_operation :: pydict where
  "sample_operation =
    [(''profile_ref'', PStr ''p1''), (''provider'', PStr ''gcp''), (''operation'', PStr ''start''),
     (''target'', PDict [(''zone'', PStr ''z1''), (''name'', PStr ''vm'')]), (''request_id'', PStr ''r1''), (''created_at'', PStr ''2025-02-01T00:04:29Z'')]"

definition sample_ref_key :: bytes where
  "sample_ref_key = replicate 32 CHR ''k''"

definition sample_operation_ref :: string where
  "sample_operation_ref =
    (let body = json_dumps (\<lambda>_. ''0'') True (PDict sample_operation) in
     ''op1.'' @ rstrip_pad (b64_encode body) @ ''.'' @ hmac_sha256 sample_ref_key body)"

lemma create_short_ref:
  assumes "ref_canonical frepr payload = Inr body" "length body \<le> 2000"
  shows "create_operation_ref frepr payload key = Inr (''op1.'' @ rstrip_pad (b64_encode body) @ ''.'' @ hmac_sha256 key body)"
proof -
  have "length (b64_encode s) \<le> 4 * length s" for s by (induction s rule: b64_encode.induct) simp_all
  moreover have "length (rstrip_pad s) \<le> length s" for s
    unfolding rstrip_pad_def by (metis length_dropWhile_le length_rev)
  ultimately have "length (rstrip_pad (b64_encode body)) \<le> 4 * length body" by (meson le_trans)
  with assms(2) have "length (rstrip_pad (b64_encode body)) \<le> 8000" by linarith
  moreover have "length (hmac_sha256 key body) = 64"
    using hmac_sha256_is_digest [of key body] by (simp only: is_digest_def)
  ultimately show ?thesis
    using assms(1) by (simp add: create_operation_ref_def Let_def raise_if_def MAX_OPERATION_REF_BYTES_def)
qed

lemma sample_operation_created: "create_operation_ref (\<lambda>_. ''0'') sample_operation sample_ref_key = Inr sample_operation_ref"
proof -
  let ?body = "json_dumps (\<lambda>_. ''0'') True (PDict sample_operation)"
  have "ref_canonical (\<lambda>_. ''0'') sample_operation = Inr ?body"
    by (simp add: ref_canonical_def canonical_json_def normalize_json_def sample_operation_def del: json_dumps.simps)
  moreover have "length ?body \<le> 2000" by code_simp
  ultimately show ?thesis by (simp add: create_short_ref sample_operation_ref_def Let_def del: json_dumps.simps)
qed

lemma sample_operation_ok:
  "readable (\<lambda>_. ''0'') (PDict sample_operation)" "utf8_value (PDict sample_operation)" "unique_pairs (PDict sample_operation)"
  "fst ` set sample_operation \<subseteq> set operation_fields"
  by (simp_all add: sample_operation_def operation_fields_def utf8_steps)

lemma operation_ref_round_trip_witness:
  "\<exists>payload'. parse_operation_ref (\<lambda>_. ''0'') (PStr sample_operation_ref) sample_ref_key = Inr payload'
     \<and> dict_get payload' ''request_id'' = PStr ''r1''"
proof -
  from operation_ref_round_trip [OF sample_operation_created sample_operation_ok]
  obtain payload' where "parse_operation_ref (\<lambda>_. ''0'') (PStr sample_operation_ref) sample_ref_key = Inr payload'"
    "dict_get payload' ''request_id'' = written True (dict_get sample_operation ''request_id'')" by blast
  then show ?thesis by (auto simp: sample_operation_def)
qed

lemma operation_ref_sound_witness:
  "\<exists>encoded body. split_on CHR ''.'' sample_operation_ref = [''op1'', encoded, hmac_sha256 sample_ref_key body]"
proof -
  obtain payload' where "parse_operation_ref (\<lambda>_. ''0'') (PStr sample_operation_ref) sample_ref_key = Inr payload'"
    using parse_created_ref [OF sample_operation_created sample_operation_ok] by blast
  from operation_ref_sound [OF this] show ?thesis by blast
qed

end
