(* ===== verification/Cloud_Executor.thy ===== *)
theory Cloud_Executor
  imports Cloud_Ledger_Props Cloud_Operations
begin

text \<open>
  The executor and the tool provider of the cloud management plugin: \<open>CloudManagementExecutor.call\<close> with its operation
  references and status reconciliation (\<open>providers.py\<close>), and \<open>CloudManagementProvider\<close> (\<open>plugin.py\<close>).  The vendor requests behind
  \<open>_dispatch\<close> and the preparation of two vendor bodies are outcomes of the environment; Protobuf and the JSON input schemas are
  parameters.
\<close>

section \<open>Settings\<close>

record cloud_caller =
  cc_caller_workload :: string
  cc_audience :: string
  cc_organization_id :: string
  cc_workspace_id :: "string option"
  cc_issuer :: "string option"
  cc_verification_key :: bytes

record cloud_profile =
  cp_profile_ref :: string
  cp_provider :: string
  cp_read_only :: bool

text \<open>The fields of \<open>ProviderSettings\<close> that \<open>call\<close> and the provider read; the maps keep their insertion order.\<close>

record cloud_settings =
  cs_binding_id :: string
  cs_trusted_callers :: "(string \<times> cloud_caller) list"
  cs_profiles :: "(string \<times> cloud_profile) list"
  cs_limits :: ledger_limits

definition WRITE_TOOLS :: "string list" where
  "WRITE_TOOLS =
    [''cloud_resource_create'', ''cloud_resource_deploy'', ''cloud_resource_start'', ''cloud_resource_stop'',
     ''cloud_resource_restart'', ''cloud_resource_update'', ''cloud_resource_delete'', ''cloud_operation_cancel'',
     ''cloud_vendor_cli'']"

definition READ_ONLY_TOOL_IDS :: "string list" where
  "READ_ONLY_TOOL_IDS =
    [''cloud_provider_health'', ''cloud_resources_list'', ''cloud_resource_get'', ''cloud_operation_status'',
     ''cloud_operation_logs'']"

definition CLOUD_TOOLS :: "(string \<times> string) list" where
  "CLOUD_TOOLS =
    [(''cloud_provider_health'', ''cloud.provider.health.read''), (''cloud_resources_list'', ''cloud.resources.list''),
     (''cloud_resource_get'', ''cloud.resource.get''), (''cloud_resource_create'', ''cloud.resource.create''),
     (''cloud_resource_deploy'', ''cloud.resource.deploy''), (''cloud_resource_start'', ''cloud.resource.start''),
     (''cloud_resource_stop'', ''cloud.resource.stop''), (''cloud_resource_restart'', ''cloud.resource.restart''),
     (''cloud_resource_update'', ''cloud.resource.update''), (''cloud_resource_delete'', ''cloud.resource.delete''),
     (''cloud_operation_status'', ''cloud.operation.status.read''), (''cloud_operation_logs'', ''cloud.operation.logs.read''),
     (''cloud_operation_cancel'', ''cloud.operation.cancel''), (''cloud_vendor_cli'', ''cloud.vendor.cli.execute'')]"

section \<open>Operation references\<close>

definition verification_key :: "cloud_settings \<Rightarrow> provider_failure + bytes" where
  "verification_key settings =
    (case cs_trusted_callers settings of [] \<Rightarrow> Inl ConfigurationFault | (_, caller) # _ \<Rightarrow> Inr (cc_verification_key caller))"

definition ref_raise :: "ref_error \<Rightarrow> provider_failure" where
  "ref_raise e = (case e of RefContract c \<Rightarrow> ContractRaised c | _ \<Rightarrow> OtherException)"

definition removeprefix :: "string \<Rightarrow> string \<Rightarrow> string" where
  "removeprefix p s = (case after p s of Some r \<Rightarrow> r | None \<Rightarrow> s)"

definition new_operation_ref ::
    "(rat \<Rightarrow> string) \<Rightarrow> cloud_settings \<Rightarrow> cloud_profile \<Rightarrow> string \<Rightarrow> pyval \<Rightarrow> string \<Rightarrow> string \<Rightarrow> pydict option
     \<Rightarrow> provider_failure + string" where
  "new_operation_ref frepr settings profile tool_id target request_id created_at vendor_operation =
    (let payload =
       [(''profile_ref'', PStr (cp_profile_ref profile)), (''provider'', PStr (cp_provider profile)),
        (''operation'', PStr (removeprefix ''cloud_resource_'' tool_id)),
        (''target'', case target of PDict d \<Rightarrow> PDict d | _ \<Rightarrow> PDict []),
        (''request_id'', PStr request_id), (''created_at'', PStr created_at)]
       @ (case vendor_operation of None \<Rightarrow> [] | Some d \<Rightarrow> [(''vendor_operation'', PDict d)]) in
     bindE (verification_key settings) (\<lambda>key.
       (case create_operation_ref frepr payload key of Inl e \<Rightarrow> Inl (ref_raise e) | Inr reference \<Rightarrow> Inr reference)))"

definition MAX_OPERATION_AGE :: int where "MAX_OPERATION_AGE = seconds (30 * 24 * 60 * 60)"

text \<open>\<open>_operation_payload\<close>.  Of the texts \<open>datetime.fromisoformat\<close> accepts the model reads the form \<open>_now\<close> writes,
  with an optional fraction.\<close>

definition operation_payload ::
    "(rat \<Rightarrow> string) \<Rightarrow> cloud_settings \<Rightarrow> cloud_profile \<Rightarrow> pyval \<Rightarrow> datetime \<Rightarrow> provider_failure + pydict" where
  "operation_payload frepr settings profile reference now =
    bindE (verification_key settings) (\<lambda>key.
      (case parse_operation_ref frepr reference key of
         Inl InvalidOperationRef \<Rightarrow> Inl (ProviderFailure ''INVALID_ARGUMENTS'' False)
       | Inl e \<Rightarrow> Inl (ref_raise e)
       | Inr payload \<Rightarrow>
          (case dict_get payload ''created_at'' of
             PStr created \<Rightarrow>
               if dict_get payload ''profile_ref'' \<noteq> PStr (cp_profile_ref profile)
               then Inl (ProviderFailure ''OPERATION_NOT_FOUND'' False)
               else
                 (case parse_timestamp created of
                    Inl _ \<Rightarrow> Inl (ProviderFailure ''INVALID_ARGUMENTS'' False)
                  | Inr created_at \<Rightarrow>
                     if microseconds now - microseconds created_at > MAX_OPERATION_AGE
                     then Inl (ProviderFailure ''OPERATION_EXPIRED'' False) else Inr payload)
           | _ \<Rightarrow> Inl (ProviderFailure ''OPERATION_NOT_FOUND'' False))))"

section \<open>Calls\<close>

text \<open>What the environment contributes to one call: the time of \<open>_now\<close>, the receipt and the error of a prepared vendor body,
  the vendor's answer, clock readings and file sizes.\<close>

record cloud_env =
  ce_created_at :: string
  ce_write_receipt :: "pydict option"
  ce_preparation_error :: "(string \<times> bool \<times> bool) option"
  ce_dispatch :: dispatch_result
  ce_begin_now :: rat
  ce_begin_bytes :: int
  ce_complete_now :: rat
  ce_complete_bytes :: int
  ce_status_clock :: datetime
  ce_status_now :: rat

text \<open>A vendor request outside the write path: its exceptions leave \<open>call\<close>.\<close>

definition read_result :: "dispatch_result \<Rightarrow> provider_failure + pydict" where
  "read_result res =
    (case res of
       DispatchResult d \<Rightarrow> Inr d
     | DispatchFailure code retryable _ \<Rightarrow> Inl (ProviderFailure code retryable)
     | DispatchCredentialMissing \<Rightarrow> Inl CredentialMissing
     | DispatchConfigurationError \<Rightarrow> Inl ConfigurationFault
     | DispatchException \<Rightarrow> Inl OtherException)"

text \<open>\<open>_cli_operation_status\<close>: the receipt of a CLI call must exist and carry this reference; a native vendor operation is
  queried, which is an outcome of the environment.\<close>

definition cli_operation_status ::
    "(rat \<Rightarrow> string) \<Rightarrow> cloud_settings \<Rightarrow> cloud_env \<Rightarrow> pydict \<Rightarrow> pyval \<Rightarrow> cloud_ledger \<Rightarrow> provider_failure + pydict" where
  "cli_operation_status frepr settings env operation reference l =
    (let not_found = Inl (ProviderFailure ''OPERATION_NOT_FOUND'' False) in
     case dict_get operation ''request_id'' of
       PStr request_id \<Rightarrow>
         (case cloud_get request_id l of
            None \<Rightarrow> not_found
          | Some receipt \<Rightarrow>
             let stored = (case xw_response receipt of None \<Rightarrow> PNone | Some d \<Rightarrow> dict_get d ''operation_ref'') in
             if reference \<noteq> PStr (xw_operation_ref receipt) \<and> reference \<noteq> stored then not_found
             else
               (case xw_response receipt of
                  None \<Rightarrow>
                    Inr [(''state'', PStr ''UNKNOWN_RESULT''), (''command_state'', PStr ''UNKNOWN''), (''remote_state'', PStr ''UNKNOWN''),
                         (''reason_code'', PStr ''CLI_RECEIPT_INCOMPLETE''), (''operation_ref'', reference),
                         (''reconciliation_available'', PBool False)]
                | Some response \<Rightarrow>
                   let latest = (if truthy stored then stored else PStr (xw_operation_ref receipt)) in
                   bindE (verification_key settings) (\<lambda>key.
                     (case parse_operation_ref frepr latest key of
                        Inl InvalidOperationRef \<Rightarrow> not_found
                      | Inl e \<Rightarrow> Inl (ref_raise e)
                      | Inr latest_operation \<Rightarrow>
                         if (case dict_get latest_operation ''vendor_operation'' of
                               PDict vendor \<Rightarrow> dict_get vendor ''kind'' \<in> {PStr ''gcp_compute_operation'', PStr ''runpod_pod''}
                             | _ \<Rightarrow> False)
                         then read_result (ce_dispatch env)
                         else
                           Inr [(''state'', PStr ''REMOTE_STATE_UNVERIFIED''),
                                (''command_state'', if dict_has response ''command_state'' then dict_get response ''command_state''
                                                    else PStr ''UNKNOWN''),
                                (''remote_state'', PStr ''UNKNOWN''),
                                (''reason_code'', PStr ''NATIVE_OPERATION_REFERENCE_UNAVAILABLE''), (''operation_ref'', latest),
                                (''reconciliation_available'', PBool False)]))))
     | _ \<Rightarrow> not_found)"

definition operation_status ::
    "(rat \<Rightarrow> string) \<Rightarrow> cloud_settings \<Rightarrow> cloud_env \<Rightarrow> cloud_profile \<Rightarrow> pyval \<Rightarrow> cloud_ledger
     \<Rightarrow> (provider_failure + pydict) \<times> cloud_ledger" where
  "operation_status frepr settings env profile reference l =
    (case operation_payload frepr settings profile reference (ce_status_clock env) of
       Inl e \<Rightarrow> (Inl e, l)
     | Inr operation \<Rightarrow>
        if \<not> dict_has operation ''provider'' then (Inl OtherException, l)
        else if dict_get operation ''provider'' \<noteq> PStr (cp_provider profile)
        then (Inl (ProviderFailure ''OPERATION_NOT_FOUND'' False), l)
        else
          (case if dict_get operation ''operation'' = PStr ''cloud_vendor_cli''
                then cli_operation_status frepr settings env operation reference l
                else read_result (ce_dispatch env) of
             Inl e \<Rightarrow> (Inl e, l)
           | Inr result \<Rightarrow>
              (Inr result,
               if dict_get result ''state'' \<in> {PStr ''SUCCEEDED'', PStr ''FAILED''} then
                 (case dict_get operation ''request_id'' of
                    PStr request_id \<Rightarrow> mark_terminal (ce_status_now env) request_id l
                  | _ \<Rightarrow> l)
               else l)))"

text \<open>\<open>call\<close>; the flag tells whether a write was dispatched.\<close>

definition cloud_call ::
    "(rat \<Rightarrow> string) \<Rightarrow> cloud_settings \<Rightarrow> cloud_env \<Rightarrow> string \<Rightarrow> pydict \<Rightarrow> string \<Rightarrow> cloud_ledger
     \<Rightarrow> (provider_failure + pydict) \<times> cloud_ledger \<times> bool" where
  "cloud_call frepr settings env tool_id arguments request_id l =
    (if map_of CLOUD_TOOLS tool_id = None then (Inl (ProviderFailure ''TOOL_NOT_FOUND'' False), l, False)
     else
       (case dict_get arguments ''profile_ref'' of
          PStr profile_ref \<Rightarrow>
            (case map_of (cs_profiles settings) profile_ref of
               None \<Rightarrow> (Inl (ProviderFailure ''PROFILE_NOT_FOUND'' False), l, False)
             | Some profile \<Rightarrow>
                if cp_read_only profile \<and> tool_id \<notin> set READ_ONLY_TOOL_IDS then
                  (Inl (ProviderFailure ''READ_ONLY_PROFILE'' False), l, False)
                else if tool_id \<in> set WRITE_TOOLS then
                  (case bindE (case payload_sha256 frepr (PDict arguments) of Inl e \<Rightarrow> Inl (ContractRaised e) | Inr d \<Rightarrow> Inr d)
                          (\<lambda>digest. bindE (new_operation_ref frepr settings profile tool_id (dict_get arguments ''target'')
                              request_id (ce_created_at env) (ce_write_receipt env)) (\<lambda>reference. Inr (digest, reference))) of
                     Inl e \<Rightarrow> (Inl e, l, False)
                   | Inr (digest, reference) \<Rightarrow>
                      call_write frepr (cs_limits settings)
                        \<lparr>wr_request_id = request_id, wr_digest = digest, wr_operation_ref = reference,
                         wr_begin_now = ce_begin_now env, wr_begin_bytes = ce_begin_bytes env\<rparr>
                        (ce_preparation_error env) (ce_dispatch env) (ce_complete_now env) (ce_complete_bytes env) l)
                else if tool_id = ''cloud_operation_status'' then
                  (if \<not> same_keys arguments [''profile_ref'', ''operation_ref'']
                   then (Inl (ProviderFailure ''INVALID_ARGUMENTS'' False), l, False)
                   else (case operation_status frepr settings env profile (dict_get arguments ''operation_ref'') l of
                           (r, l') \<Rightarrow> (r, l', False)))
                else (read_result (ce_dispatch env), l, False))
        | _ \<Rightarrow> (Inl (ProviderFailure ''INVALID_ARGUMENTS'' False), l, False)))"

end
