(* ===== verification/Cloud_Provider.thy ===== *)
theory Cloud_Provider
  imports Cloud_Executor Caller_Context_Props
begin

text \<open>
  The tool provider of the cloud management plugin, \<open>CloudManagementProvider\<close> of \<open>plugin.py\<close>: the catalog, and the call of a
  tool with its checks of the envelope, the input schema and the signed caller context, in the order of the code.  Protobuf
  decoding and the JSON input schemas are parameters; a response is kept as the value that is encoded.

  The properties: every effect is authorized by a signed context for exactly the arguments used, and the receipt of a write
  answers any write tool called with the same request id and arguments.
\<close>

section \<open>The provider\<close>

datatype cloud_response =
    CloudRefused string
  | CloudCatalog string "(string \<times> string) list"
  | CloudToolError pyval bool
  | CloudAnswer string

record cloud_call_request =
  cq_binding_id :: string
  cq_provider_tool_id :: string
  cq_arguments_json :: string

definition MAX_TOOL_REQUEST_BYTES :: nat where "MAX_TOOL_REQUEST_BYTES = 65536"
definition MAX_TOOL_JSON_BYTES :: nat where "MAX_TOOL_JSON_BYTES = 48000"

abbreviation tool_error :: "string \<Rightarrow> bool \<Rightarrow> cloud_response" where
  "tool_error code \<equiv> CloudToolError (PStr code)"

definition parse_json :: "string \<Rightarrow> pyval option" where
  "parse_json raw =
    (if length raw > MAX_TOOL_JSON_BYTES then None
     else (case json_loads raw of None \<Rightarrow> None | Some v \<Rightarrow> if unique_pairs v then Some v else None))"

text \<open>\<open>parse_trusted_caller_context\<close> on any JSON value: the schema check comes first, and only a mapping has fields.\<close>

definition parse_context_value :: "schema_check \<Rightarrow> pyval \<Rightarrow> contract_error + trusted_context" where
  "parse_context_value schema_ok v =
    (case v of
       PDict d \<Rightarrow> parse_trusted_caller_context schema_ok d
     | _ \<Rightarrow> bindE (validate_schema schema_ok ''TrustedCallerContext'' v) (\<lambda>_. Inl ContractTypeError))"

definition cloud_expected :: "cloud_settings \<Rightarrow> cloud_caller \<Rightarrow> expected_caller" where
  "cloud_expected settings caller =
    \<lparr>ex_caller_workload = cc_caller_workload caller, ex_audience = cc_audience caller, ex_binding_id = cs_binding_id settings,
     ex_organization_id = cc_organization_id caller, ex_workspace_id = cc_workspace_id caller, ex_issuer = cc_issuer caller,
     ex_subject = None\<rparr>"

definition verify_caller ::
    "(rat \<Rightarrow> string) \<Rightarrow> schema_check \<Rightarrow> cloud_settings \<Rightarrow> datetime \<Rightarrow> string \<Rightarrow> pydict \<Rightarrow> pydict \<Rightarrow> contract_error + unit" where
  "verify_caller frepr schema_ok settings now tool_id arguments context =
    (case dict_get context ''caller_workload'' of
       PStr workload \<Rightarrow>
         (case map_of (cs_trusted_callers settings) workload of
            None \<Rightarrow> Inl ContractValueError
          | Some caller \<Rightarrow>
             (case map_of CLOUD_TOOLS tool_id of
                None \<Rightarrow> Inl ContractKeyError
              | Some operation_id \<Rightarrow>
                 raise_if (\<not> verify_wire_context frepr schema_ok tool_id operation_id (PDict arguments) context
                   (cc_verification_key caller) (cloud_expected settings caller) now) ContractValueError))
     | _ \<Rightarrow> Inl ContractValueError)"

text \<open>The first \<open>try\<close> of \<open>_call_tool\<close>: schema, parse, serialization and verification; the parsed context gives the
  request id.\<close>

definition check_call ::
    "(rat \<Rightarrow> string) \<Rightarrow> schema_check \<Rightarrow> (string \<Rightarrow> pydict \<Rightarrow> bool) \<Rightarrow> cloud_settings \<Rightarrow> datetime \<Rightarrow> string \<Rightarrow> pydict \<Rightarrow> pyval
     \<Rightarrow> contract_error + trusted_context" where
  "check_call frepr schema_ok input_ok settings now tool_id arguments caller_context =
    bindE (raise_if (\<not> input_ok tool_id arguments) ContractValidationError) (\<lambda>_.
    bindE (parse_context_value schema_ok caller_context) (\<lambda>parsed.
    bindE (serialize_trusted_caller_context schema_ok parsed) (\<lambda>context.
    bindE (verify_caller frepr schema_ok settings now tool_id arguments context) (\<lambda>_. Inr parsed))))"

text \<open>The result of the executor as a response.\<close>

definition cloud_respond :: "(rat \<Rightarrow> string) \<Rightarrow> provider_failure + pydict \<Rightarrow> cloud_response" where
  "cloud_respond frepr r =
    (case r of
       Inl (ProviderFailure code retryable) \<Rightarrow> tool_error code retryable
     | Inl CredentialMissing \<Rightarrow> tool_error ''CREDENTIAL_MISSING'' False
     | Inl ConfigurationFault \<Rightarrow> tool_error ''INVALID_CONFIGURATION'' False
     | Inl _ \<Rightarrow> tool_error ''PROVIDER_UNAVAILABLE'' True
     | Inr result \<Rightarrow>
        (case dict_get result ''error'' of
           PDict failure \<Rightarrow>
             CloudToolError (if dict_has failure ''code'' then dict_get failure ''code'' else PStr ''PROVIDER_ERROR'')
               (dict_get failure ''retryable'' = PBool True)
         | _ \<Rightarrow>
            let encoded = json_dumps frepr False (PDict result) in
            if length encoded > MAX_TOOL_JSON_BYTES then tool_error ''OUTPUT_LIMIT_EXCEEDED'' False else CloudAnswer encoded))"

definition cloud_call_tool ::
    "(rat \<Rightarrow> string) \<Rightarrow> schema_check \<Rightarrow> (string \<Rightarrow> pydict \<Rightarrow> bool) \<Rightarrow> (bytes \<Rightarrow> cloud_call_request option) \<Rightarrow> cloud_settings
     \<Rightarrow> datetime \<Rightarrow> cloud_env \<Rightarrow> bytes \<Rightarrow> cloud_ledger \<Rightarrow> cloud_response \<times> cloud_ledger \<times> bool" where
  "cloud_call_tool frepr schema_ok input_ok decode_call settings now env payload l =
    (case Option.bind (decode_call payload) (\<lambda>q. map_option (Pair q) (parse_json (cq_arguments_json q))) of
       None \<Rightarrow> (CloudRefused ''INVALID_REQUEST: tool request is malformed'', l, False)
     | Some (request, envelope) \<Rightarrow>
        let tool_id = cq_provider_tool_id request in
        if cq_binding_id request \<noteq> cs_binding_id settings then
          (CloudRefused ''INVALID_REQUEST: binding ID does not match'', l, False)
        else if map_of CLOUD_TOOLS tool_id = None then
          (CloudRefused ''METHOD_NOT_FOUND: provider tool is not available'', l, False)
        else
          (case envelope of
             PDict e \<Rightarrow>
               if \<not> same_keys e [''caller_context'', ''arguments'']
               then (CloudRefused ''INVALID_REQUEST: signed caller context is required'', l, False)
               else
                 (case dict_get e ''arguments'' of
                    PDict arguments \<Rightarrow>
                      (case check_call frepr schema_ok input_ok settings now tool_id arguments (dict_get e ''caller_context'') of
                         Inl ContractValidationError \<Rightarrow> (tool_error ''INVALID_ARGUMENTS'' False, l, False)
                       | Inl _ \<Rightarrow> (tool_error ''AUTHENTICATION_DENIED'' False, l, False)
                       | Inr parsed \<Rightarrow>
                          apfst (cloud_respond frepr) (cloud_call frepr settings env tool_id arguments (tc_request_id parsed) l))
                  | _ \<Rightarrow> (tool_error ''INVALID_ARGUMENTS'' False, l, False))
           | _ \<Rightarrow> (CloudRefused ''INVALID_REQUEST: signed caller context is required'', l, False)))"

text \<open>The catalog: a binding whose profiles are all read-only advertises only the read-only tools.\<close>

definition cloud_list_tools :: "(bytes \<Rightarrow> string option option) \<Rightarrow> cloud_settings \<Rightarrow> bytes \<Rightarrow> cloud_response" where
  "cloud_list_tools decode_list settings payload =
    (case decode_list payload of
       None \<Rightarrow> CloudRefused ''INVALID_REQUEST: catalog request is malformed''
     | Some binding \<Rightarrow>
        if binding \<noteq> None \<and> binding \<noteq> Some (cs_binding_id settings) then
          CloudRefused ''INVALID_REQUEST: binding ID does not match''
        else
          let tools = map fst CLOUD_TOOLS;
              definitions =
                (if cs_profiles settings \<noteq> [] \<and> list_all (\<lambda>(_, profile). cp_read_only profile) (cs_profiles settings)
                 then filter (\<lambda>tool. tool \<in> set READ_ONLY_TOOL_IDS) tools else tools) in
          CloudCatalog ''0.1.0'' (map (Pair (cs_binding_id settings)) definitions))"

definition cloud_on_invoke ::
    "(rat \<Rightarrow> string) \<Rightarrow> schema_check \<Rightarrow> (string \<Rightarrow> pydict \<Rightarrow> bool) \<Rightarrow> (bytes \<Rightarrow> cloud_call_request option)
     \<Rightarrow> (bytes \<Rightarrow> string option option) \<Rightarrow> cloud_settings \<Rightarrow> datetime \<Rightarrow> cloud_env \<Rightarrow> string \<Rightarrow> string \<Rightarrow> bytes \<Rightarrow> string option
     \<Rightarrow> cloud_ledger \<Rightarrow> cloud_response \<times> cloud_ledger \<times> bool" where
  "cloud_on_invoke frepr schema_ok input_ok decode_call decode_list settings now env capability action payload type_url l =
    (if capability \<noteq> ''tool.provider.v1'' then (CloudRefused ''INVALID_REQUEST: unsupported capability'', l, False)
     else if length payload > MAX_TOOL_REQUEST_BYTES then
       (CloudRefused ''INVALID_REQUEST: tool request exceeds its byte limit'', l, False)
     else if action = ''list_tools'' then
       (if type_url \<noteq> None \<and> type_url \<noteq> Some ''type.cyrene.io/cyrene.tool.provider.v1.ListToolsRequest''
        then (CloudRefused ''INVALID_REQUEST: catalog payload type mismatch'', l, False)
        else (cloud_list_tools decode_list settings payload, l, False))
     else if action = ''call_tool'' then
       (if type_url \<noteq> None \<and> type_url \<noteq> Some ''type.cyrene.io/cyrene.tool.provider.v1.CallToolRequest''
        then (CloudRefused ''INVALID_REQUEST: tool payload type mismatch'', l, False)
        else cloud_call_tool frepr schema_ok input_ok decode_call settings now env payload l)
     else (CloudRefused ''METHOD_NOT_FOUND: unsupported provider method'', l, False))"


section \<open>Effects are authorized\<close>

lemma operation_status_ledger:
  assumes "operation_status frepr settings env profile reference l = (r, l')" "l' \<noteq> l"
  obtains operation request_id where "operation_payload frepr settings profile reference (ce_status_clock env) = Inr operation"
    "dict_get operation ''request_id'' = PStr request_id" "l' = mark_terminal (ce_status_now env) request_id l"
    "dict_get operation ''provider'' = PStr (cp_provider profile)"
  using assms
  by (auto simp: operation_status_def split: sum.splits if_splits pyval.splits)

lemma cloud_call_effectD:
  assumes "cloud_call frepr settings env tool_id arguments request_id l = (r, l', sent)" "sent \<or> l' \<noteq> l"
  obtains profile_ref profile where "dict_get arguments ''profile_ref'' = PStr profile_ref"
    "map_of (cs_profiles settings) profile_ref = Some profile"
    "tool_id \<in> set WRITE_TOOLS \<and> \<not> cp_read_only profile \<or> tool_id = ''cloud_operation_status'' \<and> \<not> sent"
proof -
  have read: "t \<notin> set READ_ONLY_TOOL_IDS" if "t \<in> set WRITE_TOOLS" for t
    using that by (auto simp: WRITE_TOOLS_def READ_ONLY_TOOL_IDS_def)
  obtain profile_ref profile where p: "dict_get arguments ''profile_ref'' = PStr profile_ref"
      "map_of (cs_profiles settings) profile_ref = Some profile"
      "\<not> (cp_read_only profile \<and> tool_id \<notin> set READ_ONLY_TOOL_IDS)"
    using assms by (auto simp: cloud_call_def split: if_splits pyval.splits option.splits)
  show thesis
  proof (cases "tool_id \<in> set WRITE_TOOLS")
    case True
    with p read show ?thesis by (intro that [OF p(1,2)]) auto
  next
    case False
    then have "tool_id = ''cloud_operation_status'' \<and> \<not> sent"
      using assms p by (auto simp: cloud_call_def split: if_splits prod.splits)
    with p show ?thesis by (intro that [OF p(1,2)]) auto
  qed
qed

lemma check_callD:
  assumes "check_call frepr schema_ok input_ok settings now tool_id arguments caller_context = Inr parsed"
  obtains ctx wire caller operation_id where "caller_context = PDict ctx" "parse_trusted_caller_context schema_ok ctx = Inr parsed"
    "serialize_trusted_caller_context schema_ok parsed = Inr wire" "input_ok tool_id arguments"
    "(tc_caller_workload parsed, caller) \<in> set (cs_trusted_callers settings)" "map_of CLOUD_TOOLS tool_id = Some operation_id"
    "verify_wire_context frepr schema_ok tool_id operation_id (PDict arguments) wire
       (cc_verification_key caller) (cloud_expected settings caller) now"
proof -
  obtain wire where c: "parse_context_value schema_ok caller_context = Inr parsed" "input_ok tool_id arguments"
    "serialize_trusted_caller_context schema_ok parsed = Inr wire"
    "verify_caller frepr schema_ok settings now tool_id arguments wire = Inr ()"
    using assms by (auto simp: check_call_def bindE_eq_Inr raise_if_def split: if_splits)
  then obtain ctx where ctx: "caller_context = PDict ctx" "parse_trusted_caller_context schema_ok ctx = Inr parsed"
    by (cases caller_context) (auto simp: parse_context_value_def bindE_eq_Inr)
  have workload: "dict_get wire ''caller_workload'' = PStr (tc_caller_workload parsed)"
    using c(3) by (auto simp: serialize_trusted_caller_context_def Let_def bindE_eq_Inr context_claims_def dict_get_def)
  from c(4) workload obtain caller operation_id where "map_of (cs_trusted_callers settings) (tc_caller_workload parsed) = Some caller"
    "map_of CLOUD_TOOLS tool_id = Some operation_id"
    "verify_wire_context frepr schema_ok tool_id operation_id (PDict arguments) wire
       (cc_verification_key caller) (cloud_expected settings caller) now"
    by (auto simp: verify_caller_def raise_if_def split: option.splits if_splits)
  with ctx c that show thesis by (metis map_of_SomeD)
qed

text \<open>C24. Only authorized cloud effects: when an invocation of the cloud provider dispatches a write or changes the request ledger,
  its envelope carries a context of a trusted caller that verifies for exactly this tool and these arguments; the
  executor ran with them and with the signed request id; a dispatch needs a write tool and a profile that is not read-only, and
  otherwise only a status query may change the ledger.\<close>

theorem cloud_effects_authorized:
  assumes run: "cloud_on_invoke frepr schema_ok input_ok decode_call decode_list settings now env capability action payload type_url l
      = (resp, l', sent)"
    and effect: "sent \<or> l' \<noteq> l"
  shows "\<exists>q e arguments ctx parsed wire caller operation_id profile_ref profile r.
      decode_call payload = Some q \<and> parse_json (cq_arguments_json q) = Some (PDict e)
    \<and> dict_get e ''arguments'' = PDict arguments \<and> dict_get e ''caller_context'' = PDict ctx
    \<and> parse_trusted_caller_context schema_ok ctx = Inr parsed \<and> serialize_trusted_caller_context schema_ok parsed = Inr wire
    \<and> (tc_caller_workload parsed, caller) \<in> set (cs_trusted_callers settings)
    \<and> map_of CLOUD_TOOLS (cq_provider_tool_id q) = Some operation_id
    \<and> verify_wire_context frepr schema_ok (cq_provider_tool_id q) operation_id (PDict arguments) wire
        (cc_verification_key caller) (cloud_expected settings caller) now
    \<and> input_ok (cq_provider_tool_id q) arguments
    \<and> cloud_call frepr settings env (cq_provider_tool_id q) arguments (tc_request_id parsed) l = (r, l', sent)
    \<and> dict_get arguments ''profile_ref'' = PStr profile_ref \<and> map_of (cs_profiles settings) profile_ref = Some profile
    \<and> (cq_provider_tool_id q \<in> set WRITE_TOOLS \<and> \<not> cp_read_only profile
       \<or> cq_provider_tool_id q = ''cloud_operation_status'' \<and> \<not> sent)"
proof -
  have call: "cloud_call_tool frepr schema_ok input_ok decode_call settings now env payload l = (resp, l', sent)"
    using run effect by (auto simp: cloud_on_invoke_def split: if_splits)
  obtain q e arguments parsed r where q: "decode_call payload = Some q" "parse_json (cq_arguments_json q) = Some (PDict e)"
      "dict_get e ''arguments'' = PDict arguments"
    and check: "check_call frepr schema_ok input_ok settings now (cq_provider_tool_id q) arguments (dict_get e ''caller_context'') = Inr parsed"
    and exec: "cloud_call frepr settings env (cq_provider_tool_id q) arguments (tc_request_id parsed) l = (r, l', sent)"
    using call effect
    by (auto simp: cloud_call_tool_def Let_def bind_eq_Some_conv apfst_def map_prod_def
        split: option.splits if_splits pyval.splits prod.splits sum.splits contract_error.splits)
  obtain ctx wire caller operation_id where c: "dict_get e ''caller_context'' = PDict ctx" "parse_trusted_caller_context schema_ok ctx = Inr parsed"
    "serialize_trusted_caller_context schema_ok parsed = Inr wire" "input_ok (cq_provider_tool_id q) arguments"
    "(tc_caller_workload parsed, caller) \<in> set (cs_trusted_callers settings)" "map_of CLOUD_TOOLS (cq_provider_tool_id q) = Some operation_id"
    "verify_wire_context frepr schema_ok (cq_provider_tool_id q) operation_id (PDict arguments) wire
       (cc_verification_key caller) (cloud_expected settings caller) now"
    using check_callD [OF check] by blast
  obtain profile_ref profile where p: "dict_get arguments ''profile_ref'' = PStr profile_ref"
    "map_of (cs_profiles settings) profile_ref = Some profile"
    "cq_provider_tool_id q \<in> set WRITE_TOOLS \<and> \<not> cp_read_only profile
     \<or> cq_provider_tool_id q = ''cloud_operation_status'' \<and> \<not> sent"
    using cloud_call_effectD [OF exec effect] by blast
  show ?thesis using q exec c p by blast
qed

section \<open>Receipts across tools\<close>

lemma write_tool_props: "t \<in> set WRITE_TOOLS \<Longrightarrow> map_of CLOUD_TOOLS t \<noteq> None \<and> t \<notin> set READ_ONLY_TOOL_IDS"
  by (auto simp: WRITE_TOOLS_def CLOUD_TOOLS_def READ_ONLY_TOOL_IDS_def)

text \<open>A write tool on a profile that is not read-only is a ledger write.\<close>

lemma cloud_call_write:
  assumes "t \<in> set WRITE_TOOLS" "dict_get arguments ''profile_ref'' = PStr profile_ref"
    "map_of (cs_profiles settings) profile_ref = Some profile" "\<not> cp_read_only profile"
    "payload_sha256 frepr (PDict arguments) = Inr digest"
    "new_operation_ref frepr settings profile t (dict_get arguments ''target'') request_id (ce_created_at e) (ce_write_receipt e)
     = Inr reference"
  shows "cloud_call frepr settings e t arguments request_id l =
      call_write frepr (cs_limits settings)
        \<lparr>wr_request_id = request_id, wr_digest = digest, wr_operation_ref = reference,
         wr_begin_now = ce_begin_now e, wr_begin_bytes = ce_begin_bytes e\<rparr>
        (ce_preparation_error e) (ce_dispatch e) (ce_complete_now e) (ce_complete_bytes e) l"
  using assms write_tool_props [OF assms(1)] by (auto simp: cloud_call_def)

lemma cloud_call_writeD:
  assumes "cloud_call frepr settings e t arguments request_id l = (Inr stored, l', sent)" "t \<in> set WRITE_TOOLS"
  obtains profile_ref profile digest reference where "dict_get arguments ''profile_ref'' = PStr profile_ref"
    "map_of (cs_profiles settings) profile_ref = Some profile" "\<not> cp_read_only profile"
    "payload_sha256 frepr (PDict arguments) = Inr digest"
    "new_operation_ref frepr settings profile t (dict_get arguments ''target'') request_id (ce_created_at e) (ce_write_receipt e)
     = Inr reference"
  using assms write_tool_props [OF assms(2)]
  by (auto simp: cloud_call_def bindE_eq_Inr split: option.splits pyval.splits if_splits sum.splits)

text \<open>C29. The receipt does not depend on the tool: when a write tool was dispatched and answered, another write tool called with the same
  request id and the same arguments inside the retention period, for which an operation reference can be written, is answered
  with the first tool's receipt and nothing is dispatched: the request ledger compares the arguments alone.\<close>

theorem cloud_receipt_ignores_tool:
  assumes inv: "cloud_inv (cs_limits settings) l" and writes: "tool \<in> set WRITE_TOOLS" "tool' \<in> set WRITE_TOOLS"
    and run: "cloud_call frepr settings env tool arguments request_id l = (Inr stored, l', True)"
    and later: "ce_begin_now env' < ce_complete_now env + of_int (ll_retention (cs_limits settings))"
    and profile: "dict_get arguments ''profile_ref'' = PStr profile_ref" "map_of (cs_profiles settings) profile_ref = Some profile"
    and reference: "new_operation_ref frepr settings profile tool' (dict_get arguments ''target'') request_id
      (ce_created_at env') (ce_write_receipt env') = Inr ref'"
  shows "\<exists>l''. cloud_call frepr settings env' tool' arguments request_id l' = (Inr stored, l'', False)"
proof -
  obtain digest ref where args: "\<not> cp_read_only profile" "payload_sha256 frepr (PDict arguments) = Inr digest"
    "new_operation_ref frepr settings profile tool (dict_get arguments ''target'') request_id (ce_created_at env) (ce_write_receipt env)
     = Inr ref"
    using cloud_call_writeD [OF run writes(1)] profile by (metis option.inject pyval.inject(4))
  obtain row where row: "row \<in> set l'" "cw_request_id row = request_id" "cw_payload_sha256 row = digest"
    "cw_response row = Some stored" "cw_completed_at row = Some (ce_complete_now env)" "cloud_inv (cs_limits settings) l'"
    using run unfolding cloud_call_write [OF writes(1) profile args] by (rule call_write_dispatched [OF inv]) auto
  have "\<not> expired_terminal (ce_begin_now env' - of_int (ll_retention (cs_limits settings))) row"
    using row(5) later by (auto simp: expired_terminal_def)
  then show ?thesis
    unfolding cloud_call_write [OF writes(2) profile args(1,2) reference]
    using call_write_known [OF row(6,1)] row by simp
qed

section \<open>Witnesses\<close>

definition cloud_request :: trusted_context where
  "cloud_request = sample_request\<lparr>tc_method := ''cloud_resource_start'', tc_operation_id := ''cloud.resource.start''\<rparr>"

definition cloud_trusted :: cloud_caller where
  "cloud_trusted =
    \<lparr>cc_caller_workload = ''agent'', cc_audience = ''email'', cc_organization_id = ''org'', cc_workspace_id = None,
     cc_issuer = Some ''hub'', cc_verification_key = sample_key\<rparr>"

definition cloud_sample_profile :: cloud_profile where
  "cloud_sample_profile = \<lparr>cp_profile_ref = ''p1'', cp_provider = ''gcp'', cp_read_only = False\<rparr>"

definition cloud_sample_settings :: cloud_settings where
  "cloud_sample_settings =
    \<lparr>cs_binding_id = ''b1'', cs_trusted_callers = [(''agent'', cloud_trusted)], cs_profiles = [(''p1'', cloud_sample_profile)],
     cs_limits = sample_limits\<rparr>"

definition cloud_sample_env :: cloud_env where
  "cloud_sample_env =
    \<lparr>ce_created_at = ''2025-02-01T00:04:29Z'', ce_write_receipt = None, ce_preparation_error = None,
     ce_dispatch = DispatchResult sample_result, ce_begin_now = 5, ce_begin_bytes = 4096, ce_complete_now = 7,
     ce_complete_bytes = 4096, ce_status_clock = sample_now, ce_status_now = 8\<rparr>"

definition cloud_arguments :: pydict where
  "cloud_arguments =
    [(''profile_ref'', PStr ''p1''), (''target'', PDict [(''zone'', PStr ''z1''), (''name'', PStr ''vm'')])]"

definition cloud_digest :: string where
  "cloud_digest = sha256 (json_dumps (\<lambda>_. ''0'') True (PDict cloud_arguments))"

definition cloud_envelope :: pydict where
  "cloud_envelope =
    [(''caller_context'', PDict (wire_of (signed_sample cloud_request cloud_digest))), (''arguments'', PDict cloud_arguments)]"

definition cloud_sample_call :: cloud_call_request where
  "cloud_sample_call =
    \<lparr>cq_binding_id = ''b1'', cq_provider_tool_id = ''cloud_resource_start'',
     cq_arguments_json = json_dumps (\<lambda>_. ''0'') False (PDict cloud_envelope)\<rparr>"

lemma cloud_arguments_digest: "payload_sha256 (\<lambda>_. ''0'') (PDict cloud_arguments) = Inr cloud_digest"
  by (simp add: payload_sha256_def canonical_json_def normalize_json_def cloud_digest_def cloud_arguments_def del: json_dumps.simps)

lemma cloud_bounds: "list_ex (\<lambda>(v, maximum). v = [] \<or> py_len v > maximum) (claim_bounds cloud_request) = False"
  by code_simp

lemma cloud_request_operation: "map_of TOOL_OPERATIONS ''cloud_resource_start'' = Some ''cloud.resource.start''"
  by code_simp

lemma cloud_signing_claims: "signing_claims cloud_request = Inr (context_claims cloud_request)"
  using cloud_bounds cloud_request_operation
  by (simp add: signing_claims_def raise_if_def) (simp add: cloud_request_def sample_request_def)

lemma cloud_verified:
  "verify_wire_context (\<lambda>_. ''0'') (\<lambda>_ _. True) ''cloud_resource_start'' ''cloud.resource.start'' (PDict cloud_arguments)
     (wire_of (signed_sample cloud_request cloud_digest)) sample_key (cloud_expected cloud_sample_settings cloud_trusted) sample_now"
proof -
  have "expects (cloud_expected cloud_sample_settings cloud_trusted) (signed_sample cloud_request cloud_digest)"
    by (simp add: signed_sample_def Let_def cloud_request_def sample_request_def expects_def pinned_def cloud_expected_def
        cloud_sample_settings_def cloud_trusted_def)
  from signed_sample_verifies [OF cloud_arguments_digest cloud_signing_claims _ _ this] show ?thesis
    by (simp add: cloud_request_def nonempty_opt_def cloud_expected_def cloud_trusted_def)
qed

text \<open>An operation reference can be written for each of two tools.\<close>

lemma cloud_ref_written:
  assumes "tool \<in> {''cloud_resource_start'', ''cloud_resource_delete''}"
  shows "\<exists>reference. new_operation_ref (\<lambda>_. ''0'') cloud_sample_settings cloud_sample_profile tool
     (dict_get cloud_arguments ''target'') ''r1'' (ce_created_at cloud_sample_env) (ce_write_receipt cloud_sample_env) = Inr reference"
proof -
  let ?p = "\<lambda>operation. sample_operation[2 := (''operation'', PStr operation)]"
  have "length (json_dumps (\<lambda>_. ''0'') True (PDict (?p ''start''))) \<le> 2000" "length (json_dumps (\<lambda>_. ''0'') True (PDict (?p ''delete''))) \<le> 2000"
    "removeprefix ''cloud_resource_'' ''cloud_resource_start'' = ''start''"
    "removeprefix ''cloud_resource_'' ''cloud_resource_delete'' = ''delete''" by code_simp+
  then have short: "length (json_dumps (\<lambda>_. ''0'') True (PDict (?p (removeprefix ''cloud_resource_'' tool)))) \<le> 2000" using assms by auto
  have "ref_canonical (\<lambda>_. ''0'') (?p operation) = Inr (json_dumps (\<lambda>_. ''0'') True (PDict (?p operation)))" for operation
    by (simp add: ref_canonical_def canonical_json_def normalize_json_def sample_operation_def del: json_dumps.simps)
  from create_short_ref [OF this short, of sample_key]
  obtain r where "create_operation_ref (\<lambda>_. ''0'') (?p (removeprefix ''cloud_resource_'' tool)) sample_key = Inr r" by blast
  then show ?thesis
    by (simp add: new_operation_ref_def Let_def verification_key_def cloud_sample_settings_def cloud_trusted_def
        cloud_sample_profile_def cloud_arguments_def cloud_sample_env_def sample_operation_def)
qed

lemma cloud_sample_write:
  "\<exists>l'. cloud_call (\<lambda>_. ''0'') cloud_sample_settings cloud_sample_env ''cloud_resource_start'' cloud_arguments ''r1'' []
     = (Inr sample_result, l', True)"
proof -
  obtain reference where "new_operation_ref (\<lambda>_. ''0'') cloud_sample_settings cloud_sample_profile ''cloud_resource_start''
     (dict_get cloud_arguments ''target'') ''r1'' (ce_created_at cloud_sample_env) (ce_write_receipt cloud_sample_env) = Inr reference"
    using cloud_ref_written [of "''cloud_resource_start''"] by blast
  then have "cloud_call (\<lambda>_. ''0'') cloud_sample_settings cloud_sample_env ''cloud_resource_start'' cloud_arguments ''r1'' [] =
      call_write (\<lambda>_. ''0'') (cs_limits cloud_sample_settings)
        \<lparr>wr_request_id = ''r1'', wr_digest = cloud_digest, wr_operation_ref = reference,
         wr_begin_now = ce_begin_now cloud_sample_env, wr_begin_bytes = ce_begin_bytes cloud_sample_env\<rparr>
        (ce_preparation_error cloud_sample_env) (ce_dispatch cloud_sample_env) (ce_complete_now cloud_sample_env)
        (ce_complete_bytes cloud_sample_env) []"
    by (intro cloud_call_write [where profile = cloud_sample_profile and profile_ref = "''p1''"])
       (simp_all add: WRITE_TOOLS_def cloud_arguments_digest, simp_all add: cloud_arguments_def cloud_sample_settings_def cloud_sample_profile_def)
  moreover have "length (json_dumps (\<lambda>_. ''0'') False (PDict sample_result)) \<le> 100" by code_simp
  then have "\<exists>l'. call_write (\<lambda>_. ''0'') sample_limits \<lparr>wr_request_id = ''r1'', wr_digest = cloud_digest, wr_operation_ref = reference,
      wr_begin_now = 5, wr_begin_bytes = 4096\<rparr> None (DispatchResult sample_result) 7 4096 [] = (Inr sample_result, l', True)"
    by (simp add: call_write_def cloud_begin_def compact_expired_terminals_def sql_delete_def pending_count_def sql_count_def
        sample_limits_def RESPONSE_RESERVATION_BYTES_def INSERT_RESERVATION_BYTES_def begin_answer_def cloud_complete_def
        dispatch_response_def sql_update_def Let_def del: json_dumps.simps)
      (simp add: sample_result_def)
  ultimately show ?thesis by (simp add: cloud_sample_settings_def cloud_sample_env_def)
qed

lemma cloud_receipt_ignores_tool_witness:
  "\<exists>l' l''. cloud_call (\<lambda>_. ''0'') cloud_sample_settings cloud_sample_env ''cloud_resource_start'' cloud_arguments ''r1'' []
      = (Inr sample_result, l', True)
    \<and> cloud_call (\<lambda>_. ''0'') cloud_sample_settings cloud_sample_env ''cloud_resource_delete'' cloud_arguments ''r1'' l'
      = (Inr sample_result, l'', False)"
proof -
  obtain l' where run: "cloud_call (\<lambda>_. ''0'') cloud_sample_settings cloud_sample_env ''cloud_resource_start'' cloud_arguments ''r1'' []
      = (Inr sample_result, l', True)" using cloud_sample_write by blast
  obtain ref' where ref': "new_operation_ref (\<lambda>_. ''0'') cloud_sample_settings cloud_sample_profile ''cloud_resource_delete''
     (dict_get cloud_arguments ''target'') ''r1'' (ce_created_at cloud_sample_env) (ce_write_receipt cloud_sample_env) = Inr ref'"
    using cloud_ref_written [of "''cloud_resource_delete''"] by blast
  have inv: "cloud_inv (cs_limits cloud_sample_settings) []"
    by (rule cloud_inv_Nil) (simp add: cloud_sample_settings_def sample_limits_def)
  have tools: "''cloud_resource_start'' \<in> set WRITE_TOOLS" "''cloud_resource_delete'' \<in> set WRITE_TOOLS" by (simp_all add: WRITE_TOOLS_def)
  have "dict_get cloud_arguments ''profile_ref'' = PStr ''p1''" "map_of (cs_profiles cloud_sample_settings) ''p1'' = Some cloud_sample_profile"
    "ce_begin_now cloud_sample_env < ce_complete_now cloud_sample_env + of_int (ll_retention (cs_limits cloud_sample_settings))"
    by (simp_all add: cloud_arguments_def cloud_sample_settings_def cloud_sample_env_def sample_limits_def)
  from cloud_receipt_ignores_tool [OF inv tools run this(3) this(1,2) ref'] run show ?thesis by blast
qed

lemma cloud_call_parsed: "parse_json (cq_arguments_json cloud_sample_call) = Some (PDict cloud_envelope)"
proof -
  have len: "length (tc_signature (signed_sample cloud_request cloud_digest)) = 64" "length cloud_digest = 64"
    using hmac_sha256_is_digest sha256_is_digest by (simp_all add: signed_sample_def Let_def cloud_digest_def is_digest_def del: json_dumps.simps)
  have "length (serialize_timestamp (tc_issued_at sample_request)) = 20" "length (serialize_timestamp (tc_expires_at sample_request)) = 20"
    by code_simp+
  with len have "json_weight (\<lambda>_. ''0'') (PDict cloud_envelope) \<le> 48000"
    by (simp add: cloud_envelope_def context_claims_def) (simp add: signed_sample_def Let_def cloud_request_def cloud_arguments_def opt_str_def, simp add: sample_request_def)
  then have "length (json_dumps (\<lambda>_. ''0'') False (PDict cloud_envelope)) \<le> 48000"
    using json_dumps_length order_trans by blast
  moreover have "readable (\<lambda>_. ''0'') (PDict cloud_envelope)" "written False (PDict cloud_envelope) = PDict cloud_envelope"
    "unique_pairs (PDict cloud_envelope)"
    by (simp_all add: cloud_envelope_def context_claims_def cloud_arguments_def opt_str_def split: option.split)
  ultimately show ?thesis
    using json_loads_dumps by (simp add: parse_json_def cloud_sample_call_def MAX_TOOL_JSON_BYTES_def del: json_dumps.simps)
qed

lemma cloud_checked:
  "check_call (\<lambda>_. ''0'') (\<lambda>_ _. True) (\<lambda>_ _. True) cloud_sample_settings sample_now ''cloud_resource_start'' cloud_arguments
     (PDict (wire_of (signed_sample cloud_request cloud_digest))) = Inr (signed_sample cloud_request cloud_digest)"
proof -
  let ?c = "signed_sample cloud_request cloud_digest"
  have "datetime_ok (tc_issued_at ?c)" "datetime_ok (tc_expires_at ?c)" "tc_caller_workload ?c = ''agent''"
    using sample_times_ok by (simp_all add: signed_sample_def Let_def cloud_request_def) (simp add: sample_request_def)
  moreover from this(1,2) have "parse_trusted_caller_context (\<lambda>_ _. True) (wire_of ?c) = Inr ?c"
    by (metis parse_serialize_context wire_context)
  moreover have "map_of CLOUD_TOOLS ''cloud_resource_start'' = Some ''cloud.resource.start''" by (simp add: CLOUD_TOOLS_def)
  moreover have "map_of (cs_trusted_callers cloud_sample_settings) ''agent'' = Some cloud_trusted" "cc_verification_key cloud_trusted = sample_key"
    by (simp_all add: cloud_sample_settings_def cloud_trusted_def)
  moreover have "dict_get (wire_of ?c) ''caller_workload'' = PStr (tc_caller_workload ?c)" by (simp add: context_claims_def)
  ultimately show ?thesis
    using cloud_verified by (simp add: check_call_def parse_context_value_def wire_context verify_caller_def)
qed

abbreviation cloud_sample_run :: "cloud_response \<times> cloud_ledger \<times> bool" where
  "cloud_sample_run \<equiv> cloud_on_invoke (\<lambda>_. ''0'') (\<lambda>_ _. True) (\<lambda>_ _. True) (\<lambda>_. Some cloud_sample_call) (\<lambda>_. None)
     cloud_sample_settings sample_now cloud_sample_env ''tool.provider.v1'' ''call_tool'' [] None []"

lemma cloud_sample_sent: "\<exists>resp l'. cloud_sample_run = (resp, l', True)"
proof -
  obtain l' where run: "cloud_call (\<lambda>_. ''0'') cloud_sample_settings cloud_sample_env ''cloud_resource_start'' cloud_arguments ''r1'' []
      = (Inr sample_result, l', True)" using cloud_sample_write by blast
  have req: "tc_request_id (signed_sample cloud_request cloud_digest) = ''r1''"
    by (simp add: signed_sample_def Let_def cloud_request_def sample_request_def)
  have tool: "map_of CLOUD_TOOLS ''cloud_resource_start'' \<noteq> None" by (simp add: CLOUD_TOOLS_def)
  have e: "same_keys cloud_envelope [''caller_context'', ''arguments'']" "dict_get cloud_envelope ''arguments'' = PDict cloud_arguments"
    "dict_get cloud_envelope ''caller_context'' = PDict (wire_of (signed_sample cloud_request cloud_digest))"
    by (simp_all add: cloud_envelope_def same_keys_def)
  have call: "cq_binding_id cloud_sample_call = cs_binding_id cloud_sample_settings"
    "cq_provider_tool_id cloud_sample_call = ''cloud_resource_start''"
    by (simp_all add: cloud_sample_call_def cloud_sample_settings_def)
  show ?thesis
    using run cloud_call_parsed cloud_checked e tool
    by (simp add: cloud_on_invoke_def cloud_call_tool_def Let_def call req MAX_TOOL_REQUEST_BYTES_def)
qed

lemma cloud_effects_authorized_witness:
  "\<exists>resp l'. cloud_sample_run = (resp, l', True)
   \<and> (\<exists>operation_id caller wire. (''agent'', caller) \<in> set (cs_trusted_callers cloud_sample_settings)
       \<and> verify_wire_context (\<lambda>_. ''0'') (\<lambda>_ _. True) ''cloud_resource_start'' operation_id (PDict cloud_arguments) wire
          (cc_verification_key caller) (cloud_expected cloud_sample_settings caller) sample_now)"
proof -
  obtain resp l' where run: "cloud_sample_run = (resp, l', True)" using cloud_sample_sent by blast
  have "dict_get cloud_envelope ''arguments'' = PDict cloud_arguments"
    "cq_provider_tool_id cloud_sample_call = ''cloud_resource_start''"
    "(workload, caller) \<in> set (cs_trusted_callers cloud_sample_settings) \<Longrightarrow> workload = ''agent''" for workload caller
    by (simp_all add: cloud_envelope_def cloud_sample_call_def cloud_sample_settings_def)
  with cloud_effects_authorized [OF run] cloud_call_parsed run show ?thesis by fastforce
qed

end
