(* ===== verification/Bilibili_Receipts.thy ===== *)
theory Bilibili_Receipts
  imports Effect_Ledger Contract_Codecs
begin

text \<open>
  The private state of the Bilibili connector, \<open>cyrene_bilibili/receipts.py\<close>: QR login flows and write
  receipts, both keyed by a scope derived from the verified actor; and the operations of \<open>plugin.py\<close> that
  use them.  The clock (whole seconds) and fresh identifiers are arguments.  A JSON column is its value.
  Account Center, the Bilibili HTTP API and the credential checks are outcomes of the environment.
\<close>

section \<open>State\<close>

datatype flow_status = FlowPending | FlowLinked | FlowExpired | FlowFailed | FlowUnknownResult

record login_flow =
  lf_login_flow_id :: string
  lf_scope_key :: string
  lf_profile_ref :: string
  lf_link_session_ref :: string
  lf_qrcode_key :: string
  lf_qr_png_base64 :: string
  lf_qr_png_sha256 :: string
  lf_qr_cookies_json :: string
  lf_expires_at :: int
  lf_status :: flow_status
  lf_idempotency_key :: string
  lf_created_at :: int
  lf_updated_at :: "int option"
  lf_profile :: "pydict option"

datatype write_status = InProgress | Succeeded | UnknownResult | RejectedWrite

record write_receipt =
  wc_scope_key :: string
  wc_idempotency_key :: string
  wc_profile_ref :: string
  wc_tool_id :: string
  wc_arguments_sha256 :: string
  wc_receipt_id :: string
  wc_status :: write_status
  wc_receipt :: "pydict option"
  wc_created_at :: int
  wc_updated_at :: int

record receipt_store =
  rs_flows :: "login_flow list"
  rs_receipts :: "write_receipt list"

datatype bili_error = ReceiptStoreError | BiliValueError | BiliIntegrityError

section \<open>Scopes\<close>

definition scope_fields :: "string list" where
  "scope_fields = [''issuer'', ''subject'', ''organization_id'', ''workspace_id'', ''binding_id'']"

definition field_text :: "pyval \<Rightarrow> string" where
  "field_text v = (case v of PStr s \<Rightarrow> s | _ \<Rightarrow> [])"

definition scope_payload :: "pydict \<Rightarrow> bytes" where
  "scope_payload actor = join_with [CHR 0x00] (map (\<lambda>name. field_text (dict_get actor name)) scope_fields)"

definition scope_key :: "bytes \<Rightarrow> pydict \<Rightarrow> bili_error + string" where
  "scope_key key actor =
    (let values = map (dict_get actor) scope_fields in
     if list_ex (\<lambda>v. case v of PNone \<Rightarrow> False | PStr _ \<Rightarrow> False | _ \<Rightarrow> True) values then Inl ReceiptStoreError
     else if list_ex (\<lambda>v. \<not> truthy v) (take 3 values) then Inl ReceiptStoreError
     else Inr (hmac_sha256 key (scope_payload actor)))"

section \<open>Login flows\<close>

text \<open>\<open>_initialize\<close> drops flows that expired a day ago.\<close>

definition initialize_store :: "int \<Rightarrow> receipt_store \<Rightarrow> receipt_store" where
  "initialize_store now s = s\<lparr>rs_flows := sql_delete (\<lambda>f. lf_expires_at f < now - 86400) (rs_flows s)\<rparr>"

text \<open>\<open>new\<close> carries the columns of the inserted row; a repeated \<open>login_flow_id\<close> violates the primary key.\<close>

definition begin_flow :: "int \<Rightarrow> login_flow \<Rightarrow> receipt_store \<Rightarrow> (bili_error + login_flow) \<times> receipt_store" where
  "begin_flow now new s =
    (case sql_first (\<lambda>f. lf_scope_key f = lf_scope_key new \<and> lf_idempotency_key f = lf_idempotency_key new) (rs_flows s) of
       Some row \<Rightarrow>
         if lf_profile_ref row \<noteq> lf_profile_ref new then (Inl ReceiptStoreError, s) else (Inr row, s)
     | None \<Rightarrow>
         let row = new\<lparr>lf_status := FlowPending, lf_created_at := now, lf_updated_at := None, lf_profile := None\<rparr> in
         if lf_login_flow_id new \<in> lf_login_flow_id ` set (rs_flows s) then (Inl BiliIntegrityError, s)
         else (Inr row, s\<lparr>rs_flows := rs_flows s @ [row]\<rparr>))"

abbreviation owned_flow :: "string \<Rightarrow> string \<Rightarrow> login_flow \<Rightarrow> bool" where
  "owned_flow scope flow_id f \<equiv> lf_scope_key f = scope \<and> lf_login_flow_id f = flow_id"

definition get_flow :: "string \<Rightarrow> string \<Rightarrow> receipt_store \<Rightarrow> login_flow option" where
  "get_flow scope flow_id s = sql_first (owned_flow scope flow_id) (rs_flows s)"

definition mark_flow :: "int \<Rightarrow> string \<Rightarrow> string \<Rightarrow> flow_status \<Rightarrow> receipt_store \<Rightarrow> receipt_store" where
  "mark_flow now scope flow_id status s =
    s\<lparr>rs_flows := sql_update (owned_flow scope flow_id) (\<lambda>f. f\<lparr>lf_status := status, lf_updated_at := Some now\<rparr>) (rs_flows s)\<rparr>"

definition complete_flow ::
    "(rat \<Rightarrow> string) \<Rightarrow> int \<Rightarrow> string \<Rightarrow> string \<Rightarrow> pydict \<Rightarrow> receipt_store \<Rightarrow> (bili_error + unit) \<times> receipt_store" where
  "complete_flow frepr now scope flow_id profile s =
    (if length (json_dumps frepr False (PDict profile)) > 16 * 1024 then (Inl ReceiptStoreError, s)
     else (Inr (), s\<lparr>rs_flows := sql_update (owned_flow scope flow_id)
             (\<lambda>f. f\<lparr>lf_status := FlowLinked, lf_profile := Some profile, lf_updated_at := Some now\<rparr>) (rs_flows s)\<rparr>))"

definition get_linked_profile :: "string \<Rightarrow> string \<Rightarrow> receipt_store \<Rightarrow> pydict option" where
  "get_linked_profile scope flow_id s =
    (case sql_first (\<lambda>f. owned_flow scope flow_id f \<and> lf_status f = FlowLinked) (rs_flows s) of
       None \<Rightarrow> None | Some f \<Rightarrow> lf_profile f)"

section \<open>Write receipts\<close>

abbreviation claimed :: "string \<Rightarrow> string \<Rightarrow> write_receipt \<Rightarrow> bool" where
  "claimed scope key r \<equiv> wc_scope_key r = scope \<and> wc_idempotency_key r = key"

definition unknown_receipt :: "string \<Rightarrow> string \<Rightarrow> pydict" where
  "unknown_receipt receipt_id code =
    [(''status'', PStr ''UNKNOWN_RESULT''), (''receipt_id'', PStr receipt_id), (''error_code'', PStr code)]"

datatype write_claim = NewClaim | PriorClaim write_status "pydict option"

definition doubt_row :: "pydict \<Rightarrow> int \<Rightarrow> write_receipt \<Rightarrow> write_receipt" where
  "doubt_row receipt now r = r\<lparr>wc_status := UnknownResult, wc_receipt := Some receipt, wc_updated_at := now\<rparr>"

definition close_row :: "write_status \<Rightarrow> pydict \<Rightarrow> int \<Rightarrow> write_receipt \<Rightarrow> write_receipt" where
  "close_row status result now r = r\<lparr>wc_status := status, wc_receipt := Some result, wc_updated_at := now\<rparr>"

record bili_write =
  bw_scope_key :: string
  bw_idempotency_key :: string
  bw_profile_ref :: string
  bw_tool_id :: string
  bw_arguments_sha256 :: string
  bw_receipt_id :: string

definition start_write :: "int \<Rightarrow> bili_write \<Rightarrow> receipt_store \<Rightarrow> (bili_error + write_claim) \<times> receipt_store" where
  "start_write now w s =
    (case sql_first (claimed (bw_scope_key w) (bw_idempotency_key w)) (rs_receipts s) of
       Some row \<Rightarrow>
         if wc_profile_ref row \<noteq> bw_profile_ref w \<or> wc_tool_id row \<noteq> bw_tool_id w
            \<or> wc_arguments_sha256 row \<noteq> bw_arguments_sha256 w
         then (Inl ReceiptStoreError, s)
         else if wc_status row = InProgress then
           (if now - wc_updated_at row > 60 then
              let receipt = unknown_receipt (wc_receipt_id row) ''UNKNOWN_RESULT'' in
              (Inr (PriorClaim UnknownResult (Some receipt)),
               s\<lparr>rs_receipts := sql_update
                   (\<lambda>r. claimed (bw_scope_key w) (bw_idempotency_key w) r \<and> wc_status r = InProgress)
                   (doubt_row receipt now) (rs_receipts s)\<rparr>)
            else (Inr (PriorClaim UnknownResult (Some (unknown_receipt (wc_receipt_id row) ''IN_PROGRESS''))), s))
         else (Inr (PriorClaim (wc_status row) (wc_receipt row)), s)
     | None \<Rightarrow>
         (Inr NewClaim,
          s\<lparr>rs_receipts := rs_receipts s @
              [\<lparr>wc_scope_key = bw_scope_key w, wc_idempotency_key = bw_idempotency_key w, wc_profile_ref = bw_profile_ref w,
                wc_tool_id = bw_tool_id w, wc_arguments_sha256 = bw_arguments_sha256 w, wc_receipt_id = bw_receipt_id w,
                wc_status = InProgress, wc_receipt = None, wc_created_at = now, wc_updated_at = now\<rparr>]\<rparr>))"

abbreviation own_claim :: "bili_write \<Rightarrow> write_receipt \<Rightarrow> bool" where
  "own_claim w r \<equiv> claimed (bw_scope_key w) (bw_idempotency_key w) r \<and> wc_receipt_id r = bw_receipt_id w \<and> wc_status r = InProgress"

definition finish_write ::
    "(rat \<Rightarrow> string) \<Rightarrow> int \<Rightarrow> bili_write \<Rightarrow> write_status \<Rightarrow> pydict \<Rightarrow> receipt_store \<Rightarrow> (bili_error + unit) \<times> receipt_store" where
  "finish_write frepr now w status result s =
    (if status = InProgress then (Inl BiliValueError, s)
     else if length (json_dumps frepr False (PDict result)) > 64 * 1024 then (Inl ReceiptStoreError, s)
     else if sql_count (own_claim w) (rs_receipts s) \<noteq> 1 then (Inl ReceiptStoreError, s)
     else (Inr (), s\<lparr>rs_receipts := sql_update (own_claim w)
             (close_row status result now) (rs_receipts s)\<rparr>))"

definition cancel_write_claim :: "bili_write \<Rightarrow> receipt_store \<Rightarrow> receipt_store" where
  "cancel_write_claim w s = s\<lparr>rs_receipts := sql_delete (own_claim w) (rs_receipts s)\<rparr>"

section \<open>The write path of the provider\<close>

text \<open>An exception of the provider: \<open>BilibiliFailure\<close> (code, retryable), a failure of Account Center, cancellation, a
  store error or any other exception.\<close>

datatype bili_raise =
    BilibiliFailure string bool
  | AccountCenterUnavailable
  | BiliInterrupted
  | BiliStoreRaised bili_error
  | BiliException

text \<open>What a Bilibili mutation does; a failure carries its code, whether the write may have happened, and an external id.\<close>

datatype mutation_result =
    MutationDone pydict
  | MutationFailure string bool "string option"
  | MutationInterrupted
  | MutationException

fun status_text :: "write_status \<Rightarrow> string" where
  "status_text InProgress = ''IN_PROGRESS''"
| "status_text Succeeded = ''SUCCEEDED''"
| "status_text UnknownResult = ''UNKNOWN_RESULT''"
| "status_text RejectedWrite = ''REJECTED''"

text \<open>\<open>{a: x, **b}\<close>: the items of \<open>b\<close> override.\<close>

definition dict_merge :: "pydict \<Rightarrow> pydict \<Rightarrow> pydict" where
  "dict_merge a b = foldl (\<lambda>d (k, v). dict_set d k v) a b"

definition replay_answer :: "bili_write \<Rightarrow> write_status \<Rightarrow> pydict option \<Rightarrow> pydict" where
  "replay_answer w status previous =
    (let base = (case previous of
           Some d \<Rightarrow> if d = [] then [(''status'', PStr (status_text status)), (''receipt_id'', PStr (bw_receipt_id w))] else d
         | None \<Rightarrow> [(''status'', PStr (status_text status)), (''receipt_id'', PStr (bw_receipt_id w))]);
         replay = dict_set base ''operation_ref'' (PStr (bw_idempotency_key w)) in
     if dict_get replay ''status'' \<in> {PStr ''UNKNOWN_RESULT'', PStr ''REJECTED''} \<and> \<not> dict_has replay ''error_code''
     then dict_set replay ''error_code'' (dict_get replay ''status'') else replay)"

definition write_result :: "bili_write \<Rightarrow> write_status \<Rightarrow> pydict" where
  "write_result w status =
    [(''status'', PStr (status_text status)), (''operation_ref'', PStr (bw_idempotency_key w)),
     (''receipt_id'', PStr (bw_receipt_id w))]"

definition failure_result :: "bili_write \<Rightarrow> write_status \<Rightarrow> string \<Rightarrow> string option \<Rightarrow> pydict" where
  "failure_result w status code external_id =
    write_result w status @ [(''error_code'', PStr code)]
    @ (case external_id of None \<Rightarrow> [] | Some x \<Rightarrow> [(''external_id'', PStr x)])"

text \<open>Persist a final result: the answer, or the store's exception.\<close>

definition settle_write ::
    "(rat \<Rightarrow> string) \<Rightarrow> int \<Rightarrow> bili_write \<Rightarrow> write_status \<Rightarrow> pydict \<Rightarrow> bili_raise + pydict \<Rightarrow> receipt_store
     \<Rightarrow> (bili_raise + pydict) \<times> receipt_store" where
  "settle_write frepr now w status result answer s =
    (case finish_write frepr now w status result s of
       (Inl e, s') \<Rightarrow> (Inl (BiliStoreRaised e), s')
     | (Inr _, s') \<Rightarrow> (answer, s'))"

text \<open>After the mutation: the handlers of the last \<open>try\<close> statement.  A store error while a success is recorded is an
  exception of the \<open>try\<close> body and goes to the last handler.\<close>

definition finish_mutation ::
    "(rat \<Rightarrow> string) \<Rightarrow> int \<Rightarrow> bili_write \<Rightarrow> mutation_result \<Rightarrow> receipt_store \<Rightarrow> (bili_raise + pydict) \<times> receipt_store" where
  "finish_mutation frepr now w res s =
    (let crashed = failure_result w UnknownResult ''PROVIDER_FAILURE'' None in
     case res of
       MutationDone outcome \<Rightarrow>
         (let result = dict_merge (write_result w Succeeded) outcome in
          case finish_write frepr now w Succeeded result s of
            (Inl _, s') \<Rightarrow> settle_write frepr now w UnknownResult crashed (Inr crashed) s'
          | (Inr _, s') \<Rightarrow> (Inr result, s'))
     | MutationFailure code unknown_write external_id \<Rightarrow>
         (let status = (if unknown_write then UnknownResult else RejectedWrite);
              result = failure_result w status code external_id in
          settle_write frepr now w status result (Inr result) s)
     | MutationInterrupted \<Rightarrow>
         settle_write frepr now w UnknownResult (failure_result w UnknownResult ''CANCELLED_DURING_WRITE'' None)
           (Inl BiliInterrupted) s
     | MutationException \<Rightarrow> settle_write frepr now w UnknownResult crashed (Inr crashed) s)"

text \<open>\<open>_execute_account_operation\<close> for a write with a claim key: \<open>credential\<close> is the exception of the credential
  phase, if any; the flag tells whether the mutation was sent.\<close>

definition execute_write ::
    "(rat \<Rightarrow> string) \<Rightarrow> bili_write \<Rightarrow> int \<Rightarrow> bili_raise option \<Rightarrow> mutation_result \<Rightarrow> int \<Rightarrow> receipt_store
     \<Rightarrow> (bili_raise + pydict) \<times> receipt_store \<times> bool" where
  "execute_write frepr w start_now credential mutation finish_now s =
    (case start_write start_now w s of
       (Inl e, s1) \<Rightarrow> (Inl (BiliStoreRaised e), s1, False)
     | (Inr (PriorClaim status previous), s1) \<Rightarrow> (Inr (replay_answer w status previous), s1, False)
     | (Inr NewClaim, s1) \<Rightarrow>
        (case credential of
           Some e \<Rightarrow> (Inl e, cancel_write_claim w s1, False)
         | None \<Rightarrow> (case finish_mutation frepr finish_now w mutation s1 of (r, s2) \<Rightarrow> (r, s2, True))))"

section \<open>The QR login\<close>

datatype poll_status = PollPending | PollScanned | PollExpired | PollLinked | PollOther

record qr_poll =
  qp_status :: poll_status
  qp_external_subject :: "string option"
  qp_account_id :: "bili_raise + string option"

text \<open>\<open>_safe_linked_profile\<close>: an allowlist of fields, none of which is on the denylist.\<close>

definition safe_profile_fields :: "string list" where
  "safe_profile_fields =
    [''profile_ref'', ''provider'', ''auth_status'', ''external_subject'', ''expires_at'', ''auth_mode'', ''access_mode'',
     ''workspace_id'', ''credential_revision'', ''reauth_required'']"

definition safe_linked_profile :: "pydict \<Rightarrow> pydict" where
  "safe_linked_profile d =
    map (\<lambda>k. (k, dict_get d k)) (filter (dict_has d) safe_profile_fields)"

datatype qr_answer =
    QrNotFound
  | QrStatus flow_status
  | QrScanned
  | QrLinked "pydict option"
  | QrUnknown

text \<open>\<open>bilibili.auth.qr.status\<close>: \<open>polled\<close> is the answer of the Bilibili poll (with the account id its cookie jar
  names), \<open>linked\<close> the profile Account Center returned.\<close>

definition qr_link_result ::
    "(rat \<Rightarrow> string) \<Rightarrow> int \<Rightarrow> string \<Rightarrow> string \<Rightarrow> bili_raise + pydict \<Rightarrow> receipt_store
     \<Rightarrow> (bili_raise + qr_answer) \<times> receipt_store" where
  "qr_link_result frepr now scope flow_id linked s =
    (case linked of
       Inl AccountCenterUnavailable \<Rightarrow> (Inr QrUnknown, mark_flow now scope flow_id FlowUnknownResult s)
     | Inl e \<Rightarrow> (Inl e, s)
     | Inr profile \<Rightarrow>
        (case complete_flow frepr now scope flow_id (safe_linked_profile profile) s of
           (Inl e, s') \<Rightarrow> (Inl (BiliStoreRaised e), s')
         | (Inr _, s') \<Rightarrow> (Inr (QrLinked (Some (safe_linked_profile profile))), s')))"

definition qr_polled ::
    "(rat \<Rightarrow> string) \<Rightarrow> int \<Rightarrow> string \<Rightarrow> string \<Rightarrow> qr_poll \<Rightarrow> bili_raise + pydict \<Rightarrow> receipt_store
     \<Rightarrow> (bili_raise + qr_answer) \<times> receipt_store" where
  "qr_polled frepr now scope flow_id polled linked s =
    (let failed = (Inr (QrStatus FlowFailed), mark_flow now scope flow_id FlowFailed s) in
     case (qp_status polled, qp_external_subject polled) of
       (PollPending, _) \<Rightarrow> (Inr (QrStatus FlowPending), s)
     | (PollScanned, _) \<Rightarrow> (Inr QrScanned, s)
     | (PollExpired, _) \<Rightarrow> (Inr (QrStatus FlowExpired), mark_flow now scope flow_id FlowExpired s)
     | (PollLinked, Some subject) \<Rightarrow>
        (case qp_account_id polled of
           Inl e \<Rightarrow> (Inl e, s)
         | Inr account_id \<Rightarrow>
            if account_id \<noteq> None \<and> account_id \<noteq> Some subject then failed
            else qr_link_result frepr now scope flow_id linked s)
     | _ \<Rightarrow> failed)"

definition qr_status ::
    "(rat \<Rightarrow> string) \<Rightarrow> int \<Rightarrow> string \<Rightarrow> string \<Rightarrow> bili_raise + qr_poll \<Rightarrow> bili_raise + pydict \<Rightarrow> receipt_store
     \<Rightarrow> (bili_raise + qr_answer) \<times> receipt_store" where
  "qr_status frepr now scope flow_id polled linked s =
    (case get_flow scope flow_id s of
       None \<Rightarrow> (Inr QrNotFound, s)
     | Some flow \<Rightarrow>
        if lf_status flow = FlowLinked then (Inr (QrLinked (get_linked_profile scope flow_id s)), s)
        else if lf_status flow \<in> {FlowExpired, FlowFailed, FlowUnknownResult} then (Inr (QrStatus (lf_status flow)), s)
        else if lf_expires_at flow \<le> now then (Inr (QrStatus FlowExpired), mark_flow now scope flow_id FlowExpired s)
        else (case polled of Inl e \<Rightarrow> (Inl e, s) | Inr p \<Rightarrow> qr_polled frepr now scope flow_id p linked s))"

section \<open>Receipts as an intent ledger\<close>

abbreviation receipt_key :: "write_receipt \<Rightarrow> string \<times> string" where
  "receipt_key r \<equiv> (wc_scope_key r, wc_idempotency_key r)"

definition receipts_inv :: "receipt_store \<Rightarrow> bool" where
  "receipts_inv s \<longleftrightarrow>
     distinct (map receipt_key (rs_receipts s))
   \<and> list_all (\<lambda>r. wc_status r = InProgress \<longleftrightarrow> wc_receipt r = None) (rs_receipts s)"

type_synonym timed_write = "bili_write \<times> int"

fun write_key :: "timed_write \<Rightarrow> string \<times> string" where
  "write_key (w, now) = (bw_scope_key w, bw_idempotency_key w)"

definition write_free :: "string \<times> string \<Rightarrow> receipt_store \<Rightarrow> bool" where
  "write_free k s \<longleftrightarrow> k \<notin> set (map receipt_key (rs_receipts s))"

fun write_grant :: "timed_write \<Rightarrow> receipt_store \<Rightarrow> bool \<times> receipt_store" where
  "write_grant (w, now) s = (case start_write now w s of (res, s') \<Rightarrow> (res = Inr NewClaim, s'))"

fun write_release :: "timed_write \<Rightarrow> receipt_store \<Rightarrow> receipt_store" where
  "write_release (w, now) s = cancel_write_claim w s"

fun write_settle :: "(rat \<Rightarrow> string) \<Rightarrow> timed_write \<Rightarrow> int \<times> write_status \<times> pydict \<Rightarrow> receipt_store \<Rightarrow> receipt_store" where
  "write_settle frepr (w, start_now) (now, status, result) s = snd (finish_write frepr now w status result s)"

text \<open>The login flow operations do not touch the receipts.\<close>

definition flows_only :: "receipt_store \<Rightarrow> receipt_store \<Rightarrow> bool" where
  "flows_only s s' \<longleftrightarrow> rs_receipts s' = rs_receipts s"

lemma receipt_row_simps [simp]:
  "wc_scope_key (doubt_row d now r) = wc_scope_key r" "wc_idempotency_key (doubt_row d now r) = wc_idempotency_key r"
  "wc_status (doubt_row d now r) = UnknownResult" "wc_receipt (doubt_row d now r) = Some d"
  "wc_scope_key (close_row st d now r) = wc_scope_key r" "wc_idempotency_key (close_row st d now r) = wc_idempotency_key r"
  "wc_status (close_row st d now r) = st" "wc_receipt (close_row st d now r) = Some d"
  "wc_profile_ref (close_row st d now r) = wc_profile_ref r" "wc_tool_id (close_row st d now r) = wc_tool_id r"
  "wc_arguments_sha256 (close_row st d now r) = wc_arguments_sha256 r"
  by (simp_all add: doubt_row_def close_row_def)

lemma receipts_inv_update:
  assumes "receipts_inv s" "\<And>r. receipt_key (f r) = receipt_key r"
    "\<And>r. wc_status (f r) \<noteq> InProgress" "\<And>r. wc_receipt (f r) \<noteq> None"
  shows "receipts_inv (s\<lparr>rs_receipts := sql_update P f (rs_receipts s)\<rparr>)"
    and "set (map receipt_key (sql_update P f (rs_receipts s))) = set (map receipt_key (rs_receipts s))"
proof -
  have keys: "map receipt_key (sql_update P f (rs_receipts s)) = map receipt_key (rs_receipts s)"
    using assms(2) by (rule map_sql_update)
  then show "set (map receipt_key (sql_update P f (rs_receipts s))) = set (map receipt_key (rs_receipts s))" by simp
  show "receipts_inv (s\<lparr>rs_receipts := sql_update P f (rs_receipts s)\<rparr>)"
    using assms(1) assms(3,4) keys unfolding receipts_inv_def list_all_iff
    by (auto simp: set_sql_update simp del: not_None_eq)
qed

lemma start_writeE:
  assumes "start_write now w s = (res, s')"
  obtains (new) row where "res = Inr NewClaim" "write_free (write_key (w, now)) s" "receipt_key row = write_key (w, now)"
      "s' = s\<lparr>rs_receipts := rs_receipts s @ [row]\<rparr>" "wc_status row = InProgress" "wc_receipt row = None"
      "wc_receipt_id row = bw_receipt_id w" "wc_profile_ref row = bw_profile_ref w" "wc_tool_id row = bw_tool_id w"
      "wc_arguments_sha256 row = bw_arguments_sha256 w"
  | (kept) "res \<noteq> Inr NewClaim" "s' = s"
  | (doubted) receipt P where "res \<noteq> Inr NewClaim"
      "s' = s\<lparr>rs_receipts := sql_update P (doubt_row receipt now) (rs_receipts s)\<rparr>"
proof (cases "sql_first (claimed (bw_scope_key w) (bw_idempotency_key w)) (rs_receipts s)")
  case None
  then have "write_free (write_key (w, now)) s" by (auto simp: write_free_def find_None_iff)
  with None assms show thesis by (auto simp: start_write_def intro!: new)
next
  case (Some row)
  with assms show thesis by (auto simp: start_write_def Let_def split: if_splits intro: kept doubted)
qed

lemma start_write_inv: "receipts_inv s \<Longrightarrow> receipts_inv (snd (start_write now w s))"
proof -
  assume inv: "receipts_inv s"
  obtain res s' where run: "start_write now w s = (res, s')" by fastforce
  then have "receipts_inv s'"
  proof (cases rule: start_writeE)
    case (new row)
    with inv show ?thesis by (auto simp: receipts_inv_def write_free_def)
  next
    case (doubted receipt P)
    with receipts_inv_update(1) [OF inv] show ?thesis by simp
  qed (use inv in simp)
  with run show ?thesis by simp
qed

lemma finish_write_inv: "receipts_inv s \<Longrightarrow> receipts_inv (snd (finish_write frepr now w status result s))"
  using receipts_inv_update(1) [of s] by (auto simp: finish_write_def)

lemma cancel_write_claim_inv: "receipts_inv s \<Longrightarrow> receipts_inv (cancel_write_claim w s)"
  by (auto simp: receipts_inv_def cancel_write_claim_def list_all_iff distinct_sql_delete)

interpretation bili: effect_ledger receipts_inv "\<lambda>_. True" write_key write_free write_grant write_release "write_settle frepr"
  flows_only for frepr
proof unfold_locales
  fix s k and r :: timed_write
  assume inv: "receipts_inv s"
  obtain w now where r: "r = (w, now)" by fastforce
  obtain res s2 where run: "start_write now w s = (res, s2)" by fastforce
  show "receipts_inv (snd (write_grant r s))"
    using start_write_inv [OF inv, of now w] run by (simp add: r)
  show "write_free (write_key r) s \<and> \<not> write_free (write_key r) s'" if "write_grant r s = (True, s')" for s'
    using run
  proof (cases rule: start_writeE)
    case (new row)
    with that run show ?thesis by (auto simp: r write_free_def)
  qed (use that run in \<open>auto simp: r\<close>)
  show "write_free k s" if "write_free k (snd (write_grant r s))"
    using run
  proof (cases rule: start_writeE)
    case (doubted receipt P)
    with that run receipts_inv_update(2) [OF inv] show ?thesis by (simp add: r write_free_def)
  qed (use that run in \<open>auto simp: r write_free_def\<close>)
  show "receipts_inv (write_release r s)" using inv by (simp add: r cancel_write_claim_inv)
  show "k = write_key r \<or> write_free k s" if "write_free k (write_release r s)"
    using that by (force simp: r write_free_def cancel_write_claim_def)
  fix x :: "int \<times> write_status \<times> pydict"
  obtain fin_now status result where x: "x = (fin_now, status, result)" by (cases x) auto
  show "receipts_inv (write_settle frepr r x s)" using inv by (simp add: r x finish_write_inv)
  show "write_free k s" if "write_free k (write_settle frepr r x s)"
    using that receipts_inv_update(2) [OF inv] by (auto simp: r x finish_write_def write_free_def split: if_splits)
next
  fix s s' k
  assume "receipts_inv s" "flows_only s s'"
  then show "receipts_inv s'" by (simp add: receipts_inv_def flows_only_def)
  show "write_free k s" if "write_free k s'" using that \<open>flows_only s s'\<close> by (simp add: write_free_def flows_only_def)
qed

end
