(* ===== verification/Bilibili_Receipts_Props.thy ===== *)
theory Bilibili_Receipts_Props
  imports Bilibili_Receipts
begin

text \<open>
  Properties of the Bilibili connector state: at most one mutation per scope and idempotency key, what a repeated
  write returns, the separation of actor scopes, and the QR login flow.
\<close>

abbreviation bili_step ::
    "(rat \<Rightarrow> string) \<Rightarrow> (receipt_store, timed_write) effect_system \<Rightarrow> (receipt_store, timed_write) effect_system \<Rightarrow> bool" where
  "bili_step frepr \<equiv> effect_step (\<lambda>_. True) write_grant write_release (write_settle frepr) flows_only"

text \<open>C27. At most one mutation: in every interleaving of Bilibili writes, cancellations before dispatch, completions, login flow
  operations and crashes, no two mutations have the same actor scope and idempotency key, and a claim that
  may still dispatch belongs to a key without a mutation.\<close>

theorem bili_mutated_once:
  assumes "reach (fresh_system receipts_inv) (bili_step frepr) s"
  shows "distinct (map write_key (fs_effects s))
    \<and> (\<forall>w \<in> set (fs_owned s). write_key w \<notin> write_key ` set (fs_effects s))"
  using bili.at_most_one_effect [OF assms] by auto

section \<open>Receipts\<close>

lemma claim_row:
  assumes "receipts_inv s" "row \<in> set (rs_receipts s)" "receipt_key row = (scope, key)"
  shows "sql_first (claimed scope key) (rs_receipts s) = Some row"
proof -
  have "claimed scope key = (\<lambda>r. receipt_key r = receipt_key row)" using assms(3) by auto
  then show ?thesis using assms(1,2) find_key [of receipt_key "rs_receipts s" row] by (simp add: receipts_inv_def)
qed

lemma own_claim_count:
  assumes "receipts_inv s" "row \<in> set (rs_receipts s)" "own_claim w row"
  shows "sql_count (own_claim w) (rs_receipts s) = 1"
proof -
  have "sql_count (own_claim w) (rs_receipts s) \<le> 1"
    using assms(1) by (intro sql_count_key_le [of receipt_key _ _ "receipt_key row"]) (use assms(3) in \<open>auto simp: receipts_inv_def\<close>)
  moreover have "0 < sql_count (own_claim w) (rs_receipts s)" using assms(2,3) by (auto simp: sql_count_pos)
  ultimately show ?thesis by simp
qed

text \<open>A row that records exactly this write.\<close>

definition records :: "bili_write \<Rightarrow> write_receipt \<Rightarrow> bool" where
  "records w r \<longleftrightarrow> receipt_key r = (bw_scope_key w, bw_idempotency_key w) \<and> wc_profile_ref r = bw_profile_ref w
     \<and> wc_tool_id r = bw_tool_id w \<and> wc_arguments_sha256 r = bw_arguments_sha256 w"

lemma finish_write_row:
  assumes "finish_write frepr now w status result s = (Inr (), s')" "row \<in> set (rs_receipts s)" "own_claim w row" "records w row"
  shows "\<exists>row' \<in> set (rs_receipts s'). records w row' \<and> wc_status row' = status \<and> wc_receipt row' = Some result"
proof -
  have s': "rs_receipts s' = sql_update (own_claim w) (close_row status result now) (rs_receipts s)"
    using assms(1) by (auto simp: finish_write_def split: if_splits)
  have "close_row status result now row \<in> set (rs_receipts s')"
    unfolding s' set_sql_update using assms(2,3) by (intro image_eqI [of _ _ row]) auto
  then show ?thesis using assms(4) by (intro bexI) (auto simp: records_def)
qed

lemma finish_write_failed: "finish_write frepr now w status result s = (Inl e, s') \<Longrightarrow> s' = s"
  by (auto simp: finish_write_def split: if_splits)

lemma finish_write_status: "finish_write frepr now w status result s = (Inr (), s') \<Longrightarrow> status \<noteq> InProgress"
  by (auto simp: finish_write_def split: if_splits)

lemma settle_write_answer:
  assumes "settle_write frepr now w status result answer s = (Inr r, s')"
  shows "finish_write frepr now w status result s = (Inr (), s') \<and> answer = Inr r"
  using assms by (auto simp: settle_write_def split: prod.splits sum.splits)

text \<open>An answered mutation has stored its answer.\<close>

lemma finish_mutation_answer:
  assumes "finish_mutation frepr now w res s = (Inr result, s')"
  shows "\<exists>status. finish_write frepr now w status result s = (Inr (), s')"
proof (cases res)
  case (MutationDone outcome)
  with assms show ?thesis
    by (auto simp: finish_mutation_def Let_def split: prod.splits sum.splits dest!: settle_write_answer dest: finish_write_failed)
next
  case (MutationFailure code unknown external_id)
  with assms show ?thesis by (auto simp: finish_mutation_def Let_def dest!: settle_write_answer)
next
  case MutationInterrupted
  with assms show ?thesis by (auto simp: finish_mutation_def Let_def dest!: settle_write_answer)
next
  case MutationException
  with assms show ?thesis by (auto simp: finish_mutation_def Let_def dest!: settle_write_answer)
qed

lemma executed_write:
  assumes inv: "receipts_inv s" and run: "execute_write frepr w t credential mutation f s = (Inr result, s', True)"
  obtains row where "row \<in> set (rs_receipts s')" "records w row" "wc_status row \<noteq> InProgress" "wc_receipt row = Some result"
    "receipts_inv s'"
proof -
  obtain s1 where start: "start_write t w s = (Inr NewClaim, s1)" and fin: "finish_mutation frepr f w mutation s1 = (Inr result, s')"
    using run by (auto simp: execute_write_def split: prod.splits sum.splits write_claim.splits option.splits)
  obtain status where stored: "finish_write frepr f w status result s1 = (Inr (), s')" using finish_mutation_answer [OF fin] by blast
  have inv1: "receipts_inv s1" using start_write_inv [OF inv, of t w] start by simp
  obtain row where row: "row \<in> set (rs_receipts s1)" "own_claim w row" "records w row"
    using start by (cases rule: start_writeE) (auto simp: records_def)
  have "receipts_inv s'" using finish_write_inv [OF inv1, of frepr f w status result] stored by simp
  with finish_write_row [OF stored row] finish_write_status [OF stored] show thesis by (auto intro: that)
qed

lemma start_write_recorded:
  assumes "receipts_inv s" "row \<in> set (rs_receipts s)" "records w row" "wc_status row \<noteq> InProgress"
    "bw_scope_key w' = bw_scope_key w" "bw_idempotency_key w' = bw_idempotency_key w"
  shows "start_write t w' s =
    (if records w' row then Inr (PriorClaim (wc_status row) (wc_receipt row)) else Inl ReceiptStoreError, s)"
proof -
  have "sql_first (claimed (bw_scope_key w') (bw_idempotency_key w')) (rs_receipts s) = Some row"
    using assms by (intro claim_row) (auto simp: records_def)
  with assms show ?thesis by (auto simp: start_write_def records_def)
qed

text \<open>Repeated writes return the receipt: after a Bilibili write was sent and answered, a second write with the same scope
  and idempotency key sends nothing and changes nothing; for the same profile, tool and arguments it returns the
  stored answer, for any other operation it fails.\<close>

theorem bili_write_replay:
  assumes "receipts_inv s" "execute_write frepr w t credential mutation f s = (Inr result, s', True)"
    "bw_scope_key w' = bw_scope_key w" "bw_idempotency_key w' = bw_idempotency_key w"
  shows "\<exists>status. execute_write frepr w' t' credential' mutation' f' s' =
    (if bw_profile_ref w' = bw_profile_ref w \<and> bw_tool_id w' = bw_tool_id w \<and> bw_arguments_sha256 w' = bw_arguments_sha256 w
     then Inr (replay_answer w' status (Some result)) else Inl (BiliStoreRaised ReceiptStoreError), s', False)"
  using assms(1,2)
proof (rule executed_write)
  fix row assume row: "row \<in> set (rs_receipts s')" "records w row" "wc_status row \<noteq> InProgress" "wc_receipt row = Some result"
    "receipts_inv s'"
  have "records w' row \<longleftrightarrow> bw_profile_ref w' = bw_profile_ref w \<and> bw_tool_id w' = bw_tool_id w
      \<and> bw_arguments_sha256 w' = bw_arguments_sha256 w"
    using row(2) assms(3,4) by (auto simp: records_def)
  with start_write_recorded [OF row(5,1,2,3) assms(3,4)] row(4) show ?thesis
    by (auto simp: execute_write_def)
qed

text \<open>A claim is released when nothing was sent: a write whose credentials cannot be redeemed or that is cancelled before
  dispatch leaves the receipts exactly as they were, so that the same key can be used again.\<close>

theorem bili_claim_released:
  assumes "receipts_inv s" "write_free (bw_scope_key w, bw_idempotency_key w) s"
  shows "execute_write frepr w t (Some e) mutation f s = (Inl e, s, False)"
proof -
  have none: "sql_first (claimed (bw_scope_key w) (bw_idempotency_key w)) (rs_receipts s) = None"
    using assms(2) by (auto simp: write_free_def find_None_iff image_iff)
  have keep: "\<not> own_claim w r" if "r \<in> set (rs_receipts s)" for r
    using assms(2) that by (auto simp: write_free_def image_iff)
  then have "sql_delete (own_claim w) (rs_receipts s @ [x]) = rs_receipts s" if "own_claim w x" for x
    using that by (simp add: sql_delete_def filter_id_conv)
  then show ?thesis using none by (simp add: execute_write_def start_write_def cancel_write_claim_def)
qed

section \<open>Scopes\<close>

lemma sep_append_inj: "x @ c # p = y @ c # q \<Longrightarrow> c \<notin> set x \<Longrightarrow> c \<notin> set y \<Longrightarrow> x = y \<and> p = q"
proof (induction x arbitrary: y)
  case Nil
  then show ?case by (cases y) auto
next
  case (Cons a x)
  then show ?case by (cases y) auto
qed

lemma join_sep_inj:
  assumes "join_with [c] xs = join_with [c] ys" "length xs = length ys" "\<forall>x \<in> set xs. c \<notin> set x" "\<forall>y \<in> set ys. c \<notin> set y"
  shows "xs = ys"
  using assms
proof (induction xs arbitrary: ys)
  case (Cons x xs)
  obtain y zs where ys: "ys = y # zs" "length zs = length xs" using Cons.prems(2) by (cases ys) auto
  show ?case
  proof (cases "xs = []")
    case True
    with Cons.prems ys show ?thesis by simp
  next
    case False
    then have "x @ c # join_with [c] xs = y @ c # join_with [c] zs"
      using Cons.prems(1) ys by (cases xs; cases zs) auto
    then have eq: "x = y \<and> join_with [c] xs = join_with [c] zs"
      using Cons.prems(3,4) ys by (intro sep_append_inj) auto
    then have "xs = zs" using Cons.prems(3,4) ys by (intro Cons.IH) auto
    with eq ys show ?thesis by simp
  qed
qed simp

text \<open>Scopes separate actors: when two actors whose claims hold no NUL character get the same scope key, they agree on
  issuer, subject, organization, workspace and binding, unless HMAC-SHA256 collides.\<close>

theorem scope_key_separates:
  assumes "scope_key key a = Inr k" "scope_key key b = Inr k"
    and "\<forall>name \<in> set scope_fields. CHR 0x00 \<notin> set (field_text (dict_get a name)) \<union> set (field_text (dict_get b name))"
  shows "(\<forall>name \<in> set scope_fields. field_text (dict_get a name) = field_text (dict_get b name))
    \<or> (scope_payload a \<noteq> scope_payload b \<and> hmac_sha256 key (scope_payload a) = hmac_sha256 key (scope_payload b))"
proof (cases "scope_payload a = scope_payload b")
  case True
  then have "map (\<lambda>name. field_text (dict_get a name)) scope_fields = map (\<lambda>name. field_text (dict_get b name)) scope_fields"
    unfolding scope_payload_def using assms(3) by (intro join_sep_inj) auto
  then show ?thesis by simp
next
  case False
  then show ?thesis using assms(1,2) by (auto simp: scope_key_def Let_def split: if_splits)
qed

section \<open>Login flows\<close>

text \<open>A poll can undo a login: \<open>mark_flow\<close> does not look at the current status, so a status poll that read the flow before
  another poll linked it, and then learns from Bilibili that the code has expired, overwrites \<open>LINKED\<close> and hides
  the stored profile.\<close>

theorem linked_flow_overwritten:
  assumes "flow \<in> set (rs_flows s)"
    "complete_flow frepr t1 (lf_scope_key flow) (lf_login_flow_id flow) profile s = (Inr (), s1)"
  shows "get_linked_profile (lf_scope_key flow) (lf_login_flow_id flow) s1 = Some profile
    \<and> get_linked_profile (lf_scope_key flow) (lf_login_flow_id flow)
        (mark_flow t2 (lf_scope_key flow) (lf_login_flow_id flow) FlowExpired s1) = None"
proof -
  let ?own = "owned_flow (lf_scope_key flow) (lf_login_flow_id flow)"
  let ?f = "\<lambda>f. f\<lparr>lf_status := FlowLinked, lf_profile := Some profile, lf_updated_at := Some t1\<rparr>"
  have s1: "rs_flows s1 = sql_update ?own ?f (rs_flows s)"
    using assms(2) by (auto simp: complete_flow_def split: if_splits)
  have lp: "lf_profile g = Some profile \<and> lf_status g = FlowLinked" if "g \<in> set (rs_flows s1)" "?own g" for g
    using that unfolding s1 set_sql_update by auto
  have mem: "?f flow \<in> set (rs_flows s1)"
    unfolding s1 set_sql_update using assms(1) by (intro image_eqI [of _ _ flow]) auto
  have "?own (?f flow) \<and> lf_status (?f flow) = FlowLinked" by simp
  with mem have "find (\<lambda>f. ?own f \<and> lf_status f = FlowLinked) (rs_flows s1) \<noteq> None"
    unfolding find_None_iff by blast
  then have "get_linked_profile (lf_scope_key flow) (lf_login_flow_id flow) s1 = Some profile"
    using lp find_Some_in unfolding get_linked_profile_def by fastforce
  moreover have "find (\<lambda>f. ?own f \<and> lf_status f = FlowLinked)
      (rs_flows (mark_flow t2 (lf_scope_key flow) (lf_login_flow_id flow) FlowExpired s1)) = None"
    by (auto simp: find_None_iff mark_flow_def set_sql_update)
  ultimately show ?thesis by (simp add: get_linked_profile_def)
qed

section \<open>Witnesses\<close>

definition sample_bili_write :: bili_write where
  "sample_bili_write =
    \<lparr>bw_scope_key = ''scope'', bw_idempotency_key = ''key-0001'', bw_profile_ref = ''p'', bw_tool_id = ''bilibili.dm.send'',
     bw_arguments_sha256 = ''d'', bw_receipt_id = ''r''\<rparr>"

definition sample_claim :: write_receipt where
  "sample_claim =
    \<lparr>wc_scope_key = ''scope'', wc_idempotency_key = ''key-0001'', wc_profile_ref = ''p'', wc_tool_id = ''bilibili.dm.send'',
     wc_arguments_sha256 = ''d'', wc_receipt_id = ''r'', wc_status = InProgress, wc_receipt = None, wc_created_at = 1, wc_updated_at = 1\<rparr>"

abbreviation empty_store :: receipt_store where
  "empty_store \<equiv> \<lparr>rs_flows = [], rs_receipts = []\<rparr>"

lemma sample_started: "start_write 1 sample_bili_write empty_store = (Inr NewClaim, empty_store\<lparr>rs_receipts := [sample_claim]\<rparr>)"
  by (simp add: start_write_def sample_bili_write_def sample_claim_def)

lemma empty_store_inv: "receipts_inv empty_store"
  by (simp add: receipts_inv_def)

lemma bili_mutated_once_witness:
  "\<exists>s. reach (fresh_system receipts_inv) (bili_step (\<lambda>_. ''0'')) s \<and> fs_effects s = [(sample_bili_write, 1)]
     \<and> distinct (map write_key (fs_effects s))"
proof -
  let ?s0 = "\<lparr>fs_ledger = empty_store, fs_owned = [], fs_effects = []\<rparr> :: (receipt_store, timed_write) effect_system"
  let ?l = "empty_store\<lparr>rs_receipts := [sample_claim]\<rparr>"
  let ?s1 = "\<lparr>fs_ledger = ?l, fs_owned = [(sample_bili_write, 1)], fs_effects = []\<rparr>"
  let ?s2 = "\<lparr>fs_ledger = ?l, fs_owned = [], fs_effects = [(sample_bili_write, 1)]\<rparr>"
  have "reach (fresh_system receipts_inv) (bili_step (\<lambda>_. ''0'')) ?s0"
    by (rule reach_init) (simp add: fresh_system_def empty_store_inv)
  moreover have "bili_step (\<lambda>_. ''0'') ?s0 ?s1"
    using effect_step.granted [of "\<lambda>_. True" "(sample_bili_write, 1)" write_grant ?s0 ?l] sample_started by simp
  moreover have "bili_step (\<lambda>_. ''0'') ?s1 ?s2" using effect_step.effect [of "(sample_bili_write, 1)" ?s1] by simp
  ultimately have "reach (fresh_system receipts_inv) (bili_step (\<lambda>_. ''0'')) ?s2" by (blast intro: reach_step)
  with bili_mutated_once [OF this] show ?thesis by (intro exI [of _ ?s2]) simp
qed

definition sample_answer :: pydict where
  "sample_answer = dict_merge (write_result sample_bili_write Succeeded) [(''message_id'', PStr ''m1'')]"

lemma sample_executed:
  "\<exists>s'. execute_write (\<lambda>_. ''0'') sample_bili_write 1 None (MutationDone [(''message_id'', PStr ''m1'')]) 2 empty_store
     = (Inr sample_answer, s', True)"
proof -
  have "length (json_dumps (\<lambda>_. ''0'') False (PDict sample_answer)) \<le> 200" by code_simp
  moreover have "sql_count (own_claim sample_bili_write) [sample_claim] = 1"
    by (simp add: sql_count_def sample_bili_write_def sample_claim_def)
  ultimately have "\<exists>s'. finish_write (\<lambda>_. ''0'') 2 sample_bili_write Succeeded sample_answer (empty_store\<lparr>rs_receipts := [sample_claim]\<rparr>) = (Inr (), s')"
    by (simp add: finish_write_def del: json_dumps.simps)
  then show ?thesis
    by (auto simp: execute_write_def sample_started finish_mutation_def Let_def sample_answer_def)
qed

lemma bili_write_replay_witness:
  "\<exists>s' status. execute_write (\<lambda>_. ''0'') sample_bili_write 1 None (MutationDone [(''message_id'', PStr ''m1'')]) 2 empty_store
     = (Inr sample_answer, s', True)
   \<and> execute_write (\<lambda>_. ''0'') sample_bili_write 500 None MutationException 501 s'
     = (Inr (replay_answer sample_bili_write status (Some sample_answer)), s', False)"
proof -
  obtain s' where run: "execute_write (\<lambda>_. ''0'') sample_bili_write 1 None (MutationDone [(''message_id'', PStr ''m1'')]) 2 empty_store
     = (Inr sample_answer, s', True)" using sample_executed by blast
  from bili_write_replay [OF empty_store_inv run refl refl, of 500 None MutationException 501] run
  show ?thesis by auto
qed

lemma bili_claim_released_witness:
  "execute_write (\<lambda>_. ''0'') sample_bili_write 1 (Some AccountCenterUnavailable) MutationException 2 empty_store
   = (Inl AccountCenterUnavailable, empty_store, False)"
  by (rule bili_claim_released) (simp_all add: empty_store_inv write_free_def)

definition sample_actor :: pydict where
  "sample_actor =
    [(''issuer'', PStr ''hub''), (''subject'', PStr ''alice''), (''organization_id'', PStr ''org''), (''workspace_id'', PNone),
     (''binding_id'', PStr ''b1'')]"

lemma scope_key_separates_witness:
  "\<exists>k. scope_key ''key'' sample_actor = Inr k
     \<and> (field_text (dict_get sample_actor ''subject'') = ''alice''
        \<or> scope_payload sample_actor \<noteq> scope_payload sample_actor)"
proof -
  have k: "scope_key ''key'' sample_actor = Inr (hmac_sha256 ''key'' (scope_payload sample_actor))"
    by (simp add: scope_key_def scope_fields_def sample_actor_def)
  have nul: "\<forall>name \<in> set scope_fields. CHR 0x00 \<notin> set (field_text (dict_get sample_actor name)) \<union> set (field_text (dict_get sample_actor name))"
    by (simp add: scope_fields_def sample_actor_def field_text_def)
  from scope_key_separates [OF k k nul] k show ?thesis by (auto simp: sample_actor_def field_text_def)
qed

definition sample_flow :: login_flow where
  "sample_flow =
    \<lparr>lf_login_flow_id = ''f1'', lf_scope_key = ''scope'', lf_profile_ref = ''p'', lf_link_session_ref = ''l'', lf_qrcode_key = ''q'',
     lf_qr_png_base64 = [], lf_qr_png_sha256 = [], lf_qr_cookies_json = [], lf_expires_at = 100, lf_status = FlowPending,
     lf_idempotency_key = ''i'', lf_created_at = 1, lf_updated_at = None, lf_profile = None\<rparr>"

lemma linked_flow_overwritten_witness:
  "\<exists>s1. complete_flow (\<lambda>_. ''0'') 5 ''scope'' ''f1'' [] (empty_store\<lparr>rs_flows := [sample_flow]\<rparr>) = (Inr (), s1)
     \<and> get_linked_profile ''scope'' ''f1'' s1 = Some []
     \<and> get_linked_profile ''scope'' ''f1'' (mark_flow 6 ''scope'' ''f1'' FlowExpired s1) = None"
proof -
  have ids: "lf_scope_key sample_flow = ''scope''" "lf_login_flow_id sample_flow = ''f1''" by (simp_all add: sample_flow_def)
  have "\<exists>s1. complete_flow (\<lambda>_. ''0'') 5 ''scope'' ''f1'' [] (empty_store\<lparr>rs_flows := [sample_flow]\<rparr>) = (Inr (), s1)"
    by (simp add: complete_flow_def)
  then show ?thesis
    using linked_flow_overwritten [of sample_flow "empty_store\<lparr>rs_flows := [sample_flow]\<rparr>" "\<lambda>_. ''0''" 5 "[]"] ids by auto
qed

end
