(* ===== verification/Bilibili_Provider.thy ===== *)
theory Bilibili_Provider
  imports Bilibili_Receipts_Props
begin

text \<open>
  The authorization of Bilibili tool calls: \<open>cyrene_bilibili/trust.py\<close> and \<open>BilibiliProvider._authorize\<close>,
  \<open>_execute_account_operation\<close> and \<open>_call_tool\<close> of \<open>plugin.py\<close>.  The RFC 8785 encoder of the Account Center
  contracts is third-party code: \<open>jcs\<close> yields its bytes, or \<open>None\<close> when it raises.  Account Center, the
  Bilibili API and the input schemas are parameters.
\<close>

section \<open>Trust\<close>

record trusted_caller =
  tr_caller_workload :: string
  tr_audience :: string
  tr_organization_id :: string
  tr_workspace_id :: string
  tr_issuer :: string
  tr_verification_key :: bytes

record bili_settings =
  bl_binding_id :: string
  bl_trusted_callers :: "trusted_caller list"
  bl_state_key :: bytes
  bl_account_center :: bool

definition QR_OPERATIONS :: "string list" where
  "QR_OPERATIONS = [''bilibili.auth.qr.begin'', ''bilibili.auth.qr.status'']"

definition WRITE_OPERATIONS :: "string list" where
  "WRITE_OPERATIONS = [''bilibili.comment.create'', ''bilibili.dynamic.publish'', ''bilibili.dm.send'']"

definition matches_caller :: "pydict \<Rightarrow> trusted_caller \<Rightarrow> bool" where
  "matches_caller context c \<longleftrightarrow>
     dict_get context ''caller_workload'' = PStr (tr_caller_workload c)
   \<and> dict_get context ''audience'' = PStr (tr_audience c)
   \<and> dict_get context ''organization_id'' = PStr (tr_organization_id c)
   \<and> dict_get context ''workspace_id'' = PStr (tr_workspace_id c)
   \<and> dict_get context ''issuer'' = PStr (tr_issuer c)"

definition expected_of :: "bili_settings \<Rightarrow> trusted_caller \<Rightarrow> expected_caller" where
  "expected_of settings c =
    \<lparr>ex_caller_workload = tr_caller_workload c, ex_audience = tr_audience c, ex_binding_id = bl_binding_id settings,
     ex_organization_id = tr_organization_id c, ex_workspace_id = Some (tr_workspace_id c), ex_issuer = Some (tr_issuer c),
     ex_subject = None\<rparr>"

definition nonempty_text :: "pyval \<Rightarrow> bool" where
  "nonempty_text v = (case v of PStr s \<Rightarrow> s \<noteq> [] | _ \<Rightarrow> False)"

text \<open>\<open>Inl ()\<close> is \<open>TrustedContextError\<close> (or another exception the caller treats as denied).\<close>

definition verify_exchange_context ::
    "(rat \<Rightarrow> string) \<Rightarrow> schema_check \<Rightarrow> bili_settings \<Rightarrow> datetime \<Rightarrow> pydict \<Rightarrow> pyval \<Rightarrow> string \<Rightarrow> unit + pydict" where
  "verify_exchange_context frepr schema_ok settings now signed_payload context expected_operation =
    (case context of
       PDict ctx \<Rightarrow>
         let valid = list_ex (\<lambda>c. matches_caller ctx c
               \<and> verify_wire_context frepr schema_ok expected_operation expected_operation (PDict signed_payload) ctx
                   (tr_verification_key c) (expected_of settings c) now) (bl_trusted_callers settings) in
         if \<not> valid \<or> dict_get ctx ''operation_id'' \<noteq> PStr expected_operation then Inl ()
         else if dict_get ctx ''binding_id'' \<noteq> PStr (bl_binding_id settings) then Inl ()
         else if list_ex (\<lambda>name. \<not> nonempty_text (dict_get ctx name)) [''issuer'', ''subject'', ''organization_id'', ''binding_id'']
         then Inl ()
         else if dict_get ctx ''workspace_id'' \<noteq> PNone \<and> \<not> nonempty_text (dict_get ctx ''workspace_id'') then Inl ()
         else Inr (map (\<lambda>name. (name, dict_get ctx name))
                     [''issuer'', ''subject'', ''organization_id'', ''binding_id'', ''workspace_id''])
     | _ \<Rightarrow> Inl ())"

definition pick :: "pydict \<Rightarrow> string list \<Rightarrow> unit + pydict" where
  "pick arguments names =
    (if list_all (dict_has arguments) names then Inr (map (\<lambda>name. (name, dict_get arguments name)) names) else Inl ())"

definition expected_target :: "string \<Rightarrow> pydict \<Rightarrow> unit + pydict" where
  "expected_target tool_id arguments =
    (if tool_id = ''bilibili.search'' then pick arguments [''search_type'']
     else if tool_id = ''bilibili.user.find'' then pick arguments [''user_id'']
     else if tool_id = ''bilibili.video.read'' then pick arguments [''video_id'']
     else if tool_id = ''bilibili.comments.list'' then
       pick arguments (''video_id'' # (if dict_has arguments ''root_comment_id'' then [''root_comment_id''] else []))
     else if tool_id = ''bilibili.dynamics.list'' then pick arguments [''user_id'']
     else if tool_id = ''bilibili.dynamic.read'' then pick arguments [''dynamic_id'']
     else if tool_id \<in> {''bilibili.dm.list'', ''bilibili.dm.send''} then pick arguments [''peer_user_id'']
     else if tool_id = ''bilibili.dm.read'' then pick arguments [''peer_user_id'', ''message_id'']
     else if tool_id = ''bilibili.comment.create'' then
       pick arguments [''video_id'', ''root_comment_id'', ''parent_comment_id'']
     else if tool_id = ''bilibili.dynamic.publish'' then pick arguments [''user_id'']
     else Inl ())"

section \<open>Authorization\<close>

definition is_uuid :: "string \<Rightarrow> bool" where
  "is_uuid s \<longleftrightarrow> map length (split_on CHR ''-'' s) = [8, 4, 4, 4, 12]
     \<and> list_all (list_all is_hex_lower) (split_on CHR ''-'' s)"

definition idempotency_key_ok :: "string \<Rightarrow> bool" where
  "idempotency_key_ok s \<longleftrightarrow> 8 \<le> length s \<and> length s \<le> 128 \<and> list_all (\<lambda>c. 33 \<le> ord c \<and> ord c \<le> 126) s"

record bili_grant =
  bg_actor :: pydict
  bg_arguments :: pydict
  bg_profile_ref :: "string option"
  bg_lease_ref :: "string option"
  bg_target :: "pydict option"
  bg_idempotency_key :: "string option"

text \<open>The digest of the Account Center contracts.\<close>

definition jcs_sha256 :: "(pyval \<Rightarrow> bytes option) \<Rightarrow> pyval \<Rightarrow> unit + string" where
  "jcs_sha256 jcs v = (case jcs v of None \<Rightarrow> Inl () | Some b \<Rightarrow> Inr (sha256 b))"

definition lease_values ::
    "string \<Rightarrow> pydict \<Rightarrow> (pydict \<times> string \<times> string \<times> pydict \<times> string \<times> string option) option" where
  "lease_values tool_id arguments =
    (let is_write = tool_id \<in> set WRITE_OPERATIONS in
     if \<not> same_keys arguments ([''profile_ref'', ''lease_ref'', ''target'', ''arguments_sha256'', ''payload'']
          @ (if is_write then [''idempotency_key''] else [])) then None
     else
       (case (dict_get arguments ''payload'', dict_get arguments ''profile_ref'', dict_get arguments ''lease_ref'',
              dict_get arguments ''target'', dict_get arguments ''arguments_sha256'', dict_get arguments ''idempotency_key'') of
          (PDict payload, PStr profile_ref, PStr lease_ref, PDict target, PStr digest, key) \<Rightarrow>
            if is_uuid profile_ref \<and> is_uuid lease_ref \<and> is_digest digest then
              (case key of
                 PStr k \<Rightarrow> if is_write \<and> idempotency_key_ok k then Some (payload, profile_ref, lease_ref, target, digest, Some k) else None
               | PNone \<Rightarrow> if is_write then None else Some (payload, profile_ref, lease_ref, target, digest, None)
               | _ \<Rightarrow> None)
            else None
        | _ \<Rightarrow> None))"

definition authorize ::
    "(rat \<Rightarrow> string) \<Rightarrow> schema_check \<Rightarrow> (pyval \<Rightarrow> bytes option) \<Rightarrow> bili_settings \<Rightarrow> datetime \<Rightarrow> string \<Rightarrow> pydict
     \<Rightarrow> unit + bili_grant" where
  "authorize frepr schema_ok jcs settings now tool_id envelope =
    (if \<not> same_keys envelope [''caller_context'', ''arguments''] then Inl ()
     else
       (case dict_get envelope ''arguments'' of
          PDict arguments \<Rightarrow>
            if tool_id \<in> set QR_OPERATIONS then
              bindE (verify_exchange_context frepr schema_ok settings now arguments (dict_get envelope ''caller_context'') tool_id)
                (\<lambda>actor. Inr \<lparr>bg_actor = actor, bg_arguments = arguments, bg_profile_ref = None, bg_lease_ref = None,
                               bg_target = None, bg_idempotency_key = None\<rparr>)
            else
              (case lease_values tool_id arguments of
                 None \<Rightarrow> Inl ()
               | Some (payload, profile_ref, lease_ref, target, digest, key) \<Rightarrow>
                  bindE (verify_exchange_context frepr schema_ok settings now arguments (dict_get envelope ''caller_context'') tool_id)
                    (\<lambda>actor.
                  bindE (jcs_sha256 jcs (PDict payload)) (\<lambda>h.
                  bindE (raise_if (digest \<noteq> h) ()) (\<lambda>_.
                  bindE (expected_target tool_id payload) (\<lambda>t.
                  bindE (raise_if (map_of target \<noteq> map_of t) ()) (\<lambda>_.
                    Inr \<lparr>bg_actor = actor, bg_arguments = payload, bg_profile_ref = Some profile_ref,
                         bg_lease_ref = Some lease_ref, bg_target = Some target, bg_idempotency_key = key\<rparr>))))))
        | _ \<Rightarrow> Inl ()))"

section \<open>Operations on an account\<close>

record qr_link =
  ql_profile_ref :: string
  ql_link_session_ref :: string
  ql_expires_at :: int

record qr_ticket =
  qt_qrcode_key :: string
  qt_qr_png_base64 :: string
  qt_qr_png_sha256 :: string
  qt_cookies_json :: string
  qt_expires_at :: int

text \<open>What the environment contributes to one call: a fresh receipt id, clock readings, an exception of the credential
  phase, the outcome of a mutation, the answer of a read, and for the QR operations a fresh flow id and the answers of
  Account Center and of Bilibili.\<close>

record bili_env =
  be_receipt_id :: string
  be_start_now :: int
  be_finish_now :: int
  be_credential :: "bili_raise option"
  be_mutation :: mutation_result
  be_read :: "bili_raise + pydict"
  be_qr_now :: int
  be_login_flow_id :: string
  be_link :: "bili_raise + qr_link"
  be_ticket :: "bili_raise + qr_ticket"
  be_poll :: "bili_raise + qr_poll"
  be_linked :: "bili_raise + pydict"

definition execute_account_operation ::
    "(rat \<Rightarrow> string) \<Rightarrow> (pyval \<Rightarrow> bytes option) \<Rightarrow> bili_settings \<Rightarrow> bili_env \<Rightarrow> string \<Rightarrow> bili_grant \<Rightarrow> receipt_store
     \<Rightarrow> (bili_raise + pydict) \<times> receipt_store \<times> bool" where
  "execute_account_operation frepr jcs settings env tool_id g s =
    (case if bl_account_center settings then (bg_profile_ref g, bg_lease_ref g, bg_target g) else (None, None, None) of
       (Some profile_ref, Some lease_ref, Some target) \<Rightarrow>
         (case scope_key (bl_state_key settings) (bg_actor g) of
            Inl e \<Rightarrow> (Inl (BiliStoreRaised e), s, False)
          | Inr scope \<Rightarrow>
             (case jcs_sha256 jcs (PDict (bg_arguments g)) of
                Inl _ \<Rightarrow> (Inl BiliException, s, False)
              | Inr digest \<Rightarrow>
                 if tool_id \<in> set WRITE_OPERATIONS then
                   (case bg_idempotency_key g of
                      None \<Rightarrow> (Inl (BilibiliFailure ''INVALID_ARGUMENTS'' False), s, False)
                    | Some key \<Rightarrow>
                       execute_write frepr
                         \<lparr>bw_scope_key = scope, bw_idempotency_key = key, bw_profile_ref = profile_ref, bw_tool_id = tool_id,
                          bw_arguments_sha256 = digest, bw_receipt_id = be_receipt_id env\<rparr>
                         (be_start_now env) (be_credential env) (be_mutation env) (be_finish_now env) s)
                 else (case be_credential env of Some e \<Rightarrow> (Inl e, s, False) | None \<Rightarrow> (be_read env, s, False))))
     | _ \<Rightarrow> (Inl (BilibiliFailure ''NOT_CONFIGURED'' False), s, False))"

section \<open>QR logins\<close>

text \<open>\<open>bilibili.auth.qr.begin\<close>: \<open>link\<close> is Account Center's answer, \<open>ticket\<close> the Bilibili one, \<open>text_of_time\<close> renders an epoch.\<close>

definition qr_begin ::
    "(int \<Rightarrow> string) \<Rightarrow> int \<Rightarrow> string \<Rightarrow> string \<Rightarrow> string \<Rightarrow> bili_raise + qr_link \<Rightarrow> bili_raise + qr_ticket \<Rightarrow> receipt_store
     \<Rightarrow> (bili_raise + pydict) \<times> receipt_store" where
  "qr_begin text_of_time now scope key login_flow_id link ticket s =
    (case bindE link (\<lambda>l. bindE ticket (\<lambda>t. Inr (l, t))) of
       Inl e \<Rightarrow> (Inl e, s)
     | Inr (l, t) \<Rightarrow>
        (case begin_flow now
            \<lparr>lf_login_flow_id = login_flow_id, lf_scope_key = scope, lf_profile_ref = ql_profile_ref l,
             lf_link_session_ref = ql_link_session_ref l, lf_qrcode_key = qt_qrcode_key t,
             lf_qr_png_base64 = qt_qr_png_base64 t, lf_qr_png_sha256 = qt_qr_png_sha256 t,
             lf_qr_cookies_json = qt_cookies_json t, lf_expires_at = min (ql_expires_at l) (qt_expires_at t),
             lf_status = FlowPending, lf_idempotency_key = key, lf_created_at = now, lf_updated_at = None,
             lf_profile = None\<rparr> s of
           (Inl e, s') \<Rightarrow> (Inl (BiliStoreRaised e), s')
         | (Inr flow, s') \<Rightarrow>
            (Inr (if lf_status flow \<noteq> FlowPending \<or> lf_expires_at flow \<le> now then
               [(''status'', PStr ''EXPIRED''), (''login_flow_id'', PStr (lf_login_flow_id flow)),
                (''expires_at'', PStr (text_of_time (lf_expires_at flow)))]
             else
               [(''status'', PStr ''PENDING''), (''login_flow_id'', PStr (lf_login_flow_id flow)),
                (''qr_png_base64'', PStr (lf_qr_png_base64 flow)), (''qr_png_sha256'', PStr (lf_qr_png_sha256 flow)),
                (''expires_at'', PStr (text_of_time (lf_expires_at flow)))]), s')))"

text \<open>The answer of a status call as a JSON object.\<close>

definition flow_text :: "flow_status \<Rightarrow> string" where
  "flow_text st =
    (case st of FlowPending \<Rightarrow> ''PENDING'' | FlowLinked \<Rightarrow> ''LINKED'' | FlowExpired \<Rightarrow> ''EXPIRED'' | FlowFailed \<Rightarrow> ''FAILED''
     | FlowUnknownResult \<Rightarrow> ''UNKNOWN_RESULT'')"

definition qr_object :: "qr_answer \<Rightarrow> pydict" where
  "qr_object a =
    (case a of
       QrNotFound \<Rightarrow> [(''status'', PStr ''NOT_FOUND'')]
     | QrStatus st \<Rightarrow> [(''status'', PStr (flow_text st))]
     | QrScanned \<Rightarrow> [(''status'', PStr ''SCANNED'')]
     | QrLinked profile \<Rightarrow>
        [(''status'', PStr ''LINKED''), (''profile'', case profile of None \<Rightarrow> PNone | Some d \<Rightarrow> PDict d)]
     | QrUnknown \<Rightarrow> [(''status'', PStr ''UNKNOWN_RESULT''), (''relogin_required'', PBool True)])"

text \<open>\<open>_execute_qr\<close>; the input schemas admit only texts for the two arguments it reads.\<close>

definition execute_qr ::
    "(rat \<Rightarrow> string) \<Rightarrow> (int \<Rightarrow> string) \<Rightarrow> bili_settings \<Rightarrow> bili_env \<Rightarrow> string \<Rightarrow> pydict \<Rightarrow> pydict \<Rightarrow> receipt_store
     \<Rightarrow> (bili_raise + pydict) \<times> receipt_store" where
  "execute_qr frepr text_of_time settings env tool_id arguments actor s =
    (if \<not> bl_account_center settings then (Inl (BilibiliFailure ''NOT_CONFIGURED'' False), s)
     else
       (case scope_key (bl_state_key settings) actor of
          Inl e \<Rightarrow> (Inl (BiliStoreRaised e), s)
        | Inr scope \<Rightarrow>
           if tool_id = ''bilibili.auth.qr.begin'' then
             qr_begin text_of_time (be_qr_now env) scope (field_text (dict_get arguments ''idempotency_key''))
               (be_login_flow_id env) (be_link env) (be_ticket env) s
           else
             (case qr_status frepr (be_qr_now env) scope (field_text (dict_get arguments ''login_flow_id'')) (be_poll env)
                     (be_linked env) s of
                (r, s') \<Rightarrow> (map_sum id qr_object r, s'))))"

section \<open>The tool call\<close>

datatype bili_response =
    BiliAnswer string
  | BiliToolError string bool
  | BiliCancelled
  | BiliRefused string
  | BiliCatalog string "(string \<times> string) list"

definition BILI_PLUGIN_VERSION :: string where "BILI_PLUGIN_VERSION = ''0.1.0''"
definition BILI_MAX_REQUEST_BYTES :: nat where "BILI_MAX_REQUEST_BYTES = 512 * 1024"
definition BILI_MAX_OUTPUT_BYTES :: nat where "BILI_MAX_OUTPUT_BYTES = 512 * 1024"

definition respond :: "(rat \<Rightarrow> string) \<Rightarrow> bili_raise + pydict \<Rightarrow> bili_response" where
  "respond frepr r =
    (case r of
       Inl BiliInterrupted \<Rightarrow> BiliCancelled
     | Inl AccountCenterUnavailable \<Rightarrow> BiliToolError ''AUTHORIZATION_UNAVAILABLE'' True
     | Inl (BilibiliFailure code retryable) \<Rightarrow> BiliToolError code (retryable \<and> code \<noteq> ''NOT_CONFIGURED'')
     | Inl (BiliStoreRaised ReceiptStoreError) \<Rightarrow> BiliToolError ''STATE_UNAVAILABLE'' False
     | Inl _ \<Rightarrow> BiliToolError ''PROVIDER_FAILURE'' True
     | Inr result \<Rightarrow>
        let encoded = json_dumps frepr False (PDict result) in
        if length encoded > BILI_MAX_OUTPUT_BYTES then BiliToolError ''OUTPUT_LIMIT_EXCEEDED'' False else BiliAnswer encoded)"

definition BILI_TOOLS :: "string list" where
  "BILI_TOOLS = QR_OPERATIONS @
    [''bilibili.search'', ''bilibili.user.find'', ''bilibili.video.read'', ''bilibili.comments.list'', ''bilibili.dynamics.list'',
     ''bilibili.dynamic.read'', ''bilibili.dm.list'', ''bilibili.dm.read''] @ WRITE_OPERATIONS"

text \<open>The catalog: binding and tool id of every advertised tool; the QR operations are left out.\<close>

definition bili_list_tools :: "(bytes \<Rightarrow> string option option) \<Rightarrow> bili_settings \<Rightarrow> bytes \<Rightarrow> bili_response" where
  "bili_list_tools decode_list settings payload =
    (case decode_list payload of
       None \<Rightarrow> BiliRefused ''INVALID_REQUEST: catalog request is malformed''
     | Some binding \<Rightarrow>
        if binding \<noteq> None \<and> binding \<noteq> Some (bl_binding_id settings) then
          BiliRefused ''INVALID_REQUEST: binding ID does not match''
        else BiliCatalog BILI_PLUGIN_VERSION
          (map (Pair (bl_binding_id settings)) (filter (\<lambda>tool. tool \<notin> set QR_OPERATIONS) BILI_TOOLS)))"

text \<open>A decoded \<open>CallToolRequest\<close>; \<open>_unique_object\<close> runs on every object of the JSON text.\<close>

record bili_call_request =
  bq_binding_id :: string
  bq_catalog_version :: "string option"
  bq_provider_tool_id :: string
  bq_arguments_json :: string

fun unique_object :: "pyval \<Rightarrow> bool" where
  "unique_object (PList xs) = list_all unique_object xs"
| "unique_object (PDict d) = (distinct (map fst d) \<and> list_all (\<lambda>(k, v). unique_object v) d)"
| "unique_object _ = True"

text \<open>The call after the envelope was decoded; the flag tells whether a mutation was sent.\<close>

definition bili_dispatch ::
    "(rat \<Rightarrow> string) \<Rightarrow> schema_check \<Rightarrow> (pyval \<Rightarrow> bytes option) \<Rightarrow> (string \<Rightarrow> pydict \<Rightarrow> bool) \<Rightarrow> (int \<Rightarrow> string) \<Rightarrow> bili_settings
     \<Rightarrow> datetime \<Rightarrow> bool \<Rightarrow> bili_env \<Rightarrow> string \<Rightarrow> pydict \<Rightarrow> receipt_store \<Rightarrow> bili_response \<times> receipt_store \<times> bool" where
  "bili_dispatch frepr schema_ok jcs input_ok text_of_time settings now cancelled env tool_id envelope s =
    (case authorize frepr schema_ok jcs settings now tool_id envelope of
       Inl _ \<Rightarrow> (BiliToolError ''AUTHENTICATION_DENIED'' False, s, False)
     | Inr g \<Rightarrow>
        if \<not> input_ok tool_id (bg_arguments g) then (BiliToolError ''INVALID_ARGUMENTS'' False, s, False)
        else if cancelled then (BiliCancelled, s, False)
        else if tool_id \<in> set QR_OPERATIONS then
          (case execute_qr frepr text_of_time settings env tool_id (bg_arguments g) (bg_actor g) s of
             (r, s') \<Rightarrow> (respond frepr r, s', False))
        else
          (case execute_account_operation frepr jcs settings env tool_id g s of
             (r, s', sent) \<Rightarrow> (respond frepr r, s', sent)))"

definition bili_call_tool ::
    "(rat \<Rightarrow> string) \<Rightarrow> schema_check \<Rightarrow> (pyval \<Rightarrow> bytes option) \<Rightarrow> (string \<Rightarrow> pydict \<Rightarrow> bool) \<Rightarrow> (int \<Rightarrow> string)
     \<Rightarrow> (string \<Rightarrow> pyval option) \<Rightarrow> (bytes \<Rightarrow> bili_call_request option) \<Rightarrow> bili_settings
     \<Rightarrow> datetime \<Rightarrow> bool \<Rightarrow> bili_env \<Rightarrow> bytes \<Rightarrow> receipt_store \<Rightarrow> bili_response \<times> receipt_store \<times> bool" where
  "bili_call_tool frepr schema_ok jcs input_ok text_of_time json_loads decode_call settings now cancelled env payload s =
    (case Option.bind (decode_call payload) (\<lambda>q. map_option (Pair q) (json_loads (bq_arguments_json q))) of
       None \<Rightarrow> (BiliRefused ''INVALID_REQUEST: tool request is malformed'', s, False)
     | Some (request, envelope) \<Rightarrow>
        if \<not> unique_object envelope then (BiliRefused ''INVALID_REQUEST: tool request is malformed'', s, False)
        else if bq_binding_id request \<noteq> bl_binding_id settings then
          (BiliRefused ''INVALID_REQUEST: binding ID does not match'', s, False)
        else if bq_catalog_version request \<noteq> None \<and> bq_catalog_version request \<noteq> Some BILI_PLUGIN_VERSION then
          (BiliRefused ''INVALID_REQUEST: tool catalog version does not match'', s, False)
        else if bq_provider_tool_id request \<notin> set BILI_TOOLS then (BiliToolError ''TOOL_NOT_FOUND'' False, s, False)
        else
          (case envelope of
             PDict e \<Rightarrow>
               if map_of TOOL_OPERATIONS (bq_provider_tool_id request) \<noteq> Some (bq_provider_tool_id request)
               then (BiliToolError ''NOT_CONFIGURED'' False, s, False)
               else bili_dispatch frepr schema_ok jcs input_ok text_of_time settings now cancelled env
                      (bq_provider_tool_id request) e s
           | _ \<Rightarrow> (BiliToolError ''AUTHENTICATION_DENIED'' False, s, False)))"

definition bili_on_invoke ::
    "(rat \<Rightarrow> string) \<Rightarrow> schema_check \<Rightarrow> (pyval \<Rightarrow> bytes option) \<Rightarrow> (string \<Rightarrow> pydict \<Rightarrow> bool) \<Rightarrow> (int \<Rightarrow> string)
     \<Rightarrow> (string \<Rightarrow> pyval option) \<Rightarrow> (bytes \<Rightarrow> bili_call_request option) \<Rightarrow> (bytes \<Rightarrow> string option option) \<Rightarrow> bili_settings
     \<Rightarrow> datetime \<Rightarrow> bool \<Rightarrow> bili_env \<Rightarrow> string \<Rightarrow> string \<Rightarrow> bytes \<Rightarrow> string option \<Rightarrow> receipt_store
     \<Rightarrow> bili_response \<times> receipt_store \<times> bool" where
  "bili_on_invoke frepr schema_ok jcs input_ok text_of_time json_loads decode_call decode_list settings now cancelled env
     capability action payload type_url s =
    (if capability \<noteq> ''tool.provider.v1'' then (BiliRefused ''INVALID_REQUEST: unsupported capability'', s, False)
     else if length payload > BILI_MAX_REQUEST_BYTES then
       (BiliRefused ''INVALID_REQUEST: request exceeds its byte limit'', s, False)
     else if action = ''list_tools'' then
       (if type_url \<noteq> None \<and> type_url \<noteq> Some ''type.cyrene.io/cyrene.tool.provider.v1.ListToolsRequest''
        then (BiliRefused ''INVALID_REQUEST: catalog payload type mismatch'', s, False)
        else (bili_list_tools decode_list settings payload, s, False))
     else if action = ''call_tool'' then
       (if type_url \<noteq> None \<and> type_url \<noteq> Some ''type.cyrene.io/cyrene.tool.provider.v1.CallToolRequest''
        then (BiliRefused ''INVALID_REQUEST: tool payload type mismatch'', s, False)
        else bili_call_tool frepr schema_ok jcs input_ok text_of_time json_loads decode_call settings now cancelled env
               payload s)
     else (BiliRefused ''METHOD_NOT_FOUND: unsupported provider method'', s, False))"

section \<open>Mutations are authorized\<close>

lemma verify_exchange_contextD:
  assumes "verify_exchange_context frepr schema_ok settings now payload context op = Inr actor"
  obtains ctx c where "context = PDict ctx" "c \<in> set (bl_trusted_callers settings)"
    "verify_wire_context frepr schema_ok op op (PDict payload) ctx (tr_verification_key c) (expected_of settings c) now"
    "dict_get actor ''subject'' = dict_get ctx ''subject''" "dict_get actor ''binding_id'' = PStr (bl_binding_id settings)"
  using assms by (auto simp: verify_exchange_context_def Let_def list_ex_iff split: pyval.splits if_splits)

lemma authorize_leaseD:
  assumes "authorize frepr schema_ok jcs settings now tool_id envelope = Inr g" "tool_id \<notin> set QR_OPERATIONS"
  obtains arguments lease_ref digest where "dict_get envelope ''arguments'' = PDict arguments"
    "lease_values tool_id arguments = Some (bg_arguments g, the (bg_profile_ref g), lease_ref, the (bg_target g), digest, bg_idempotency_key g)"
    "verify_exchange_context frepr schema_ok settings now arguments (dict_get envelope ''caller_context'') tool_id = Inr (bg_actor g)"
    "jcs_sha256 jcs (PDict (bg_arguments g)) = Inr digest"
    "\<exists>t. expected_target tool_id (bg_arguments g) = Inr t \<and> map_of (the (bg_target g)) = map_of t"
  using assms
  by (auto simp: authorize_def bindE_eq_Inr split: if_splits pyval.splits option.splits)

lemma execute_account_operation_effectD:
  assumes "execute_account_operation frepr jcs settings env tool_id g s = (r, s', sent)" "sent \<or> s' \<noteq> s"
  shows "tool_id \<in> set WRITE_OPERATIONS \<and> (\<exists>key. bg_idempotency_key g = Some key)"
  using assms by (auto simp: execute_account_operation_def split: if_splits option.splits sum.splits)

text \<open>Login flow operations leave the receipts alone.\<close>

lemma mark_flow_receipts [simp]: "rs_receipts (mark_flow now scope flow_id st s) = rs_receipts s"
  by (simp add: mark_flow_def)

lemma complete_flow_receipts: "complete_flow frepr now scope flow_id profile s = (r, s') \<Longrightarrow> rs_receipts s' = rs_receipts s"
  by (auto simp: complete_flow_def split: if_splits)

lemma begin_flow_receipts: "begin_flow now new s = (r, s') \<Longrightarrow> rs_receipts s' = rs_receipts s"
  by (auto simp: begin_flow_def Let_def split: option.splits if_splits)

lemma qr_link_result_receipts: "rs_receipts (snd (qr_link_result frepr now scope flow_id linked s)) = rs_receipts s"
  by (auto simp: qr_link_result_def dest: complete_flow_receipts split: sum.split bili_raise.split prod.split)

lemma qr_polled_receipts: "rs_receipts (snd (qr_polled frepr now scope flow_id polled linked s)) = rs_receipts s"
  by (cases "qp_status polled"; cases "qp_external_subject polled"; cases "qp_account_id polled")
     (simp_all add: qr_polled_def Let_def qr_link_result_receipts)

lemma qr_status_receipts: "rs_receipts (snd (qr_status frepr now scope flow_id polled linked s)) = rs_receipts s"
  by (cases polled) (simp_all add: qr_status_def qr_polled_receipts split: option.split)

lemma qr_begin_receipts: "rs_receipts (snd (qr_begin text_of_time now scope key flow_id link ticket s)) = rs_receipts s"
  by (cases link; cases ticket) (auto simp: qr_begin_def dest: begin_flow_receipts split: sum.split prod.split)

lemma execute_qr_receipts: "rs_receipts (snd (execute_qr frepr text_of_time settings env tool_id arguments actor s)) = rs_receipts s"
proof -
  have "rs_receipts s' = rs_receipts s" if "qr_status frepr now scope flow_id polled linked s = (r, s')" for now scope flow_id polled linked r s'
    using that qr_status_receipts by (metis snd_conv)
  then show ?thesis by (auto simp: execute_qr_def qr_begin_receipts split: sum.split prod.split)
qed

lemma bili_dispatch_effectD:
  assumes "bili_dispatch frepr schema_ok jcs input_ok text_of_time settings now cancelled env tool_id e s = (resp, s', sent)"
    "sent \<or> rs_receipts s' \<noteq> rs_receipts s"
  obtains g key where "authorize frepr schema_ok jcs settings now tool_id e = Inr g" "tool_id \<notin> set QR_OPERATIONS"
    "\<not> cancelled" "input_ok tool_id (bg_arguments g)" "tool_id \<in> set WRITE_OPERATIONS" "bg_idempotency_key g = Some key"
proof -
  obtain g where g: "authorize frepr schema_ok jcs settings now tool_id e = Inr g" "\<not> cancelled" "input_ok tool_id (bg_arguments g)"
    using assms by (auto simp: bili_dispatch_def split: sum.splits if_splits)
  have qr: "tool_id \<notin> set QR_OPERATIONS"
  proof
    assume "tool_id \<in> set QR_OPERATIONS"
    with assms g execute_qr_receipts [of frepr text_of_time settings env tool_id "bg_arguments g" "bg_actor g" s]
    show False by (auto simp: bili_dispatch_def split: prod.splits)
  qed
  with assms g obtain r where "execute_account_operation frepr jcs settings env tool_id g s = (r, s', sent)"
    by (auto simp: bili_dispatch_def split: prod.splits)
  with assms(2) execute_account_operation_effectD that g qr show thesis by metis
qed

text \<open>C28. Only authorized mutations are sent: when an invocation of the Bilibili provider sends a mutation or changes a write receipt,
  its request carries a signed context that verifies, for a configured caller, exactly the signed lease
  arguments; the tool arguments have the signed digest, match their input schema, and the leased target
  is the one they name.\<close>

theorem bili_mutation_authorized:
  assumes run: "bili_on_invoke frepr schema_ok jcs input_ok text_of_time json_loads decode_call decode_list settings now cancelled env
      capability action payload type_url s = (resp, s', sent)"
    and effect: "sent \<or> rs_receipts s' \<noteq> rs_receipts s"
  shows "\<exists>q e ctx c arguments tool_arguments lease profile target digest key t.
      decode_call payload = Some q \<and> json_loads (bq_arguments_json q) = Some (PDict e)
    \<and> dict_get e ''arguments'' = PDict arguments \<and> dict_get e ''caller_context'' = PDict ctx
    \<and> c \<in> set (bl_trusted_callers settings)
    \<and> verify_wire_context frepr schema_ok (bq_provider_tool_id q) (bq_provider_tool_id q) (PDict arguments) ctx
        (tr_verification_key c) (expected_of settings c) now
    \<and> lease_values (bq_provider_tool_id q) arguments = Some (tool_arguments, profile, lease, target, digest, Some key)
    \<and> jcs_sha256 jcs (PDict tool_arguments) = Inr digest
    \<and> expected_target (bq_provider_tool_id q) tool_arguments = Inr t \<and> map_of target = map_of t
    \<and> bq_provider_tool_id q \<in> set WRITE_OPERATIONS \<and> \<not> cancelled \<and> input_ok (bq_provider_tool_id q) tool_arguments"
proof -
  have call: "bili_call_tool frepr schema_ok jcs input_ok text_of_time json_loads decode_call settings now cancelled env payload s
      = (resp, s', sent)"
    using run effect by (auto simp: bili_on_invoke_def split: if_splits)
  obtain q e where q: "decode_call payload = Some q" "json_loads (bq_arguments_json q) = Some (PDict e)"
    and dispatch: "bili_dispatch frepr schema_ok jcs input_ok text_of_time settings now cancelled env
      (bq_provider_tool_id q) e s = (resp, s', sent)"
    using call effect
    by (auto simp: bili_call_tool_def bind_eq_Some_conv split: option.splits if_splits pyval.splits prod.splits)
  obtain g key where g: "authorize frepr schema_ok jcs settings now (bq_provider_tool_id q) e = Inr g"
    "bq_provider_tool_id q \<notin> set QR_OPERATIONS" "\<not> cancelled" "input_ok (bq_provider_tool_id q) (bg_arguments g)"
    "bq_provider_tool_id q \<in> set WRITE_OPERATIONS" "bg_idempotency_key g = Some key"
    using bili_dispatch_effectD [OF dispatch effect] by blast
  obtain arguments lease digest where a: "dict_get e ''arguments'' = PDict arguments"
    "lease_values (bq_provider_tool_id q) arguments
     = Some (bg_arguments g, the (bg_profile_ref g), lease, the (bg_target g), digest, bg_idempotency_key g)"
    "verify_exchange_context frepr schema_ok settings now arguments (dict_get e ''caller_context'') (bq_provider_tool_id q)
     = Inr (bg_actor g)"
    "jcs_sha256 jcs (PDict (bg_arguments g)) = Inr digest"
    "\<exists>t. expected_target (bq_provider_tool_id q) (bg_arguments g) = Inr t \<and> map_of (the (bg_target g)) = map_of t"
    using authorize_leaseD [OF g(1,2)] by blast
  obtain ctx c where "dict_get e ''caller_context'' = PDict ctx" "c \<in> set (bl_trusted_callers settings)"
    "verify_wire_context frepr schema_ok (bq_provider_tool_id q) (bq_provider_tool_id q) (PDict arguments) ctx
       (tr_verification_key c) (expected_of settings c) now"
    using verify_exchange_contextD [OF a(3)] by blast
  then show ?thesis using q g a by metis
qed

section \<open>Witnesses\<close>

definition bili_request :: trusted_context where
  "bili_request = sample_request\<lparr>tc_method := ''bilibili.dm.send'', tc_operation_id := ''bilibili.dm.send'',
     tc_workspace_id := Some ''ws''\<rparr>"

abbreviation bili_wire_context :: "string \<Rightarrow> pydict" where
  "bili_wire_context d \<equiv> wire_of (signed_sample bili_request d)"

definition bili_trusted :: trusted_caller where
  "bili_trusted =
    \<lparr>tr_caller_workload = ''agent'', tr_audience = ''email'', tr_organization_id = ''org'', tr_workspace_id = ''ws'',
     tr_issuer = ''hub'', tr_verification_key = sample_key\<rparr>"

definition bili_sample_settings :: bili_settings where
  "bili_sample_settings = \<lparr>bl_binding_id = ''b1'', bl_trusted_callers = [bili_trusted], bl_state_key = ''key'',
     bl_account_center = True\<rparr>"

definition bili_arguments :: pydict where
  "bili_arguments =
    [(''profile_ref'', PStr ''00000000-0000-4000-8000-000000000001''), (''lease_ref'', PStr ''00000000-0000-4000-8000-000000000002''),
     (''target'', PDict [(''peer_user_id'', PStr ''7'')]), (''arguments_sha256'', PStr (sha256 ''jcs'')),
     (''payload'', PDict [(''peer_user_id'', PStr ''7''), (''text'', PStr ''hi'')]), (''idempotency_key'', PStr ''12345678'')]"

definition bili_digest :: string where
  "bili_digest = sha256 (json_dumps (\<lambda>_. ''0'') True (PDict bili_arguments))"

definition bili_envelope :: pydict where
  "bili_envelope = [(''caller_context'', PDict (bili_wire_context bili_digest)), (''arguments'', PDict bili_arguments)]"

definition bili_call :: bili_call_request where
  "bili_call =
    \<lparr>bq_binding_id = ''b1'', bq_catalog_version = None, bq_provider_tool_id = ''bilibili.dm.send'', bq_arguments_json = ''{}''\<rparr>"

definition bili_sample_env :: bili_env where
  "bili_sample_env =
    \<lparr>be_receipt_id = ''r1'', be_start_now = 1, be_finish_now = 2, be_credential = None, be_mutation = MutationException,
     be_read = Inr [], be_qr_now = 0, be_login_flow_id = ''f1'', be_link = Inl AccountCenterUnavailable,
     be_ticket = Inl BiliException, be_poll = Inl BiliException, be_linked = Inl AccountCenterUnavailable\<rparr>"

abbreviation bili_sample_run :: "bili_response \<times> receipt_store \<times> bool" where
  "bili_sample_run \<equiv> bili_on_invoke (\<lambda>_. ''0'') (\<lambda>_ _. True) (\<lambda>_. Some ''jcs'') (\<lambda>_ _. True) (\<lambda>_. ''t'') (\<lambda>_. Some (PDict bili_envelope))
     (\<lambda>_. Some bili_call) (\<lambda>_. None) bili_sample_settings sample_now False bili_sample_env ''tool.provider.v1'' ''call_tool'' [] None
     empty_store"

lemma bili_bounds: "list_ex (\<lambda>(v, maximum). v = [] \<or> py_len v > maximum) (claim_bounds bili_request) = False"
  by code_simp

lemma bili_workspace: "\<not> 200 < py_len ''ws''"
  by code_simp

lemma bili_operation: "map_of TOOL_OPERATIONS ''bilibili.dm.send'' = Some ''bilibili.dm.send''"
  by code_simp

lemma bili_arguments_digest: "payload_sha256 (\<lambda>_. ''0'') (PDict bili_arguments) = Inr bili_digest"
proof -
  have "normalize_json (PDict bili_arguments) = Inr (PDict bili_arguments)" by (simp add: normalize_json_def bili_arguments_def)
  then show ?thesis by (simp add: payload_sha256_def canonical_json_def bili_digest_def del: json_dumps.simps)
qed

lemma bili_signing_claims: "signing_claims bili_request = Inr (context_claims bili_request)"
  using bili_bounds bili_operation bili_workspace
  by (simp add: signing_claims_def raise_if_def) (simp add: bili_request_def sample_request_def)

lemma bili_verified:
  "verify_wire_context (\<lambda>_. ''0'') (\<lambda>_ _. True) ''bilibili.dm.send'' ''bilibili.dm.send'' (PDict bili_arguments)
     (bili_wire_context bili_digest) sample_key (expected_of bili_sample_settings bili_trusted) sample_now"
proof -
  have "expects (expected_of bili_sample_settings bili_trusted) (signed_sample bili_request bili_digest)"
    by (simp add: signed_sample_def Let_def bili_request_def sample_request_def expects_def pinned_def expected_of_def
        bili_sample_settings_def bili_trusted_def)
  from signed_sample_verifies [OF bili_arguments_digest bili_signing_claims _ _ this] show ?thesis
    by (simp add: bili_request_def nonempty_opt_def expected_of_def bili_trusted_def)
qed

lemma bili_exchange:
  "\<exists>actor. verify_exchange_context (\<lambda>_. ''0'') (\<lambda>_ _. True) bili_sample_settings sample_now bili_arguments
      (PDict (bili_wire_context bili_digest)) ''bilibili.dm.send'' = Inr actor
    \<and> (\<exists>scope. scope_key (bl_state_key bili_sample_settings) actor = Inr scope)"
proof -
  have fields: "dict_get (bili_wire_context d) ''caller_workload'' = PStr ''agent''" "dict_get (bili_wire_context d) ''audience'' = PStr ''email''"
    "dict_get (bili_wire_context d) ''organization_id'' = PStr ''org''" "dict_get (bili_wire_context d) ''workspace_id'' = PStr ''ws''"
    "dict_get (bili_wire_context d) ''issuer'' = PStr ''hub''" "dict_get (bili_wire_context d) ''subject'' = PStr ''alice''"
    "dict_get (bili_wire_context d) ''binding_id'' = PStr ''b1''"
    "dict_get (bili_wire_context d) ''operation_id'' = PStr ''bilibili.dm.send''" for d
    by (simp_all add: context_claims_def signed_sample_def bili_request_def sample_request_def Let_def opt_str_def)
  have caller: "bl_trusted_callers bili_sample_settings = [bili_trusted]" "bl_binding_id bili_sample_settings = ''b1''"
    "tr_verification_key bili_trusted = sample_key" "matches_caller (bili_wire_context d) bili_trusted" for d
    by (simp_all add: bili_sample_settings_def bili_trusted_def matches_caller_def fields opt_str_def)
  show ?thesis
    using bili_verified by (simp add: verify_exchange_context_def Let_def caller fields nonempty_text_def scope_key_def scope_fields_def)
qed

lemma bili_lease:
  "lease_values ''bilibili.dm.send'' bili_arguments
   = Some ([(''peer_user_id'', PStr ''7''), (''text'', PStr ''hi'')], ''00000000-0000-4000-8000-000000000001'',
       ''00000000-0000-4000-8000-000000000002'', [(''peer_user_id'', PStr ''7'')], sha256 ''jcs'', Some ''12345678'')"
proof -
  have "is_uuid ''00000000-0000-4000-8000-000000000001''" "is_uuid ''00000000-0000-4000-8000-000000000002''"
    "idempotency_key_ok ''12345678''" by code_simp+
  then show ?thesis
    by (auto simp: lease_values_def bili_arguments_def same_keys_def WRITE_OPERATIONS_def Let_def)
qed

lemma bili_sample_sent: "\<exists>resp s'. bili_sample_run = (resp, s', True)"
proof -
  obtain actor scope where a: "verify_exchange_context (\<lambda>_. ''0'') (\<lambda>_ _. True) bili_sample_settings sample_now bili_arguments
      (PDict (bili_wire_context bili_digest)) ''bilibili.dm.send'' = Inr actor"
    "scope_key (bl_state_key bili_sample_settings) actor = Inr scope" using bili_exchange by blast
  have tool: "''bilibili.dm.send'' \<in> set BILI_TOOLS" "''bilibili.dm.send'' \<notin> set QR_OPERATIONS" "''bilibili.dm.send'' \<in> set WRITE_OPERATIONS"
    by (simp_all add: BILI_TOOLS_def QR_OPERATIONS_def WRITE_OPERATIONS_def)
  let ?g = "\<lparr>bg_actor = actor, bg_arguments = [(''peer_user_id'', PStr ''7''), (''text'', PStr ''hi'')],
       bg_profile_ref = Some ''00000000-0000-4000-8000-000000000001'', bg_lease_ref = Some ''00000000-0000-4000-8000-000000000002'',
       bg_target = Some [(''peer_user_id'', PStr ''7'')], bg_idempotency_key = Some ''12345678''\<rparr>"
  have g: "authorize (\<lambda>_. ''0'') (\<lambda>_ _. True) (\<lambda>_. Some ''jcs'') bili_sample_settings sample_now ''bilibili.dm.send'' bili_envelope = Inr ?g"
    using a tool bili_lease
    by (simp add: authorize_def bili_envelope_def same_keys_def jcs_sha256_def raise_if_def expected_target_def pick_def dict_has_def)
  have "unique_object (PDict bili_envelope)"
    by (simp add: bili_envelope_def bili_arguments_def context_claims_def opt_str_def split: option.split)
  moreover have "bl_account_center bili_sample_settings" "bl_binding_id bili_sample_settings = ''b1''"
    by (simp_all add: bili_sample_settings_def)
  ultimately show ?thesis
    using g a(2) tool bili_operation
    by (simp add: bili_on_invoke_def bili_call_tool_def bili_dispatch_def bili_call_def BILI_MAX_REQUEST_BYTES_def jcs_sha256_def
        execute_account_operation_def execute_write_def start_write_def bili_sample_env_def split: prod.split)
qed

lemma bili_mutation_authorized_witness:
  "\<exists>resp s'. bili_sample_run = (resp, s', True)
   \<and> (\<exists>c \<in> set (bl_trusted_callers bili_sample_settings).
        verify_wire_context (\<lambda>_. ''0'') (\<lambda>_ _. True) ''bilibili.dm.send'' ''bilibili.dm.send'' (PDict bili_arguments)
          (bili_wire_context bili_digest) (tr_verification_key c) (expected_of bili_sample_settings c) sample_now)"
proof -
  obtain resp s' where run: "bili_sample_run = (resp, s', True)" using bili_sample_sent by blast
  from bili_mutation_authorized [OF run] have "\<exists>c \<in> set (bl_trusted_callers bili_sample_settings).
        verify_wire_context (\<lambda>_. ''0'') (\<lambda>_ _. True) ''bilibili.dm.send'' ''bilibili.dm.send'' (PDict bili_arguments)
          (bili_wire_context bili_digest) (tr_verification_key c) (expected_of bili_sample_settings c) sample_now"
    by (auto simp: bili_envelope_def bili_call_def)
  with run show ?thesis by blast
qed

end
