(* ===== verification/Proto_Wire.thy ===== *)
theory Proto_Wire
  imports Json_Reader
begin

text \<open>
  The hand-written Protobuf wire format of the memory contract, \<open>cyrene_memory_provider_contracts/_wire.py\<close>, with the part of
  \<open>struct\<close> it uses: the little-endian IEEE binary32 format of \<open>"<f"\<close>.  A generator over the fields of a message is a fold that
  consumes one field at a time, so an error of the consumer comes before an error in a later field, as in the code.

  The lemmas: reading back a varint below $2^{70}$, a binary32 number and a whole list of fields.
\<close>

section \<open>Numbers\<close>

text \<open>\<open>WireFormatError\<close>, \<open>MemoryCodecError\<close>, the \<open>TypeError\<close> of a missing constructor argument and the \<open>OverflowError\<close> of
  \<open>struct.pack\<close>.\<close>

datatype codec_error = WireFormatError | MemoryCodecError | CodecTypeError | PackOverflow

fun varint_bytes :: "nat \<Rightarrow> bytes" where
  "varint_bytes n = (if n < 128 then [char_of n] else char_of (n mod 128 + 128) # varint_bytes (n div 128))"

declare varint_bytes.simps [simp del]

definition encode_varint :: "int \<Rightarrow> codec_error + bytes" where
  "encode_varint value = (if value < 0 then Inl WireFormatError else Inr (varint_bytes (nat value)))"

text \<open>\<open>shift\<close> and \<open>acc\<close> are the loop's variables; the rest of the data stands for the offset.\<close>

fun decode_varint_loop :: "nat \<Rightarrow> nat \<Rightarrow> bytes \<Rightarrow> codec_error + (nat \<times> bytes)" where
  "decode_varint_loop acc shift [] = Inl WireFormatError"
| "decode_varint_loop acc shift (c # cs) =
    (let byte = ord c; acc' = acc + byte mod 128 * 2 ^ shift in
     if byte < 128 then Inr (acc', cs)
     else if shift + 7 > 63 then Inl WireFormatError
     else decode_varint_loop acc' (shift + 7) cs)"

definition decode_varint :: "bytes \<Rightarrow> codec_error + (nat \<times> bytes)" where
  "decode_varint = decode_varint_loop 0 0"

text \<open>Rounding to the nearest integer, ties to even.\<close>

definition round_half_even :: "rat \<Rightarrow> int" where
  "round_half_even x =
    (let f = \<lfloor>x\<rfloor>; d = x - of_int f in if d < 1/2 \<or> d = 1/2 \<and> even f then f else f + 1)"

text \<open>The exponent field of a magnitude: 1 for the subnormal range and the first binade, at most 254.\<close>

definition exponent_field :: "rat \<Rightarrow> nat" where
  "exponent_field a = 1 + length (filter (\<lambda>k. 2 ^ k / 2 ^ 126 \<le> a) [1..<254])"

text \<open>The bits of a magnitude: a mantissa that rounds up to the next power of two carries into the exponent.\<close>

definition magnitude_bits :: "rat \<Rightarrow> nat" where
  "magnitude_bits a =
    (let e = exponent_field a in (e - 1) * 2 ^ 23 + nat (round_half_even (a * 2 ^ 149 / 2 ^ (e - 1))))"

definition pack_bits :: "pyfloat \<Rightarrow> codec_error + nat" where
  "pack_bits v =
    (case v of
       Fin q \<Rightarrow>
         let m = magnitude_bits \<bar>q\<bar> in
         if m \<ge> 255 * 2 ^ 23 then Inl PackOverflow else Inr ((if q < 0 then 2 ^ 31 else 0) + m)
     | PosInf \<Rightarrow> Inr (255 * 2 ^ 23)
     | NegInf \<Rightarrow> Inr (2 ^ 31 + 255 * 2 ^ 23)
     | NaN \<Rightarrow> Inr (255 * 2 ^ 23 + 2 ^ 22))"

definition magnitude_value :: "nat \<Rightarrow> rat" where
  "magnitude_value b =
    (let e = b div 2 ^ 23; f = b mod 2 ^ 23 in
     if e = 0 then of_nat f / 2 ^ 149 else of_nat (2 ^ 23 + f) * 2 ^ (e - 1) / 2 ^ 149)"

definition unpack_bits :: "nat \<Rightarrow> pyfloat" where
  "unpack_bits b =
    (let negative = b \<ge> 2 ^ 31; m = b mod 2 ^ 31 in
     if m > 255 * 2 ^ 23 then NaN
     else if m = 255 * 2 ^ 23 then (if negative then NegInf else PosInf)
     else Fin (if negative then - magnitude_value m else magnitude_value m))"

definition word_bytes :: "nat \<Rightarrow> bytes" where
  "word_bytes b = [char_of (b mod 256), char_of (b div 256 mod 256), char_of (b div 65536 mod 256), char_of (b div 16777216 mod 256)]"

definition pack_float :: "pyfloat \<Rightarrow> codec_error + bytes" where
  "pack_float v = bindE (pack_bits v) (\<lambda>b. Inr (word_bytes b))"

definition bytes_word :: "char \<Rightarrow> char \<Rightarrow> char \<Rightarrow> char \<Rightarrow> nat" where
  "bytes_word a b c d = ord a + 256 * ord b + 65536 * ord c + 16777216 * ord d"

fun pack_floats :: "pyfloat list \<Rightarrow> codec_error + bytes" where
  "pack_floats [] = Inr []"
| "pack_floats (v # vs) = bindE (pack_float v) (\<lambda>b. bindE (pack_floats vs) (\<lambda>bs. Inr (b @ bs)))"

fun unpack_floats :: "bytes \<Rightarrow> pyfloat list" where
  "unpack_floats (a # b # c # d # cs) = unpack_bits (bytes_word a b c d) # unpack_floats cs"
| "unpack_floats _ = []"

text \<open>\<open>bytes.decode("utf-8")\<close> succeeds: well-formed UTF-8 without surrogates.\<close>

definition utf8_strict :: "bytes \<Rightarrow> bool" where
  "utf8_strict s \<longleftrightarrow> utf8_ok s \<and> list_all (\<lambda>(a, b). \<not> (ord a = 237 \<and> 160 \<le> ord b)) (zip s (tl s))"

text \<open>The values of a signed 64-bit integer.\<close>

definition int64 :: "int \<Rightarrow> bool" where
  "int64 i \<longleftrightarrow> - (2 ^ 63) \<le> i \<and> i < 2 ^ 63"

section \<open>Fields\<close>

datatype wire_value = WireVarint nat | WireFixed64 bytes | WireLen bytes | WireFixed32 bytes

definition encode_tag :: "nat \<Rightarrow> nat \<Rightarrow> bytes" where
  "encode_tag field_number wire_type = varint_bytes (field_number * 8 + wire_type)"

definition encode_len_delimited :: "nat \<Rightarrow> bytes \<Rightarrow> bytes" where
  "encode_len_delimited field_number payload = encode_tag field_number 2 @ varint_bytes (length payload) @ payload"

definition encode_string_field :: "nat \<Rightarrow> string \<Rightarrow> bytes" where
  "encode_string_field field_number v = (if v \<noteq> [] then encode_len_delimited field_number v else [])"

definition encode_packed_floats :: "nat \<Rightarrow> pyfloat list \<Rightarrow> codec_error + bytes" where
  "encode_packed_floats field_number vs =
    (if vs = [] then Inr [] else bindE (pack_floats vs) (\<lambda>payload. Inr (encode_len_delimited field_number payload)))"

definition decode_packed_floats :: "bytes \<Rightarrow> codec_error + pyfloat list" where
  "decode_packed_floats payload = (if length payload mod 4 \<noteq> 0 then Inl WireFormatError else Inr (unpack_floats payload))"

definition take_bytes :: "nat \<Rightarrow> bytes \<Rightarrow> codec_error + (bytes \<times> bytes)" where
  "take_bytes n data = (if n > length data then Inl WireFormatError else Inr (take n data, drop n data))"

text \<open>One step of \<open>iter_fields\<close>.\<close>

definition next_field :: "bytes \<Rightarrow> codec_error + ((nat \<times> wire_value) \<times> bytes)" where
  "next_field data =
    bindE (decode_varint data) (\<lambda>(tag, rest).
      let number = tag div 8; wire_type = tag mod 8 in
      if number = 0 then Inl WireFormatError
      else if wire_type = 0 then bindE (decode_varint rest) (\<lambda>(v, rest'). Inr ((number, WireVarint v), rest'))
      else if wire_type = 2 then
        bindE (decode_varint rest) (\<lambda>(n, rest').
          bindE (take_bytes n rest') (\<lambda>(payload, rest''). Inr ((number, WireLen payload), rest'')))
      else if wire_type = 1 then bindE (take_bytes 8 rest) (\<lambda>(payload, rest'). Inr ((number, WireFixed64 payload), rest'))
      else if wire_type = 5 then bindE (take_bytes 4 rest) (\<lambda>(payload, rest'). Inr ((number, WireFixed32 payload), rest'))
      else Inl WireFormatError)"

lemma decode_varint_loop_length: "decode_varint_loop acc shift cs = Inr (v, r) \<Longrightarrow> length r < length cs"
  by (induction acc shift cs rule: decode_varint_loop.induct) (force simp: Let_def split: if_splits)+

lemma decode_varint_length: "decode_varint cs = Inr (v, r) \<Longrightarrow> length r < length cs"
  unfolding decode_varint_def by (rule decode_varint_loop_length)

lemma next_field_length: "next_field data = Inr (f, rest) \<Longrightarrow> length rest < length data"
  by (auto simp: next_field_def take_bytes_def Let_def bindE_eq_Inr split: if_splits dest!: decode_varint_length)

text \<open>A loop \<open>for number, wire_type, value in iter_fields(data)\<close> whose body is \<open>step\<close>.\<close>

function fold_fields :: "(nat \<times> wire_value \<Rightarrow> 's \<Rightarrow> codec_error + 's) \<Rightarrow> bytes \<Rightarrow> 's \<Rightarrow> codec_error + 's" where
  "fold_fields step data s =
    (if data = [] then Inr s
     else (case next_field data of
             Inl e \<Rightarrow> Inl e
           | Inr (f, rest) \<Rightarrow> (case step f s of Inl e \<Rightarrow> Inl e | Inr s' \<Rightarrow> fold_fields step rest s')))"
  by pat_completeness auto
termination
  by (relation "measure (\<lambda>(_, data, _). length data)") (auto dest: next_field_length)

declare fold_fields.simps [simp del]


section \<open>Reading back\<close>

lemma decode_varint_loop_bytes:
  assumes "n < 2 ^ (70 - shift)" "shift \<le> 63" "7 dvd shift"
  shows "decode_varint_loop acc shift (varint_bytes n @ r) = Inr (acc + n * 2 ^ shift, r)"
  using assms
proof (induction n arbitrary: acc shift rule: varint_bytes.induct)
  case (1 n)
  show ?case
  proof (cases "n < 128")
    case True
    then show ?thesis by (simp add: varint_bytes.simps [of n])
  next
    case False
    have "shift \<noteq> 63" using False 1(2) by auto
    with 1(3,4) have s: "shift + 7 \<le> 63" by presburger
    have "70 - shift = (70 - (shift + 7)) + 7" using s by simp
    then have "(2::nat) ^ (70 - shift) = 2 ^ (70 - (shift + 7)) * 128" by (simp only: power_add) simp
    then have small: "n div 128 < 2 ^ (70 - (shift + 7))" using 1(2) by (simp add: div_less_iff_less_mult)
    have byte: "ord (char_of (n mod 128 + 128) :: char) = n mod 128 + 128"
      by (rule ord_char_of_small) (simp add: mod_less_divisor)
    have sum: "acc + n mod 128 * 2 ^ shift + n div 128 * 2 ^ (shift + 7) = acc + n * 2 ^ shift"
    proof -
      have "n div 128 * 2 ^ (shift + 7) = n div 128 * 128 * 2 ^ shift" by (simp add: power_add)
      moreover have "n mod 128 * 2 ^ shift + n div 128 * 128 * 2 ^ shift = n * 2 ^ shift"
        using mod_div_mult_eq [of n 128] by (metis add_mult_distrib)
      ultimately show ?thesis by linarith
    qed
    have "7 dvd shift + 7" using 1(4) by simp
    then show ?thesis
      using False s 1(1) [OF False small, of "acc + n mod 128 * 2 ^ shift"] 1(4)
      by (simp add: varint_bytes.simps [of n] byte Let_def sum)
  qed
qed

lemma decode_varint_bytes [simp]: "n < 2 ^ 70 \<Longrightarrow> decode_varint (varint_bytes n @ r) = Inr (n, r)"
  unfolding decode_varint_def using decode_varint_loop_bytes [of n 0 0 r] by simp

lemma round_half_even_int [simp]: "round_half_even (of_int i) = i"
  by (simp add: round_half_even_def Let_def)

lemma round_half_even_nat [simp]: "round_half_even (of_nat n) = int n"
  using round_half_even_int [of "int n"] by simp

lemma filter_threshold:
  assumes "\<And>k. P k \<longleftrightarrow> k < m" "1 \<le> m" "m \<le> n"
  shows "length (filter P [1..<n]) = m - 1"
proof -
  have "[1..<n] = [1..<m] @ [m..<n]" using assms(2,3) by (metis le_iff_add upt_add_eq_append)
  moreover have "filter P [1..<m] = [1..<m]" "filter P [m..<n] = []" using assms(1) by (auto simp: filter_empty_conv filter_id_conv)
  ultimately show ?thesis by simp
qed

lemma exponent_field_value:
  assumes "b < 255 * 2 ^ 23"
  shows "exponent_field (magnitude_value b) = max 1 (b div 2 ^ 23)"
proof -
  let ?e = "b div 2 ^ 23" let ?f = "b mod 2 ^ 23"
  have f: "?f < 2 ^ 23" and e: "?e < 255" using assms by (simp_all add: div_less_iff_less_mult)
  have "(2::rat) ^ k / 2 ^ 126 \<le> magnitude_value b \<longleftrightarrow> k < max 1 ?e" if "1 \<le> k" for k
  proof (cases "?e = 0")
    case True
    have "(of_nat ?f :: rat) < 2 ^ 23" using f by (metis of_nat_less_iff of_nat_numeral of_nat_power)
    then have "magnitude_value b < 2 ^ 23 / 2 ^ 149" using True by (simp add: magnitude_value_def divide_strict_right_mono)
    also have "... \<le> 2 ^ k / (2 ^ 126 :: rat)"
    proof -
      have "(2::rat) ^ 0 \<le> 2 ^ k" by (intro power_increasing) auto
      then show ?thesis by simp
    qed
    finally show ?thesis using True that by simp
  next
    case False
    then obtain d where d: "?e = Suc d" by (cases ?e) auto
    have v: "magnitude_value b = of_nat (2 ^ 23 + ?f) * 2 ^ d / 2 ^ 149" using d by (simp add: magnitude_value_def)
    have "(of_nat (2 ^ 23 + ?f) :: rat) < of_nat (2 ^ 24)" "of_nat (2 ^ 23) \<le> (of_nat (2 ^ 23 + ?f) :: rat)"
      using f by (simp_all only: of_nat_less_iff of_nat_le_iff) simp_all
    then have bounds: "magnitude_value b < 2 ^ 24 * 2 ^ d / 2 ^ 149" "2 ^ 23 * 2 ^ d / 2 ^ 149 \<le> magnitude_value b"
      unfolding v by (simp_all add: divide_strict_right_mono divide_right_mono)
    show ?thesis
    proof (cases "k < ?e")
      case True
      then have "(2::rat) ^ k \<le> 2 ^ d" using d by (intro power_increasing) auto
      then have "(2::rat) ^ k / 2 ^ 126 \<le> 2 ^ 23 * 2 ^ d / 2 ^ 149" by simp
      then have "(2::rat) ^ k / 2 ^ 126 \<le> magnitude_value b" using bounds(2) by (rule order_trans)
      with True show ?thesis by auto
    next
      case False
      then have "(2::rat) ^ Suc d \<le> 2 ^ k" using d by (intro power_increasing) auto
      then have "2 ^ 24 * 2 ^ d / 2 ^ 149 \<le> (2::rat) ^ k / 2 ^ 126" by simp
      with bounds(1) have "\<not> (2::rat) ^ k / 2 ^ 126 \<le> magnitude_value b" by linarith
      with False that d show ?thesis by auto
    qed
  qed
  then have "filter (\<lambda>k. (2::rat) ^ k / 2 ^ 126 \<le> magnitude_value b) [1..<254] = filter (\<lambda>k. k < max 1 ?e) [1..<254]"
    by (intro filter_cong) auto
  moreover have "length (filter (\<lambda>k. k < max 1 ?e) [1..<254]) = max 1 ?e - 1"
    using e by (intro filter_threshold) auto
  ultimately show ?thesis by (simp add: exponent_field_def)
qed

lemma magnitude_bits_value:
  assumes "b < 255 * 2 ^ 23"
  shows "magnitude_bits (magnitude_value b) = b"
proof -
  let ?e = "b div 2 ^ 23" let ?f = "b mod 2 ^ 23"
  have eq: "?e * 2 ^ 23 + ?f = b" by simp
  show ?thesis
  proof (cases ?e)
    case 0
    then have "magnitude_value b * 2 ^ 149 = (of_nat ?f :: rat)" by (simp add: magnitude_value_def)
    then show ?thesis using 0 eq by (simp add: magnitude_bits_def exponent_field_value [OF assms])
  next
    case (Suc d)
    then have "magnitude_value b * 2 ^ 149 / 2 ^ d = (of_nat (2 ^ 23 + ?f) :: rat)" by (simp add: magnitude_value_def)
    then show ?thesis using Suc eq by (simp add: magnitude_bits_def exponent_field_value [OF assms] Let_def del: of_nat_add)
  qed
qed

text \<open>The numbers that binary32 represents; they are the ones \<open>struct.unpack\<close> returns.\<close>

definition is_float32 :: "pyfloat \<Rightarrow> bool" where
  "is_float32 v = (case pack_bits v of Inl _ \<Rightarrow> False | Inr b \<Rightarrow> unpack_bits b = v)"

lemma magnitude_value_0 [simp]: "magnitude_value 0 = 0"
  by (simp add: magnitude_value_def)

lemma magnitude_value_pos: "0 < b \<Longrightarrow> 0 < magnitude_value b"
proof -
  assume "0 < b"
  then have "b div 2 ^ 23 \<noteq> 0 \<or> b mod 2 ^ 23 \<noteq> 0" by (metis add_0 div_mult_mod_eq mult_0 not_gr_zero)
  then show ?thesis by (auto simp: magnitude_value_def Let_def intro!: mult_pos_pos add_pos_nonneg)
qed

lemma unpack_bits_float32: "is_float32 (unpack_bits b)"
proof -
  let ?m = "b mod 2 ^ 31"
  consider "?m > 255 * 2 ^ 23" | "?m = 255 * 2 ^ 23" | "?m < 255 * 2 ^ 23" by linarith
  then show ?thesis
  proof cases
    case 3
    let ?q = "if b \<ge> 2 ^ 31 then - magnitude_value ?m else magnitude_value ?m"
    have "\<bar>?q\<bar> = magnitude_value ?m" using magnitude_value_pos [of ?m] by (cases "?m = 0") auto
    then have "magnitude_bits \<bar>?q\<bar> = ?m" using magnitude_bits_value [OF 3] by simp
    then have p: "pack_bits (Fin ?q) = Inr ((if ?q < 0 then 2 ^ 31 else 0) + ?m)" using 3 by (simp add: pack_bits_def Let_def)
    have "?q < 0 \<longleftrightarrow> b \<ge> 2 ^ 31 \<and> ?m \<noteq> 0" using magnitude_value_pos [of ?m] by (cases "?m = 0") auto
    moreover have "unpack_bits b = Fin ?q" using 3 by (simp add: unpack_bits_def)
    moreover have "?m < 2 ^ 31" by simp
    ultimately show ?thesis using p 3 by (simp add: is_float32_def unpack_bits_def Let_def)
  qed (simp_all add: is_float32_def unpack_bits_def pack_bits_def Let_def)
qed

lemma unpack_floats_float32: "list_all is_float32 (unpack_floats bs)"
  by (induction bs rule: unpack_floats.induct) (simp_all add: unpack_bits_float32)

lemma pack_bits_bound: "pack_bits v = Inr b \<Longrightarrow> b < 2 ^ 32"
  by (auto simp: pack_bits_def Let_def split: pyfloat.splits if_splits)

lemma bytes_word_bytes:
  assumes "n < 2 ^ 32" "word_bytes n = [w, x, y, z]"
  shows "bytes_word w x y z = n"
proof -
  define c d e where parts: "c = n div 256" "d = c div 256" "e = d div 256"
  have "n div 65536 = d" "n div 16777216 = e" by (simp_all add: parts div_mult2_eq [symmetric])
  moreover have "e < 256" using assms(1) by (simp add: parts div_mult2_eq [symmetric] div_less_iff_less_mult)
  moreover have "n = n mod 256 + 256 * c" "c = c mod 256 + 256 * d" "d = d mod 256 + 256 * e" by (simp_all add: parts)
  ultimately show ?thesis using assms(2) by (auto simp: word_bytes_def bytes_word_def parts(1) [symmetric])
qed

lemma pack_float_read:
  assumes "is_float32 v"
  obtains a b c d where "pack_float v = Inr [a, b, c, d]" "unpack_bits (bytes_word a b c d) = v"
proof -
  obtain w where w: "pack_bits v = Inr w" "unpack_bits w = v" using assms by (auto simp: is_float32_def split: sum.splits)
  then show thesis
    using bytes_word_bytes [OF pack_bits_bound [OF w(1)]] that by (auto simp: pack_float_def word_bytes_def)
qed

lemma pack_floats_read:
  "list_all is_float32 vs \<Longrightarrow> \<exists>bs. pack_floats vs = Inr bs \<and> unpack_floats bs = vs \<and> length bs = 4 * length vs"
proof (induction vs)
  case (Cons v vs)
  then obtain bs where "pack_floats vs = Inr bs" "unpack_floats bs = vs" "length bs = 4 * length vs" by auto
  moreover obtain a b c d where "pack_float v = Inr [a, b, c, d]" "unpack_bits (bytes_word a b c d) = v"
    using Cons.prems by (auto elim: pack_float_read)
  ultimately show ?case by simp
qed simp

text \<open>A message as the list of its fields.\<close>

fun encode_field :: "nat \<times> wire_value \<Rightarrow> bytes" where
  "encode_field (n, WireVarint v) = encode_tag n 0 @ varint_bytes v"
| "encode_field (n, WireLen p) = encode_len_delimited n p"
| "encode_field (n, WireFixed32 p) = encode_tag n 5 @ p"
| "encode_field (n, WireFixed64 p) = encode_tag n 1 @ p"

abbreviation encode_fields :: "(nat \<times> wire_value) list \<Rightarrow> bytes" where
  "encode_fields fs \<equiv> concat (map encode_field fs)"

fun field_ok :: "nat \<times> wire_value \<Rightarrow> bool" where
  "field_ok (n, WireVarint v) = (0 < n \<and> n < 2 ^ 29 \<and> v < 2 ^ 70)"
| "field_ok (n, WireLen p) = (0 < n \<and> n < 2 ^ 29 \<and> length p < 2 ^ 70)"
| "field_ok (n, WireFixed32 p) = (0 < n \<and> n < 2 ^ 29 \<and> length p = 4)"
| "field_ok (n, WireFixed64 p) = (0 < n \<and> n < 2 ^ 29 \<and> length p = 8)"

lemma tag_read:
  assumes "0 < n" "n < 2 ^ 29" "t < 8"
  shows "decode_varint (encode_tag n t @ r) = Inr (n * 8 + t, r)" "(n * 8 + t) div 8 = n" "(n * 8 + t) mod 8 = t"
  using assms by (simp_all add: encode_tag_def)

lemma next_field_encode: "field_ok f \<Longrightarrow> next_field (encode_field f @ r) = Inr (f, r)"
proof (cases f rule: encode_field.cases)
  case (1 n v)
  moreover assume "field_ok f"
  ultimately show ?thesis using tag_read [of n 0] by (simp add: next_field_def)
next
  case (2 n p)
  moreover assume "field_ok f"
  ultimately show ?thesis using tag_read [of n 2] by (simp add: next_field_def encode_len_delimited_def take_bytes_def)
next
  case (3 n p)
  moreover assume "field_ok f"
  ultimately show ?thesis using tag_read [of n 5] by (simp add: next_field_def take_bytes_def)
next
  case (4 n p)
  moreover assume "field_ok f"
  ultimately show ?thesis using tag_read [of n 1] by (simp add: next_field_def take_bytes_def)
qed

lemma encode_field_nonempty [simp]: "encode_field f \<noteq> []"
  by (cases f rule: encode_field.cases) (simp_all add: encode_tag_def encode_len_delimited_def varint_bytes.simps)

lemma fold_fields_encode:
  "list_all field_ok fs \<Longrightarrow> fold_fields step (encode_fields fs) s = foldE step fs s"
proof (induction fs arbitrary: s)
  case Nil
  show ?case by (simp add: fold_fields.simps)
next
  case (Cons f fs)
  then show ?case
    by (simp add: fold_fields.simps [of step "encode_field f @ encode_fields fs"] next_field_encode bindE_def split: sum.split)
qed

declare encode_field.simps [simp del]

end
