(* ===== verification/Json_Ascii.thy ===== *)
theory Json_Ascii
  imports Proto_Wire
begin

text \<open>
  JSON texts as \<open>json.dumps\<close> writes them by default, with \<open>ensure_ascii\<close>: every character outside printable ASCII is a
  \<open>\u\<close> escape, characters beyond the basic plane a surrogate pair.  The reader returns the text that was written.
\<close>

text \<open>The code points of a UTF-8 text.\<close>

fun code_points :: "bytes \<Rightarrow> nat list" where
  "code_points [] = []"
| "code_points (a # s) =
    (let x = ord a in
     if x < 128 then x # code_points s
     else if x < 224 then
       (case s of b # s1 \<Rightarrow> ((x - 192) * 64 + (ord b - 128)) # code_points s1 | _ \<Rightarrow> [])
     else if x < 240 then
       (case s of b # c # s2 \<Rightarrow> ((x - 224) * 4096 + (ord b - 128) * 64 + (ord c - 128)) # code_points s2 | _ \<Rightarrow> [])
     else
       (case s of
          b # c # d # s3 \<Rightarrow>
            ((x - 240) * 262144 + (ord b - 128) * 4096 + (ord c - 128) * 64 + (ord d - 128)) # code_points s3
        | _ \<Rightarrow> []))"

declare code_points.simps(2) [simp del]

definition hex4_text :: "nat \<Rightarrow> string" where
  "hex4_text n = [hex_digit (n div 4096 mod 16), hex_digit (n div 256 mod 16), hex_digit (n div 16 mod 16), hex_digit (n mod 16)]"

definition unicode_text :: "nat \<Rightarrow> string" where
  "unicode_text n = [CHR 0x5C, CHR ''u''] @ hex4_text n"

definition ascii_escape :: "nat \<Rightarrow> string" where
  "ascii_escape n =
    (case map_of json_escapes n of
       Some e \<Rightarrow> [CHR 0x5C, e]
     | None \<Rightarrow>
        if 32 \<le> n \<and> n \<le> 126 then [char_of n]
        else if n < 65536 then unicode_text n
        else unicode_text (55296 + (n - 65536) div 1024) @ unicode_text (56320 + (n - 65536) mod 1024))"

definition ascii_string :: "string \<Rightarrow> string" where
  "ascii_string s = [CHR 0x22] @ concat (map ascii_escape (code_points s)) @ [CHR 0x22]"

lemma hex4_read: "n < 65536 \<Longrightarrow> hex4 (hex4_text n @ r) = Some (n, r)"
proof -
  assume n: "n < 65536"
  define a b c where "a = n div 16" "b = a div 16" "c = b div 16"
  then have "n div 256 = b" "n div 4096 = c" "n div 16 = a" by (simp_all add: div_mult2_eq [symmetric])
  moreover have "c < 16" using n by (simp add: \<open>n div 4096 = c\<close> [symmetric] div_less_iff_less_mult)
  moreover have "n = n mod 16 + 16 * a" "a = a mod 16 + 16 * b" "b = b mod 16 + 16 * c" using \<open>a = n div 16\<close> \<open>b = a div 16\<close> \<open>c = b div 16\<close> by simp_all
  ultimately show ?thesis by (simp add: hex4_text_def hex_value_digit)
qed

lemma scan_unicode:
  assumes "unicode_escape s = Some (t, r)"
  shows "scan_string (CHR 0x5C # CHR ''u'' # s) = map_option (apfst (append t)) (scan_string r)"
  using assms by (simp add: scan_string.simps(2))

lemma unicode_escape_plain:
  assumes "n < 55296 \<or> 57344 \<le> n" "n < 65536"
  shows "unicode_escape (hex4_text n @ r) = Some (utf8 n, r)"
  using assms by (auto simp: unicode_escape_def hex4_read)

lemma unicode_escape_pair:
  assumes "m < 1048576"
  shows "unicode_escape (hex4_text (55296 + m div 1024) @ unicode_text (56320 + m mod 1024) @ r) = Some (utf8 (65536 + m), r)"
proof -
  have "m div 1024 < 1024" "m mod 1024 < 1024" using assms by (simp_all add: div_less_iff_less_mult)
  then have "55296 + m div 1024 < 56320" "56320 + m mod 1024 < 57344" by linarith+
  then show ?thesis
    using hex4_read [of "55296 + m div 1024"] hex4_read [of "56320 + m mod 1024"] by (simp add: unicode_escape_def unicode_text_def)
qed

lemma scan_ascii_escape:
  assumes "n < 55296 \<or> 57344 \<le> n" "n < 1114112"
  shows "scan_string (ascii_escape n @ r) = map_option (apfst (append (utf8 n))) (scan_string r)"
proof (cases "n < 128 \<and> (map_of json_escapes n \<noteq> None \<or> 32 \<le> n \<and> n \<le> 126)")
  case True
  then have "ascii_escape n = json_char (char_of n)" "utf8 n = [char_of n]"
    by (auto simp: ascii_escape_def json_char_def utf8_def split: option.split)
  then show ?thesis using scan_json_char [of "char_of n" r] by (cases "scan_string r") auto
next
  case other: False
  have none: "map_of json_escapes n = None"
  proof (rule ccontr)
    assume "map_of json_escapes n \<noteq> None"
    then have "n < 128" by (auto simp: json_escapes_def split: if_splits)
    with other \<open>map_of json_escapes n \<noteq> None\<close> show False by simp
  qed
  show ?thesis
  proof (cases "n < 65536")
    case True
    then have "ascii_escape n = unicode_text n" using none other by (auto simp: ascii_escape_def)
    then show ?thesis using scan_unicode [OF unicode_escape_plain] assms(1) True by (simp add: unicode_text_def)
  next
    case False
    then have "ascii_escape n = unicode_text (55296 + (n - 65536) div 1024) @ unicode_text (56320 + (n - 65536) mod 1024)"
      using none by (auto simp: ascii_escape_def)
    then show ?thesis using scan_unicode [OF unicode_escape_pair [of "n - 65536" r]] assms(2) False by (simp add: unicode_text_def)
  qed
qed


definition no_surrogate :: "bytes \<Rightarrow> bool" where
  "no_surrogate s \<longleftrightarrow> list_all (\<lambda>(a, b). \<not> (ord a = 237 \<and> 160 \<le> ord b)) (zip s (tl s))"

lemma utf8_strict_iff: "utf8_strict s \<longleftrightarrow> utf8_ok s \<and> no_surrogate s"
  by (simp add: utf8_strict_def no_surrogate_def)

lemma no_surrogate_Cons: "no_surrogate (a # s) \<Longrightarrow> no_surrogate s"
  by (cases s) (simp_all add: no_surrogate_def)

lemma no_surrogate_pair: "no_surrogate (a # b # s) \<Longrightarrow> ord a = 237 \<Longrightarrow> ord b < 160"
  by (simp add: no_surrogate_def)

lemma is_continuation_ord: "is_continuation b \<Longrightarrow> \<exists>y < 64. ord b = 128 + y"
  by (auto simp: is_continuation_def intro: exI [of _ "ord b - 128"])

lemma char_eq_ord: "ord c = n \<Longrightarrow> char_of n = c"
  by auto

lemma code_points_step:
  assumes "utf8_ok s" "no_surrogate s" "s \<noteq> []"
  obtains n r where "code_points s = n # code_points r" "s = utf8 n @ r" "utf8_ok r" "no_surrogate r" "n < 55296 \<or> 57344 \<le> n" "n < 1114112"
    "length r < length s"
  using assms(1)
proof (cases rule: utf8_ok_cases)
  case empty
  with assms(3) show thesis by simp
next
  case (ascii a r)
  then show thesis
    using assms(2) by (intro that [of "ord a" r]) (auto simp: code_points.simps(2) utf8_def dest: no_surrogate_Cons)
next
  case (two a b r)
  obtain y where y: "y < 64" "ord b = 128 + y" using is_continuation_ord [OF two(4)] by blast
  obtain x where x: "x < 32" "2 \<le> x" "ord a = 192 + x" using two(2,3) by (intro that [of "ord a - 192"]) auto
  have "128 \<le> x * 64 + y" "x * 64 + y < 2048" using x y by linarith+
  then have "utf8 (x * 64 + y) = [a, b]" using x y char_eq_ord [OF x(3)] char_eq_ord [OF y(2)] by (simp add: utf8_def)
  then show thesis
    using two assms(2) x y \<open>x * 64 + y < 2048\<close>
    by (intro that [of "x * 64 + y" r]) (auto simp: code_points.simps(2) dest!: no_surrogate_Cons)
next
  case (three a b c r)
  obtain y where y: "y < 64" "ord b = 128 + y" using is_continuation_ord [OF three(5)] by blast
  obtain z where z: "z < 64" "ord c = 128 + z" using is_continuation_ord [OF three(6)] by blast
  obtain x where x: "x < 16" "ord a = 224 + x" using three(2,3) by (intro that [of "ord a - 224"]) auto
  let ?n = "x * 4096 + y * 64 + z"
  have "x = 0 \<Longrightarrow> 32 \<le> y" using three(4) x y by simp
  then have "2048 \<le> ?n" by (cases x) auto
  have "?n < 65536" using x y z by linarith
  have "x = 13 \<Longrightarrow> y < 32" using no_surrogate_pair [of a b] assms(2) three(1) x y by simp
  then have surr: "?n < 55296 \<or> 57344 \<le> ?n" using x(1) y(1) z(1) by (cases "x \<le> 12"; cases "x = 13") linarith+
  have "?n div 4096 = x" "?n div 64 = x * 64 + y" using y(1) z(1) by (intro div_nat_eqI; simp)+
  moreover have "?n mod 64 = z" using mod_mult_self3 [of "x * 64 + y" 64 z] z(1) by (simp add: algebra_simps)
  ultimately have "utf8 ?n = [a, b, c]"
    using \<open>2048 \<le> ?n\<close> \<open>?n < 65536\<close> y z char_eq_ord [OF x(2)] char_eq_ord [OF y(2)] char_eq_ord [OF z(2)] by (simp add: utf8_def)
  then show thesis
    using three assms(2) x y z surr \<open>?n < 65536\<close>
    by (intro that [of ?n r]) (auto simp: code_points.simps(2) dest!: no_surrogate_Cons)
next
  case (four a b c d r)
  obtain y where y: "y < 64" "ord b = 128 + y" using is_continuation_ord [OF four(6)] by blast
  obtain z where z: "z < 64" "ord c = 128 + z" using is_continuation_ord [OF four(7)] by blast
  obtain w where w: "w < 64" "ord d = 128 + w" using is_continuation_ord [OF four(8)] by blast
  obtain x where x: "x < 5" "ord a = 240 + x" using four(2,3) by (intro that [of "ord a - 240"]) auto
  let ?n = "x * 262144 + y * 4096 + z * 64 + w"
  have "x = 0 \<Longrightarrow> 16 \<le> y" "x = 4 \<Longrightarrow> y < 16" using four(4,5) x y by simp_all
  then have bounds: "65536 \<le> ?n" "?n < 1114112" using x(1) y(1) z(1) w(1) by (cases "x = 0"; cases "x = 4"; linarith)+
  have "?n div 262144 = x" "?n div 4096 = x * 64 + y" "?n div 64 = x * 4096 + y * 64 + z"
    using y(1) z(1) w(1) by (intro div_nat_eqI; simp)+
  moreover have "?n mod 64 = w" using mod_mult_self3 [of "x * 4096 + y * 64 + z" 64 w] w(1) by (simp add: algebra_simps)
  moreover have "(x * 4096 + y * 64 + z) mod 64 = z" using mod_mult_self3 [of "x * 64 + y" 64 z] z(1) by (simp add: algebra_simps)
  ultimately have "utf8 ?n = [a, b, c, d]"
    using bounds y z w char_eq_ord [OF x(2)] char_eq_ord [OF y(2)] char_eq_ord [OF z(2)] char_eq_ord [OF w(2)] by (simp add: utf8_def)
  then show thesis
    using four assms(2) x y z w bounds
    by (intro that [of ?n r]) (auto simp: code_points.simps(2) dest!: no_surrogate_Cons)
qed

lemma scan_ascii_text:
  assumes "utf8_strict s"
  shows "scan_string (concat (map ascii_escape (code_points s)) @ CHR 0x22 # r) = Some (s, r)"
  using assms unfolding utf8_strict_iff
proof (induction s rule: length_induct)
  case (1 s)
  show ?case
  proof (cases "s = []")
    case True
    then show ?thesis by (simp add: scan_string.simps(2))
  next
    case False
    obtain n t where t: "code_points s = n # code_points t" "s = utf8 n @ t" "utf8_ok t" "no_surrogate t" "n < 55296 \<or> 57344 \<le> n"
      "n < 1114112" "length t < length s" using 1(2) code_points_step [OF _ _ False] by blast
    have "scan_string (concat (map ascii_escape (code_points t)) @ CHR 0x22 # r) = Some (t, r)" using 1(1) t(3,4,7) by blast
    then have "scan_string (ascii_escape n @ concat (map ascii_escape (code_points t)) @ CHR 0x22 # r) = Some (utf8 n @ t, r)"
      by (simp add: scan_ascii_escape [OF t(5,6)])
    then show ?thesis unfolding t(1) t(2) [symmetric] by simp
  qed
qed

end
