(* ===== verification/Page_Token.thy ===== *)
theory Page_Token
  imports Json_Ascii Base64
begin

text \<open>
  The page tokens of the memory stores, \<open>_encode_page_token\<close> and \<open>_decode_page_token\<close> of \<open>memory_sqlite_provider/store.py\<close>: the
  last item of a page, with the tenant and the scope it belongs to, as JSON in unpadded base64.

  A token is read back for its tenant and scope as long as it keeps to the length the reader accepts; tokens of long
  names do not.
\<close>

definition flat_text :: "string option \<Rightarrow> string" where
  "flat_text v = (case v of None \<Rightarrow> ''null'' | Some s \<Rightarrow> ascii_string s)"

definition page_json :: "string \<Rightarrow> string \<Rightarrow> string option \<Rightarrow> string" where
  "page_json item_id tenant_id scope =
    [CHR ''{'', CHR 0x22] @ ''after'' @ [CHR 0x22, CHR '':''] @ ascii_string item_id
    @ [CHR '','', CHR 0x22] @ ''scope'' @ [CHR 0x22, CHR '':''] @ flat_text scope
    @ [CHR '','', CHR 0x22] @ ''tenant'' @ [CHR 0x22, CHR '':''] @ ascii_string tenant_id @ ''}''"

definition encode_page_token :: "string \<Rightarrow> string \<Rightarrow> string option \<Rightarrow> string" where
  "encode_page_token item_id tenant_id scope = rstrip_pad (b64_encode (page_json item_id tenant_id scope))"

definition MAX_ITEM_ID_BYTES :: nat where "MAX_ITEM_ID_BYTES = 256"

text \<open>\<open>_required_text\<close> on a JSON value; \<open>None\<close> is the \<open>ValueError\<close>.\<close>

definition required_value :: "pyval \<Rightarrow> nat \<Rightarrow> string option" where
  "required_value v maximum_bytes =
    (case v of
       PStr s \<Rightarrow> if strip s = [] \<or> \<not> utf8_strict s \<or> length s > maximum_bytes then None else Some (strip s)
     | _ \<Rightarrow> None)"

text \<open>\<open>None\<close> is the \<open>ValueError\<close>; \<open>Some None\<close> the absence of a token.\<close>

definition decode_page_token :: "string option \<Rightarrow> string \<Rightarrow> string option \<Rightarrow> string option option" where
  "decode_page_token token tenant_id scope =
    (case token of
       None \<Rightarrow> Some None
     | Some text \<Rightarrow>
        if text = [] then Some None
        else if py_len text > 1024 then None
        else
          (case b64_strict (text @ replicate ((4 - py_len text mod 4) mod 4) CHR ''='') of
             None \<Rightarrow> None
           | Some body \<Rightarrow>
              if \<not> utf8_strict body then None
              else
                (case json_loads body of
                   Some (PDict pairs) \<Rightarrow>
                     let d = rev pairs in
                     if dict_get d ''tenant'' \<noteq> PStr tenant_id
                        \<or> dict_get d ''scope'' \<noteq> (case scope of None \<Rightarrow> PNone | Some s \<Rightarrow> PStr s) then None
                     else map_option Some (required_value (dict_get d ''after'') MAX_ITEM_ID_BYTES)
                 | _ \<Rightarrow> None)))"

section \<open>Reading a token back\<close>

lemma scan_ascii_value:
  assumes "utf8_strict s"
  shows "scan_value (Suc n) (ascii_string s @ r) = Some (PStr s, r)"
  using scan_ascii_text [OF assms, of r] by (simp add: ascii_string_def)

lemma scan_flat_value:
  assumes "pred_option utf8_strict v"
  shows "scan_value (Suc n) (flat_text v @ CHR '','' # r) = Some (case v of None \<Rightarrow> PNone | Some s \<Rightarrow> PStr s, CHR '','' # r)"
  using assms scan_ascii_value
  by (auto simp: flat_text_def scan_atom_def json_literals_def after_def simp del: scan_value.simps split: option.split)
     (simp_all add: scan_atom_def json_literals_def after_def)

lemma skip_ascii [simp]: "skip_space (ascii_string s @ r) = ascii_string s @ r" "skip_space (flat_text v @ r) = flat_text v @ r"
  by (simp_all add: ascii_string_def flat_text_def skip_space_def is_json_space_def split: option.split)

lemma scan_key: "list_all (\<lambda>c. c \<noteq> CHR 0x22 \<and> c \<noteq> CHR 0x5C \<and> 32 \<le> ord c) k \<Longrightarrow> scan_string (k @ CHR 0x22 # r) = Some (k, r)"
  by (induction k) (simp_all add: scan_string.simps(2))

lemma page_json_read:
  assumes "utf8_strict item_id" "utf8_strict tenant_id" "pred_option utf8_strict scope"
  shows "json_loads (page_json item_id tenant_id scope)
    = Some (PDict [(''after'', PStr item_id), (''scope'', case scope of None \<Rightarrow> PNone | Some s \<Rightarrow> PStr s), (''tenant'', PStr tenant_id)])"
proof -
  let ?v = "case scope of None \<Rightarrow> PNone | Some s \<Rightarrow> PStr s"
  have key: "scan_string (''after'' @ CHR 0x22 # r) = Some (''after'', r)" "scan_string (''scope'' @ CHR 0x22 # r) = Some (''scope'', r)"
    "scan_string (''tenant'' @ CHR 0x22 # r) = Some (''tenant'', r)" for r by (rule scan_key, simp)+
  have tenant: "scan_members (Suc (Suc n)) (CHR 0x22 # ''tenant'' @ [CHR 0x22, CHR '':''] @ ascii_string tenant_id @ ''}'')
      = Some ([(''tenant'', PStr tenant_id)], [])" for n
    using key(3) [of "CHR '':'' # ascii_string tenant_id @ ''}''"] scan_ascii_value [OF assms(2), of n "''}''"]
    by (simp del: scan_value.simps)
  have scope: "scan_members (Suc (Suc (Suc n))) (CHR 0x22 # ''scope'' @ [CHR 0x22, CHR '':''] @ flat_text scope
        @ [CHR '','', CHR 0x22] @ ''tenant'' @ [CHR 0x22, CHR '':''] @ ascii_string tenant_id @ ''}'')
      = Some ([(''scope'', ?v), (''tenant'', PStr tenant_id)], [])" for n
    using key(2) [of "CHR '':'' # flat_text scope @ [CHR '','', CHR 0x22] @ ''tenant'' @ [CHR 0x22, CHR '':''] @ ascii_string tenant_id @ ''}''"]
      scan_flat_value [OF assms(3), of "Suc n" "CHR 0x22 # ''tenant'' @ [CHR 0x22, CHR '':''] @ ascii_string tenant_id @ ''}''"] tenant [of n]
    by (simp del: scan_value.simps)
  let ?rest = "''scope'' @ [CHR 0x22, CHR '':''] @ flat_text scope
      @ [CHR '','', CHR 0x22] @ ''tenant'' @ [CHR 0x22, CHR '':''] @ ascii_string tenant_id @ ''}''"
  let ?members = "CHR 0x22 # ''after'' @ [CHR 0x22, CHR '':''] @ ascii_string item_id @ [CHR '','', CHR 0x22] @ ?rest"
  have members: "scan_members (Suc (Suc (Suc (Suc n)))) ?members
      = Some ([(''after'', PStr item_id), (''scope'', ?v), (''tenant'', PStr tenant_id)], [])" for n
    using key(1) [of "CHR '':'' # ascii_string item_id @ [CHR '','', CHR 0x22] @ ?rest"]
      scan_ascii_value [OF assms(1), of "Suc (Suc n)" "[CHR '','', CHR 0x22] @ ?rest"] scope [of n]
    by (simp del: scan_value.simps)
  have written: "page_json item_id tenant_id scope = CHR ''{'' # ?members" by (simp add: page_json_def)
  have bound: "\<exists>n. read_bound (CHR ''{'' # ?members) = Suc (Suc (Suc (Suc (Suc n))))" by (simp add: read_bound_def)
  then obtain n where n: "read_bound (CHR ''{'' # ?members) = Suc (Suc (Suc (Suc (Suc n))))" by blast
  have skip: "skip_space (CHR ''{'' # t) = CHR ''{'' # t" "skip_space (CHR 0x22 # t) = CHR 0x22 # t" for t
    by (simp_all add: skip_space_def is_json_space_def)
  have "scan_value (Suc (Suc (Suc (Suc (Suc n))))) (CHR ''{'' # ?members)
      = Some (PDict [(''after'', PStr item_id), (''scope'', ?v), (''tenant'', PStr tenant_id)], [])"
    using members [of n] by (simp add: skip del: scan_members.simps)
  then show ?thesis unfolding written json_loads_def Let_def skip n by (simp add: skip_space_def)
qed

lemma ascii_escape_ascii: "list_all isascii (ascii_escape n)"
proof -
  have hex: "isascii (hex_digit (m mod 16))" for m by (rule hex_digit_ascii) simp
  have "list_all (\<lambda>(_, e). isascii e) json_escapes" by code_simp
  then have "map_of json_escapes n = Some e \<Longrightarrow> isascii e" for e by (auto simp: list_all_iff dest: map_of_SomeD)
  moreover have "list_all isascii (unicode_text m)" for m
    unfolding unicode_text_def hex4_text_def append_Cons append_Nil list.pred_inject
    by (intro conjI hex TrueI) (simp_all add: isascii_def)
  ultimately show ?thesis by (auto simp: ascii_escape_def isascii_def split: option.split)
qed

lemma page_json_ascii: "list_all isascii (page_json item_id tenant_id scope)"
proof -
  have "list_all isascii (ascii_string s)" for s
    using ascii_escape_ascii by (auto simp: ascii_string_def list_all_iff isascii_def)
  then show ?thesis by (auto simp: page_json_def flat_text_def isascii_def split: option.split)
qed

lemma ascii_strict: "list_all isascii s \<Longrightarrow> utf8_strict s"
  by (fastforce simp: utf8_strict_def utf8_ok_ascii list_all_iff isascii_def dest: set_zip_leftD)

lemma encode_page_token_nonempty [simp]: "encode_page_token item_id tenant_id scope \<noteq> []"
proof
  assume "encode_page_token item_id tenant_id scope = []"
  then have "b64_strict [] = Some (page_json item_id tenant_id scope)"
    using strict_round_trip [of "page_json item_id tenant_id scope"] by (simp add: encode_page_token_def py_len_def)
  then show False by (simp add: page_json_def)
qed

lemma page_token_read:
  assumes "utf8_strict item_id" "utf8_strict tenant_id" "pred_option utf8_strict scope"
    "strip item_id = item_id" "item_id \<noteq> []" "length item_id \<le> MAX_ITEM_ID_BYTES"
    "length (encode_page_token item_id tenant_id scope) \<le> 1024"
  shows "decode_page_token (Some (encode_page_token item_id tenant_id scope)) tenant_id scope = Some (Some item_id)"
proof -
  let ?t = "encode_page_token item_id tenant_id scope"
  have "py_len ?t \<le> 1024" using assms(7) by (simp add: py_len_def order_trans [OF length_filter_le])
  moreover have "b64_strict (?t @ replicate ((4 - py_len ?t mod 4) mod 4) CHR ''='') = Some (page_json item_id tenant_id scope)"
    unfolding encode_page_token_def by (rule strict_round_trip)
  moreover have "required_value (PStr item_id) MAX_ITEM_ID_BYTES = Some item_id"
    using assms(1,4-6) by (simp add: required_value_def)
  ultimately show ?thesis
    using page_json_read [OF assms(1-3)] ascii_strict [OF page_json_ascii] by (simp add: decode_page_token_def)
qed

end
