(* ===== verification/Memory_Store.thy ===== *)
theory Memory_Store
  imports Page_Token Sha256 "HOL-Library.AList" "HOL-Library.Multiset"
begin

text \<open>
  The SQLite memory store, \<open>memory_sqlite_provider/store.py\<close>.

  The database file is \<open>memory_database\<close>: the rows of \<open>memory_records\<close> in insertion order, the fingerprint of
  \<open>memory_active_profile\<close> and the schema version.  A connection is the committed database and, while a transaction is open, the
  database that the transaction sees.  Every method is a function of the configuration, the clock \<open>now\<close>, the hexadecimal text that
  \<open>uuid4\<close> would give for an item without an identity (\<open>fresh\<close>), the place of a statement that fails with \<open>sqlite3.Error\<close>
  (\<open>fault\<close>) and the connection.  The exceptions keep their class and, for \<open>MemoryStoreError\<close>, the code and the retry flag; the
  message texts are left out.  An integer that does not fit 64 bits is refused when SQLite binds it (\<open>StoreOverflow\<close>, Python's
  \<open>OverflowError\<close>); the clock always fits.

  The order in which SQLite returns rows without \<open>ORDER BY\<close> is the parameter \<open>plan\<close>, the rounded floating point
  operations of the similarity are the parameter \<open>ops\<close>.  The checks of the database path and the file permissions in
  \<open>__init__\<close> are not modelled.
\<close>

section \<open>Data\<close>

text \<open>\<open>MemoryStoreError(code, retryable)\<close>, any other \<open>ValueError\<close>, and \<open>OverflowError\<close>.\<close>

datatype store_error = MemoryStoreError int bool | StoreValueError | StoreOverflow

record stored_memory =
  sm_item_id :: string
  sm_tenant_id :: string
  sm_scope :: string
  sm_subject :: string
  sm_content :: string
  sm_embedding :: "pyfloat list"
  sm_metadata :: "(string \<times> string) list"
  sm_created_at_ms :: int
  sm_expires_at_ms :: "int option"
  sm_ttl_seconds :: "int option"

record scored_memory =
  sr_item :: stored_memory
  sr_score :: rat

record store_config =
  cf_embedding_model_id :: string
  cf_provider_model_id :: string
  cf_embedding_dimensions :: int
  cf_document_prefix :: string
  cf_query_prefix :: string
  cf_profile_fingerprint :: string
  cf_recall_batch_size :: int
  cf_max_top_k :: int

text \<open>A row of the table \<open>memory_records\<close>, whose primary key is the tenant and the item.\<close>

record memory_row =
  ro_tenant_id :: string
  ro_item_id :: string
  ro_scope :: string
  ro_subject :: string
  ro_content :: string
  ro_embedding :: bytes
  ro_embedding_model_id :: string
  ro_embedding_dimensions :: int
  ro_metadata_json :: string
  ro_created_at_ms :: int
  ro_expires_at_ms :: "int option"
  ro_ttl_seconds :: "int option"

definition row_key :: "memory_row \<Rightarrow> string \<times> string" where
  "row_key r = (ro_tenant_id r, ro_item_id r)"

record memory_database =
  db_records :: "memory_row list"
  db_profile :: "string option"
  db_version :: int

record memory_connection =
  cn_committed :: memory_database
  cn_pending :: "memory_database option"

text \<open>What a statement reads, and a statement that writes: in the open transaction, or committed at once.\<close>

definition visible :: "memory_connection \<Rightarrow> memory_row list" where
  "visible c = db_records (case cn_pending c of None \<Rightarrow> cn_committed c | Some d \<Rightarrow> d)"

definition write_records :: "(memory_row list \<Rightarrow> memory_row list) \<Rightarrow> memory_connection \<Rightarrow> memory_connection" where
  "write_records f c =
    (case cn_pending c of
       None \<Rightarrow> c\<lparr>cn_committed := (cn_committed c)\<lparr>db_records := f (db_records (cn_committed c))\<rparr>\<rparr>
     | Some d \<Rightarrow> c\<lparr>cn_pending := Some (d\<lparr>db_records := f (db_records d)\<rparr>)\<rparr>)"

definition storage_error :: store_error where
  "storage_error = MemoryStoreError 5 True"

section \<open>Validation\<close>

definition MAX_CONTENT_BYTES :: nat where "MAX_CONTENT_BYTES = 1048576"
definition MAX_METADATA_BYTES :: nat where "MAX_METADATA_BYTES = 65536"
definition MAX_METADATA_ENTRIES :: nat where "MAX_METADATA_ENTRIES = 256"
definition MAX_BATCH_ITEMS :: nat where "MAX_BATCH_ITEMS = 1000"
definition MAX_TOP_K :: int where "MAX_TOP_K = 1000"
definition SCHEMA_VERSION :: int where "SCHEMA_VERSION = 2"

definition MODEL_ID_KEY :: string where "MODEL_ID_KEY = ''cyrene.embedding.model_id''"
definition DIMENSIONS_KEY :: string where "DIMENSIONS_KEY = ''cyrene.embedding.dimensions''"
definition PROVIDER_MODEL_ID_KEY :: string where "PROVIDER_MODEL_ID_KEY = ''cyrene.embedding.provider_model_id''"

definition required_text :: "string \<Rightarrow> nat \<Rightarrow> store_error + string" where
  "required_text v maximum_bytes = (case required_value (PStr v) maximum_bytes of None \<Rightarrow> Inl StoreValueError | Some t \<Rightarrow> Inr t)"

definition required_tenant :: "string \<Rightarrow> store_error + string" where
  "required_tenant v = (case required_text v 256 of Inl _ \<Rightarrow> Inl (MemoryStoreError 2 False) | Inr t \<Rightarrow> Inr t)"

definition bounded_integer :: "int \<Rightarrow> int \<Rightarrow> int \<Rightarrow> store_error + int" where
  "bounded_integer v minimum maximum = (if minimum \<le> v \<and> v \<le> maximum then Inr v else Inl StoreValueError)"

definition bounded_optional_text :: "string \<Rightarrow> nat \<Rightarrow> store_error + string" where
  "bounded_optional_text v maximum_bytes =
    (if \<not> utf8_strict v \<or> length v > maximum_bytes then Inl StoreValueError else Inr v)"

definition bounded_similarity :: "pyfloat \<Rightarrow> store_error + rat" where
  "bounded_similarity v = (case v of Fin q \<Rightarrow> if 0 \<le> q \<and> q \<le> 1 then Inr q else Inl StoreValueError | _ \<Rightarrow> Inl StoreValueError)"

definition text_dict :: "(string \<times> string) list \<Rightarrow> pyval" where
  "text_dict d = PDict (map (\<lambda>(k, v). (k, PStr v)) d)"

definition encode_metadata :: "(string \<times> string) list \<Rightarrow> store_error + string" where
  "encode_metadata d =
    (let encoded = json_dumps (\<lambda>_. []) True (text_dict d) in
     if length encoded > MAX_METADATA_BYTES then Inl StoreValueError else Inr encoded)"

definition metadata_entry_ok :: "string \<times> string \<Rightarrow> bool" where
  "metadata_entry_ok e \<longleftrightarrow>
    fst e \<noteq> [] \<and> utf8_strict (fst e) \<and> length (fst e) \<le> 256 \<and> utf8_strict (snd e) \<and> length (snd e) \<le> 4096"

definition validated_metadata :: "(string \<times> string) list \<Rightarrow> store_error + (string \<times> string) list" where
  "validated_metadata d =
    (if length d > MAX_METADATA_ENTRIES \<or> \<not> list_all metadata_entry_ok d then Inl StoreValueError
     else bindE (encode_metadata d) (\<lambda>_. Inr d))"

text \<open>The members of a decoded object in order, a repeated name holding its last value.\<close>

definition object_members :: "(string \<times> pyval) list \<Rightarrow> (string \<times> pyval) list" where
  "object_members pairs = fold (\<lambda>(k, v). AList.update k v) pairs []"

fun text_of :: "pyval \<Rightarrow> string option" where
  "text_of (PStr s) = Some s"
| "text_of _ = None"

definition decode_metadata :: "string \<Rightarrow> store_error + (string \<times> string) list" where
  "decode_metadata encoded =
    (case json_loads encoded of
       Some (PDict pairs) \<Rightarrow>
         let members = object_members pairs in
         if list_all (\<lambda>(k, v). text_of v \<noteq> None) members
         then Inr (map (\<lambda>(k, v). (k, the (text_of v))) members)
         else Inl (MemoryStoreError 5 False)
     | _ \<Rightarrow> Inl (MemoryStoreError 5 False))"

definition profile_from_metadata :: "(string \<times> string) list \<Rightarrow> string option \<Rightarrow> store_error + (string \<times> int option)" where
  "profile_from_metadata metadata default_model_id =
    (case (case map_of metadata MODEL_ID_KEY of Some m \<Rightarrow> Some m | None \<Rightarrow> default_model_id) of
       None \<Rightarrow> Inl StoreValueError
     | Some m \<Rightarrow>
        bindE (required_text m 256) (\<lambda>model_id.
          case map_of metadata DIMENSIONS_KEY of
            None \<Rightarrow> Inr (model_id, None)
          | Some raw \<Rightarrow>
             (case int_of_str raw of
                None \<Rightarrow> Inl StoreValueError
              | Some n \<Rightarrow> bindE (bounded_integer n 1 4096) (\<lambda>_. Inr (model_id, Some n)))))"

text \<open>\<open>provider_model_id or metadata.get(PROVIDER_MODEL_ID_KEY, model_id)\<close>: an empty text counts as absent.\<close>

definition with_profile_metadata ::
    "(string \<times> string) list \<Rightarrow> string \<Rightarrow> int \<Rightarrow> string option \<Rightarrow> (string \<times> string) list" where
  "with_profile_metadata item_metadata model_id dimensions provider_model_id =
    (let metadata = AList.update DIMENSIONS_KEY (str_of_int dimensions) (AList.update MODEL_ID_KEY model_id item_metadata);
         fallback = (case map_of metadata PROVIDER_MODEL_ID_KEY of None \<Rightarrow> model_id | Some p \<Rightarrow> p) in
     AList.update PROVIDER_MODEL_ID_KEY
       (case provider_model_id of None \<Rightarrow> fallback | Some p \<Rightarrow> if p = [] then fallback else p) metadata)"

definition declares_profile :: "(string \<times> string) list \<Rightarrow> bool" where
  "declares_profile metadata \<longleftrightarrow> {MODEL_ID_KEY, DIMENSIONS_KEY, PROVIDER_MODEL_ID_KEY} \<subseteq> fst ` set metadata"

section \<open>Vectors\<close>

text \<open>The largest binary32 number; the literal of the code rounds to it.\<close>

definition FLOAT32_MAX :: rat where "FLOAT32_MAX = (2 ^ 24 - 1) * 2 ^ 104"

definition is_finite :: "pyfloat \<Rightarrow> bool" where
  "is_finite v = (case v of Fin _ \<Rightarrow> True | _ \<Rightarrow> False)"

definition float_in_range :: "pyfloat \<Rightarrow> bool" where
  "float_in_range v = (case v of Fin q \<Rightarrow> \<bar>q\<bar> \<le> FLOAT32_MAX | _ \<Rightarrow> False)"

definition validated_vector :: "pyfloat list \<Rightarrow> int option \<Rightarrow> store_error + pyfloat list" where
  "validated_vector vs dimensions =
    (if dimensions \<noteq> None \<and> dimensions \<noteq> Some (int (length vs)) then Inl (MemoryStoreError 3 False)
     else if \<not> (1 \<le> length vs \<and> length vs \<le> 4096) then Inl StoreValueError
     else if \<not> list_all is_finite vs then Inl StoreValueError
     else if \<not> list_all float_in_range vs then Inl StoreValueError
     else if list_all (\<lambda>v. v = Fin 0) vs then Inl StoreValueError
     else Inr vs)"

definition pack_vector :: "pyfloat list \<Rightarrow> int option \<Rightarrow> store_error + bytes" where
  "pack_vector vs dimensions =
    bindE (validated_vector vs dimensions) (\<lambda>vector.
      case pack_floats vector of
        Inl _ \<Rightarrow> Inl StoreOverflow
      | Inr packed \<Rightarrow>
         let quantized = unpack_floats packed in
         if \<not> list_all is_finite quantized \<or> list_all (\<lambda>v. v = Fin 0) quantized then Inl StoreValueError
         else Inr packed)"

definition unpack_vector :: "bytes \<Rightarrow> int \<Rightarrow> store_error + pyfloat list" where
  "unpack_vector payload dimensions =
    bindE (bounded_integer dimensions 1 4096) (\<lambda>_.
      if int (length payload) \<noteq> dimensions * 4 then Inl (MemoryStoreError 5 False)
      else
        let vector = unpack_floats payload in
        if \<not> list_all is_finite vector \<or> list_all (\<lambda>v. v = Fin 0) vector then Inl (MemoryStoreError 5 False)
        else Inr vector)"

text \<open>The rounded operations on finite floats; \<open>sum\<close> is one of them, because its rounding depends on the Python version.\<close>

record float_ops =
  fl_add :: "rat \<Rightarrow> rat \<Rightarrow> rat"
  fl_mul :: "rat \<Rightarrow> rat \<Rightarrow> rat"
  fl_div :: "rat \<Rightarrow> rat \<Rightarrow> rat"
  fl_sqrt :: "rat \<Rightarrow> rat"
  fl_sum :: "rat list \<Rightarrow> rat"

definition finite_part :: "pyfloat \<Rightarrow> rat" where
  "finite_part v = (case v of Fin q \<Rightarrow> q | _ \<Rightarrow> 0)"

definition cosine_similarity :: "float_ops \<Rightarrow> rat list \<Rightarrow> rat list \<Rightarrow> rat" where
  "cosine_similarity ops left right =
    (if length left \<noteq> length right \<or> left = [] then 0
     else
       let dot = fl_sum ops (map2 (fl_mul ops) left right);
           left_norm = fl_sqrt ops (fl_sum ops (map (\<lambda>v. fl_mul ops v v) left));
           right_norm = fl_sqrt ops (fl_sum ops (map (\<lambda>v. fl_mul ops v v) right)) in
       if left_norm = 0 \<or> right_norm = 0 then 0
       else
         let cosine = max (- 1) (min 1 (fl_div ops dot (fl_mul ops left_norm right_norm))) in
         fl_div ops (fl_add ops cosine 1) 2)"

section \<open>Items\<close>

definition effective_expiry :: "int \<Rightarrow> int option \<Rightarrow> int option \<Rightarrow> int option" where
  "effective_expiry created_at_ms expires_at_ms ttl_seconds =
    (case ttl_seconds of
       None \<Rightarrow> expires_at_ms
     | Some ttl \<Rightarrow>
        let ttl_expiry = created_at_ms + ttl * 1000 in
        (case expires_at_ms of None \<Rightarrow> Some ttl_expiry | Some e \<Rightarrow> Some (min e ttl_expiry)))"

definition normalize_item ::
    "string \<Rightarrow> stored_memory \<Rightarrow> string \<Rightarrow> string option \<Rightarrow> int option \<Rightarrow> string option \<Rightarrow> store_error + stored_memory" where
  "normalize_item fresh item expected_tenant expected_model_id expected_dimensions expected_provider_model_id =
    bindE (required_tenant (sm_tenant_id item)) (\<lambda>tenant.
    bindE (required_tenant expected_tenant) (\<lambda>expected.
    bindE (raise_if (tenant \<noteq> expected) (MemoryStoreError 2 False)) (\<lambda>_.
    let item_id = (if strip (sm_item_id item) = [] then ''mem_'' @ fresh else strip (sm_item_id item)) in
    bindE (required_text item_id MAX_ITEM_ID_BYTES) (\<lambda>_.
    bindE (raise_if (sm_content item = [] \<or> \<not> utf8_strict (sm_content item) \<or> length (sm_content item) > MAX_CONTENT_BYTES)
             StoreValueError) (\<lambda>_.
    bindE (validated_metadata (sm_metadata item)) (\<lambda>metadata.
    bindE (raise_if (\<not> declares_profile metadata) (MemoryStoreError 3 False)) (\<lambda>_.
    bindE (profile_from_metadata metadata expected_model_id) (\<lambda>(model_id, declared).
    let dimensions =
          (case declared of
             Some n \<Rightarrow> n
           | None \<Rightarrow>
              (case expected_dimensions of
                 None \<Rightarrow> int (length (sm_embedding item))
               | Some n \<Rightarrow> if n = 0 then int (length (sm_embedding item)) else n)) in
    bindE (raise_if (expected_model_id \<noteq> None \<and> expected_model_id \<noteq> Some model_id) (MemoryStoreError 3 False)) (\<lambda>_.
    bindE (raise_if (expected_dimensions \<noteq> None \<and> expected_dimensions \<noteq> Some dimensions) (MemoryStoreError 3 False)) (\<lambda>_.
    let stated =
          (case map_of metadata PROVIDER_MODEL_ID_KEY of
             Some p \<Rightarrow> p
           | None \<Rightarrow> (case expected_provider_model_id of None \<Rightarrow> model_id | Some p \<Rightarrow> p)) in
    bindE (required_text stated 256) (\<lambda>provider_model_id.
    bindE (raise_if (expected_provider_model_id \<noteq> None \<and> expected_provider_model_id \<noteq> Some provider_model_id)
             (MemoryStoreError 3 False)) (\<lambda>_.
    bindE (raise_if (dimensions \<noteq> int (length (sm_embedding item))) (MemoryStoreError 3 False)) (\<lambda>_.
    bindE (raise_if (case sm_ttl_seconds item of None \<Rightarrow> False | Some ttl \<Rightarrow> ttl < 0) StoreValueError) (\<lambda>_.
    bindE (raise_if (case sm_expires_at_ms item of None \<Rightarrow> False | Some e \<Rightarrow> e < 0) StoreValueError) (\<lambda>_.
    bindE (bounded_optional_text (sm_scope item) 256) (\<lambda>scope.
    bindE (bounded_optional_text (sm_subject item) 256) (\<lambda>subject.
    Inr \<lparr>sm_item_id = item_id, sm_tenant_id = tenant, sm_scope = scope, sm_subject = subject, sm_content = sm_content item,
         sm_embedding = sm_embedding item,
         sm_metadata = with_profile_metadata metadata model_id dimensions (Some provider_model_id),
         sm_created_at_ms = max 0 (sm_created_at_ms item), sm_expires_at_ms = sm_expires_at_ms item,
         sm_ttl_seconds = sm_ttl_seconds item\<rparr>)))))))))))))))))"

definition setdefault :: "string \<Rightarrow> string \<Rightarrow> (string \<times> string) list \<Rightarrow> (string \<times> string) list" where
  "setdefault k v d = (if k \<in> fst ` set d then d else d @ [(k, v)])"

definition record_from_row :: "store_config \<Rightarrow> memory_row \<Rightarrow> (string \<times> string) list option \<Rightarrow> store_error + stored_memory" where
  "record_from_row cfg row metadata =
    (let dimensions = ro_embedding_dimensions row in
     bindE (unpack_vector (ro_embedding row) dimensions) (\<lambda>vector.
     bindE (case metadata of None \<Rightarrow> decode_metadata (ro_metadata_json row) | Some d \<Rightarrow> Inr d) (\<lambda>stored.
     Inr \<lparr>sm_item_id = ro_item_id row, sm_tenant_id = ro_tenant_id row, sm_scope = ro_scope row, sm_subject = ro_subject row,
          sm_content = ro_content row, sm_embedding = vector,
          sm_metadata =
            setdefault PROVIDER_MODEL_ID_KEY (cf_provider_model_id cfg)
              (setdefault DIMENSIONS_KEY (str_of_int dimensions) (setdefault MODEL_ID_KEY (ro_embedding_model_id row) stored)),
          sm_created_at_ms = ro_created_at_ms row, sm_expires_at_ms = ro_expires_at_ms row,
          sm_ttl_seconds = ro_ttl_seconds row\<rparr>)))"

section \<open>Storing, reading and deleting\<close>

text \<open>The values of a row that SQLite can bind.\<close>

definition bindable :: "memory_row \<Rightarrow> bool" where
  "bindable row \<longleftrightarrow>
    int64 (ro_embedding_dimensions row) \<and> int64 (ro_created_at_ms row) \<and> pred_option int64 (ro_expires_at_ms row)
    \<and> pred_option int64 (ro_ttl_seconds row)"

text \<open>\<open>ON CONFLICT (tenant_id, item_id) DO UPDATE\<close> of every other column.\<close>

definition upsert :: "memory_row \<Rightarrow> memory_row list \<Rightarrow> memory_row list" where
  "upsert row rows =
    (if row_key row \<in> row_key ` set rows then map (\<lambda>r. if row_key r = row_key row then row else r) rows else rows @ [row])"

definition memory_row_of :: "string \<Rightarrow> stored_memory \<Rightarrow> bytes \<Rightarrow> string \<Rightarrow> int \<Rightarrow> string \<Rightarrow> int \<Rightarrow> memory_row" where
  "memory_row_of tenant record embedding model_id dimensions metadata now =
    (let created_at_ms = (if sm_created_at_ms record = 0 then now else sm_created_at_ms record) in
     \<lparr>ro_tenant_id = tenant, ro_item_id = sm_item_id record, ro_scope = sm_scope record, ro_subject = sm_subject record,
      ro_content = sm_content record, ro_embedding = embedding, ro_embedding_model_id = model_id,
      ro_embedding_dimensions = dimensions, ro_metadata_json = metadata, ro_created_at_ms = created_at_ms,
      ro_expires_at_ms = effective_expiry created_at_ms (sm_expires_at_ms record) (sm_ttl_seconds record),
      ro_ttl_seconds = sm_ttl_seconds record\<rparr>)"

text \<open>The row that \<open>store\<close> writes.\<close>

definition store_row :: "store_config \<Rightarrow> int \<Rightarrow> string \<Rightarrow> string \<Rightarrow> stored_memory \<Rightarrow> store_error + memory_row" where
  "store_row cfg now fresh tenant_id item =
    bindE (required_tenant tenant_id) (\<lambda>tenant.
    bindE (normalize_item fresh item tenant (Some (cf_embedding_model_id cfg)) (Some (cf_embedding_dimensions cfg))
             (Some (cf_provider_model_id cfg))) (\<lambda>record.
    bindE (pack_vector (sm_embedding record) (Some (cf_embedding_dimensions cfg))) (\<lambda>embedding.
    bindE (encode_metadata (sm_metadata record)) (\<lambda>metadata.
    Inr (memory_row_of (sm_tenant_id record) record embedding (cf_embedding_model_id cfg) (cf_embedding_dimensions cfg) metadata now)))))"

definition store_memory ::
    "store_config \<Rightarrow> int \<Rightarrow> string \<Rightarrow> bool \<Rightarrow> string \<Rightarrow> stored_memory \<Rightarrow> memory_connection
      \<Rightarrow> (store_error + string) \<times> memory_connection" where
  "store_memory cfg now fresh fault tenant_id item c =
    (case store_row cfg now fresh tenant_id item of
       Inl e \<Rightarrow> (Inl e, c)
     | Inr row \<Rightarrow>
        if \<not> bindable row then (Inl StoreOverflow, c)
        else if fault then (Inl storage_error, c)
        else (Inr (ro_item_id row), write_records (upsert row) c))"

definition unexpired :: "int \<Rightarrow> memory_row \<Rightarrow> bool" where
  "unexpired now row = (case ro_expires_at_ms row of None \<Rightarrow> True | Some e \<Rightarrow> e > now)"

definition get_memory ::
    "store_config \<Rightarrow> int \<Rightarrow> bool \<Rightarrow> string \<Rightarrow> string \<Rightarrow> memory_connection \<Rightarrow> store_error + stored_memory option" where
  "get_memory cfg now fault tenant_id item_id c =
    bindE (required_tenant tenant_id) (\<lambda>tenant.
    bindE (required_text item_id MAX_ITEM_ID_BYTES) (\<lambda>identifier.
    if fault then Inl storage_error
    else
      (case sql_first (\<lambda>r. ro_tenant_id r = tenant \<and> ro_item_id r = identifier \<and> unexpired now r) (visible c) of
         None \<Rightarrow> Inr None
       | Some row \<Rightarrow> bindE (record_from_row cfg row None) (\<lambda>item. Inr (Some item)))))"

definition delete_memory ::
    "bool \<Rightarrow> string \<Rightarrow> string \<Rightarrow> memory_connection \<Rightarrow> (store_error + bool) \<times> memory_connection" where
  "delete_memory fault tenant_id item_id c =
    (case bindE (required_tenant tenant_id) (\<lambda>tenant.
            bindE (required_text item_id MAX_ITEM_ID_BYTES) (\<lambda>identifier. Inr (tenant, identifier))) of
       Inl e \<Rightarrow> (Inl e, c)
     | Inr key \<Rightarrow>
        if fault then (Inl storage_error, c)
        else (Inr (0 < sql_count (\<lambda>r. row_key r = key) (visible c)), write_records (sql_delete (\<lambda>r. row_key r = key)) c))"

definition prunable :: "int \<Rightarrow> int option \<Rightarrow> memory_row \<Rightarrow> bool" where
  "prunable now before row \<longleftrightarrow>
    \<not> unexpired now row \<or> (case before of None \<Rightarrow> False | Some limit \<Rightarrow> ro_created_at_ms row < limit)"

definition prune_memory ::
    "int \<Rightarrow> bool \<Rightarrow> string \<Rightarrow> int option \<Rightarrow> memory_connection \<Rightarrow> (store_error + nat) \<times> memory_connection" where
  "prune_memory now fault tenant_id before_timestamp_ms c =
    (case required_tenant tenant_id of
       Inl e \<Rightarrow> (Inl e, c)
     | Inr tenant \<Rightarrow>
        let gone = (\<lambda>r. ro_tenant_id r = tenant \<and> prunable now before_timestamp_ms r) in
        if \<not> pred_option int64 before_timestamp_ms then (Inl StoreOverflow, c)
        else if fault then (Inl storage_error, c)
        else (Inr (sql_count gone (visible c)), write_records (sql_delete gone) c))"

section \<open>Recall\<close>

text \<open>A heap of candidates, kept in the order of \<open>heapq\<close>: the least score first, and the earlier of two equal ones.  Of the
  heap the code only reads its length, its least element and, in the end, all elements.\<close>

type_synonym candidate = "rat \<times> nat \<times> stored_memory"

definition candidate_less :: "candidate \<Rightarrow> candidate \<Rightarrow> bool" where
  "candidate_less x y \<longleftrightarrow> fst x < fst y \<or> fst x = fst y \<and> fst (snd x) < fst (snd y)"

fun heappush :: "candidate \<Rightarrow> candidate list \<Rightarrow> candidate list" where
  "heappush x [] = [x]"
| "heappush x (y # ys) = (if candidate_less x y then x # y # ys else y # heappush x ys)"

definition heapreplace :: "candidate \<Rightarrow> candidate list \<Rightarrow> candidate list" where
  "heapreplace x heap = heappush x (tl heap)"

definition keep_candidate :: "nat \<Rightarrow> candidate \<Rightarrow> candidate list \<Rightarrow> candidate list" where
  "keep_candidate limit x heap =
    (if length heap < limit then heappush x heap
     else if fst x > fst (hd heap) then heapreplace x heap
     else heap)"

text \<open>The loop body for one row; \<open>cancelled i\<close> says whether the cancellation is found set at the \<open>i\<close>-th row.\<close>

definition scan_row ::
    "store_config \<Rightarrow> float_ops \<Rightarrow> (nat \<Rightarrow> bool) \<Rightarrow> pyfloat list \<Rightarrow> rat \<Rightarrow> nat \<Rightarrow> (string \<times> string) list
      \<Rightarrow> nat \<times> memory_row \<Rightarrow> candidate list \<times> nat \<Rightarrow> store_error + candidate list \<times> nat" where
  "scan_row cfg ops cancelled query threshold limit filters numbered s =
    (case numbered of (i, row) \<Rightarrow>
     if cancelled i then Inl (MemoryStoreError 5 True)
     else
       bindE (decode_metadata (ro_metadata_json row)) (\<lambda>metadata.
       if \<not> list_all (\<lambda>(k, v). map_of metadata k = Some v) filters then Inr s
       else
         bindE (record_from_row cfg row (Some metadata)) (\<lambda>item.
         let score = cosine_similarity ops (map finite_part query) (map finite_part (sm_embedding item)) in
         if score < threshold then Inr s
         else
           let sequence = snd s + 1 in
           Inr (keep_candidate limit (score, sequence, item) (fst s), sequence))))"

text \<open>The \<open>WHERE\<close> clause of \<open>recall\<close>.\<close>

definition recall_row :: "store_config \<Rightarrow> int \<Rightarrow> string \<Rightarrow> string option \<Rightarrow> string option \<Rightarrow> memory_row \<Rightarrow> bool" where
  "recall_row cfg now tenant scope subject row \<longleftrightarrow>
    ro_tenant_id row = tenant \<and> ro_embedding_model_id row = cf_embedding_model_id cfg
    \<and> ro_embedding_dimensions row = cf_embedding_dimensions cfg \<and> unexpired now row
    \<and> (case scope of None \<Rightarrow> True | Some s \<Rightarrow> ro_scope row = s)
    \<and> (case subject of None \<Rightarrow> True | Some s \<Rightarrow> ro_subject row = s)"

text \<open>\<open>sorted(heap, key=lambda candidate: (-candidate[0], candidate[1]))\<close> as two stable sorts.\<close>

definition ranked :: "candidate list \<Rightarrow> candidate list" where
  "ranked heap = sort_key (\<lambda>x. - fst x) (sort_key (\<lambda>x. fst (snd x)) heap)"

definition recall_memory ::
    "store_config \<Rightarrow> float_ops \<Rightarrow> (memory_row list \<Rightarrow> memory_row list) \<Rightarrow> int \<Rightarrow> bool \<Rightarrow> (nat \<Rightarrow> bool) \<Rightarrow> string \<Rightarrow> pyfloat list
      \<Rightarrow> string option \<Rightarrow> string option \<Rightarrow> (string \<times> string) list \<Rightarrow> pyfloat \<Rightarrow> int \<Rightarrow> memory_connection
      \<Rightarrow> store_error + scored_memory list" where
  "recall_memory cfg ops plan now fault cancelled tenant_id query_embedding scope subject metadata_filters min_similarity top_k c =
    bindE (required_tenant tenant_id) (\<lambda>tenant.
    bindE (validated_vector query_embedding (Some (cf_embedding_dimensions cfg))) (\<lambda>query.
    bindE (bounded_similarity min_similarity) (\<lambda>threshold.
    bindE (bounded_integer top_k 1 (cf_max_top_k cfg)) (\<lambda>limit.
    bindE (validated_metadata metadata_filters) (\<lambda>filters.
    if fault then Inl storage_error
    else
      bindE (foldE (scan_row cfg ops cancelled query threshold (nat limit) filters)
               (enumerate 0 (plan (filter (recall_row cfg now tenant scope subject) (visible c)))) ([], 0)) (\<lambda>(heap, sequence).
      Inr (map (\<lambda>(score, _, item). \<lparr>sr_item = item, sr_score = score\<rparr>) (ranked heap))))))))"

section \<open>Export and import\<close>

definition export_row :: "int \<Rightarrow> string \<Rightarrow> string option \<Rightarrow> string option \<Rightarrow> memory_row \<Rightarrow> bool" where
  "export_row now tenant scope after_id row \<longleftrightarrow>
    ro_tenant_id row = tenant \<and> unexpired now row
    \<and> (case scope of None \<Rightarrow> True | Some s \<Rightarrow> ro_scope row = s)
    \<and> (case after_id of None \<Rightarrow> True | Some a \<Rightarrow> ro_item_id row > a)"

definition export_batch ::
    "store_config \<Rightarrow> int \<Rightarrow> bool \<Rightarrow> string \<Rightarrow> string option \<Rightarrow> int option \<Rightarrow> string option \<Rightarrow> memory_connection
      \<Rightarrow> store_error + (stored_memory list \<times> string)" where
  "export_batch cfg now fault tenant_id scope limit page_token c =
    bindE (required_tenant tenant_id) (\<lambda>tenant.
    bindE (case limit of None \<Rightarrow> Inr (cf_max_top_k cfg) | Some n \<Rightarrow> bounded_integer n 1 (cf_max_top_k cfg)) (\<lambda>maximum.
    bindE (case decode_page_token page_token tenant scope of None \<Rightarrow> Inl StoreValueError | Some a \<Rightarrow> Inr a) (\<lambda>after_id.
    if fault then Inl storage_error
    else
      let rows = take (nat maximum + 1) (sort_key ro_item_id (filter (export_row now tenant scope after_id) (visible c)));
          selected = take (nat maximum) rows in
      bindE (mapE (\<lambda>row. record_from_row cfg row None) selected) (\<lambda>items.
      Inr (items,
           if length rows > nat maximum \<and> selected \<noteq> [] then encode_page_token (ro_item_id (last selected)) tenant scope
           else [])))))"

text \<open>The checks of \<open>import_batch\<close> on one item, before the transaction.\<close>

definition import_item :: "store_config \<Rightarrow> string \<Rightarrow> string \<Rightarrow> stored_memory \<Rightarrow> store_error + stored_memory" where
  "import_item cfg tenant fresh item =
    bindE (raise_if (\<not> declares_profile (sm_metadata item)) (MemoryStoreError 3 False)) (\<lambda>_.
    bindE (profile_from_metadata (sm_metadata item) (Some (cf_embedding_model_id cfg))) (\<lambda>(model_id, declared).
    let dimensions = (case declared of None \<Rightarrow> cf_embedding_dimensions cfg | Some n \<Rightarrow> n);
        provider_model_id = (case map_of (sm_metadata item) PROVIDER_MODEL_ID_KEY of None \<Rightarrow> cf_provider_model_id cfg | Some p \<Rightarrow> p) in
    bindE (raise_if (model_id \<noteq> cf_embedding_model_id cfg \<or> dimensions \<noteq> cf_embedding_dimensions cfg
             \<or> provider_model_id \<noteq> cf_provider_model_id cfg) (MemoryStoreError 3 False)) (\<lambda>_.
    normalize_item fresh
      (item\<lparr>sm_metadata := with_profile_metadata (sm_metadata item) model_id dimensions (Some provider_model_id)\<rparr>) tenant
      (Some (cf_embedding_model_id cfg)) (Some (cf_embedding_dimensions cfg)) (Some (cf_provider_model_id cfg)))))"

text \<open>The values bound for one item inside the transaction.\<close>

definition import_row :: "store_config \<Rightarrow> string \<Rightarrow> int \<Rightarrow> stored_memory \<Rightarrow> store_error + memory_row" where
  "import_row cfg tenant now item =
    bindE (profile_from_metadata (sm_metadata item) (Some (cf_embedding_model_id cfg))) (\<lambda>(model_id, declared).
    let dimensions = (case declared of None \<Rightarrow> int (length (sm_embedding item)) | Some n \<Rightarrow> n);
        described = with_profile_metadata (sm_metadata item) model_id dimensions None in
    bindE (pack_vector (sm_embedding item) (Some dimensions)) (\<lambda>embedding.
    bindE (encode_metadata described) (\<lambda>metadata.
    Inr (memory_row_of tenant item embedding model_id dimensions metadata now))))"

text \<open>The statement of one item, and the number of rows it changed.\<close>

definition import_write :: "bool \<Rightarrow> memory_row \<Rightarrow> memory_row list \<times> nat \<Rightarrow> memory_row list \<times> nat" where
  "import_write overwrite row s =
    (if \<not> overwrite \<and> row_key row \<in> row_key ` set (fst s) then s else (upsert row (fst s), snd s + 1))"

text \<open>The loop inside the transaction: the exception that ended it, if any, with the rows written so far and their
  number.  \<open>fault\<close> counts the statements, \<open>BEGIN IMMEDIATE\<close> being 0.\<close>

fun import_rows ::
    "store_config \<Rightarrow> string \<Rightarrow> int \<Rightarrow> bool \<Rightarrow> nat option \<Rightarrow> nat \<Rightarrow> stored_memory list \<Rightarrow> memory_row list \<times> nat
      \<Rightarrow> store_error option \<times> memory_row list \<times> nat" where
  "import_rows cfg tenant now overwrite fault i [] s = (None, s)"
| "import_rows cfg tenant now overwrite fault i (item # items) s =
    (case import_row cfg tenant now item of
       Inl e \<Rightarrow> (Some e, s)
     | Inr row \<Rightarrow>
        if \<not> bindable row then (Some StoreOverflow, s)
        else if fault = Some i then (Some storage_error, s)
        else import_rows cfg tenant now overwrite fault (Suc i) items (import_write overwrite row s))"

definition import_items ::
    "store_config \<Rightarrow> (nat \<Rightarrow> string) \<Rightarrow> string \<Rightarrow> stored_memory list \<Rightarrow> store_error + (string \<times> stored_memory list)" where
  "import_items cfg fresh tenant_id items =
    bindE (required_tenant tenant_id) (\<lambda>tenant.
    bindE (raise_if (length items > MAX_BATCH_ITEMS) (MemoryStoreError 4 False)) (\<lambda>_.
    bindE (mapE (\<lambda>(i, item). import_item cfg tenant (fresh i) item) (enumerate 0 items)) (\<lambda>normalized.
    bindE (raise_if (\<not> distinct (map sm_item_id normalized)) StoreValueError) (\<lambda>_.
    Inr (tenant, normalized)))))"

text \<open>\<open>BEGIN IMMEDIATE\<close> fails when a transaction is already open, and the handler rolls that one back.  An exception that the
  handler does not catch leaves the transaction open.\<close>

definition import_batch ::
    "store_config \<Rightarrow> int \<Rightarrow> (nat \<Rightarrow> string) \<Rightarrow> nat option \<Rightarrow> string \<Rightarrow> stored_memory list \<Rightarrow> bool \<Rightarrow> memory_connection
      \<Rightarrow> (store_error + nat) \<times> memory_connection" where
  "import_batch cfg now fresh fault tenant_id items overwrite c =
    (case import_items cfg fresh tenant_id items of
       Inl e \<Rightarrow> (Inl e, c)
     | Inr (tenant, normalized) \<Rightarrow>
        if cn_pending c \<noteq> None \<or> fault = Some 0 then (Inl storage_error, c\<lparr>cn_pending := None\<rparr>)
        else
          let db = cn_committed c in
          (case import_rows cfg tenant now overwrite fault 1 normalized (db_records db, 0) of
             (Some StoreOverflow, rows, _) \<Rightarrow> (Inl StoreOverflow, c\<lparr>cn_pending := Some (db\<lparr>db_records := rows\<rparr>)\<rparr>)
           | (Some e, _) \<Rightarrow> (Inl e, c)
           | (None, rows, inserted) \<Rightarrow>
               if fault = Some (length normalized + 1) then (Inl storage_error, c)
               else (Inr inserted, c\<lparr>cn_committed := db\<lparr>db_records := rows\<rparr>\<rparr>)))"

section \<open>Opening the database\<close>

definition fingerprint_payload :: "string \<Rightarrow> string \<Rightarrow> int \<Rightarrow> string \<Rightarrow> string \<Rightarrow> string" where
  "fingerprint_payload profile_id provider_model_id dimensions document_prefix query_prefix =
    json_dumps (\<lambda>_. []) True
      (PDict [(''document_prefix'', PStr document_prefix), (''dimensions'', PInt dimensions), (''profile_id'', PStr profile_id),
              (''provider_model_id'', PStr provider_model_id), (''query_prefix'', PStr query_prefix)])"

definition profile_fingerprint :: "string \<Rightarrow> string \<Rightarrow> int \<Rightarrow> string \<Rightarrow> string \<Rightarrow> string" where
  "profile_fingerprint profile_id provider_model_id dimensions document_prefix query_prefix =
    sha256 (fingerprint_payload profile_id provider_model_id dimensions document_prefix query_prefix)"

text \<open>The checks of \<open>_migrate\<close> on a database that has no fingerprint yet.\<close>

definition other_provider :: "store_config \<Rightarrow> (string \<times> string) list \<Rightarrow> bool" where
  "other_provider cfg metadata =
    (case map_of metadata PROVIDER_MODEL_ID_KEY of None \<Rightarrow> False | Some p \<Rightarrow> p \<noteq> [] \<and> p \<noteq> cf_provider_model_id cfg)"

definition adopt_rows :: "store_config \<Rightarrow> memory_row list \<Rightarrow> store_error + unit" where
  "adopt_rows cfg rows =
    bindE (raise_if (rows \<noteq> [] \<and> (cf_document_prefix cfg \<noteq> [] \<or> cf_query_prefix cfg \<noteq> []
             \<or> cf_embedding_model_id cfg \<noteq> cf_provider_model_id cfg)) StoreValueError) (\<lambda>_.
    bindE (raise_if (\<not> list_all (\<lambda>r. ro_embedding_model_id r = cf_embedding_model_id cfg
             \<and> ro_embedding_dimensions r = cf_embedding_dimensions cfg) rows) StoreValueError) (\<lambda>_.
    foldE (\<lambda>row _. bindE (decode_metadata (ro_metadata_json row)) (\<lambda>metadata.
             raise_if (other_provider cfg metadata) StoreValueError)) rows ()))"

definition migrate_database :: "store_config \<Rightarrow> bool \<Rightarrow> memory_database \<Rightarrow> (store_error + unit) \<times> memory_database" where
  "migrate_database cfg fault db =
    (if db_version db > SCHEMA_VERSION then (Inl StoreValueError, db)
     else if fault then (Inl storage_error, db)
     else
       (case (case db_profile db of
                None \<Rightarrow> adopt_rows cfg (db_records db)
              | Some fingerprint \<Rightarrow>
                  raise_if (fingerprint \<noteq> cf_profile_fingerprint cfg \<and> db_records db \<noteq> []) StoreValueError) of
          Inl e \<Rightarrow> (Inl e, db)
        | Inr _ \<Rightarrow> (Inr (), db\<lparr>db_profile := Some (cf_profile_fingerprint cfg), db_version := SCHEMA_VERSION\<rparr>)))"

text \<open>The configuration that \<open>__init__\<close> builds from its arguments, and the migration it runs.\<close>

definition configure_store ::
    "string \<Rightarrow> int \<Rightarrow> int \<Rightarrow> int \<Rightarrow> string option \<Rightarrow> string \<Rightarrow> string \<Rightarrow> store_error + store_config" where
  "configure_store embedding_model_id embedding_dimensions recall_batch_size max_top_k provider_model_id document_prefix query_prefix =
     bindE (required_text embedding_model_id 256) (\<lambda>model_id.
     bindE (required_text
              (case provider_model_id of None \<Rightarrow> embedding_model_id | Some p \<Rightarrow> if p = [] then embedding_model_id else p) 256) (\<lambda>provider.
     bindE (bounded_integer embedding_dimensions 1 4096) (\<lambda>dimensions.
     bindE (bounded_optional_text document_prefix 512) (\<lambda>document.
     bindE (bounded_optional_text query_prefix 512) (\<lambda>query.
     bindE (bounded_integer recall_batch_size 16 4096) (\<lambda>batch.
     bindE (bounded_integer max_top_k 1 MAX_TOP_K) (\<lambda>top_k.
     Inr \<lparr>cf_embedding_model_id = model_id, cf_provider_model_id = provider, cf_embedding_dimensions = dimensions,
          cf_document_prefix = document, cf_query_prefix = query,
          cf_profile_fingerprint = profile_fingerprint model_id provider dimensions document query,
          cf_recall_batch_size = batch, cf_max_top_k = top_k\<rparr>)))))))"

definition open_store ::
    "string \<Rightarrow> int \<Rightarrow> int \<Rightarrow> int \<Rightarrow> string option \<Rightarrow> string \<Rightarrow> string \<Rightarrow> bool \<Rightarrow> memory_database
      \<Rightarrow> (store_error + store_config \<times> memory_connection) \<times> memory_database" where
  "open_store embedding_model_id embedding_dimensions recall_batch_size max_top_k provider_model_id document_prefix query_prefix fault db =
    (case configure_store embedding_model_id embedding_dimensions recall_batch_size max_top_k provider_model_id document_prefix query_prefix of
       Inl e \<Rightarrow> (Inl e, db)
     | Inr cfg \<Rightarrow>
        (case migrate_database cfg fault db of
           (Inl e, db') \<Rightarrow> (Inl e, db')
         | (Inr _, db') \<Rightarrow> (Inr (cfg, \<lparr>cn_committed = db', cn_pending = None\<rparr>), db')))"

end
