(* ===== verification/Memory_Store_Inv.thy ===== *)
theory Memory_Store_Inv
  imports Memory_Store
begin

text \<open>
  The invariant of the memory store.  Every row of the table has a normal key, the active vector profile, an embedding
  that unpacks and metadata that decode, and no two rows share a key.  All operations keep it, so no read fails on what
  the store itself wrote.
\<close>

section \<open>Stripped texts\<close>

lemma space_prefix_one: "0 < space_prefix [a] \<Longrightarrow> space_prefix (a # q) = space_prefix [a]"
  by (cases "9 \<le> ord a \<and> ord a \<le> 13 \<or> 28 \<le> ord a \<and> ord a \<le> 32") (simp_all only: space_prefix.simps Let_def if_True if_False list.case less_irrefl)

lemma space_prefix_two: "0 < space_prefix [a, b] \<Longrightarrow> space_prefix (a # b # q) = space_prefix [a, b]"
  by (cases "9 \<le> ord a \<and> ord a \<le> 13 \<or> 28 \<le> ord a \<and> ord a \<le> 32"; cases "ord a = 194 \<and> (ord b = 133 \<or> ord b = 160)")
     (simp_all only: space_prefix.simps Let_def if_True if_False list.case less_irrefl simp_thms)

lemma space_prefix_three: "space_prefix (a # b # c # q) = space_prefix [a, b, c]"
  by (simp only: space_prefix.simps Let_def list.case)

lemma space_prefix_append:
  assumes "0 < space_prefix p"
  shows "space_prefix (p @ q) = space_prefix p"
proof -
  consider "p = []" | a where "p = [a]" | a b where "p = [a, b]" | a b c r where "p = a # b # c # r"
    by (metis list.exhaust)
  then show ?thesis
  proof cases
    case 1
    then show ?thesis using assms by simp
  next
    case (2 a)
    then show ?thesis using assms space_prefix_one [of a q] by (simp only: append_Cons append_Nil)
  next
    case (3 a b)
    then show ?thesis using assms space_prefix_two [of a b q] by (simp only: append_Cons append_Nil)
  next
    case (4 a b c r)
    then show ?thesis using space_prefix_three [of a b c "r @ q"] space_prefix_three [of a b c r] by (simp only: append_Cons)
  qed
qed

lemma lstrip_prefix: "space_prefix (lstrip s) = 0"
  by (induction s rule: lstrip.induct) (metis lstrip.simps)

lemma rstrip_suffix: "space_suffix (rstrip s) = 0"
  by (induction s rule: rstrip.induct) (metis rstrip.simps)

lemma rstrip_take: "\<exists>q. s = rstrip s @ q"
proof (induction s rule: rstrip.induct)
  case (1 s)
  show ?case
  proof (cases "space_suffix s = 0")
    case True
    then show ?thesis by (simp add: rstrip.simps [of s])
  next
    case False
    then obtain q where "take (length s - space_suffix s) s = rstrip s @ q" using 1 by (auto simp: rstrip.simps [of s])
    then have "s = rstrip s @ q @ drop (length s - space_suffix s) s" by (metis append_assoc append_take_drop_id)
    then show ?thesis by blast
  qed
qed

lemma strip_idem [simp]: "strip (strip s) = strip s"
proof -
  let ?t = "rstrip (lstrip s)"
  obtain q where "lstrip s = ?t @ q" using rstrip_take by blast
  then have "space_prefix ?t = 0" using lstrip_prefix [of s] space_prefix_append [of ?t q] by (metis gr0I)
  then show ?thesis by (simp add: strip_def lstrip.simps [of ?t] rstrip.simps [of ?t] rstrip_suffix)
qed

section \<open>Checks\<close>

lemma required_text_Inr [simp]:
  "required_text v n = Inr t \<longleftrightarrow> t = strip v \<and> strip v \<noteq> [] \<and> utf8_strict v \<and> length v \<le> n"
  by (auto simp: required_text_def required_value_def split: option.splits if_splits)

lemma required_tenant_Inr [simp]: "required_tenant v = Inr t \<longleftrightarrow> required_text v 256 = Inr t"
  by (auto simp: required_tenant_def simp del: required_text_Inr split: sum.splits)

lemma bounded_integer_Inr [simp]: "bounded_integer v lo hi = Inr n \<longleftrightarrow> n = v \<and> lo \<le> v \<and> v \<le> hi"
  by (auto simp: bounded_integer_def)

lemma bounded_optional_text_Inr [simp]: "bounded_optional_text v n = Inr t \<longleftrightarrow> t = v \<and> utf8_strict v \<and> length v \<le> n"
  by (auto simp: bounded_optional_text_def)

lemma validated_metadata_Inr:
  "validated_metadata d = Inr e \<longleftrightarrow>
    e = d \<and> length d \<le> MAX_METADATA_ENTRIES \<and> list_all metadata_entry_ok d \<and> (\<exists>t. encode_metadata d = Inr t)"
  by (auto simp: validated_metadata_def bindE_eq_Inr)

lemma validated_vector_Inr:
  "validated_vector vs dimensions = Inr v \<longleftrightarrow>
    v = vs \<and> (dimensions = None \<or> dimensions = Some (int (length vs))) \<and> 1 \<le> length vs \<and> length vs \<le> 4096
    \<and> list_all is_finite vs \<and> list_all float_in_range vs \<and> \<not> list_all (\<lambda>v. v = Fin 0) vs"
  by (auto simp: validated_vector_def)

lemma pack_float_length: "pack_float v = Inr b \<Longrightarrow> length b = 4"
  by (auto simp: pack_float_def bindE_eq_Inr word_bytes_def)

lemma pack_floats_length: "pack_floats vs = Inr p \<Longrightarrow> length p = 4 * length vs"
  by (induction vs arbitrary: p) (auto simp: bindE_eq_Inr pack_float_length)

lemma pack_vector_Inr:
  "pack_vector vs dimensions = Inr p \<longleftrightarrow>
    validated_vector vs dimensions = Inr vs \<and> pack_floats vs = Inr p
    \<and> list_all is_finite (unpack_floats p) \<and> \<not> list_all (\<lambda>v. v = Fin 0) (unpack_floats p)"
  by (auto simp: pack_vector_def bindE_eq_Inr Let_def validated_vector_Inr split: sum.splits if_splits)

lemma pack_vector_unpack:
  assumes "pack_vector vs (Some dimensions) = Inr p"
  shows "unpack_vector p dimensions = Inr (unpack_floats p)"
proof -
  have v: "validated_vector vs (Some dimensions) = Inr vs" "pack_floats vs = Inr p" "list_all is_finite (unpack_floats p)"
    "\<not> list_all (\<lambda>v. v = Fin 0) (unpack_floats p)" using assms by (simp_all add: pack_vector_Inr)
  then have "dimensions = int (length vs)" "1 \<le> length vs" "length vs \<le> 4096" by (auto simp: validated_vector_Inr)
  then have "bounded_integer dimensions 1 4096 = Inr dimensions" "int (length p) = dimensions * 4"
    using pack_floats_length [OF v(2)] by simp_all
  then show ?thesis using v(3,4) by (simp add: unpack_vector_def del: bounded_integer_Inr)
qed

section \<open>Metadata\<close>

lemma encode_metadata_Inr:
  "encode_metadata d = Inr t \<longleftrightarrow> t = json_dumps (\<lambda>_. []) True (text_dict d) \<and> length t \<le> MAX_METADATA_BYTES"
  by (auto simp: encode_metadata_def Let_def)

lemma metadata_loads: "json_loads (json_dumps f True (text_dict d)) = Some (PDict (map (\<lambda>(k, v). (k, PStr v)) (sort_key fst d)))"
proof -
  have "readable f (text_dict d)" by (auto simp: text_dict_def list_all_iff)
  then have "json_loads (json_dumps f True (text_dict d)) = Some (written True (text_dict d))" by (rule json_loads_dumps)
  then show ?thesis unfolding text_dict_def written_dict by (simp add: sort_map_fst del: written.simps(2)) (simp add: case_prod_unfold)
qed

lemma update_members_append:
  "distinct (map fst (al @ pairs)) \<Longrightarrow> fold (\<lambda>(k, v). AList.update k v) pairs al = al @ pairs"
proof (induction pairs arbitrary: al)
  case (Cons e pairs)
  obtain k v where e: "e = (k, v)" by (cases e)
  have "AList.update k v al = al @ [(k, v)]" using Cons.prems e by (induction al) auto
  then show ?case using Cons.IH [of "al @ [e]"] Cons.prems e by simp
qed simp

lemma object_members_distinct: "distinct (map fst pairs) \<Longrightarrow> object_members pairs = pairs"
  using update_members_append [of "[]"] by (simp add: object_members_def)

lemma update_members_set: "snd ` set (fold (\<lambda>(k, v). AList.update k v) pairs al) \<subseteq> snd ` set pairs \<union> snd ` set al"
proof (induction pairs arbitrary: al)
  case (Cons e pairs)
  have "snd ` set (AList.update k v al) \<subseteq> insert v (snd ` set al)" for k v by (induction al) auto
  then have "snd ` set (AList.update (fst e) (snd e) al) \<subseteq> insert (snd e) (snd ` set al)" .
  moreover have "fold (\<lambda>(k, v). AList.update k v) (e # pairs) al = fold (\<lambda>(k, v). AList.update k v) pairs (AList.update (fst e) (snd e) al)"
    by (simp add: case_prod_unfold)
  ultimately have "snd ` set (fold (\<lambda>(k, v). AList.update k v) (e # pairs) al) \<subseteq> snd ` set pairs \<union> insert (snd e) (snd ` set al)"
    using Cons.IH [of "AList.update (fst e) (snd e) al"] by (simp only:) blast
  then show ?case by simp
qed simp

lemma decode_encoded_readable: "encode_metadata d = Inr t \<Longrightarrow> \<exists>e. decode_metadata t = Inr e"
proof -
  assume "encode_metadata d = Inr t"
  then have loads: "json_loads t = Some (PDict (map (\<lambda>(k, v). (k, PStr v)) (sort_key fst d)))"
    by (simp add: encode_metadata_Inr metadata_loads)
  let ?m = "object_members (map (\<lambda>(k, v). (k, PStr v)) (sort_key fst d))"
  have "snd ` set ?m \<subseteq> range PStr" using update_members_set [of "map (\<lambda>(k, v). (k, PStr v)) (sort_key fst d)" "[]"]
    unfolding object_members_def by auto
  then have "list_all (\<lambda>(k, v). text_of v \<noteq> None) ?m" by (fastforce simp: list_all_iff)
  then show ?thesis using loads by (simp add: decode_metadata_def)
qed

lemma decode_encoded:
  assumes "distinct (map fst d)" "encode_metadata d = Inr t"
  shows "decode_metadata t = Inr (sort_key fst d)"
proof -
  let ?p = "map (\<lambda>(k, v). (k, PStr v)) (sort_key fst d)"
  have "mset (map fst (sort_key fst d)) = mset (map fst d)" by (simp add: mset_map)
  then have "distinct (map fst (sort_key fst d))" using assms(1) by (metis mset_eq_imp_distinct_iff)
  then have "object_members ?p = ?p" by (intro object_members_distinct) (simp add: comp_def case_prod_unfold)
  then have "decode_metadata t = Inr (map (\<lambda>(k, v). (k, the (text_of v))) ?p)"
    using assms(2) by (simp add: encode_metadata_Inr metadata_loads decode_metadata_def list_all_iff case_prod_unfold)
  then show ?thesis by (simp add: comp_def case_prod_unfold)
qed

lemma distinct_with_profile: "distinct (map fst d) \<Longrightarrow> distinct (map fst (with_profile_metadata d m n p))"
  by (simp add: with_profile_metadata_def Let_def distinct_update)

lemma profile_keys [simp]:
  "MODEL_ID_KEY \<noteq> DIMENSIONS_KEY" "MODEL_ID_KEY \<noteq> PROVIDER_MODEL_ID_KEY" "DIMENSIONS_KEY \<noteq> PROVIDER_MODEL_ID_KEY"
  "DIMENSIONS_KEY \<noteq> MODEL_ID_KEY" "PROVIDER_MODEL_ID_KEY \<noteq> MODEL_ID_KEY" "PROVIDER_MODEL_ID_KEY \<noteq> DIMENSIONS_KEY"
  by (simp_all add: MODEL_ID_KEY_def DIMENSIONS_KEY_def PROVIDER_MODEL_ID_KEY_def)

lemma with_profile_lookup:
  "map_of (with_profile_metadata d m n (Some p)) MODEL_ID_KEY = Some m"
  "map_of (with_profile_metadata d m n (Some p)) DIMENSIONS_KEY = Some (str_of_int n)"
  "p \<noteq> [] \<Longrightarrow> map_of (with_profile_metadata d m n (Some p)) PROVIDER_MODEL_ID_KEY = Some p"
  by (simp_all add: with_profile_metadata_def Let_def update_conv')

lemma map_of_keys: "map_of d k = Some v \<Longrightarrow> k \<in> fst ` set d"
  by (metis domI dom_map_of_conv_image_fst)

lemma with_profile_declares: "declares_profile (with_profile_metadata d m n p)"
  by (simp add: declares_profile_def with_profile_metadata_def Let_def dom_update)

section \<open>The rows an operation writes\<close>

lemma profile_from_metadata_Inr:
  assumes "profile_from_metadata d dflt = Inr (m, declared)" "declares_profile d"
  obtains n where "declared = Some n" "m \<noteq> []" "strip m = m" "1 \<le> n" "n \<le> 4096"
proof -
  have "DIMENSIONS_KEY \<in> fst ` set d" "MODEL_ID_KEY \<in> fst ` set d" using assms(2) by (simp_all add: declares_profile_def)
  then have "map_of d DIMENSIONS_KEY \<noteq> None" "map_of d MODEL_ID_KEY \<noteq> None" by (auto simp: map_of_eq_None_iff)
  then obtain raw mm where "map_of d DIMENSIONS_KEY = Some raw" "map_of d MODEL_ID_KEY = Some mm" by auto
  with assms(1) that show thesis by (cases "int_of_str raw") (simp_all add: profile_from_metadata_def bindE_eq_Inr, metis strip_idem)
qed

lemma negative_option: "(case t of None \<Rightarrow> False | Some x \<Rightarrow> x < (0::int)) \<longleftrightarrow> \<not> pred_option (\<lambda>x. 0 \<le> x) t"
  by (cases t) auto

text \<open>An item that passed \<open>_normalize_item\<close> for a configuration.\<close>

lemma normalize_item_Inr:
  assumes "normalize_item fresh item expected (Some model) (Some dims) (Some provider) = Inr r"
  shows "r = \<lparr>sm_item_id = (if strip (sm_item_id item) = [] then ''mem_'' @ fresh else strip (sm_item_id item)),
      sm_tenant_id = strip (sm_tenant_id item), sm_scope = sm_scope item, sm_subject = sm_subject item, sm_content = sm_content item,
      sm_embedding = sm_embedding item, sm_metadata = with_profile_metadata (sm_metadata item) model dims (Some provider),
      sm_created_at_ms = max 0 (sm_created_at_ms item), sm_expires_at_ms = sm_expires_at_ms item, sm_ttl_seconds = sm_ttl_seconds item\<rparr>"
    "strip (sm_tenant_id item) = strip expected" "required_text expected 256 = Inr (strip expected)"
    "required_text (if strip (sm_item_id item) = [] then ''mem_'' @ fresh else strip (sm_item_id item)) MAX_ITEM_ID_BYTES
      = Inr (strip (if strip (sm_item_id item) = [] then ''mem_'' @ fresh else strip (sm_item_id item)))"
    "utf8_strict (sm_scope item)" "length (sm_scope item) \<le> 256" "int (length (sm_embedding item)) = dims"
    "pred_option (\<lambda>t. 0 \<le> t) (sm_ttl_seconds item)" "pred_option (\<lambda>t. 0 \<le> t) (sm_expires_at_ms item)"
    "strip provider = provider" "provider \<noteq> []" "strip model = model" "model \<noteq> []"
proof -
  let ?id = "if strip (sm_item_id item) = [] then ''mem_'' @ fresh else strip (sm_item_id item)"
  let ?r = "\<lparr>sm_item_id = ?id, sm_tenant_id = strip expected, sm_scope = sm_scope item, sm_subject = sm_subject item,
      sm_content = sm_content item, sm_embedding = sm_embedding item, sm_metadata = with_profile_metadata (sm_metadata item) model dims (Some provider),
      sm_created_at_ms = max 0 (sm_created_at_ms item), sm_expires_at_ms = sm_expires_at_ms item, sm_ttl_seconds = sm_ttl_seconds item\<rparr>"
  have "\<exists>m declared. profile_from_metadata (sm_metadata item) (Some model) = Inr (m, declared) \<and> model = m
      \<and> required_tenant (sm_tenant_id item) = Inr (strip expected) \<and> required_tenant expected = Inr (strip expected)
      \<and> required_text ?id MAX_ITEM_ID_BYTES = Inr (strip ?id) \<and> declares_profile (sm_metadata item)
      \<and> required_text (case map_of (sm_metadata item) PROVIDER_MODEL_ID_KEY of Some p \<Rightarrow> p | None \<Rightarrow> provider) 256 = Inr provider
      \<and> dims = int (length (sm_embedding item))
      \<and> pred_option (\<lambda>t. 0 \<le> t) (sm_ttl_seconds item) \<and> pred_option (\<lambda>t. 0 \<le> t) (sm_expires_at_ms item)
      \<and> utf8_strict (sm_scope item) \<and> length (sm_scope item) \<le> 256 \<and> r = ?r"
    using assms unfolding normalize_item_def Let_def
    by (clarsimp simp: bindE_eq_Inr negative_option validated_metadata_Inr)
       (cases "map_of (sm_metadata item) PROVIDER_MODEL_ID_KEY"; simp)
  then obtain m declared where steps: "profile_from_metadata (sm_metadata item) (Some model) = Inr (m, declared)" "model = m"
      "required_tenant (sm_tenant_id item) = Inr (strip expected)" "required_tenant expected = Inr (strip expected)"
      "required_text ?id MAX_ITEM_ID_BYTES = Inr (strip ?id)" "declares_profile (sm_metadata item)"
    and prov: "required_text (case map_of (sm_metadata item) PROVIDER_MODEL_ID_KEY of Some p \<Rightarrow> p | None \<Rightarrow> provider) 256 = Inr provider"
    and rest: "dims = int (length (sm_embedding item))"
      "pred_option (\<lambda>t. 0 \<le> t) (sm_ttl_seconds item)" "pred_option (\<lambda>t. 0 \<le> t) (sm_expires_at_ms item)"
      "utf8_strict (sm_scope item)" "length (sm_scope item) \<le> 256" "r = ?r" by blast
  obtain n where "declared = Some n" "m \<noteq> []" "strip m = m" using profile_from_metadata_Inr [OF steps(1,6)] by blast
  then show "strip model = model" "model \<noteq> []" using steps(2) by simp_all
  show same: "strip (sm_tenant_id item) = strip expected" using steps(3) by simp
  show "r = \<lparr>sm_item_id = ?id, sm_tenant_id = strip (sm_tenant_id item), sm_scope = sm_scope item, sm_subject = sm_subject item,
      sm_content = sm_content item, sm_embedding = sm_embedding item, sm_metadata = with_profile_metadata (sm_metadata item) model dims (Some provider),
      sm_created_at_ms = max 0 (sm_created_at_ms item), sm_expires_at_ms = sm_expires_at_ms item, sm_ttl_seconds = sm_ttl_seconds item\<rparr>"
    using rest(6) same by simp
  show "required_text expected 256 = Inr (strip expected)" using steps(4) by simp
  show "required_text ?id MAX_ITEM_ID_BYTES = Inr (strip ?id)" using steps(5) .
  show "int (length (sm_embedding item)) = dims" using rest(1) by simp
  show "provider \<noteq> []" using prov by (metis required_text_Inr)
  show "strip provider = provider" using prov strip_idem by (metis required_text_Inr)
  show "utf8_strict (sm_scope item)" "length (sm_scope item) \<le> 256"
    "pred_option (\<lambda>t. 0 \<le> t) (sm_ttl_seconds item)" "pred_option (\<lambda>t. 0 \<le> t) (sm_expires_at_ms item)" by (rule rest)+
qed

section \<open>The invariant\<close>

definition row_ok :: "store_config \<Rightarrow> memory_row \<Rightarrow> bool" where
  "row_ok cfg r \<longleftrightarrow>
    required_text (ro_tenant_id r) 256 = Inr (ro_tenant_id r) \<and> required_text (ro_item_id r) MAX_ITEM_ID_BYTES = Inr (ro_item_id r)
    \<and> utf8_strict (ro_scope r) \<and> length (ro_scope r) \<le> 256
    \<and> ro_embedding_model_id r = cf_embedding_model_id cfg \<and> ro_embedding_dimensions r = cf_embedding_dimensions cfg
    \<and> \<not> isl (unpack_vector (ro_embedding r) (ro_embedding_dimensions r)) \<and> \<not> isl (decode_metadata (ro_metadata_json r))"

definition rows_ok :: "store_config \<Rightarrow> memory_row list \<Rightarrow> bool" where
  "rows_ok cfg rows \<longleftrightarrow> distinct (map row_key rows) \<and> list_all (row_ok cfg) rows"

definition connection_ok :: "store_config \<Rightarrow> memory_connection \<Rightarrow> bool" where
  "connection_ok cfg c \<longleftrightarrow>
    rows_ok cfg (db_records (cn_committed c)) \<and> pred_option (\<lambda>d. rows_ok cfg (db_records d)) (cn_pending c)"

text \<open>The text of a \<open>uuid4\<close>.\<close>

definition hex_text :: "string \<Rightarrow> bool" where
  "hex_text s \<longleftrightarrow> s \<noteq> [] \<and> list_all is_hex_lower s"

lemma strip_fresh: "hex_text h \<Longrightarrow> strip (''mem_'' @ h) = ''mem_'' @ h"
proof (rule strip_no_space)
  assume h: "hex_text h"
  then have "is_hex_lower (last h)" by (auto simp: hex_text_def list_all_iff)
  with h show "32 < ord (last (''mem_'' @ h))" "ord (last (''mem_'' @ h)) < 128"
    by (auto simp: hex_text_def is_hex_lower_def is_digit_def)
qed simp_all

lemma item_id_stripped:
  assumes "hex_text fresh"
  shows "strip (if strip i = [] then ''mem_'' @ fresh else strip i) = (if strip i = [] then ''mem_'' @ fresh else strip i)"
  using strip_fresh [OF assms] by simp

lemma normalized_id:
  assumes "normalize_item fresh item expected (Some model) (Some dims) (Some provider) = Inr r" "hex_text fresh"
  shows "required_text (sm_item_id r) MAX_ITEM_ID_BYTES = Inr (sm_item_id r)"
  using normalize_item_Inr(1,4) [OF assms(1)] item_id_stripped [OF assms(2), of "sm_item_id item"] by simp

lemma written_row_ok:
  assumes "required_text tenant 256 = Inr tenant" "required_text (sm_item_id r) MAX_ITEM_ID_BYTES = Inr (sm_item_id r)"
    "utf8_strict (sm_scope r)" "length (sm_scope r) \<le> 256" "pack_vector (sm_embedding r) (Some (cf_embedding_dimensions cfg)) = Inr e"
    "encode_metadata d = Inr m"
  shows "row_ok cfg (memory_row_of tenant r e (cf_embedding_model_id cfg) (cf_embedding_dimensions cfg) m now)"
  using assms pack_vector_unpack [OF assms(5)] decode_encoded_readable [OF assms(6)]
  by (auto simp: row_ok_def memory_row_of_def Let_def simp del: required_text_Inr)

lemma store_row_Inr:
  assumes "store_row cfg now fresh tenant_id item = Inr row"
  obtains r e m where
    "required_text tenant_id 256 = Inr (strip tenant_id)"
    "normalize_item fresh item (strip tenant_id) (Some (cf_embedding_model_id cfg)) (Some (cf_embedding_dimensions cfg))
      (Some (cf_provider_model_id cfg)) = Inr r"
    "sm_tenant_id r = strip tenant_id"
    "pack_vector (sm_embedding r) (Some (cf_embedding_dimensions cfg)) = Inr e" "encode_metadata (sm_metadata r) = Inr m"
    "row = memory_row_of (strip tenant_id) r e (cf_embedding_model_id cfg) (cf_embedding_dimensions cfg) m now"
proof -
  obtain r e m where r: "required_tenant tenant_id = Inr (strip tenant_id)"
    "normalize_item fresh item (strip tenant_id) (Some (cf_embedding_model_id cfg)) (Some (cf_embedding_dimensions cfg))
      (Some (cf_provider_model_id cfg)) = Inr r"
    "pack_vector (sm_embedding r) (Some (cf_embedding_dimensions cfg)) = Inr e" "encode_metadata (sm_metadata r) = Inr m"
    "row = memory_row_of (sm_tenant_id r) r e (cf_embedding_model_id cfg) (cf_embedding_dimensions cfg) m now"
    using assms by (auto simp: store_row_def bindE_eq_Inr)
  have "sm_tenant_id r = strip tenant_id" using normalize_item_Inr(1,2) [OF r(2)] by simp
  with r show thesis using that by simp
qed

lemma store_row_ok:
  assumes "store_row cfg now fresh tenant_id item = Inr row" "hex_text fresh"
  shows "row_ok cfg row" "ro_tenant_id row = strip tenant_id"
proof -
  obtain r e m where r: "normalize_item fresh item (strip tenant_id) (Some (cf_embedding_model_id cfg)) (Some (cf_embedding_dimensions cfg))
      (Some (cf_provider_model_id cfg)) = Inr r" "pack_vector (sm_embedding r) (Some (cf_embedding_dimensions cfg)) = Inr e"
    "encode_metadata (sm_metadata r) = Inr m" "row = memory_row_of (strip tenant_id) r e (cf_embedding_model_id cfg) (cf_embedding_dimensions cfg) m now"
    by (rule store_row_Inr [OF assms(1)])
  note n = normalize_item_Inr [OF r(1)]
  have "required_text (sm_item_id r) MAX_ITEM_ID_BYTES = Inr (sm_item_id r)" by (rule normalized_id [OF r(1) assms(2)])
  then show "row_ok cfg row" unfolding r(4) using n(1,3,5,6) r(2,3) by (intro written_row_ok) simp_all
  show "ro_tenant_id row = strip tenant_id" by (simp add: r(4) memory_row_of_def Let_def)
qed

section \<open>Tables\<close>

lemma row_key_eq [simp]: "row_key r = (t, i) \<longleftrightarrow> ro_tenant_id r = t \<and> ro_item_id r = i"
  by (simp add: row_key_def)

lemma set_upsert: "set (upsert row rows) \<subseteq> insert row (set rows)"
  by (auto simp: upsert_def)

lemma upsert_keys: "map row_key (upsert row rows) = (if row_key row \<in> row_key ` set rows then map row_key rows else map row_key rows @ [row_key row])"
  by (auto simp: upsert_def)

lemma rows_ok_upsert: "rows_ok cfg rows \<Longrightarrow> row_ok cfg row \<Longrightarrow> rows_ok cfg (upsert row rows)"
  using set_upsert [of row rows] by (auto simp: rows_ok_def upsert_keys list_all_iff)

lemma rows_ok_delete: "rows_ok cfg rows \<Longrightarrow> rows_ok cfg (sql_delete P rows)"
  by (auto simp: rows_ok_def list_all_iff intro: distinct_sql_delete)

lemma upsert_find: "distinct (map row_key rows) \<Longrightarrow> find (\<lambda>r. row_key r = row_key row) (upsert row rows) = Some row"
  by (induction rows) (auto simp: upsert_def)

lemma write_records_ok:
  "connection_ok cfg c \<Longrightarrow> (\<And>rows. rows_ok cfg rows \<Longrightarrow> rows_ok cfg (f rows)) \<Longrightarrow> connection_ok cfg (write_records f c)"
  by (auto simp: connection_ok_def write_records_def split: option.splits)

lemma visible_ok: "connection_ok cfg c \<Longrightarrow> rows_ok cfg (visible c)"
  by (auto simp: connection_ok_def visible_def split: option.splits)

lemma visible_write [simp]: "visible (write_records f c) = f (visible c)"
  by (auto simp: visible_def write_records_def split: option.splits)

lemma pending_write [simp]: "cn_pending (write_records f c) = None \<longleftrightarrow> cn_pending c = None"
  by (auto simp: write_records_def split: option.splits)

lemma record_from_row_ok:
  assumes "row_ok cfg row"
  shows "\<exists>item. record_from_row cfg row None = Inr item \<and> sm_item_id item = ro_item_id row \<and> sm_tenant_id item = ro_tenant_id row"
  using assms by (auto simp: row_ok_def record_from_row_def Let_def isl_def bindE_def split: sum.splits)

end
