(* ===== verification/Memory_Calls.thy ===== *)
theory Memory_Calls
  imports Memory_Store_Inv
begin

text \<open>
  The seven operations of the memory store as one system of calls, and its tenants.  A locale states when the calls of a
  system keep its owners apart (each call changes the view of its owner only, and depends on that view only); the
  answers to the calls of one owner are then the answers the owner gets when nobody else calls.  The memory store is an
  interpretation, as long as no batch import leaves its transaction open.
\<close>

section \<open>Packing never overflows on validated vectors\<close>

lemma round_half_even_le: "x \<le> of_int n \<Longrightarrow> round_half_even x \<le> n"
proof -
  assume x: "x \<le> of_int n"
  then have "\<lfloor>x\<rfloor> \<le> n" by (simp add: floor_le_iff)
  show ?thesis
  proof (cases "\<lfloor>x\<rfloor> = n")
    case True
    then have "x = of_int n" using x of_int_floor_le [of x] by simp
    then show ?thesis by simp
  next
    case False
    with \<open>\<lfloor>x\<rfloor> \<le> n\<close> show ?thesis by (auto simp: round_half_even_def Let_def)
  qed
qed

lemma exponent_field_less:
  assumes "exponent_field a < 254"
  shows "a < 2 ^ exponent_field a / 2 ^ 126"
proof (rule ccontr)
  let ?e = "exponent_field a" let ?P = "\<lambda>k. (2::rat) ^ k / 2 ^ 126 \<le> a"
  assume "\<not> a < 2 ^ ?e / 2 ^ 126"
  moreover have "(2::rat) ^ k \<le> 2 ^ ?e" if "k \<le> ?e" for k using that by (intro power_increasing) auto
  ultimately have "?P k" if "k \<le> ?e" for k using that by (meson divide_right_mono not_less order_trans zero_le_numeral zero_le_power)
  then have "filter ?P [1..<Suc ?e] = [1..<Suc ?e]" by (auto simp: filter_id_conv)
  moreover have "[1..<254] = [1..<Suc ?e] @ [Suc ?e..<254]" using assms by (metis Suc_leI le_add1 le_iff_add plus_1_eq_Suc upt_add_eq_append)
  ultimately have "length (filter ?P [1..<254]) \<ge> ?e" by simp
  then show False by (simp add: exponent_field_def)
qed

lemma exponent_field_le: "exponent_field a \<le> 254"
  using length_filter_le [of _ "[1..<254]"] by (simp add: exponent_field_def)

lemma magnitude_bits_range:
  assumes "0 \<le> a" "a \<le> FLOAT32_MAX"
  shows "magnitude_bits a < 255 * 2 ^ 23"
proof -
  let ?e = "exponent_field a" let ?r = "round_half_even (a * 2 ^ 149 / 2 ^ (?e - 1))"
  obtain d where d: "?e = Suc d" by (simp add: exponent_field_def)
  show ?thesis
  proof (cases "?e = 254")
    case True
    then have "d = 253" using d by simp
    moreover have "a * 2 ^ 149 / 2 ^ 253 \<le> (of_int (2 ^ 24 - 1) :: rat)" using assms(2) by (simp add: FLOAT32_MAX_def)
    then have "round_half_even (a * 2 ^ 149 / 2 ^ 253) \<le> 2 ^ 24 - 1" by (rule round_half_even_le)
    ultimately show ?thesis using True by (simp add: magnitude_bits_def Let_def)
  next
    case False
    then have "?e < 254" using exponent_field_le [of a] by simp
    then have "a < 2 ^ Suc d / 2 ^ 126" using exponent_field_less [of a] d by simp
    then have "a * 2 ^ 149 / 2 ^ d \<le> (of_int (2 ^ 24) :: rat)" by (simp add: field_simps)
    then have "?r \<le> 2 ^ 24" using round_half_even_le d by simp
    moreover have "d \<le> 252" using \<open>?e < 254\<close> d by simp
    ultimately show ?thesis using d by (simp add: magnitude_bits_def Let_def)
  qed
qed

lemma pack_floats_total: "list_all float_in_range vs \<Longrightarrow> \<exists>p. pack_floats vs = Inr p"
proof (induction vs)
  case (Cons v vs)
  then obtain q where "v = Fin q" "\<bar>q\<bar> \<le> FLOAT32_MAX" by (auto simp: float_in_range_def split: pyfloat.splits)
  then have "\<exists>b. pack_float v = Inr b" using magnitude_bits_range [of "\<bar>q\<bar>"] by (simp add: pack_float_def pack_bits_def Let_def)
  then show ?case using Cons by auto
qed simp

lemma pack_vector_no_overflow: "pack_vector vs dims \<noteq> Inl StoreOverflow"
  using pack_floats_total [of vs]
  by (auto simp: pack_vector_def bindE_eq_Inl validated_vector_def Let_def split: sum.splits if_splits)

section \<open>Calls\<close>

datatype memory_call =
    StoreCall string stored_memory
  | GetCall string string
  | RecallCall string "pyfloat list" "string option" "string option" "(string \<times> string) list" pyfloat int
  | DeleteCall string string
  | PruneCall string "int option"
  | ExportCall string "string option" "int option" "string option"
  | ImportCall string "stored_memory list" bool

datatype memory_result =
    ItemStored string
  | ItemFound "stored_memory option"
  | ItemsRecalled "scored_memory list"
  | ItemDeleted bool
  | ItemsPruned nat
  | ItemsExported "stored_memory list" string
  | ItemsImported nat

text \<open>What the environment contributes to one call: the clock, fresh identities, a failing statement, the order of rows and
  the cancellation.\<close>

record call_env =
  en_now :: int
  en_fresh :: "nat \<Rightarrow> string"
  en_fault :: "nat option"
  en_plan :: "memory_row list \<Rightarrow> memory_row list"
  en_cancelled :: "nat \<Rightarrow> bool"

definition result_as :: "('a \<Rightarrow> 'b) \<Rightarrow> 'e + 'a \<Rightarrow> 'e + 'b" where
  "result_as f r = bindE r (\<lambda>x. Inr (f x))"

definition run_call ::
    "store_config \<Rightarrow> float_ops \<Rightarrow> call_env \<times> memory_call \<Rightarrow> memory_connection \<Rightarrow> (store_error + memory_result) \<times> memory_connection" where
  "run_call cfg ops a c =
    (case a of (env, call) \<Rightarrow>
     let now = en_now env; fault = en_fault env \<noteq> None in
     (case call of
        StoreCall tenant item \<Rightarrow> apfst (result_as ItemStored) (store_memory cfg now (en_fresh env 0) fault tenant item c)
      | GetCall tenant i \<Rightarrow> (result_as ItemFound (get_memory cfg now fault tenant i c), c)
      | RecallCall tenant query scope subject filters similarity top_k \<Rightarrow>
          (result_as ItemsRecalled
             (recall_memory cfg ops (en_plan env) now fault (en_cancelled env) tenant query scope subject filters similarity top_k c), c)
      | DeleteCall tenant i \<Rightarrow> apfst (result_as ItemDeleted) (delete_memory fault tenant i c)
      | PruneCall tenant before \<Rightarrow> apfst (result_as ItemsPruned) (prune_memory now fault tenant before c)
      | ExportCall tenant scope limit token \<Rightarrow>
          (result_as (\<lambda>(items, next_token). ItemsExported items next_token) (export_batch cfg now fault tenant scope limit token c), c)
      | ImportCall tenant items overwrite \<Rightarrow>
          apfst (result_as ItemsImported) (import_batch cfg now (en_fresh env) (en_fault env) tenant items overwrite c)))"

fun call_tenant :: "memory_call \<Rightarrow> string" where
  "call_tenant (StoreCall t _) = t"
| "call_tenant (GetCall t _) = t"
| "call_tenant (RecallCall t _ _ _ _ _ _) = t"
| "call_tenant (DeleteCall t _) = t"
| "call_tenant (PruneCall t _) = t"
| "call_tenant (ExportCall t _ _ _) = t"
| "call_tenant (ImportCall t _ _) = t"

text \<open>The tenant a call acts for: the stripped text, or none when the request is refused.\<close>

definition call_owner :: "call_env \<times> memory_call \<Rightarrow> string" where
  "call_owner a = strip (call_tenant (snd a))"

definition tenant_rows :: "string \<Rightarrow> memory_row list \<Rightarrow> memory_row list" where
  "tenant_rows t rows = filter (\<lambda>r. ro_tenant_id r = t) rows"

definition tenant_view :: "string \<Rightarrow> memory_connection \<Rightarrow> memory_row list" where
  "tenant_view t c = tenant_rows t (visible c)"

section \<open>Tenants kept apart\<close>

fun answers :: "('a \<Rightarrow> 's \<Rightarrow> 'r \<times> 's) \<Rightarrow> 'a list \<Rightarrow> 's \<Rightarrow> ('a \<times> 'r) list" where
  "answers step [] s = []"
| "answers step (a # as) s = (a, fst (step a s)) # answers step as (snd (step a s))"

locale separated_owners =
  fixes step :: "'a \<Rightarrow> 's \<Rightarrow> 'r \<times> 's" and owner :: "'a \<Rightarrow> 't" and view :: "'t \<Rightarrow> 's \<Rightarrow> 'v"
    and settled :: "'s \<Rightarrow> bool" and regular :: "'a \<Rightarrow> bool"
  assumes settled_step: "settled s \<Longrightarrow> regular a \<Longrightarrow> settled (snd (step a s))"
    and respects: "settled s \<Longrightarrow> regular a \<Longrightarrow> owner a \<noteq> t \<Longrightarrow> view t (snd (step a s)) = view t s"
    and consistent: "settled s \<Longrightarrow> settled s' \<Longrightarrow> regular a \<Longrightarrow> view (owner a) s = view (owner a) s' \<Longrightarrow>
      fst (step a s) = fst (step a s') \<and> view (owner a) (snd (step a s)) = view (owner a) (snd (step a s'))"
begin

lemma noninterference:
  assumes "settled s" "settled s'" "list_all regular as" "view t s = view t s'"
  shows "filter (\<lambda>x. owner (fst x) = t) (answers step as s) = answers step (filter (\<lambda>a. owner a = t) as) s'"
  using assms
proof (induction as arbitrary: s s')
  case (Cons a as)
  show ?case
  proof (cases "owner a = t")
    case True
    then have "fst (step a s) = fst (step a s')" "view t (snd (step a s)) = view t (snd (step a s'))"
      using Cons.prems consistent [of s s' a] by simp_all
    then show ?thesis using True Cons.prems Cons.IH [of "snd (step a s)" "snd (step a s')"] by (simp add: settled_step)
  next
    case False
    then show ?thesis using Cons.prems Cons.IH [of "snd (step a s)" s'] by (simp add: settled_step respects)
  qed
qed simp

lemma others_invisible:
  assumes "settled s" "list_all regular as" "\<forall>a \<in> set as. owner a \<noteq> t"
  shows "view t (snd (foldl (\<lambda>x a. step a (snd x)) (r, s) as)) = view t s"
  using assms
proof (induction as arbitrary: r s)
  case (Cons a as)
  have "view t (snd (foldl (\<lambda>x a. step a (snd x)) (step a s) as)) = view t (snd (step a s))"
    using Cons.prems Cons.IH [of "snd (step a s)" "fst (step a s)"] by (simp add: settled_step)
  then show ?case using Cons.prems by (simp add: respects)
qed simp

end

section \<open>The memory store keeps tenants apart\<close>

lemma filter_tenant: "(\<And>r. P r \<Longrightarrow> ro_tenant_id r = t) \<Longrightarrow> filter P (tenant_rows t rows) = filter P rows"
  unfolding tenant_rows_def filter_filter by (rule filter_cong) auto

lemma find_tenant: "(\<And>r. P r \<Longrightarrow> ro_tenant_id r = t) \<Longrightarrow> find P (tenant_rows t rows) = find P rows"
  by (induction rows) (auto simp: tenant_rows_def)

lemma count_tenant: "(\<And>r. P r \<Longrightarrow> ro_tenant_id r = t) \<Longrightarrow> sql_count P (tenant_rows t rows) = sql_count P rows"
  by (simp add: sql_count_def filter_tenant)

lemma tenant_rows_delete: "tenant_rows t (sql_delete P rows) = sql_delete P (tenant_rows t rows)"
  by (simp add: tenant_rows_def sql_delete_def conj_commute)

lemma tenant_rows_delete_other: "(\<And>r. P r \<Longrightarrow> ro_tenant_id r \<noteq> t) \<Longrightarrow> tenant_rows t (sql_delete P rows) = tenant_rows t rows"
  unfolding tenant_rows_def sql_delete_def filter_filter by (rule filter_cong) auto

lemma tenant_key: "ro_tenant_id row = t \<Longrightarrow> row_key row \<in> row_key ` set (tenant_rows t rows) \<longleftrightarrow> row_key row \<in> row_key ` set rows"
  unfolding image_iff row_key_def tenant_rows_def by auto metis

lemma tenant_rows_upsert: "ro_tenant_id row = t \<Longrightarrow> tenant_rows t (upsert row rows) = upsert row (tenant_rows t rows)"
proof -
  assume t: "ro_tenant_id row = t"
  have "tenant_rows t (map (\<lambda>r. if row_key r = row_key row then row else r) rows)
      = map (\<lambda>r. if row_key r = row_key row then row else r) (tenant_rows t rows)"
    using t by (induction rows) (auto simp: tenant_rows_def row_key_def)
  then show ?thesis using t tenant_key [OF t, of rows] by (simp add: upsert_def) (simp add: tenant_rows_def)
qed

lemma tenant_rows_upsert_other: "ro_tenant_id row \<noteq> t \<Longrightarrow> tenant_rows t (upsert row rows) = tenant_rows t rows"
proof -
  assume t: "ro_tenant_id row \<noteq> t"
  have "tenant_rows t (map (\<lambda>r. if row_key r = row_key row then row else r) rows) = tenant_rows t rows"
    using t by (induction rows) (auto simp: tenant_rows_def row_key_def)
  then show ?thesis using t by (simp add: upsert_def) (simp add: tenant_rows_def)
qed

text \<open>The rows of an import carry the tenant of the request, and the loop depends on and changes the rows of that tenant
  only.\<close>

lemma import_row_tenant: "import_row cfg tenant now item = Inr row \<Longrightarrow> ro_tenant_id row = tenant \<and> ro_item_id row = sm_item_id item"
  by (auto simp: import_row_def bindE_eq_Inr Let_def memory_row_of_def)

lemma import_write_tenant:
  assumes "ro_tenant_id row = tenant"
  shows "import_write overwrite row (tenant_rows tenant rows, n)
    = apfst (tenant_rows tenant) (import_write overwrite row (rows, n))"
  using assms tenant_key [OF assms, of rows] tenant_rows_upsert [OF assms] by (simp add: import_write_def)

lemma import_rows_tenant:
  "import_rows cfg tenant now overwrite fault i items (tenant_rows tenant rows, n)
   = apsnd (apfst (tenant_rows tenant)) (import_rows cfg tenant now overwrite fault i items (rows, n))"
proof (induction items arbitrary: i rows n)
  case (Cons item items)
  show ?case
  proof (cases "import_row cfg tenant now item")
    case (Inr row)
    obtain rows' n' where w: "import_write overwrite row (rows, n) = (rows', n')" by (cases "import_write overwrite row (rows, n)")
    then have "import_write overwrite row (tenant_rows tenant rows, n) = (tenant_rows tenant rows', n')"
      using import_write_tenant [OF import_row_tenant [OF Inr, THEN conjunct1]] by simp
    then show ?thesis using Inr w Cons.IH by simp
  qed simp
qed simp

lemma import_rows_other:
  "t \<noteq> tenant \<Longrightarrow> tenant_rows t (fst (snd (import_rows cfg tenant now overwrite fault i items (rows, n)))) = tenant_rows t rows"
proof (induction items arbitrary: i rows n)
  case (Cons item items)
  show ?case
  proof (cases "import_row cfg tenant now item")
    case (Inr row)
    obtain rows' n' where w: "import_write overwrite row (rows, n) = (rows', n')" by (cases "import_write overwrite row (rows, n)")
    moreover have "tenant_rows t rows' = tenant_rows t rows"
      using w tenant_rows_upsert_other import_row_tenant [OF Inr] Cons.prems by (auto simp: import_write_def split: if_splits)
    ultimately show ?thesis using Inr Cons by simp
  qed simp
qed simp

text \<open>An item whose times fit the columns of the table.\<close>

definition times_fit :: "int \<Rightarrow> stored_memory \<Rightarrow> bool" where
  "times_fit now item \<longleftrightarrow>
    (let created = (if sm_created_at_ms item \<le> 0 then now else sm_created_at_ms item) in
     int64 created \<and> pred_option int64 (effective_expiry created (sm_expires_at_ms item) (sm_ttl_seconds item))
     \<and> pred_option int64 (sm_ttl_seconds item))"

definition regular_call :: "call_env \<times> memory_call \<Rightarrow> bool" where
  "regular_call a = (case snd a of ImportCall _ items _ \<Rightarrow> list_all (times_fit (en_now (fst a))) items | _ \<Rightarrow> True)"

lemma import_item_Inr:
  assumes "import_item cfg tenant fresh item = Inr r"
  obtains d where "normalize_item fresh (item\<lparr>sm_metadata := d\<rparr>) tenant (Some (cf_embedding_model_id cfg)) (Some (cf_embedding_dimensions cfg))
      (Some (cf_provider_model_id cfg)) = Inr r"
  using assms by (auto simp: import_item_def bindE_eq_Inr Let_def)

lemma profile_dimensions: "profile_from_metadata d m = Inr (model, Some n) \<Longrightarrow> 1 \<le> n \<and> n \<le> 4096"
  by (auto simp: profile_from_metadata_def bindE_eq_Inr split: option.splits)

lemma import_row_bindable:
  assumes "import_item cfg tenant fresh item = Inr r" "import_row cfg tenant now r = Inr row" "times_fit now item"
  shows "bindable row"
proof -
  obtain d where n: "normalize_item fresh (item\<lparr>sm_metadata := d\<rparr>) tenant (Some (cf_embedding_model_id cfg)) (Some (cf_embedding_dimensions cfg))
      (Some (cf_provider_model_id cfg)) = Inr r" using import_item_Inr [OF assms(1)] .
  have r: "sm_created_at_ms r = max 0 (sm_created_at_ms item)" "sm_expires_at_ms r = sm_expires_at_ms item" "sm_ttl_seconds r = sm_ttl_seconds item"
    using normalize_item_Inr(1) [OF n] by simp_all
  obtain model declared e m where row: "profile_from_metadata (sm_metadata r) (Some (cf_embedding_model_id cfg)) = Inr (model, declared)"
    "pack_vector (sm_embedding r) (Some (case declared of None \<Rightarrow> int (length (sm_embedding r)) | Some n \<Rightarrow> n)) = Inr e"
    "row = memory_row_of tenant r e model (case declared of None \<Rightarrow> int (length (sm_embedding r)) | Some n \<Rightarrow> n) m now"
    using assms(2) by (auto simp: import_row_def bindE_eq_Inr Let_def)
  have "int64 (case declared of None \<Rightarrow> int (length (sm_embedding r)) | Some n \<Rightarrow> n)"
    using row(1,2) profile_dimensions by (fastforce simp: int64_def pack_vector_Inr validated_vector_Inr split: option.splits)
  then show ?thesis using assms(3) r by (auto simp: row(3) memory_row_of_def bindable_def times_fit_def Let_def max_def split: if_splits)
qed

lemma import_row_no_overflow: "import_row cfg tenant now r \<noteq> Inl StoreOverflow"
  using pack_vector_no_overflow
  by (auto simp: import_row_def bindE_eq_Inl Let_def encode_metadata_def profile_from_metadata_def required_text_def bounded_integer_def
      split: option.splits if_splits)

lemma mapE_Inr: "mapE f xs = Inr ys \<longleftrightarrow> list_all2 (\<lambda>x y. f x = Inr y) xs ys"
  by (induction xs arbitrary: ys) (auto simp: bindE_eq_Inr list_all2_Cons1)

lemma import_rows_no_overflow:
  assumes "\<forall>r \<in> set rs. \<exists>item fresh. import_item cfg tenant fresh item = Inr r \<and> times_fit now item"
  shows "fst (import_rows cfg tenant now overwrite fault i rs s) \<noteq> Some StoreOverflow"
  using assms
proof (induction rs arbitrary: i s)
  case (Cons r rs)
  show ?case
  proof (cases "import_row cfg tenant now r")
    case (Inl e)
    then show ?thesis using import_row_no_overflow by auto
  next
    case (Inr row)
    then have "bindable row" using Cons.prems import_row_bindable by fastforce
    then show ?thesis using Inr Cons by (simp add: storage_error_def)
  qed
qed simp

lemma import_items_Inr:
  assumes "import_items cfg fresh tenant_id items = Inr (tenant, rs)"
  shows "required_text tenant_id 256 = Inr tenant" "tenant = strip tenant_id"
    "list_all2 (\<lambda>(i, item) r. import_item cfg tenant (fresh i) item = Inr r) (enumerate 0 items) rs" "distinct (map sm_item_id rs)"
    "length items \<le> MAX_BATCH_ITEMS"
  using assms by (auto simp: import_items_def bindE_eq_Inr mapE_Inr case_prod_unfold simp del: required_text_Inr) auto

lemma import_items_range:
  assumes "import_items cfg fresh tenant_id items = Inr (tenant, rs)" "list_all (times_fit now) items"
  shows "\<forall>r \<in> set rs. \<exists>item fresh. import_item cfg tenant fresh item = Inr r \<and> times_fit now item"
proof
  fix r assume "r \<in> set rs"
  then obtain k where k: "k < length rs" "r = rs ! k" by (auto simp: in_set_conv_nth)
  have l2: "list_all2 (\<lambda>(i, item) r. import_item cfg tenant (fresh i) item = Inr r) (enumerate 0 items) rs"
    by (rule import_items_Inr(3) [OF assms(1)])
  then have len: "length rs = length items" by (metis length_enumerate list_all2_lengthD)
  then have "import_item cfg tenant (fresh k) (items ! k) = Inr r"
    using list_all2_nthD2 [OF l2 k(1)] k by (simp add: nth_enumerate_eq)
  moreover have "times_fit now (items ! k)" using assms(2) k(1) len by (simp add: list_all_length)
  ultimately show "\<exists>item fresh. import_item cfg tenant fresh item = Inr r \<and> times_fit now item" by blast
qed

text \<open>The transaction of an import, when no other one is open and the times fit.\<close>

definition import_outcome ::
    "store_config \<Rightarrow> int \<Rightarrow> nat option \<Rightarrow> string \<Rightarrow> stored_memory list \<Rightarrow> bool \<Rightarrow> memory_row list \<Rightarrow> (store_error + nat) \<times> memory_row list" where
  "import_outcome cfg now fault tenant rs overwrite rows =
    (if fault = Some 0 then (Inl storage_error, rows)
     else
       (case import_rows cfg tenant now overwrite fault 1 rs (rows, 0) of
          (Some e, _) \<Rightarrow> (Inl e, rows)
        | (None, rows', n) \<Rightarrow> if fault = Some (length rs + 1) then (Inl storage_error, rows) else (Inr n, rows')))"

lemma import_settled:
  assumes "cn_pending c = None" "list_all (times_fit now) items"
  shows "import_batch cfg now fresh fault tenant_id items overwrite c =
    (case import_items cfg fresh tenant_id items of
       Inl e \<Rightarrow> (Inl e, c)
     | Inr (tenant, rs) \<Rightarrow>
        (fst (import_outcome cfg now fault tenant rs overwrite (visible c)),
         write_records (\<lambda>rows. snd (import_outcome cfg now fault tenant rs overwrite rows)) c))"
proof (cases "import_items cfg fresh tenant_id items")
  case (Inr p)
  obtain tenant rs where p: "p = (tenant, rs)" by (cases p)
  obtain e rows n where i: "import_rows cfg tenant now overwrite fault 1 rs (db_records (cn_committed c), 0) = (e, rows, n)"
    by (cases "import_rows cfg tenant now overwrite fault 1 rs (db_records (cn_committed c), 0)")
  have "e \<noteq> Some StoreOverflow"
    using import_rows_no_overflow [OF import_items_range [OF Inr [unfolded p] assms(2)], of overwrite fault 1 "(db_records (cn_committed c), 0)"] i
    by simp
  moreover have "c\<lparr>cn_committed := (cn_committed c)\<lparr>db_records := db_records (cn_committed c)\<rparr>\<rparr> = c" "c\<lparr>cn_pending := None\<rparr> = c"
    using assms(1) by simp_all
  ultimately show ?thesis
    using Inr p i assms(1)
    by (auto simp: import_batch_def import_outcome_def visible_def write_records_def Let_def split: option.splits store_error.splits)
qed (simp add: import_batch_def)

lemma import_outcome_tenant:
  "import_outcome cfg now fault tenant rs overwrite (tenant_rows tenant rows)
   = apsnd (tenant_rows tenant) (import_outcome cfg now fault tenant rs overwrite rows)"
proof -
  obtain e rows' n where i: "import_rows cfg tenant now overwrite fault 1 rs (rows, 0) = (e, rows', n)"
    by (cases "import_rows cfg tenant now overwrite fault 1 rs (rows, 0)")
  then show ?thesis
    using import_rows_tenant [of cfg tenant now overwrite fault 1 rs rows 0] by (auto simp: import_outcome_def split: option.splits)
qed

lemma import_outcome_other:
  "t \<noteq> tenant \<Longrightarrow> tenant_rows t (snd (import_outcome cfg now fault tenant rs overwrite rows)) = tenant_rows t rows"
  using import_rows_other [of t tenant cfg now overwrite fault 1 rs rows 0]
  by (auto simp: import_outcome_def split: option.splits prod.splits)

lemma store_row_tenant: "store_row cfg now fresh tenant_id item = Inr row \<Longrightarrow> ro_tenant_id row = strip tenant_id"
  by (elim store_row_Inr) (simp add: memory_row_of_def Let_def)

lemma run_call_settled:
  assumes "cn_pending c = None" "regular_call a"
  shows "cn_pending (snd (run_call cfg ops a c)) = None"
proof (cases a)
  case (Pair env call)
  show ?thesis
  proof (cases call)
    case (ImportCall t items ow)
    then show ?thesis
      using Pair assms import_settled [of c "en_now env" items cfg "en_fresh env" "en_fault env" t ow]
      by (auto simp: run_call_def regular_call_def split: sum.splits)
  qed (use Pair assms in \<open>auto simp: run_call_def Let_def store_memory_def delete_memory_def prune_memory_def split: sum.splits\<close>)
qed

lemma run_call_respects:
  assumes "cn_pending c = None" "regular_call a" "call_owner a \<noteq> t"
  shows "tenant_view t (snd (run_call cfg ops a c)) = tenant_view t c"
proof (cases a)
  case (Pair env call)
  show ?thesis
  proof (cases call)
    case (StoreCall tn item)
    then show ?thesis
      using Pair assms store_row_tenant
      by (auto simp: run_call_def Let_def store_memory_def tenant_view_def call_owner_def tenant_rows_upsert_other split: sum.splits)
  next
    case (DeleteCall tn i)
    then show ?thesis
      using Pair assms
      by (auto simp: run_call_def Let_def delete_memory_def tenant_view_def call_owner_def bindE_eq_Inr
          split: sum.splits intro!: tenant_rows_delete_other)
  next
    case (PruneCall tn before)
    then show ?thesis
      using Pair assms
      by (auto simp: run_call_def Let_def prune_memory_def tenant_view_def call_owner_def split: sum.splits
          intro!: tenant_rows_delete_other)
  next
    case (ImportCall tn items ow)
    then show ?thesis
      using Pair assms import_items_Inr(2) import_settled [of c "en_now env" items cfg "en_fresh env" "en_fault env" tn ow]
      by (auto simp: run_call_def regular_call_def tenant_view_def call_owner_def import_outcome_other split: sum.splits)
  qed (simp_all add: Pair run_call_def Let_def)
qed

text \<open>Two connections that agree on the rows of one tenant.\<close>

definition same_rows :: "string \<Rightarrow> memory_connection \<Rightarrow> memory_connection \<Rightarrow> bool" where
  "same_rows t c c' \<longleftrightarrow> tenant_view t c = tenant_view t c'"

lemma same_rows_select:
  assumes "same_rows t c c'" "\<And>r. P r \<Longrightarrow> ro_tenant_id r = t"
  shows "filter P (visible c) = filter P (visible c')" "find P (visible c) = find P (visible c')"
    "sql_count P (visible c) = sql_count P (visible c')"
  using assms(1) filter_tenant [OF assms(2)] find_tenant [OF assms(2)] count_tenant [OF assms(2)]
  unfolding same_rows_def tenant_view_def by metis+

lemma same_rows_delete: "same_rows t c c' \<Longrightarrow> same_rows t (write_records (sql_delete P) c) (write_records (sql_delete P) c')"
  by (simp add: same_rows_def tenant_view_def tenant_rows_delete)

lemma same_rows_upsert:
  "same_rows t c c' \<Longrightarrow> ro_tenant_id row = t \<Longrightarrow> same_rows t (write_records (upsert row) c) (write_records (upsert row) c')"
  by (simp add: same_rows_def tenant_view_def tenant_rows_upsert)

lemma same_store:
  assumes "same_rows (strip tn) c c'"
  shows "fst (store_memory cfg now fresh fault tn item c) = fst (store_memory cfg now fresh fault tn item c')
    \<and> same_rows (strip tn) (snd (store_memory cfg now fresh fault tn item c)) (snd (store_memory cfg now fresh fault tn item c'))"
  using assms store_row_tenant [of cfg now fresh tn item] same_rows_upsert [OF assms(1)]
  by (auto simp: store_memory_def split: sum.splits if_splits)

lemma same_get:
  assumes "same_rows (strip tn) c c'"
  shows "get_memory cfg now fault tn i c = get_memory cfg now fault tn i c'"
proof (cases "required_tenant tn")
  case (Inr t)
  then have "t = strip tn" by simp
  then show ?thesis
    using same_rows_select(2) [OF assms, of "\<lambda>r. ro_tenant_id r = t \<and> ro_item_id r = j \<and> unexpired now r" for j] Inr
    by (simp add: get_memory_def del: required_tenant_Inr cong: if_cong)
qed (simp add: get_memory_def)

lemma same_recall:
  assumes "same_rows (strip tn) c c'"
  shows "recall_memory cfg ops plan now fault cancelled tn query scope subject filters similarity top_k c
    = recall_memory cfg ops plan now fault cancelled tn query scope subject filters similarity top_k c'"
proof (cases "required_tenant tn")
  case (Inr t)
  then have "t = strip tn" by simp
  then show ?thesis
    using same_rows_select(1) [OF assms, of "recall_row cfg now t scope subject"] Inr
    by (simp add: recall_memory_def recall_row_def [abs_def] del: required_tenant_Inr cong: if_cong)
qed (simp add: recall_memory_def)

lemma same_delete:
  assumes "same_rows (strip tn) c c'"
  shows "fst (delete_memory fault tn i c) = fst (delete_memory fault tn i c')
    \<and> same_rows (strip tn) (snd (delete_memory fault tn i c)) (snd (delete_memory fault tn i c'))"
proof (cases "required_tenant tn")
  case (Inr t)
  then have t: "t = strip tn" by simp
  have "sql_count (\<lambda>r. row_key r = (strip tn, j)) (visible c) = sql_count (\<lambda>r. row_key r = (strip tn, j)) (visible c')" for j
    by (rule same_rows_select(3) [OF assms(1)]) simp
  then show ?thesis
    using Inr t same_rows_delete [OF assms(1)] assms(1)
    by (cases "required_text i MAX_ITEM_ID_BYTES") (simp_all add: delete_memory_def del: required_tenant_Inr required_text_Inr row_key_eq)
qed (use assms in \<open>simp add: delete_memory_def\<close>)

lemma same_prune:
  assumes "same_rows (strip tn) c c'"
  shows "fst (prune_memory now fault tn before c) = fst (prune_memory now fault tn before c')
    \<and> same_rows (strip tn) (snd (prune_memory now fault tn before c)) (snd (prune_memory now fault tn before c'))"
proof (cases "required_tenant tn")
  case (Inr t)
  then have t: "t = strip tn" by simp
  let ?P = "\<lambda>r. ro_tenant_id r = strip tn \<and> prunable now before r"
  have "sql_count ?P (visible c) = sql_count ?P (visible c')" by (rule same_rows_select(3) [OF assms(1)]) simp
  then show ?thesis
    using Inr t same_rows_delete [OF assms(1)] assms(1)
    by (auto simp: prune_memory_def Let_def simp del: required_tenant_Inr split: sum.splits if_splits)
qed (use assms in \<open>auto simp: prune_memory_def\<close>)

lemma same_export:
  assumes "same_rows (strip tn) c c'"
  shows "export_batch cfg now fault tn scope limit token c = export_batch cfg now fault tn scope limit token c'"
proof (cases "required_tenant tn")
  case (Inr t)
  then have "t = strip tn" by simp
  then have "filter (export_row now t scope a) (visible c) = filter (export_row now t scope a) (visible c')" for a
    by (intro same_rows_select(1) [OF assms]) (simp add: export_row_def)
  then show ?thesis using Inr by (simp add: export_batch_def Let_def del: required_tenant_Inr cong: if_cong)
qed (simp add: export_batch_def)

lemma same_import:
  assumes "same_rows (strip tn) c c'" "cn_pending c = None" "cn_pending c' = None" "list_all (times_fit now) items"
  shows "fst (import_batch cfg now fresh fault tn items overwrite c) = fst (import_batch cfg now fresh fault tn items overwrite c')
    \<and> same_rows (strip tn) (snd (import_batch cfg now fresh fault tn items overwrite c)) (snd (import_batch cfg now fresh fault tn items overwrite c'))"
proof (cases "import_items cfg fresh tn items")
  case (Inl e)
  then show ?thesis using assms import_settled [OF assms(2,4)] import_settled [OF assms(3,4)] by simp
next
  case (Inr p)
  obtain t rs where p: "p = (t, rs)" by (cases p)
  have t: "t = strip tn" using import_items_Inr(2) Inr p by blast
  have rows: "tenant_rows t (visible c) = tenant_rows t (visible c')" using assms(1) t by (simp add: same_rows_def tenant_view_def)
  have "apsnd (tenant_rows t) (import_outcome cfg now fault t rs overwrite (visible c))
      = apsnd (tenant_rows t) (import_outcome cfg now fault t rs overwrite (visible c'))"
    by (metis import_outcome_tenant rows)
  then show ?thesis
    using Inr p t import_settled [OF assms(2,4)] import_settled [OF assms(3,4)]
    by (auto simp: same_rows_def tenant_view_def prod_eq_iff)
qed

lemma run_call_consistent:
  assumes "cn_pending c = None" "cn_pending c' = None" "regular_call a" "same_rows (call_owner a) c c'"
  shows "fst (run_call cfg ops a c) = fst (run_call cfg ops a c') \<and> same_rows (call_owner a) (snd (run_call cfg ops a c)) (snd (run_call cfg ops a c'))"
proof -
  obtain env call where a: "a = (env, call)" by (cases a)
  have same: "same_rows (strip (call_tenant call)) c c'" using assms(4) a by (simp add: call_owner_def)
  show ?thesis
  proof (cases call)
    case (StoreCall tn item)
    then show ?thesis using same_store [of tn c c'] same by (simp add: a run_call_def Let_def call_owner_def)
  next
    case (DeleteCall tn i)
    then show ?thesis using same_delete [of tn c c'] same by (simp add: a run_call_def Let_def call_owner_def)
  next
    case (PruneCall tn before)
    then show ?thesis using same_prune [of tn c c'] same by (simp add: a run_call_def Let_def call_owner_def)
  next
    case (ImportCall tn items ow)
    then show ?thesis using same_import [of tn c c' "en_now env" items] same assms(1-3) by (simp add: a run_call_def Let_def call_owner_def regular_call_def)
  qed (use same same_get same_recall same_export in \<open>simp_all add: a run_call_def Let_def call_owner_def\<close>)
qed

interpretation tenants: separated_owners "run_call cfg ops" call_owner tenant_view "\<lambda>c. cn_pending c = None" regular_call
  for cfg ops
proof (unfold_locales, goal_cases)
  case 1
  then show ?case by (rule run_call_settled)
next
  case 2
  then show ?case by (rule run_call_respects)
next
  case 3
  then show ?case using run_call_consistent unfolding same_rows_def by blast
qed

end
