(* ===== verification/Memory_Contract.thy ===== *)
theory Memory_Contract
  imports Proto_Wire "HOL-Library.AList"
begin

text \<open>
  The messages of the memory capability and their codecs, \<open>cyrene_memory_provider_contracts/memory.py\<close>: every request and response
  type with its encoder and decoder.  A dictionary is the list of its items in insertion order.  The front ends that
  select a codec by method name are in \<open>Memory_Messages\<close>, the lemmas that messages read back in \<open>Memory_Codecs\<close>.
\<close>

section \<open>Messages\<close>

record memory_item =
  mi_item_id :: string
  mi_tenant_id :: string
  mi_scope :: string
  mi_subject :: string
  mi_content :: string
  mi_embedding :: "pyfloat list"
  mi_metadata :: "(string \<times> string) list"
  mi_created_at_ms :: int
  mi_expires_at_ms :: "int option"
  mi_ttl_seconds :: "int option"

record memory_match =
  mm_item :: memory_item
  mm_score :: pyfloat

record memory_error =
  me_code :: int
  me_message :: string
  me_retryable :: bool

record store_memory_request =
  st_tenant_id :: string
  st_item :: memory_item

record get_memory_request =
  gt_tenant_id :: string
  gt_item_id :: string

record recall_memory_request =
  rc_tenant_id :: string
  rc_scope :: "string option"
  rc_subject :: "string option"
  rc_query_embedding :: "pyfloat list"
  rc_query_text :: "string option"
  rc_metadata_filters :: "(string \<times> string) list"
  rc_min_similarity :: "pyfloat option"
  rc_top_k :: "int option"

record delete_memory_request =
  de_tenant_id :: string
  de_item_id :: string

record prune_memory_request =
  pr_tenant_id :: string
  pr_before_timestamp_ms :: "int option"

record export_memory_request =
  xp_tenant_id :: string
  xp_scope :: "string option"
  xp_limit :: "int option"
  xp_page_token :: "string option"

record import_memory_request =
  im_tenant_id :: string
  im_items :: "memory_item list"
  im_overwrite :: bool

text \<open>A response holds a value or an error; the export response has a page token besides.\<close>

record 'a memory_response =
  mr_value :: "'a option"
  mr_error :: "memory_error option"

record export_memory_response = "memory_item list memory_response" +
  xr_next_page_token :: string

section \<open>Fields\<close>

definition encode_optional_string :: "nat \<Rightarrow> string option \<Rightarrow> bytes" where
  "encode_optional_string number v = (case v of None \<Rightarrow> [] | Some s \<Rightarrow> encode_len_delimited number s)"

definition int64_mask :: "int \<Rightarrow> nat" where
  "int64_mask v = nat (v mod 2 ^ 64)"

definition encode_optional_int :: "nat \<Rightarrow> int option \<Rightarrow> bytes" where
  "encode_optional_int number v = (case v of None \<Rightarrow> [] | Some i \<Rightarrow> encode_tag number 0 @ varint_bytes (int64_mask i))"

definition encode_optional_float :: "nat \<Rightarrow> pyfloat option \<Rightarrow> codec_error + bytes" where
  "encode_optional_float number v =
    (case v of None \<Rightarrow> Inr [] | Some f \<Rightarrow> bindE (pack_float f) (\<lambda>b. Inr (encode_tag number 5 @ b)))"

definition encode_count :: "nat \<Rightarrow> int option \<Rightarrow> codec_error + bytes" where
  "encode_count number v =
    (case v of None \<Rightarrow> Inr [] | Some i \<Rightarrow> bindE (encode_varint i) (\<lambda>b. Inr (encode_tag number 0 @ b)))"

definition encode_bool :: "nat \<Rightarrow> bool \<Rightarrow> bytes" where
  "encode_bool number v = encode_tag number 0 @ varint_bytes (of_bool v)"

definition map_entry :: "string \<times> string \<Rightarrow> bytes" where
  "map_entry e = encode_optional_string 1 (Some (fst e)) @ encode_optional_string 2 (Some (snd e))"

definition encode_map :: "nat \<Rightarrow> (string \<times> string) list \<Rightarrow> bytes" where
  "encode_map number d = concat (map (\<lambda>e. encode_len_delimited number (map_entry e)) (sort_key fst d))"

fun is_len :: "wire_value \<Rightarrow> bool" where
  "is_len (WireLen p) = True"
| "is_len _ = False"

fun decode_string :: "wire_value \<Rightarrow> codec_error + string" where
  "decode_string (WireVarint v) = Inl MemoryCodecError"
| "decode_string (WireLen p) = (if utf8_strict p then Inr p else Inl MemoryCodecError)"
| "decode_string (WireFixed32 p) = (if utf8_strict p then Inr p else Inl MemoryCodecError)"
| "decode_string (WireFixed64 p) = (if utf8_strict p then Inr p else Inl MemoryCodecError)"

fun decode_float :: "wire_value \<Rightarrow> codec_error + pyfloat" where
  "decode_float (WireFixed32 [a, b, c, d]) = Inr (unpack_bits (bytes_word a b c d))"
| "decode_float _ = Inl MemoryCodecError"

fun decode_float_repeated :: "wire_value \<Rightarrow> codec_error + pyfloat list" where
  "decode_float_repeated (WireLen p) = decode_packed_floats p"
| "decode_float_repeated w = bindE (decode_float w) (\<lambda>f. Inr [f])"

fun decode_int64 :: "wire_value \<Rightarrow> codec_error + int" where
  "decode_int64 (WireVarint v) = Inr (if odd (v div 2 ^ 63) then int v - 2 ^ 64 else int v)"
| "decode_int64 _ = Inl MemoryCodecError"

fun payload_of :: "wire_value \<Rightarrow> bytes" where
  "payload_of (WireLen p) = p"
| "payload_of (WireFixed32 p) = p"
| "payload_of (WireFixed64 p) = p"
| "payload_of (WireVarint v) = []"

definition map_step :: "nat \<times> wire_value \<Rightarrow> string \<times> string \<Rightarrow> codec_error + (string \<times> string)" where
  "map_step f e =
    (case f of (number, w) \<Rightarrow>
       if number = 1 \<and> is_len w then bindE (decode_string w) (\<lambda>k. Inr (k, snd e))
       else if number = 2 \<and> is_len w then bindE (decode_string w) (\<lambda>v. Inr (fst e, v))
       else Inr e)"

definition decode_map :: "wire_value \<Rightarrow> codec_error + (string \<times> string)" where
  "decode_map w =
    (case w of WireVarint _ \<Rightarrow> Inl MemoryCodecError | _ \<Rightarrow> fold_fields map_step (payload_of w) ([], []))"

section \<open>Items, matches and errors\<close>

definition encode_memory_item :: "memory_item \<Rightarrow> codec_error + bytes" where
  "encode_memory_item item =
    bindE (encode_packed_floats 6 (mi_embedding item)) (\<lambda>floats.
      Inr (encode_string_field 1 (mi_item_id item) @ encode_string_field 2 (mi_tenant_id item)
        @ encode_string_field 3 (mi_scope item) @ encode_string_field 4 (mi_subject item)
        @ encode_string_field 5 (mi_content item) @ floats @ encode_map 7 (mi_metadata item)
        @ (if mi_created_at_ms item \<noteq> 0 then encode_tag 8 0 @ varint_bytes (int64_mask (mi_created_at_ms item)) else [])
        @ encode_optional_int 9 (mi_expires_at_ms item) @ encode_optional_int 10 (mi_ttl_seconds item)))"

definition empty_item :: memory_item where
  "empty_item =
    \<lparr>mi_item_id = [], mi_tenant_id = [], mi_scope = [], mi_subject = [], mi_content = [], mi_embedding = [], mi_metadata = [],
     mi_created_at_ms = 0, mi_expires_at_ms = None, mi_ttl_seconds = None\<rparr>"

definition item_step :: "nat \<times> wire_value \<Rightarrow> memory_item \<Rightarrow> codec_error + memory_item" where
  "item_step f s =
    (case f of (number, w) \<Rightarrow>
       if number = 1 \<and> is_len w then bindE (decode_string w) (\<lambda>v. Inr (s\<lparr>mi_item_id := v\<rparr>))
       else if number = 2 \<and> is_len w then bindE (decode_string w) (\<lambda>v. Inr (s\<lparr>mi_tenant_id := v\<rparr>))
       else if number = 3 \<and> is_len w then bindE (decode_string w) (\<lambda>v. Inr (s\<lparr>mi_scope := v\<rparr>))
       else if number = 4 \<and> is_len w then bindE (decode_string w) (\<lambda>v. Inr (s\<lparr>mi_subject := v\<rparr>))
       else if number = 5 \<and> is_len w then bindE (decode_string w) (\<lambda>v. Inr (s\<lparr>mi_content := v\<rparr>))
       else if number = 6 then bindE (decode_float_repeated w) (\<lambda>v. Inr (s\<lparr>mi_embedding := mi_embedding s @ v\<rparr>))
       else if number = 7 \<and> is_len w then bindE (decode_map w) (\<lambda>(k, v). Inr (s\<lparr>mi_metadata := AList.update k v (mi_metadata s)\<rparr>))
       else if number = 8 then bindE (decode_int64 w) (\<lambda>v. Inr (s\<lparr>mi_created_at_ms := v\<rparr>))
       else if number = 9 then bindE (decode_int64 w) (\<lambda>v. Inr (s\<lparr>mi_expires_at_ms := Some v\<rparr>))
       else if number = 10 then bindE (decode_int64 w) (\<lambda>v. Inr (s\<lparr>mi_ttl_seconds := Some v\<rparr>))
       else Inr s)"

definition decode_memory_item :: "bytes \<Rightarrow> codec_error + memory_item" where
  "decode_memory_item payload = fold_fields item_step payload empty_item"

definition encode_match :: "memory_match \<Rightarrow> codec_error + bytes" where
  "encode_match m =
    bindE (if mm_score m \<noteq> Fin 0 then encode_optional_float 2 (Some (mm_score m)) else Inr []) (\<lambda>score.
    bindE (encode_memory_item (mm_item m)) (\<lambda>item. Inr (encode_len_delimited 1 item @ score)))"

definition match_step :: "nat \<times> wire_value \<Rightarrow> memory_item option \<times> pyfloat \<Rightarrow> codec_error + (memory_item option \<times> pyfloat)" where
  "match_step f s =
    (case f of (number, w) \<Rightarrow>
       if number = 1 \<and> is_len w then bindE (decode_memory_item (payload_of w)) (\<lambda>item. Inr (Some item, snd s))
       else if number = 2 then bindE (decode_float w) (\<lambda>v. Inr (fst s, v))
       else Inr s)"

definition decode_match :: "bytes \<Rightarrow> codec_error + memory_match" where
  "decode_match payload =
    bindE (fold_fields match_step payload (None, Fin 0)) (\<lambda>(item, score).
      case item of None \<Rightarrow> Inl MemoryCodecError | Some i \<Rightarrow> Inr \<lparr>mm_item = i, mm_score = score\<rparr>)"

definition encode_error :: "memory_error \<Rightarrow> codec_error + bytes" where
  "encode_error e =
    bindE (encode_count 1 (if me_code e \<noteq> 0 then Some (me_code e) else None)) (\<lambda>code.
      Inr (code @ encode_string_field 2 (me_message e) @ (if me_retryable e then encode_bool 3 True else [])))"

definition error_step :: "nat \<times> wire_value \<Rightarrow> memory_error \<Rightarrow> codec_error + memory_error" where
  "error_step f s =
    (case f of
       (number, WireVarint v) \<Rightarrow>
         Inr (if number = 1 then s\<lparr>me_code := int v\<rparr> else if number = 3 then s\<lparr>me_retryable := v \<noteq> 0\<rparr> else s)
     | (number, w) \<Rightarrow> if number = 2 \<and> is_len w then bindE (decode_string w) (\<lambda>m. Inr (s\<lparr>me_message := m\<rparr>)) else Inr s)"

definition decode_error :: "bytes \<Rightarrow> codec_error + memory_error" where
  "decode_error payload = fold_fields error_step payload \<lparr>me_code = 0, me_message = [], me_retryable = False\<rparr>"

section \<open>Requests\<close>

definition encode_store_request :: "store_memory_request \<Rightarrow> codec_error + bytes" where
  "encode_store_request q =
    bindE (encode_memory_item (st_item q)) (\<lambda>item. Inr (encode_string_field 1 (st_tenant_id q) @ encode_len_delimited 2 item))"

definition store_request_step :: "nat \<times> wire_value \<Rightarrow> string \<times> memory_item option \<Rightarrow> codec_error + (string \<times> memory_item option)" where
  "store_request_step f s =
    (case f of (number, w) \<Rightarrow>
       if number = 1 \<and> is_len w then bindE (decode_string w) (\<lambda>v. Inr (v, snd s))
       else if number = 2 \<and> is_len w then bindE (decode_memory_item (payload_of w)) (\<lambda>item. Inr (fst s, Some item))
       else Inr s)"

definition decode_store_request :: "bytes \<Rightarrow> codec_error + store_memory_request" where
  "decode_store_request payload =
    bindE (fold_fields store_request_step payload ([], None)) (\<lambda>(tenant, item).
      case item of None \<Rightarrow> Inl MemoryCodecError | Some i \<Rightarrow> Inr \<lparr>st_tenant_id = tenant, st_item = i\<rparr>)"

definition encode_get_request :: "get_memory_request \<Rightarrow> bytes" where
  "encode_get_request q = encode_string_field 1 (gt_tenant_id q) @ encode_string_field 2 (gt_item_id q)"

definition get_request_step :: "nat \<times> wire_value \<Rightarrow> get_memory_request \<Rightarrow> codec_error + get_memory_request" where
  "get_request_step f s =
    (case f of (number, w) \<Rightarrow>
       if number = 1 \<and> is_len w then bindE (decode_string w) (\<lambda>v. Inr (s\<lparr>gt_tenant_id := v\<rparr>))
       else if number = 2 \<and> is_len w then bindE (decode_string w) (\<lambda>v. Inr (s\<lparr>gt_item_id := v\<rparr>))
       else Inr s)"

definition decode_get_request :: "bytes \<Rightarrow> codec_error + get_memory_request" where
  "decode_get_request payload = fold_fields get_request_step payload \<lparr>gt_tenant_id = [], gt_item_id = []\<rparr>"

definition encode_delete_request :: "delete_memory_request \<Rightarrow> bytes" where
  "encode_delete_request q = encode_string_field 1 (de_tenant_id q) @ encode_string_field 2 (de_item_id q)"

definition decode_delete_request :: "bytes \<Rightarrow> codec_error + delete_memory_request" where
  "decode_delete_request payload =
    bindE (decode_get_request payload) (\<lambda>q. Inr \<lparr>de_tenant_id = gt_tenant_id q, de_item_id = gt_item_id q\<rparr>)"

definition encode_recall_request :: "recall_memory_request \<Rightarrow> codec_error + bytes" where
  "encode_recall_request q =
    bindE (encode_packed_floats 4 (rc_query_embedding q)) (\<lambda>floats.
    bindE (encode_optional_float 7 (rc_min_similarity q)) (\<lambda>similarity.
    bindE (encode_count 8 (rc_top_k q)) (\<lambda>top_k.
      Inr (encode_string_field 1 (rc_tenant_id q) @ encode_optional_string 2 (rc_scope q) @ encode_optional_string 3 (rc_subject q)
        @ floats @ encode_optional_string 5 (rc_query_text q) @ encode_map 6 (rc_metadata_filters q) @ similarity @ top_k))))"

text \<open>Until the end of the loop the tenant may be missing; then the constructor raises a \<open>TypeError\<close>.\<close>

definition recall_request_step ::
    "nat \<times> wire_value \<Rightarrow> string option \<times> recall_memory_request \<Rightarrow> codec_error + (string option \<times> recall_memory_request)" where
  "recall_request_step f s =
    (case f of (number, w) \<Rightarrow>
       if number = 1 \<and> is_len w then bindE (decode_string w) (\<lambda>v. Inr (Some v, snd s))
       else if number = 2 \<and> is_len w then bindE (decode_string w) (\<lambda>v. Inr (fst s, (snd s)\<lparr>rc_scope := Some v\<rparr>))
       else if number = 3 \<and> is_len w then bindE (decode_string w) (\<lambda>v. Inr (fst s, (snd s)\<lparr>rc_subject := Some v\<rparr>))
       else if number = 5 \<and> is_len w then bindE (decode_string w) (\<lambda>v. Inr (fst s, (snd s)\<lparr>rc_query_text := Some v\<rparr>))
       else if number = 4 then
         bindE (decode_float_repeated w) (\<lambda>v. Inr (fst s, (snd s)\<lparr>rc_query_embedding := rc_query_embedding (snd s) @ v\<rparr>))
       else if number = 6 \<and> is_len w then
         bindE (decode_map w) (\<lambda>(k, v). Inr (fst s, (snd s)\<lparr>rc_metadata_filters := AList.update k v (rc_metadata_filters (snd s))\<rparr>))
       else if number = 7 then bindE (decode_float w) (\<lambda>v. Inr (fst s, (snd s)\<lparr>rc_min_similarity := Some v\<rparr>))
       else if number = 8 then bindE (decode_int64 w) (\<lambda>v. Inr (fst s, (snd s)\<lparr>rc_top_k := Some v\<rparr>))
       else Inr s)"

definition empty_recall :: recall_memory_request where
  "empty_recall =
    \<lparr>rc_tenant_id = [], rc_scope = None, rc_subject = None, rc_query_embedding = [], rc_query_text = None, rc_metadata_filters = [],
     rc_min_similarity = None, rc_top_k = None\<rparr>"

definition decode_recall_request :: "bytes \<Rightarrow> codec_error + recall_memory_request" where
  "decode_recall_request payload =
    bindE (fold_fields recall_request_step payload (None, empty_recall)) (\<lambda>(tenant, q).
      case tenant of None \<Rightarrow> Inl CodecTypeError | Some t \<Rightarrow> Inr (q\<lparr>rc_tenant_id := t\<rparr>))"

definition encode_prune_request :: "prune_memory_request \<Rightarrow> bytes" where
  "encode_prune_request q = encode_string_field 1 (pr_tenant_id q) @ encode_optional_int 2 (pr_before_timestamp_ms q)"

definition prune_request_step :: "nat \<times> wire_value \<Rightarrow> prune_memory_request \<Rightarrow> codec_error + prune_memory_request" where
  "prune_request_step f s =
    (case f of (number, w) \<Rightarrow>
       if number = 1 \<and> is_len w then bindE (decode_string w) (\<lambda>v. Inr (s\<lparr>pr_tenant_id := v\<rparr>))
       else if number = 2 then bindE (decode_int64 w) (\<lambda>v. Inr (s\<lparr>pr_before_timestamp_ms := Some v\<rparr>))
       else Inr s)"

definition decode_prune_request :: "bytes \<Rightarrow> codec_error + prune_memory_request" where
  "decode_prune_request payload = fold_fields prune_request_step payload \<lparr>pr_tenant_id = [], pr_before_timestamp_ms = None\<rparr>"

definition encode_export_batch_request :: "export_memory_request \<Rightarrow> codec_error + bytes" where
  "encode_export_batch_request q =
    bindE (encode_count 3 (xp_limit q)) (\<lambda>limit.
      Inr (encode_string_field 1 (xp_tenant_id q) @ encode_optional_string 2 (xp_scope q) @ limit
        @ encode_optional_string 4 (xp_page_token q)))"

definition export_request_step ::
    "nat \<times> wire_value \<Rightarrow> string option \<times> export_memory_request \<Rightarrow> codec_error + (string option \<times> export_memory_request)" where
  "export_request_step f s =
    (case f of (number, w) \<Rightarrow>
       if number = 1 \<and> is_len w then bindE (decode_string w) (\<lambda>v. Inr (Some v, snd s))
       else if number = 2 \<and> is_len w then bindE (decode_string w) (\<lambda>v. Inr (fst s, (snd s)\<lparr>xp_scope := Some v\<rparr>))
       else if number = 3 then bindE (decode_int64 w) (\<lambda>v. Inr (fst s, (snd s)\<lparr>xp_limit := Some v\<rparr>))
       else if number = 4 \<and> is_len w then bindE (decode_string w) (\<lambda>v. Inr (fst s, (snd s)\<lparr>xp_page_token := Some v\<rparr>))
       else Inr s)"

definition decode_export_batch_request :: "bytes \<Rightarrow> codec_error + export_memory_request" where
  "decode_export_batch_request payload =
    bindE (fold_fields export_request_step payload (None, \<lparr>xp_tenant_id = [], xp_scope = None, xp_limit = None, xp_page_token = None\<rparr>))
      (\<lambda>(tenant, q). case tenant of None \<Rightarrow> Inl CodecTypeError | Some t \<Rightarrow> Inr (q\<lparr>xp_tenant_id := t\<rparr>))"

fun encode_all :: "('a \<Rightarrow> codec_error + bytes) \<Rightarrow> nat \<Rightarrow> 'a list \<Rightarrow> codec_error + bytes" where
  "encode_all enc number [] = Inr []"
| "encode_all enc number (x # xs) =
    bindE (enc x) (\<lambda>p. bindE (encode_all enc number xs) (\<lambda>ps. Inr (encode_len_delimited number p @ ps)))"

definition encode_import_batch_request :: "import_memory_request \<Rightarrow> codec_error + bytes" where
  "encode_import_batch_request q =
    bindE (encode_all encode_memory_item 2 (im_items q)) (\<lambda>items.
      Inr (encode_string_field 1 (im_tenant_id q) @ items @ (if im_overwrite q then encode_bool 3 True else [])))"

definition import_request_step :: "nat \<times> wire_value \<Rightarrow> import_memory_request \<Rightarrow> codec_error + import_memory_request" where
  "import_request_step f s =
    (case f of
       (number, WireVarint v) \<Rightarrow> Inr (if number = 3 then s\<lparr>im_overwrite := v \<noteq> 0\<rparr> else s)
     | (number, w) \<Rightarrow>
         if number = 1 \<and> is_len w then bindE (decode_string w) (\<lambda>v. Inr (s\<lparr>im_tenant_id := v\<rparr>))
         else if number = 2 \<and> is_len w then
           bindE (decode_memory_item (payload_of w)) (\<lambda>item. Inr (s\<lparr>im_items := im_items s @ [item]\<rparr>))
         else Inr s)"

definition decode_import_batch_request :: "bytes \<Rightarrow> codec_error + import_memory_request" where
  "decode_import_batch_request payload =
    fold_fields import_request_step payload \<lparr>im_tenant_id = [], im_items = [], im_overwrite = False\<rparr>"


section \<open>Responses\<close>

text \<open>The shape all response encoders and decoders share: an error wins on encoding, the last result wins on decoding.  \<open>read\<close>
  yields the value of a first field it accepts.\<close>

definition encode_result :: "('a \<Rightarrow> codec_error + bytes) \<Rightarrow> ('a, 'b) memory_response_scheme \<Rightarrow> codec_error + bytes" where
  "encode_result enc r =
    (case mr_error r of
       Some e \<Rightarrow> bindE (encode_error e) (\<lambda>b. Inr (encode_len_delimited 2 b))
     | None \<Rightarrow> (case mr_value r of Some v \<Rightarrow> enc v | None \<Rightarrow> Inr []))"

definition result_step ::
    "(wire_value \<Rightarrow> (codec_error + 'a) option) \<Rightarrow> nat \<times> wire_value \<Rightarrow> 'a memory_response \<Rightarrow> codec_error + 'a memory_response" where
  "result_step read f s =
    (case f of (number, w) \<Rightarrow>
       (case (if number = 1 then read w else None) of
          Some r \<Rightarrow> bindE r (\<lambda>v. Inr (s\<lparr>mr_value := Some v, mr_error := None\<rparr>))
        | None \<Rightarrow>
           if number = 2 \<and> is_len w then
             bindE (decode_error (payload_of w)) (\<lambda>e. Inr (s\<lparr>mr_value := None, mr_error := Some e\<rparr>))
           else Inr s))"

abbreviation no_result :: "'a memory_response" where
  "no_result \<equiv> \<lparr>mr_value = None, mr_error = None\<rparr>"

definition decode_result :: "(wire_value \<Rightarrow> (codec_error + 'a) option) \<Rightarrow> bytes \<Rightarrow> codec_error + 'a memory_response" where
  "decode_result read payload = fold_fields (result_step read) payload no_result"

definition if_len :: "(wire_value \<Rightarrow> codec_error + 'a) \<Rightarrow> wire_value \<Rightarrow> (codec_error + 'a) option" where
  "if_len dec w = (if is_len w then Some (dec w) else None)"

definition encode_store_response :: "string memory_response \<Rightarrow> codec_error + bytes" where
  "encode_store_response = encode_result (\<lambda>item_id. Inr (encode_optional_string 1 (Some item_id)))"

definition decode_store_response :: "bytes \<Rightarrow> codec_error + string memory_response" where
  "decode_store_response = decode_result (if_len decode_string)"

definition encode_get_response :: "memory_item memory_response \<Rightarrow> codec_error + bytes" where
  "encode_get_response = encode_result (\<lambda>item. bindE (encode_memory_item item) (\<lambda>b. Inr (encode_len_delimited 1 b)))"

definition decode_get_response :: "bytes \<Rightarrow> codec_error + memory_item memory_response" where
  "decode_get_response = decode_result (if_len (\<lambda>w. decode_memory_item (payload_of w)))"

definition encode_recall_response :: "memory_match list memory_response \<Rightarrow> codec_error + bytes" where
  "encode_recall_response =
    encode_result (\<lambda>matches. bindE (encode_all encode_match 1 matches) (\<lambda>batch. Inr (encode_len_delimited 1 batch)))"

definition batch_step :: "(bytes \<Rightarrow> codec_error + 'a) \<Rightarrow> nat \<times> wire_value \<Rightarrow> 'a list \<Rightarrow> codec_error + 'a list" where
  "batch_step dec f s =
    (case f of (number, w) \<Rightarrow> if number = 1 \<and> is_len w then bindE (dec (payload_of w)) (\<lambda>x. Inr (s @ [x])) else Inr s)"

definition decode_recall_response :: "bytes \<Rightarrow> codec_error + memory_match list memory_response" where
  "decode_recall_response = decode_result (if_len (\<lambda>w. fold_fields (batch_step decode_match) (payload_of w) []))"

definition encode_delete_response :: "bool memory_response \<Rightarrow> codec_error + bytes" where
  "encode_delete_response = encode_result (\<lambda>deleted. Inr (encode_bool 1 deleted))"

definition decode_delete_response :: "bytes \<Rightarrow> codec_error + bool memory_response" where
  "decode_delete_response = decode_result (\<lambda>w. case w of WireVarint v \<Rightarrow> Some (Inr (v \<noteq> 0)) | _ \<Rightarrow> None)"

definition encode_prune_response :: "int memory_response \<Rightarrow> codec_error + bytes" where
  "encode_prune_response = encode_result (\<lambda>count. Inr (encode_optional_int 1 (Some count)))"

definition decode_prune_response :: "bytes \<Rightarrow> codec_error + int memory_response" where
  "decode_prune_response = decode_result (\<lambda>w. Some (decode_int64 w))"

definition encode_import_batch_response :: "int memory_response \<Rightarrow> codec_error + bytes" where
  "encode_import_batch_response = encode_result (\<lambda>count. encode_count 1 (Some count))"

definition decode_import_batch_response :: "bytes \<Rightarrow> codec_error + int memory_response" where
  "decode_import_batch_response = decode_result (\<lambda>w. Some (decode_int64 w))"

definition encode_export_batch_response :: "export_memory_response \<Rightarrow> codec_error + bytes" where
  "encode_export_batch_response r =
    encode_result (\<lambda>items. bindE (encode_all encode_memory_item 1 items) (\<lambda>batch.
      Inr (encode_len_delimited 1 (batch @ encode_string_field 2 (xr_next_page_token r))))) r"

definition page_step :: "nat \<times> wire_value \<Rightarrow> memory_item list \<times> string \<Rightarrow> codec_error + (memory_item list \<times> string)" where
  "page_step f s =
    (case f of (number, w) \<Rightarrow>
       if number = 1 \<and> is_len w then bindE (decode_memory_item (payload_of w)) (\<lambda>x. Inr (fst s @ [x], snd s))
       else if number = 2 \<and> is_len w then bindE (decode_string w) (\<lambda>v. Inr (fst s, v))
       else Inr s)"

definition export_response_step :: "nat \<times> wire_value \<Rightarrow> export_memory_response \<Rightarrow> codec_error + export_memory_response" where
  "export_response_step f s =
    (case f of (number, w) \<Rightarrow>
       if number = 1 \<and> is_len w then
         bindE (fold_fields page_step (payload_of w) ([], xr_next_page_token s)) (\<lambda>(items, token).
           Inr (s\<lparr>mr_value := Some items, mr_error := None, xr_next_page_token := token\<rparr>))
       else if number = 2 \<and> is_len w then
         bindE (decode_error (payload_of w)) (\<lambda>e. Inr (s\<lparr>mr_value := None, mr_error := Some e\<rparr>))
       else Inr s)"

definition decode_export_batch_response :: "bytes \<Rightarrow> codec_error + export_memory_response" where
  "decode_export_batch_response payload =
    fold_fields export_response_step payload \<lparr>mr_value = None, mr_error = None, xr_next_page_token = []\<rparr>"

text \<open>\<open>_validate_response\<close>: exactly one of value and error.\<close>

definition validate_response :: "('a, 'b) memory_response_scheme \<Rightarrow> codec_error + unit" where
  "validate_response r = raise_if ((mr_value r = None) = (mr_error r = None)) MemoryCodecError"

end
