(* ===== verification/Memory_Codecs.thy ===== *)
theory Memory_Codecs
  imports Memory_Contract "HOL-Library.Multiset"
begin

text \<open>
  The memory messages are read back as they were written.  A message is first seen as the list of its fields; a locale holds
  what the codecs have in common and is interpreted for each message.
\<close>

section \<open>Field lists\<close>

fun field_form :: "nat \<times> wire_value \<Rightarrow> bool" where
  "field_form (n, WireVarint v) = (0 < n \<and> n < 2 ^ 29 \<and> v < 2 ^ 70)"
| "field_form (n, WireLen p) = (0 < n \<and> n < 2 ^ 29)"
| "field_form (n, WireFixed32 p) = (0 < n \<and> n < 2 ^ 29 \<and> length p = 4)"
| "field_form (n, WireFixed64 p) = (0 < n \<and> n < 2 ^ 29 \<and> length p = 8)"

lemma fields_ok:
  assumes "list_all field_form fs" "length (encode_fields fs) < 2 ^ 70"
  shows "list_all field_ok fs"
  using assms
proof (induction fs)
  case (Cons f fs)
  then show ?case by (cases f rule: field_form.cases) (auto simp: encode_len_delimited_def encode_field.simps)
qed simp

lemma fold_message:
  assumes "list_all field_form fs" "length (encode_fields fs) < 2 ^ 70"
  shows "fold_fields step (encode_fields fs) s = foldE step fs s"
  using fields_ok [OF assms] by (rule fold_fields_encode)

lemma foldE_append [simp]: "foldE f (xs @ ys) s = bindE (foldE f xs s) (foldE f ys)"
  by (induction xs arbitrary: s) (auto simp: bindE_def split: sum.split)

definition str_fields :: "nat \<Rightarrow> string \<Rightarrow> (nat \<times> wire_value) list" where
  "str_fields n v = (if v = [] then [] else [(n, WireLen v)])"

definition opt_fields :: "nat \<Rightarrow> string option \<Rightarrow> (nat \<times> wire_value) list" where
  "opt_fields n v = (case v of None \<Rightarrow> [] | Some s \<Rightarrow> [(n, WireLen s)])"

definition int_fields :: "nat \<Rightarrow> int option \<Rightarrow> (nat \<times> wire_value) list" where
  "int_fields n v = (case v of None \<Rightarrow> [] | Some i \<Rightarrow> [(n, WireVarint (int64_mask i))])"

definition map_fields :: "nat \<Rightarrow> (string \<times> string) list \<Rightarrow> (nat \<times> wire_value) list" where
  "map_fields n d = map (\<lambda>e. (n, WireLen (map_entry e))) (sort_key fst d)"

definition float_fields :: "nat \<Rightarrow> pyfloat list \<Rightarrow> bytes \<Rightarrow> (nat \<times> wire_value) list" where
  "float_fields n vs p = (if vs = [] then [] else [(n, WireLen p)])"

lemma int64_mask_bound: "int64_mask i < 2 ^ 70"
proof -
  have "i mod 2 ^ 64 < 2 ^ 64" by (rule pos_mod_bound) simp
  then have "nat (i mod 2 ^ 64) < 2 ^ 64" by (simp add: nat_less_iff)
  then show ?thesis unfolding int64_mask_def by simp
qed

lemma encode_as_fields [simp]:
  "encode_string_field n v = encode_fields (str_fields n v)"
  "encode_optional_string n w = encode_fields (opt_fields n w)"
  "encode_optional_int n i = encode_fields (int_fields n i)"
  "encode_map n d = encode_fields (map_fields n d)"
  "encode_bool n b = encode_fields [(n, WireVarint (of_bool b))]"
  "encode_len_delimited n p = encode_fields [(n, WireLen p)]"
  by (simp_all add: encode_string_field_def str_fields_def encode_optional_string_def opt_fields_def encode_optional_int_def
      int_fields_def encode_map_def map_fields_def encode_bool_def o_def encode_field.simps split: option.split)

lemma field_forms [simp]:
  assumes "0 < n" "n < 2 ^ 29"
  shows "list_all field_form (str_fields n v)" "list_all field_form (opt_fields n w)" "list_all field_form (int_fields n i)"
    "list_all field_form (map_fields n d)" "list_all field_form (float_fields n vs p)"
  using assms int64_mask_bound by (auto simp: str_fields_def opt_fields_def int_fields_def map_fields_def float_fields_def list_all_iff split: option.split)

lemma decode_int64_mask:
  assumes "int64 i"
  shows "decode_int64 (WireVarint (int64_mask i)) = Inr i"
proof (cases "i < 0")
  case True
  have "i mod 2 ^ 64 = (i + 2 ^ 64) mod 2 ^ 64" by simp
  also have "... = i + 2 ^ 64" using True assms by (intro mod_pos_pos_trivial) (auto simp: int64_def)
  finally have m: "int64_mask i = nat (i + 2 ^ 64)" by (simp add: int64_mask_def)
  have "nat (i + 2 ^ 64) div 2 ^ 63 = 1" using True assms by (auto simp: int64_def nat_div_as_int intro!: div_nat_eqI)
  then show ?thesis using True assms by (simp add: m int64_def)
next
  case False
  then show ?thesis using assms by (simp add: int64_mask_def int64_def)
qed


lemma decode_count: "0 \<le> i \<Longrightarrow> int64 i \<Longrightarrow> decode_int64 (WireVarint (nat i)) = Inr i"
  by (simp add: int64_def)

lemma decode_map_entry:
  assumes "utf8_strict (fst e)" "utf8_strict (snd e)" "length (map_entry e) < 2 ^ 70"
  shows "decode_map (WireLen (map_entry e)) = Inr e"
proof -
  have m: "map_entry e = encode_fields [(1, WireLen (fst e)), (2, WireLen (snd e))]"
    by (simp add: map_entry_def opt_fields_def)
  have "fold_fields map_step (map_entry e) ([], []) = foldE map_step [(1, WireLen (fst e)), (2, WireLen (snd e))] ([], [])"
    unfolding m by (rule fold_message) (use assms(3) in \<open>simp_all add: m\<close>)
  then show ?thesis using assms(1,2) by (simp add: decode_map_def map_step_def)
qed

lemma decode_packed:
  assumes "unpack_floats p = vs" "length p = 4 * length vs"
  shows "decode_float_repeated (WireLen p) = Inr vs"
  using assms by (simp add: decode_packed_floats_def)

text \<open>Packed numbers as a field.\<close>

lemma encode_packed_read:
  assumes "list_all is_float32 vs"
  obtains p where "encode_packed_floats n vs = Inr (encode_fields (float_fields n vs p))" "unpack_floats p = vs"
    "length p = 4 * length vs"
proof -
  obtain p where "pack_floats vs = Inr p" "unpack_floats p = vs" "length p = 4 * length vs" using pack_floats_read [OF assms] by blast
  then show thesis by (intro that [of p]) (simp_all add: encode_packed_floats_def float_fields_def)
qed

lemma encode_float_read:
  assumes "is_float32 v"
  obtains p where "encode_optional_float n (Some v) = Inr (encode_fields [(n, WireFixed32 p)])" "length p = 4"
    "decode_float (WireFixed32 p) = Inr v"
proof -
  obtain a b c d where "pack_float v = Inr [a, b, c, d]" "unpack_bits (bytes_word a b c d) = v" using assms by (rule pack_float_read)
  then show thesis by (intro that [of "[a, b, c, d]"]) (simp_all add: encode_optional_float_def encode_field.simps)
qed

section \<open>Codecs\<close>

locale message_codec =
  fixes wf :: "'a \<Rightarrow> bool" and norm :: "'a \<Rightarrow> 'a"
    and enc :: "'a \<Rightarrow> codec_error + bytes" and dec :: "bytes \<Rightarrow> codec_error + 'a"
  assumes total: "wf x \<Longrightarrow> \<exists>v. enc x = Inr v"
    and read: "wf x \<Longrightarrow> enc x = Inr v \<Longrightarrow> length v < 2 ^ 70 \<Longrightarrow> dec v = Inr (norm x)"
begin

lemma round_trip: "wf x \<Longrightarrow> \<exists>v. enc x = Inr v \<and> (length v < 2 ^ 70 \<longrightarrow> dec v = Inr (norm x))"
  using total read by blast

lemma enc_inj:
  assumes "enc x = Inr v" "enc y = Inr v" "wf x" "wf y" "length v < 2 ^ 70"
  shows "norm x = norm y"
  using read [OF assms(3,1,5)] read [OF assms(4,2,5)] by simp

text \<open>A repeated field: the written payloads, one field for each element.\<close>

lemma batch_total:
  assumes "list_all wf xs"
  shows "\<exists>ps. encode_all enc n xs = Inr (encode_fields (map (\<lambda>p. (n, WireLen p)) ps)) \<and> list_all2 (\<lambda>x p. enc x = Inr p) xs ps"
  using assms
proof (induction xs)
  case (Cons x xs)
  then obtain p ps where "enc x = Inr p" "encode_all enc n xs = Inr (encode_fields (map (\<lambda>p. (n, WireLen p)) ps))"
    "list_all2 (\<lambda>x p. enc x = Inr p) xs ps" using total by fastforce
  then show ?case by (intro exI [of _ "p # ps"]) simp
qed simp

text \<open>A loop that appends every decoded element of field \<open>n\<close> with \<open>add\<close>.\<close>

lemma batch_read:
  assumes "list_all wf xs" "list_all2 (\<lambda>x p. enc x = Inr p) xs ps" "\<forall>p \<in> set ps. length p < 2 ^ 70"
    and step: "\<And>p s. step (n, WireLen p) s = bindE (dec p) (\<lambda>x. Inr (add x s))"
  shows "foldE step (map (\<lambda>p. (n, WireLen p)) ps) s = Inr (fold (\<lambda>x. add (norm x)) xs s)"
  using assms(2,1,3)
proof (induction xs ps arbitrary: s rule: list_all2_induct)
  case (Cons x xs p ps)
  then show ?case using read [of x p] by (simp add: step)
qed simp

end

subsection \<open>Items\<close>

definition item_wf :: "memory_item \<Rightarrow> bool" where
  "item_wf item \<longleftrightarrow>
    list_all utf8_strict [mi_item_id item, mi_tenant_id item, mi_scope item, mi_subject item, mi_content item]
    \<and> list_all is_float32 (mi_embedding item) \<and> distinct (map fst (mi_metadata item))
    \<and> list_all (\<lambda>(k, v). utf8_strict k \<and> utf8_strict v) (mi_metadata item) \<and> int64 (mi_created_at_ms item)
    \<and> pred_option int64 (mi_expires_at_ms item) \<and> pred_option int64 (mi_ttl_seconds item)"

text \<open>The same item with its dictionary in key order.\<close>

definition item_norm :: "memory_item \<Rightarrow> memory_item" where
  "item_norm item = item\<lparr>mi_metadata := sort_key fst (mi_metadata item)\<rparr>"

definition created_fields :: "int \<Rightarrow> (nat \<times> wire_value) list" where
  "created_fields i = (if i \<noteq> 0 then [(8, WireVarint (int64_mask i))] else [])"

definition item_fields :: "memory_item \<Rightarrow> bytes \<Rightarrow> (nat \<times> wire_value) list" where
  "item_fields item p =
    str_fields 1 (mi_item_id item) @ str_fields 2 (mi_tenant_id item) @ str_fields 3 (mi_scope item) @ str_fields 4 (mi_subject item)
    @ str_fields 5 (mi_content item) @ float_fields 6 (mi_embedding item) p @ map_fields 7 (mi_metadata item)
    @ created_fields (mi_created_at_ms item)
    @ int_fields 9 (mi_expires_at_ms item) @ int_fields 10 (mi_ttl_seconds item)"

lemma encode_item_fields:
  assumes "list_all is_float32 (mi_embedding item)"
  obtains p where "encode_memory_item item = Inr (encode_fields (item_fields item p))" "unpack_floats p = mi_embedding item"
    "length p = 4 * length (mi_embedding item)"
proof -
  obtain p where p: "encode_packed_floats 6 (mi_embedding item) = Inr (encode_fields (float_fields 6 (mi_embedding item) p))"
    "unpack_floats p = mi_embedding item" "length p = 4 * length (mi_embedding item)"
    using assms by (rule encode_packed_read)
  have "(if mi_created_at_ms item \<noteq> 0 then encode_tag 8 0 @ varint_bytes (int64_mask (mi_created_at_ms item)) else [])
      = encode_fields (created_fields (mi_created_at_ms item))"
    by (simp add: created_fields_def encode_field.simps)
  then have "encode_memory_item item = Inr (encode_fields (item_fields item p))"
    using p(1) by (simp add: encode_memory_item_def item_fields_def)
  with p(2,3) show thesis by (intro that)
qed

lemma update_same_field [simp]:
  "s\<lparr>mi_item_id := mi_item_id s\<rparr> = s" "s\<lparr>mi_tenant_id := mi_tenant_id s\<rparr> = s" "s\<lparr>mi_scope := mi_scope s\<rparr> = s"
  "s\<lparr>mi_subject := mi_subject s\<rparr> = s" "s\<lparr>mi_content := mi_content s\<rparr> = s" "s\<lparr>mi_embedding := mi_embedding s\<rparr> = s"
  "s\<lparr>mi_metadata := mi_metadata s\<rparr> = s" "s\<lparr>mi_created_at_ms := mi_created_at_ms s\<rparr> = s"
  "s\<lparr>mi_expires_at_ms := mi_expires_at_ms s\<rparr> = s" "s\<lparr>mi_ttl_seconds := mi_ttl_seconds s\<rparr> = s"
  by simp_all

text \<open>The effect of each kind of field on an item that has not seen it.\<close>

lemma item_text_fields:
  assumes "utf8_strict v"
  shows "mi_item_id s = [] \<Longrightarrow> foldE item_step (str_fields 1 v) s = Inr (s\<lparr>mi_item_id := v\<rparr>)"
    "mi_tenant_id s = [] \<Longrightarrow> foldE item_step (str_fields 2 v) s = Inr (s\<lparr>mi_tenant_id := v\<rparr>)"
    "mi_scope s = [] \<Longrightarrow> foldE item_step (str_fields 3 v) s = Inr (s\<lparr>mi_scope := v\<rparr>)"
    "mi_subject s = [] \<Longrightarrow> foldE item_step (str_fields 4 v) s = Inr (s\<lparr>mi_subject := v\<rparr>)"
    "mi_content s = [] \<Longrightarrow> foldE item_step (str_fields 5 v) s = Inr (s\<lparr>mi_content := v\<rparr>)"
  using assms by (auto simp: str_fields_def item_step_def)

lemma item_int_fields:
  assumes "pred_option int64 i"
  shows "mi_expires_at_ms s = None \<Longrightarrow> foldE item_step (int_fields 9 i) s = Inr (s\<lparr>mi_expires_at_ms := i\<rparr>)"
    "mi_ttl_seconds s = None \<Longrightarrow> foldE item_step (int_fields 10 i) s = Inr (s\<lparr>mi_ttl_seconds := i\<rparr>)"
  using assms by (auto simp: int_fields_def item_step_def decode_int64_mask simp del: decode_int64.simps split: option.split)

lemma item_created_field:
  assumes "int64 i" "mi_created_at_ms s = 0"
  shows "foldE item_step (created_fields i) s = Inr (s\<lparr>mi_created_at_ms := i\<rparr>)"
  using assms by (auto simp: created_fields_def item_step_def decode_int64_mask simp del: decode_int64.simps)

lemma item_float_field:
  assumes "unpack_floats p = vs" "length p = 4 * length vs" "mi_embedding s = []"
  shows "foldE item_step (float_fields 6 vs p) s = Inr (s\<lparr>mi_embedding := vs\<rparr>)"
  using assms decode_packed [OF assms(1,2)] by (auto simp: float_fields_def item_step_def simp del: decode_float_repeated.simps)

lemma update_new: "k \<notin> fst ` set al \<Longrightarrow> AList.update k v al = al @ [(k, v)]"
  by (induction al) auto

text \<open>Map entries with distinct new keys are appended by a step that updates a dictionary.\<close>

lemma map_entries_read:
  assumes step: "\<And>e s. decode_map (WireLen (map_entry e)) = Inr e \<Longrightarrow> step (n, WireLen (map_entry e)) s = Inr (put (AList.update (fst e) (snd e) (get s)) s)"
    and put: "\<And>d s. get (put d s) = d" "\<And>d e s. put d (put e s) = put d s" "\<And>s. put (get s) s = s"
    and es: "\<forall>e \<in> set es. utf8_strict (fst e) \<and> utf8_strict (snd e) \<and> length (map_entry e) < 2 ^ 70" "distinct (map fst (get s @ es))"
  shows "foldE step (map (\<lambda>e. (n, WireLen (map_entry e))) es) s = Inr (put (get s @ es) s)"
  using es
proof (induction es arbitrary: s)
  case (Cons e es)
  then have "step (n, WireLen (map_entry e)) s = Inr (put (get s @ [e]) s)"
    by (subst step) (auto simp: decode_map_entry update_new)
  moreover have "foldE step (map (\<lambda>e. (n, WireLen (map_entry e))) es) (put (get s @ [e]) s) = Inr (put (get s @ e # es) s)"
    using Cons.IH [of "put (get s @ [e]) s"] Cons.prems by (simp add: put)
  ultimately show ?case by simp
qed (simp add: put)

lemma sorted_entries:
  assumes "distinct (map fst d)" "list_all (\<lambda>(k, v). utf8_strict k \<and> utf8_strict v) d"
  shows "distinct (map fst (sort_key fst d))" "\<forall>e \<in> set (sort_key fst d). utf8_strict (fst e) \<and> utf8_strict (snd e)"
proof -
  have "mset (map fst (sort_key fst d)) = mset (map fst d)" by (simp add: mset_map)
  then show "distinct (map fst (sort_key fst d))" using assms(1) by (metis mset_eq_imp_distinct_iff)
  show "\<forall>e \<in> set (sort_key fst d). utf8_strict (fst e) \<and> utf8_strict (snd e)" using assms(2) by (auto simp: list_all_iff)
qed

lemma item_map_field:
  assumes "distinct (map fst d)" "list_all (\<lambda>(k, v). utf8_strict k \<and> utf8_strict v) d" "list_all field_ok (map_fields 7 d)" "mi_metadata s = []"
  shows "foldE item_step (map_fields 7 d) s = Inr (s\<lparr>mi_metadata := sort_key fst d\<rparr>)"
proof -
  have "\<forall>e \<in> set (sort_key fst d). length (map_entry e) < 2 ^ 70"
    using assms(3) by (auto simp: map_fields_def list_all_iff)
  then show ?thesis
    using map_entries_read [where n = 7 and step = item_step and get = mi_metadata and put = "\<lambda>d s. s\<lparr>mi_metadata := d\<rparr>"
        and es = "sort_key fst d" and s = s] sorted_entries [OF assms(1,2)] assms(4)
    by (auto simp: map_fields_def item_step_def)
qed

lemma item_form: "list_all field_form (item_fields item p)"
  using int64_mask_bound by (simp add: item_fields_def created_fields_def)

interpretation item_codec: message_codec item_wf item_norm encode_memory_item decode_memory_item
proof
  fix item assume "item_wf item"
  then show "\<exists>v. encode_memory_item item = Inr v" by (metis encode_item_fields item_wf_def)
next
  fix item v assume wf: "item_wf item" and enc: "encode_memory_item item = Inr v" and len: "length v < 2 ^ 70"
  obtain p where p: "v = encode_fields (item_fields item p)" "unpack_floats p = mi_embedding item" "length p = 4 * length (mi_embedding item)"
    using wf enc by (metis encode_item_fields item_wf_def sum.inject(2))
  have ok: "list_all field_ok (item_fields item p)" using item_form len unfolding p(1) by (rule fields_ok)
  then have "list_all field_ok (map_fields 7 (mi_metadata item))" by (simp add: item_fields_def)
  then have "foldE item_step (item_fields item p) empty_item = Inr (item_norm item)"
    using wf p(2,3)
    by (simp add: item_fields_def item_wf_def empty_item_def item_text_fields item_float_field item_map_field item_created_field
        item_int_fields item_norm_def del: One_nat_def)
  then show "decode_memory_item v = Inr (item_norm item)"
    unfolding p(1) decode_memory_item_def fold_fields_encode [OF ok] .
qed

subsection \<open>Matches and errors\<close>

definition match_wf :: "memory_match \<Rightarrow> bool" where
  "match_wf m \<longleftrightarrow> item_wf (mm_item m) \<and> is_float32 (mm_score m)"

definition match_norm :: "memory_match \<Rightarrow> memory_match" where
  "match_norm m = m\<lparr>mm_item := item_norm (mm_item m)\<rparr>"

lemma encode_match_fields:
  assumes "match_wf m"
  obtains item fs where "encode_memory_item (mm_item m) = Inr item" "encode_match m = Inr (encode_fields ((1, WireLen item) # fs))"
    "list_all field_form fs" "\<And>i. foldE match_step fs (i, Fin 0) = Inr (i, mm_score m)"
proof -
  obtain item where item: "encode_memory_item (mm_item m) = Inr item" using assms item_codec.total by (auto simp: match_wf_def)
  obtain p where p: "encode_optional_float 2 (Some (mm_score m)) = Inr (encode_fields [(2, WireFixed32 p)])" "length p = 4"
    "decode_float (WireFixed32 p) = Inr (mm_score m)"
    using assms encode_float_read by (metis match_wf_def)
  show thesis
    by (rule that [OF item, of "if mm_score m \<noteq> Fin 0 then [(2, WireFixed32 p)] else []"])
       (use item p in \<open>auto simp: encode_match_def match_step_def simp del: decode_float.simps\<close>)
qed

interpretation match_codec: message_codec match_wf match_norm encode_match decode_match
proof
  fix m assume "match_wf m"
  then show "\<exists>v. encode_match m = Inr v" by (rule encode_match_fields) blast
next
  fix m v assume wf: "match_wf m" and enc: "encode_match m = Inr v" and len: "length v < 2 ^ 70"
  show "decode_match v = Inr (match_norm m)"
    using wf
  proof (rule encode_match_fields)
    fix item fs assume f: "encode_memory_item (mm_item m) = Inr item" "encode_match m = Inr (encode_fields ((1, WireLen item) # fs))"
      "list_all field_form fs" "\<And>i. foldE match_step fs (i, Fin 0) = Inr (i, mm_score m)"
    have v: "v = encode_fields ((1, WireLen item) # fs)" using enc f(2) by simp
    have ok: "list_all field_ok ((1, WireLen item) # fs)" by (rule fields_ok) (use f(3) len in \<open>simp_all add: v\<close>)
    then have "decode_memory_item item = Inr (item_norm (mm_item m))"
      using item_codec.read [OF _ f(1)] wf by (simp add: match_wf_def)
    then have "foldE match_step ((1, WireLen item) # fs) (None, Fin 0) = Inr (Some (item_norm (mm_item m)), mm_score m)"
      using f(4) by (simp add: match_step_def)
    then show ?thesis
      by (simp only: v decode_match_def fold_fields_encode [OF ok]) (simp add: match_norm_def)
  qed
qed

definition error_wf :: "memory_error \<Rightarrow> bool" where
  "error_wf e \<longleftrightarrow> 0 \<le> me_code e \<and> me_code e < 2 ^ 70 \<and> utf8_strict (me_message e)"

definition error_fields :: "memory_error \<Rightarrow> (nat \<times> wire_value) list" where
  "error_fields e =
    (if me_code e \<noteq> 0 then [(1, WireVarint (nat (me_code e)))] else []) @ str_fields 2 (me_message e)
    @ (if me_retryable e then [(3, WireVarint 1)] else [])"

lemma encode_error_fields: "error_wf e \<Longrightarrow> encode_error e = Inr (encode_fields (error_fields e))"
  by (auto simp: encode_error_def error_wf_def error_fields_def encode_count_def encode_varint_def encode_field.simps)

interpretation error_codec: message_codec error_wf "\<lambda>e. e" encode_error decode_error
proof
  fix e assume "error_wf e"
  then show "\<exists>v. encode_error e = Inr v" by (simp add: encode_error_fields)
next
  fix e v assume wf: "error_wf e" and enc: "encode_error e = Inr v" and len: "length v < 2 ^ 70"
  have v: "v = encode_fields (error_fields e)" using enc encode_error_fields [OF wf] by simp
  have form: "list_all field_form (error_fields e)" using wf by (simp add: error_fields_def error_wf_def nat_less_iff)
  have fold: "foldE error_step (error_fields e) \<lparr>me_code = 0, me_message = [], me_retryable = False\<rparr> = Inr e"
    using wf by (cases e) (auto simp: error_fields_def str_fields_def error_step_def error_wf_def)
  show "decode_error v = Inr e" unfolding v decode_error_def fold_message [OF form len [unfolded v]] by (rule fold)
qed

section \<open>Requests\<close>

lemma read_message:
  assumes "v = encode_fields fs" "list_all field_form fs" "length v < 2 ^ 70" "list_all field_ok fs \<Longrightarrow> foldE step fs s = Inr t"
  shows "fold_fields step v s = Inr t"
  using assms fields_ok [of fs] fold_message [of fs step s] by simp

definition store_wf :: "store_memory_request \<Rightarrow> bool" where
  "store_wf q \<longleftrightarrow> utf8_strict (st_tenant_id q) \<and> item_wf (st_item q)"

definition store_norm :: "store_memory_request \<Rightarrow> store_memory_request" where
  "store_norm q = q\<lparr>st_item := item_norm (st_item q)\<rparr>"

interpretation store_request: message_codec store_wf store_norm encode_store_request decode_store_request
proof
  fix q assume "store_wf q"
  then show "\<exists>v. encode_store_request q = Inr v"
    using item_codec.total [of "st_item q"] by (auto simp: store_wf_def encode_store_request_def)
next
  fix q v assume wf: "store_wf q" and enc: "encode_store_request q = Inr v" and len: "length v < 2 ^ 70"
  obtain item where item: "encode_memory_item (st_item q) = Inr item" "v = encode_fields (str_fields 1 (st_tenant_id q) @ [(2, WireLen item)])"
    using enc by (auto simp: encode_store_request_def bindE_eq_Inr)
  have "fold_fields store_request_step v ([], None) = Inr (st_tenant_id q, Some (item_norm (st_item q)))"
    using item(2) _ len
  proof (rule read_message)
    assume "list_all field_ok (str_fields 1 (st_tenant_id q) @ [(2, WireLen item)])"
    then have "decode_memory_item item = Inr (item_norm (st_item q))"
      using item_codec.read [OF _ item(1)] wf by (simp add: store_wf_def)
    then show "foldE store_request_step (str_fields 1 (st_tenant_id q) @ [(2, WireLen item)]) ([], None)
        = Inr (st_tenant_id q, Some (item_norm (st_item q)))"
      using wf by (auto simp: str_fields_def store_request_step_def store_wf_def)
  qed simp
  then show "decode_store_request v = Inr (store_norm q)" by (simp add: decode_store_request_def store_norm_def)
qed

definition get_wf :: "get_memory_request \<Rightarrow> bool" where
  "get_wf q \<longleftrightarrow> utf8_strict (gt_tenant_id q) \<and> utf8_strict (gt_item_id q)"

interpretation get_request: message_codec get_wf "\<lambda>q. q" "\<lambda>q. Inr (encode_get_request q)" decode_get_request
proof
  fix q v assume wf: "get_wf q" and enc: "Inr (encode_get_request q) = (Inr v :: codec_error + bytes)" and len: "length v < 2 ^ 70"
  have v: "v = encode_fields (str_fields 1 (gt_tenant_id q) @ str_fields 2 (gt_item_id q))"
    using enc by (simp add: encode_get_request_def)
  have "foldE get_request_step (str_fields 1 (gt_tenant_id q) @ str_fields 2 (gt_item_id q)) \<lparr>gt_tenant_id = [], gt_item_id = []\<rparr> = Inr q"
    using wf by (cases q) (auto simp: str_fields_def get_request_step_def get_wf_def)
  then show "decode_get_request v = Inr q"
    unfolding decode_get_request_def by (intro read_message [OF v _ len]) simp_all
qed simp

definition delete_wf :: "delete_memory_request \<Rightarrow> bool" where
  "delete_wf q \<longleftrightarrow> utf8_strict (de_tenant_id q) \<and> utf8_strict (de_item_id q)"

interpretation delete_request: message_codec delete_wf "\<lambda>q. q" "\<lambda>q. Inr (encode_delete_request q)" decode_delete_request
proof
  fix q v assume wf: "delete_wf q" and enc: "Inr (encode_delete_request q) = (Inr v :: codec_error + bytes)" and len: "length v < 2 ^ 70"
  let ?q = "\<lparr>gt_tenant_id = de_tenant_id q, gt_item_id = de_item_id q\<rparr>"
  have "decode_get_request v = Inr ?q"
    by (rule get_request.read) (use wf enc len in \<open>simp_all add: get_wf_def delete_wf_def encode_delete_request_def encode_get_request_def\<close>)
  then show "decode_delete_request v = Inr q" by (simp add: decode_delete_request_def)
qed simp

definition prune_wf :: "prune_memory_request \<Rightarrow> bool" where
  "prune_wf q \<longleftrightarrow> utf8_strict (pr_tenant_id q) \<and> pred_option int64 (pr_before_timestamp_ms q)"

interpretation prune_request: message_codec prune_wf "\<lambda>q. q" "\<lambda>q. Inr (encode_prune_request q)" decode_prune_request
proof
  fix q v assume wf: "prune_wf q" and enc: "Inr (encode_prune_request q) = (Inr v :: codec_error + bytes)" and len: "length v < 2 ^ 70"
  have v: "v = encode_fields (str_fields 1 (pr_tenant_id q) @ int_fields 2 (pr_before_timestamp_ms q))"
    using enc by (simp add: encode_prune_request_def)
  have "foldE prune_request_step (str_fields 1 (pr_tenant_id q) @ int_fields 2 (pr_before_timestamp_ms q))
      \<lparr>pr_tenant_id = [], pr_before_timestamp_ms = None\<rparr> = Inr q"
    using wf
    by (cases q; cases "pr_before_timestamp_ms q")
       (auto simp: str_fields_def int_fields_def prune_request_step_def prune_wf_def decode_int64_mask simp del: decode_int64.simps)
  then show "decode_prune_request v = Inr q"
    unfolding decode_prune_request_def by (intro read_message [OF v _ len]) simp_all
qed simp

definition count_fields :: "nat \<Rightarrow> int option \<Rightarrow> (nat \<times> wire_value) list" where
  "count_fields n v = (case v of None \<Rightarrow> [] | Some i \<Rightarrow> [(n, WireVarint (nat i))])"

definition count_wf :: "int \<Rightarrow> bool" where
  "count_wf i \<longleftrightarrow> 0 \<le> i \<and> i < 2 ^ 63"

lemma encode_count_fields: "pred_option count_wf v \<Longrightarrow> encode_count n v = Inr (encode_fields (count_fields n v))"
  by (auto simp: encode_count_def count_fields_def encode_varint_def count_wf_def encode_field.simps split: option.split)

lemma count_form: "pred_option count_wf v \<Longrightarrow> 0 < n \<Longrightarrow> n < 2 ^ 29 \<Longrightarrow> list_all field_form (count_fields n v)"
  by (auto simp: count_fields_def count_wf_def nat_less_iff split: option.split)

lemma decode_count_wf: "count_wf i \<Longrightarrow> decode_int64 (WireVarint (nat i)) = Inr i"
  by (rule decode_count) (auto simp: count_wf_def int64_def)

definition export_wf :: "export_memory_request \<Rightarrow> bool" where
  "export_wf q \<longleftrightarrow> xp_tenant_id q \<noteq> [] \<and> utf8_strict (xp_tenant_id q) \<and> pred_option utf8_strict (xp_scope q) \<and> pred_option count_wf (xp_limit q)
    \<and> pred_option utf8_strict (xp_page_token q)"

lemma export_opt_fields:
  assumes "pred_option utf8_strict v"
  shows "xp_scope s = None \<Longrightarrow> foldE export_request_step (opt_fields 2 v) (t, s) = Inr (t, s\<lparr>xp_scope := v\<rparr>)"
    "xp_page_token s = None \<Longrightarrow> foldE export_request_step (opt_fields 4 v) (t, s) = Inr (t, s\<lparr>xp_page_token := v\<rparr>)"
  using assms by (auto simp: opt_fields_def export_request_step_def split: option.split)

lemma export_count_field:
  "pred_option count_wf v \<Longrightarrow> xp_limit s = None \<Longrightarrow> foldE export_request_step (count_fields 3 v) (t, s) = Inr (t, s\<lparr>xp_limit := v\<rparr>)"
  by (auto simp: count_fields_def export_request_step_def decode_count_wf simp del: decode_int64.simps split: option.split)

interpretation export_request: message_codec export_wf "\<lambda>q. q" encode_export_batch_request decode_export_batch_request
proof
  fix q assume "export_wf q"
  then show "\<exists>v. encode_export_batch_request q = Inr v"
    by (simp add: encode_export_batch_request_def encode_count_fields export_wf_def)
next
  fix q v assume wf: "export_wf q" and enc: "encode_export_batch_request q = Inr v" and len: "length v < 2 ^ 70"
  let ?fs = "str_fields 1 (xp_tenant_id q) @ opt_fields 2 (xp_scope q) @ count_fields 3 (xp_limit q) @ opt_fields 4 (xp_page_token q)"
  let ?s = "\<lparr>xp_tenant_id = [], xp_scope = None, xp_limit = None, xp_page_token = None\<rparr>"
  have v: "v = encode_fields ?fs"
    using enc wf by (simp add: encode_export_batch_request_def encode_count_fields export_wf_def)
  have "foldE export_request_step (str_fields 1 (xp_tenant_id q)) (None, ?s) = Inr (Some (xp_tenant_id q), ?s)"
    using wf by (simp add: str_fields_def export_request_step_def export_wf_def)
  then have "foldE export_request_step ?fs (None, ?s) = Inr (Some (xp_tenant_id q), q\<lparr>xp_tenant_id := []\<rparr>)"
    using wf by (simp add: export_wf_def export_opt_fields export_count_field del: One_nat_def)
  then have "fold_fields export_request_step v (None, ?s) = Inr (Some (xp_tenant_id q), q\<lparr>xp_tenant_id := []\<rparr>)"
    using wf count_form [of "xp_limit q" 3] by (intro read_message [OF v _ len]) (simp_all add: export_wf_def)
  then show "decode_export_batch_request v = Inr q" by (simp add: decode_export_batch_request_def)
qed

definition recall_wf :: "recall_memory_request \<Rightarrow> bool" where
  "recall_wf q \<longleftrightarrow> rc_tenant_id q \<noteq> [] \<and> utf8_strict (rc_tenant_id q) \<and> pred_option utf8_strict (rc_scope q) \<and> pred_option utf8_strict (rc_subject q)
    \<and> list_all is_float32 (rc_query_embedding q) \<and> pred_option utf8_strict (rc_query_text q) \<and> distinct (map fst (rc_metadata_filters q))
    \<and> list_all (\<lambda>(k, v). utf8_strict k \<and> utf8_strict v) (rc_metadata_filters q) \<and> pred_option is_float32 (rc_min_similarity q)
    \<and> pred_option count_wf (rc_top_k q)"

definition recall_norm :: "recall_memory_request \<Rightarrow> recall_memory_request" where
  "recall_norm q = q\<lparr>rc_metadata_filters := sort_key fst (rc_metadata_filters q)\<rparr>"

lemma recall_opt_fields:
  assumes "pred_option utf8_strict v"
  shows "rc_scope s = None \<Longrightarrow> foldE recall_request_step (opt_fields 2 v) (t, s) = Inr (t, s\<lparr>rc_scope := v\<rparr>)"
    "rc_subject s = None \<Longrightarrow> foldE recall_request_step (opt_fields 3 v) (t, s) = Inr (t, s\<lparr>rc_subject := v\<rparr>)"
    "rc_query_text s = None \<Longrightarrow> foldE recall_request_step (opt_fields 5 v) (t, s) = Inr (t, s\<lparr>rc_query_text := v\<rparr>)"
  using assms by (auto simp: opt_fields_def recall_request_step_def split: option.split)

lemma recall_number_fields:
  "pred_option count_wf v \<Longrightarrow> rc_top_k s = None \<Longrightarrow> foldE recall_request_step (count_fields 8 v) (t, s) = Inr (t, s\<lparr>rc_top_k := v\<rparr>)"
  "unpack_floats p = vs \<Longrightarrow> length p = 4 * length vs \<Longrightarrow> rc_query_embedding s = [] \<Longrightarrow>
     foldE recall_request_step (float_fields 4 vs p) (t, s) = Inr (t, s\<lparr>rc_query_embedding := vs\<rparr>)"
  using decode_packed [of p vs]
  by (auto simp: count_fields_def float_fields_def recall_request_step_def decode_count_wf
      simp del: decode_int64.simps decode_float_repeated.simps split: option.split)

lemma recall_map_field:
  assumes "distinct (map fst d)" "list_all (\<lambda>(k, v). utf8_strict k \<and> utf8_strict v) d" "list_all field_ok (map_fields 6 d)"
    "rc_metadata_filters s = []"
  shows "foldE recall_request_step (map_fields 6 d) (t, s) = Inr (t, s\<lparr>rc_metadata_filters := sort_key fst d\<rparr>)"
proof -
  have "\<forall>e \<in> set (sort_key fst d). length (map_entry e) < 2 ^ 70"
    using assms(3) by (auto simp: map_fields_def list_all_iff)
  then show ?thesis
    using map_entries_read [where n = 6 and step = recall_request_step and get = "\<lambda>(t, s). rc_metadata_filters s"
        and put = "\<lambda>d (t, s). (t, s\<lparr>rc_metadata_filters := d\<rparr>)" and es = "sort_key fst d" and s = "(t, s)"]
      sorted_entries [OF assms(1,2)] assms(4)
    by (auto simp: map_fields_def recall_request_step_def)
qed

lemma recall_request_fields:
  assumes "recall_wf q"
  obtains p r where "encode_recall_request q = Inr (encode_fields (str_fields 1 (rc_tenant_id q) @ opt_fields 2 (rc_scope q)
        @ opt_fields 3 (rc_subject q) @ float_fields 4 (rc_query_embedding q) p @ opt_fields 5 (rc_query_text q)
        @ map_fields 6 (rc_metadata_filters q) @ r @ count_fields 8 (rc_top_k q)))"
    "unpack_floats p = rc_query_embedding q" "length p = 4 * length (rc_query_embedding q)" "list_all field_form r"
    "\<And>t s. rc_min_similarity s = None \<Longrightarrow> foldE recall_request_step r (t, s) = Inr (t, s\<lparr>rc_min_similarity := rc_min_similarity q\<rparr>)"
proof -
  have "list_all is_float32 (rc_query_embedding q)" using assms by (simp add: recall_wf_def)
  then obtain p where p: "encode_packed_floats 4 (rc_query_embedding q) = Inr (encode_fields (float_fields 4 (rc_query_embedding q) p))"
    "unpack_floats p = rc_query_embedding q" "length p = 4 * length (rc_query_embedding q)" by (rule encode_packed_read)
  obtain r where r: "encode_optional_float 7 (rc_min_similarity q) = Inr (encode_fields r)" "list_all field_form r"
    "\<And>t s. rc_min_similarity s = None \<Longrightarrow> foldE recall_request_step r (t, s) = Inr (t, s\<lparr>rc_min_similarity := rc_min_similarity q\<rparr>)"
  proof (cases "rc_min_similarity q")
    case None
    then show thesis by (intro that [of "[]"]) (simp_all add: encode_optional_float_def)
  next
    case (Some f)
    then have "is_float32 f" using assms by (simp add: recall_wf_def)
    then obtain b where "encode_optional_float 7 (Some f) = Inr (encode_fields [(7, WireFixed32 b)])" "length b = 4"
      "decode_float (WireFixed32 b) = Inr f" by (rule encode_float_read)
    then show thesis using Some
      by (intro that [of "[(7, WireFixed32 b)]"]) (simp_all add: recall_request_step_def del: decode_float.simps)
  qed
  have "encode_count 8 (rc_top_k q) = Inr (encode_fields (count_fields 8 (rc_top_k q)))"
    using assms by (intro encode_count_fields) (simp add: recall_wf_def)
  then have "encode_recall_request q = Inr (encode_fields (str_fields 1 (rc_tenant_id q) @ opt_fields 2 (rc_scope q)
        @ opt_fields 3 (rc_subject q) @ float_fields 4 (rc_query_embedding q) p @ opt_fields 5 (rc_query_text q)
        @ map_fields 6 (rc_metadata_filters q) @ r @ count_fields 8 (rc_top_k q)))"
    by (simp add: encode_recall_request_def p(1) r(1))
  then show thesis using p(2,3) r(2,3) by (rule that)
qed

interpretation recall_request: message_codec recall_wf recall_norm encode_recall_request decode_recall_request
proof
  fix q assume "recall_wf q"
  then show "\<exists>v. encode_recall_request q = Inr v" by (rule recall_request_fields) blast
next
  fix q v assume wf: "recall_wf q" and enc: "encode_recall_request q = Inr v" and len: "length v < 2 ^ 70"
  show "decode_recall_request v = Inr (recall_norm q)"
    using wf
  proof (rule recall_request_fields)
    fix p r assume f: "encode_recall_request q = Inr (encode_fields (str_fields 1 (rc_tenant_id q) @ opt_fields 2 (rc_scope q)
        @ opt_fields 3 (rc_subject q) @ float_fields 4 (rc_query_embedding q) p @ opt_fields 5 (rc_query_text q)
        @ map_fields 6 (rc_metadata_filters q) @ r @ count_fields 8 (rc_top_k q)))"
      "unpack_floats p = rc_query_embedding q" "length p = 4 * length (rc_query_embedding q)" "list_all field_form r"
      "\<And>t s. rc_min_similarity s = None \<Longrightarrow> foldE recall_request_step r (t, s) = Inr (t, s\<lparr>rc_min_similarity := rc_min_similarity q\<rparr>)"
    have v: "v = encode_fields (str_fields 1 (rc_tenant_id q) @ opt_fields 2 (rc_scope q)
        @ opt_fields 3 (rc_subject q) @ float_fields 4 (rc_query_embedding q) p @ opt_fields 5 (rc_query_text q)
        @ map_fields 6 (rc_metadata_filters q) @ r @ count_fields 8 (rc_top_k q))" using enc f(1) by simp
    have "foldE recall_request_step (str_fields 1 (rc_tenant_id q)) (None, empty_recall) = Inr (Some (rc_tenant_id q), empty_recall)"
      using wf by (simp add: str_fields_def recall_request_step_def recall_wf_def)
    then have "fold_fields recall_request_step v (None, empty_recall) = Inr (Some (rc_tenant_id q), (recall_norm q)\<lparr>rc_tenant_id := []\<rparr>)"
      using wf f(2-5) count_form [of "rc_top_k q" 8]
      by (intro read_message [OF v _ len])
         (simp_all add: recall_wf_def recall_opt_fields recall_number_fields recall_map_field recall_norm_def empty_recall_def del: One_nat_def)
    then show ?thesis by (simp add: decode_recall_request_def recall_norm_def)
  qed
qed

definition import_wf :: "import_memory_request \<Rightarrow> bool" where
  "import_wf q \<longleftrightarrow> utf8_strict (im_tenant_id q) \<and> list_all item_wf (im_items q)"

definition import_norm :: "import_memory_request \<Rightarrow> import_memory_request" where
  "import_norm q = q\<lparr>im_items := map item_norm (im_items q)\<rparr>"

lemma fold_append_items: "fold (\<lambda>x s. s\<lparr>im_items := im_items s @ [f x]\<rparr>) xs s = s\<lparr>im_items := im_items s @ map f xs\<rparr>"
  by (induction xs arbitrary: s) simp_all

lemma batch_lengths: "list_all field_ok (map (\<lambda>p. (n, WireLen p)) ps) \<Longrightarrow> \<forall>p \<in> set ps. length p < 2 ^ 70"
  by (auto simp: list_all_iff)

lemma batch_form: "0 < n \<Longrightarrow> n < 2 ^ 29 \<Longrightarrow> list_all field_form (map (\<lambda>p. (n, WireLen p)) ps)"
  by (simp add: list_all_iff)

interpretation import_request: message_codec import_wf import_norm encode_import_batch_request decode_import_batch_request
proof
  fix q assume "import_wf q"
  then show "\<exists>v. encode_import_batch_request q = Inr v"
    using item_codec.batch_total [of "im_items q" 2] by (auto simp: import_wf_def encode_import_batch_request_def)
next
  fix q v assume wf: "import_wf q" and enc: "encode_import_batch_request q = Inr v" and len: "length v < 2 ^ 70"
  obtain ps where ps: "encode_all encode_memory_item 2 (im_items q) = Inr (encode_fields (map (\<lambda>p. (2, WireLen p)) ps))"
    "list_all2 (\<lambda>x p. encode_memory_item x = Inr p) (im_items q) ps"
    using item_codec.batch_total [of "im_items q" 2] wf by (auto simp: import_wf_def)
  let ?o = "if im_overwrite q then [(3, WireVarint 1)] else []"
  let ?fs = "str_fields 1 (im_tenant_id q) @ map (\<lambda>p. (2, WireLen p)) ps @ ?o"
  have v: "v = encode_fields ?fs" using enc by (cases "im_overwrite q") (simp_all add: encode_import_batch_request_def ps(1))
  have "foldE import_request_step ?fs \<lparr>im_tenant_id = [], im_items = [], im_overwrite = False\<rparr> = Inr (import_norm q)"
    if ok: "list_all field_ok ?fs"
  proof -
    let ?s = "\<lparr>im_tenant_id = im_tenant_id q, im_items = [], im_overwrite = False\<rparr>"
    have "list_all field_ok (map (\<lambda>p. (2, WireLen p)) ps)" using ok by simp
    note lengths = batch_lengths [OF this]
    have "foldE import_request_step (map (\<lambda>p. (2, WireLen p)) ps) ?s = Inr (fold (\<lambda>x s. s\<lparr>im_items := im_items s @ [item_norm x]\<rparr>) (im_items q) ?s)"
      using wf by (intro item_codec.batch_read [OF _ ps(2) lengths]) (simp_all add: import_wf_def import_request_step_def)
    moreover have "foldE import_request_step (str_fields 1 (im_tenant_id q)) \<lparr>im_tenant_id = [], im_items = [], im_overwrite = False\<rparr> = Inr ?s"
      using wf by (auto simp: str_fields_def import_request_step_def import_wf_def)
    ultimately show ?thesis by (simp add: fold_append_items import_request_step_def import_norm_def del: One_nat_def)
  qed
  then show "decode_import_batch_request v = Inr (import_norm q)"
    unfolding decode_import_batch_request_def by (intro read_message [OF v _ len]) (simp_all add: batch_form)
qed

section \<open>Responses\<close>

text \<open>A response codec from a codec of its value: the value is written as one first field that \<open>read\<close> accepts.\<close>

locale result_codec =
  fixes wf :: "'a \<Rightarrow> bool" and norm :: "'a \<Rightarrow> 'a"
    and enc :: "'a \<Rightarrow> codec_error + bytes" and read :: "wire_value \<Rightarrow> (codec_error + 'a) option"
  assumes value_field: "wf v \<Longrightarrow> \<exists>w. enc v = Inr (encode_fields [(1, w)]) \<and> field_form (1, w)
      \<and> (field_ok (1, w) \<longrightarrow> read w = Some (Inr (norm v)))"

definition response_wf :: "('a \<Rightarrow> bool) \<Rightarrow> ('a, 'b) memory_response_scheme \<Rightarrow> bool" where
  "response_wf value_wf r =
    (case (mr_value r, mr_error r) of (Some v, None) \<Rightarrow> value_wf v | (None, Some e) \<Rightarrow> error_wf e | (None, None) \<Rightarrow> True | _ \<Rightarrow> False)"

definition response_norm :: "('a \<Rightarrow> 'a) \<Rightarrow> 'a memory_response \<Rightarrow> 'a memory_response" where
  "response_norm f r = r\<lparr>mr_value := map_option f (mr_value r)\<rparr>"

sublocale result_codec \<subseteq> message_codec "response_wf wf" "response_norm norm" "encode_result enc" "decode_result read"
proof
  fix r :: "'a memory_response" assume "response_wf wf r"
  then show "\<exists>v. encode_result enc r = Inr v"
    using error_codec.total value_field
    by (fastforce simp: response_wf_def encode_result_def split: option.splits)
next
  fix r :: "'a memory_response" and v
  assume wf: "response_wf wf r" and enc: "encode_result enc r = Inr v" and len: "length v < 2 ^ 70"
  consider (val) x where "r = \<lparr>mr_value = Some x, mr_error = None\<rparr>" "wf x"
    | (err) e where "r = \<lparr>mr_value = None, mr_error = Some e\<rparr>" "error_wf e" | (none) "r = no_result"
    using wf by (cases r) (auto simp: response_wf_def split: option.splits)
  then show "decode_result read v = Inr (response_norm norm r)"
  proof cases
    case val
    obtain w where w: "enc x = Inr (encode_fields [(1, w)])" "field_form (1, w)" "field_ok (1, w) \<Longrightarrow> read w = Some (Inr (norm x))"
      using value_field [OF val(2)] by blast
    have v: "v = encode_fields [(1, w)]" using enc w(1) val by (simp add: encode_result_def)
    show ?thesis unfolding decode_result_def
      by (rule read_message [OF v _ len]) (use w val in \<open>simp_all add: result_step_def response_norm_def\<close>)
  next
    case err
    obtain b where b: "encode_error e = Inr b" "length b < 2 ^ 70 \<Longrightarrow> decode_error b = Inr e" using error_codec.round_trip [OF err(2)] by blast
    have v: "v = encode_fields [(2, WireLen b)]" using enc b(1) err by (simp add: encode_result_def)
    show ?thesis unfolding decode_result_def
      by (rule read_message [OF v _ len]) (use b(2) err in \<open>simp_all add: result_step_def response_norm_def\<close>)
  next
    case none
    with enc have "v = []" by (simp add: encode_result_def)
    with none show ?thesis by (simp add: decode_result_def fold_fields.simps response_norm_def)
  qed
qed

interpretation store_response: result_codec utf8_strict "\<lambda>s. s" "\<lambda>item_id. Inr (encode_optional_string 1 (Some item_id))" "if_len decode_string"
proof
  fix s assume "utf8_strict s"
  then show "\<exists>w. (Inr (encode_optional_string 1 (Some s)) :: codec_error + bytes) = Inr (encode_fields [(1, w)]) \<and> field_form (1, w)
      \<and> (field_ok (1, w) \<longrightarrow> if_len decode_string w = Some (Inr s))"
    by (intro exI [of _ "WireLen s"]) (simp add: opt_fields_def if_len_def)
qed

interpretation delete_response: result_codec "\<lambda>_. True" "\<lambda>b. b" "\<lambda>deleted. Inr (encode_bool 1 deleted)"
  "\<lambda>w. case w of WireVarint v \<Rightarrow> Some (Inr (v \<noteq> 0)) | _ \<Rightarrow> None"
proof
  fix b :: bool
  show "\<exists>w. (Inr (encode_bool 1 b) :: codec_error + bytes) = Inr (encode_fields [(1, w)]) \<and> field_form (1, w)
      \<and> (field_ok (1, w) \<longrightarrow> (case w of WireVarint v \<Rightarrow> Some (Inr (v \<noteq> 0)) | _ \<Rightarrow> None) = Some (Inr b))"
    by (intro exI [of _ "WireVarint (of_bool b)"]) simp
qed

interpretation prune_response: result_codec int64 "\<lambda>i. i" "\<lambda>count. Inr (encode_optional_int 1 (Some count))" "\<lambda>w. Some (decode_int64 w)"
proof
  fix i assume "int64 i"
  then show "\<exists>w. (Inr (encode_optional_int 1 (Some i)) :: codec_error + bytes) = Inr (encode_fields [(1, w)]) \<and> field_form (1, w)
      \<and> (field_ok (1, w) \<longrightarrow> Some (decode_int64 w) = Some (Inr i))"
    using int64_mask_bound [of i]
    by (intro exI [of _ "WireVarint (int64_mask i)"]) (simp add: int_fields_def decode_int64_mask del: decode_int64.simps)
qed

interpretation import_response: result_codec count_wf "\<lambda>i. i" "\<lambda>count. encode_count 1 (Some count)" "\<lambda>w. Some (decode_int64 w)"
proof
  fix i assume "count_wf i"
  then show "\<exists>w. encode_count 1 (Some i) = Inr (encode_fields [(1, w)]) \<and> field_form (1, w)
      \<and> (field_ok (1, w) \<longrightarrow> Some (decode_int64 w) = Some (Inr i))"
    using count_form [of "Some i" 1] encode_count_fields [of "Some i" 1]
    by (intro exI [of _ "WireVarint (nat i)"]) (simp add: count_fields_def decode_count_wf del: decode_int64.simps)
qed

interpretation get_response: result_codec item_wf item_norm
  "\<lambda>item. bindE (encode_memory_item item) (\<lambda>b. Inr (encode_len_delimited 1 b))" "if_len (\<lambda>w. decode_memory_item (payload_of w))"
proof
  fix item assume wf: "item_wf item"
  then obtain b where b: "encode_memory_item item = Inr b" "length b < 2 ^ 70 \<Longrightarrow> decode_memory_item b = Inr (item_norm item)"
    using item_codec.round_trip by blast
  then show "\<exists>w. bindE (encode_memory_item item) (\<lambda>b. Inr (encode_len_delimited 1 b)) = Inr (encode_fields [(1, w)])
      \<and> field_form (1, w) \<and> (field_ok (1, w) \<longrightarrow> if_len (\<lambda>w. decode_memory_item (payload_of w)) w = Some (Inr (item_norm item)))"
    by (intro exI [of _ "WireLen b"]) (simp add: if_len_def)
qed

lemma fold_snoc: "fold (\<lambda>x s. s @ [f x]) xs s = s @ map f xs"
  by (induction xs arbitrary: s) simp_all

interpretation recall_response: result_codec "list_all match_wf" "map match_norm"
  "\<lambda>matches. bindE (encode_all encode_match 1 matches) (\<lambda>batch. Inr (encode_len_delimited 1 batch))"
  "if_len (\<lambda>w. fold_fields (batch_step decode_match) (payload_of w) [])"
proof
  fix ms assume wf: "list_all match_wf ms"
  obtain ps where ps: "encode_all encode_match 1 ms = Inr (encode_fields (map (\<lambda>p. (1, WireLen p)) ps))"
    "list_all2 (\<lambda>x p. encode_match x = Inr p) ms ps" using match_codec.batch_total [OF wf, of 1] by blast
  let ?b = "encode_fields (map (\<lambda>p. (1, WireLen p)) ps)"
  have "fold_fields (batch_step decode_match) ?b [] = Inr (map match_norm ms)" if len: "length ?b < 2 ^ 70"
  proof (rule read_message [OF refl _ len])
    assume ok: "list_all field_ok (map (\<lambda>p. (1, WireLen p)) ps)"
    have "foldE (batch_step decode_match) (map (\<lambda>p. (1, WireLen p)) ps) [] = Inr (fold (\<lambda>x s. s @ [match_norm x]) ms [])"
      using batch_lengths [OF ok] by (intro match_codec.batch_read [OF wf ps(2)]) (simp_all add: batch_step_def)
    then show "foldE (batch_step decode_match) (map (\<lambda>p. (1, WireLen p)) ps) [] = Inr (map match_norm ms)" by (simp add: fold_snoc)
  qed (simp add: batch_form)
  then show "\<exists>w. bindE (encode_all encode_match 1 ms) (\<lambda>batch. Inr (encode_len_delimited 1 batch)) = Inr (encode_fields [(1, w)])
      \<and> field_form (1, w) \<and> (field_ok (1, w) \<longrightarrow> if_len (\<lambda>w. fold_fields (batch_step decode_match) (payload_of w) []) w = Some (Inr (map match_norm ms)))"
    using ps(1) by (intro exI [of _ "WireLen ?b"]) (simp add: if_len_def)
qed

subsection \<open>The export response\<close>

definition export_response_wf :: "export_memory_response \<Rightarrow> bool" where
  "export_response_wf r \<longleftrightarrow> response_wf (list_all item_wf) r \<and> utf8_strict (xr_next_page_token r)
    \<and> (mr_value r = None \<longrightarrow> xr_next_page_token r = [])"

definition export_response_norm :: "export_memory_response \<Rightarrow> export_memory_response" where
  "export_response_norm r = r\<lparr>mr_value := map_option (map item_norm) (mr_value r)\<rparr>"

lemma fold_page: "fold (\<lambda>x s. (fst s @ [f x], snd s)) xs (ys, t) = (ys @ map f xs, t)"
  by (induction xs arbitrary: ys) simp_all

lemma page_read:
  assumes "list_all item_wf items" "utf8_strict token"
  obtains b where "encode_all encode_memory_item 1 items = Inr b"
    "length (b @ encode_string_field 2 token) < 2 ^ 70 \<longrightarrow>
       fold_fields page_step (b @ encode_string_field 2 token) ([], []) = Inr (map item_norm items, token)"
proof -
  obtain ps where ps: "encode_all encode_memory_item 1 items = Inr (encode_fields (map (\<lambda>p. (1, WireLen p)) ps))"
    "list_all2 (\<lambda>x p. encode_memory_item x = Inr p) items ps" using item_codec.batch_total [OF assms(1), of 1] by blast
  let ?fs = "map (\<lambda>p. (1, WireLen p)) ps @ str_fields 2 token"
  have "fold_fields page_step (encode_fields ?fs) ([], []) = Inr (map item_norm items, token)" if len: "length (encode_fields ?fs) < 2 ^ 70"
  proof (rule read_message [OF refl _ len])
    assume "list_all field_ok ?fs"
    then have "list_all field_ok (map (\<lambda>p. (1, WireLen p)) ps)" by simp
    note lengths = batch_lengths [OF this]
    have "foldE page_step (map (\<lambda>p. (1, WireLen p)) ps) ([], []) = Inr (fold (\<lambda>x s. (fst s @ [item_norm x], snd s)) items ([], []))"
      by (intro item_codec.batch_read [OF assms(1) ps(2) lengths]) (simp add: page_step_def)
    then show "foldE page_step ?fs ([], []) = Inr (map item_norm items, token)"
      using assms(2) by (auto simp: fold_page str_fields_def page_step_def)
  qed (simp add: batch_form)
  then show thesis by (intro that [OF ps(1)]) simp
qed

interpretation export_response: message_codec export_response_wf export_response_norm encode_export_batch_response decode_export_batch_response
proof
  fix r assume "export_response_wf r"
  then show "\<exists>v. encode_export_batch_response r = Inr v"
    using error_codec.total item_codec.batch_total [of _ 1]
    by (fastforce simp: export_response_wf_def response_wf_def encode_export_batch_response_def encode_result_def split: option.splits)
next
  fix r v assume wf: "export_response_wf r" and enc: "encode_export_batch_response r = Inr v" and len: "length v < 2 ^ 70"
  let ?s = "\<lparr>mr_value = None, mr_error = None, xr_next_page_token = []\<rparr>"
  consider (items) items token where "r = \<lparr>mr_value = Some items, mr_error = None, xr_next_page_token = token\<rparr>" "list_all item_wf items" "utf8_strict token"
    | (err) e where "r = \<lparr>mr_value = None, mr_error = Some e, xr_next_page_token = []\<rparr>" "error_wf e" | (none) "r = ?s"
    using wf by (cases r) (auto simp: export_response_wf_def response_wf_def split: option.splits)
  then show "decode_export_batch_response v = Inr (export_response_norm r)"
  proof cases
    case items
    obtain b where b: "encode_all encode_memory_item 1 items = Inr b" "length (b @ encode_string_field 2 token) < 2 ^ 70 \<longrightarrow>
       fold_fields page_step (b @ encode_string_field 2 token) ([], []) = Inr (map item_norm items, token)"
      using items(2,3) by (rule page_read)
    have v: "v = encode_fields [(1, WireLen (b @ encode_string_field 2 token))]"
      using enc items(1) b(1) by (simp add: encode_export_batch_response_def encode_result_def)
    show ?thesis unfolding decode_export_batch_response_def
      by (rule read_message [OF v _ len])
         (use b(2) items in \<open>simp_all add: export_response_step_def export_response_norm_def del: encode_as_fields\<close>)
  next
    case err
    obtain b where b: "encode_error e = Inr b" "length b < 2 ^ 70 \<Longrightarrow> decode_error b = Inr e" using error_codec.round_trip [OF err(2)] by blast
    have v: "v = encode_fields [(2, WireLen b)]" using enc b(1) err by (simp add: encode_export_batch_response_def encode_result_def)
    show ?thesis unfolding decode_export_batch_response_def
      by (rule read_message [OF v _ len]) (use b(2) err in \<open>simp_all add: export_response_step_def export_response_norm_def\<close>)
  next
    case none
    with enc have "v = []" by (simp add: encode_export_batch_response_def encode_result_def)
    with none show ?thesis by (simp add: decode_export_batch_response_def fold_fields.simps export_response_norm_def)
  qed
qed

end
