(* ===== verification/Memory_Messages.thy ===== *)
theory Memory_Messages
  imports Memory_Codecs
begin

text \<open>
  The method table of the memory contract, the last part of \<open>memory.py\<close>: the method names, their type URLs and the codecs that a
  method selects.  Requests and responses of all methods form two datatypes.  \<open>encode_request\<close> and \<open>encode_response\<close> take any request
  or response object and fail when an attribute that the encoder reads is missing; since the requests of \<open>get\<close> and \<open>delete\<close> have
  the same attributes, each of the two encoders accepts both, and since an error is encoded before the value is read, a response
  with an error is accepted for every method.
\<close>

datatype memory_method = Store | Get | Recall | Delete | Prune | Export_Batch | Import_Batch

definition METHODS :: "(string \<times> memory_method) list" where
  "METHODS =
    [(''store'', Store), (''get'', Get), (''recall'', Recall), (''delete'', Delete), (''prune'', Prune),
     (''export_batch'', Export_Batch), (''import_batch'', Import_Batch)]"

fun message_name :: "memory_method \<Rightarrow> string" where
  "message_name Store = ''StoreMemory''"
| "message_name Get = ''GetMemory''"
| "message_name Recall = ''RecallMemory''"
| "message_name Delete = ''DeleteMemory''"
| "message_name Prune = ''PruneMemory''"
| "message_name Export_Batch = ''ExportMemory''"
| "message_name Import_Batch = ''ImportMemory''"

definition REQUEST_TYPE_URLS :: "memory_method \<Rightarrow> string" where
  "REQUEST_TYPE_URLS m = ''type.cyrene.io/cyrene.memory.provider.v1.'' @ message_name m @ ''Request''"

definition RESPONSE_TYPE_URLS :: "memory_method \<Rightarrow> string" where
  "RESPONSE_TYPE_URLS m = ''type.cyrene.io/cyrene.memory.provider.v1.'' @ message_name m @ ''Response''"

definition CAPABILITY_ID :: string where "CAPABILITY_ID = ''memory.provider.v1''"

section \<open>Requests\<close>

datatype memory_request =
    StoreRequest store_memory_request
  | GetRequest get_memory_request
  | RecallRequest recall_memory_request
  | DeleteRequest delete_memory_request
  | PruneRequest prune_memory_request
  | ExportRequest export_memory_request
  | ImportRequest import_memory_request

definition encode_request :: "string \<Rightarrow> memory_request \<Rightarrow> codec_error + bytes" where
  "encode_request action request =
    (case map_of METHODS action of
       None \<Rightarrow> Inl MemoryCodecError
     | Some m \<Rightarrow>
        (case (m, request) of
           (Store, StoreRequest q) \<Rightarrow> encode_store_request q
         | (Get, GetRequest q) \<Rightarrow> Inr (encode_get_request q)
         | (Get, DeleteRequest q) \<Rightarrow> Inr (encode_get_request \<lparr>gt_tenant_id = de_tenant_id q, gt_item_id = de_item_id q\<rparr>)
         | (Recall, RecallRequest q) \<Rightarrow> encode_recall_request q
         | (Delete, DeleteRequest q) \<Rightarrow> Inr (encode_delete_request q)
         | (Delete, GetRequest q) \<Rightarrow> Inr (encode_delete_request \<lparr>de_tenant_id = gt_tenant_id q, de_item_id = gt_item_id q\<rparr>)
         | (Prune, PruneRequest q) \<Rightarrow> Inr (encode_prune_request q)
         | (Export_Batch, ExportRequest q) \<Rightarrow> encode_export_batch_request q
         | (Import_Batch, ImportRequest q) \<Rightarrow> encode_import_batch_request q
         | _ \<Rightarrow> Inl MemoryCodecError))"

definition decode_request :: "string \<Rightarrow> bytes \<Rightarrow> codec_error + memory_request" where
  "decode_request action payload =
    (case map_of METHODS action of
       None \<Rightarrow> Inl MemoryCodecError
     | Some Store \<Rightarrow> map_sum id StoreRequest (decode_store_request payload)
     | Some Get \<Rightarrow> map_sum id GetRequest (decode_get_request payload)
     | Some Recall \<Rightarrow> map_sum id RecallRequest (decode_recall_request payload)
     | Some Delete \<Rightarrow> map_sum id DeleteRequest (decode_delete_request payload)
     | Some Prune \<Rightarrow> map_sum id PruneRequest (decode_prune_request payload)
     | Some Export_Batch \<Rightarrow> map_sum id ExportRequest (decode_export_batch_request payload)
     | Some Import_Batch \<Rightarrow> map_sum id ImportRequest (decode_import_batch_request payload))"

section \<open>Responses\<close>

datatype memory_reply =
    StoreReply "string memory_response"
  | GetReply "memory_item memory_response"
  | RecallReply "memory_match list memory_response"
  | DeleteReply "bool memory_response"
  | PruneReply "int memory_response"
  | ExportReply export_memory_response
  | ImportReply "int memory_response"

fun reply_method :: "memory_reply \<Rightarrow> memory_method" where
  "reply_method (StoreReply _) = Store"
| "reply_method (GetReply _) = Get"
| "reply_method (RecallReply _) = Recall"
| "reply_method (DeleteReply _) = Delete"
| "reply_method (PruneReply _) = Prune"
| "reply_method (ExportReply _) = Export_Batch"
| "reply_method (ImportReply _) = Import_Batch"

fun reply_error :: "memory_reply \<Rightarrow> memory_error option" where
  "reply_error (StoreReply r) = mr_error r"
| "reply_error (GetReply r) = mr_error r"
| "reply_error (RecallReply r) = mr_error r"
| "reply_error (DeleteReply r) = mr_error r"
| "reply_error (PruneReply r) = mr_error r"
| "reply_error (ExportReply r) = mr_error r"
| "reply_error (ImportReply r) = mr_error r"

fun validate_reply :: "memory_reply \<Rightarrow> codec_error + unit" where
  "validate_reply (StoreReply r) = validate_response r"
| "validate_reply (GetReply r) = validate_response r"
| "validate_reply (RecallReply r) = validate_response r"
| "validate_reply (DeleteReply r) = validate_response r"
| "validate_reply (PruneReply r) = validate_response r"
| "validate_reply (ExportReply r) = validate_response r"
| "validate_reply (ImportReply r) = validate_response r"

text \<open>The encoder of the reply's own method.\<close>

fun encode_reply :: "memory_reply \<Rightarrow> codec_error + bytes" where
  "encode_reply (StoreReply r) = encode_store_response r"
| "encode_reply (GetReply r) = encode_get_response r"
| "encode_reply (RecallReply r) = encode_recall_response r"
| "encode_reply (DeleteReply r) = encode_delete_response r"
| "encode_reply (PruneReply r) = encode_prune_response r"
| "encode_reply (ExportReply r) = encode_export_batch_response r"
| "encode_reply (ImportReply r) = encode_import_batch_response r"

text \<open>For another method the value field is missing: only an error is left to encode.\<close>

definition encode_response :: "string \<Rightarrow> memory_reply \<Rightarrow> codec_error + bytes" where
  "encode_response action reply =
    (case map_of METHODS action of
       None \<Rightarrow> Inl MemoryCodecError
     | Some m \<Rightarrow>
        if reply_method reply = m then bindE (validate_reply reply) (\<lambda>_. encode_reply reply)
        else
          (case reply_error reply of
             None \<Rightarrow> Inl MemoryCodecError
           | Some e \<Rightarrow> bindE (encode_error e) (\<lambda>b. Inr (encode_len_delimited 2 b))))"

definition decode_response :: "string \<Rightarrow> bytes \<Rightarrow> codec_error + memory_reply" where
  "decode_response action payload =
    bindE
      (case map_of METHODS action of
         None \<Rightarrow> Inl MemoryCodecError
       | Some Store \<Rightarrow> map_sum id StoreReply (decode_store_response payload)
       | Some Get \<Rightarrow> map_sum id GetReply (decode_get_response payload)
       | Some Recall \<Rightarrow> map_sum id RecallReply (decode_recall_response payload)
       | Some Delete \<Rightarrow> map_sum id DeleteReply (decode_delete_response payload)
       | Some Prune \<Rightarrow> map_sum id PruneReply (decode_prune_response payload)
       | Some Export_Batch \<Rightarrow> map_sum id ExportReply (decode_export_batch_response payload)
       | Some Import_Batch \<Rightarrow> map_sum id ImportReply (decode_import_batch_response payload))
      (\<lambda>reply. bindE (validate_reply reply) (\<lambda>_. Inr reply))"

section \<open>Messages that read back\<close>

fun request_action :: "memory_request \<Rightarrow> string" where
  "request_action (StoreRequest _) = ''store''"
| "request_action (GetRequest _) = ''get''"
| "request_action (RecallRequest _) = ''recall''"
| "request_action (DeleteRequest _) = ''delete''"
| "request_action (PruneRequest _) = ''prune''"
| "request_action (ExportRequest _) = ''export_batch''"
| "request_action (ImportRequest _) = ''import_batch''"

fun request_wf :: "memory_request \<Rightarrow> bool" where
  "request_wf (StoreRequest q) = store_wf q"
| "request_wf (GetRequest q) = get_wf q"
| "request_wf (RecallRequest q) = recall_wf q"
| "request_wf (DeleteRequest q) = delete_wf q"
| "request_wf (PruneRequest q) = prune_wf q"
| "request_wf (ExportRequest q) = export_wf q"
| "request_wf (ImportRequest q) = import_wf q"

fun request_norm :: "memory_request \<Rightarrow> memory_request" where
  "request_norm (StoreRequest q) = StoreRequest (store_norm q)"
| "request_norm (RecallRequest q) = RecallRequest (recall_norm q)"
| "request_norm (ImportRequest q) = ImportRequest (import_norm q)"
| "request_norm q = q"

fun reply_action :: "memory_reply \<Rightarrow> string" where
  "reply_action (StoreReply _) = ''store''"
| "reply_action (GetReply _) = ''get''"
| "reply_action (RecallReply _) = ''recall''"
| "reply_action (DeleteReply _) = ''delete''"
| "reply_action (PruneReply _) = ''prune''"
| "reply_action (ExportReply _) = ''export_batch''"
| "reply_action (ImportReply _) = ''import_batch''"

fun reply_wf :: "memory_reply \<Rightarrow> bool" where
  "reply_wf (StoreReply r) = response_wf utf8_strict r"
| "reply_wf (GetReply r) = response_wf item_wf r"
| "reply_wf (RecallReply r) = response_wf (list_all match_wf) r"
| "reply_wf (DeleteReply r) = response_wf (\<lambda>_. True) r"
| "reply_wf (PruneReply r) = response_wf int64 r"
| "reply_wf (ExportReply r) = export_response_wf r"
| "reply_wf (ImportReply r) = response_wf count_wf r"

fun reply_norm :: "memory_reply \<Rightarrow> memory_reply" where
  "reply_norm (GetReply r) = GetReply (response_norm item_norm r)"
| "reply_norm (RecallReply r) = RecallReply (response_norm (map match_norm) r)"
| "reply_norm (ExportReply r) = ExportReply (export_response_norm r)"
| "reply_norm r = r"

lemma methods [simp]:
  "map_of METHODS ''store'' = Some Store" "map_of METHODS ''get'' = Some Get" "map_of METHODS ''recall'' = Some Recall"
  "map_of METHODS ''delete'' = Some Delete" "map_of METHODS ''prune'' = Some Prune"
  "map_of METHODS ''export_batch'' = Some Export_Batch" "map_of METHODS ''import_batch'' = Some Import_Batch"
  by (simp_all add: METHODS_def)

lemma response_norm_id [simp]: "response_norm (\<lambda>x. x) r = r"
  by (simp add: response_norm_def option.map_ident)

interpretation requests: message_codec "\<lambda>q. request_wf q \<and> request_action q = a" request_norm "encode_request a" "decode_request a" for a
proof
  fix q assume "request_wf q \<and> request_action q = a"
  then show "\<exists>v. encode_request a q = Inr v"
    using store_request.total recall_request.total export_request.total import_request.total
    by (cases q) (auto simp: encode_request_def)
next
  fix q v assume q: "request_wf q \<and> request_action q = a" and v: "encode_request a q = Inr v" "length v < 2 ^ 70"
  note reads = store_request.read get_request.read recall_request.read delete_request.read prune_request.read export_request.read import_request.read
  show "decode_request a v = Inr (request_norm q)"
    using q v by (cases q) (auto simp: encode_request_def decode_request_def reads)
qed

lemmas response_codec_defs =
  encode_store_response_def encode_get_response_def encode_recall_response_def encode_delete_response_def encode_prune_response_def
  encode_import_batch_response_def decode_store_response_def decode_get_response_def decode_recall_response_def
  decode_delete_response_def decode_prune_response_def decode_import_batch_response_def

lemma validate_norm [simp]:
  "validate_response (response_norm f r) = validate_response r" "validate_response (export_response_norm x) = validate_response x"
  by (simp_all add: validate_response_def response_norm_def export_response_norm_def)

lemma validate_reply_norm [simp]: "validate_reply (reply_norm r) = validate_reply r"
  by (cases r) simp_all

interpretation replies: message_codec "\<lambda>r. reply_wf r \<and> validate_reply r = Inr () \<and> reply_action r = a" reply_norm "encode_response a" "decode_response a" for a
proof
  fix r assume "reply_wf r \<and> validate_reply r = Inr () \<and> reply_action r = a"
  then show "\<exists>v. encode_response a r = Inr v"
    using store_response.total get_response.total recall_response.total delete_response.total prune_response.total
      import_response.total export_response.total
    by (cases r) (auto simp: encode_response_def response_codec_defs)
next
  fix r v assume r: "reply_wf r \<and> validate_reply r = Inr () \<and> reply_action r = a" and v: "encode_response a r = Inr v" "length v < 2 ^ 70"
  note reads = store_response.read get_response.read recall_response.read delete_response.read prune_response.read
    import_response.read export_response.read
  show "decode_response a v = Inr (reply_norm r)"
    using r v by (cases r) (auto simp: encode_response_def decode_response_def response_codec_defs reads)
qed

end
