(* ===== verification/Memory_Provider.thy ===== *)
theory Memory_Provider
  imports Memory_Calls Memory_Messages
begin

text \<open>
  The tool provider of the memory store, \<open>memory_sqlite_provider/plugin.py\<close>, with the profile checks of its embedding client,
  \<open>embedding.py\<close>.

  The provider reads its settings and opens its store when they are first needed and keeps both; \<open>memory_provider\<close> is that
  state, with the database file while no store is open.  One invocation decodes the request, asks the model provider for a
  vector where the request has none, runs the operation of the store and encodes the response; every exception of the listed
  classes becomes a typed error response.  An \<open>OverflowError\<close> is not among them and leaves \<open>on_invoke\<close>.

  The environment of an invocation is the record \<open>invoke_env\<close>: the settings that \<open>from_environment\<close> would read (\<open>None\<close> when
  that raises), whether the cancellation is found set at the three places where \<open>on_invoke\<close> and the two where \<open>embed\<close> looks, the
  reply of the model provider, a failing migration, the environment of the store operation, and the texts of exceptions.
\<close>

section \<open>Settings, state and errors\<close>

text \<open>\<open>ProviderSettings\<close>, without the path of the database and the time limit of the model call.\<close>

record memory_settings =
  ms_embedding_model_id :: string
  ms_embedding_dimensions :: int
  ms_embedding_endpoint :: "string option"
  ms_recall_batch_size :: int
  ms_max_top_k :: int
  ms_embedding_profile_id :: "string option"
  ms_embedding_document_prefix :: string
  ms_embedding_query_prefix :: string

definition vector_profile_id :: "memory_settings \<Rightarrow> string" where
  "vector_profile_id s =
    (case ms_embedding_profile_id s of None \<Rightarrow> ms_embedding_model_id s | Some p \<Rightarrow> if p = [] then ms_embedding_model_id s else p)"

text \<open>The embedding client keeps the model and the dimension it was made for.\<close>

record embedding_client =
  ec_model_id :: string
  ec_dimensions :: int

record memory_provider =
  pv_settings :: "memory_settings option"
  pv_store :: "(store_config \<times> memory_connection) option"
  pv_client :: "embedding_client option"
  pv_file :: memory_database

datatype provider_error =
    StoreFailure store_error
  | CodecFailure codec_error
  | EmbeddingFailure bool
  | ConfigurationError
  | ProviderValueError

text \<open>What the call of the model provider ends with.\<close>

datatype model_reply =
    CallFailed bool
  | UnexpectedType
  | MalformedReply
  | NoEmbeddings
  | EmbeddingsBatch string int "pyfloat list list"

record invoke_env =
  iv_settings :: "memory_settings option"
  iv_cancelled :: "nat \<Rightarrow> bool"
  iv_embed_cancelled :: "nat \<Rightarrow> bool"
  iv_model :: "string list \<Rightarrow> model_reply"
  iv_open_fault :: bool
  iv_call :: call_env
  iv_ops :: float_ops
  iv_message :: "provider_error \<Rightarrow> string"

text \<open>A computation that keeps the state it reached when it raises.\<close>

definition and_then :: "('e + 'a) \<times> 's \<Rightarrow> ('a \<Rightarrow> 's \<Rightarrow> ('e + 'b) \<times> 's) \<Rightarrow> ('e + 'b) \<times> 's" where
  "and_then r f = (case r of (Inl e, s) \<Rightarrow> (Inl e, s) | (Inr x, s) \<Rightarrow> f x s)"

lemma and_then_simps [simp]: "and_then (Inl e, s) f = (Inl e, s)" "and_then (Inr x, s) f = f x s"
  by (simp_all add: and_then_def)

definition failing :: "('d \<Rightarrow> 'e) \<Rightarrow> 'd + 'a \<Rightarrow> 'e + 'a" where
  "failing f r = (case r of Inl e \<Rightarrow> Inl (f e) | Inr x \<Rightarrow> Inr x)"

lemma failing_simps [simp]: "failing f (Inl e) = Inl (f e)" "failing f (Inr x) = Inr x"
  by (simp_all add: failing_def)

definition require_settings :: "invoke_env \<Rightarrow> memory_provider \<Rightarrow> (provider_error + memory_settings) \<times> memory_provider" where
  "require_settings env p =
    (case pv_settings p of
       Some s \<Rightarrow> (Inr s, p)
     | None \<Rightarrow>
        (case iv_settings env of
           None \<Rightarrow> (Inl ConfigurationError, p)
         | Some s \<Rightarrow> (Inr s, p\<lparr>pv_settings := Some s\<rparr>)))"

definition require_store ::
    "invoke_env \<Rightarrow> memory_provider \<Rightarrow> (provider_error + store_config \<times> memory_connection) \<times> memory_provider" where
  "require_store env p =
    (case pv_store p of
       Some st \<Rightarrow> (Inr st, p)
     | None \<Rightarrow>
        and_then (require_settings env p) (\<lambda>s p.
          case open_store (vector_profile_id s) (ms_embedding_dimensions s) (ms_recall_batch_size s) (ms_max_top_k s)
                 (Some (ms_embedding_model_id s)) (ms_embedding_document_prefix s) (ms_embedding_query_prefix s)
                 (iv_open_fault env) (pv_file p) of
            (Inl e, file) \<Rightarrow> (Inl (StoreFailure e), p\<lparr>pv_file := file\<rparr>)
          | (Inr st, file) \<Rightarrow> (Inr st, p\<lparr>pv_store := Some st, pv_file := file\<rparr>)))"

section \<open>Embeddings\<close>

text \<open>\<open>ModelEmbeddingClient.embed\<close>: one vector for each input, of the client's model and dimension, finite and not zero.\<close>

definition vector_ok :: "int \<Rightarrow> pyfloat list \<Rightarrow> bool" where
  "vector_ok dimensions vs \<longleftrightarrow> int (length vs) = dimensions \<and> list_all is_finite vs \<and> \<not> list_all (\<lambda>v. v = Fin 0) vs"

definition client_embed :: "invoke_env \<Rightarrow> embedding_client \<Rightarrow> string list \<Rightarrow> provider_error + pyfloat list list" where
  "client_embed env client inputs =
    (if inputs = [] \<or> \<not> list_all (\<lambda>s. strip s \<noteq> []) inputs \<or> length inputs > 128 \<or> iv_embed_cancelled env 0 then Inl (EmbeddingFailure False)
     else
       (case iv_model env inputs of
          CallFailed retryable \<Rightarrow> Inl (EmbeddingFailure retryable)
        | EmbeddingsBatch model dimensions vectors \<Rightarrow>
            if model \<noteq> ec_model_id client \<or> dimensions \<noteq> ec_dimensions client \<or> length vectors \<noteq> length inputs
               \<or> \<not> list_all (vector_ok (ec_dimensions client)) vectors \<or> iv_embed_cancelled env 1
            then Inl (EmbeddingFailure False) else Inr vectors
        | _ \<Rightarrow> Inl (EmbeddingFailure False)))"

text \<open>\<open>_embed\<close> of one text, and the first of its vectors.\<close>

definition embed_text :: "invoke_env \<Rightarrow> bool \<Rightarrow> string \<Rightarrow> memory_provider \<Rightarrow> (provider_error + pyfloat list) \<times> memory_provider" where
  "embed_text env query v p =
    and_then (require_settings env p) (\<lambda>s p.
      if ms_embedding_endpoint s = None \<and> pv_client p = None then (Inl (EmbeddingFailure False), p)
      else
        let client = (case pv_client p of
                        Some c \<Rightarrow> c
                      | None \<Rightarrow> \<lparr>ec_model_id = ms_embedding_model_id s, ec_dimensions = ms_embedding_dimensions s\<rparr>);
            prefix = (if query then ms_embedding_query_prefix s else ms_embedding_document_prefix s) in
        (bindE (client_embed env client [prefix @ v]) (\<lambda>vectors. Inr (hd vectors)), p\<lparr>pv_client := Some client\<rparr>))"

definition item_with_embedding :: "invoke_env \<Rightarrow> memory_item \<Rightarrow> memory_provider \<Rightarrow> (provider_error + memory_item) \<times> memory_provider" where
  "item_with_embedding env item p =
    and_then (embed_text env False (mi_content item) p) (\<lambda>vector p.
    and_then (require_settings env p) (\<lambda>s p.
      (Inr (item\<lparr>mi_embedding := vector,
         mi_metadata := setdefault PROVIDER_MODEL_ID_KEY (ms_embedding_model_id s)
           (setdefault DIMENSIONS_KEY (str_of_int (ms_embedding_dimensions s))
             (setdefault MODEL_ID_KEY (vector_profile_id s) (mi_metadata item)))\<rparr>), p)))"

section \<open>Requests and replies\<close>

definition to_stored :: "memory_item \<Rightarrow> stored_memory" where
  "to_stored item =
    \<lparr>sm_item_id = mi_item_id item, sm_tenant_id = mi_tenant_id item, sm_scope = mi_scope item, sm_subject = mi_subject item,
     sm_content = mi_content item, sm_embedding = mi_embedding item, sm_metadata = mi_metadata item,
     sm_created_at_ms = mi_created_at_ms item, sm_expires_at_ms = mi_expires_at_ms item, sm_ttl_seconds = mi_ttl_seconds item\<rparr>"

definition to_contract :: "stored_memory \<Rightarrow> memory_item" where
  "to_contract item =
    \<lparr>mi_item_id = sm_item_id item, mi_tenant_id = sm_tenant_id item, mi_scope = sm_scope item, mi_subject = sm_subject item,
     mi_content = sm_content item, mi_embedding = sm_embedding item, mi_metadata = sm_metadata item,
     mi_created_at_ms = sm_created_at_ms item, mi_expires_at_ms = sm_expires_at_ms item, mi_ttl_seconds = sm_ttl_seconds item\<rparr>"

text \<open>The call of the store that a request asks for; a missing vector is asked from the model provider.\<close>

definition query_vector :: "invoke_env \<Rightarrow> recall_memory_request \<Rightarrow> memory_provider \<Rightarrow> (provider_error + pyfloat list) \<times> memory_provider" where
  "query_vector env q p =
    (if rc_query_embedding q \<noteq> [] then (Inr (rc_query_embedding q), p)
     else
       (case rc_query_text q of
          None \<Rightarrow> (Inl ProviderValueError, p)
        | Some t \<Rightarrow> if strip t = [] then (Inl ProviderValueError, p) else embed_text env True t p))"

definition request_call :: "invoke_env \<Rightarrow> memory_method \<Rightarrow> bytes \<Rightarrow> memory_provider \<Rightarrow> (provider_error + memory_call) \<times> memory_provider" where
  "request_call env m payload p =
    (case m of
       Store \<Rightarrow>
         and_then (failing CodecFailure (decode_store_request payload), p) (\<lambda>q p.
         and_then (if mi_embedding (st_item q) = [] then item_with_embedding env (st_item q) p else (Inr (st_item q), p)) (\<lambda>item p.
         (Inr (StoreCall (st_tenant_id q) (to_stored item)), p)))
     | Get \<Rightarrow>
         and_then (failing CodecFailure (decode_get_request payload), p) (\<lambda>q p. (Inr (GetCall (gt_tenant_id q) (gt_item_id q)), p))
     | Recall \<Rightarrow>
         and_then (failing CodecFailure (decode_recall_request payload), p) (\<lambda>q p.
         and_then (query_vector env q p) (\<lambda>query p.
         (Inr (RecallCall (rc_tenant_id q) query (rc_scope q) (rc_subject q) (rc_metadata_filters q)
           (case rc_min_similarity q of None \<Rightarrow> Fin 0 | Some x \<Rightarrow> x) (case rc_top_k q of None \<Rightarrow> 10 | Some k \<Rightarrow> k)), p)))
     | Delete \<Rightarrow>
         and_then (failing CodecFailure (decode_delete_request payload), p) (\<lambda>q p. (Inr (DeleteCall (de_tenant_id q) (de_item_id q)), p))
     | Prune \<Rightarrow>
         and_then (failing CodecFailure (decode_prune_request payload), p) (\<lambda>q p. (Inr (PruneCall (pr_tenant_id q) (pr_before_timestamp_ms q)), p))
     | Export_Batch \<Rightarrow>
         and_then (failing CodecFailure (decode_export_batch_request payload), p) (\<lambda>q p.
         (Inr (ExportCall (xp_tenant_id q) (xp_scope q) (xp_limit q) (xp_page_token q)), p))
     | Import_Batch \<Rightarrow>
         and_then (failing CodecFailure (decode_import_batch_request payload), p) (\<lambda>q p.
         (Inr (ImportCall (im_tenant_id q) (map to_stored (im_items q)) (im_overwrite q)), p)))"

definition not_found :: memory_error where
  "not_found = \<lparr>me_code = 1, me_message = ''memory item was not found'', me_retryable = False\<rparr>"

definition result_reply :: "memory_result \<Rightarrow> memory_reply" where
  "result_reply r =
    (case r of
       ItemStored i \<Rightarrow> StoreReply \<lparr>mr_value = Some i, mr_error = None\<rparr>
     | ItemFound None \<Rightarrow> GetReply \<lparr>mr_value = None, mr_error = Some not_found\<rparr>
     | ItemFound (Some item) \<Rightarrow> GetReply \<lparr>mr_value = Some (to_contract item), mr_error = None\<rparr>
     | ItemsRecalled rs \<Rightarrow>
         RecallReply \<lparr>mr_value = Some (map (\<lambda>r. \<lparr>mm_item = to_contract (sr_item r), mm_score = Fin (sr_score r)\<rparr>) rs), mr_error = None\<rparr>
     | ItemDeleted b \<Rightarrow> DeleteReply \<lparr>mr_value = Some b, mr_error = None\<rparr>
     | ItemsPruned n \<Rightarrow> PruneReply \<lparr>mr_value = Some (int n), mr_error = None\<rparr>
     | ItemsExported items token \<Rightarrow>
         ExportReply \<lparr>mr_value = Some (map to_contract items), mr_error = None, xr_next_page_token = token\<rparr>
     | ItemsImported n \<Rightarrow> ImportReply \<lparr>mr_value = Some (int n), mr_error = None\<rparr>)"

text \<open>\<open>_RESPONSE_TYPES[action](error=...)\<close>.\<close>

definition error_reply :: "memory_method \<Rightarrow> memory_error \<Rightarrow> memory_reply" where
  "error_reply m e =
    (case m of
       Store \<Rightarrow> StoreReply \<lparr>mr_value = None, mr_error = Some e\<rparr>
     | Get \<Rightarrow> GetReply \<lparr>mr_value = None, mr_error = Some e\<rparr>
     | Recall \<Rightarrow> RecallReply \<lparr>mr_value = None, mr_error = Some e\<rparr>
     | Delete \<Rightarrow> DeleteReply \<lparr>mr_value = None, mr_error = Some e\<rparr>
     | Prune \<Rightarrow> PruneReply \<lparr>mr_value = None, mr_error = Some e\<rparr>
     | Export_Batch \<Rightarrow> ExportReply \<lparr>mr_value = None, mr_error = Some e, xr_next_page_token = []\<rparr>
     | Import_Batch \<Rightarrow> ImportReply \<lparr>mr_value = None, mr_error = Some e\<rparr>)"

section \<open>Invocations\<close>

definition run_store :: "invoke_env \<Rightarrow> memory_call \<Rightarrow> memory_provider \<Rightarrow> (provider_error + memory_result) \<times> memory_provider" where
  "run_store env call p =
    and_then (require_store env p) (\<lambda>(cfg, c) p.
      case run_call cfg (iv_ops env) (iv_call env, call) c of
        (r, c') \<Rightarrow> (failing StoreFailure r, p\<lparr>pv_store := Some (cfg, c')\<rparr>))"

definition memory_dispatch :: "invoke_env \<Rightarrow> memory_method \<Rightarrow> bytes \<Rightarrow> memory_provider \<Rightarrow> (provider_error + memory_reply) \<times> memory_provider" where
  "memory_dispatch env m payload p =
    and_then (request_call env m payload p) (\<lambda>call p.
    and_then (run_store env call p) (\<lambda>r p. (Inr (result_reply r), p)))"

datatype refusal = INVALID_REQUEST | METHOD_NOT_FOUND | METHOD_NOT_SUPPORTED | CANCELLED

datatype memory_answer = Refused refusal | Answered bytes string | Escaped provider_error

text \<open>The classes that \<open>on_invoke\<close> catches: all but \<open>OverflowError\<close>.\<close>

definition caught :: "provider_error \<Rightarrow> bool" where
  "caught e \<longleftrightarrow> e \<noteq> StoreFailure StoreOverflow \<and> e \<noteq> CodecFailure PackOverflow"

definition error_of :: "invoke_env \<Rightarrow> provider_error \<Rightarrow> memory_error" where
  "error_of env e =
    (case e of
       StoreFailure (MemoryStoreError code retryable) \<Rightarrow> \<lparr>me_code = code, me_message = iv_message env e, me_retryable = retryable\<rparr>
     | _ \<Rightarrow>
        \<lparr>me_code = 5,
         me_message = (if iv_message env e = [] then ''memory provider operation failed'' else iv_message env e),
         me_retryable = (e = EmbeddingFailure True)\<rparr>)"

definition memory_error_result :: "invoke_env \<Rightarrow> memory_method \<Rightarrow> provider_error \<Rightarrow> memory_answer" where
  "memory_error_result env m e =
    (case encode_reply (error_reply m (error_of env e)) of
       Inl x \<Rightarrow> Escaped (CodecFailure x)
     | Inr b \<Rightarrow> Answered b (RESPONSE_TYPE_URLS m))"

definition handle :: "invoke_env \<Rightarrow> memory_method \<Rightarrow> provider_error \<Rightarrow> memory_answer" where
  "handle env m e =
    (if \<not> caught e then Escaped e
     else if iv_cancelled env 2 then Refused CANCELLED
     else memory_error_result env m e)"

definition memory_on_invoke ::
    "invoke_env \<Rightarrow> string \<Rightarrow> string \<Rightarrow> bytes \<Rightarrow> string option \<Rightarrow> bool \<Rightarrow> memory_provider \<Rightarrow> memory_answer \<times> memory_provider" where
  "memory_on_invoke env capability action payload request_type_url stream_results p =
    (if capability \<noteq> CAPABILITY_ID then (Refused INVALID_REQUEST, p)
     else
       (case map_of METHODS action of
          None \<Rightarrow> (Refused METHOD_NOT_FOUND, p)
        | Some m \<Rightarrow>
           if request_type_url \<noteq> Some (REQUEST_TYPE_URLS m) then (Refused INVALID_REQUEST, p)
           else if stream_results then (Refused METHOD_NOT_SUPPORTED, p)
           else if iv_cancelled env 0 then (Refused CANCELLED, p)
           else
             (case memory_dispatch env m payload p of
                (Inl e, p') \<Rightarrow> (handle env m e, p')
              | (Inr reply, p') \<Rightarrow>
                  if iv_cancelled env 1 then (Refused CANCELLED, p')
                  else
                    (case encode_reply reply of
                       Inl x \<Rightarrow> (handle env m (CodecFailure x), p')
                     | Inr b \<Rightarrow> (Answered b (RESPONSE_TYPE_URLS m), p')))))"

text \<open>Closing the store ends its connection; a transaction left open is rolled back with it.\<close>

definition on_shutdown :: "memory_provider \<Rightarrow> memory_provider" where
  "on_shutdown p =
    (case pv_store p of
       None \<Rightarrow> p
     | Some (cfg, c) \<Rightarrow> p\<lparr>pv_store := None, pv_file := cn_committed c\<rparr>)"

end
