(* ===== verification/Memory_Store_Props.thy ===== *)
theory Memory_Store_Props
  imports Memory_Calls
begin

text \<open>
  Every call keeps the invariant of the memory store, imports included, and no read refuses a row that satisfies it.
\<close>

section \<open>Invariant\<close>

definition env_ok :: "call_env \<Rightarrow> bool" where
  "env_ok env \<longleftrightarrow> (\<forall>i. hex_text (en_fresh env i))"

lemma import_row_ok:
  assumes "import_item cfg tenant fresh item = Inr r" "import_row cfg tenant now r = Inr row" "hex_text fresh"
    "strip tenant = tenant"
  shows "row_ok cfg row"
proof -
  obtain d where n0: "normalize_item fresh (item\<lparr>sm_metadata := d\<rparr>) tenant (Some (cf_embedding_model_id cfg)) (Some (cf_embedding_dimensions cfg))
      (Some (cf_provider_model_id cfg)) = Inr r" using import_item_Inr [OF assms(1)] .
  note n = normalize_item_Inr [OF n0]
  obtain model declared e m where row: "profile_from_metadata (sm_metadata r) (Some (cf_embedding_model_id cfg)) = Inr (model, declared)"
    "pack_vector (sm_embedding r) (Some (case declared of None \<Rightarrow> int (length (sm_embedding r)) | Some n \<Rightarrow> n)) = Inr e"
    "encode_metadata (with_profile_metadata (sm_metadata r) model (case declared of None \<Rightarrow> int (length (sm_embedding r)) | Some n \<Rightarrow> n) None) = Inr m"
    "row = memory_row_of tenant r e model (case declared of None \<Rightarrow> int (length (sm_embedding r)) | Some n \<Rightarrow> n) m now"
    using assms(2) by (auto simp: import_row_def bindE_eq_Inr Let_def)
  have md: "sm_metadata r = with_profile_metadata d (cf_embedding_model_id cfg) (cf_embedding_dimensions cfg) (Some (cf_provider_model_id cfg))"
    using n(1) by simp
  have "model = cf_embedding_model_id cfg" "declared = Some (cf_embedding_dimensions cfg)"
    using row(1) n(12) by (auto simp: md profile_from_metadata_def with_profile_lookup bindE_eq_Inr)
  moreover have "required_text (sm_item_id r) MAX_ITEM_ID_BYTES = Inr (sm_item_id r)" by (rule normalized_id [OF n0 assms(3)])
  ultimately show ?thesis unfolding row(4) using n(1,3,5,6) row(2,3) assms(4) by (simp add: written_row_ok)
qed

lemma import_rows_ok:
  assumes "\<forall>r \<in> set rs. \<exists>item fresh. import_item cfg tenant fresh item = Inr r \<and> hex_text fresh" "strip tenant = tenant" "rows_ok cfg rows"
  shows "rows_ok cfg (fst (snd (import_rows cfg tenant now overwrite fault i rs (rows, n))))"
  using assms(1,3)
proof (induction rs arbitrary: i rows n)
  case (Cons r rs)
  show ?case
  proof (cases "import_row cfg tenant now r")
    case (Inr row)
    then have "row_ok cfg row" using Cons.prems(1) assms(2) import_row_ok by fastforce
    moreover obtain rows' n' where w: "import_write overwrite row (rows, n) = (rows', n')" by (cases "import_write overwrite row (rows, n)")
    ultimately have "rows_ok cfg rows'" using Cons.prems(2) rows_ok_upsert by (auto simp: import_write_def split: if_splits)
    then show ?thesis using Inr w Cons by simp
  qed (use Cons.prems in simp)
qed simp

lemma import_items_fresh:
  assumes "import_items cfg fresh tenant_id items = Inr (tenant, rs)" "\<forall>i. hex_text (fresh i)"
  shows "\<forall>r \<in> set rs. \<exists>item fresh. import_item cfg tenant fresh item = Inr r \<and> hex_text fresh"
proof
  fix r assume "r \<in> set rs"
  then obtain k where k: "k < length rs" "r = rs ! k" by (auto simp: in_set_conv_nth)
  have l2: "list_all2 (\<lambda>(i, item) r. import_item cfg tenant (fresh i) item = Inr r) (enumerate 0 items) rs"
    by (rule import_items_Inr(3) [OF assms(1)])
  then have "case enumerate 0 items ! k of (i, item) \<Rightarrow> import_item cfg tenant (fresh i) item = Inr r"
    using list_all2_nthD2 [OF l2 k(1)] k by (auto split: prod.splits)
  with assms(2) show "\<exists>item fresh. import_item cfg tenant fresh item = Inr r \<and> hex_text fresh" by (auto split: prod.splits)
qed

lemma import_batch_ok:
  assumes "connection_ok cfg c" "\<forall>i. hex_text (fresh i)"
  shows "connection_ok cfg (snd (import_batch cfg now fresh fault tenant_id items overwrite c))"
proof (cases "import_items cfg fresh tenant_id items")
  case (Inr p)
  obtain tenant rs where p: "p = (tenant, rs)" by (cases p)
  have "strip tenant = tenant" using import_items_Inr(2) [OF Inr [unfolded p]] by simp
  moreover obtain e rows n where i: "import_rows cfg tenant now overwrite fault 1 rs (db_records (cn_committed c), 0) = (e, rows, n)"
    by (cases "import_rows cfg tenant now overwrite fault 1 rs (db_records (cn_committed c), 0)")
  ultimately have "rows_ok cfg rows"
    using import_rows_ok [OF import_items_fresh [OF Inr [unfolded p] assms(2)], of "db_records (cn_committed c)" now overwrite fault 1 0] assms(1)
    by (simp add: connection_ok_def)
  then show ?thesis
    using Inr p i assms(1)
    by (auto simp: import_batch_def connection_ok_def Let_def split: option.splits store_error.splits)
qed (use assms in \<open>simp add: import_batch_def\<close>)

lemma run_call_ok:
  assumes "connection_ok cfg c" "env_ok (fst a)"
  shows "connection_ok cfg (snd (run_call cfg ops a c))"
proof (cases a)
  case (Pair env call)
  show ?thesis
  proof (cases call)
    case (StoreCall tn item)
    have "row_ok cfg row" if "store_row cfg (en_now env) (en_fresh env 0) tn item = Inr row" for row
      using store_row_ok(1) [OF that] assms(2) Pair by (simp add: env_ok_def)
    then show ?thesis
      using Pair StoreCall assms(1) rows_ok_upsert by (auto simp: run_call_def Let_def store_memory_def split: sum.splits intro: write_records_ok)
  next
    case (ImportCall tn items ow)
    then show ?thesis using Pair assms import_batch_ok by (simp add: run_call_def Let_def env_ok_def)
  qed (use Pair assms(1) rows_ok_delete in
        \<open>auto simp: run_call_def Let_def delete_memory_def prune_memory_def split: sum.splits intro: write_records_ok\<close>)
qed

section \<open>Reads\<close>

lemma mapE_total: "(\<And>x. x \<in> set xs \<Longrightarrow> \<exists>y. f x = Inr y) \<Longrightarrow> \<exists>ys. mapE f xs = Inr ys"
proof (induction xs)
  case (Cons x xs)
  moreover obtain y where "f x = Inr y" using Cons.prems by fastforce
  ultimately show ?case by fastforce
qed simp

lemma record_from_row_some: "row_ok cfg row \<Longrightarrow> decode_metadata (ro_metadata_json row) = Inr d \<Longrightarrow> record_from_row cfg row (Some d) = record_from_row cfg row None"
  by (simp add: record_from_row_def)

lemma visible_row_ok: "connection_ok cfg c \<Longrightarrow> row \<in> set (visible c) \<Longrightarrow> row_ok cfg row"
  using visible_ok [of cfg c] by (auto simp: rows_ok_def list_all_iff)

definition refuses_stored :: "store_error + 'a \<Rightarrow> bool" where
  "refuses_stored r \<longleftrightarrow> r = Inl (MemoryStoreError 5 False)"

lemma get_readable:
  assumes "connection_ok cfg c"
  shows "\<not> refuses_stored (get_memory cfg now fault tn i c)"
proof -
  have "\<exists>item. record_from_row cfg row None = Inr item" if "find P (visible c) = Some row" for P row
    using find_Some_in [OF that] visible_row_ok [OF assms] record_from_row_ok by blast
  then show ?thesis
    by (auto simp: refuses_stored_def get_memory_def bindE_eq_Inl required_tenant_def required_text_def storage_error_def
        split: sum.splits option.splits if_splits) fastforce
qed

end
