(* ===== verification/Memory_Recall.thy ===== *)
theory Memory_Recall
  imports Memory_Store_Props
begin

text \<open>
  Recall.  The scan keeps a heap of at most \<open>top_k\<close> candidates while it streams the rows; the reference sorts all
  eligible rows by score and takes the first \<open>top_k\<close>.  Both give the same scores.
\<close>

section \<open>Bounded heaps\<close>

lemma insort_split_high:
  assumes "sorted zs" "m < length zs" "zs ! m < s"
  shows "insort s zs = take (Suc m) zs @ insort s (drop (Suc m) zs)"
proof -
  have low: "x \<le> s" if "x \<in> set (take (Suc m) zs)" for x
  proof -
    obtain i where "i < Suc m" "x = zs ! i" using \<open>x \<in> _\<close> by (auto simp: in_set_conv_nth)
    then have "x \<le> zs ! m" using assms(1,2) by (simp add: sorted_nth_mono)
    then show ?thesis using assms(3) by simp
  qed
  have high: "x \<le> y" if "x \<in> set (take (Suc m) zs)" "y \<in> set (drop (Suc m) zs)" for x y
    using that assms(1) by (metis append_take_drop_id sorted_append)
  have "sorted (take (Suc m) zs @ insort s (drop (Suc m) zs))"
    using assms(1) low high by (auto simp: sorted_append set_insort_key sorted_wrt_take sorted_wrt_drop sorted_insort)
  moreover have "mset (take (Suc m) zs @ insort s (drop (Suc m) zs)) = mset (insort s zs)"
    using mset_append [of "take (Suc m) zs" "drop (Suc m) zs"] by simp
  ultimately show ?thesis using assms(1) by (metis properties_for_sort sorted_insort sorted_sort_id)
qed

lemma insort_split_low:
  assumes "sorted zs" "m < length zs" "s \<le> zs ! m"
  shows "insort s zs = insort s (take m zs) @ drop m zs"
proof -
  have high: "zs ! m \<le> y" if "y \<in> set (drop m zs)" for y
    using that assms(1,2) by (auto simp: in_set_conv_nth sorted_nth_mono)
  have mid: "x \<le> y" if "x \<in> set (take m zs)" "y \<in> set (drop m zs)" for x y
    using that assms(1) by (metis append_take_drop_id sorted_append)
  have "sorted (insort s (take m zs) @ drop m zs)"
    using assms(1,3) mid high by (auto simp: sorted_append set_insort_key sorted_wrt_take sorted_wrt_drop sorted_insort intro: order.trans)
  moreover have "mset (insort s (take m zs) @ drop m zs) = mset (insort s zs)"
    using mset_append [of "take m zs" "drop m zs"] by simp
  ultimately show ?thesis using assms(1) by (metis properties_for_sort sorted_insort sorted_sort_id)
qed

text \<open>A heap kept in the order of its keys, as the recall uses it.\<close>

locale bounded_heap =
  fixes push :: "'x \<Rightarrow> 'x list \<Rightarrow> 'x list" and key :: "'x \<Rightarrow> 'k::linorder"
  assumes mset_push: "mset (push x h) = add_mset x (mset h)"
    and sorted_push: "sorted (map key h) \<Longrightarrow> sorted (map key (push x h))"
begin

lemma push_keys: "sorted (map key h) \<Longrightarrow> map key (push x h) = insort (key x) (map key h)"
proof -
  assume h: "sorted (map key h)"
  have "sort (key x # map key h) = map key (push x h)"
    by (rule properties_for_sort) (simp_all add: mset_push sorted_push h)
  then show ?thesis using h by (simp add: sorted_sort_id)
qed

lemma keep_best:
  assumes "0 < k" "map key h = drop (length ks - k) (sort ks)"
  shows "map key (if length h < k then push x h else if key x > key (hd h) then push x (tl h) else h)
    = drop (length ks + 1 - k) (sort (key x # ks))"
proof -
  let ?zs = "sort ks" let ?m = "length ks - k"
  have sorted: "sorted (map key h)" unfolding assms(2) by (simp add: sorted_wrt_drop)
  have len: "length h = length ks - ?m" using arg_cong [OF assms(2), of length] by simp
  show ?thesis
  proof (cases "length ks < k")
    case True
    then show ?thesis using assms len push_keys [OF sorted] by simp
  next
    case False
    then have m: "?m < length ?zs" "length h = k" "length ks + 1 - k = Suc ?m" using assms(1) len by simp_all
    then have "h \<noteq> []" using assms(1) by auto
    then have hd: "key (hd h) = ?zs ! ?m" using arg_cong [OF assms(2), of hd] m(1) by (simp add: hd_map hd_drop_conv_nth)
    have tl: "map key (tl h) = drop (Suc ?m) ?zs" using arg_cong [OF assms(2), of tl] by (simp add: map_tl drop_Suc tl_drop)
    then have "sorted (map key (tl h))" by (simp add: sorted_wrt_drop)
    then show ?thesis
      using m hd tl push_keys insort_split_high [of ?zs ?m "key x"] insort_split_low [of ?zs ?m "key x"] assms(2)
      by (auto simp: not_less)
  qed
qed

lemma keep_subset: "mset (if length h < k then push x h else if key x > key (hd h) then push x (tl h) else h) \<subseteq># add_mset x (mset h)"
  by (cases h) (auto simp: mset_push)

end

lemma mset_heappush: "mset (heappush x h) = add_mset x (mset h)"
  by (induction h) auto

lemma sorted_heappush: "sorted (map fst h) \<Longrightarrow> sorted (map fst (heappush x h))"
proof (induction h)
  case (Cons y h)
  have "set (heappush x h) = insert x (set h)" by (metis mset_heappush set_mset_add_mset_insert set_mset_mset)
  then show ?case using Cons by (auto simp: candidate_less_def)
qed simp

interpretation candidates: bounded_heap heappush fst
  by unfold_locales (simp_all add: mset_heappush sorted_heappush)

lemma keep_candidate_eq:
  "keep_candidate k x h = (if length h < k then heappush x h else if fst x > fst (hd h) then heappush x (tl h) else h)"
  by (simp add: keep_candidate_def heapreplace_def)

text \<open>The heap after a whole list of candidates.\<close>

definition keep_all :: "nat \<Rightarrow> candidate list \<Rightarrow> candidate list" where
  "keep_all k xs = fold (keep_candidate k) xs []"

lemma keep_all_snoc: "keep_all k (xs @ [x]) = keep_candidate k x (keep_all k xs)"
  by (simp add: keep_all_def)

lemma keep_all_best:
  assumes "0 < k"
  shows "map fst (keep_all k xs) = drop (length xs - k) (sort (map fst xs))"
proof (induction xs rule: rev_induct)
  case (snoc x xs)
  have "sort (map fst (xs @ [x])) = sort (fst x # map fst xs)" by (rule properties_for_sort) (simp_all add: sorted_insort)
  then show ?case
    using candidates.keep_best [OF assms, of "keep_all k xs" "map fst xs" x] snoc by (simp add: keep_all_snoc keep_candidate_eq)
qed (simp add: keep_all_def)

lemma keep_all_subset: "mset (keep_all k xs) \<subseteq># mset xs"
proof (induction xs rule: rev_induct)
  case (snoc x xs)
  have "mset (keep_all k (xs @ [x])) \<subseteq># add_mset x (mset (keep_all k xs))"
    using candidates.keep_subset [of "keep_all k xs" k x] by (simp add: keep_all_snoc keep_candidate_eq)
  also have "\<dots> \<subseteq># mset (xs @ [x])" using snoc by simp
  finally show ?case .
qed (simp add: keep_all_def)

lemma ranked_scores: "map fst (ranked h) = rev (sort (map fst h))"
proof -
  have "sorted (map (\<lambda>x. - fst x) (ranked h))" by (simp add: ranked_def)
  then have "sorted (rev (map fst (ranked h)))" by (simp add: sorted_wrt_rev sorted_wrt_map)
  moreover have "mset (rev (map fst (ranked h))) = mset (map fst h)" by (simp add: ranked_def mset_map)
  ultimately have "sort (map fst h) = rev (map fst (ranked h))" by (metis properties_for_sort)
  then show ?thesis by simp
qed

lemma mset_ranked: "mset (ranked h) = mset h"
  by (simp add: ranked_def)

section \<open>The scan\<close>

text \<open>The eligible items of a list of rows with their scores, without heap, limit and streaming.\<close>

definition row_metadata :: "memory_row \<Rightarrow> (string \<times> string) list" where
  "row_metadata row = projr (decode_metadata (ro_metadata_json row))"

definition row_item :: "store_config \<Rightarrow> memory_row \<Rightarrow> stored_memory" where
  "row_item cfg row = projr (record_from_row cfg row None)"

definition scored_row :: "store_config \<Rightarrow> float_ops \<Rightarrow> pyfloat list \<Rightarrow> memory_row \<Rightarrow> scored_memory" where
  "scored_row cfg ops query row =
    \<lparr>sr_item = row_item cfg row,
     sr_score = cosine_similarity ops (map finite_part query) (map finite_part (sm_embedding (row_item cfg row)))\<rparr>"

definition eligible ::
    "store_config \<Rightarrow> float_ops \<Rightarrow> pyfloat list \<Rightarrow> rat \<Rightarrow> (string \<times> string) list \<Rightarrow> memory_row list \<Rightarrow> scored_memory list" where
  "eligible cfg ops query threshold filters rows =
    filter (\<lambda>s. threshold \<le> sr_score s)
      (map (scored_row cfg ops query) (filter (\<lambda>row. list_all (\<lambda>(k, v). map_of (row_metadata row) k = Some v) filters) rows))"

definition as_candidate :: "nat \<times> scored_memory \<Rightarrow> candidate" where
  "as_candidate x = (sr_score (snd x), fst x, sr_item (snd x))"

lemma scan_row_ok:
  assumes "row_ok cfg row" "\<not> cancelled i"
  shows "scan_row cfg ops cancelled query threshold limit filters (i, row) (heap, n) =
    Inr (case eligible cfg ops query threshold filters [row] of
           [] \<Rightarrow> (heap, n)
         | s # _ \<Rightarrow> (keep_candidate limit (as_candidate (n + 1, s)) heap, n + 1))"
proof -
  obtain d where d: "decode_metadata (ro_metadata_json row) = Inr d" using assms(1) by (auto simp: row_ok_def isl_def split: sum.splits) (metis sum.exhaust)
  obtain item where item: "record_from_row cfg row None = Inr item" using record_from_row_ok [OF assms(1)] by blast
  have "row_metadata row = d" "row_item cfg row = item" by (simp_all add: row_metadata_def row_item_def d item)
  then show ?thesis
    using d item record_from_row_some [OF assms(1) d] assms(2)
    by (simp add: scan_row_def eligible_def scored_row_def as_candidate_def Let_def not_less)
qed

lemma eligible_Cons: "eligible cfg ops query threshold filters (row # rows) = eligible cfg ops query threshold filters [row] @ eligible cfg ops query threshold filters rows"
  by (simp add: eligible_def)

lemma eligible_single: "length (eligible cfg ops query threshold filters [row]) \<le> 1"
  by (simp add: eligible_def)

lemma scan_rows_ok:
  assumes "list_all (row_ok cfg) rows" "\<And>i. \<not> cancelled i"
  shows "foldE (scan_row cfg ops cancelled query threshold limit filters) (enumerate i rows) (heap, n) =
    Inr (fold (keep_candidate limit) (map as_candidate (enumerate (n + 1) (eligible cfg ops query threshold filters rows))) heap,
         n + length (eligible cfg ops query threshold filters rows))"
  using assms(1)
proof (induction rows arbitrary: i heap n)
  case Nil
  then show ?case by (simp add: eligible_def)
next
  case (Cons row rows)
  consider "eligible cfg ops query threshold filters [row] = []" | s where "eligible cfg ops query threshold filters [row] = [s]"
    using eligible_single [of cfg ops query threshold filters row] by (cases "eligible cfg ops query threshold filters [row]") auto
  then show ?case
    using Cons scan_row_ok [of cfg row cancelled i ops query threshold limit filters heap n, OF _ assms(2)]
    by cases (simp_all add: eligible_Cons [of _ _ _ _ _ row rows])
qed

lemma eligible_mset: "mset rows = mset rows' \<Longrightarrow> mset (eligible cfg ops query threshold filters rows) = mset (eligible cfg ops query threshold filters rows')"
  by (simp add: eligible_def mset_map mset_filter)

lemma candidates_scores: "map fst (map as_candidate (enumerate n xs)) = map sr_score xs"
  by (induction xs arbitrary: n) (simp_all add: as_candidate_def)

definition candidate_result :: "candidate \<Rightarrow> scored_memory" where
  "candidate_result x = \<lparr>sr_item = snd (snd x), sr_score = fst x\<rparr>"

lemma candidates_results: "map candidate_result (map as_candidate (enumerate n xs)) = xs"
  by (induction xs arbitrary: n) (simp_all add: as_candidate_def candidate_result_def)

lemma rev_drop_take: "rev (drop (length zs - k) zs) = take k (rev zs)"
  by (cases "k \<le> length zs") (simp_all add: rev_drop)

lemma recall_top_k_holds:
  fixes ops :: float_ops and now :: int and scope subject :: "string option"
  assumes ok: "connection_ok cfg c" and plan: "\<And>rows. mset (plan rows) = mset rows" and going: "\<And>i. \<not> cancelled i"
    and args: "required_tenant tenant_id = Inr tenant" "validated_vector query (Some (cf_embedding_dimensions cfg)) = Inr query"
      "bounded_similarity min_similarity = Inr threshold" "1 \<le> top_k" "top_k \<le> cf_max_top_k cfg" "validated_metadata filters = Inr filters"
  defines "found \<equiv> eligible cfg ops query threshold filters (filter (recall_row cfg now tenant scope subject) (visible c))"
  shows "\<exists>res. recall_memory cfg ops plan now False cancelled tenant_id query scope subject filters min_similarity top_k c = Inr res
    \<and> map sr_score res = take (nat top_k) (rev (sort (map sr_score found))) \<and> mset res \<subseteq># mset found"
proof -
  let ?rows = "plan (filter (recall_row cfg now tenant scope subject) (visible c))"
  let ?found = "eligible cfg ops query threshold filters ?rows" let ?k = "nat top_k"
  let ?cs = "map as_candidate (enumerate 1 ?found)"
  have "set ?rows = set (filter (recall_row cfg now tenant scope subject) (visible c))" by (metis plan set_mset_mset)
  then have rows: "list_all (row_ok cfg) ?rows" using visible_row_ok [OF ok] by (auto simp: list_all_iff)
  have same: "mset ?found = mset found" unfolding found_def by (rule eligible_mset) (rule plan)
  have res: "recall_memory cfg ops plan now False cancelled tenant_id query scope subject filters min_similarity top_k c
      = Inr (map candidate_result (ranked (keep_all ?k ?cs)))"
    using args scan_rows_ok [OF rows going, where i = 0 and heap = "[]" and n = 0]
    by (simp add: recall_memory_def keep_all_def bounded_integer_def case_prod_unfold candidate_result_def [abs_def] del: required_tenant_Inr)
  have "map sr_score (map candidate_result (ranked (keep_all ?k ?cs))) = map fst (ranked (keep_all ?k ?cs))"
    by (simp add: candidate_result_def)
  also have "\<dots> = rev (sort (map fst (keep_all ?k ?cs)))" by (rule ranked_scores)
  also have "\<dots> = rev (drop (length ?cs - ?k) (sort (map sr_score ?found)))"
    using keep_all_best [of ?k ?cs] args(4) candidates_scores [of 1 ?found] by (simp add: sorted_sort_id sorted_wrt_drop)
  also have "\<dots> = take ?k (rev (sort (map sr_score ?found)))" using rev_drop_take [of "sort (map sr_score ?found)" ?k] by simp
  also have "sort (map sr_score ?found) = sort (map sr_score found)"
    by (rule properties_for_sort) (simp_all add: same mset_map)
  finally have scores: "map sr_score (map candidate_result (ranked (keep_all ?k ?cs))) = take ?k (rev (sort (map sr_score found)))" .
  have "mset (map candidate_result (ranked (keep_all ?k ?cs))) = image_mset candidate_result (mset (keep_all ?k ?cs))" by (simp add: mset_map mset_ranked)
  also have "\<dots> \<subseteq># image_mset candidate_result (mset ?cs)" by (rule image_mset_subseteq_mono) (rule keep_all_subset)
  also have "image_mset candidate_result (mset ?cs) = mset ?found" using candidates_results [of 1 ?found] by (metis mset_map)
  finally show ?thesis using res scores same by simp
qed

end
