(* ===== verification/Memory_Table.thy ===== *)
theory Memory_Table
  imports Memory_Recall
begin

text \<open>
  The table as a map from keys to rows, which every writing operation updates as its name says; what \<open>get\<close> returns after
  \<open>store\<close>; the pages of an export; and the vector profile that a database is opened with.
\<close>

section \<open>The table as a map\<close>

definition table_map :: "memory_row list \<Rightarrow> string \<times> string \<Rightarrow> memory_row option" where
  "table_map rows = map_of (map (\<lambda>r. (row_key r, r)) rows)"

lemma table_map_key: "table_map rows k = Some r \<Longrightarrow> row_key r = k \<and> r \<in> set rows"
  by (auto simp: table_map_def dest: map_of_SomeD)

lemma table_map_None: "table_map rows k = None \<longleftrightarrow> k \<notin> row_key ` set rows"
  by (simp add: table_map_def map_of_eq_None_iff image_image)

lemma table_map_iff: "distinct (map row_key rows) \<Longrightarrow> table_map rows k = Some r \<longleftrightarrow> r \<in> set rows \<and> row_key r = k"
  unfolding table_map_def by (subst map_of_eq_Some_iff) (auto simp: comp_def)

lemma table_map_append: "table_map (rows @ rows') = table_map rows' ++ table_map rows"
  by (simp add: table_map_def)

lemma table_map_replace:
  "table_map (map (\<lambda>r. if row_key r = row_key row then row else r) rows) =
   (if row_key row \<in> row_key ` set rows then (table_map rows)(row_key row \<mapsto> row) else table_map rows)"
  by (induction rows) (auto simp: table_map_def)

lemma table_map_upsert: "table_map (upsert row rows) = (table_map rows)(row_key row \<mapsto> row)"
proof (cases "row_key row \<in> row_key ` set rows")
  case False
  then have "table_map rows (row_key row) = None" by (simp add: table_map_None)
  then show ?thesis using False by (auto simp: upsert_def table_map_append map_add_def fun_eq_iff table_map_def split: option.split)
qed (simp add: upsert_def table_map_replace)

lemma table_map_delete:
  assumes "distinct (map row_key rows)"
  shows "table_map (sql_delete P rows) k = (case table_map rows k of None \<Rightarrow> None | Some r \<Rightarrow> if P r then None else Some r)"
proof (cases "table_map rows k")
  case None
  then have "table_map (sql_delete P rows) k = None" unfolding table_map_None by auto
  with None show ?thesis by simp
next
  case (Some r)
  then have r: "r \<in> set rows" "row_key r = k" by (simp_all add: table_map_iff [OF assms])
  have d: "distinct (map row_key (sql_delete P rows))" by (rule distinct_sql_delete [OF assms])
  show ?thesis
  proof (cases "P r")
    case True
    have "table_map (sql_delete P rows) k \<noteq> Some r'" for r'
      using r True distinct_key_eq [OF assms] by (auto simp: table_map_iff [OF d])
    then have "table_map (sql_delete P rows) k = None" by blast
    then show ?thesis using Some True by simp
  next
    case False
    then have "table_map (sql_delete P rows) k = Some r" using r by (simp add: table_map_iff [OF d])
    then show ?thesis using Some False by simp
  qed
qed

lemma find_table:
  assumes "distinct (map row_key rows)"
  shows "find (\<lambda>r. row_key r = k \<and> P r) rows = (case table_map rows k of None \<Rightarrow> None | Some r \<Rightarrow> if P r then Some r else None)"
  using assms
proof (induction rows)
  case (Cons r rows)
  have "table_map rows k = None" if "row_key r = k" using Cons.prems that by (auto simp: table_map_None)
  then show ?case using Cons by (auto simp: table_map_def)
qed (simp add: table_map_def)

text \<open>A whole batch of writes.\<close>

definition batch_map :: "bool \<Rightarrow> memory_row list \<Rightarrow> (string \<times> string \<Rightarrow> memory_row option) \<Rightarrow> string \<times> string \<Rightarrow> memory_row option" where
  "batch_map overwrite batch m = (if overwrite then m ++ table_map batch else table_map batch ++ m)"

lemma import_write_map:
  assumes "row_key row \<notin> row_key ` set batch"
  shows "batch_map overwrite batch (table_map (fst (import_write overwrite row (rows, n)))) = batch_map overwrite (row # batch) (table_map rows)"
proof -
  have fresh: "table_map batch (row_key row) = None" using assms by (simp add: table_map_None)
  have cons: "table_map (row # batch) = (table_map batch)(row_key row \<mapsto> row)" by (simp add: table_map_def)
  show ?thesis
  proof (cases overwrite)
    case True
    then show ?thesis using fresh by (auto simp: import_write_def batch_map_def table_map_upsert cons map_add_def fun_eq_iff split: option.split)
  next
    case False
    show ?thesis
    proof (cases "row_key row \<in> row_key ` set rows")
      case True
      then obtain r where "table_map rows (row_key row) = Some r" using table_map_None [of rows "row_key row"] by auto
      then show ?thesis using False True by (auto simp: import_write_def batch_map_def cons map_add_def fun_eq_iff split: option.split)
    next
      case new: False
      then have "table_map rows (row_key row) = None" by (simp add: table_map_None)
      then show ?thesis using False new fresh by (auto simp: import_write_def batch_map_def table_map_upsert cons map_add_def fun_eq_iff split: option.split)
    qed
  qed
qed

lemma import_rows_map:
  assumes "import_rows cfg tenant now overwrite fault i rs (rows, n) = (None, rows', n')" "distinct (map sm_item_id rs)"
  shows "\<exists>batch. mapE (import_row cfg tenant now) rs = Inr batch \<and> table_map rows' = batch_map overwrite batch (table_map rows)"
  using assms
proof (induction rs arbitrary: i rows n)
  case Nil
  then show ?case by (simp add: batch_map_def table_map_def)
next
  case (Cons r rs)
  obtain row where row: "import_row cfg tenant now r = Inr row" using Cons.prems(1) by (cases "import_row cfg tenant now r") auto
  obtain rows1 n1 where w: "import_write overwrite row (rows, n) = (rows1, n1)" by (cases "import_write overwrite row (rows, n)")
  have "import_rows cfg tenant now overwrite fault (Suc i) rs (rows1, n1) = (None, rows', n')"
    using Cons.prems(1) row w by (simp split: if_splits)
  then obtain batch where b: "mapE (import_row cfg tenant now) rs = Inr batch" "table_map rows' = batch_map overwrite batch (table_map rows1)"
    using Cons.IH [of "Suc i" rows1 n1] Cons.prems(2) by auto
  have "row_key row \<notin> row_key ` set batch"
  proof
    assume "row_key row \<in> row_key ` set batch"
    then obtain b' where b': "b' \<in> set batch" "row_key row = row_key b'" by auto
    then obtain r' where "r' \<in> set rs" "import_row cfg tenant now r' = Inr b'"
      using b(1) list_all2_conv_all_nth [of "\<lambda>x y. import_row cfg tenant now x = Inr y" rs batch] by (metis mapE_Inr in_set_conv_nth)
    then show False using b'(2) import_row_tenant [OF row] import_row_tenant [of cfg tenant now r' b'] Cons.prems(2) by (auto simp: row_key_def)
  qed
  then show ?case using row b import_write_map [of row batch overwrite rows n] w by simp
qed

lemma import_batch_map:
  assumes "import_batch cfg now fresh fault tenant_id items overwrite c = (Inr n, c')"
  obtains rs batch where "import_items cfg fresh tenant_id items = Inr (strip tenant_id, rs)"
    "mapE (import_row cfg (strip tenant_id) now) rs = Inr batch" "table_map (visible c') = batch_map overwrite batch (table_map (visible c))"
proof -
  obtain tenant rs where i: "import_items cfg fresh tenant_id items = Inr (tenant, rs)" "cn_pending c = None"
    using assms by (auto simp: import_batch_def split: sum.splits if_splits)
  obtain e rows m where r: "import_rows cfg tenant now overwrite fault 1 rs (db_records (cn_committed c), 0) = (e, rows, m)"
    by (cases "import_rows cfg tenant now overwrite fault 1 rs (db_records (cn_committed c), 0)")
  then have "e = None" "c' = c\<lparr>cn_committed := (cn_committed c)\<lparr>db_records := rows\<rparr>\<rparr>"
    using assms i by (auto simp: import_batch_def Let_def split: option.splits store_error.splits if_splits)
  moreover note import_rows_map [OF r [unfolded \<open>e = None\<close>] import_items_Inr(4) [OF i(1)]]
  ultimately show thesis using that i import_items_Inr(2) [OF i(1)] by (auto simp: visible_def)
qed

section \<open>Reading back what was stored\<close>

lemma setdefault_noop: "k \<in> fst ` set d \<Longrightarrow> setdefault k v d = d"
  by (simp add: setdefault_def)

definition created_time :: "int \<Rightarrow> stored_memory \<Rightarrow> int" where
  "created_time now item = (if sm_created_at_ms item \<le> 0 then now else sm_created_at_ms item)"

definition expiry_time :: "int \<Rightarrow> stored_memory \<Rightarrow> int option" where
  "expiry_time now item = effective_expiry (created_time now item) (sm_expires_at_ms item) (sm_ttl_seconds item)"

text \<open>The item as \<open>get\<close> shows it: profile metadata in normal form, metadata in key order, the effective times.\<close>

definition kept_item :: "store_config \<Rightarrow> int \<Rightarrow> string \<Rightarrow> string \<Rightarrow> stored_memory \<Rightarrow> stored_memory" where
  "kept_item cfg now tenant item_id item =
    \<lparr>sm_item_id = item_id, sm_tenant_id = tenant, sm_scope = sm_scope item, sm_subject = sm_subject item, sm_content = sm_content item,
     sm_embedding = sm_embedding item,
     sm_metadata = sort_key fst (with_profile_metadata (sm_metadata item) (cf_embedding_model_id cfg) (cf_embedding_dimensions cfg)
       (Some (cf_provider_model_id cfg))),
     sm_created_at_ms = created_time now item, sm_expires_at_ms = expiry_time now item, sm_ttl_seconds = sm_ttl_seconds item\<rparr>"

lemma store_row_read:
  assumes "store_row cfg now fresh tenant_id item = Inr row" "distinct (map fst (sm_metadata item))" "list_all is_float32 (sm_embedding item)"
  shows "record_from_row cfg row None = Inr (kept_item cfg now (strip tenant_id) (ro_item_id row) item)" "ro_expires_at_ms row = expiry_time now item"
proof -
  obtain r e m where r: "normalize_item fresh item (strip tenant_id) (Some (cf_embedding_model_id cfg)) (Some (cf_embedding_dimensions cfg))
      (Some (cf_provider_model_id cfg)) = Inr r" "pack_vector (sm_embedding r) (Some (cf_embedding_dimensions cfg)) = Inr e"
    "encode_metadata (sm_metadata r) = Inr m" "row = memory_row_of (strip tenant_id) r e (cf_embedding_model_id cfg) (cf_embedding_dimensions cfg) m now"
    by (rule store_row_Inr [OF assms(1)])
  note n = normalize_item_Inr(1) [OF r(1)]
  let ?d = "with_profile_metadata (sm_metadata item) (cf_embedding_model_id cfg) (cf_embedding_dimensions cfg) (Some (cf_provider_model_id cfg))"
  have emb: "unpack_vector e (cf_embedding_dimensions cfg) = Inr (sm_embedding item)"
    using pack_vector_unpack [OF r(2)] pack_floats_read [OF assms(3)] r(2) n by (auto simp: pack_vector_Inr)
  have md: "decode_metadata m = Inr (sort_key fst ?d)" using decode_encoded [OF distinct_with_profile [OF assms(2)]] r(3) n by simp
  have "declares_profile (sort_key fst ?d)" using with_profile_declares [of "sm_metadata item"] by (simp add: declares_profile_def)
  then have keys: "MODEL_ID_KEY \<in> fst ` set (sort_key fst ?d)" "DIMENSIONS_KEY \<in> fst ` set (sort_key fst ?d)" "PROVIDER_MODEL_ID_KEY \<in> fst ` set (sort_key fst ?d)"
    by (simp_all add: declares_profile_def)
  show "record_from_row cfg row None = Inr (kept_item cfg now (strip tenant_id) (ro_item_id row) item)"
    using emb md n keys
    by (simp add: record_from_row_def r(4) memory_row_of_def kept_item_def setdefault_noop Let_def created_time_def expiry_time_def max_def del: set_sort)
  show "ro_expires_at_ms row = expiry_time now item" using n by (simp add: r(4) memory_row_of_def Let_def expiry_time_def created_time_def max_def)
qed

lemma get_memory_table:
  assumes "connection_ok cfg c" "required_text tenant_id 256 = Inr t" "required_text item_id MAX_ITEM_ID_BYTES = Inr i"
  shows "get_memory cfg now False tenant_id item_id c =
    (case table_map (visible c) (t, i) of
       None \<Rightarrow> Inr None
     | Some row \<Rightarrow> if unexpired now row then Inr (Some (row_item cfg row)) else Inr None)"
proof -
  have d: "distinct (map row_key (visible c))" using visible_ok [OF assms(1)] by (simp add: rows_ok_def)
  have "required_tenant tenant_id = Inr t" using assms(2) by simp
  moreover have "find (\<lambda>r. ro_tenant_id r = t \<and> ro_item_id r = i \<and> unexpired now r) (visible c) = find (\<lambda>r. row_key r = (t, i) \<and> unexpired now r) (visible c)"
    by (simp add: conj_assoc)
  moreover have "record_from_row cfg row None = Inr (row_item cfg row)" if "table_map (visible c) (t, i) = Some row" for row
    using record_from_row_ok [OF visible_row_ok [OF assms(1)]] table_map_key [OF that] by (fastforce simp: row_item_def)
  ultimately show ?thesis
    using assms(3) find_table [OF d, of "(t, i)" "unexpired now"]
    by (simp add: get_memory_def del: required_tenant_Inr required_text_Inr row_key_eq split: option.split)
qed

lemma store_get_holds:
  assumes "connection_ok cfg c" "store_memory cfg now fresh False tenant_id item c = (Inr i, c')" "hex_text fresh"
    "distinct (map fst (sm_metadata item))" "list_all is_float32 (sm_embedding item)"
  shows "get_memory cfg later False tenant_id i c' =
    Inr (if case expiry_time now item of None \<Rightarrow> True | Some e \<Rightarrow> later < e then Some (kept_item cfg now (strip tenant_id) i item) else None)"
proof -
  obtain row where row: "store_row cfg now fresh tenant_id item = Inr row" "i = ro_item_id row" "c' = write_records (upsert row) c"
    using assms(2) by (auto simp: store_memory_def split: sum.splits if_splits)
  note ok = store_row_ok [OF row(1) assms(3)] and read = store_row_read [OF row(1) assms(4,5)]
  have c': "connection_ok cfg c'" unfolding row(3) using assms(1) ok(1) by (intro write_records_ok rows_ok_upsert)
  have t: "required_text tenant_id 256 = Inr (strip tenant_id)" using store_row_Inr [OF row(1)] by blast
  have i: "required_text i MAX_ITEM_ID_BYTES = Inr i" using ok(1) row(2) unfolding row_ok_def by (simp only:)
  have "table_map (visible c') (strip tenant_id, i) = Some row" using ok(2) row(2,3) by (simp add: table_map_upsert row_key_def)
  then show ?thesis
    using get_memory_table [OF c' t i, of later] read row(2) by (auto simp: row_item_def unexpired_def split: option.splits)
qed

section \<open>Pages of an export\<close>

text \<open>A client that follows the page tokens; \<open>None\<close> when a page fails or the pages do not end.\<close>

fun collect_pages ::
    "nat \<Rightarrow> store_config \<Rightarrow> int \<Rightarrow> string \<Rightarrow> string option \<Rightarrow> int option \<Rightarrow> string option \<Rightarrow> memory_connection \<Rightarrow> stored_memory list option" where
  "collect_pages 0 cfg now tenant_id scope limit token c = None"
| "collect_pages (Suc n) cfg now tenant_id scope limit token c =
    (case export_batch cfg now False tenant_id scope limit token c of
       Inl _ \<Rightarrow> None
     | Inr (items, next_token) \<Rightarrow>
        if next_token = [] then Some items
        else map_option (append items) (collect_pages n cfg now tenant_id scope limit (Some next_token) c))"

definition export_list :: "int \<Rightarrow> string \<Rightarrow> string option \<Rightarrow> string option \<Rightarrow> memory_connection \<Rightarrow> memory_row list" where
  "export_list now tenant scope after_id c = sort_key ro_item_id (filter (export_row now tenant scope after_id) (visible c))"

lemma export_list_after: "export_list now tenant scope (Some a) c = filter (\<lambda>r. a < ro_item_id r) (export_list now tenant scope None c)"
proof -
  have "filter (export_row now tenant scope (Some a)) (visible c) = filter (\<lambda>r. a < ro_item_id r) (filter (export_row now tenant scope None) (visible c))"
    unfolding filter_filter by (rule filter_cong) (auto simp: export_row_def)
  then show ?thesis by (simp add: export_list_def filter_sort)
qed

lemma export_list_sorted:
  assumes "connection_ok cfg c"
  shows "sorted_wrt (\<lambda>r s. ro_item_id r < ro_item_id s) (export_list now tenant scope None c)"
proof -
  let ?rows = "filter (export_row now tenant scope None) (visible c)"
  have "distinct (map row_key ?rows)" using visible_ok [OF assms] by (simp add: rows_ok_def distinct_map_filterI)
  moreover have "map row_key ?rows = map (\<lambda>i. (tenant, i)) (map ro_item_id ?rows)" by (auto simp: export_row_def row_key_def)
  ultimately have "distinct (map ro_item_id ?rows)" by (metis distinct_map)
  moreover have "mset (map ro_item_id (export_list now tenant scope None c)) = mset (map ro_item_id ?rows)" by (simp add: export_list_def mset_map)
  ultimately have "distinct (map ro_item_id (export_list now tenant scope None c))" by (metis mset_eq_imp_distinct_iff)
  moreover have "sorted (map ro_item_id (export_list now tenant scope None c))" by (simp add: export_list_def)
  ultimately have "sorted_wrt (<) (map ro_item_id (export_list now tenant scope None c))" by (simp add: strict_sorted_iff)
  then show ?thesis by (simp add: sorted_wrt_map)
qed

lemma filter_after_nth:
  fixes key :: "'a \<Rightarrow> 'k::linorder"
  assumes "sorted_wrt (\<lambda>r s. key r < key s) xs" "k < length xs"
  shows "filter (\<lambda>r. key (xs ! k) < key r) xs = drop (Suc k) xs"
proof -
  have "key (xs ! k) < key r" if r: "r \<in> set (drop (Suc k) xs)" for r
  proof -
    obtain j where "j < length xs - Suc k" "r = xs ! (Suc k + j)" using r by (auto simp: in_set_conv_nth)
    then show ?thesis using sorted_wrt_nth_less [OF assms(1), of k "Suc k + j"] by simp
  qed
  then have "filter (\<lambda>r. key (xs ! k) < key r) (drop (Suc k) xs) = drop (Suc k) xs" by (auto simp: filter_id_conv)
  moreover have "filter (\<lambda>r. key (xs ! k) < key r) (take (Suc k) xs) = []"
  proof -
    have "\<not> key (xs ! k) < key r" if r: "r \<in> set (take (Suc k) xs)" for r
    proof -
      obtain j where j: "j < Suc k" "r = xs ! j" using r assms(2) by (auto simp: in_set_conv_nth)
      then show ?thesis using sorted_wrt_nth_less [OF assms(1), of j k] assms(2) by (cases "j = k") (auto simp: not_less)
    qed
    then show ?thesis by (simp add: filter_empty_conv)
  qed
  ultimately show ?thesis by (metis append_Nil append_take_drop_id filter_append)
qed

text \<open>Tokens short enough for the reader.\<close>

definition tokens_fit :: "string \<Rightarrow> string option \<Rightarrow> memory_row list \<Rightarrow> bool" where
  "tokens_fit tenant scope rows \<longleftrightarrow> list_all (\<lambda>r. length (encode_page_token (ro_item_id r) tenant scope) \<le> 1024) rows"

lemma export_list_set: "r \<in> set (export_list now tenant scope a c) \<longleftrightarrow> r \<in> set (visible c) \<and> export_row now tenant scope a r"
  by (auto simp: export_list_def)

lemma export_token_read:
  assumes "connection_ok cfg c" "r \<in> set (export_list now tenant scope None c)" "tokens_fit tenant scope (export_list now tenant scope None c)"
  shows "decode_page_token (Some (encode_page_token (ro_item_id r) tenant scope)) tenant scope = Some (Some (ro_item_id r))"
proof (rule page_token_read)
  have ok: "row_ok cfg r" and row: "export_row now tenant scope None r"
    using assms(1,2) visible_row_ok by (auto simp: export_list_set)
  show "utf8_strict (ro_item_id r)" "strip (ro_item_id r) = ro_item_id r" "ro_item_id r \<noteq> []" "length (ro_item_id r) \<le> MAX_ITEM_ID_BYTES"
    using ok unfolding row_ok_def required_text_Inr by metis+
  show "utf8_strict tenant" "pred_option utf8_strict scope" using ok row by (auto simp: row_ok_def export_row_def split: option.splits)
  show "length (encode_page_token (ro_item_id r) tenant scope) \<le> 1024" using assms(2,3) by (auto simp: tokens_fit_def list_all_iff)
qed

lemma export_page:
  assumes "connection_ok cfg c" "required_text tenant_id 256 = Inr tenant" "decode_page_token token tenant scope = Some after_id"
    and limit: "(case limit of None \<Rightarrow> cf_max_top_k cfg | Some n \<Rightarrow> n) = int m" "1 \<le> m" "int m \<le> cf_max_top_k cfg"
  shows "export_batch cfg now False tenant_id scope limit token c =
    (let rows = export_list now tenant scope after_id c in
     Inr (map (row_item cfg) (take m rows), if length rows > m then encode_page_token (ro_item_id (rows ! (m - 1))) tenant scope else []))"
proof -
  let ?rows = "export_list now tenant scope after_id c"
  have maximum: "(case limit of None \<Rightarrow> Inr (cf_max_top_k cfg) | Some n \<Rightarrow> bounded_integer n 1 (cf_max_top_k cfg)) = (Inr (int m) :: store_error + int)"
    using limit by (auto split: option.splits simp del: bounded_integer_Inr simp: bounded_integer_def)
  have "record_from_row cfg r None = Inr (row_item cfg r)" if "r \<in> set ?rows" for r
    using record_from_row_ok [OF visible_row_ok [OF assms(1)], of r] that by (fastforce simp: export_list_set row_item_def)
  then have items: "mapE (\<lambda>r. record_from_row cfg r None) (take m ?rows) = Inr (map (row_item cfg) (take m ?rows))"
    by (auto simp: mapE_Inr list_all2_map2 list_all2_same dest: in_set_takeD)
  have sel: "take m (take (Suc m) ?rows) = take m ?rows" by simp
  have more: "length (take (Suc m) ?rows) > m \<longleftrightarrow> length ?rows > m" by auto
  have "last (take m ?rows) = ?rows ! (m - 1) \<and> take m ?rows \<noteq> []" if long: "length ?rows > m"
  proof -
    have "take m ?rows \<noteq> []" using long limit(2) by (metis length_greater_0_conv length_take min.absorb4 not_one_le_zero gr0I)
    then show ?thesis using last_conv_nth [of "take m ?rows"] long limit(2) by (simp add: min_def)
  qed
  moreover have "required_tenant tenant_id = Inr tenant" using assms(2) by simp
  ultimately show ?thesis
    unfolding export_batch_def Let_def export_list_def [symmetric]
    using maximum assms(3) items sel more by (auto simp del: required_tenant_Inr)
qed

lemma collect_from:
  assumes "connection_ok cfg c" "required_text tenant_id 256 = Inr tenant" "tokens_fit tenant scope (export_list now tenant scope None c)"
    and limit: "(case limit of None \<Rightarrow> cf_max_top_k cfg | Some n \<Rightarrow> n) = int m" "1 \<le> m" "int m \<le> cf_max_top_k cfg"
    and token: "decode_page_token token tenant scope = Some a" "export_list now tenant scope a c = drop j (export_list now tenant scope None c)"
    and fuel: "length (export_list now tenant scope None c) - j < n"
  shows "collect_pages n cfg now tenant_id scope limit token c = Some (map (row_item cfg) (drop j (export_list now tenant scope None c)))"
  using token fuel
proof (induction n arbitrary: token a j)
  case (Suc n)
  let ?L = "export_list now tenant scope None c"
  show ?case
  proof (cases "length (drop j ?L) > m")
    case False
    then show ?thesis using export_page [OF assms(1,2) Suc.prems(1) limit] Suc.prems(2) by (simp add: Let_def)
  next
    case True
    let ?r = "?L ! (j + m - 1)"
    have k: "j + m - 1 < length ?L" "Suc (j + m - 1) = j + m" using True limit(2) by simp_all
    have nth: "drop j ?L ! (m - 1) = ?r" using k limit(2) by simp
    have dec: "decode_page_token (Some (encode_page_token (ro_item_id ?r) tenant scope)) tenant scope = Some (Some (ro_item_id ?r))"
      using assms(1,3) k(1) by (intro export_token_read) auto
    have rest: "export_list now tenant scope (Some (ro_item_id ?r)) c = drop (j + m) ?L"
      unfolding export_list_after using filter_after_nth [OF export_list_sorted [OF assms(1)] k(1)] k(2) by metis
    have "collect_pages n cfg now tenant_id scope limit (Some (encode_page_token (ro_item_id ?r) tenant scope)) c = Some (map (row_item cfg) (drop (j + m) ?L))"
      using Suc.IH [OF dec rest] Suc.prems(3) limit(2) True by simp
    moreover have "map (row_item cfg) (take m (drop j ?L)) @ map (row_item cfg) (drop (j + m) ?L) = map (row_item cfg) (drop j ?L)"
      by (metis append_take_drop_id drop_drop add.commute map_append)
    ultimately show ?thesis
      using export_page [OF assms(1,2) Suc.prems(1) limit] Suc.prems(2) nth True by (simp add: Let_def)
  qed
qed simp

end
