(* ===== verification/Memory_Props.thy ===== *)
theory Memory_Props
  imports Memory_Table
begin

text \<open>
  The properties of the memory store, each with an example on a small database.
\<close>

section \<open>No read refuses a stored row\<close>

lemma foldE_Inl: "foldE f xs s = Inl e \<Longrightarrow> \<exists>x \<in> set xs. \<exists>s. f x s = Inl e"
  by (induction xs arbitrary: s) (auto simp: bindE_eq_Inl)

lemma scan_row_error:
  assumes "row_ok cfg row" "scan_row cfg ops cancelled query threshold limit filters (i, row) s = Inl e"
  shows "e = MemoryStoreError 5 True"
proof (cases "cancelled i")
  case False
  then show ?thesis using scan_row_ok [of cfg row cancelled i ops query threshold limit filters "fst s" "snd s"] assms by simp
qed (use assms in \<open>simp add: scan_row_def\<close>)

lemma recall_readable:
  assumes "connection_ok cfg c" "\<And>rows. set (plan rows) = set rows"
  shows "\<not> refuses_stored (recall_memory cfg ops plan now fault cancelled tn query scope subject filters similarity top_k c)"
proof
  let ?rows = "plan (filter (recall_row cfg now (strip tn) scope subject) (visible c))"
  assume "refuses_stored (recall_memory cfg ops plan now fault cancelled tn query scope subject filters similarity top_k c)"
  then obtain q th k f where "foldE (scan_row cfg ops cancelled q th k f) (enumerate 0 ?rows) ([], 0) = Inl (MemoryStoreError 5 False)"
    by (auto simp: refuses_stored_def recall_memory_def bindE_eq_Inl required_tenant_def required_text_def storage_error_def validated_vector_def
        bounded_similarity_def bounded_integer_def validated_metadata_def encode_metadata_def required_value_def Let_def
        split: sum.splits option.splits if_splits pyfloat.splits)
  then obtain i row s where "(i, row) \<in> set (enumerate 0 ?rows)" "scan_row cfg ops cancelled q th k f (i, row) s = Inl (MemoryStoreError 5 False)"
    using foldE_Inl by fastforce
  moreover from this(1) have "row \<in> set ?rows" by (auto simp: in_set_enumerate_eq)
  then have "row_ok cfg row" using assms visible_row_ok by auto
  ultimately show False using scan_row_error by fastforce
qed

lemma export_readable:
  assumes "connection_ok cfg c"
  shows "\<not> refuses_stored (export_batch cfg now fault tn scope limit token c)"
proof -
  have "\<exists>items. mapE (\<lambda>row. record_from_row cfg row None) (take m (take k (sort_key ro_item_id (filter P (visible c))))) = Inr items" for m k P
    using visible_row_ok [OF assms] record_from_row_ok by (intro mapE_total) (fastforce dest!: in_set_takeD)
  then have "mapE (\<lambda>row. record_from_row cfg row None) (take m (take k (sort_key ro_item_id (filter P (visible c))))) \<noteq> Inl e" for m k P e
    by (metis Inl_Inr_False)
  then show ?thesis
    by (auto simp: refuses_stored_def export_batch_def bindE_eq_Inl Let_def required_tenant_def required_text_def storage_error_def bounded_integer_def
        simp del: take_take split: sum.splits option.splits if_splits)
qed

fun is_read :: "memory_call \<Rightarrow> bool" where
  "is_read (GetCall _ _) = True"
| "is_read (RecallCall _ _ _ _ _ _ _) = True"
| "is_read (ExportCall _ _ _ _) = True"
| "is_read _ = False"

lemma refuses_result_as: "refuses_stored (result_as f r) \<longleftrightarrow> refuses_stored r"
  by (cases r) (auto simp: refuses_stored_def result_as_def)

lemma run_call_readable:
  assumes "connection_ok cfg c" "\<And>rows. set (en_plan env rows) = set rows" "is_read call"
  shows "\<not> refuses_stored (fst (run_call cfg ops (env, call) c))"
  using assms get_readable recall_readable export_readable
  by (cases call) (simp_all add: run_call_def Let_def refuses_result_as)

text \<open>The states a store passes through from an empty database.\<close>

definition empty_store :: "memory_connection \<Rightarrow> bool" where
  "empty_store c \<longleftrightarrow> cn_pending c = None \<and> db_records (cn_committed c) = []"

definition store_step :: "store_config \<Rightarrow> float_ops \<Rightarrow> memory_connection \<Rightarrow> memory_connection \<Rightarrow> bool" where
  "store_step cfg ops c c' \<longleftrightarrow> (\<exists>a. env_ok (fst a) \<and> c' = snd (run_call cfg ops a c))"

lemma reach_connection_ok: "reach empty_store (store_step cfg ops) c \<Longrightarrow> connection_ok cfg c"
proof (erule reach_invariant)
  show "connection_ok cfg s" if "empty_store s" for s using that by (simp add: empty_store_def connection_ok_def rows_ok_def)
  show "connection_ok cfg t" if "connection_ok cfg s" "store_step cfg ops s t" for s t using that run_call_ok by (auto simp: store_step_def)
qed

section \<open>The vector profile of a database\<close>

lemma fingerprint_loads:
  "json_loads (fingerprint_payload m p d doc q) = Some (PDict [(''dimensions'', PInt d), (''document_prefix'', PStr doc), (''profile_id'', PStr m),
     (''provider_model_id'', PStr p), (''query_prefix'', PStr q)])"
proof -
  let ?v = "[(''document_prefix'', PStr doc), (''dimensions'', PInt d), (''profile_id'', PStr m), (''provider_model_id'', PStr p), (''query_prefix'', PStr q)]"
  have "json_loads (fingerprint_payload m p d doc q) = Some (written True (PDict ?v))"
    unfolding fingerprint_payload_def by (rule json_loads_dumps) simp
  moreover have "sort_key fst ?v = [(''dimensions'', PInt d), (''document_prefix'', PStr doc), (''profile_id'', PStr m),
     (''provider_model_id'', PStr p), (''query_prefix'', PStr q)]" by code_simp
  ultimately show ?thesis unfolding written_dict by simp
qed

lemma fingerprint_fields:
  assumes "fingerprint_payload m p d doc q = fingerprint_payload m' p' d' doc' q'"
  shows "m = m' \<and> p = p' \<and> d = d' \<and> doc = doc' \<and> q = q'"
  using arg_cong [OF assms, of json_loads] unfolding fingerprint_loads by simp

definition active_payload :: "store_config \<Rightarrow> string" where
  "active_payload cfg = fingerprint_payload (cf_embedding_model_id cfg) (cf_provider_model_id cfg) (cf_embedding_dimensions cfg)
     (cf_document_prefix cfg) (cf_query_prefix cfg)"

lemma open_store_Inr:
  assumes "open_store model dims batch top_k provider doc q fault db = (Inr (cfg, c), db')"
  shows "cf_profile_fingerprint cfg = profile_fingerprint (cf_embedding_model_id cfg) (cf_provider_model_id cfg) (cf_embedding_dimensions cfg)
      (cf_document_prefix cfg) (cf_query_prefix cfg)" "migrate_database cfg fault db = (Inr (), db')" "cn_committed c = db'" "cn_pending c = None"
proof -
  have "configure_store model dims batch top_k provider doc q = Inr cfg" "migrate_database cfg fault db = (Inr (), db')"
    "cn_committed c = db'" "cn_pending c = None" using assms by (auto simp: open_store_def split: sum.splits prod.splits)
  then show "cf_profile_fingerprint cfg = profile_fingerprint (cf_embedding_model_id cfg) (cf_provider_model_id cfg) (cf_embedding_dimensions cfg)
      (cf_document_prefix cfg) (cf_query_prefix cfg)" "migrate_database cfg fault db = (Inr (), db')" "cn_committed c = db'" "cn_pending c = None"
    by (auto simp: configure_store_def bindE_eq_Inr)
qed

lemma migrate_Inr:
  assumes "migrate_database cfg fault db = (Inr (), db')"
  shows "db_records db' = db_records db" "db_profile db' = Some (cf_profile_fingerprint cfg)"
    "db_profile db = Some fp \<Longrightarrow> db_records db \<noteq> [] \<Longrightarrow> fp = cf_profile_fingerprint cfg"
    "db_profile db = None \<Longrightarrow> adopt_rows cfg (db_records db) = Inr ()"
  using assms by (auto simp: migrate_database_def split: if_splits option.splits sum.splits)

text \<open>What a database without a fingerprint must look like to be adopted: no prefixes and one model name for both identities are
  configured, and every row names the active model and dimension and no other provider model.\<close>

definition row_adopted :: "store_config \<Rightarrow> memory_row \<Rightarrow> bool" where
  "row_adopted cfg r \<longleftrightarrow> ro_embedding_model_id r = cf_embedding_model_id cfg \<and> ro_embedding_dimensions r = cf_embedding_dimensions cfg
    \<and> (\<exists>metadata. decode_metadata (ro_metadata_json r) = Inr metadata
         \<and> map_of metadata PROVIDER_MODEL_ID_KEY \<in> {None, Some [], Some (cf_provider_model_id cfg)})"

lemma adopted_metadata:
  assumes "foldE (\<lambda>row _. bindE (decode_metadata (ro_metadata_json row)) (\<lambda>metadata.
      raise_if (other_provider cfg metadata) StoreValueError)) rows () = Inr ()" "r \<in> set rows"
  shows "\<exists>metadata. decode_metadata (ro_metadata_json r) = Inr metadata
    \<and> map_of metadata PROVIDER_MODEL_ID_KEY \<in> {None, Some [], Some (cf_provider_model_id cfg)}"
  using assms
proof (induction rows)
  case (Cons x rows)
  then obtain metadata where m: "decode_metadata (ro_metadata_json x) = Inr metadata" "\<not> other_provider cfg metadata"
    "foldE (\<lambda>row _. bindE (decode_metadata (ro_metadata_json row)) (\<lambda>metadata.
      raise_if (other_provider cfg metadata) StoreValueError)) rows () = Inr ()"
    by (auto simp: bindE_eq_Inr)
  then have "map_of metadata PROVIDER_MODEL_ID_KEY \<in> {None, Some [], Some (cf_provider_model_id cfg)}"
    by (auto simp: other_provider_def split: option.splits)
  with m Cons show ?case by auto
qed simp

lemma adopt_rows_profile:
  assumes "adopt_rows cfg rows = Inr ()" "rows \<noteq> []"
  shows "cf_document_prefix cfg = [] \<and> cf_query_prefix cfg = [] \<and> cf_embedding_model_id cfg = cf_provider_model_id cfg
    \<and> list_all (row_adopted cfg) rows"
proof -
  have checks: "cf_document_prefix cfg = []" "cf_query_prefix cfg = []" "cf_embedding_model_id cfg = cf_provider_model_id cfg"
    "list_all (\<lambda>r. ro_embedding_model_id r = cf_embedding_model_id cfg \<and> ro_embedding_dimensions r = cf_embedding_dimensions cfg) rows"
    and fold: "foldE (\<lambda>row _. bindE (decode_metadata (ro_metadata_json row)) (\<lambda>metadata.
      raise_if (other_provider cfg metadata) StoreValueError)) rows () = Inr ()"
    using assms by (auto simp: adopt_rows_def bindE_eq_Inr list_all_iff)
  then show ?thesis using adopted_metadata [OF fold] by (simp add: row_adopted_def list_all_iff)
qed

section \<open>Operations on the map\<close>

lemma store_map:
  assumes "store_memory cfg now fresh fault tn item c = (Inr i, c')"
  shows "\<exists>row. store_row cfg now fresh tn item = Inr row \<and> table_map (visible c') = (table_map (visible c))((strip tn, i) \<mapsto> row)"
  using assms store_row_tenant [of cfg now fresh tn item]
  by (auto simp: store_memory_def table_map_upsert row_key_def split: sum.splits if_splits)

lemma delete_map:
  assumes "connection_ok cfg c" "delete_memory fault tn j c = (Inr b, c')"
  shows "b = (table_map (visible c) (strip tn, strip j) \<noteq> None) \<and> table_map (visible c') = (table_map (visible c))((strip tn, strip j) := None)"
proof -
  have d: "distinct (map row_key (visible c))" using visible_ok [OF assms(1)] by (simp add: rows_ok_def)
  have r: "b = (0 < sql_count (\<lambda>r. row_key r = (strip tn, strip j)) (visible c))"
    "visible c' = sql_delete (\<lambda>r. row_key r = (strip tn, strip j)) (visible c)"
    using assms(2) by (auto simp: delete_memory_def bindE_eq_Inr simp del: row_key_eq split: sum.splits if_splits)
  have "0 < sql_count (\<lambda>r. row_key r = k) (visible c) \<longleftrightarrow> table_map (visible c) k \<noteq> None" for k
    unfolding sql_count_pos table_map_None by auto
  moreover have "table_map (visible c') k = ((table_map (visible c))((strip tn, strip j) := None)) k" for k
    unfolding r(2) table_map_delete [OF d] using table_map_key [of "visible c" k] by (cases "table_map (visible c) k") auto
  ultimately show ?thesis using r(1) by (simp add: fun_eq_iff del: row_key_eq)
qed

lemma prune_map:
  assumes "connection_ok cfg c" "prune_memory now fault tn before c = (Inr n, c')"
  shows "\<forall>k. table_map (visible c') k = (case table_map (visible c) k of
      None \<Rightarrow> None | Some r \<Rightarrow> if fst k = strip tn \<and> prunable now before r then None else Some r)"
proof
  fix k
  have d: "distinct (map row_key (visible c))" using visible_ok [OF assms(1)] by (simp add: rows_ok_def)
  have "visible c' = sql_delete (\<lambda>r. ro_tenant_id r = strip tn \<and> prunable now before r) (visible c)"
    using assms(2) by (auto simp: prune_memory_def Let_def split: sum.splits if_splits)
  then show "table_map (visible c') k = (case table_map (visible c) k of
      None \<Rightarrow> None | Some r \<Rightarrow> if fst k = strip tn \<and> prunable now before r then None else Some r)"
    using table_map_delete [OF d] table_map_key [of "visible c" k] by (auto simp: row_key_def split: option.split)
qed

lemma import_map:
  assumes "import_batch cfg now fresh place tn items overwrite c = (Inr n, c')"
  shows "\<exists>rs batch. import_items cfg fresh tn items = Inr (strip tn, rs) \<and> mapE (import_row cfg (strip tn) now) rs = Inr batch
    \<and> table_map (visible c') = batch_map overwrite batch (table_map (visible c))"
  by (rule import_batch_map [OF assms]) blast

section \<open>Failing calls\<close>

lemma write_records_same: "f (visible c) = visible c \<Longrightarrow> write_records f c = c"
  by (auto simp: write_records_def visible_def split: option.splits)

lemma result_as_Inl: "result_as f r = Inl e \<longleftrightarrow> r = Inl e"
  by (cases r) (auto simp: result_as_def)

lemma import_outcome_error:
  "fst (import_outcome cfg now fault tenant rs overwrite rows) = Inl e \<Longrightarrow> snd (import_outcome cfg now fault tenant rs overwrite rows) = rows"
  by (auto simp: import_outcome_def split: option.splits prod.splits if_splits)

lemma failed_operation:
  "fst (store_memory cfg now fresh fault tn item c) = Inl e \<Longrightarrow> snd (store_memory cfg now fresh fault tn item c) = c"
  "fst (delete_memory fault tn j c) = Inl e \<Longrightarrow> snd (delete_memory fault tn j c) = c"
  "fst (prune_memory now fault tn before c) = Inl e \<Longrightarrow> snd (prune_memory now fault tn before c) = c"
  by (auto simp: store_memory_def delete_memory_def prune_memory_def Let_def simp del: required_tenant_Inr split: sum.splits if_splits)

lemma failed_call_unchanged:
  assumes "cn_pending c = None" "regular_call (env, call)" "fst (run_call cfg ops (env, call) c) = Inl e"
  shows "snd (run_call cfg ops (env, call) c) = c"
proof (cases call)
  case (ImportCall tn items ow)
  then have fit: "list_all (times_fit (en_now env)) items" using assms(2) by (simp add: regular_call_def)
  show ?thesis
    using assms(3) ImportCall import_settled [OF assms(1) fit] import_outcome_error
    by (auto simp: run_call_def Let_def result_as_Inl split: sum.splits intro!: write_records_same)
qed (use assms failed_operation in \<open>auto simp: run_call_def Let_def result_as_Inl\<close>)

text \<open>Only the statements of an import, not its checks, can overflow.\<close>

definition no_overflow :: "store_error + 'a \<Rightarrow> bool" where
  "no_overflow r \<longleftrightarrow> r \<noteq> Inl StoreOverflow"

lemma no_overflow_bind [intro!]: "no_overflow r \<Longrightarrow> (\<And>x. no_overflow (f x)) \<Longrightarrow> no_overflow (bindE r f)"
  by (cases r) (auto simp: no_overflow_def)

lemma no_overflow_checks [simp]:
  "no_overflow (Inr x)" "no_overflow (required_text v n)" "no_overflow (required_tenant v)" "no_overflow (bounded_integer k lo hi)"
  "no_overflow (bounded_optional_text v n)" "no_overflow (encode_metadata d)" "no_overflow (profile_from_metadata d m)"
  "no_overflow (raise_if b StoreValueError)" "no_overflow (raise_if b (MemoryStoreError k r))"
  by (auto simp: no_overflow_def required_text_def required_tenant_def bounded_integer_def bounded_optional_text_def encode_metadata_def
      profile_from_metadata_def bindE_eq_Inl Let_def split: option.splits sum.splits)

lemma no_overflow_metadata [simp]: "no_overflow (validated_metadata d)"
  unfolding validated_metadata_def by (auto simp: no_overflow_def bindE_eq_Inl encode_metadata_def Let_def)

lemma no_overflow_normalize [simp]: "no_overflow (normalize_item fresh item t m d p)"
  unfolding normalize_item_def Let_def by (auto split: prod.split)

lemma no_overflow_mapE: "(\<And>x. no_overflow (f x)) \<Longrightarrow> no_overflow (mapE f xs)"
  by (induction xs) auto

lemma no_overflow_items: "no_overflow (import_items cfg fresh tn items)"
  unfolding import_items_def import_item_def Let_def by (auto intro!: no_overflow_mapE split: prod.split)

lemma import_overflow_pending:
  assumes "cn_pending c = None" "import_batch cfg now fresh fault tn items overwrite c = (Inl StoreOverflow, c1)"
  shows "\<exists>d. c1 = c\<lparr>cn_pending := Some d\<rparr>"
  using assms no_overflow_items [of cfg fresh tn items]
  by (auto simp: import_batch_def no_overflow_def Let_def storage_error_def
      split: sum.splits if_splits option.splits store_error.splits prod.splits)

section \<open>A small database\<close>

definition sample_config :: store_config where
  "sample_config =
    \<lparr>cf_embedding_model_id = ''m'', cf_provider_model_id = ''m'', cf_embedding_dimensions = 1, cf_document_prefix = [], cf_query_prefix = [],
     cf_profile_fingerprint = ''fp'', cf_recall_batch_size = 16, cf_max_top_k = 10\<rparr>"

definition sample_item :: stored_memory where
  "sample_item =
    \<lparr>sm_item_id = ''a'', sm_tenant_id = ''t'', sm_scope = ''s'', sm_subject = [], sm_content = ''text'', sm_embedding = [Fin 1],
     sm_metadata = [(DIMENSIONS_KEY, ''1''), (MODEL_ID_KEY, ''m''), (PROVIDER_MODEL_ID_KEY, ''m'')],
     sm_created_at_ms = 5, sm_expires_at_ms = None, sm_ttl_seconds = None\<rparr>"

definition empty_connection :: memory_connection where
  "empty_connection = \<lparr>cn_committed = \<lparr>db_records = [], db_profile = Some ''fp'', db_version = 2\<rparr>, cn_pending = None\<rparr>"

definition sample_row :: memory_row where
  "sample_row =
    \<lparr>ro_tenant_id = ''t'', ro_item_id = ''a'', ro_scope = ''s'', ro_subject = [], ro_content = ''text'', ro_embedding = word_bytes 1065353216,
     ro_embedding_model_id = ''m'', ro_embedding_dimensions = 1,
     ro_metadata_json = json_dumps (\<lambda>_. []) True (text_dict (sm_metadata sample_item)), ro_created_at_ms = 5, ro_expires_at_ms = None, ro_ttl_seconds = None\<rparr>"

lemma pack_one: "pack_floats [Fin 1] = Inr (word_bytes 1065353216)" "is_float32 (Fin 1)" "unpack_floats (word_bytes 1065353216) = [Fin 1]"
proof -
  have v: "magnitude_value 1065353216 = 1" by (simp add: magnitude_value_def)
  then have "magnitude_bits 1 = 1065353216" using magnitude_bits_value [of 1065353216] by simp
  then have p: "pack_bits (Fin 1) = Inr 1065353216" by (simp add: pack_bits_def)
  then show "pack_floats [Fin 1] = Inr (word_bytes 1065353216)" by (simp add: pack_float_def)
  have u: "unpack_bits 1065353216 = Fin 1" using v by (simp add: unpack_bits_def)
  then show "is_float32 (Fin 1)" using p by (simp add: is_float32_def)
  show "unpack_floats (word_bytes 1065353216) = [Fin 1]"
    using bytes_word_bytes [of 1065353216] u by (simp add: word_bytes_def)
qed

lemma pack_vector_one: "pack_vector [Fin 1] (Some 1) = Inr (word_bytes 1065353216)"
  using pack_one by (simp add: pack_vector_def validated_vector_def is_finite_def float_in_range_def FLOAT32_MAX_def)

lemma sample_checks:
  "required_tenant ''t'' = Inr ''t''" "required_tenant ''u'' = Inr ''u''" "required_text ''a'' MAX_ITEM_ID_BYTES = Inr ''a''" "required_text ''m'' 256 = Inr ''m''"
  "strip ''a'' = ''a''" "utf8_strict ''s''" "utf8_strict ''text''" "utf8_strict []"
  "profile_from_metadata (sm_metadata sample_item) (Some ''m'') = Inr (''m'', Some 1)" "declares_profile (sm_metadata sample_item)"
  "map_of (sm_metadata sample_item) PROVIDER_MODEL_ID_KEY = Some ''m''" "list_all metadata_entry_ok (sm_metadata sample_item)"
  "with_profile_metadata (sm_metadata sample_item) ''m'' 1 (Some ''m'') = sm_metadata sample_item"
  "length (json_dumps (\<lambda>_. []) True (text_dict (sm_metadata sample_item))) = 108"
  by code_simp+

lemma sample_metadata: "encode_metadata (sm_metadata sample_item) = Inr (json_dumps (\<lambda>_. []) True (text_dict (sm_metadata sample_item)))"
  unfolding encode_metadata_def Let_def sample_checks(14) by (simp add: MAX_METADATA_BYTES_def)

lemma sample_validated: "validated_metadata (sm_metadata sample_item) = Inr (sm_metadata sample_item)"
  using sample_checks(12) sample_metadata by (simp add: validated_metadata_def MAX_METADATA_ENTRIES_def) (simp add: sample_item_def)

lemma sample_ttl_normalized:
  assumes "pred_option (\<lambda>t. 0 \<le> t) ttl"
  shows "normalize_item ''0a'' (sample_item\<lparr>sm_ttl_seconds := ttl\<rparr>) ''t'' (Some ''m'') (Some 1) (Some ''m'') = Inr (sample_item\<lparr>sm_ttl_seconds := ttl\<rparr>)"
  using sample_checks sample_validated assms
  by (simp add: normalize_item_def Let_def bounded_optional_text_def negative_option del: required_tenant_Inr required_text_Inr)
     (simp add: sample_item_def MAX_CONTENT_BYTES_def del: required_tenant_Inr required_text_Inr)

lemma sample_normalized: "normalize_item ''0a'' sample_item ''t'' (Some ''m'') (Some 1) (Some ''m'') = Inr sample_item"
proof -
  have "sample_item\<lparr>sm_ttl_seconds := None\<rparr> = sample_item" by (simp add: sample_item_def)
  then show ?thesis using sample_ttl_normalized [of None] by simp
qed

lemma sample_store_row: "store_row sample_config 7 ''0a'' ''t'' sample_item = Inr sample_row"
  using sample_checks(1) sample_normalized sample_metadata pack_vector_one
  by (simp add: store_row_def sample_config_def del: required_tenant_Inr) (simp add: sample_item_def memory_row_of_def sample_row_def Let_def effective_expiry_def)

lemma empty_connection_ok: "connection_ok sample_config empty_connection" "empty_store empty_connection"
  by (simp_all add: empty_connection_def connection_ok_def rows_ok_def empty_store_def)

definition sample_connection :: memory_connection where
  "sample_connection = empty_connection\<lparr>cn_committed := (cn_committed empty_connection)\<lparr>db_records := [sample_row]\<rparr>\<rparr>"

lemma hex_sample: "hex_text ''0a''"
  by code_simp

lemma sample_bindable: "bindable sample_row"
  by (simp add: sample_row_def bindable_def int64_def)

lemma sample_store: "store_memory sample_config 7 ''0a'' False ''t'' sample_item empty_connection = (Inr ''a'', sample_connection)"
  using sample_store_row sample_bindable
  by (simp add: store_memory_def write_records_def upsert_def empty_connection_def sample_connection_def) (simp add: sample_row_def)

lemma sample_connection_ok: "connection_ok sample_config sample_connection"
  using store_row_ok(1) [OF sample_store_row hex_sample]
  by (simp add: sample_connection_def connection_ok_def rows_ok_def empty_connection_def)

section \<open>Properties\<close>

text \<open>C30.  An item that \<open>store\<close> acknowledged is returned by \<open>get\<close> under the returned identity, with its content, scope,
  subject and vector unchanged, its metadata in key order with the active vector profile, and the effective creation
  and expiry times, until it expires; then \<open>get\<close> returns nothing.\<close>

theorem memory_store_get:
  assumes "connection_ok cfg c" "store_memory cfg now fresh False tenant_id item c = (Inr i, c')" "hex_text fresh"
    "distinct (map fst (sm_metadata item))" "list_all is_float32 (sm_embedding item)"
  shows "get_memory cfg later False tenant_id i c' =
    Inr (if case expiry_time now item of None \<Rightarrow> True | Some e \<Rightarrow> later < e then Some (kept_item cfg now (strip tenant_id) i item) else None)"
  using assms by (rule store_get_holds)

theorem memory_store_get_witness:
  "get_memory sample_config 9 False ''t'' ''a'' sample_connection = Inr (Some (kept_item sample_config 7 (strip ''t'') ''a'' sample_item))"
proof -
  have d: "distinct (map fst (sm_metadata sample_item))" by (simp add: sample_item_def)
  have e: "list_all is_float32 (sm_embedding sample_item)" by (simp add: sample_item_def pack_one(2))
  have x: "expiry_time 7 sample_item = None" by (simp add: expiry_time_def sample_item_def effective_expiry_def)
  show ?thesis using memory_store_get [OF empty_connection_ok(1) sample_store hex_sample d e, of 9] x by simp
qed

text \<open>C31.  Recall returns exactly the scores that sorting all eligible rows of the tenant by similarity and taking the first
  \<open>top_k\<close> gives, best first, and only items that are eligible, each at most as often as it is stored, whatever the order
  in which the rows are scanned.\<close>

theorem memory_recall_top_k:
  assumes "connection_ok cfg c" "\<And>rows. mset (plan rows) = mset rows" "\<And>i. \<not> cancelled i"
    "required_tenant tenant_id = Inr tenant" "validated_vector query (Some (cf_embedding_dimensions cfg)) = Inr query"
    "bounded_similarity min_similarity = Inr threshold" "1 \<le> top_k" "top_k \<le> cf_max_top_k cfg" "validated_metadata filters = Inr filters"
  shows "\<exists>res. recall_memory cfg ops plan now False cancelled tenant_id query scope subject filters min_similarity top_k c = Inr res
    \<and> map sr_score res = take (nat top_k) (rev (sort (map sr_score
        (eligible cfg ops query threshold filters (filter (recall_row cfg now tenant scope subject) (visible c))))))
    \<and> mset res \<subseteq># mset (eligible cfg ops query threshold filters (filter (recall_row cfg now tenant scope subject) (visible c)))"
  by (rule recall_top_k_holds) (fact assms)+

definition exact_ops :: float_ops where
  "exact_ops = \<lparr>fl_add = (+), fl_mul = (*), fl_div = (/), fl_sqrt = (\<lambda>x. x), fl_sum = sum_list\<rparr>"

theorem memory_recall_top_k_witness:
  "\<exists>res. recall_memory sample_config exact_ops rev 9 False (\<lambda>_. False) ''t'' [Fin 1] None (Some []) [] (Fin 0) 3 sample_connection = Inr res
    \<and> map sr_score res = take (nat 3) (rev (sort (map sr_score
        (eligible sample_config exact_ops [Fin 1] 0 [] (filter (recall_row sample_config 9 ''t'' None (Some [])) (visible sample_connection))))))
    \<and> mset res \<subseteq># mset (eligible sample_config exact_ops [Fin 1] 0 [] (filter (recall_row sample_config 9 ''t'' None (Some [])) (visible sample_connection)))"
proof -
  have v: "validated_vector [Fin 1] (Some (cf_embedding_dimensions sample_config)) = Inr [Fin 1]"
    by (simp add: validated_vector_def sample_config_def is_finite_def float_in_range_def FLOAT32_MAX_def)
  have m: "validated_metadata [] = Inr []" by (simp add: validated_metadata_Inr MAX_METADATA_ENTRIES_def encode_metadata_def text_dict_def MAX_METADATA_BYTES_def)
  have k: "cf_max_top_k sample_config = 10" by (simp add: sample_config_def)
  show ?thesis
    by (rule memory_recall_top_k) (simp_all add: sample_connection_ok sample_checks(1) v m k bounded_similarity_def del: required_tenant_Inr)
qed

text \<open>C32.  Tenants are kept apart: in any sequence of calls, the answers that one tenant gets are the answers it gets when
  the calls of all other tenants are left out, as long as no transaction is open at the start and the times of imported items
  fit 64 bits (an overflowing import breaks this, see below).\<close>

theorem memory_tenants_isolated:
  assumes "cn_pending c = None" "list_all regular_call calls"
  shows "filter (\<lambda>x. call_owner (fst x) = t) (answers (run_call cfg ops) calls c) = answers (run_call cfg ops) (filter (\<lambda>a. call_owner a = t) calls) c"
  using tenants.noninterference [OF assms(1) assms(1) assms(2) refl] .

definition sample_env :: call_env where
  "sample_env = \<lparr>en_now = 7, en_fresh = (\<lambda>_. ''0a''), en_fault = None, en_plan = (\<lambda>rows. rows), en_cancelled = (\<lambda>_. False)\<rparr>"

theorem memory_tenants_isolated_witness:
  "let calls = [(sample_env, StoreCall ''t'' sample_item), (sample_env, DeleteCall ''u'' ''a''), (sample_env, ImportCall ''u'' [sample_item] True), (sample_env, GetCall ''t'' ''a'')] in
   filter (\<lambda>x. call_owner (fst x) = ''t'') (answers (run_call sample_config exact_ops) calls empty_connection)
   = answers (run_call sample_config exact_ops) (filter (\<lambda>a. call_owner a = ''t'') calls) empty_connection"
  unfolding Let_def
  by (rule memory_tenants_isolated)
     (simp_all add: empty_connection_def regular_call_def times_fit_def sample_item_def sample_env_def int64_def effective_expiry_def)

text \<open>C33.  From an empty database, any sequence of calls keeps every row readable under a unique key with the active vector
  profile, so that no read answers that stored data are invalid.\<close>

theorem memory_rows_readable:
  assumes "reach empty_store (store_step cfg ops) c"
  shows "connection_ok cfg c \<and>
    (\<forall>env call. (\<forall>rows. set (en_plan env rows) = set rows) \<and> is_read call \<longrightarrow> \<not> refuses_stored (fst (run_call cfg ops (env, call) c)))"
  using reach_connection_ok [OF assms] run_call_readable by blast

theorem memory_rows_readable_witness:
  "connection_ok sample_config sample_connection
    \<and> \<not> refuses_stored (fst (run_call sample_config exact_ops (sample_env, GetCall ''t'' ''a'') sample_connection))"
proof -
  have "env_ok sample_env" by (simp add: env_ok_def sample_env_def hex_sample)
  moreover have "snd (run_call sample_config exact_ops (sample_env, StoreCall ''t'' sample_item) empty_connection) = sample_connection"
    using sample_store by (simp add: run_call_def sample_env_def)
  ultimately have "store_step sample_config exact_ops empty_connection sample_connection"
    unfolding store_step_def by (intro exI [of _ "(sample_env, StoreCall ''t'' sample_item)"]) simp
  then have "reach empty_store (store_step sample_config exact_ops) sample_connection"
    by (rule reach_step [OF reach_init [of empty_store, OF empty_connection_ok(2)]])
  moreover have "(\<forall>rows. set (en_plan sample_env rows) = set rows) \<and> is_read (GetCall ''t'' ''a'')" by (simp add: sample_env_def)
  ultimately show ?thesis using memory_rows_readable by blast
qed

text \<open>C34.  Following the page tokens of an export returns every unexpired item of the tenant and scope exactly once, in
  the order of the item identities, and ends after at most one page more than there are items, as long as the tokens
  keep to the length that the store reads.\<close>

theorem memory_export_complete:
  assumes "connection_ok cfg c" "required_text tenant_id 256 = Inr tenant" "tokens_fit tenant scope (export_list now tenant scope None c)"
    "(case limit of None \<Rightarrow> cf_max_top_k cfg | Some n \<Rightarrow> n) = int m" "1 \<le> m" "int m \<le> cf_max_top_k cfg"
    "length (export_list now tenant scope None c) < n"
  shows "collect_pages n cfg now tenant_id scope limit None c = Some (map (row_item cfg) (export_list now tenant scope None c))"
  using collect_from [OF assms(1-6), where j = 0 and a = None and token = None] assms(7) by (simp add: decode_page_token_def)

theorem memory_export_complete_witness:
  "collect_pages 2 sample_config 9 ''t'' (Some ''s'') (Some 1) None sample_connection
    = Some (map (row_item sample_config) (export_list 9 ''t'' (Some ''s'') None sample_connection))"
proof -
  have l: "export_list 9 ''t'' (Some ''s'') None sample_connection = [sample_row]"
    by (simp add: export_list_def sample_connection_def empty_connection_def visible_def export_row_def unexpired_def sample_row_def)
  have "length (encode_page_token ''a'' ''t'' (Some ''s'')) = 51" by code_simp
  then have "tokens_fit ''t'' (Some ''s'') [sample_row]" by (simp add: tokens_fit_def sample_row_def)
  then show ?thesis
    using sample_checks(1) unfolding required_tenant_Inr
    by (intro memory_export_complete [where m = 1 and tenant = "''t''"] sample_connection_ok) (simp_all add: l sample_config_def del: required_text_Inr)
qed

text \<open>C35.  The table is a map from tenant and item to rows: \<open>store\<close> sets one entry, \<open>delete\<close> clears one and says whether there was
  one, \<open>prune\<close> clears exactly the expired or old entries of its tenant, and an import adds its whole batch, replacing existing
  entries exactly when it overwrites.\<close>

theorem memory_table_refined:
  assumes "connection_ok cfg c"
  shows "(\<forall>i c'. store_memory cfg now fresh fault tn item c = (Inr i, c') \<longrightarrow>
      (\<exists>row. store_row cfg now fresh tn item = Inr row \<and> table_map (visible c') = (table_map (visible c))((strip tn, i) \<mapsto> row)))
    \<and> (\<forall>b c'. delete_memory fault tn j c = (Inr b, c') \<longrightarrow>
      b = (table_map (visible c) (strip tn, strip j) \<noteq> None) \<and> table_map (visible c') = (table_map (visible c))((strip tn, strip j) := None))
    \<and> (\<forall>n c'. prune_memory now fault tn before c = (Inr n, c') \<longrightarrow>
      (\<forall>k. table_map (visible c') k = (case table_map (visible c) k of
         None \<Rightarrow> None | Some r \<Rightarrow> if fst k = strip tn \<and> prunable now before r then None else Some r)))
    \<and> (\<forall>n c'. import_batch cfg now fresh_ids place tn items overwrite c = (Inr n, c') \<longrightarrow>
      (\<exists>rs batch. import_items cfg fresh_ids tn items = Inr (strip tn, rs) \<and> mapE (import_row cfg (strip tn) now) rs = Inr batch
        \<and> table_map (visible c') = batch_map overwrite batch (table_map (visible c))))"
  by (intro conjI [OF _ conjI [OF _ conjI]] allI impI; (rule store_map | rule delete_map [OF assms] | rule prune_map [OF assms, THEN spec] | rule import_map); assumption)

theorem memory_table_refined_witness:
  "(\<exists>row. store_row sample_config 7 ''0a'' ''t'' sample_item = Inr row
    \<and> table_map (visible sample_connection) = (table_map (visible empty_connection))((strip ''t'', ''a'') \<mapsto> row))"
  using memory_table_refined [OF empty_connection_ok(1), of 7 "''0a''" False "''t''" sample_item, THEN conjunct1] sample_store by blast

text \<open>C36.  A database that holds rows is opened only under the vector profile it was written with.  When a fingerprint was recorded for
  a profile, the active profile is that one in all five parts, unless SHA-256 collides on the two descriptions.  When none was recorded, the active
  profile has no prefixes and one name for model and provider model, and every row names the active model and dimension and, in its
  metadata, no other provider model.  Opening changes no row.\<close>

theorem memory_profile_fence:
  assumes "open_store model dims batch top_k provider doc q fault db = (Inr (cfg, c), db')" "db_records db \<noteq> []"
  shows "visible c = db_records db \<and>
    (db_profile db = Some (profile_fingerprint m' p' d' doc' q') \<longrightarrow>
      (m', p', d', doc', q') = (cf_embedding_model_id cfg, cf_provider_model_id cfg, cf_embedding_dimensions cfg, cf_document_prefix cfg, cf_query_prefix cfg)
      \<or> (fingerprint_payload m' p' d' doc' q' \<noteq> active_payload cfg \<and> sha256 (fingerprint_payload m' p' d' doc' q') = sha256 (active_payload cfg)))
    \<and> (db_profile db = None \<longrightarrow>
      cf_document_prefix cfg = [] \<and> cf_query_prefix cfg = [] \<and> cf_embedding_model_id cfg = cf_provider_model_id cfg
      \<and> list_all (row_adopted cfg) (visible c))"
proof -
  note o = open_store_Inr [OF assms(1)]
  have vis: "visible c = db_records db" using o(3,4) migrate_Inr(1) [OF o(2)] by (simp add: visible_def)
  have "(m', p', d', doc', q') = (cf_embedding_model_id cfg, cf_provider_model_id cfg, cf_embedding_dimensions cfg, cf_document_prefix cfg, cf_query_prefix cfg)
      \<or> (fingerprint_payload m' p' d' doc' q' \<noteq> active_payload cfg \<and> sha256 (fingerprint_payload m' p' d' doc' q') = sha256 (active_payload cfg))" if "db_profile db = Some (profile_fingerprint m' p' d' doc' q')"
    using migrate_Inr(3) [OF o(2) that assms(2)] o(1) fingerprint_fields unfolding profile_fingerprint_def active_payload_def by metis
  then show ?thesis using vis migrate_Inr(4) [OF o(2)] adopt_rows_profile [OF _ assms(2)] by auto
qed

definition legacy_database :: memory_database where
  "legacy_database = \<lparr>db_records = [sample_row], db_profile = None, db_version = 1\<rparr>"

lemma sample_row_metadata: "decode_metadata (ro_metadata_json sample_row) = Inr (sort_key fst (sm_metadata sample_item))"
proof -
  have "distinct (map fst (sm_metadata sample_item))" by (simp add: sample_item_def)
  then have "decode_metadata (json_dumps (\<lambda>_. []) True (text_dict (sm_metadata sample_item))) = Inr (sort_key fst (sm_metadata sample_item))"
    using sample_metadata by (rule decode_encoded)
  then show ?thesis by (simp add: sample_row_def)
qed

theorem memory_profile_fence_witness:
  "(\<exists>cfg c db'. open_store ''m'' 1 16 10 None [] [] False legacy_database = (Inr (cfg, c), db') \<and> visible c = [sample_row]
      \<and> cf_document_prefix cfg = [] \<and> cf_query_prefix cfg = [] \<and> list_all (row_adopted cfg) (visible c))
   \<and> (\<exists>cfg c db'. open_store ''m'' 1 16 10 None ''d'' ''q'' False
        (legacy_database\<lparr>db_profile := Some (profile_fingerprint ''m'' ''m'' 1 ''d'' ''q'')\<rparr>) = (Inr (cfg, c), db')
      \<and> (''m'', ''m'', 1, ''d'', ''q'') = (cf_embedding_model_id cfg, cf_provider_model_id cfg, cf_embedding_dimensions cfg, cf_document_prefix cfg, cf_query_prefix cfg))"
proof -
  let ?cfg = "\<lambda>doc q. \<lparr>cf_embedding_model_id = ''m'', cf_provider_model_id = ''m'', cf_embedding_dimensions = 1, cf_document_prefix = doc, cf_query_prefix = q,
     cf_profile_fingerprint = profile_fingerprint ''m'' ''m'' 1 doc q, cf_recall_batch_size = 16, cf_max_top_k = 10\<rparr>"
  let ?marked = "legacy_database\<lparr>db_profile := Some (profile_fingerprint ''m'' ''m'' 1 ''d'' ''q'')\<rparr>"
  have texts: "utf8_strict ''d''" "utf8_strict ''q''" by code_simp+
  have cfg: "configure_store ''m'' 1 16 10 None [] [] = Inr (?cfg [] [])" "configure_store ''m'' 1 16 10 None ''d'' ''q'' = Inr (?cfg ''d'' ''q'')"
    using sample_checks(4,8) texts
    by (simp_all add: configure_store_def bounded_integer_def bounded_optional_text_def MAX_TOP_K_def del: required_text_Inr)
  have "map_of (sort_key fst (sm_metadata sample_item)) PROVIDER_MODEL_ID_KEY = Some ''m''" by code_simp
  then have "adopt_rows (?cfg [] []) [sample_row] = Inr ()"
    using sample_row_metadata by (simp add: adopt_rows_def other_provider_def) (simp add: sample_row_def)
  then obtain c db' where legacy: "open_store ''m'' 1 16 10 None [] [] False legacy_database = (Inr (?cfg [] [], c), db')"
    using cfg(1) by (simp add: open_store_def migrate_database_def legacy_database_def SCHEMA_VERSION_def)
  obtain c2 db2 where marked: "open_store ''m'' 1 16 10 None ''d'' ''q'' False ?marked = (Inr (?cfg ''d'' ''q'', c2), db2)"
    using cfg(2) by (simp add: open_store_def migrate_database_def legacy_database_def SCHEMA_VERSION_def)
  have db: "db_records legacy_database = [sample_row]" "db_profile legacy_database = None" "db_records ?marked \<noteq> []"
    "db_profile ?marked = Some (profile_fingerprint ''m'' ''m'' 1 ''d'' ''q'')" by (simp_all add: legacy_database_def)
  note f1 = memory_profile_fence [OF legacy, of "[]" "[]" 0 "[]" "[]"] and f2 = memory_profile_fence [OF marked db(3), of "''m''" "''m''" 1 "''d''" "''q''"]
  show ?thesis
  proof (intro conjI exI)
    show "open_store ''m'' 1 16 10 None [] [] False legacy_database = (Inr (?cfg [] [], c), db')" by (rule legacy)
    show "visible c = [sample_row]" "cf_document_prefix (?cfg [] []) = []" "cf_query_prefix (?cfg [] []) = []" "list_all (row_adopted (?cfg [] [])) (visible c)"
      using f1 db(1,2) by auto
    show "open_store ''m'' 1 16 10 None ''d'' ''q'' False ?marked = (Inr (?cfg ''d'' ''q'', c2), db2)" by (rule marked)
    show "(''m'', ''m'', 1, ''d'', ''q'') = (cf_embedding_model_id (?cfg ''d'' ''q''), cf_provider_model_id (?cfg ''d'' ''q''), cf_embedding_dimensions (?cfg ''d'' ''q''), cf_document_prefix (?cfg ''d'' ''q''), cf_query_prefix (?cfg ''d'' ''q''))"
      using f2 db(4) by (simp add: active_payload_def)
  qed
qed

text \<open>C37.  A call that fails changes nothing in the database, as long as no transaction was left open and the times of imported
  items fit 64 bits; in particular a failing import stores none of its items.\<close>

theorem memory_failed_call_unchanged:
  assumes "cn_pending c = None" "regular_call (env, call)" "fst (run_call cfg ops (env, call) c) = Inl e"
  shows "snd (run_call cfg ops (env, call) c) = c"
  using assms by (rule failed_call_unchanged)

theorem memory_failed_call_unchanged_witness:
  "snd (run_call sample_config exact_ops (sample_env\<lparr>en_fault := Some 1\<rparr>, StoreCall ''t'' sample_item) empty_connection) = empty_connection"
proof (rule memory_failed_call_unchanged)
  show "fst (run_call sample_config exact_ops (sample_env\<lparr>en_fault := Some 1\<rparr>, StoreCall ''t'' sample_item) empty_connection) = Inl storage_error"
    using sample_store_row sample_bindable by (simp add: run_call_def store_memory_def sample_env_def result_as_def)
qed (simp_all add: regular_call_def empty_connection_def)

text \<open>C38. Known defect: an import with an expiry time beyond 64 bits fails without closing its transaction.  A store that is
  acknowledged afterwards, by any tenant, goes into that transaction and is not committed, and the next import discards it.\<close>

theorem overflowing_import_loses_writes:
  assumes "cn_pending c = None" "import_batch cfg now fresh fault tn items overwrite c = (Inl StoreOverflow, c1)"
    "store_memory cfg now2 fresh2 False tn2 item c1 = (Inr i, c2)" "import_items cfg fresh3 tn3 items3 = Inr p"
  shows "cn_committed c2 = cn_committed c \<and> import_batch cfg now3 fresh3 fault3 tn3 items3 overwrite3 c2 = (Inl storage_error, c)"
proof -
  obtain d where c1: "c1 = c\<lparr>cn_pending := Some d\<rparr>" using import_overflow_pending [OF assms(1,2)] by blast
  then obtain d' where c2: "c2 = c\<lparr>cn_pending := Some d'\<rparr>"
    using assms(3) by (auto simp: store_memory_def write_records_def split: sum.splits if_splits)
  have "c\<lparr>cn_pending := None\<rparr> = c" using assms(1) by simp
  then show ?thesis using assms(4) by (cases p) (simp add: c2 import_batch_def)
qed

definition late_item :: stored_memory where
  "late_item = sample_item\<lparr>sm_ttl_seconds := Some (2 ^ 63 - 1)\<rparr>"

lemma sample_import_items:
  assumes "pred_option (\<lambda>t. 0 \<le> t) ttl"
  shows "import_items sample_config (\<lambda>_. ''0a'') ''t'' [sample_item\<lparr>sm_ttl_seconds := ttl\<rparr>] = Inr (''t'', [sample_item\<lparr>sm_ttl_seconds := ttl\<rparr>])"
proof -
  have "(sample_item\<lparr>sm_ttl_seconds := ttl\<rparr>)\<lparr>sm_metadata := sm_metadata sample_item\<rparr> = sample_item\<lparr>sm_ttl_seconds := ttl\<rparr>" by simp
  then have "import_item sample_config ''t'' ''0a'' (sample_item\<lparr>sm_ttl_seconds := ttl\<rparr>) = Inr (sample_item\<lparr>sm_ttl_seconds := ttl\<rparr>)"
    using sample_checks(9-11,13) sample_ttl_normalized [OF assms] by (simp add: import_item_def sample_config_def)
  then show ?thesis using sample_checks(1) by (simp add: import_items_def MAX_BATCH_ITEMS_def del: required_tenant_Inr)
qed

lemma late_import:
  "import_batch sample_config 7 (\<lambda>_. ''0a'') None ''t'' [late_item] True empty_connection
   = (Inl StoreOverflow, empty_connection\<lparr>cn_pending := Some (cn_committed empty_connection)\<rparr>)"
proof -
  have fb: "with_profile_metadata (sm_metadata sample_item) ''m'' 1 None = sm_metadata sample_item" by code_simp
  have late: "sm_metadata late_item = sm_metadata sample_item" "sm_embedding late_item = [Fin 1]" "late_item = sample_item\<lparr>sm_ttl_seconds := Some (2 ^ 63 - 1)\<rparr>"
    by (simp_all add: late_item_def sample_item_def)
  obtain row where "import_row sample_config ''t'' 7 late_item = Inr row" "\<not> bindable row"
    using fb sample_checks(9) sample_metadata pack_vector_one
    by (simp add: import_row_def late(1,2) sample_config_def)
       (simp add: bindable_def memory_row_of_def late_item_def sample_item_def effective_expiry_def int64_def Let_def)
  moreover have "import_items sample_config (\<lambda>_. ''0a'') ''t'' [late_item] = Inr (''t'', [late_item])"
    unfolding late(3) by (rule sample_import_items) simp
  ultimately show ?thesis by (simp add: import_batch_def empty_connection_def Let_def)
qed

theorem overflowing_import_loses_writes_witness:
  "\<exists>c1 c2. import_batch sample_config 7 (\<lambda>_. ''0a'') None ''t'' [late_item] True empty_connection = (Inl StoreOverflow, c1)
    \<and> store_memory sample_config 7 ''0a'' False ''t'' sample_item c1 = (Inr ''a'', c2)
    \<and> cn_committed c2 = cn_committed empty_connection
    \<and> import_batch sample_config 8 (\<lambda>_. ''0a'') None ''t'' [sample_item] True c2 = (Inl storage_error, empty_connection)"
proof -
  let ?c1 = "empty_connection\<lparr>cn_pending := Some (cn_committed empty_connection)\<rparr>"
  have "sample_item\<lparr>sm_ttl_seconds := None\<rparr> = sample_item" by (simp add: sample_item_def)
  then have items: "import_items sample_config (\<lambda>_. ''0a'') ''t'' [sample_item] = Inr (''t'', [sample_item])" using sample_import_items [of None] by simp
  have store: "store_memory sample_config 7 ''0a'' False ''t'' sample_item ?c1 = (Inr ''a'', write_records (upsert sample_row) ?c1)"
    using sample_store_row sample_bindable by (simp add: store_memory_def) (simp add: sample_row_def)
  have "cn_pending empty_connection = None" by (simp add: empty_connection_def)
  then show ?thesis
    using overflowing_import_loses_writes [OF _ late_import store items, of 8 None True] late_import store by blast
qed

section \<open>Page tokens\<close>

lemma b64_encode_length: "length (b64_encode s) = 4 * ((length s + 2) div 3)"
proof (induction s rule: b64_encode.induct)
  case (4 a b c s)
  have "(length (a # b # c # s) + 2) div 3 = Suc ((length s + 2) div 3)" using div_add_self2 [of 3 "length s + 2"] by simp
  then show ?case using 4 by simp
qed simp_all

lemma encoded_length: "4 * ((length s + 2) div 3) \<le> length (rstrip_pad (b64_encode s)) + 3"
proof -
  obtain ds where ds: "b64_encode s = ds @ replicate ((4 - length ds mod 4) mod 4) CHR ''=''"
    "\<forall>c \<in> set ds. c \<noteq> CHR ''='' \<and> c \<noteq> CHR ''.'' \<and> isascii c" using b64_encode_padding by blast
  have e: "rstrip_pad (b64_encode s) = ds" unfolding ds(1) using ds(2) by (intro rstrip_pad_append) blast
  have "(4 - length ds mod 4) mod 4 \<le> 3" by (metis less_Suc_eq_le mod_less_divisor numeral_3_eq_3 Suc_numeral semiring_norm(2,8) zero_less_numeral)
  then have "length (b64_encode s) \<le> length ds + 3" using arg_cong [OF ds(1), of length] by simp
  then show ?thesis unfolding e b64_encode_length .
qed

lemma page_token_ascii: "list_all isascii (encode_page_token i t s)"
proof -
  obtain ds where ds: "b64_encode (page_json i t s) = ds @ replicate ((4 - length ds mod 4) mod 4) CHR ''=''"
    "\<forall>c \<in> set ds. c \<noteq> CHR ''='' \<and> c \<noteq> CHR ''.'' \<and> isascii c" using b64_encode_padding by blast
  have "encode_page_token i t s = ds" unfolding encode_page_token_def ds(1) using ds(2) by (intro rstrip_pad_append) blast
  then show ?thesis using ds(2) by (simp add: list_all_iff)
qed

text \<open>Known defect: the token of a page is refused by the next call when its JSON text is longer than 768 bytes, which a
  tenant, a scope and an item identity of the allowed length reach.\<close>

lemma long_page_token_refused: "768 < length (page_json i t s) \<Longrightarrow> decode_page_token (Some (encode_page_token i t s)) t' s' = None"
proof -
  assume "768 < length (page_json i t s)"
  then have "257 \<le> (length (page_json i t s) + 2) div 3" by simp
  then have "1024 < length (encode_page_token i t s)" using encoded_length [of "page_json i t s"] by (simp add: encode_page_token_def)
  then show ?thesis using py_len_ascii [OF page_token_ascii [of i t s]] by (simp add: decode_page_token_def)
qed

end
