(* ===== verification/Memory_Provider_Props.thy ===== *)
theory Memory_Provider_Props
  imports Memory_Provider Memory_Props
begin

text \<open>
  Properties of the memory provider over the wire: every message of the contract reads back, and an item stored through one
  invocation is what a later invocation returns, decoded from the response bytes.  White space stripping keeps texts in UTF-8, so
  that whatever the store accepted can be encoded again.
\<close>

section \<open>Stripped texts stay UTF-8\<close>

lemma utf8_strict_index:
  "utf8_strict s \<longleftrightarrow> utf8_ok s \<and> (\<forall>i. Suc i < length s \<longrightarrow> \<not> (ord (s ! i) = 237 \<and> 160 \<le> ord (s ! Suc i)))"
  unfolding utf8_strict_def by (auto simp: list_all_length nth_tl)

lemma utf8_strict_part:
  assumes "utf8_strict (p @ s @ q)" "utf8_ok s"
  shows "utf8_strict s"
proof -
  have "\<not> (ord (s ! i) = 237 \<and> 160 \<le> ord (s ! Suc i))" if "Suc i < length s" for i
    using assms(1) that unfolding utf8_strict_index by (auto dest!: spec [of _ "length p + i"] simp: nth_append)
  then show ?thesis using assms(2) unfolding utf8_strict_index by blast
qed

lemma utf8_ok_prefix: "utf8_ok (p @ c # q) \<Longrightarrow> \<not> is_continuation c \<Longrightarrow> utf8_ok p"
proof (induction p rule: length_induct)
  case (1 p)
  from "1.prems"(1) show ?case
    by (cases rule: utf8_ok_cases) (use "1.IH" "1.prems"(2) in \<open>auto simp: append_eq_Cons_conv utf8_steps\<close>)
qed

lemma space_prefix_cases [consumes 1]:
  assumes "0 < space_prefix s"
  obtains a r where "s = a # r" "ord a < 128" "space_prefix s = 1"
  | a b r where "s = a # b # r" "ord a = 194" "is_continuation b" "space_prefix s = 2"
  | a b c r where "s = a # b # c # r" "225 \<le> ord a" "ord a \<le> 227" "is_continuation b" "is_continuation c" "space_prefix s = 3"
proof (cases s)
  case (Cons a cs)
  show thesis
  proof (cases "9 \<le> ord a \<and> ord a \<le> 13 \<or> 28 \<le> ord a \<and> ord a \<le> 32")
    case True
    then show thesis using that(1) [of a cs] Cons by (auto simp: Let_def)
  next
    case False
    then obtain b ds where b: "cs = b # ds" using assms Cons by (auto simp only: space_prefix.simps Let_def if_False split: list.splits)
    show thesis
    proof (cases "ord a = 194 \<and> (ord b = 133 \<or> ord b = 160)")
      case True
      then show thesis using that(2) Cons b by (auto simp: is_continuation_def)
    next
      case no: False
      then obtain c r where c: "ds = c # r" using assms Cons b False by (auto simp only: space_prefix.simps Let_def if_False list.case split: list.splits)
      have "(ord a = 225 \<and> ord b = 154 \<and> ord c = 128) \<or> (ord a = 226 \<and> ord b = 128 \<and> (128 \<le> ord c \<and> ord c \<le> 138 \<or> ord c = 168 \<or> ord c = 169 \<or> ord c = 175))
          \<or> (ord a = 226 \<and> ord b = 129 \<and> ord c = 159) \<or> (ord a = 227 \<and> ord b = 128 \<and> ord c = 128)" (is ?three)
        using assms Cons b c False no by (simp only: space_prefix.simps Let_def if_False list.case) (auto split: if_splits)
      then have "space_prefix s = 3" using Cons b c False no by (simp only: space_prefix.simps Let_def if_False list.case if_True)
      with \<open>?three\<close> show thesis using that(3) [of a b c r] Cons b c by (auto simp: is_continuation_def)
    qed
  qed
qed (use assms in simp)

lemma utf8_drop_space:
  assumes "utf8_ok s"
  shows "utf8_ok (drop (space_prefix s) s)"
proof (cases "space_prefix s = 0")
  case False
  then have "0 < space_prefix s" by simp
  then show ?thesis using assms by (cases rule: space_prefix_cases) (auto simp: utf8_steps numeral_2_eq_2 numeral_3_eq_3)
qed (use assms in simp)

lemma utf8_take_space:
  assumes "utf8_ok s"
  shows "utf8_ok (take (length s - space_suffix s) s)"
proof (cases "space_suffix s = 0")
  case False
  let ?d = "drop (length s - space_suffix s) s"
  have "0 < space_prefix ?d" using False by (auto simp: space_suffix_def Let_def split: if_splits)
  then obtain c r where "?d = c # r" "\<not> is_continuation c" by (cases rule: space_prefix_cases) (auto simp: is_continuation_def)
  moreover have "s = take (length s - space_suffix s) s @ ?d" by simp
  ultimately show ?thesis using assms utf8_ok_prefix by metis
qed (use assms in simp)

lemma utf8_lstrip: "utf8_ok s \<Longrightarrow> utf8_ok (lstrip s)"
  by (induction s rule: lstrip.induct) (metis lstrip.simps utf8_drop_space)

lemma utf8_rstrip: "utf8_ok s \<Longrightarrow> utf8_ok (rstrip s)"
  by (induction s rule: rstrip.induct) (metis rstrip.simps utf8_take_space)

lemma lstrip_drop: "\<exists>p. s = p @ lstrip s"
proof (induction s rule: lstrip.induct)
  case (1 s)
  show ?case
  proof (cases "space_prefix s = 0")
    case True
    then show ?thesis by (simp add: lstrip.simps [of s])
  next
    case False
    then obtain p where "drop (space_prefix s) s = p @ lstrip s" using 1 by (auto simp: lstrip.simps [of s])
    then have "s = (take (space_prefix s) s @ p) @ lstrip s" by (metis append_assoc append_take_drop_id)
    then show ?thesis by blast
  qed
qed

lemma utf8_strict_strip:
  assumes "utf8_strict s"
  shows "utf8_strict (strip s)"
proof -
  obtain p q where "s = p @ strip s @ q" using lstrip_drop [of s] rstrip_take [of "lstrip s"] unfolding strip_def by metis
  moreover have "utf8_ok (strip s)" using assms unfolding strip_def utf8_strict_def by (intro utf8_rstrip utf8_lstrip) simp
  ultimately show ?thesis using assms utf8_strict_part by metis
qed

section \<open>Items the store accepted can be encoded\<close>

lemma normalize_item_texts:
  assumes "normalize_item fresh item expected (Some model) (Some dims) (Some provider) = Inr r"
  shows "utf8_strict model" "utf8_strict provider"
proof -
  have "\<exists>d e p. profile_from_metadata d (Some model) = Inr (model, e) \<and> utf8_strict p \<and> provider = strip p"
    using assms unfolding normalize_item_def Let_def
    by (clarsimp simp: bindE_eq_Inr) blast
  then obtain d e p where "profile_from_metadata d (Some model) = Inr (model, e)" "utf8_strict p" "provider = strip p" by blast
  then show "utf8_strict model" "utf8_strict provider"
    by (auto simp: utf8_strict_strip profile_from_metadata_def bindE_eq_Inr split: option.splits)
qed

lemma is_digit_ascii: "c \<in> set (str_of_nat n) \<Longrightarrow> ord c < 128"
  using str_of_nat_digits [of n] by (auto simp: is_digit_def)

lemma distinct_keys_sort: "distinct (map fst (sort_key fst d)) \<longleftrightarrow> distinct (map fst d)"
  by (intro mset_eq_imp_distinct_iff) simp

lemma utf8_digits: "utf8_strict (str_of_int n)"
  by (intro ascii_strict) (auto simp: str_of_int_def list_all_iff isascii_def is_digit_ascii)

lemma with_profile_texts:
  assumes "list_all (\<lambda>(k, v). utf8_strict k \<and> utf8_strict v) d" "utf8_strict m" "utf8_strict p" "p \<noteq> []"
  shows "list_all (\<lambda>(k, v). utf8_strict k \<and> utf8_strict v) (with_profile_metadata d m n (Some p))"
proof -
  have keys: "utf8_strict MODEL_ID_KEY" "utf8_strict DIMENSIONS_KEY" "utf8_strict PROVIDER_MODEL_ID_KEY" by code_simp+
  have upd: "list_all (\<lambda>(k, v). utf8_strict k \<and> utf8_strict v) (AList.update k v e)"
    if "list_all (\<lambda>(k, v). utf8_strict k \<and> utf8_strict v) e" "utf8_strict k" "utf8_strict v" for k v e
    using that by (induction e) auto
  show ?thesis unfolding with_profile_metadata_def Let_def using assms keys utf8_digits by (simp add: upd)
qed

lemma record_from_row_times:
  assumes "record_from_row cfg row d = Inr k"
  shows "sm_created_at_ms k = ro_created_at_ms row" "sm_expires_at_ms k = ro_expires_at_ms row" "sm_ttl_seconds k = ro_ttl_seconds row"
  using assms by (auto simp: record_from_row_def Let_def bindE_eq_Inr)

lemma kept_item_wf:
  assumes "store_row cfg now fresh tn (to_stored item) = Inr row" "bindable row" "item_wf item" "hex_text fresh"
  shows "item_wf (to_contract (kept_item cfg now (strip tn) (ro_item_id row) (to_stored item)))"
proof -
  obtain r where r: "normalize_item fresh (to_stored item) (strip tn) (Some (cf_embedding_model_id cfg)) (Some (cf_embedding_dimensions cfg))
      (Some (cf_provider_model_id cfg)) = Inr r" by (rule store_row_Inr [OF assms(1)])
  have dist: "distinct (map fst (mi_metadata item))" and float: "list_all is_float32 (mi_embedding item)"
    and texts: "list_all (\<lambda>(k, v). utf8_strict k \<and> utf8_strict v) (mi_metadata item)" using assms(3) by (simp_all add: item_wf_def)
  let ?kept = "kept_item cfg now (strip tn) (ro_item_id row) (to_stored item)"
  have "record_from_row cfg row None = Inr ?kept" using store_row_read(1) [OF assms(1)] dist float by (simp add: to_stored_def)
  then have times: "sm_created_at_ms ?kept = ro_created_at_ms row" "sm_expires_at_ms ?kept = ro_expires_at_ms row" "sm_ttl_seconds ?kept = ro_ttl_seconds row"
    by (rule record_from_row_times)+
  have "row_ok cfg row" by (rule store_row_ok(1) [OF assms(1,4)])
  then have ids: "utf8_strict (ro_item_id row)" "utf8_strict (strip tn)"
    using store_row_ok(2) [OF assms(1,4)] by (simp_all add: row_ok_def)
  have "list_all (\<lambda>(k, v). utf8_strict k \<and> utf8_strict v) (with_profile_metadata (mi_metadata item) (cf_embedding_model_id cfg)
      (cf_embedding_dimensions cfg) (Some (cf_provider_model_id cfg)))"
    using normalize_item_texts [OF r] normalize_item_Inr(11) [OF r] texts by (intro with_profile_texts)
  then show ?thesis
    using assms(2,3) ids times distinct_with_profile [OF dist]
    by (simp add: item_wf_def to_contract_def bindable_def) (simp add: kept_item_def to_stored_def list_all_iff distinct_keys_sort)
qed

lemma kept_item_norm [simp]: "item_norm (to_contract (kept_item cfg now t i item)) = to_contract (kept_item cfg now t i item)"
  by (simp add: item_norm_def to_contract_def kept_item_def sort_key_sorted)

section \<open>Invocations over the wire\<close>

lemma error_is_no_value:
  assumes "encode_result enc \<lparr>mr_value = None, mr_error = Some e\<rparr> = Inr b" "length b < 2 ^ 70" "decode_result read b = Inr r"
  shows "mr_value r = None"
proof -
  obtain p where p: "b = encode_fields [(2, WireLen p)]" using assms(1) by (auto simp: encode_result_def bindE_eq_Inr)
  have form: "list_all field_form [(2, WireLen p)]" by simp
  have "decode_result read b = bindE (decode_error p) (\<lambda>e. Inr \<lparr>mr_value = None, mr_error = Some e\<rparr>)"
    unfolding decode_result_def p fold_message [OF form assms(2) [unfolded p]] by (cases "decode_error p") (simp_all add: result_step_def)
  then show ?thesis using assms(3) by (cases "decode_error p") auto
qed

lemma store_answer:
  assumes p: "pv_store p = Some (cfg, c)" and q: "store_wf q" "mi_embedding (st_item q) \<noteq> []" "encode_store_request q = Inr payload" "length payload < 2 ^ 70"
    and run: "memory_on_invoke env CAPABILITY_ID ''store'' payload (Some (REQUEST_TYPE_URLS Store)) False p = (Answered b url, p')"
    and ans: "length b < 2 ^ 70" "decode_store_response b = Inr \<lparr>mr_value = Some i, mr_error = None\<rparr>" and fresh: "hex_text (en_fresh (iv_call env) 0)"
  obtains c' where "store_memory cfg (en_now (iv_call env)) (en_fresh (iv_call env) 0) False (st_tenant_id q) (to_stored (item_norm (st_item q))) c = (Inr i, c')"
    "pv_store p' = Some (cfg, c')"
proof -
  let ?item = "to_stored (item_norm (st_item q))"
  let ?fault = "en_fault (iv_call env) \<noteq> None"
  obtain r c' where st: "store_memory cfg (en_now (iv_call env)) (en_fresh (iv_call env) 0) ?fault (st_tenant_id q) ?item c = (r, c')" by force
  have dec: "decode_store_request payload = Inr (store_norm q)" using store_request.read q by blast
  have call: "request_call env Store payload p = (Inr (StoreCall (st_tenant_id q) ?item), p)"
    using q(2) by (simp add: request_call_def dec store_norm_def item_norm_def)
  have disp: "memory_dispatch env Store payload p =
      and_then (failing StoreFailure (result_as ItemStored r), p\<lparr>pv_store := Some (cfg, c')\<rparr>) (\<lambda>r p. (Inr (result_reply r), p))"
    by (simp add: memory_dispatch_def call run_store_def require_store_def p run_call_def st del: not_None_eq)
  show thesis
  proof (cases r)
    case (Inl e)
    then have "handle env Store (StoreFailure e) = Answered b url"
      using run by (simp add: memory_on_invoke_def disp result_as_def split: if_splits)
    then have "encode_store_response \<lparr>mr_value = None, mr_error = Some (error_of env (StoreFailure e))\<rparr> = Inr b"
      by (auto simp: handle_def memory_error_result_def error_reply_def split: if_splits sum.splits)
    then show thesis using error_is_no_value ans unfolding encode_store_response_def decode_store_response_def by fastforce
  next
    case (Inr i')
    then have enc: "encode_store_response \<lparr>mr_value = Some i', mr_error = None\<rparr> = Inr b" and p': "p' = p\<lparr>pv_store := Some (cfg, c')\<rparr>"
      using run by (auto simp: memory_on_invoke_def disp result_as_def result_reply_def handle_def memory_error_result_def encode_store_response_def encode_result_def split: if_splits sum.splits)
    obtain row where row: "store_row cfg (en_now (iv_call env)) (en_fresh (iv_call env) 0) (st_tenant_id q) ?item = Inr row" "i' = ro_item_id row" "\<not> ?fault"
      using st Inr by (auto simp: store_memory_def split: sum.splits if_splits)
    have "utf8_strict i'" using store_row_ok(1) [OF row(1) fresh] row(2) by (simp add: row_ok_def)
    then have "decode_store_response b = Inr \<lparr>mr_value = Some i', mr_error = None\<rparr>"
      using store_response.read [of "\<lparr>mr_value = Some i', mr_error = None\<rparr>" b] enc ans(1)
      by (simp add: encode_store_response_def decode_store_response_def response_wf_def)
    then show thesis using that [of c'] st Inr row(3) ans(2) p' by simp
  qed
qed

lemma get_answer:
  assumes "pv_store p = Some (cfg, c)" "get_memory cfg (en_now (iv_call env)) False tn i c = Inr (Some item)" "item_wf (to_contract item)"
    "utf8_strict tn" "utf8_strict i" "length (encode_get_request \<lparr>gt_tenant_id = tn, gt_item_id = i\<rparr>) < 2 ^ 70"
    "en_fault (iv_call env) = None" "\<And>n. \<not> iv_cancelled env n"
  obtains b where "memory_on_invoke env CAPABILITY_ID ''get'' (encode_get_request \<lparr>gt_tenant_id = tn, gt_item_id = i\<rparr>) (Some (REQUEST_TYPE_URLS Get)) False p
      = (Answered b (RESPONSE_TYPE_URLS Get), p)"
    "length b < 2 ^ 70 \<Longrightarrow> decode_get_response b = Inr \<lparr>mr_value = Some (item_norm (to_contract item)), mr_error = None\<rparr>"
proof -
  let ?q = "\<lparr>gt_tenant_id = tn, gt_item_id = i\<rparr>" let ?r = "\<lparr>mr_value = Some (to_contract item), mr_error = None\<rparr>"
  have dec: "decode_get_request (encode_get_request ?q) = Inr ?q" using get_request.read [of ?q] assms(4-6) by (simp add: get_wf_def)
  have "response_wf item_wf ?r" using assms(3) by (simp add: response_wf_def)
  then obtain b where b: "encode_get_response ?r = Inr b" "length b < 2 ^ 70 \<Longrightarrow> decode_get_response b = Inr (response_norm item_norm ?r)"
    using get_response.round_trip [of ?r] unfolding encode_get_response_def decode_get_response_def by blast
  have "memory_dispatch env Get (encode_get_request ?q) p = (Inr (GetReply ?r), p)"
    using assms(1,2,7)
    by (simp add: memory_dispatch_def request_call_def dec run_store_def require_store_def run_call_def result_as_def result_reply_def)
  then show thesis using that [of b] b assms(8) by (simp add: memory_on_invoke_def response_norm_def)
qed

lemma wire_store_get_holds:
  assumes "pv_store p = Some (cfg, c)" "connection_ok cfg c" "store_wf q" "mi_embedding (st_item q) \<noteq> []"
    "encode_store_request q = Inr payload" "length payload < 2 ^ 70"
    "memory_on_invoke env CAPABILITY_ID ''store'' payload (Some (REQUEST_TYPE_URLS Store)) False p = (Answered b url, p')"
    "length b < 2 ^ 70" "decode_store_response b = Inr \<lparr>mr_value = Some i, mr_error = None\<rparr>" "hex_text (en_fresh (iv_call env) 0)"
    and later: "en_fault (iv_call later) = None" "\<And>n. \<not> iv_cancelled later n"
      "case expiry_time (en_now (iv_call env)) (to_stored (item_norm (st_item q))) of None \<Rightarrow> True | Some e \<Rightarrow> en_now (iv_call later) < e"
      "length (encode_get_request \<lparr>gt_tenant_id = st_tenant_id q, gt_item_id = i\<rparr>) < 2 ^ 70"
  shows "\<exists>b'. memory_on_invoke later CAPABILITY_ID ''get'' (encode_get_request \<lparr>gt_tenant_id = st_tenant_id q, gt_item_id = i\<rparr>)
      (Some (REQUEST_TYPE_URLS Get)) False p' = (Answered b' (RESPONSE_TYPE_URLS Get), p')
    \<and> (length b' < 2 ^ 70 \<longrightarrow> decode_get_response b' = Inr \<lparr>mr_value = Some (to_contract
        (kept_item cfg (en_now (iv_call env)) (strip (st_tenant_id q)) i (to_stored (item_norm (st_item q))))), mr_error = None\<rparr>)"
proof -
  let ?item = "to_stored (item_norm (st_item q))" let ?now = "en_now (iv_call env)"
  obtain c' where c': "store_memory cfg ?now (en_fresh (iv_call env) 0) False (st_tenant_id q) ?item c = (Inr i, c')" "pv_store p' = Some (cfg, c')"
    using assms(1,3-10) by (rule store_answer)
  have wf: "item_wf (item_norm (st_item q))"
    using assms(3) by (simp add: store_wf_def item_wf_def item_norm_def distinct_keys_sort list_all_iff)
  obtain row where row: "store_row cfg ?now (en_fresh (iv_call env) 0) (st_tenant_id q) ?item = Inr row" "i = ro_item_id row" "bindable row"
    using c'(1) by (auto simp: store_memory_def split: sum.splits if_splits)
  have get: "get_memory cfg (en_now (iv_call later)) False (st_tenant_id q) i c' = Inr (Some (kept_item cfg ?now (strip (st_tenant_id q)) i ?item))"
    using store_get_holds [OF assms(2) c'(1) assms(10)] wf later(3) by (simp add: to_stored_def item_wf_def)
  have "utf8_strict i" using store_row_ok(1) [OF row(1) assms(10)] row(2) by (simp add: row_ok_def)
  then obtain b' where "memory_on_invoke later CAPABILITY_ID ''get'' (encode_get_request \<lparr>gt_tenant_id = st_tenant_id q, gt_item_id = i\<rparr>)
      (Some (REQUEST_TYPE_URLS Get)) False p' = (Answered b' (RESPONSE_TYPE_URLS Get), p')"
    "length b' < 2 ^ 70 \<Longrightarrow> decode_get_response b' = Inr \<lparr>mr_value = Some (item_norm (to_contract
        (kept_item cfg ?now (strip (st_tenant_id q)) i ?item))), mr_error = None\<rparr>"
    using get_answer [OF c'(2) get _ _ _ later(4,1,2)] kept_item_wf [OF row(1,3) wf assms(10)] row(2) assms(3) by (metis store_wf_def)
  then show ?thesis by auto
qed

section \<open>Properties\<close>

definition sample_bytes :: bytes where
  "sample_bytes =
    encode_string_field 1 ''a'' @ encode_string_field 2 ''t'' @ encode_string_field 3 ''s'' @ encode_string_field 5 ''text''
    @ encode_len_delimited 6 (word_bytes 1065353216) @ encode_map 7 (sm_metadata sample_item) @ encode_tag 8 0 @ varint_bytes (int64_mask 5)"

lemma sample_bytes_length: "length sample_bytes < 1000"
proof -
  have five: "int64_mask 5 = 5" by (simp add: int64_mask_def)
  have "length (word_bytes 1065353216) = 4" by (simp add: word_bytes_def)
  moreover have "length (encode_tag 6 2) = 1" "length (varint_bytes 4) = 1" by code_simp+
  ultimately have "length (encode_len_delimited 6 (word_bytes 1065353216)) = 6" unfolding encode_len_delimited_def by simp
  moreover have "length (encode_string_field 1 ''a'' @ encode_string_field 2 ''t'' @ encode_string_field 3 ''s'' @ encode_string_field 5 ''text''
    @ encode_map 7 (sm_metadata sample_item) @ encode_tag 8 0 @ varint_bytes 5) < 500" by code_simp
  ultimately show ?thesis unfolding sample_bytes_def five by (simp only: length_append)
qed

lemma sample_encoded: "encode_memory_item (to_contract sample_item) = Inr sample_bytes"
  using pack_one(1)
  by (simp add: encode_memory_item_def encode_packed_floats_def to_contract_def sample_item_def sample_bytes_def del: encode_as_fields)
     (simp add: encode_string_field_def encode_optional_int_def del: encode_as_fields)

definition sample_request :: store_memory_request where
  "sample_request = \<lparr>st_tenant_id = ''t'', st_item = to_contract sample_item\<rparr>"

lemma sample_request_wf: "store_wf sample_request"
proof -
  have "list_all (\<lambda>(k, v). utf8_strict k \<and> utf8_strict v) (sm_metadata sample_item)" by code_simp
  moreover have "utf8_strict ''t''" "utf8_strict ''a''" by code_simp+
  ultimately show ?thesis
    using sample_checks pack_one(2) by (simp add: sample_request_def store_wf_def item_wf_def to_contract_def) (simp add: sample_item_def int64_def)
qed

lemma sample_sorted: "item_norm (to_contract sample_item) = to_contract sample_item" "to_stored (to_contract sample_item) = sample_item"
proof -
  have "sort_key fst (sm_metadata sample_item) = sm_metadata sample_item" by code_simp
  then show "item_norm (to_contract sample_item) = to_contract sample_item" by (simp add: item_norm_def to_contract_def)
qed (simp add: to_contract_def to_stored_def)

lemma sample_kept: "kept_item sample_config 7 ''t'' ''a'' sample_item = sample_item"
proof -
  have "sort_key fst (with_profile_metadata (sm_metadata sample_item) ''m'' 1 (Some ''m'')) = sm_metadata sample_item" by code_simp
  then show ?thesis by (simp add: kept_item_def sample_config_def created_time_def expiry_time_def) (simp add: sample_item_def effective_expiry_def)
qed

lemma field_length: "length (encode_len_delimited n p) = length (encode_tag n 2) + length (varint_bytes (length p)) + length p"
  unfolding encode_len_delimited_def by simp

lemma varint_short: "n < 128 ^ Suc k \<Longrightarrow> length (varint_bytes n) \<le> Suc k"
proof (induction k arbitrary: n)
  case 0
  then show ?case by (simp add: varint_bytes.simps [of n])
next
  case (Suc k)
  then have "n div 128 < 128 ^ Suc k" by (simp add: div_less_iff_less_mult mult.commute)
  then show ?case using Suc.IH [of "n div 128"] by (simp add: varint_bytes.simps [of n])
qed

lemma sample_field_length: "n \<in> {1, 2} \<Longrightarrow> length (encode_len_delimited n sample_bytes) < 2000"
proof -
  assume "n \<in> {1, 2}"
  then have "length (encode_tag n 2) \<le> 1" using varint_short [of "n * 8 + 2" 0] by (auto simp: encode_tag_def)
  moreover have "length (varint_bytes (length sample_bytes)) \<le> 2" using varint_short [of "length sample_bytes" 1] sample_bytes_length by simp
  ultimately show ?thesis using sample_bytes_length unfolding field_length by linarith
qed

lemma sample_store_payload:
  obtains payload where "encode_store_request sample_request = Inr payload" "length payload < 2 ^ 70"
proof -
  have "length (encode_string_field 1 ''t'') = 3" by code_simp
  then show thesis
    using that sample_field_length [of 2] sample_encoded
    by (simp add: encode_store_request_def sample_request_def del: encode_as_fields)
qed

lemma sample_reply: "encode_get_response \<lparr>mr_value = Some (to_contract sample_item), mr_error = None\<rparr> = Inr (encode_len_delimited 1 sample_bytes)"
  using sample_encoded by (simp add: encode_get_response_def encode_result_def del: encode_as_fields)

text \<open>C40.  Every message of the memory contract reads back: a request or a response whose texts are UTF-8, whose vectors hold binary32
  numbers and whose integers fit their fields is encoded by the codec of its method, and decoding the bytes returns it, with dictionaries in
  key order.\<close>

theorem memory_messages_read_back:
  "(request_wf q \<longrightarrow> (\<exists>b. encode_request (request_action q) q = Inr b
      \<and> (length b < 2 ^ 70 \<longrightarrow> decode_request (request_action q) b = Inr (request_norm q))))
   \<and> (reply_wf r \<and> validate_reply r = Inr () \<longrightarrow> (\<exists>b. encode_response (reply_action r) r = Inr b
      \<and> (length b < 2 ^ 70 \<longrightarrow> decode_response (reply_action r) b = Inr (reply_norm r))))"
  using requests.round_trip [of q "request_action q"] replies.round_trip [of r "reply_action r"] by blast

theorem memory_messages_read_back_witness:
  "\<exists>b b'. encode_request ''store'' (StoreRequest sample_request) = Inr b \<and> decode_request ''store'' b = Inr (StoreRequest sample_request)
    \<and> encode_response ''get'' (GetReply \<lparr>mr_value = Some (to_contract sample_item), mr_error = None\<rparr>) = Inr b'
    \<and> decode_response ''get'' b' = Inr (GetReply \<lparr>mr_value = Some (to_contract sample_item), mr_error = None\<rparr>)"
proof -
  let ?q = "StoreRequest sample_request" let ?r = "GetReply \<lparr>mr_value = Some (to_contract sample_item), mr_error = None\<rparr>"
  have wf: "request_wf ?q" "reply_wf ?r \<and> validate_reply ?r = Inr ()"
    using sample_request_wf by (simp_all add: sample_request_def store_wf_def response_wf_def validate_response_def)
  have norm: "request_norm ?q = ?q" "reply_norm ?r = ?r"
    using sample_sorted(1) by (simp_all add: store_norm_def sample_request_def response_norm_def)
  obtain payload where payload: "encode_request ''store'' ?q = Inr payload" "length payload < 2 ^ 70"
    by (rule sample_store_payload) (simp add: encode_request_def)
  have "encode_response ''get'' ?r = Inr (encode_len_delimited 1 sample_bytes)"
    using wf(2) sample_reply by (simp add: encode_response_def del: encode_as_fields)
  moreover have "length (encode_len_delimited 1 sample_bytes) < 2 ^ 70" using sample_field_length [of 1] by simp
  ultimately show ?thesis using memory_messages_read_back [of ?q ?r] payload wf norm by auto
qed

text \<open>C39.  Storing over the wire: when the provider answered an encoded store request with an identity, a later get request for
  that identity is answered, until the item expires, with a response that decodes to the item as it was sent, under the stripped tenant and the
  returned identity, with the active vector profile in its metadata and the effective creation and expiry times.\<close>

theorem memory_wire_store_get:
  assumes "pv_store p = Some (cfg, c)" "connection_ok cfg c" "store_wf q" "mi_embedding (st_item q) \<noteq> []"
    "encode_store_request q = Inr payload" "length payload < 2 ^ 70"
    "memory_on_invoke env CAPABILITY_ID ''store'' payload (Some (REQUEST_TYPE_URLS Store)) False p = (Answered b url, p')"
    "length b < 2 ^ 70" "decode_store_response b = Inr \<lparr>mr_value = Some i, mr_error = None\<rparr>" "hex_text (en_fresh (iv_call env) 0)"
    "en_fault (iv_call later) = None" "\<And>n. \<not> iv_cancelled later n"
    "case expiry_time (en_now (iv_call env)) (to_stored (item_norm (st_item q))) of None \<Rightarrow> True | Some e \<Rightarrow> en_now (iv_call later) < e"
    "length (encode_get_request \<lparr>gt_tenant_id = st_tenant_id q, gt_item_id = i\<rparr>) < 2 ^ 70"
  shows "\<exists>b'. memory_on_invoke later CAPABILITY_ID ''get'' (encode_get_request \<lparr>gt_tenant_id = st_tenant_id q, gt_item_id = i\<rparr>)
      (Some (REQUEST_TYPE_URLS Get)) False p' = (Answered b' (RESPONSE_TYPE_URLS Get), p')
    \<and> (length b' < 2 ^ 70 \<longrightarrow> decode_get_response b' = Inr \<lparr>mr_value = Some (to_contract
        (kept_item cfg (en_now (iv_call env)) (strip (st_tenant_id q)) i (to_stored (item_norm (st_item q))))), mr_error = None\<rparr>)"
  by (rule wire_store_get_holds) (fact assms)+

definition sample_invoke :: invoke_env where
  "sample_invoke = \<lparr>iv_settings = None, iv_cancelled = (\<lambda>_. False), iv_embed_cancelled = (\<lambda>_. False), iv_model = (\<lambda>_. NoEmbeddings),
     iv_open_fault = False, iv_call = sample_env, iv_ops = exact_ops, iv_message = (\<lambda>_. [])\<rparr>"

definition sample_provider :: "memory_connection \<Rightarrow> memory_provider" where
  "sample_provider c = \<lparr>pv_settings = None, pv_store = Some (sample_config, c), pv_client = None, pv_file = cn_committed c\<rparr>"

definition stored_provider :: memory_provider where
  "stored_provider = (sample_provider empty_connection)\<lparr>pv_store := Some (sample_config, sample_connection)\<rparr>"

lemma sample_get: "get_memory sample_config 7 False ''t'' ''a'' sample_connection = Inr (Some sample_item)"
proof -
  have "distinct (map fst (sm_metadata sample_item))" "list_all is_float32 (sm_embedding sample_item)" "expiry_time 7 sample_item = None" "strip ''t'' = ''t''"
    using sample_checks(1) by (simp_all add: sample_item_def pack_one(2) expiry_time_def effective_expiry_def)
  then show ?thesis using store_get_holds [OF empty_connection_ok(1) sample_store hex_sample, of 7] sample_kept by simp
qed

lemma sample_get_request:
  "length (encode_get_request \<lparr>gt_tenant_id = ''t'', gt_item_id = ''a''\<rparr>) < 2 ^ 70"
  "decode_get_request (encode_get_request \<lparr>gt_tenant_id = ''t'', gt_item_id = ''a''\<rparr>) = Inr \<lparr>gt_tenant_id = ''t'', gt_item_id = ''a''\<rparr>"
proof -
  have "length (encode_get_request \<lparr>gt_tenant_id = ''t'', gt_item_id = ''a''\<rparr>) = 6" by code_simp
  then show short: "length (encode_get_request \<lparr>gt_tenant_id = ''t'', gt_item_id = ''a''\<rparr>) < 2 ^ 70" by simp
  have "get_wf \<lparr>gt_tenant_id = ''t'', gt_item_id = ''a''\<rparr>" by code_simp
  then show "decode_get_request (encode_get_request \<lparr>gt_tenant_id = ''t'', gt_item_id = ''a''\<rparr>) = Inr \<lparr>gt_tenant_id = ''t'', gt_item_id = ''a''\<rparr>"
    using get_request.read short by blast
qed

lemma sample_invocations:
  "memory_on_invoke sample_invoke CAPABILITY_ID ''get'' (encode_get_request \<lparr>gt_tenant_id = ''t'', gt_item_id = ''a''\<rparr>)
     (Some (REQUEST_TYPE_URLS Get)) False stored_provider = (Answered (encode_len_delimited 1 sample_bytes) (RESPONSE_TYPE_URLS Get), stored_provider)"
  "encode_store_request sample_request = Inr payload \<Longrightarrow> length payload < 2 ^ 70 \<Longrightarrow>
   memory_on_invoke sample_invoke CAPABILITY_ID ''store'' payload (Some (REQUEST_TYPE_URLS Store)) False (sample_provider empty_connection)
     = (Answered (encode_len_delimited 1 ''a'') (RESPONSE_TYPE_URLS Store), stored_provider)"
proof -
  have st: "stored_provider\<lparr>pv_store := Some (sample_config, sample_connection)\<rparr> = stored_provider" "pv_store stored_provider = Some (sample_config, sample_connection)"
    by (simp_all add: stored_provider_def)
  show "memory_on_invoke sample_invoke CAPABILITY_ID ''get'' (encode_get_request \<lparr>gt_tenant_id = ''t'', gt_item_id = ''a''\<rparr>)
     (Some (REQUEST_TYPE_URLS Get)) False stored_provider = (Answered (encode_len_delimited 1 sample_bytes) (RESPONSE_TYPE_URLS Get), stored_provider)"
    using sample_get_request(2) sample_get sample_reply st
    by (simp add: memory_on_invoke_def memory_dispatch_def request_call_def run_store_def require_store_def run_call_def sample_invoke_def
        sample_env_def result_as_def result_reply_def del: encode_as_fields)
  assume q: "encode_store_request sample_request = Inr payload" "length payload < 2 ^ 70"
  have "decode_store_request payload = Inr sample_request"
    using store_request.read [OF sample_request_wf q] sample_sorted(1) by (simp add: store_norm_def sample_request_def)
  moreover have "mi_embedding (st_item sample_request) \<noteq> []" by (simp add: sample_request_def to_contract_def sample_item_def)
  moreover have "st_tenant_id sample_request = ''t''" "to_stored (st_item sample_request) = sample_item"
    using sample_sorted(2) by (simp_all add: sample_request_def)
  ultimately show "memory_on_invoke sample_invoke CAPABILITY_ID ''store'' payload (Some (REQUEST_TYPE_URLS Store)) False (sample_provider empty_connection)
     = (Answered (encode_len_delimited 1 ''a'') (RESPONSE_TYPE_URLS Store), stored_provider)"
    using sample_store
    by (simp add: memory_on_invoke_def memory_dispatch_def request_call_def run_store_def require_store_def run_call_def sample_invoke_def
        sample_env_def result_as_def result_reply_def sample_provider_def stored_provider_def encode_store_response_def encode_result_def
        encode_optional_string_def del: encode_as_fields)
qed

theorem memory_wire_store_get_witness:
  "\<exists>b. memory_on_invoke sample_invoke CAPABILITY_ID ''get'' (encode_get_request \<lparr>gt_tenant_id = ''t'', gt_item_id = ''a''\<rparr>)
      (Some (REQUEST_TYPE_URLS Get)) False stored_provider = (Answered b (RESPONSE_TYPE_URLS Get), stored_provider)
    \<and> decode_get_response b = Inr \<lparr>mr_value = Some (to_contract sample_item), mr_error = None\<rparr>"
proof -
  obtain payload where payload: "encode_store_request sample_request = Inr payload" "length payload < 2 ^ 70" by (rule sample_store_payload)
  have b: "length (encode_len_delimited 1 ''a'') < 2 ^ 70" "decode_store_response (encode_len_delimited 1 ''a'') = Inr \<lparr>mr_value = Some ''a'', mr_error = None\<rparr>"
  proof -
    have "length (encode_len_delimited 1 ''a'') = 3" by code_simp
    then show short: "length (encode_len_delimited 1 ''a'') < 2 ^ 70" by simp
    have "utf8_strict ''a''" by code_simp
    then show "decode_store_response (encode_len_delimited 1 ''a'') = Inr \<lparr>mr_value = Some ''a'', mr_error = None\<rparr>"
      using store_response.read [of "\<lparr>mr_value = Some ''a'', mr_error = None\<rparr>" "encode_len_delimited 1 ''a''"] short
      by (simp add: decode_store_response_def encode_result_def encode_optional_string_def response_wf_def del: encode_as_fields)
  qed
  have q: "st_tenant_id sample_request = ''t''" "to_stored (item_norm (st_item sample_request)) = sample_item" "mi_embedding (st_item sample_request) \<noteq> []"
    using sample_sorted by (simp_all add: sample_request_def) (simp add: to_contract_def sample_item_def)
  have env: "hex_text (en_fresh (iv_call sample_invoke) 0)" "en_fault (iv_call sample_invoke) = None" "\<not> iv_cancelled sample_invoke n"
    "en_now (iv_call sample_invoke) = 7" for n using hex_sample by (simp_all add: sample_invoke_def sample_env_def)
  have time: "expiry_time 7 sample_item = None" by (simp add: expiry_time_def sample_item_def effective_expiry_def)
  have pv: "pv_store (sample_provider empty_connection) = Some (sample_config, empty_connection)" by (simp add: sample_provider_def)
  obtain b' where b': "memory_on_invoke sample_invoke CAPABILITY_ID ''get'' (encode_get_request \<lparr>gt_tenant_id = ''t'', gt_item_id = ''a''\<rparr>)
      (Some (REQUEST_TYPE_URLS Get)) False stored_provider = (Answered b' (RESPONSE_TYPE_URLS Get), stored_provider)"
    "length b' < 2 ^ 70 \<longrightarrow> decode_get_response b' = Inr \<lparr>mr_value = Some (to_contract (kept_item sample_config 7 (strip ''t'') ''a'' sample_item)), mr_error = None\<rparr>"
    using memory_wire_store_get [OF pv empty_connection_ok(1) sample_request_wf q(3) payload sample_invocations(2) [OF payload] b env(1,2,3)]
      q(1,2) env(4) time sample_get_request(1) by auto
  have "strip ''t'' = ''t''" using sample_checks(1) by simp
  moreover have "b' = encode_len_delimited 1 sample_bytes" using b'(1) sample_invocations(1) by simp
  moreover have "length (encode_len_delimited 1 sample_bytes) < 2 ^ 70" using sample_field_length [of 1] by simp
  ultimately show ?thesis using b' sample_kept by (simp del: encode_as_fields)
qed

end
