(* ===== verification/Spec2Isabelle.thy ===== *)
theory Spec2Isabelle
  imports Delivery_Ingress Email_Send_Props Cloud_Provider Bilibili_Provider Memory_Provider_Props
begin

text \<open>
  \<^bold>\<open>Verification of the Cyrene official plugins.\<close>

  The repository holds plugins that a host process calls over RPC, and the Python SDK packages they share.  This development
  models the plugins whose correctness is a matter of durable state: messages that must not be lost, external effects that
  must not happen twice, records that must not leak between tenants, and the signed contexts and wire formats in between.
  Five groups of theories model five groups of parts; the definitions keep the names of the code.

  \<^bold>\<open>Conventions\<close> (\<open>Cyrene_Prelude\<close>).  A function that may raise yields \<open>'e + 'a\<close> with its exception as \<open>Inl\<close>; \<open>bindE\<close>, \<open>foldE\<close> and \<open>mapE\<close>
  compose them.  A dynamically typed value is a \<open>pyval\<close>; a text is the list of its UTF-8 bytes, so that \<open>len(s.encode())\<close> is \<open>length\<close>,
  and \<open>strip\<close> knows the white space of Python in UTF-8.  A float is an exact rational, an infinity or not-a-number; rounding is a
  parameter wherever it can be seen.  A SQLite table is the list of its rows in insertion order, and a transaction is a function on
  it.  Clocks, random tokens, failing statements and the answers of other systems are arguments, so that a theorem holds for every
  behaviour of the environment it names.  \<open>Sha256\<close> defines SHA-256 and HMAC by computation; collision freedom is never assumed, a
  property that needs it names the two inputs.  \<open>Json_Reader\<close>, \<open>Json_Ascii\<close> and \<open>Base64\<close> define the parts of Python's standard library
  that the code reads its own data with, and show that they read back what was written.

  \<^bold>\<open>Teams durable delivery\<close> (\<open>src/plugins/connectors/teams\<close>).
    \<^item> \<open>Delivery_Identity\<close>: stable delivery ids, thread keys, retry delays and guards of \<open>delivery_spool.py\<close> and \<open>navigator.py\<close>.
    \<^item> \<open>Delivery_Spool\<close>: class \<open>DeliverySpool\<close>, every transaction of the SQLite queue; its state is the record \<open>spool\<close>.
    \<^item> \<open>Delivery_Spool_Inv\<close>, \<open>Delivery_Spool_Steps\<close>, \<open>Delivery_Spool_Runs\<close>: the invariant, each operation as a step, and what a
      sequence of steps does to one row.  \<open>Delivery_Spool_Props\<close>: no acknowledged body is lost, stale leases are fenced, leases
      exclude each other, threads keep their order, a pause holds, duplicates are recognized.
    \<^item> \<open>Delivery_Worker\<close>: the Navigator client and \<open>NavigatorDeliveryWorker\<close>.  The locale \<open>lease_queue\<close> is what the worker
      relies on, the queue is its interpretation.  \<open>Delivery_Worker_Props\<close>: what an answer does to a message, that the loop drains the
      queue, that a drained pause leaves nothing in flight, and that draining pauses end in time.
    \<^item> \<open>Delivery_Ingress\<close>: \<open>forward_event\<close> and the administration routes of \<open>ingress.py\<close>; an acknowledgement is durable.

  \<^bold>\<open>Signed contexts and contract codecs\<close> (\<open>src/sdk/python/cyrene_integration_contracts\<close>).
    \<^item> \<open>Caller_Context\<close>, \<open>Caller_Context_Props\<close>: canonical JSON, time stamps, signing and verification; what is signed verifies, and
      what verifies was signed for exactly this tool, payload and scope, in its time window.
    \<^item> \<open>Contract_Codecs\<close>: all DTOs with their parse and serialize functions; the locale \<open>wire_codec\<close> has one interpretation each.

  \<^bold>\<open>Connectors with external effects\<close>.  \<open>Effect_Ledger\<close> is the contract they share: the locale \<open>effect_ledger\<close> says what a ledger
  promises when it grants, releases and settles a request, and proves once that in every interleaving of calls and crashes no key has
  two effects.  Three ledgers are interpretations.
    \<^item> Email (\<open>src/plugins/connectors/email-notification\<close>): \<open>Email_Ledger\<close> (\<open>ledger.py\<close>), \<open>Email_Smtp\<close> (\<open>smtp_transport.py\<close>),
      \<open>Email_Send\<close> (\<open>plugin.py\<close>), \<open>Email_Send_Props\<close>.
    \<^item> Cloud management (\<open>src/plugins/providers/cloud-management\<close>): \<open>Cloud_Ledger\<close> and \<open>Cloud_Ledger_Props\<close> (\<open>ledger.py\<close>),
      \<open>Cloud_Operations\<close> (\<open>operations.py\<close>), \<open>Cloud_Executor\<close> (\<open>CloudManagementExecutor.call\<close> of \<open>providers.py\<close>), \<open>Cloud_Provider\<close> (\<open>plugin.py\<close>).
    \<^item> Bilibili (\<open>src/plugins/connectors/bilibili\<close>): \<open>Bilibili_Receipts\<close> and \<open>Bilibili_Receipts_Props\<close> (\<open>receipts.py\<close>),
      \<open>Bilibili_Provider\<close> (\<open>plugin.py\<close>, \<open>trust.py\<close>).

  \<^bold>\<open>Memory contract\<close> (\<open>src/sdk/python/cyrene_memory_provider_contracts\<close>).
    \<^item> \<open>Proto_Wire\<close>: \<open>_wire.py\<close>, the hand-written Protobuf wire format byte for byte, with binary32 packing as round-half-even.
    \<^item> \<open>Memory_Contract\<close>: the DTOs of \<open>memory.py\<close> and the codec of every request and response.  \<open>Memory_Messages\<close>: its method table.
    \<^item> \<open>Memory_Codecs\<close>: messages read back.  The locale \<open>message_codec\<close> has an interpretation for each message, \<open>result_codec\<close> gives
      those of the responses from the codecs of their values.

  \<^bold>\<open>Memory store and provider\<close> (\<open>src/plugins/providers/memory-sqlite\<close>).
    \<^item> \<open>Page_Token\<close>, \<open>Memory_Store\<close>: \<open>store.py\<close>, with the open transaction that an uncaught exception leaves behind.
    \<^item> \<open>Memory_Store_Inv\<close>, \<open>Memory_Store_Props\<close>: rows stay readable under every operation.
    \<^item> \<open>Memory_Calls\<close>: the seven operations as one system of calls; the locale \<open>separated_owners\<close> proves noninterference from
      the unwinding conditions, the tenants of the store are its interpretation.
    \<^item> \<open>Memory_Recall\<close>: the streaming scan against the reference that sorts everything; the locale \<open>bounded_heap\<close> is interpreted for the
      heap of \<open>recall\<close>.  \<open>Memory_Table\<close>: the table as a map, and the pages of an export.  \<open>Memory_Props\<close>: the properties.
    \<^item> \<open>Memory_Provider\<close>, \<open>Memory_Provider_Props\<close>: \<open>plugin.py\<close> and the checks of \<open>embedding.py\<close>; from request bytes to response bytes.

  \<^bold>\<open>Bounds.\<close>  The JSON reader recurses on \<open>read_bound\<close>, twice the length of the text and two more; a larger bound never changes a result
  (\<open>scan_bound\<close>).  A varint has at most ten bytes, so messages shorter than 2 to the power 70 bytes are read back; longer ones exist only in
  the model.  \<open>collect_pages\<close>, a client that follows page tokens, takes as fuel any number above the number of rows; \<open>worker_run\<close> takes the
  rounds of the worker loop as a list, and as many working rounds as there are messages drain the queue.  \<open>drain_loop\<close> takes its passes as a list
  too: each pass waits on the monotonic clock at least a hundredth of a second or until the deadline, so \<open>100 * (lease + grace) + 1\<close> passes are enough for it to return.

  \<^bold>\<open>Defects the model shows.\<close>  A cloud write is answered with the receipt of another tool that used its request id
  (\<open>cloud_receipt_ignores_tool\<close>); a memory import that overflows leaves its transaction open and later writes are lost
  (\<open>overflowing_import_loses_writes\<close>); page tokens can be longer than the store reads (\<open>long_page_token_refused\<close>).

  \<^bold>\<open>Not modelled.\<close>  Third-party code and services are parameters: \<open>jsonschema\<close>, the RFC 8785 encoder, \<open>smtplib\<close>, httpx, the Protobuf
  runtime, SQLite's query plans, vendor APIs, Account Center as its callers see it.  File permissions, pragmas, threads and locks, process
  start and environment reading are left out; the locks of the code make each modelled transaction one step.  Account Center, the Microsoft
  Graph, GitHub, Azure DevOps and Hugging Face providers, the IM, OneBot and WeCom connectors, the dataset, training, media and web
  tools, the knowledge providers and the release tooling are not part of the development: they are clients of remote services, process launchers and
  file transformations whose substance is in code this model could only take as parameters, or large stateful components left for
  later (Account Center first).
\<close>

end
